(* ===== verification/Hidumper_Prelude.thy ===== *)
theory Hidumper_Prelude
  imports Main "HOL-Library.Word"
begin

text \<open>
  Shared vocabulary of the HiDumper development.

  The theory holds the status codes every operation returns (\<open>enum DumpStatus\<close> of
  \<^verbatim>\<open>src/frameworks/native/common.h\<close>), the named theorem collections the component proofs use,
  and the generic lemmas on association lists, \<open>std::unordered_map\<close>-style insertion and
  line loops that several components share.

  An \<open>std::unordered_map\<close> or \<open>std::unordered_set\<close> that the code iterates over is an
  association list (a list) whose keys (elements) are distinct; its order stands for the
  iteration order of the container, which the language leaves open.
\<close>

named_theorems hd_simps "equations that evaluate operations of the model"
named_theorems hd_invs "preservation of well-formedness invariants"
named_theorems hd_splits "case splits over the model's error paths"

section \<open>Status codes\<close>

datatype DumpStatus =
    DUMP_REQUEST_MAX | DUMP_TIMEOUT | DUMP_INVALID_ARG | DUMP_NOPERMISSION | DUMP_FAIL
  | DUMP_OK | DUMP_HELP | DUMP_CHECK_OK | DUMP_MORE_DATA

section \<open>Hash maps as association lists\<close>

definition keys :: "('k \<times> 'v) list \<Rightarrow> 'k list" where
  "keys m = map fst m"

definition emplace :: "'k \<Rightarrow> 'v \<Rightarrow> ('k \<times> 'v) list \<Rightarrow> ('k \<times> 'v) list" where
  "emplace k v m = (if k \<in> set (keys m) then m else m @ [(k, v)])"

definition erase_key :: "'k \<Rightarrow> ('k \<times> 'v) list \<Rightarrow> ('k \<times> 'v) list" where
  "erase_key k m = filter (\<lambda>kv. fst kv \<noteq> k) m"

definition modify :: "'k \<Rightarrow> ('v \<Rightarrow> 'v) \<Rightarrow> ('k \<times> 'v) list \<Rightarrow> ('k \<times> 'v) list" where
  "modify k f m = map (\<lambda>kv. if fst kv = k then (fst kv, f (snd kv)) else kv) m"

definition hm_insert :: "'a \<Rightarrow> 'a list \<Rightarrow> 'a list" where
  "hm_insert x xs = (if x \<in> set xs then xs else xs @ [x])"

abbreviation wf_map :: "('k \<times> 'v) list \<Rightarrow> bool" where
  "wf_map m \<equiv> distinct (keys m)"

lemma keys_simps [simp]:
  "keys [] = []" "keys (kv # m) = fst kv # keys m" "keys (m @ m') = keys m @ keys m'"
  by (simp_all add: keys_def)

lemma length_keys [simp]: "length (keys m) = length m"
  by (simp add: keys_def)

lemma keys_eq_Nil [simp]: "keys m = [] \<longleftrightarrow> m = []"
  by (simp add: keys_def)

lemma set_keys_dom: "set (keys m) = dom (map_of m)"
  by (simp add: keys_def dom_map_of_conv_image_fst)

lemma map_of_None_iff: "map_of m k = None \<longleftrightarrow> k \<notin> set (keys m)"
  by (simp add: keys_def map_of_eq_None_iff)

lemma map_of_Some_key: "map_of m k = Some v \<Longrightarrow> k \<in> set (keys m)"
  by (metis map_of_None_iff option.distinct(1))

lemma map_of_Some_iff: "wf_map m \<Longrightarrow> map_of m k = Some v \<longleftrightarrow> (k, v) \<in> set m"
  by (simp add: keys_def map_of_eq_Some_iff)

lemma in_keys_iff: "k \<in> set (keys m) \<longleftrightarrow> (\<exists>v. (k, v) \<in> set m)"
  by (force simp: keys_def)

lemma keys_emplace: "set (keys (emplace k v m)) = insert k (set (keys m))"
  by (auto simp: emplace_def)

lemma wf_emplace [hd_invs]: "wf_map m \<Longrightarrow> wf_map (emplace k v m)"
  by (auto simp: emplace_def)

lemma map_of_emplace:
  "map_of (emplace k v m) = (if k \<in> set (keys m) then map_of m else (map_of m)(k \<mapsto> v))"
proof (cases "k \<in> set (keys m)")
  case True
  then show ?thesis by (simp add: emplace_def)
next
  case False
  then have "map_of m k = None" by (simp add: map_of_None_iff)
  with False show ?thesis
    by (auto simp: emplace_def fun_eq_iff map_add_def split: option.splits)
qed

lemma keys_erase: "keys (erase_key k m) = filter (\<lambda>x. x \<noteq> k) (keys m)"
  by (induction m) (auto simp: erase_key_def)

lemma wf_filter: "wf_map m \<Longrightarrow> wf_map (filter P m)"
  by (induction m) (auto simp: keys_def)

lemma keys_filter_subset: "set (keys (filter P m)) \<subseteq> set (keys m)"
  by (auto simp: keys_def)

lemma keys_modify [simp]: "keys (modify k f m) = keys m"
  by (induction m) (auto simp: modify_def)

lemma map_of_modify:
  "map_of (modify k f m) = (\<lambda>x. if x = k then map_option f (map_of m x) else map_of m x)"
  by (induction m) (auto simp: modify_def fun_eq_iff)

lemma set_hm_insert [simp]: "set (hm_insert x xs) = insert x (set xs)"
  by (auto simp: hm_insert_def)

lemma distinct_hm_insert [hd_invs]: "distinct xs \<Longrightarrow> distinct (hm_insert x xs)"
  by (auto simp: hm_insert_def)

section \<open>Decimal text\<close>

text \<open>\<open>std::to_string\<close> of an integer.\<close>

fun digits :: "nat \<Rightarrow> string" where
  "digits n = (if n < 10 then [char_of (48 + n)] else digits (n div 10) @ [char_of (48 + n mod 10)])"

declare digits.simps [simp del]

definition to_string :: "int \<Rightarrow> string" where
  "to_string i = (if i < 0 then CHR ''-'' # digits (nat (- i)) else digits (nat i))"

section \<open>Loops with early exit\<close>

text \<open>
  A loop that hands each item to a handler and stops as soon as the handler returns false
  (the \<open>break\<close> of the line readers).
\<close>

fun handle_each :: "('l \<Rightarrow> 's \<Rightarrow> bool \<times> 's) \<Rightarrow> 'l list \<Rightarrow> 's \<Rightarrow> 's" where
  "handle_each f [] s = s"
| "handle_each f (l # ls) s = (case f l s of (cont, s') \<Rightarrow> if cont then handle_each f ls s' else s')"

lemma handle_each_collect:
  "handle_each (\<lambda>l acc. (True, acc @ [g l])) ls acc = acc @ map g ls"
  by (induction ls arbitrary: acc) auto

end
