(* ===== verification/Data_Inventory.thy ===== *)
theory Data_Inventory
  imports Hidumper_Prelude
begin

text \<open>
  The data inventory of the task framework
  (\<^verbatim>\<open>src/frameworks/native/data_inventory/\<close>) and the line readers and writers it uses
  (\<^verbatim>\<open>src/frameworks/native/utils/writer_utils.cpp\<close>).

  Dump tasks put what they collect into the inventory under a \<open>DataId\<close>, writer tasks read it
  back and the task controller removes what no remaining task needs. The stored pointer is
  type-erased (\<open>BaseType\<close>) and read back with an unchecked \<open>static_pointer_cast\<close>; the model
  makes the cast's failure a value, and the typing invariant at the end shows that it never
  happens for the ids and types the program uses.
\<close>

section \<open>Data ids\<close>

datatype DataId =
    DEVICE_INFO | SYSTEM_CLUSTER_INFO | PROC_VERSION_INFO | PROC_CMDLINE_INFO
  | WAKEUP_SOURCES_INFO | UPTIME_INFO | CPU_FREQ_INFO | PROC_SLAB_INFO | PROC_ZONE_INFO
  | PROC_VMSTAT_INFO | PROC_VMALLOC_INFO | PROC_MODULES_INFO | PRINTENV_INFO | LSMOD_INFO
  | STORAGE_STATE_INFO | DF_INFO | LSOF_INFO | IOTOP_INFO | PROC_MOUNTS_INFO
  | PROC_PID_IO_INFO | SYSTEM_ABILITY_LIST | PROC_DEVHOST_SLAB_INFO | SYSTEM_ABILITY_INFO
  | PROC_SMAPS_INFO | PROC_SMAPS_ROLLUP_INFO | ALL_PID_INFO | GRAPHIC_MEM_INFO
  | ALL_PROCESS_NAME_INFO | VSS_INFO | ALL_PID_ADJ_INFO

definition all_DataId :: "DataId list" where
  "all_DataId =
    [DEVICE_INFO, SYSTEM_CLUSTER_INFO, PROC_VERSION_INFO, PROC_CMDLINE_INFO,
     WAKEUP_SOURCES_INFO, UPTIME_INFO, CPU_FREQ_INFO, PROC_SLAB_INFO, PROC_ZONE_INFO,
     PROC_VMSTAT_INFO, PROC_VMALLOC_INFO, PROC_MODULES_INFO, PRINTENV_INFO, LSMOD_INFO,
     STORAGE_STATE_INFO, DF_INFO, LSOF_INFO, IOTOP_INFO, PROC_MOUNTS_INFO,
     PROC_PID_IO_INFO, SYSTEM_ABILITY_LIST, PROC_DEVHOST_SLAB_INFO, SYSTEM_ABILITY_INFO,
     PROC_SMAPS_INFO, PROC_SMAPS_ROLLUP_INFO, ALL_PID_INFO, GRAPHIC_MEM_INFO,
     ALL_PROCESS_NAME_INFO, VSS_INFO, ALL_PID_ADJ_INFO]"

lemma in_all_DataId [simp]: "d \<in> set all_DataId"
  by (cases d) (simp_all add: all_DataId_def)

lemma distinct_all_DataId: "distinct all_DataId"
  by (simp add: all_DataId_def)

instantiation DataId :: enum
begin

definition enum_DataId :: "DataId list" where
  "enum_DataId = all_DataId"

definition enum_all_DataId :: "(DataId \<Rightarrow> bool) \<Rightarrow> bool" where
  "enum_all_DataId P = list_all P all_DataId"

definition enum_ex_DataId :: "(DataId \<Rightarrow> bool) \<Rightarrow> bool" where
  "enum_ex_DataId P = list_ex P all_DataId"

instance
proof
  show "(UNIV :: DataId set) = set enum_class.enum"
    by (auto simp: enum_DataId_def)
  show "distinct (enum_class.enum :: DataId list)"
    by (simp add: enum_DataId_def distinct_all_DataId)
  show "enum_class.enum_all P \<longleftrightarrow> Ball UNIV P" for P :: "DataId \<Rightarrow> bool"
    by (auto simp: enum_all_DataId_def list_all_iff)
  show "enum_class.enum_ex P \<longleftrightarrow> Bex UNIV P" for P :: "DataId \<Rightarrow> bool"
    by (auto simp: enum_ex_DataId_def list_ex_iff)
qed

end

section \<open>Stored values and the inventory\<close>

record CpuFreqInfo =
  cpuId :: int
  curFreq :: string
  maxFreq :: string

text \<open>The instances of \<open>CustomType<T>\<close> that the tasks store.\<close>

datatype BaseType = StrVec "string list" | CpuFreqVec "CpuFreqInfo list"

type_synonym DataInventory = "DataId \<rightharpoonup> BaseType"

text \<open>A typed read: null, the data, or a pointer cast to the wrong \<open>CustomType\<close>.\<close>

datatype 'a cast_ptr = Nullptr | Ptr 'a | BadCast

definition InputToData :: "DataId \<Rightarrow> BaseType option \<Rightarrow> DataInventory \<Rightarrow> bool \<times> DataInventory" where
  "InputToData dataId ptr m =
    (case ptr of None \<Rightarrow> (False, m)
     | Some v \<Rightarrow> (case m dataId of None \<Rightarrow> (True, m(dataId \<mapsto> v)) | Some _ \<Rightarrow> (False, m)))"

definition GetPtr :: "DataInventory \<Rightarrow> DataId \<Rightarrow> BaseType option" where
  "GetPtr m dataId = m dataId"

definition Inject :: "DataId \<Rightarrow> BaseType option \<Rightarrow> DataInventory \<Rightarrow> bool \<times> DataInventory" where
  "Inject dataId ptr m =
    (case ptr of None \<Rightarrow> (False, m)
     | Some v \<Rightarrow> if GetPtr m dataId \<noteq> None then (False, m) else InputToData dataId (Some v) m)"

definition GetPtr_strs :: "DataInventory \<Rightarrow> DataId \<Rightarrow> string list cast_ptr" where
  "GetPtr_strs m dataId =
    (case GetPtr m dataId of None \<Rightarrow> Nullptr | Some (StrVec xs) \<Rightarrow> Ptr xs | Some _ \<Rightarrow> BadCast)"

definition GetPtr_freqs :: "DataInventory \<Rightarrow> DataId \<Rightarrow> CpuFreqInfo list cast_ptr" where
  "GetPtr_freqs m dataId =
    (case GetPtr m dataId of None \<Rightarrow> Nullptr | Some (CpuFreqVec xs) \<Rightarrow> Ptr xs | Some _ \<Rightarrow> BadCast)"

definition RemoveRestData :: "DataInventory \<Rightarrow> DataId set \<Rightarrow> DataId set \<times> DataInventory" where
  "RemoveRestData m keepingDataType =
    (set (filter (\<lambda>d. m d \<noteq> None \<and> d \<notin> keepingDataType) all_DataId),
     (\<lambda>d. if d \<in> keepingDataType then m d else None))"

definition Size :: "DataInventory \<Rightarrow> nat" where
  "Size m = length (filter (\<lambda>d. m d \<noteq> None) all_DataId)"

section \<open>Line sources and the output descriptor\<close>

text \<open>
  What the operating system answers: the lines of a readable file (\<open>None\<close> when \<open>realpath\<close>
  or the open fails) and the buffers \<open>getline\<close> returns for a command (\<open>None\<close> when
  \<open>popen\<close> fails).
\<close>

record os_sources =
  file_lines :: "string \<Rightarrow> string list option"
  cmd_lines :: "string \<Rightarrow> string list option"

definition HandleStringFromFile ::
    "os_sources \<Rightarrow> string \<Rightarrow> (string \<Rightarrow> 's \<Rightarrow> bool \<times> 's) \<Rightarrow> 's \<Rightarrow> bool \<times> 's" where
  "HandleStringFromFile os path func s =
    (case file_lines os path of None \<Rightarrow> (False, s)
     | Some ls \<Rightarrow> (True, handle_each (\<lambda>line. func (line @ [CHR 0x0A])) ls s))"

definition HandleStringFromCommand ::
    "os_sources \<Rightarrow> string \<Rightarrow> (string \<Rightarrow> 's \<Rightarrow> bool \<times> 's) \<Rightarrow> 's \<Rightarrow> bool \<times> 's" where
  "HandleStringFromCommand os command func s =
    (case cmd_lines os command of None \<Rightarrow> (False, s)
     | Some ls \<Rightarrow>
         (True, handle_each (\<lambda>buf. func (takeWhile (\<lambda>c. c \<noteq> CHR 0x00) buf))
            (takeWhile (\<lambda>buf. buf \<noteq> []) ls) s))"

definition InjectString ::
    "os_sources \<Rightarrow> string \<Rightarrow> DataId \<Rightarrow> bool \<Rightarrow> DataInventory \<Rightarrow> bool \<times> DataInventory" where
  "InjectString os source dataId isFile m =
    (case (if isFile then HandleStringFromFile else HandleStringFromCommand) os source
            (\<lambda>line result. (True, result @ [line])) [] of
       (loaded, result) \<Rightarrow> if \<not> loaded then (False, m) else Inject dataId (Some (StrVec result)) m)"

definition InjectStringWithFilter ::
    "os_sources \<Rightarrow> string \<Rightarrow> DataId \<Rightarrow> bool \<Rightarrow> (string \<Rightarrow> string) \<Rightarrow> DataInventory
      \<Rightarrow> bool \<times> DataInventory" where
  "InjectStringWithFilter os source dataId isFile func m =
    (case (if isFile then HandleStringFromFile else HandleStringFromCommand) os source
            (\<lambda>line result. (True, result @ [func line])) [] of
       (loaded, result) \<Rightarrow> if \<not> loaded then (False, m) else Inject dataId (Some (StrVec result)) m)"

text \<open>
  The output descriptor is modelled by the sequence of strings handed to \<open>SaveStringToFd\<close>.
\<close>

definition WriteStringIntoFd :: "string \<Rightarrow> int \<Rightarrow> string list \<Rightarrow> string list" where
  "WriteStringIntoFd str fd out =
    (if fd = -1 then out
     else if str = [] then out
     else if last str \<noteq> CHR 0x0A then out @ [str @ [CHR 0x0A]]
     else out @ [str])"

definition WriteStringsIntoFd :: "string list \<Rightarrow> int \<Rightarrow> string list \<Rightarrow> string list" where
  "WriteStringsIntoFd strs fd out =
    (if fd = -1 then out
     else if strs = [] then out
     else fold (\<lambda>str. WriteStringIntoFd str fd) strs out)"

definition WriteTitle :: "string \<Rightarrow> int \<Rightarrow> string list \<Rightarrow> string list" where
  "WriteTitle title fd out =
    WriteStringIntoFd [CHR 0x0A] fd (WriteStringIntoFd title fd (WriteStringIntoFd [CHR 0x0A] fd out))"

section \<open>The store interface\<close>

text \<open>
  What the tasks and the controller rely on: an injection into a free slot succeeds and is seen
  by later reads, an injection into a used slot fails and changes nothing, and a restriction
  keeps exactly the named slots and reports the dropped ones.
\<close>

locale data_store =
  fixes inject :: "'k \<Rightarrow> 'v \<Rightarrow> 's \<Rightarrow> bool \<times> 's"
    and look :: "'s \<Rightarrow> 'k \<Rightarrow> 'v option"
    and restrict :: "'s \<Rightarrow> 'k set \<Rightarrow> 'k set \<times> 's"
  assumes inject_free: "look s k = None \<Longrightarrow> fst (inject k v s)"
    and look_inject_free: "look s k = None \<Longrightarrow> look (snd (inject k v s)) = (look s)(k \<mapsto> v)"
    and inject_used: "look s k \<noteq> None \<Longrightarrow> inject k v s = (False, s)"
    and look_restrict: "look (snd (restrict s K)) = look s |` K"
    and restrict_dropped: "fst (restrict s K) = dom (look s) - K"
begin

definition inject_all :: "('k \<times> 'v) list \<Rightarrow> 's \<Rightarrow> 's" where
  "inject_all kvs s = fold (\<lambda>(k, v) t. snd (inject k v t)) kvs s"

lemma look_inject:
  "look (snd (inject k v s)) x = (if x = k \<and> look s k = None then Some v else look s x)"
  by (cases "look s k") (auto simp: look_inject_free inject_used)

lemma look_inject_all:
  "look (inject_all kvs s) k = (case look s k of Some v \<Rightarrow> Some v | None \<Rightarrow> map_of kvs k)"
proof (induction kvs arbitrary: s)
  case Nil
  then show ?case by (simp add: inject_all_def split: option.splits)
next
  case (Cons kv kvs)
  obtain a b where "kv = (a, b)" by fastforce
  with Cons.IH [of "snd (inject a b s)"] show ?case
    by (auto simp: inject_all_def look_inject split: option.splits)
qed

lemma inject_ok_iff: "fst (inject k v s) \<longleftrightarrow> look s k = None"
  by (cases "look s k") (auto simp: inject_free inject_used)

lemma restrict_partition:
  "dom (look s) = fst (restrict s K) \<union> dom (look (snd (restrict s K)))"
  "fst (restrict s K) \<inter> dom (look (snd (restrict s K))) = {}"
  by (auto simp: look_restrict restrict_dropped restrict_map_def split: if_splits)

end

interpretation inv: data_store "\<lambda>d v. Inject d (Some v)" GetPtr RemoveRestData
proof
  show "GetPtr s k = None \<Longrightarrow> fst (Inject k (Some v) s)" for s k v
    by (simp add: Inject_def InputToData_def GetPtr_def)
  show "GetPtr s k = None \<Longrightarrow> GetPtr (snd (Inject k (Some v) s)) = (GetPtr s)(k \<mapsto> v)" for s k v
    by (simp add: Inject_def InputToData_def GetPtr_def fun_eq_iff)
  show "GetPtr s k \<noteq> None \<Longrightarrow> Inject k (Some v) s = (False, s)" for s k v
    by (simp add: Inject_def)
  show "GetPtr (snd (RemoveRestData s K)) = GetPtr s |` K" for s K
    by (simp add: RemoveRestData_def GetPtr_def restrict_map_def fun_eq_iff)
  show "fst (RemoveRestData s K) = dom (GetPtr s) - K" for s K
    by (auto simp: RemoveRestData_def GetPtr_def)
qed

section \<open>Properties\<close>

lemma GetPtr_eq: "GetPtr m = m"
  by (simp add: fun_eq_iff GetPtr_def)

lemma Inject_snd:
  "snd (Inject d (Some v) m) = (if m d = None then m(d \<mapsto> v) else m)"
  by (simp add: Inject_def InputToData_def GetPtr_def)

lemma length_filter_card: "distinct xs \<Longrightarrow> length (filter P xs) = card {x \<in> set xs. P x}"
  by (simp add: distinct_length_filter Int_def conj_commute)

lemma HandleStringFromFile_collect:
  "HandleStringFromFile os path (\<lambda>line acc. (True, acc @ [g line])) [] =
    (case file_lines os path of None \<Rightarrow> (False, [])
     | Some ls \<Rightarrow> (True, map (\<lambda>l. g (l @ [CHR 0x0A])) ls))"
  by (simp add: HandleStringFromFile_def handle_each_collect split: option.splits)

lemma HandleStringFromCommand_collect:
  "HandleStringFromCommand os command (\<lambda>line acc. (True, acc @ [g line])) [] =
    (case cmd_lines os command of None \<Rightarrow> (False, [])
     | Some ls \<Rightarrow> (True, map (\<lambda>b. g (takeWhile (\<lambda>c. c \<noteq> CHR 0x00) b)) (takeWhile (\<lambda>b. b \<noteq> []) ls)))"
  by (simp add: HandleStringFromCommand_def handle_each_collect split: option.splits)

lemmas handle_collect = HandleStringFromFile_collect HandleStringFromCommand_collect

text \<open>Each id is used at one type: cpu frequencies are structs, everything else is text lines.\<close>

definition well_typed :: "DataInventory \<Rightarrow> bool" where
  "well_typed m = list_all (\<lambda>d. case m d of None \<Rightarrow> True
     | Some (StrVec _) \<Rightarrow> d \<noteq> CPU_FREQ_INFO | Some (CpuFreqVec _) \<Rightarrow> d = CPU_FREQ_INFO) all_DataId"

lemma well_typedD:
  assumes "well_typed m" and "m d = Some v"
  shows "(\<exists>xs. v = StrVec xs \<and> d \<noteq> CPU_FREQ_INFO) \<or> (\<exists>xs. v = CpuFreqVec xs \<and> d = CPU_FREQ_INFO)"
proof -
  from assms(1) have "case m d of None \<Rightarrow> True
     | Some (StrVec _) \<Rightarrow> d \<noteq> CPU_FREQ_INFO | Some (CpuFreqVec _) \<Rightarrow> d = CPU_FREQ_INFO"
    by (auto simp: well_typed_def list_all_iff)
  with assms(2) show ?thesis by (cases v) auto
qed

lemma well_typed_empty [hd_invs, simp]: "well_typed Map.empty"
  by (simp add: well_typed_def list_all_iff)

lemma well_typed_upd:
  "well_typed m \<Longrightarrow> (case v of StrVec _ \<Rightarrow> d \<noteq> CPU_FREQ_INFO | CpuFreqVec _ \<Rightarrow> d = CPU_FREQ_INFO)
    \<Longrightarrow> well_typed (m(d \<mapsto> v))"
  by (auto simp: well_typed_def list_all_iff split: BaseType.splits)

lemma well_typed_Inject_strs [hd_invs]:
  "well_typed m \<Longrightarrow> d \<noteq> CPU_FREQ_INFO \<Longrightarrow> well_typed (snd (Inject d (Some (StrVec xs)) m))"
  by (auto simp: Inject_snd intro: well_typed_upd)

lemma well_typed_Inject_freqs [hd_invs]:
  "well_typed m \<Longrightarrow> well_typed (snd (Inject CPU_FREQ_INFO (Some (CpuFreqVec xs)) m))"
  by (auto simp: Inject_snd intro: well_typed_upd)

lemma well_typed_InjectString [hd_invs]:
  "well_typed m \<Longrightarrow> d \<noteq> CPU_FREQ_INFO \<Longrightarrow> well_typed (snd (InjectString os src d isFile m))"
  by (auto simp: InjectString_def well_typed_Inject_strs split: prod.splits)

lemma well_typed_InjectStringWithFilter [hd_invs]:
  "well_typed m \<Longrightarrow> d \<noteq> CPU_FREQ_INFO
    \<Longrightarrow> well_typed (snd (InjectStringWithFilter os src d isFile func m))"
  by (auto simp: InjectStringWithFilter_def well_typed_Inject_strs split: prod.splits)

lemma well_typed_RemoveRestData [hd_invs]:
  "well_typed m \<Longrightarrow> well_typed (snd (RemoveRestData m K))"
  by (auto simp: well_typed_def list_all_iff RemoveRestData_def)

lemma GetPtr_strs_typed:
  "well_typed m \<Longrightarrow> d \<noteq> CPU_FREQ_INFO \<Longrightarrow> GetPtr_strs m d \<noteq> BadCast"
  by (auto simp: GetPtr_strs_def GetPtr_def dest: well_typedD split: option.splits BaseType.splits)

lemma GetPtr_freqs_typed: "well_typed m \<Longrightarrow> GetPtr_freqs m CPU_FREQ_INFO \<noteq> BadCast"
  by (auto simp: GetPtr_freqs_def GetPtr_def dest: well_typedD split: option.splits BaseType.splits)

end
