(* ===== verification/Task_Register.thy ===== *)
theory Task_Register
  imports Data_Inventory
begin

text \<open>
  The task framework's data model: the dump context
  (\<^verbatim>\<open>src/frameworks/native/manager/dump_context.h\<close>), tasks
  (\<^verbatim>\<open>task/base/task.h\<close>), the task registry (\<^verbatim>\<open>task/base/task_struct.h\<close>,
  \<^verbatim>\<open>task_register.cpp\<close>) and the task switch configuration
  (\<^verbatim>\<open>task/base/task_enable_config.cpp\<close>).

  A task is a state transformer on a \<open>RunState\<close>: the shared data inventory, what was written to
  the output descriptor, and an open component \<open>'w\<close> for everything else a task may look at or
  change (files, kernel state), so that running a task twice may give two results. The JSON
  library is a record of functions over an abstract node type.
\<close>

section \<open>Dump context\<close>

record RequestInfo =
  callingUid :: int
  calllingPid :: int
  outFd :: int

record DumperOptions =
  cpuUsagePid :: int
  memPid :: int
  storagePid :: int
  netPid :: int
  processPid :: int
  dumpJsHeapMemPid :: int
  threadId :: int
  ipcStatPid :: int
  isDumpCpuFreq :: bool
  isDumpCpuUsage :: bool
  isDumpLog :: bool
  isDumpMem :: bool
  isDumpStorage :: bool
  isDumpNet :: bool
  isDumpList :: bool
  isDumpService :: bool
  isDumpSystemAbility :: bool
  isDumpSystem :: bool
  isDumpProcesses :: bool
  isFaultLog :: bool
  isAppendix :: bool
  isShowSmaps :: bool
  isShowSmapsInfo :: bool
  isDumpJsHeapMem :: bool
  isDumpJsHeapMemGC :: bool
  isDumpJsHeapLeakobj :: bool
  isDumpJsHeapCombine :: bool
  isDumpAllIpc :: bool
  isDumpIpc :: bool
  isDumpIpcStartStat :: bool
  isDumpIpcStopStat :: bool
  isDumpIpcStat :: bool
  dumpJsRawHeap :: bool
  abilityArgs :: "string list"
  abilityNames :: "string list"
  systemArgs :: "string list" \<comment> \<open>a \<open>std::set\<close>: its elements in iteration order\<close>

definition DumperOptions_init :: DumperOptions where
  "DumperOptions_init =
    \<lparr>cpuUsagePid = -1, memPid = -1, storagePid = -1, netPid = -1, processPid = -1,
     dumpJsHeapMemPid = -1, threadId = -1, ipcStatPid = -1,
     isDumpCpuFreq = False, isDumpCpuUsage = False, isDumpLog = False, isDumpMem = False,
     isDumpStorage = False, isDumpNet = False, isDumpList = False, isDumpService = False,
     isDumpSystemAbility = False, isDumpSystem = False, isDumpProcesses = False,
     isFaultLog = False, isAppendix = False, isShowSmaps = False, isShowSmapsInfo = False,
     isDumpJsHeapMem = False, isDumpJsHeapMemGC = False, isDumpJsHeapLeakobj = False,
     isDumpJsHeapCombine = False, isDumpAllIpc = False, isDumpIpc = False,
     isDumpIpcStartStat = False, isDumpIpcStopStat = False, isDumpIpcStat = False,
     dumpJsRawHeap = False, abilityArgs = [], abilityNames = [], systemArgs = []\<rparr>"

record DumpContext =
  requestInfo :: RequestInfo
  dumperOpts :: DumperOptions

definition DumpContext_new :: "int \<Rightarrow> int \<Rightarrow> int \<Rightarrow> DumpContext" where
  "DumpContext_new uid pid fd =
    \<lparr>requestInfo = \<lparr>callingUid = uid, calllingPid = pid, outFd = fd\<rparr>,
     dumperOpts = DumperOptions_init\<rparr>"

definition GetOutputFd :: "DumpContext \<Rightarrow> int" where
  "GetOutputFd ctx = outFd (requestInfo ctx)"

section \<open>Tasks\<close>

record 'w RunState =
  inventory :: DataInventory
  fdWrites :: "string list"
  world :: 'w

record 'w Task =
  PreDump :: "DumpContext \<Rightarrow> 'w RunState \<Rightarrow> 'w RunState"
  TaskEntry :: "DumpContext \<Rightarrow> 'w RunState \<Rightarrow> DumpStatus \<times> 'w RunState"
  PostDump :: "DumpContext \<Rightarrow> 'w RunState \<Rightarrow> 'w RunState"

definition Run :: "'w Task \<Rightarrow> DumpContext \<Rightarrow> 'w RunState \<Rightarrow> DumpStatus \<times> 'w RunState" where
  "Run task ctx rs =
    (case TaskEntry task ctx (PreDump task ctx rs) of (ret, rs') \<Rightarrow> (ret, PostDump task ctx rs'))"

section \<open>Task ids and the registry\<close>

type_synonym TaskId = "32 word"

abbreviation DUMP_DEVICE_INFO :: TaskId where "DUMP_DEVICE_INFO \<equiv> 0"
abbreviation DUMP_SYSTEM_CLUSTER_INFO :: TaskId where "DUMP_SYSTEM_CLUSTER_INFO \<equiv> 1"
abbreviation DUMP_WAKEUP_SOURCES_INFO :: TaskId where "DUMP_WAKEUP_SOURCES_INFO \<equiv> 2"
abbreviation DUMP_KERNEL_MODULE_INFO :: TaskId where "DUMP_KERNEL_MODULE_INFO \<equiv> 3"
abbreviation DUMP_SLAB_INFO :: TaskId where "DUMP_SLAB_INFO \<equiv> 4"
abbreviation DUMP_ZONE_INFO :: TaskId where "DUMP_ZONE_INFO \<equiv> 5"
abbreviation DUMP_VMSTAT_INFO :: TaskId where "DUMP_VMSTAT_INFO \<equiv> 6"
abbreviation DUMP_VMALLOC_INFO :: TaskId where "DUMP_VMALLOC_INFO \<equiv> 7"
abbreviation DUMP_CPU_FREQ_INFO :: TaskId where "DUMP_CPU_FREQ_INFO \<equiv> 8"
abbreviation DUMP_DISK_INFO :: TaskId where "DUMP_DISK_INFO \<equiv> 9"
abbreviation DUMP_LSOF_INFO :: TaskId where "DUMP_LSOF_INFO \<equiv> 10"
abbreviation DUMP_IOTOP_INFO :: TaskId where "DUMP_IOTOP_INFO \<equiv> 11"
abbreviation DUMP_MOUNTS_INFO :: TaskId where "DUMP_MOUNTS_INFO \<equiv> 12"
abbreviation DUMP_STORAGE_IO_INFO :: TaskId where "DUMP_STORAGE_IO_INFO \<equiv> 13"
abbreviation ROOT_TASK_START :: TaskId where "ROOT_TASK_START \<equiv> 10000"
abbreviation WRITE_SYSTEM_CLUSTER_INFO :: TaskId where "WRITE_SYSTEM_CLUSTER_INFO \<equiv> 10001"
abbreviation WRITE_SYSTEM_BASE_INFO :: TaskId where "WRITE_SYSTEM_BASE_INFO \<equiv> 10002"
abbreviation WRITE_KERNEL_MODULE_INFO :: TaskId where "WRITE_KERNEL_MODULE_INFO \<equiv> 10003"
abbreviation WRITE_KERNEL_MEM_INFO :: TaskId where "WRITE_KERNEL_MEM_INFO \<equiv> 10004"
abbreviation WRITE_CPU_FREQ_INFO :: TaskId where "WRITE_CPU_FREQ_INFO \<equiv> 10005"
abbreviation WRITE_ALL_PROCESS_MEM_INFO :: TaskId where "WRITE_ALL_PROCESS_MEM_INFO \<equiv> 10006"
abbreviation WRITE_STORAGE_INFO :: TaskId where "WRITE_STORAGE_INFO \<equiv> 10007"
abbreviation WRITE_STORAGE_IO_INFO :: TaskId where "WRITE_STORAGE_IO_INFO \<equiv> 10008"
abbreviation WRITE_SYSTEM_ABILITY_INFO :: TaskId where "WRITE_SYSTEM_ABILITY_INFO \<equiv> 10009"
abbreviation WRITE_SYSTEM_ABILITY_LIST :: TaskId where "WRITE_SYSTEM_ABILITY_LIST \<equiv> 10010"

text \<open>
  \<open>creator\<close> is a \<open>std::function\<close> that may be empty (\<open>None\<close>) and may return a null task.
\<close>

record 'w RegTaskInfo =
  creator :: "('w RunState \<Rightarrow> 'w Task option) option"
  dataDependency :: "DataId list"
  taskDependency :: "TaskId list"
  taskName :: string
  failureCount :: nat
  mandatory :: bool

type_synonym 'w TaskCollection = "(TaskId \<times> 'w RegTaskInfo) list"

definition RegTaskInfo_init :: "'w RegTaskInfo" where
  "RegTaskInfo_init =
    \<lparr>creator = None, dataDependency = [], taskDependency = [], taskName = [],
     failureCount = 0, mandatory = False\<rparr>"

text \<open>\<open>container[taskId]\<close> inserts a default entry when the key is absent.\<close>

definition container_at ::
    "TaskId \<Rightarrow> ('w RegTaskInfo \<Rightarrow> 'w RegTaskInfo) \<Rightarrow> 'w TaskCollection \<Rightarrow> 'w TaskCollection" where
  "container_at tid f c = modify tid f (emplace tid RegTaskInfo_init c)"

definition register_task ::
    "TaskId \<Rightarrow> ('w RunState \<Rightarrow> 'w Task option) option \<Rightarrow> bool \<Rightarrow> string \<Rightarrow> TaskId list
      \<Rightarrow> 'w TaskCollection \<Rightarrow> 'w TaskCollection" where
  "register_task tid cr mand name deps c =
    container_at tid (\<lambda>i. i\<lparr>creator := cr, mandatory := mand, taskName := name,
      taskDependency := fold hm_insert deps (taskDependency i), failureCount := 0\<rparr>) c"

definition register_data ::
    "TaskId \<Rightarrow> DataId list \<Rightarrow> 'w TaskCollection \<Rightarrow> 'w TaskCollection" where
  "register_data tid datas c =
    container_at tid (\<lambda>i. i\<lparr>dataDependency := fold hm_insert datas (dataDependency i)\<rparr>) c"

lemma keys_container_at: "set (keys (container_at tid f c)) = insert tid (set (keys c))"
  by (simp add: container_at_def keys_emplace)

lemma wf_container_at [hd_invs]: "wf_map c \<Longrightarrow> wf_map (container_at tid f c)"
  by (simp add: container_at_def wf_emplace)

lemma wf_register_task [hd_invs]: "wf_map c \<Longrightarrow> wf_map (register_task tid cr mand name deps c)"
  by (simp add: register_task_def wf_container_at)

lemma wf_register_data [hd_invs]: "wf_map c \<Longrightarrow> wf_map (register_data tid datas c)"
  by (simp add: register_data_def wf_container_at)

lemma set_fold_hm_insert: "set (fold hm_insert xs ys) = set ys \<union> set xs"
  by (induction xs arbitrary: ys) auto

lemma map_of_container_at:
  "map_of (container_at tid f c) x =
    (if x = tid then Some (f (case map_of c tid of None \<Rightarrow> RegTaskInfo_init | Some i \<Rightarrow> i))
     else map_of c x)"
  by (auto simp: container_at_def map_of_modify map_of_emplace map_of_None_iff
      split: option.splits dest: map_of_Some_key)

section \<open>Task switches\<close>

record 'j cJSON_api =
  cJSON_Parse :: "string \<Rightarrow> 'j option"
  cJSON_GetObjectItem :: "'j \<Rightarrow> string \<Rightarrow> 'j option"
  cJSON_IsObject :: "'j \<Rightarrow> bool"
  cJSON_IsNumber :: "'j \<Rightarrow> bool"
  cJSON_IsBool :: "'j \<Rightarrow> bool"
  cJSON_IsTrue :: "'j \<Rightarrow> bool"
  cJSON_valueint :: "'j \<Rightarrow> int"
  cJSON_children :: "'j \<Rightarrow> 'j list"

record TaskEnableConfig =
  taskEnableMap :: "TaskId \<rightharpoonup> bool"
  configLoaded :: bool

definition TaskEnableConfig_init :: TaskEnableConfig where
  "TaskEnableConfig_init = \<lparr>taskEnableMap = Map.empty, configLoaded = False\<rparr>"

definition parse_task_item :: "'j cJSON_api \<Rightarrow> 'j \<Rightarrow> (TaskId \<rightharpoonup> bool) \<Rightarrow> (TaskId \<rightharpoonup> bool)" where
  "parse_task_item J taskItem m =
    (if cJSON_IsObject J taskItem then
       (case cJSON_GetObjectItem J taskItem ''task_id'' of None \<Rightarrow> m
        | Some taskIdItem \<Rightarrow>
            if \<not> cJSON_IsNumber J taskIdItem then m
            else
              let taskId = word_of_int (cJSON_valueint J taskIdItem);
                  enabled = (case cJSON_GetObjectItem J taskItem ''enabled'' of None \<Rightarrow> True
                    | Some enabledItem \<Rightarrow>
                        if cJSON_IsBool J enabledItem then cJSON_IsTrue J enabledItem else True)
              in m(taskId \<mapsto> enabled))
     else m)"

definition ParseJsonContent ::
    "'j cJSON_api \<Rightarrow> string \<Rightarrow> TaskEnableConfig \<Rightarrow> DumpStatus \<times> TaskEnableConfig" where
  "ParseJsonContent J content cfg =
    (case cJSON_Parse J content of None \<Rightarrow> (DUMP_FAIL, cfg)
     | Some root \<Rightarrow>
        (case cJSON_GetObjectItem J root ''task_configs'' of None \<Rightarrow> (DUMP_FAIL, cfg)
         | Some taskConfigs \<Rightarrow>
            if \<not> cJSON_IsObject J taskConfigs then (DUMP_FAIL, cfg)
            else (DUMP_OK, cfg\<lparr>taskEnableMap :=
                   fold (parse_task_item J) (cJSON_children J taskConfigs) (taskEnableMap cfg)\<rparr>)))"

definition ParseConfigFile ::
    "'j cJSON_api \<Rightarrow> (string \<Rightarrow> string option) \<Rightarrow> string \<Rightarrow> TaskEnableConfig
      \<Rightarrow> DumpStatus \<times> TaskEnableConfig" where
  "ParseConfigFile J read_file configPath cfg =
    (case read_file configPath of None \<Rightarrow> (DUMP_FAIL, cfg)
     | Some content \<Rightarrow> ParseJsonContent J content cfg)"

definition LoadFromConfig ::
    "'j cJSON_api \<Rightarrow> (string \<Rightarrow> string option) \<Rightarrow> string \<Rightarrow> TaskEnableConfig
      \<Rightarrow> DumpStatus \<times> TaskEnableConfig" where
  "LoadFromConfig J read_file configPath cfg =
    (if configLoaded cfg then (DUMP_OK, cfg)
     else case ParseConfigFile J read_file configPath cfg of
       (status, cfg') \<Rightarrow>
         if status = DUMP_OK then (status, cfg'\<lparr>configLoaded := True\<rparr>) else (status, cfg'))"

definition IsTaskEnabled :: "TaskEnableConfig \<Rightarrow> TaskId \<Rightarrow> bool" where
  "IsTaskEnabled cfg taskId =
    (if \<not> configLoaded cfg then True
     else case taskEnableMap cfg taskId of Some b \<Rightarrow> b | None \<Rightarrow> True)"

lemma ParseConfigFile_fail_unchanged:
  "ParseConfigFile J rf p cfg = (st, cfg') \<Longrightarrow> st \<noteq> DUMP_OK \<Longrightarrow> cfg' = cfg"
  by (auto simp: ParseConfigFile_def ParseJsonContent_def split: option.splits if_splits)

lemma ParseConfigFile_status:
  "ParseConfigFile J rf p cfg = (st, cfg') \<Longrightarrow> st = DUMP_OK \<or> st = DUMP_FAIL"
  by (auto simp: ParseConfigFile_def ParseJsonContent_def split: option.splits if_splits)

lemma LoadFromConfig_loaded:
  "LoadFromConfig J rf p cfg = (DUMP_OK, cfg') \<Longrightarrow> configLoaded cfg'"
  by (auto simp: LoadFromConfig_def split: if_splits prod.splits)

end
