(* ===== verification/Task_Topo.thy ===== *)
theory Task_Topo
  imports Task_Register
begin

text \<open>
  Task topologies of the task controller
  (\<^verbatim>\<open>src/frameworks/native/task/base/task_control.cpp\<close>): which tasks may run
  (\<open>SelectRunnableTasks\<close>), whether a topology can be run to the end (\<open>VerifyTaskTopo\<close>), and
  the breadth-first construction of the topology of a root task (\<open>BuildTaskTopo\<close> without its
  cache, which is in \<^verbatim>\<open>Task_Cache\<close>).
\<close>

section \<open>Failure counts\<close>

definition MAX_FAILURE_COUNT :: nat where
  "MAX_FAILURE_COUNT = 10"

definition UpdateTaskFailureCount ::
    "TaskId \<Rightarrow> bool \<Rightarrow> 'w TaskCollection \<Rightarrow> 'w TaskCollection" where
  "UpdateTaskFailureCount taskId reset c =
    (if taskId \<in> set (keys c)
     then modify taskId
            (\<lambda>i. if reset then i\<lparr>failureCount := 0\<rparr> else i\<lparr>failureCount := failureCount i + 1\<rparr>) c
     else c)"

definition IsTaskExcessivelyFailed :: "'w TaskCollection \<Rightarrow> TaskId \<Rightarrow> bool" where
  "IsTaskExcessivelyFailed c taskId =
    (case map_of c taskId of None \<Rightarrow> False | Some i \<Rightarrow> failureCount i \<ge> MAX_FAILURE_COUNT)"

section \<open>Selecting runnable tasks\<close>

definition UpdateTaskDependencies ::
    "'w TaskCollection \<Rightarrow> 'w TaskCollection \<Rightarrow> 'w TaskCollection" where
  "UpdateTaskDependencies tasks runnable =
    map (\<lambda>(k, i). (k, i\<lparr>taskDependency :=
          fold (\<lambda>p. removeAll (fst p)) runnable (taskDependency i)\<rparr>)) tasks"

text \<open>The erase loop: the runnable tasks and what stays, in iteration order.\<close>

fun select_loop ::
    "'w TaskCollection \<Rightarrow> 'w TaskCollection \<Rightarrow> 'w TaskCollection \<times> 'w TaskCollection" where
  "select_loop c [] = ([], [])"
| "select_loop c ((k, i) # ts) =
    (case select_loop c ts of (runnable, rest) \<Rightarrow>
       if IsTaskExcessivelyFailed c k then (runnable, rest)
       else if taskDependency i = [] then ((k, i) # runnable, rest)
       else (runnable, (k, i) # rest))"

definition SelectRunnableTasks ::
    "'w TaskCollection \<Rightarrow> 'w TaskCollection \<Rightarrow> 'w TaskCollection \<times> 'w TaskCollection" where
  "SelectRunnableTasks c tasks =
    (case select_loop c tasks of (runnable, rest) \<Rightarrow> (runnable, UpdateTaskDependencies rest runnable))"

lemma fold_removeAll: "fold (\<lambda>p. removeAll (fst p)) rs ds = filter (\<lambda>d. d \<notin> set (keys rs)) ds"
proof (induction rs arbitrary: ds)
  case Nil
  then show ?case by simp
next
  case (Cons r rs)
  then show ?case
    by (simp add: removeAll_filter_not_eq conj_commute) (metis (mono_tags, lifting) filter_cong)
qed

definition is_ready :: "'w TaskCollection \<Rightarrow> TaskId \<times> 'w RegTaskInfo \<Rightarrow> bool" where
  "is_ready c kv \<longleftrightarrow> \<not> IsTaskExcessivelyFailed c (fst kv) \<and> taskDependency (snd kv) = []"

definition is_waiting :: "'w TaskCollection \<Rightarrow> TaskId \<times> 'w RegTaskInfo \<Rightarrow> bool" where
  "is_waiting c kv \<longleftrightarrow> \<not> IsTaskExcessivelyFailed c (fst kv) \<and> taskDependency (snd kv) \<noteq> []"

definition drop_deps ::
    "TaskId set \<Rightarrow> TaskId \<times> 'w RegTaskInfo \<Rightarrow> TaskId \<times> 'w RegTaskInfo" where
  "drop_deps D kv =
    (fst kv, (snd kv)\<lparr>taskDependency := filter (\<lambda>d. d \<notin> D) (taskDependency (snd kv))\<rparr>)"

lemma fst_drop_deps [simp]: "fst (drop_deps D kv) = fst kv"
  by (simp add: drop_deps_def)

lemma deps_drop_deps [simp]:
  "taskDependency (snd (drop_deps D kv)) = filter (\<lambda>d. d \<notin> D) (taskDependency (snd kv))"
  by (simp add: drop_deps_def)

lemma keys_map_drop_deps [simp]: "keys (map (drop_deps D) ts) = keys ts"
  by (simp add: keys_def comp_def)

lemma select_loop_filter: "select_loop c ts = (filter (is_ready c) ts, filter (is_waiting c) ts)"
  by (induction c ts rule: select_loop.induct) (auto simp: is_ready_def is_waiting_def)

lemma SelectRunnableTasks_eq:
  "SelectRunnableTasks c ts =
    (filter (is_ready c) ts,
     map (drop_deps (set (keys (filter (is_ready c) ts)))) (filter (is_waiting c) ts))"
  by (simp add: SelectRunnableTasks_def select_loop_filter UpdateTaskDependencies_def
      fold_removeAll drop_deps_def case_prod_beta)

lemma length_ready_waiting:
  "length (filter (is_ready c) ts) + length (filter (is_waiting c) ts) \<le> length ts"
  by (induction ts) (auto simp: is_ready_def is_waiting_def)

lemma SelectRunnableTasks_shrinks:
  "SelectRunnableTasks c ts = (r, ts') \<Longrightarrow> r \<noteq> [] \<Longrightarrow> length ts' < length ts"
  using length_ready_waiting [of c ts] by (cases r) (auto simp: SelectRunnableTasks_eq)

section \<open>Verifying a topology\<close>

text \<open>
  The selection before the loop and the loop \<open>while (!runnableTasks.empty())\<close>: select until
  nothing is selected. The result is what is left in \<open>verifyTasks\<close>.
\<close>

function verify_loop :: "'w TaskCollection \<Rightarrow> 'w TaskCollection \<Rightarrow> 'w TaskCollection" where
  "verify_loop c verifyTasks =
    (case SelectRunnableTasks c verifyTasks of (runnableTasks, verifyTasks') \<Rightarrow>
       if runnableTasks = [] then verifyTasks' else verify_loop c verifyTasks')"
  by pat_completeness auto
termination
  by (relation "measure (\<lambda>(c, ts). length ts)") (auto dest: SelectRunnableTasks_shrinks [OF sym])

declare verify_loop.simps [simp del]

definition VerifyTaskTopo :: "'w TaskCollection \<Rightarrow> 'w TaskCollection \<Rightarrow> bool" where
  "VerifyTaskTopo c tasks = (if tasks = [] then False else verify_loop c tasks = [])"

section \<open>Building the topology of a root task\<close>

fun scan_deps ::
    "(TaskId \<Rightarrow> bool) \<Rightarrow> TaskId list \<Rightarrow> TaskId list \<Rightarrow> TaskId list
      \<Rightarrow> TaskId list \<times> TaskId list \<times> TaskId list" where
  "scan_deps enabled [] queue visited = ([], queue, visited)"
| "scan_deps enabled (d # ds) queue visited =
    (if \<not> enabled d then scan_deps enabled ds queue visited
     else if d \<notin> set visited then
       (case scan_deps enabled ds (queue @ [d]) (visited @ [d]) of
          (kept, queue', visited') \<Rightarrow> (d # kept, queue', visited'))
     else (case scan_deps enabled ds queue visited of
          (kept, queue', visited') \<Rightarrow> (d # kept, queue', visited')))"

lemma scan_deps_kept: "fst (scan_deps en ds q v) = filter en ds"
  by (induction en ds q v rule: scan_deps.induct) (auto split: prod.splits)

lemma scan_deps_new:
  "\<exists>new. fst (snd (scan_deps en ds q v)) = q @ new \<and> snd (snd (scan_deps en ds q v)) = v @ new
     \<and> distinct new \<and> set new = {d \<in> set ds. en d} - set v"
proof (induction en ds q v rule: scan_deps.induct)
  case (1 en q v)
  then show ?case by simp
next
  case (2 en d ds q v)
  then show ?case
  proof (cases "en d \<and> d \<notin> set v")
    case True
    with 2 obtain new where
      "fst (snd (scan_deps en ds (q @ [d]) (v @ [d]))) = q @ [d] @ new"
      "snd (snd (scan_deps en ds (q @ [d]) (v @ [d]))) = v @ [d] @ new"
      "distinct new" "set new = {d' \<in> set ds. en d'} - set (v @ [d])" by auto
    then show ?thesis using True
      by (cases "scan_deps en ds (q @ [d]) (v @ [d])") (auto intro!: exI [where x = "d # new"])
  next
    case False
    with 2 show ?thesis by (cases "scan_deps en ds q v") auto
  qed
qed

text \<open>Every dependency any registered task names: a bound for the search.\<close>

definition dep_universe :: "'w TaskCollection \<Rightarrow> TaskId set" where
  "dep_universe c = (\<Union>kv \<in> set c. set (taskDependency (snd kv)))"

lemma finite_dep_universe [simp]: "finite (dep_universe c)"
  by (simp add: dep_universe_def)

lemma map_of_deps_universe: "map_of c t = Some i \<Longrightarrow> set (taskDependency i) \<subseteq> dep_universe c"
  by (force simp: dep_universe_def dest: map_of_SomeD)

function bfs ::
    "'w TaskCollection \<Rightarrow> (TaskId \<Rightarrow> bool) \<Rightarrow> TaskId list \<Rightarrow> TaskId list
      \<Rightarrow> 'w TaskCollection \<Rightarrow> 'w TaskCollection \<Rightarrow> 'w TaskCollection \<times> 'w TaskCollection" where
  "bfs c enabled [] visited taskTopo independentTopo = (taskTopo, independentTopo)"
| "bfs c enabled (t # queue) visited taskTopo independentTopo =
    (case map_of c t of
       None \<Rightarrow> bfs c enabled queue visited taskTopo independentTopo
     | Some info \<Rightarrow>
        (case scan_deps enabled (taskDependency info) queue visited of
           (kept, queue', visited') \<Rightarrow>
             bfs c enabled queue' visited'
               (emplace t (info\<lparr>taskDependency := kept\<rparr>) taskTopo)
               (emplace t (info\<lparr>taskDependency := kept\<rparr>) independentTopo)))"
  by pat_completeness auto

text \<open>
  Each visited id enters the queue once, so the unvisited dependencies plus the queue shrink.
\<close>

lemma scan_deps_measure:
  assumes "scan_deps en ds q v = (kept, q', v')" and "set ds \<subseteq> U" and "finite U"
  shows "card (U - set v') + length q' = card (U - set v) + length q"
proof -
  obtain new where new: "q' = q @ new" "v' = v @ new" "distinct new"
      "set new = {d \<in> set ds. en d} - set v"
    using scan_deps_new [of en ds q v] assms(1) by auto
  have sub: "set new \<subseteq> U - set v" using new(4) assms(2) by auto
  have "U - set v' = (U - set v) - set new" using new(2) by auto
  then have "card (U - set v') = card (U - set v) - length new"
    using sub assms(3) new(3) by (simp add: card_Diff_subset distinct_card)
  moreover have "length new \<le> card (U - set v)"
    using sub assms(3) new(3) by (metis card_mono distinct_card finite_Diff)
  ultimately show ?thesis using new(1) by simp
qed

termination bfs
proof (relation "measure (\<lambda>(c, en, q, v, t, i). card (dep_universe c - set v) + length q)", goal_cases)
  case (3 c en t q v topo indep info kept y q' v')
  then show ?case
    using scan_deps_measure [of en "taskDependency info" q v kept q' v' "dep_universe c"]
      map_of_deps_universe [of c t info]
    by simp
qed simp_all

lemma bfs_skip:
  "map_of c t = None \<Longrightarrow> bfs c en (t # q) v topo indep = bfs c en q v topo indep"
  by simp

lemma bfs_step:
  "map_of c t = Some i \<Longrightarrow> scan_deps en (taskDependency i) q v = (kept, q', v')
    \<Longrightarrow> bfs c en (t # q) v topo indep =
        bfs c en q' v' (emplace t (i\<lparr>taskDependency := kept\<rparr>) topo)
          (emplace t (i\<lparr>taskDependency := kept\<rparr>) indep)"
  by simp

lemma bfs_induct [case_names Nil Skip Step]:
  fixes c :: "'w TaskCollection"
  assumes "\<And>(c :: 'w TaskCollection) en v topo indep. P c en [] v topo indep"
    and "\<And>c en t q v topo indep. map_of c t = None \<Longrightarrow> P c en q v topo indep
      \<Longrightarrow> P c en (t # q) v topo indep"
    and "\<And>c en t q v topo indep i kept q' v'. map_of c t = Some i
      \<Longrightarrow> scan_deps en (taskDependency i) q v = (kept, q', v')
      \<Longrightarrow> P c en q' v' (emplace t (i\<lparr>taskDependency := kept\<rparr>) topo)
            (emplace t (i\<lparr>taskDependency := kept\<rparr>) indep)
      \<Longrightarrow> P c en (t # q) v topo indep"
  shows "P c en q v topo indep"
proof (induction c en q v topo indep rule: bfs.induct)
  case (2 c en t q v topo indep)
  show ?case
  proof (cases "map_of c t")
    case None
    from assms(2) [OF this 2(1) [OF this]] show ?thesis .
  next
    case (Some i)
    obtain kept q' v' where sc: "scan_deps en (taskDependency i) q v = (kept, q', v')"
      by (metis prod_cases3)
    from assms(3) [OF Some sc 2(2) [OF Some sc [symmetric] refl]] show ?thesis .
  qed
qed (rule assms(1))

lemmas bfs_eqs = bfs.simps(1) bfs_skip bfs_step

declare bfs.simps [simp del]

definition build_topo ::
    "'w TaskCollection \<Rightarrow> (TaskId \<Rightarrow> bool) \<Rightarrow> TaskId \<Rightarrow> 'w TaskCollection
      \<Rightarrow> 'w TaskCollection \<times> 'w TaskCollection" where
  "build_topo c enabled rootTaskId taskTopo = bfs c enabled [rootTaskId] [rootTaskId] taskTopo []"

subsection \<open>The search visits exactly the reachable tasks\<close>

inductive dep_reach :: "'w TaskCollection \<Rightarrow> (TaskId \<Rightarrow> bool) \<Rightarrow> TaskId \<Rightarrow> TaskId \<Rightarrow> bool"
  for c enabled root where
  root: "dep_reach c enabled root root"
| dep: "dep_reach c enabled root t \<Longrightarrow> map_of c t = Some i \<Longrightarrow> d \<in> set (taskDependency i)
    \<Longrightarrow> enabled d \<Longrightarrow> dep_reach c enabled root d"

definition bfs_inv ::
    "'w TaskCollection \<Rightarrow> (TaskId \<Rightarrow> bool) \<Rightarrow> TaskId \<Rightarrow> TaskId list \<Rightarrow> TaskId list
      \<Rightarrow> 'w TaskCollection \<Rightarrow> bool" where
  "bfs_inv c en root q v indep \<longleftrightarrow>
     root \<in> set v \<and> distinct q \<and> set q \<subseteq> set v \<and> (\<forall>t \<in> set v. dep_reach c en root t)
     \<and> set (keys indep) = set (keys c) \<inter> (set v - set q)
     \<and> (\<forall>t \<in> set v - set q. \<forall>i d. map_of c t = Some i \<longrightarrow> d \<in> set (taskDependency i)
          \<longrightarrow> en d \<longrightarrow> d \<in> set v)"

lemma bfs_inv_start: "bfs_inv c en root [root] [root] []"
  by (simp add: bfs_inv_def dep_reach.root)

lemma bfs_inv_skip:
  assumes inv: "bfs_inv c en root (t # q) v indep" and t: "map_of c t = None"
  shows "bfs_inv c en root q v indep"
proof -
  have "set (keys indep) = set (keys c) \<inter> (set v - set q)"
    using inv t unfolding bfs_inv_def map_of_None_iff by auto
  moreover have "\<forall>s \<in> set v - set q. \<forall>i d. map_of c s = Some i \<longrightarrow> d \<in> set (taskDependency i)
      \<longrightarrow> en d \<longrightarrow> d \<in> set v"
  proof (intro ballI allI impI)
    fix s i d
    assume "s \<in> set v - set q" "map_of c s = Some i" "d \<in> set (taskDependency i)" "en d"
    moreover from this t have "s \<in> set v - set (t # q)" by auto
    ultimately show "d \<in> set v" using inv unfolding bfs_inv_def by blast
  qed
  moreover have "root \<in> set v" "distinct q" "set q \<subseteq> set v" "\<forall>t \<in> set v. dep_reach c en root t"
    using inv by (simp_all add: bfs_inv_def)
  ultimately show ?thesis unfolding bfs_inv_def by blast
qed

lemma bfs_inv_step:
  assumes inv: "bfs_inv c en root (t # q) v indep" and t: "map_of c t = Some i"
    and scan: "scan_deps en (taskDependency i) q v = (kept, q', v')"
  shows "bfs_inv c en root q' v' (emplace t i' indep)"
proof -
  obtain new where new: "q' = q @ new" "v' = v @ new" "distinct new"
      "set new = {d \<in> set (taskDependency i). en d} - set v"
    using scan_deps_new [of en "taskDependency i" q v] scan by auto
  have tk: "t \<in> set (keys c)" using t by (rule map_of_Some_key)
  have tv: "t \<in> set v" "t \<notin> set q" and reach: "dep_reach c en root t"
    using inv by (auto simp: bfs_inv_def)
  have r: "\<forall>d \<in> set new. dep_reach c en root d"
    using new(4) reach t by (auto intro: dep_reach.dep)
  have "set q \<subseteq> set v" "set new \<inter> set v = {}" using inv new(4) by (auto simp: bfs_inv_def)
  then have k: "set v' - set q' = insert t (set v - set (t # q))"
    using new(1,2) tv by auto
  have d: "distinct q'" "set q' \<subseteq> set v'" "root \<in> set v'" "\<forall>t \<in> set v'. dep_reach c en root t"
    using inv new r by (auto simp: bfs_inv_def)
  have keys: "set (keys (emplace t i' indep)) = set (keys c) \<inter> (set v' - set q')"
    unfolding k keys_emplace using inv tk by (auto simp: bfs_inv_def)
  have cl: "\<forall>s \<in> set v' - set q'. \<forall>j x. map_of c s = Some j \<longrightarrow> x \<in> set (taskDependency j)
      \<longrightarrow> en x \<longrightarrow> x \<in> set v'"
  proof (intro ballI allI impI)
    fix s j x
    assume s: "s \<in> set v' - set q'" "map_of c s = Some j" "x \<in> set (taskDependency j)" "en x"
    show "x \<in> set v'"
    proof (cases "s = t")
      case True
      with s t new show ?thesis by auto
    next
      case False
      with s(1) k have "s \<in> set v - set (t # q)" by blast
      with s inv have "x \<in> set v" unfolding bfs_inv_def by blast
      with new show ?thesis by simp
    qed
  qed
  show ?thesis using d keys cl by (simp add: bfs_inv_def)
qed

lemma bfs_inv_final:
  assumes "bfs_inv c en root [] v indep"
  shows "set (keys indep) = {t \<in> set (keys c). dep_reach c en root t}"
proof -
  have "dep_reach c en root t \<Longrightarrow> t \<in> set v" for t
  proof (induction rule: dep_reach.induct)
    case root
    then show ?case using assms by (simp add: bfs_inv_def)
  next
    case (dep t i d)
    then show ?case using assms unfolding bfs_inv_def by simp
  qed
  moreover have "\<forall>t \<in> set v. dep_reach c en root t" "set (keys indep) = set (keys c) \<inter> set v"
    using assms by (simp_all add: bfs_inv_def)
  ultimately show ?thesis by blast
qed

lemma bfs_reach:
  "bfs_inv c en root q v indep
    \<Longrightarrow> set (keys (snd (bfs c en q v topo indep))) = {t \<in> set (keys c). dep_reach c en root t}"
  by (induction c en q v topo indep rule: bfs_induct)
    (simp_all add: bfs_eqs bfs_inv_final bfs_inv_skip bfs_inv_step)

definition topo_entry_ok ::
    "'w TaskCollection \<Rightarrow> (TaskId \<Rightarrow> bool) \<Rightarrow> TaskId \<times> 'w RegTaskInfo \<Rightarrow> bool" where
  "topo_entry_ok c en kv \<longleftrightarrow> (\<exists>i. map_of c (fst kv) = Some i
      \<and> snd kv = i\<lparr>taskDependency := filter en (taskDependency i)\<rparr>)"

lemma topo_entry_kept:
  assumes "map_of c t = Some i" and "scan_deps en (taskDependency i) q v = (kept, q', v')"
  shows "topo_entry_ok c en (t, i\<lparr>taskDependency := kept\<rparr>)"
  using assms scan_deps_kept [of en "taskDependency i" q v] by (simp add: topo_entry_ok_def)

lemma bfs_entries:
  "list_all (topo_entry_ok c en) indep
    \<Longrightarrow> list_all (topo_entry_ok c en) (snd (bfs c en q v topo indep))"
  by (induction c en q v topo indep rule: bfs_induct)
    (simp_all add: bfs_eqs emplace_def topo_entry_kept)

lemma bfs_wf: "wf_map indep \<Longrightarrow> wf_map (snd (bfs c en q v topo indep))"
  by (induction c en q v topo indep rule: bfs_induct) (simp_all add: bfs_eqs wf_emplace)

subsection \<open>The two topologies the search fills agree\<close>

definition emplace_all :: "('k \<times> 'v) list \<Rightarrow> ('k \<times> 'v) list \<Rightarrow> ('k \<times> 'v) list" where
  "emplace_all ts m = fold (\<lambda>kv. emplace (fst kv) (snd kv)) ts m"

lemma keys_emplace_all: "set (keys (emplace_all ts m)) = set (keys m) \<union> set (keys ts)"
  by (induction ts arbitrary: m) (auto simp: emplace_all_def keys_emplace)

lemma wf_emplace_all [hd_invs]: "wf_map m \<Longrightarrow> wf_map (emplace_all ts m)"
  by (induction ts arbitrary: m) (auto simp: emplace_all_def wf_emplace)

lemma emplace_all_new: "distinct (keys m @ keys ts) \<Longrightarrow> emplace_all ts m = m @ ts"
  by (induction ts arbitrary: m) (auto simp: emplace_all_def emplace_def)

lemma emplace_all_self: "wf_map ts \<Longrightarrow> emplace_all ts [] = ts"
  using emplace_all_new [of "[]" ts] by simp

lemma emplace_all_emplace:
  "emplace_all (emplace k v ts) m = emplace k v (emplace_all ts m)"
proof (cases "k \<in> set (keys ts)")
  case True
  then have "k \<in> set (keys (emplace_all ts m))" by (simp add: keys_emplace_all)
  with True show ?thesis by (simp add: emplace_def)
next
  case False
  then show ?thesis by (simp add: emplace_def emplace_all_def)
qed

lemma bfs_topo:
  "topo = emplace_all indep topo0
    \<Longrightarrow> fst (bfs c en q v topo indep) = emplace_all (snd (bfs c en q v topo indep)) topo0"
  by (induction c en q v topo indep rule: bfs_induct) (simp_all add: bfs_eqs emplace_all_emplace)

lemma bfs_indep_topo: "snd (bfs c en q v topo indep) = snd (bfs c en q v topo' indep)"
  by (induction c en q v topo indep arbitrary: topo' rule: bfs_induct) (simp_all add: bfs_eqs)

lemma build_topo_reach:
  "set (keys (snd (build_topo c en root topo))) = {t \<in> set (keys c). dep_reach c en root t}"
  unfolding build_topo_def by (rule bfs_reach [OF bfs_inv_start])

lemma build_topo_entries: "list_all (topo_entry_ok c en) (snd (build_topo c en root topo))"
  unfolding build_topo_def by (rule bfs_entries) simp

lemma build_topo_wf: "wf_map (snd (build_topo c en root topo))"
  unfolding build_topo_def by (rule bfs_wf) simp

lemma build_topo_merge:
  "fst (build_topo c en root topo) = emplace_all (snd (build_topo c en root [])) topo"
proof -
  have "fst (build_topo c en root topo) = emplace_all (snd (build_topo c en root topo)) topo"
    unfolding build_topo_def by (rule bfs_topo) (simp add: emplace_all_def)
  also have "snd (build_topo c en root topo) = snd (build_topo c en root [])"
    unfolding build_topo_def by (rule bfs_indep_topo)
  finally show ?thesis .
qed

end
