(* ===== verification/Task_Verify.thy ===== *)
theory Task_Verify
  imports Task_Topo
begin

text \<open>
  What \<open>VerifyTaskTopo\<close> decides and the order in which a topology is run.

  A topology can be run to the end iff every task that is not switched off by its failure
  count depends only on tasks of the topology that are not switched off either, and these
  dependencies are well-founded: the existence of such a rank is equivalent to the answer of
  the loop. The levels the loop peels off are the levels \<open>ExecuteTaskInner\<close> submits.
\<close>

section \<open>The rank characterisation\<close>

definition live :: "'w TaskCollection \<Rightarrow> 'w TaskCollection \<Rightarrow> TaskId \<Rightarrow> bool" where
  "live c ts k \<longleftrightarrow> k \<in> set (keys ts) \<and> \<not> IsTaskExcessivelyFailed c k"

definition ranked :: "'w TaskCollection \<Rightarrow> 'w TaskCollection \<Rightarrow> (TaskId \<Rightarrow> nat) \<Rightarrow> bool" where
  "ranked c ts rank \<longleftrightarrow>
    (\<forall>kv \<in> set ts. \<not> IsTaskExcessivelyFailed c (fst kv) \<longrightarrow>
       (\<forall>d \<in> set (taskDependency (snd kv)). live c ts d \<and> rank d < rank (fst kv)))"

lemma rankedD:
  "ranked c ts rank \<Longrightarrow> (k, i) \<in> set ts \<Longrightarrow> \<not> IsTaskExcessivelyFailed c k
    \<Longrightarrow> d \<in> set (taskDependency i) \<Longrightarrow> live c ts d \<and> rank d < rank k"
  unfolding ranked_def by force

lemma rankedI:
  "(\<And>k i d. (k, i) \<in> set ts \<Longrightarrow> \<not> IsTaskExcessivelyFailed c k \<Longrightarrow> d \<in> set (taskDependency i)
     \<Longrightarrow> live c ts d \<and> rank d < rank k) \<Longrightarrow> ranked c ts rank"
  unfolding ranked_def by force

lemma Select_ready:
  "SelectRunnableTasks c ts = (r, ts') \<Longrightarrow> kv \<in> set r \<longleftrightarrow> kv \<in> set ts \<and> is_ready c kv"
  by (auto simp: SelectRunnableTasks_eq)

lemma Select_keys_rest:
  "SelectRunnableTasks c ts = (r, ts') \<Longrightarrow> keys ts' = keys (filter (is_waiting c) ts)"
  by (auto simp: SelectRunnableTasks_eq)

lemma Select_rest:
  "SelectRunnableTasks c ts = (r, ts') \<Longrightarrow> (k, i') \<in> set ts' \<longleftrightarrow>
    (\<exists>i. (k, i) \<in> set ts \<and> is_waiting c (k, i)
       \<and> i' = i\<lparr>taskDependency := filter (\<lambda>d. d \<notin> set (keys r)) (taskDependency i)\<rparr>)"
  by (auto simp: SelectRunnableTasks_eq drop_deps_def image_iff)

lemma Select_wf:
  "SelectRunnableTasks c ts = (r, ts') \<Longrightarrow> wf_map ts \<Longrightarrow> wf_map r \<and> wf_map ts'"
  by (auto simp: SelectRunnableTasks_eq wf_filter)

lemma ready_or_waiting: "\<not> IsTaskExcessivelyFailed c (fst kv) \<longleftrightarrow> is_ready c kv \<or> is_waiting c kv"
  by (auto simp: is_ready_def is_waiting_def)

text \<open>The keys of a well-formed topology split into the selected, the waiting and the dropped.\<close>

lemma Select_live_split:
  assumes sel: "SelectRunnableTasks c ts = (r, ts')"
  shows "live c ts k \<longleftrightarrow> k \<in> set (keys r) \<or> k \<in> set (keys ts')"
proof -
  have "live c ts k \<longleftrightarrow> (\<exists>i. (k, i) \<in> set ts \<and> (is_ready c (k, i) \<or> is_waiting c (k, i)))"
    by (auto simp: live_def in_keys_iff is_ready_def is_waiting_def)
  also have "\<dots> \<longleftrightarrow> k \<in> set (keys r) \<or> k \<in> set (keys ts')"
    using Select_ready [OF sel] Select_keys_rest [OF sel] by (auto simp: in_keys_iff)
  finally show ?thesis .
qed

lemma Select_live_rest:
  "SelectRunnableTasks c ts = (r, ts') \<Longrightarrow> live c ts' k \<longleftrightarrow> k \<in> set (keys ts')"
  using Select_live_split [of c ts r ts' k] by (auto simp: live_def)

lemma Select_disjoint:
  assumes sel: "SelectRunnableTasks c ts = (r, ts')" and wf: "wf_map ts"
  shows "set (keys r) \<inter> set (keys ts') = {}"
proof (rule ccontr)
  assume "set (keys r) \<inter> set (keys ts') \<noteq> {}"
  then obtain k i j where "(k, i) \<in> set ts" "is_ready c (k, i)" "(k, j) \<in> set ts" "is_waiting c (k, j)"
    using Select_ready [OF sel] by (auto simp: in_keys_iff Select_rest [OF sel])
  moreover from this wf have "i = j" by (metis map_of_Some_iff option.inject)
  ultimately show False by (simp add: is_ready_def is_waiting_def)
qed

lemma ranked_back:
  assumes sel: "SelectRunnableTasks c ts = (r, ts')" and wf: "wf_map ts"
    and rk: "ranked c ts' rank'"
  shows "ranked c ts (\<lambda>k. if k \<in> set (keys r) then 0 else Suc (rank' k))"
proof (rule rankedI)
  fix k i d
  assume ki: "(k, i) \<in> set ts" and alive: "\<not> IsTaskExcessivelyFailed c k"
    and d: "d \<in> set (taskDependency i)"
  then have w: "is_waiting c (k, i)" by (auto simp: is_waiting_def)
  let ?i' = "i\<lparr>taskDependency := filter (\<lambda>d. d \<notin> set (keys r)) (taskDependency i)\<rparr>"
  have ki': "(k, ?i') \<in> set ts'" using ki w by (auto simp: Select_rest [OF sel])
  then have "k \<in> set (keys ts')" unfolding in_keys_iff by blast
  then have kr: "k \<notin> set (keys r)" using Select_disjoint [OF sel wf] by blast
  show "live c ts d \<and> (if d \<in> set (keys r) then 0 else Suc (rank' d))
      < (if k \<in> set (keys r) then 0 else Suc (rank' k))"
  proof (cases "d \<in> set (keys r)")
    case True
    with kr show ?thesis by (simp add: Select_live_split [OF sel])
  next
    case False
    with d have "d \<in> set (taskDependency ?i')" by simp
    from rankedD [OF rk ki' alive this] have "live c ts' d" "rank' d < rank' k" by auto
    with False kr show ?thesis
      by (simp add: Select_live_split [OF sel] Select_live_rest [OF sel])
  qed
qed

lemma ranked_forward:
  assumes sel: "SelectRunnableTasks c ts = (r, ts')" and rk: "ranked c ts rank"
  shows "ranked c ts' rank"
proof (rule rankedI)
  fix k i' d
  assume k: "(k, i') \<in> set ts'" "\<not> IsTaskExcessivelyFailed c k" and d: "d \<in> set (taskDependency i')"
  then obtain i where i: "(k, i) \<in> set ts" "d \<in> set (taskDependency i)" "d \<notin> set (keys r)"
    by (auto simp: Select_rest [OF sel])
  from rankedD [OF rk i(1) k(2) i(2)] have "live c ts d" "rank d < rank k" by auto
  with i(3) show "live c ts' d \<and> rank d < rank k"
    by (simp add: Select_live_split [OF sel] Select_live_rest [OF sel])
qed

lemma ranked_ready_exists:
  assumes rk: "ranked c ts rank" and k: "live c ts k"
  shows "\<exists>kv \<in> set ts. is_ready c kv"
  using k
proof (induction "rank k" arbitrary: k rule: less_induct)
  case less
  then obtain i where i: "(k, i) \<in> set ts" "\<not> IsTaskExcessivelyFailed c k"
    by (auto simp: live_def in_keys_iff)
  show ?case
  proof (cases "taskDependency i")
    case Nil
    with i show ?thesis by (auto simp: is_ready_def intro!: bexI [where x = "(k, i)"])
  next
    case (Cons d ds)
    then have "live c ts d \<and> rank d < rank k" using rankedD [OF rk i] by simp
    then show ?thesis using less.hyps by blast
  qed
qed

lemma Select_empty_rest:
  assumes sel: "SelectRunnableTasks c ts = ([], ts')" and rk: "ranked c ts rank"
  shows "ts' = []"
proof (rule ccontr)
  assume "ts' \<noteq> []"
  then obtain k where "k \<in> set (keys ts')" by (cases ts') auto
  then have "live c ts k" by (simp add: Select_live_split [OF sel])
  from ranked_ready_exists [OF rk this] show False using Select_ready [OF sel] by auto
qed

lemma verify_loop_unfold:
  "SelectRunnableTasks c ts = (r, ts') \<Longrightarrow>
    verify_loop c ts = (if r = [] then ts' else verify_loop c ts')"
  by (subst verify_loop.simps) simp

lemma verify_loop_induct [case_names Stop Go]:
  fixes c :: "'w TaskCollection"
  assumes "\<And>(c :: 'w TaskCollection) ts ts'. SelectRunnableTasks c ts = ([], ts') \<Longrightarrow> P c ts"
    and "\<And>c ts r ts'. SelectRunnableTasks c ts = (r, ts') \<Longrightarrow> r \<noteq> [] \<Longrightarrow> P c ts' \<Longrightarrow> P c ts"
  shows "P c ts"
proof (induction c ts rule: verify_loop.induct)
  case (1 c ts)
  obtain r ts' where sel: "SelectRunnableTasks c ts = (r, ts')" by fastforce
  show ?case
  proof (cases "r = []")
    case True
    with sel assms(1) show ?thesis by blast
  next
    case False
    from assms(2) [OF sel False] 1 [OF sel [symmetric] False] show ?thesis by blast
  qed
qed

lemma verify_loop_ranked:
  "wf_map ts \<Longrightarrow> verify_loop c ts = [] \<Longrightarrow> \<exists>rank. ranked c ts rank"
proof (induction c ts rule: verify_loop_induct)
  case (Stop c ts ts')
  then have "ts' = []" by (simp add: verify_loop_unfold)
  with Stop(1) have "ranked c ts (\<lambda>_. 0)"
    by (auto intro!: rankedI simp: SelectRunnableTasks_eq filter_empty_conv is_waiting_def is_ready_def)
  then show ?case by blast
next
  case (Go c ts r ts')
  then obtain rank' where "ranked c ts' rank'"
    using Select_wf by (fastforce simp: verify_loop_unfold)
  from ranked_back [OF Go(1) Go(4) this] show ?case by blast
qed

lemma ranked_verify_loop: "ranked c ts rank \<Longrightarrow> verify_loop c ts = []"
proof (induction c ts rule: verify_loop_induct)
  case (Stop c ts ts')
  then show ?case by (simp add: verify_loop_unfold Select_empty_rest)
next
  case (Go c ts r ts')
  then show ?case by (simp add: verify_loop_unfold ranked_forward)
qed

theorem VerifyTaskTopo_iff_ranked:
  "wf_map ts \<Longrightarrow> VerifyTaskTopo c ts \<longleftrightarrow> ts \<noteq> [] \<and> (\<exists>rank. ranked c ts rank)"
  by (auto simp: VerifyTaskTopo_def verify_loop_ranked dest: ranked_verify_loop)

lemma VerifyTaskTopo_dead_dep:
  assumes "wf_map ts" and "(k, i) \<in> set ts" and "\<not> IsTaskExcessivelyFailed c k"
    and "d \<in> set (taskDependency i)" and "\<not> live c ts d"
  shows "\<not> VerifyTaskTopo c ts"
  using assms by (auto simp: VerifyTaskTopo_iff_ranked dest: rankedD)

end
