(* ===== verification/Task_Cache.thy ===== *)
theory Task_Cache
  imports Task_Topo
begin

text \<open>
  The least-recently-used cache of task topologies
  (\<open>GetCachedTaskTopo\<close>, \<open>CacheTaskTopo\<close>, \<open>EvictOldCache\<close>, \<open>MoveToFront\<close> of
  \<^verbatim>\<open>src/frameworks/native/task/base/task_control.cpp\<close>) and \<open>BuildTaskTopo\<close>, which goes
  through it.

  \<open>lruMap\<close> holds iterators into \<open>lruList\<close>. A list node is a pair of a node number and a task
  id, an iterator is a node number, and \<open>nextNode\<close> is a number no node has used.
\<close>

section \<open>The cache\<close>

definition MAX_CACHE_SIZE :: nat where
  "MAX_CACHE_SIZE = 10"

record 'w TopoCache =
  lruList :: "(nat \<times> TaskId) list"
  lruMap :: "TaskId \<rightharpoonup> nat"
  taskTopoCache :: "(TaskId \<times> 'w TaskCollection) list"
  nextNode :: nat

definition TopoCache_init :: "'w TopoCache" where
  "TopoCache_init = \<lparr>lruList = [], lruMap = Map.empty, taskTopoCache = [], nextNode = 0\<rparr>"

definition EvictOldCache :: "'w TopoCache \<Rightarrow> 'w TopoCache" where
  "EvictOldCache s =
    (if lruList s = [] then s
     else let oldestTaskId = snd (last (lruList s)) in
       s\<lparr>lruList := butlast (lruList s),
         lruMap := (lruMap s)(oldestTaskId := None),
         taskTopoCache := erase_key oldestTaskId (taskTopoCache s)\<rparr>)"

definition MoveToFront :: "TaskId \<Rightarrow> 'w TopoCache \<Rightarrow> 'w TopoCache" where
  "MoveToFront rootTaskId s =
    (case lruMap s rootTaskId of None \<Rightarrow> s
     | Some it \<Rightarrow>
        s\<lparr>lruList := (nextNode s, rootTaskId) # filter (\<lambda>n. fst n \<noteq> it) (lruList s),
          lruMap := (lruMap s)(rootTaskId \<mapsto> nextNode s),
          nextNode := nextNode s + 1\<rparr>)"

definition GetCachedTaskTopo :: "TaskId \<Rightarrow> 'w TopoCache \<Rightarrow> 'w TaskCollection option \<times> 'w TopoCache" where
  "GetCachedTaskTopo rootTaskId s =
    (case map_of (taskTopoCache s) rootTaskId of
       None \<Rightarrow> (None, s) | Some topo \<Rightarrow> (Some topo, MoveToFront rootTaskId s))"

definition cache_assign :: "'k \<Rightarrow> 'v \<Rightarrow> ('k \<times> 'v) list \<Rightarrow> ('k \<times> 'v) list" where
  "cache_assign k v m = modify k (\<lambda>_. v) (emplace k v m)"

definition CacheTaskTopo :: "TaskId \<Rightarrow> 'w TaskCollection \<Rightarrow> 'w TopoCache \<Rightarrow> 'w TopoCache" where
  "CacheTaskTopo rootTaskId taskTopo s =
    (let s1 = (if length (taskTopoCache s) \<ge> MAX_CACHE_SIZE then EvictOldCache s else s) in
     s1\<lparr>taskTopoCache := cache_assign rootTaskId taskTopo (taskTopoCache s1),
        lruList := (nextNode s1, rootTaskId) # lruList s1,
        lruMap := (lruMap s1)(rootTaskId \<mapsto> nextNode s1),
        nextNode := nextNode s1 + 1\<rparr>)"

definition BuildTaskTopo ::
    "'w TaskCollection \<Rightarrow> (TaskId \<Rightarrow> bool) \<Rightarrow> TaskId \<Rightarrow> 'w TaskCollection \<times> 'w TopoCache
      \<Rightarrow> 'w TaskCollection \<times> 'w TopoCache" where
  "BuildTaskTopo container enabled rootTaskId st =
    (case st of (taskTopo, s) \<Rightarrow>
      (case GetCachedTaskTopo rootTaskId s of
         (Some cachedTopo, s') \<Rightarrow> (emplace_all cachedTopo taskTopo, s')
       | (None, s') \<Rightarrow>
          (case build_topo container enabled rootTaskId taskTopo of
             (taskTopo', independentTopo) \<Rightarrow>
               (taskTopo', CacheTaskTopo rootTaskId independentTopo s'))))"

section \<open>The cache invariant\<close>

definition lru_inv :: "'w TopoCache \<Rightarrow> bool" where
  "lru_inv s \<longleftrightarrow>
     distinct (map fst (lruList s)) \<and> distinct (map snd (lruList s))
     \<and> (\<forall>n \<in> set (map fst (lruList s)). n < nextNode s)
     \<and> (\<forall>t n. lruMap s t = Some n \<longleftrightarrow> (n, t) \<in> set (lruList s))
     \<and> wf_map (taskTopoCache s)
     \<and> set (keys (taskTopoCache s)) = set (map snd (lruList s))
     \<and> length (taskTopoCache s) \<le> MAX_CACHE_SIZE"

lemma lru_inv_init [hd_invs]: "lru_inv TopoCache_init"
  by (simp add: lru_inv_def TopoCache_init_def)

lemma keys_cache_assign: "set (keys (cache_assign k v m)) = insert k (set (keys m))"
  by (simp add: cache_assign_def keys_emplace)

lemma wf_cache_assign: "wf_map m \<Longrightarrow> wf_map (cache_assign k v m)"
  by (simp add: cache_assign_def wf_emplace)

lemma map_of_cache_assign: "map_of (cache_assign k v m) = (map_of m)(k \<mapsto> v)"
  by (auto simp: cache_assign_def map_of_modify map_of_emplace fun_eq_iff map_of_None_iff
      dest: map_of_Some_key split: option.splits) (metis map_of_None_iff not_None_eq option.map(2))

lemma length_cache_assign: "k \<notin> set (keys m) \<Longrightarrow> length (cache_assign k v m) = Suc (length m)"
  by (simp add: cache_assign_def modify_def emplace_def)

lemma lru_inv_lengths: "lru_inv s \<Longrightarrow> length (taskTopoCache s) = length (lruList s)"
  unfolding lru_inv_def by (metis distinct_card length_keys length_map)

lemma lru_inv_MoveToFront [hd_invs]:
  assumes inv: "lru_inv s"
  shows "lru_inv (MoveToFront t s)"
proof (cases "lruMap s t")
  case None
  with inv show ?thesis by (simp add: MoveToFront_def)
next
  case (Some it)
  define L where "L = filter (\<lambda>n. fst n \<noteq> it) (lruList s)"
  have it: "(it, t) \<in> set (lruList s)" using inv Some by (simp add: lru_inv_def)
  have uniq: "n = it \<longleftrightarrow> x = t" if nx: "(n, x) \<in> set (lruList s)" for n x
  proof
    assume "n = it"
    moreover have "distinct (map fst (lruList s))" using inv by (simp add: lru_inv_def)
    ultimately show "x = t" using it nx by (metis eq_key_imp_eq_value)
  next
    assume "x = t"
    with nx have "lruMap s t = Some n" using inv by (simp add: lru_inv_def)
    with Some show "n = it" by simp
  qed
  have l: "set L = {p \<in> set (lruList s). snd p \<noteq> t}" unfolding L_def by (auto dest: uniq)
  have d: "distinct (map fst L)" "distinct (map snd L)"
    using inv by (auto simp: L_def lru_inv_def distinct_map_filter)
  have fresh: "nextNode s \<notin> fst ` set L" "\<forall>n \<in> fst ` set L. n < nextNode s"
    using inv by (auto simp: L_def lru_inv_def)
  have keys: "set (keys (taskTopoCache s)) = insert t (snd ` set L)"
  proof -
    have "set (keys (taskTopoCache s)) = snd ` set (lruList s)" using inv by (simp add: lru_inv_def)
    moreover have "snd ` set (lruList s) = insert t (snd ` {p \<in> set (lruList s). snd p \<noteq> t})"
      using it by force
    ultimately show ?thesis unfolding l by simp
  qed
  have mp: "((lruMap s)(t \<mapsto> nextNode s)) x = Some n
      \<longleftrightarrow> (n, x) = (nextNode s, t) \<or> (n, x) \<in> set L" for x n
    using inv unfolding l lru_inv_def by auto
  have t: "t \<notin> snd ` set L" unfolding l by auto
  have m: "MoveToFront t s = s\<lparr>lruList := (nextNode s, t) # L,
      lruMap := (lruMap s)(t \<mapsto> nextNode s), nextNode := nextNode s + 1\<rparr>"
    by (simp add: MoveToFront_def Some L_def)
  have c: "wf_map (taskTopoCache s)" "length (taskTopoCache s) \<le> MAX_CACHE_SIZE"
    using inv by (simp_all add: lru_inv_def)
  show ?thesis
    unfolding m lru_inv_def using d fresh keys mp c t by (simp add: less_Suc_eq)
qed

lemma lru_inv_Evict:
  assumes inv: "lru_inv s" and ne: "lruList s \<noteq> []"
  shows "lru_inv (EvictOldCache s)" and "length (taskTopoCache (EvictOldCache s)) < length (taskTopoCache s)"
proof -
  obtain l it old where l: "lruList s = l @ [(it, old)]"
    using ne by (metis append_butlast_last_id surj_pair)
  have e: "EvictOldCache s = s\<lparr>lruList := l, lruMap := (lruMap s)(old := None),
      taskTopoCache := erase_key old (taskTopoCache s)\<rparr>"
    by (simp add: EvictOldCache_def l)
  have old: "old \<notin> snd ` set l" "it \<notin> fst ` set l" using inv by (simp_all add: lru_inv_def l)
  have mp: "((lruMap s)(old := None)) t = Some n \<longleftrightarrow> (n, t) \<in> set l" for t n
    using inv old by (auto simp: lru_inv_def l image_iff)
  have keys: "set (keys (erase_key old (taskTopoCache s))) = snd ` set l"
    using inv old by (auto simp: lru_inv_def l keys_erase)
  have wf: "wf_map (erase_key old (taskTopoCache s))"
    using inv by (simp add: lru_inv_def keys_erase)
  have "length (erase_key old (taskTopoCache s)) = length l"
    using wf keys inv by (metis (no_types, lifting) distinct_append distinct_card length_keys
        length_map list.set_map lru_inv_def map_append l)
  moreover have "length (taskTopoCache s) = Suc (length l)" using lru_inv_lengths [OF inv] l by simp
  ultimately show "length (taskTopoCache (EvictOldCache s)) < length (taskTopoCache s)"
    and "lru_inv (EvictOldCache s)"
    using inv mp keys wf by (simp_all add: e lru_inv_def l)
qed

lemma lru_inv_insert:
  assumes inv: "lru_inv s" and new: "t \<notin> set (keys (taskTopoCache s))"
    and room: "length (taskTopoCache s) < MAX_CACHE_SIZE"
  shows "lru_inv (s\<lparr>taskTopoCache := cache_assign t topo (taskTopoCache s),
        lruList := (nextNode s, t) # lruList s, lruMap := (lruMap s)(t \<mapsto> nextNode s),
        nextNode := nextNode s + 1\<rparr>)"
proof -
  have nt: "t \<notin> snd ` set (lruList s)" using inv new by (simp add: lru_inv_def)
  have fresh: "nextNode s \<notin> fst ` set (lruList s)" using inv by (auto simp: lru_inv_def)
  have mp: "((lruMap s)(t \<mapsto> nextNode s)) x = Some n
      \<longleftrightarrow> (n, x) = (nextNode s, t) \<or> (n, x) \<in> set (lruList s)" for x n
    using inv nt by (force simp: lru_inv_def)
  show ?thesis
    using inv nt fresh mp room new
    by (simp add: lru_inv_def keys_cache_assign wf_cache_assign length_cache_assign less_Suc_eq)
qed

lemma EvictOldCache_keys: "set (keys (taskTopoCache (EvictOldCache s))) \<subseteq> set (keys (taskTopoCache s))"
  by (auto simp: EvictOldCache_def Let_def keys_erase)

lemma lru_inv_CacheTaskTopo [hd_invs]:
  assumes inv: "lru_inv s" and new: "t \<notin> set (keys (taskTopoCache s))"
  shows "lru_inv (CacheTaskTopo t topo s)"
proof (cases "length (taskTopoCache s) \<ge> MAX_CACHE_SIZE")
  case True
  then have "lruList s \<noteq> []" using lru_inv_lengths [OF inv] by (auto simp: MAX_CACHE_SIZE_def)
  from lru_inv_Evict [OF inv this] EvictOldCache_keys [of s] new True inv
  have "lru_inv (EvictOldCache s)" "t \<notin> set (keys (taskTopoCache (EvictOldCache s)))"
    "length (taskTopoCache (EvictOldCache s)) < MAX_CACHE_SIZE"
    by (auto simp: lru_inv_def)
  from lru_inv_insert [OF this] True show ?thesis by (simp add: CacheTaskTopo_def Let_def)
next
  case False
  then show ?thesis using lru_inv_insert [OF inv new] by (simp add: CacheTaskTopo_def)
qed

lemma MoveToFront_cache [simp]: "taskTopoCache (MoveToFront t s) = taskTopoCache s"
  by (simp add: MoveToFront_def split: option.splits)

section \<open>Memoisation through the cache\<close>

text \<open>
  The contract \<open>BuildTaskTopo\<close> relies on: a hit returns what the cache holds and changes no
  content, a stored value is found, and storing or evicting never makes up an entry.
\<close>

locale memo_cache =
  fixes get :: "'k \<Rightarrow> 's \<Rightarrow> 'v option \<times> 's"
    and put :: "'k \<Rightarrow> 'v \<Rightarrow> 's \<Rightarrow> 's"
    and content :: "'s \<Rightarrow> 'k \<Rightarrow> 'v option"
    and ok :: "'s \<Rightarrow> bool"
  assumes get_value: "fst (get k s) = content s k"
    and get_content: "content (snd (get k s)) = content s"
    and get_ok: "ok s \<Longrightarrow> ok (snd (get k s))"
    and put_content: "content (put k v s) k = Some v"
    and put_sub: "content (put k v s) x = Some w \<Longrightarrow> x \<noteq> k \<Longrightarrow> content s x = Some w"
    and put_ok: "ok s \<Longrightarrow> content s k = None \<Longrightarrow> ok (put k v s)"
begin

definition memo :: "('k \<Rightarrow> 'v) \<Rightarrow> 'k \<Rightarrow> 's \<Rightarrow> 'v \<times> 's" where
  "memo f k s = (case get k s of (Some v, s') \<Rightarrow> (v, s') | (None, s') \<Rightarrow> (f k, put k (f k) s'))"

definition agrees :: "('k \<Rightarrow> 'v) \<Rightarrow> 's \<Rightarrow> bool" where
  "agrees f s \<longleftrightarrow> (\<forall>k v. content s k = Some v \<longrightarrow> v = f k)"

lemma memo_value: "agrees f s \<Longrightarrow> fst (memo f k s) = f k"
  using get_value [of k s] by (auto simp: memo_def agrees_def split: prod.splits option.splits)

lemma memo_agrees: "agrees f s \<Longrightarrow> agrees f (snd (memo f k s))"
proof (cases "get k s")
  case (Pair v s')
  assume a: "agrees f s"
  with get_content [of k s] Pair have s': "agrees f s'" by (simp add: agrees_def)
  have "agrees f (put k (f k) s')"
    unfolding agrees_def
  proof (intro allI impI)
    fix x w
    assume w: "content (put k (f k) s') x = Some w"
    show "w = f x"
    proof (cases "x = k")
      case True
      with w put_content [of k "f k" s'] show ?thesis by simp
    next
      case False
      from put_sub [OF w this] s' show ?thesis by (simp add: agrees_def)
    qed
  qed
  with s' Pair show ?thesis by (simp add: memo_def split: option.splits)
qed

lemma memo_ok: "ok s \<Longrightarrow> ok (snd (memo f k s))"
  using get_value [of k s] get_content [of k s] get_ok [of s k] put_ok
  by (auto simp: memo_def split: prod.splits option.splits)

end

lemma map_of_erase_key: "map_of (erase_key k m) = (map_of m)(k := None)"
  by (induction m) (auto simp: erase_key_def)

interpretation topo_memo: memo_cache GetCachedTaskTopo CacheTaskTopo
  "\<lambda>s. map_of (taskTopoCache s)" lru_inv
proof
  show "fst (GetCachedTaskTopo k s) = map_of (taskTopoCache s) k" for k and s :: "'a TopoCache"
    by (simp add: GetCachedTaskTopo_def split: option.splits)
  show "map_of (taskTopoCache (snd (GetCachedTaskTopo k s))) = map_of (taskTopoCache s)"
    for k and s :: "'a TopoCache"
    by (simp add: GetCachedTaskTopo_def split: option.splits)
  show "lru_inv s \<Longrightarrow> lru_inv (snd (GetCachedTaskTopo k s))" for k and s :: "'a TopoCache"
    by (simp add: GetCachedTaskTopo_def lru_inv_MoveToFront split: option.splits)
  show "map_of (taskTopoCache (CacheTaskTopo k v s)) k = Some v" for k v and s :: "'a TopoCache"
    by (simp add: CacheTaskTopo_def Let_def map_of_cache_assign)
  show "map_of (taskTopoCache (CacheTaskTopo k v s)) x = Some w \<Longrightarrow> x \<noteq> k
      \<Longrightarrow> map_of (taskTopoCache s) x = Some w" for k v x w and s :: "'a TopoCache"
    by (auto simp: CacheTaskTopo_def EvictOldCache_def Let_def map_of_cache_assign map_of_erase_key
        split: if_splits)
  show "lru_inv s \<Longrightarrow> map_of (taskTopoCache s) k = None \<Longrightarrow> lru_inv (CacheTaskTopo k v s)"
    for k v and s :: "'a TopoCache"
    by (simp add: lru_inv_CacheTaskTopo map_of_None_iff)
qed

text \<open>\<open>BuildTaskTopo\<close> merges the memoised independent topology into the caller's topology.\<close>

abbreviation root_topo :: "'w TaskCollection \<Rightarrow> (TaskId \<Rightarrow> bool) \<Rightarrow> TaskId \<Rightarrow> 'w TaskCollection" where
  "root_topo c en root \<equiv> snd (build_topo c en root [])"

lemma BuildTaskTopo_memo:
  "BuildTaskTopo c en root (topo, s) =
    (emplace_all (fst (topo_memo.memo (root_topo c en) root s)) topo,
     snd (topo_memo.memo (root_topo c en) root s))"
proof (cases "GetCachedTaskTopo root s")
  case (Pair v s')
  have i: "snd (build_topo c en root topo) = root_topo c en root"
    unfolding build_topo_def by (rule bfs_indep_topo)
  show ?thesis
  proof (cases v)
    case None
    with Pair i show ?thesis
      by (simp add: BuildTaskTopo_def topo_memo.memo_def case_prod_beta build_topo_merge)
  next
    case (Some t)
    with Pair show ?thesis by (simp add: BuildTaskTopo_def topo_memo.memo_def)
  qed
qed

lemma BuildTaskTopo_cached:
  assumes "topo_memo.agrees (root_topo c en) s"
  shows "fst (BuildTaskTopo c en root (topo, s)) = emplace_all (root_topo c en root) topo"
    and "topo_memo.agrees (root_topo c en) (snd (BuildTaskTopo c en root (topo, s)))"
  using topo_memo.memo_value [OF assms] topo_memo.memo_agrees [OF assms]
  by (simp_all add: BuildTaskTopo_memo)

lemma BuildTaskTopo_inv [hd_invs]:
  "lru_inv s \<Longrightarrow> lru_inv (snd (BuildTaskTopo c en root (topo, s)))"
  by (simp add: BuildTaskTopo_memo topo_memo.memo_ok)

end
