(* ===== verification/Task_Exec.thy ===== *)
theory Task_Exec
  imports Task_Verify Task_Cache "HOL-Library.Multiset" "HOL-Library.Monad_Syntax"
begin

text \<open>
  Execution of a task topology: \<open>ExecuteSingleTask\<close>, \<open>HandleTaskRetry\<close>,
  \<open>SubmitRunnableTasks\<close>, \<open>ExecuteTaskInner\<close> and \<open>ExecuteTask\<close> of
  \<^verbatim>\<open>src/frameworks/native/task/base/task_control.cpp\<close>.

  The tasks of one level are submitted to a thread pool and waited for. The model runs them one
  after the other in an order \<open>sched\<close> chooses (any permutation of the level), which is the
  concurrency the shared state allows at the granularity of a task: the inventory is guarded by
  a lock and each task writes its own registry entry and its own slot of the statistics.
  Calling an empty \<open>std::function\<close> throws, so operations that may do it return an \<open>option\<close>;
  \<open>ExecuteSingleTask_total\<close> shows that it never happens. The build without
  \<^verbatim>\<open>HIDUMPER_DFX\<close> is modelled, in which the statistics hold status and mandatory flag only;
  \<open>statId\<close> names the task of a slot (its index in the code).
\<close>

section \<open>One task\<close>

definition CreateTask :: "'w RegTaskInfo \<Rightarrow> 'w RunState \<Rightarrow> 'w Task option" where
  "CreateTask taskInfo rs = (case creator taskInfo of None \<Rightarrow> None | Some f \<Rightarrow> f rs)"

definition HandleTaskRetry ::
    "TaskId \<Rightarrow> 'w RegTaskInfo \<Rightarrow> DumpContext \<Rightarrow> 'w TaskCollection \<times> 'w RunState
      \<Rightarrow> (DumpStatus \<times> 'w TaskCollection \<times> 'w RunState) option" where
  "HandleTaskRetry taskId taskInfo ctx st =
    (case st of (c, rs) \<Rightarrow>
      (case creator taskInfo of None \<Rightarrow> None
       | Some f \<Rightarrow>
          (case f rs of
             None \<Rightarrow> Some (DUMP_FAIL, UpdateTaskFailureCount taskId False c, rs)
           | Some task \<Rightarrow>
              (case Run task ctx rs of (dumpStatus, rs') \<Rightarrow>
                 if dumpStatus \<noteq> DUMP_OK
                 then Some (dumpStatus, UpdateTaskFailureCount taskId False c, rs')
                 else Some (dumpStatus, UpdateTaskFailureCount taskId True c, rs')))))"

definition ExecuteSingleTask ::
    "TaskId \<Rightarrow> 'w RegTaskInfo \<Rightarrow> DumpContext \<Rightarrow> 'w TaskCollection \<times> 'w RunState
      \<Rightarrow> (DumpStatus \<times> 'w TaskCollection \<times> 'w RunState) option" where
  "ExecuteSingleTask taskId taskInfo ctx st =
    (case st of (c, rs) \<Rightarrow>
      (case CreateTask taskInfo rs of None \<Rightarrow> Some (DUMP_FAIL, c, rs)
       | Some task \<Rightarrow>
          (case Run task ctx rs of (dumpStatus, rs') \<Rightarrow>
             if dumpStatus \<noteq> DUMP_OK then HandleTaskRetry taskId taskInfo ctx (c, rs')
             else Some (dumpStatus, UpdateTaskFailureCount taskId True c, rs'))))"

section \<open>One level\<close>

record TaskStatistcs =
  statId :: TaskId
  dumpStatus :: DumpStatus
  statMandatory :: bool

record LevelStat =
  executeResult :: bool
  taskStats :: "TaskStatistcs list"

fun run_level ::
    "DumpContext \<Rightarrow> 'w TaskCollection \<Rightarrow> 'w TaskCollection \<times> 'w RunState
      \<Rightarrow> ((TaskId \<times> DumpStatus) list \<times> 'w TaskCollection \<times> 'w RunState) option" where
  "run_level ctx [] st = Some ([], st)"
| "run_level ctx ((k, i) # ts) st = do {
     (s, st') \<leftarrow> ExecuteSingleTask k i ctx st;
     (rest, st'') \<leftarrow> run_level ctx ts st';
     Some ((k, s) # rest, st'')
   }"

text \<open>A slot nobody wrote is zero-initialised, and 0 is \<open>DUMP_OK\<close>.\<close>

definition SubmitRunnableTasks ::
    "('w TaskCollection \<Rightarrow> 'w TaskCollection) \<Rightarrow> DumpContext \<Rightarrow> 'w TaskCollection
      \<Rightarrow> 'w TaskCollection \<times> 'w RunState
      \<Rightarrow> (TaskStatistcs list \<times> 'w TaskCollection \<times> 'w RunState) option" where
  "SubmitRunnableTasks sched ctx tasks st = do {
     (results, st') \<leftarrow> run_level ctx (sched tasks) st;
     Some (map (\<lambda>(k, i). \<lparr>statId = k,
         dumpStatus = (case map_of results k of None \<Rightarrow> DUMP_OK | Some s \<Rightarrow> s),
         statMandatory = mandatory i\<rparr>) tasks, st')
   }"

definition GetTaskResult :: "TaskStatistcs list \<Rightarrow> LevelStat list \<Rightarrow> bool \<times> LevelStat list" where
  "GetTaskResult stat allLevelStats =
    (let result = list_all (\<lambda>node. \<not> (dumpStatus node \<noteq> DUMP_OK \<and> statMandatory node)) stat in
     (result, allLevelStats @ [\<lparr>executeResult = result, taskStats = stat\<rparr>]))"

definition ReleaseNoUsedData :: "'w TaskCollection \<Rightarrow> 'w RunState \<Rightarrow> 'w RunState" where
  "ReleaseNoUsedData tasks rs =
    rs\<lparr>inventory := snd (RemoveRestData (inventory rs)
         (\<Union>t \<in> set tasks. set (dataDependency (snd t))))\<rparr>"

section \<open>All levels\<close>

function ExecuteTaskInner ::
    "('w TaskCollection \<Rightarrow> 'w TaskCollection) \<Rightarrow> DumpContext \<Rightarrow> 'w TaskCollection
      \<Rightarrow> 'w TaskCollection \<times> 'w RunState \<Rightarrow> LevelStat list
      \<Rightarrow> (DumpStatus \<times> ('w TaskCollection \<times> 'w RunState) \<times> LevelStat list) option" where
  "ExecuteTaskInner sched ctx tasks st stats =
    (case SelectRunnableTasks (fst st) tasks of (runnableTasks, tasks') \<Rightarrow>
       if runnableTasks = [] then Some (DUMP_OK, st, stats)
       else (case SubmitRunnableTasks sched ctx runnableTasks st of None \<Rightarrow> None
             | Some (stat, c', rs') \<Rightarrow>
                 (case GetTaskResult stat stats of (ret, stats') \<Rightarrow>
                    if \<not> ret then Some (DUMP_FAIL, (c', rs'), stats')
                    else ExecuteTaskInner sched ctx tasks' (c', ReleaseNoUsedData tasks' rs') stats')))"
  by pat_completeness auto
termination
  by (relation "measure (\<lambda>(s, ctx, ts, st, stats). length ts)")
    (auto dest: SelectRunnableTasks_shrinks [OF sym])

declare ExecuteTaskInner.simps [simp del]

section \<open>From root tasks to execution\<close>

text \<open>The loop over \<open>taskIds\<close>; \<open>None\<close> is the early \<open>return DUMP_FAIL\<close>.\<close>

fun collect_topo ::
    "'w TaskCollection \<Rightarrow> (TaskId \<Rightarrow> bool) \<Rightarrow> TaskId option \<Rightarrow> TaskId list
      \<Rightarrow> 'w TaskCollection \<times> 'w TopoCache \<Rightarrow> ('w TaskCollection \<times> 'w TopoCache) option" where
  "collect_topo c enabled prev [] st = Some st"
| "collect_topo c enabled prev (t # ts) st =
    (if t \<le> ROOT_TASK_START then None
     else if \<not> enabled t then collect_topo c enabled (Some t) ts st
     else (case BuildTaskTopo c enabled t st of (topo, cache) \<Rightarrow>
       collect_topo c enabled (Some t) ts
         ((case prev of
             Some p \<Rightarrow> if t \<in> set (keys topo)
                       then modify t (\<lambda>i. i\<lparr>taskDependency := hm_insert p (taskDependency i)\<rparr>) topo
                       else topo
           | None \<Rightarrow> topo), cache)))"

record 'w TaskControl =
  container :: "'w TaskCollection"
  topoCache :: "'w TopoCache"
  enableConfig :: TaskEnableConfig

definition ExecuteTask ::
    "('w TaskCollection \<Rightarrow> 'w TaskCollection) \<Rightarrow> TaskId list \<Rightarrow> DumpContext
      \<Rightarrow> 'w TaskControl \<Rightarrow> 'w RunState
      \<Rightarrow> (DumpStatus \<times> 'w TaskControl \<times> 'w RunState \<times> LevelStat list) option" where
  "ExecuteTask sched taskIds ctx tc rs =
    (case collect_topo (container tc) (IsTaskEnabled (enableConfig tc)) None taskIds ([], topoCache tc) of
       None \<Rightarrow> Some (DUMP_FAIL, tc, rs, [])
     | Some (taskTopo, cache) \<Rightarrow>
         if \<not> VerifyTaskTopo (container tc) taskTopo
         then Some (DUMP_FAIL, tc\<lparr>topoCache := cache\<rparr>, rs, [])
         else (case ExecuteTaskInner sched ctx taskTopo (container tc, rs) [] of None \<Rightarrow> None
               | Some (ret, (c', rs'), stats) \<Rightarrow>
                   Some (ret, tc\<lparr>container := c', topoCache := cache\<rparr>, rs', stats)))"

section \<open>No exception escapes\<close>

lemma ExecuteSingleTask_total: "\<exists>r. ExecuteSingleTask k i ctx st = Some r"
  by (auto simp: ExecuteSingleTask_def CreateTask_def HandleTaskRetry_def
      split: option.splits prod.splits)

lemma run_level_total: "\<exists>rs st'. run_level ctx ts st = Some (rs, st')"
proof (induction ts arbitrary: st)
  case Nil
  then show ?case by simp
next
  case (Cons kv ts)
  obtain k i where kv: "kv = (k, i)" by fastforce
  obtain s st' where "ExecuteSingleTask k i ctx st = Some (s, st')"
    using ExecuteSingleTask_total [of k i ctx st] by auto
  moreover obtain rs st'' where "run_level ctx ts st' = Some (rs, st'')" using Cons by blast
  ultimately show ?case by (simp add: kv)
qed

lemma SubmitRunnableTasks_total: "\<exists>stat c' rs'. SubmitRunnableTasks sched ctx ts st = Some (stat, c', rs')"
  using run_level_total [of ctx "sched ts" st] by (auto simp: SubmitRunnableTasks_def)

lemma Submit_ids:
  "SubmitRunnableTasks sched ctx ts st = Some (stat, st') \<Longrightarrow> map statId stat = keys ts"
  by (auto simp: SubmitRunnableTasks_def keys_def comp_def case_prod_beta split: Option.bind_splits)

lemma ExecuteTaskInner_induct [case_names Stop Fail Go]:
  fixes tasks :: "'w TaskCollection"
  assumes "\<And>(tasks :: 'w TaskCollection) st stats tasks'.
      SelectRunnableTasks (fst st) tasks = ([], tasks') \<Longrightarrow> P tasks st stats"
    and "\<And>tasks st stats r tasks' stat c' rs'.
      SelectRunnableTasks (fst st) tasks = (r, tasks') \<Longrightarrow> r \<noteq> []
      \<Longrightarrow> SubmitRunnableTasks sched ctx r st = Some (stat, c', rs')
      \<Longrightarrow> \<not> fst (GetTaskResult stat stats) \<Longrightarrow> P tasks st stats"
    and "\<And>tasks st stats r tasks' stat c' rs'.
      SelectRunnableTasks (fst st) tasks = (r, tasks') \<Longrightarrow> r \<noteq> []
      \<Longrightarrow> SubmitRunnableTasks sched ctx r st = Some (stat, c', rs')
      \<Longrightarrow> fst (GetTaskResult stat stats)
      \<Longrightarrow> P tasks' (c', ReleaseNoUsedData tasks' rs') (snd (GetTaskResult stat stats))
      \<Longrightarrow> P tasks st stats"
  shows "P tasks st stats"
proof (induction "length tasks" arbitrary: tasks st stats rule: less_induct)
  case (less tasks st stats)
  obtain r tasks' where sel: "SelectRunnableTasks (fst st) tasks = (r, tasks')" by fastforce
  obtain stat c' rs' where sub: "SubmitRunnableTasks sched ctx r st = Some (stat, c', rs')"
    using SubmitRunnableTasks_total by blast
  show ?case
  proof (cases "r = []")
    case True
    with sel assms(1) show ?thesis by blast
  next
    case False
    from SelectRunnableTasks_shrinks [OF sel False] less.hyps
    have "P tasks' (c', ReleaseNoUsedData tasks' rs') (snd (GetTaskResult stat stats))" by simp
    then show ?thesis
      using assms(2) [OF sel False sub] assms(3) [OF sel False sub]
      by (cases "fst (GetTaskResult stat stats)") simp_all
  qed
qed

lemma ExecuteTaskInner_stop:
  "SelectRunnableTasks (fst st) tasks = ([], tasks')
    \<Longrightarrow> ExecuteTaskInner sched ctx tasks st stats = Some (DUMP_OK, st, stats)"
  by (subst ExecuteTaskInner.simps) simp

lemma ExecuteTaskInner_fail:
  "SelectRunnableTasks (fst st) tasks = (r, tasks') \<Longrightarrow> r \<noteq> []
    \<Longrightarrow> SubmitRunnableTasks sched ctx r st = Some (stat, c', rs') \<Longrightarrow> \<not> fst (GetTaskResult stat stats)
    \<Longrightarrow> ExecuteTaskInner sched ctx tasks st stats
        = Some (DUMP_FAIL, (c', rs'), snd (GetTaskResult stat stats))"
  by (subst ExecuteTaskInner.simps) (simp add: case_prod_beta)

lemma ExecuteTaskInner_go:
  "SelectRunnableTasks (fst st) tasks = (r, tasks') \<Longrightarrow> r \<noteq> []
    \<Longrightarrow> SubmitRunnableTasks sched ctx r st = Some (stat, c', rs') \<Longrightarrow> fst (GetTaskResult stat stats)
    \<Longrightarrow> ExecuteTaskInner sched ctx tasks st stats
        = ExecuteTaskInner sched ctx tasks' (c', ReleaseNoUsedData tasks' rs') (snd (GetTaskResult stat stats))"
  by (subst ExecuteTaskInner.simps) (simp add: case_prod_beta)

lemmas ExecuteTaskInner_eqs = ExecuteTaskInner_stop ExecuteTaskInner_fail ExecuteTaskInner_go

lemma ExecuteTaskInner_total:
  "\<exists>ret st' stats'. ExecuteTaskInner sched ctx tasks st stats = Some (ret, st', stats')
     \<and> (ret = DUMP_OK \<or> ret = DUMP_FAIL)"
  by (induction tasks st stats rule: ExecuteTaskInner_induct [where sched = sched and ctx = ctx])
    (simp_all add: ExecuteTaskInner_eqs)

end
