(* ===== verification/Task_Order.thy ===== *)
theory Task_Order
  imports Task_Exec
begin

text \<open>
  The levels of a topology and the facts about running them that the properties rest on: what
  one task may change in the registry, the bound on failure counts, and that the executed
  levels are the levels the verification loop peels off.
\<close>

section \<open>Failure counts\<close>

definition fc :: "'w TaskCollection \<Rightarrow> TaskId \<Rightarrow> nat" where
  "fc c k = (case map_of c k of None \<Rightarrow> 0 | Some i \<Rightarrow> failureCount i)"

lemma excessive_fc: "IsTaskExcessivelyFailed c k \<longleftrightarrow> MAX_FAILURE_COUNT \<le> fc c k"
  by (simp add: IsTaskExcessivelyFailed_def fc_def MAX_FAILURE_COUNT_def split: option.splits)

lemma keys_UpdateTaskFailureCount [simp]: "keys (UpdateTaskFailureCount k b c) = keys c"
  by (simp add: UpdateTaskFailureCount_def)

lemma fc_Update:
  "fc (UpdateTaskFailureCount k b c) x =
    (if x = k \<and> k \<in> set (keys c) then (if b then 0 else Suc (fc c k)) else fc c x)"
  by (auto simp: UpdateTaskFailureCount_def fc_def map_of_modify map_of_None_iff
      split: option.splits dest: map_of_Some_key)

lemma fc_Update_other: "x \<noteq> k \<Longrightarrow> fc (UpdateTaskFailureCount k b c) x = fc c x"
  by (simp add: fc_Update)

lemma fc_Update_le: "fc (UpdateTaskFailureCount k b c) k \<le> Suc (fc c k)"
  by (auto simp: fc_Update)

lemma ExecuteSingleTask_frame:
  assumes "ExecuteSingleTask k i ctx (c, rs) = Some (s, c', rs')"
  shows "c' = c \<or> (\<exists>b. c' = UpdateTaskFailureCount k b c)"
  using assms
  by (auto simp: ExecuteSingleTask_def HandleTaskRetry_def split: option.splits prod.splits if_splits)

lemma ExecuteSingleTask_fc:
  assumes "ExecuteSingleTask k i ctx (c, rs) = Some (s, c', rs')"
  shows "keys c' = keys c" "x \<noteq> k \<Longrightarrow> fc c' x = fc c x" "fc c' k \<le> Suc (fc c k)"
  using ExecuteSingleTask_frame [OF assms] fc_Update_le [of k _ c]
  by (auto simp: fc_Update_other)

lemma run_level_Cons:
  assumes "run_level ctx ((k, i) # ts) (c, rs) = Some (res, c', rs')"
  obtains s c1 rs1 res' where "ExecuteSingleTask k i ctx (c, rs) = Some (s, c1, rs1)"
    "run_level ctx ts (c1, rs1) = Some (res', c', rs')" "res = (k, s) # res'"
  using assms by (auto split: Option.bind_splits)

lemma run_level_other:
  "run_level ctx ts (c, rs) = Some (res, c', rs') \<Longrightarrow> x \<notin> set (keys ts) \<Longrightarrow> fc c' x = fc c x"
proof (induction ts arbitrary: c rs res)
  case Nil
  then show ?case by simp
next
  case (Cons kv ts)
  obtain k i where kv: "kv = (k, i)" by fastforce
  from Cons.prems(1) [unfolded kv] obtain s c1 rs1 res' where
    r: "ExecuteSingleTask k i ctx (c, rs) = Some (s, c1, rs1)"
      "run_level ctx ts (c1, rs1) = Some (res', c', rs')" by (rule run_level_Cons)
  from Cons.IH [OF r(2)] Cons.prems(2) ExecuteSingleTask_fc(2) [OF r(1)] show ?case
    by (simp add: kv)
qed

lemma run_level_bound:
  "run_level ctx ts (c, rs) = Some (res, c', rs') \<Longrightarrow> wf_map ts
    \<Longrightarrow> \<forall>k \<in> set (keys ts). fc c k < MAX_FAILURE_COUNT \<Longrightarrow> \<forall>k. fc c k \<le> MAX_FAILURE_COUNT
    \<Longrightarrow> \<forall>k. fc c' k \<le> MAX_FAILURE_COUNT"
proof (induction ts arbitrary: c rs res)
  case Nil
  then show ?case by simp
next
  case (Cons kv ts)
  obtain k i where kv: "kv = (k, i)" by fastforce
  from Cons.prems(1) [unfolded kv] obtain s c1 rs1 res' where
    r: "ExecuteSingleTask k i ctx (c, rs) = Some (s, c1, rs1)"
      "run_level ctx ts (c1, rs1) = Some (res', c', rs')" by (rule run_level_Cons)
  have k: "k \<notin> set (keys ts)" "fc c k < MAX_FAILURE_COUNT" using Cons.prems(2,3) by (auto simp: kv)
  have "fc c1 x \<le> MAX_FAILURE_COUNT" for x
    using ExecuteSingleTask_fc(2,3) [OF r(1)] k(2) Cons.prems(4) by (cases "x = k") auto
  moreover have "fc c1 x < MAX_FAILURE_COUNT" if "x \<in> set (keys ts)" for x
  proof -
    from that k(1) have "x \<noteq> k" by blast
    then have "fc c1 x = fc c x" by (rule ExecuteSingleTask_fc(2) [OF r(1)])
    with that Cons.prems(3) show ?thesis by (simp add: kv)
  qed
  ultimately show ?case using Cons.IH [OF r(2)] Cons.prems(2) by (simp add: kv)
qed

text \<open>A schedule runs each task of the level once, in some order.\<close>

definition fair :: "('w TaskCollection \<Rightarrow> 'w TaskCollection) \<Rightarrow> bool" where
  "fair sched \<longleftrightarrow> (\<forall>ts. mset (sched ts) = mset ts)"

lemma fair_keys: "fair sched \<Longrightarrow> mset (keys (sched ts)) = mset (keys ts)"
  by (simp add: fair_def keys_def)

lemma fair_wf: "fair sched \<Longrightarrow> wf_map (sched ts) \<longleftrightarrow> wf_map ts"
  by (metis fair_keys mset_eq_imp_distinct_iff)

lemma fair_set: "fair sched \<Longrightarrow> set (keys (sched ts)) = set (keys ts)"
  by (metis fair_keys mset_eq_setD)

lemma Submit_run:
  assumes "SubmitRunnableTasks sched ctx ts (c, rs) = Some (stat, c', rs')"
  obtains res where "run_level ctx (sched ts) (c, rs) = Some (res, c', rs')"
  using assms by (auto simp: SubmitRunnableTasks_def split: Option.bind_splits)

lemma Submit_other:
  assumes "SubmitRunnableTasks sched ctx ts (c, rs) = Some (stat, c', rs')" and "fair sched"
    and "x \<notin> set (keys ts)"
  shows "fc c' x = fc c x"
  using assms by (auto elim!: Submit_run intro: run_level_other simp: fair_set)

lemma Submit_bound:
  assumes "SubmitRunnableTasks sched ctx ts (c, rs) = Some (stat, c', rs')" and "fair sched"
    and "wf_map ts" and "\<forall>k \<in> set (keys ts). fc c k < MAX_FAILURE_COUNT"
    and "\<forall>k. fc c k \<le> MAX_FAILURE_COUNT"
  shows "\<forall>k. fc c' k \<le> MAX_FAILURE_COUNT"
  using assms run_level_bound by (metis Submit_run fair_set fair_wf)

section \<open>Levels\<close>

function levels :: "'w TaskCollection \<Rightarrow> 'w TaskCollection \<Rightarrow> TaskId list list" where
  "levels c ts =
    (case SelectRunnableTasks c ts of (r, ts') \<Rightarrow> if r = [] then [] else keys r # levels c ts')"
  by pat_completeness auto
termination
  by (relation "measure (\<lambda>(c, ts). length ts)") (auto dest: SelectRunnableTasks_shrinks [OF sym])

declare levels.simps [simp del]

lemma levels_unfold:
  "SelectRunnableTasks c ts = (r, ts') \<Longrightarrow> levels c ts = (if r = [] then [] else keys r # levels c ts')"
  by (subst levels.simps) simp

lemma Select_cong:
  assumes "\<forall>k \<in> set (keys ts). fc c k = fc c' k"
  shows "SelectRunnableTasks c ts = SelectRunnableTasks c' ts"
proof -
  have "\<forall>kv \<in> set ts. is_ready c kv = is_ready c' kv \<and> is_waiting c kv = is_waiting c' kv"
    using assms by (auto simp: is_ready_def is_waiting_def excessive_fc keys_def)
  then have "filter (is_ready c) ts = filter (is_ready c') ts"
    "filter (is_waiting c) ts = filter (is_waiting c') ts"
    by (auto intro: filter_cong)
  then show ?thesis by (simp add: SelectRunnableTasks_eq)
qed

lemma levels_cong: "\<forall>k \<in> set (keys ts). fc c k = fc c' k \<Longrightarrow> levels c ts = levels c' ts"
proof (induction c ts rule: verify_loop_induct)
  case (Stop c ts ts')
  then show ?case using Select_cong [OF Stop(2)] by (simp add: levels_unfold)
next
  case (Go c ts r ts')
  have "set (keys ts') \<subseteq> set (keys ts)"
    using Select_keys_rest [OF Go(1)] keys_filter_subset by fastforce
  with Go have "levels c ts' = levels c' ts'" by blast
  with Go Select_cong [OF Go(4)] show ?case by (simp add: levels_unfold)
qed

lemma levels_set: "wf_map ts \<Longrightarrow> verify_loop c ts = [] \<Longrightarrow> set (concat (levels c ts)) = {k. live c ts k}"
proof (induction c ts rule: verify_loop_induct)
  case (Stop c ts ts')
  then have "\<not> live c ts k" for k
    using Select_live_split [OF Stop(1), of k] by (simp add: verify_loop_unfold)
  with Stop(1) show ?case by (simp add: levels_unfold)
next
  case (Go c ts r ts')
  then have "set (concat (levels c ts')) = {k. live c ts' k}"
    using Select_wf [OF Go(1)] by (simp add: verify_loop_unfold)
  with Go(1,2) show ?case
    by (auto simp: levels_unfold Select_live_split [OF Go(1)] Select_live_rest [OF Go(1)])
qed

lemma levels_keys: "set (concat (levels c ts)) \<subseteq> set (keys ts)"
proof (induction c ts rule: verify_loop_induct)
  case (Stop c ts ts')
  then show ?case by (simp add: levels_unfold)
next
  case (Go c ts r ts')
  then show ?case
    using Select_live_split [OF Go(1)] by (auto simp: levels_unfold live_def)
qed

lemma levels_distinct: "wf_map ts \<Longrightarrow> distinct (concat (levels c ts))"
proof (induction c ts rule: verify_loop_induct)
  case (Stop c ts ts')
  then show ?case by (simp add: levels_unfold)
next
  case (Go c ts r ts')
  then show ?case
    using Select_disjoint [OF Go(1) Go(4)] Select_wf [OF Go(1) Go(4)] levels_keys [of c ts']
    by (auto simp: levels_unfold)
qed

text \<open>Every dependency of a task runs in an earlier level.\<close>

definition deps_before :: "TaskId list list \<Rightarrow> TaskId \<Rightarrow> TaskId \<Rightarrow> bool" where
  "deps_before ls d k \<longleftrightarrow> (\<exists>m n. m < n \<and> n < length ls \<and> d \<in> set (ls ! m) \<and> k \<in> set (ls ! n))"

lemma deps_before_Cons: "deps_before ls d k \<Longrightarrow> deps_before (l # ls) d k"
  unfolding deps_before_def by (metis Suc_less_eq length_Cons nth_Cons_Suc)

lemma deps_before_hd: "d \<in> set l \<Longrightarrow> k \<in> set (concat ls) \<Longrightarrow> deps_before (l # ls) d k"
proof -
  assume d: "d \<in> set l" and "k \<in> set (concat ls)"
  then obtain l' where "l' \<in> set ls" "k \<in> set l'" by auto
  then obtain n where "n < length ls" "k \<in> set (ls ! n)" by (metis in_set_conv_nth)
  with d have "0 < Suc n \<and> Suc n < length (l # ls) \<and> d \<in> set ((l # ls) ! 0) \<and> k \<in> set ((l # ls) ! Suc n)"
    by simp
  then show ?thesis unfolding deps_before_def by blast
qed

lemma levels_deps_before:
  "wf_map ts \<Longrightarrow> verify_loop c ts = [] \<Longrightarrow> (k, i) \<in> set ts \<Longrightarrow> \<not> IsTaskExcessivelyFailed c k
    \<Longrightarrow> d \<in> set (taskDependency i) \<Longrightarrow> deps_before (levels c ts) d k"
proof (induction c ts arbitrary: i rule: verify_loop_induct)
  case (Stop c ts ts')
  then have "live c ts k" by (auto simp: live_def in_keys_iff)
  with Stop show ?case using Select_live_split [OF Stop(1), of k] by (simp add: verify_loop_unfold)
next
  case (Go c ts r ts')
  have w: "is_waiting c (k, i)" using Go by (auto simp: is_waiting_def)
  let ?i' = "i\<lparr>taskDependency := filter (\<lambda>d. d \<notin> set (keys r)) (taskDependency i)\<rparr>"
  have ki': "(k, ?i') \<in> set ts'" using Go(6) w unfolding Select_rest [OF Go(1)] by blast
  have wf': "wf_map ts'" using Select_wf [OF Go(1) Go(4)] by blast
  have ver': "verify_loop c ts' = []" using Go(5) verify_loop_unfold [OF Go(1)] Go(2) by simp
  have lv: "levels c ts = keys r # levels c ts'" using Go by (simp add: levels_unfold)
  have "k \<in> set (concat (levels c ts'))"
    using levels_set [OF wf' ver'] Select_live_rest [OF Go(1)] ki' by (auto simp: in_keys_iff)
  then show ?case
    using deps_before_hd [of d "keys r" k "levels c ts'"]
      deps_before_Cons [OF Go.IH [OF wf' ver' ki' Go(7)], of "keys r"] Go(8) lv
    by (cases "d \<in> set (keys r)") simp_all
qed

section \<open>Execution follows the levels\<close>

definition level_ids :: "LevelStat \<Rightarrow> TaskId list" where
  "level_ids l = map statId (taskStats l)"

lemma snd_GetTaskResult:
  "snd (GetTaskResult stat stats) = stats @ [\<lparr>executeResult = fst (GetTaskResult stat stats), taskStats = stat\<rparr>]"
  by (simp add: GetTaskResult_def Let_def)

lemma exec_levels:
  assumes "fair sched"
  shows "wf_map tasks \<Longrightarrow> ExecuteTaskInner sched ctx tasks st stats = Some (ret, st', stats')
    \<Longrightarrow> \<exists>new. stats' = stats @ new
        \<and> (\<exists>n. map level_ids new = take n (levels (fst st) tasks))
        \<and> (ret = DUMP_OK \<longrightarrow> map level_ids new = levels (fst st) tasks \<and> list_all executeResult new)
        \<and> (ret \<noteq> DUMP_OK \<longrightarrow> ret = DUMP_FAIL \<and> new \<noteq> [] \<and> \<not> executeResult (last new))"
proof (induction tasks st stats rule: ExecuteTaskInner_induct [where sched = sched and ctx = ctx])
  case (Stop tasks st stats tasks')
  then show ?case by (auto simp: ExecuteTaskInner_stop levels_unfold)
next
  case (Fail tasks st stats r tasks' stat c' rs')
  have "level_ids \<lparr>executeResult = b, taskStats = stat\<rparr> = keys r" for b
    using Submit_ids [OF Fail(3)] by (simp add: level_ids_def)
  with Fail show ?case
    by (auto simp: ExecuteTaskInner_fail levels_unfold snd_GetTaskResult intro!: exI [where x = 1])
next
  case (Go tasks st stats r tasks' stat c' rs')
  obtain c rs where st: "st = (c, rs)" by fastforce
  have wf': "wf_map tasks'" using Select_wf [OF Go(1)] Go(6) by blast
  have same: "\<forall>k \<in> set (keys tasks'). fc c k = fc c' k"
  proof
    fix k assume "k \<in> set (keys tasks')"
    with Select_disjoint [OF Go(1) Go(6)] have "k \<notin> set (keys r)" by blast
    from Submit_other [OF Go(3) [unfolded st] assms this] show "fc c k = fc c' k" by simp
  qed
  have lv: "levels c tasks = keys r # levels c' tasks'"
    using Go(1,2) levels_cong [OF same] by (simp add: levels_unfold st)
  have ids: "level_ids \<lparr>executeResult = b, taskStats = stat\<rparr> = keys r" for b
    using Submit_ids [OF Go(3)] by (simp add: level_ids_def)
  have "ExecuteTaskInner sched ctx tasks' (c', ReleaseNoUsedData tasks' rs')
      (snd (GetTaskResult stat stats)) = Some (ret, st', stats')"
    using Go by (simp add: ExecuteTaskInner_go)
  from Go.IH [OF wf' this] obtain new n where
    new: "stats' = snd (GetTaskResult stat stats) @ new" "map level_ids new = take n (levels c' tasks')"
      "ret = DUMP_OK \<longrightarrow> map level_ids new = levels c' tasks' \<and> list_all executeResult new"
      "ret \<noteq> DUMP_OK \<longrightarrow> ret = DUMP_FAIL \<and> new \<noteq> [] \<and> \<not> executeResult (last new)"
    unfolding fst_conv by blast
  let ?l = "\<lparr>executeResult = True, taskStats = stat\<rparr>"
  have "stats' = stats @ (?l # new)" using new(1) Go(4) by (simp add: snd_GetTaskResult)
  moreover have "map level_ids (?l # new) = take (Suc n) (levels c tasks)"
    using new(2) lv ids by simp
  moreover have "ret = DUMP_OK \<longrightarrow>
      map level_ids (?l # new) = levels c tasks \<and> list_all executeResult (?l # new)"
    using new(3) lv ids by simp
  moreover have "ret \<noteq> DUMP_OK \<longrightarrow>
      ret = DUMP_FAIL \<and> ?l # new \<noteq> [] \<and> \<not> executeResult (last (?l # new))"
    using new(4) by simp
  ultimately show ?case unfolding st fst_conv by blast
qed

lemma Select_fc_bound:
  assumes "SelectRunnableTasks c ts = (r, ts')"
  shows "\<forall>k \<in> set (keys r). fc c k < MAX_FAILURE_COUNT"
proof
  fix k assume "k \<in> set (keys r)"
  then have "live c ts k" by (simp add: Select_live_split [OF assms])
  then show "fc c k < MAX_FAILURE_COUNT" by (simp add: live_def excessive_fc)
qed

lemma exec_bound:
  assumes "fair sched"
  shows "wf_map tasks \<Longrightarrow> ExecuteTaskInner sched ctx tasks st stats = Some (ret, (c', rs'), stats')
    \<Longrightarrow> \<forall>k. fc (fst st) k \<le> MAX_FAILURE_COUNT \<Longrightarrow> \<forall>k. fc c' k \<le> MAX_FAILURE_COUNT"
proof (induction tasks st stats rule: ExecuteTaskInner_induct [where sched = sched and ctx = ctx])
  case (Stop tasks st stats tasks')
  then show ?case by (auto simp: ExecuteTaskInner_stop)
next
  case (Fail tasks st stats r tasks' stat c1 rs1)
  obtain c rs where st: "st = (c, rs)" by fastforce
  have "\<forall>k \<in> set (keys r). fc c k < MAX_FAILURE_COUNT"
    using Select_fc_bound [OF Fail(1)] by (simp add: st)
  then have "\<forall>k. fc c1 k \<le> MAX_FAILURE_COUNT"
    using Submit_bound [OF Fail(3) [unfolded st] assms] Select_wf [OF Fail(1) Fail(5)] Fail(7) st by simp
  with Fail show ?case by (simp add: ExecuteTaskInner_fail)
next
  case (Go tasks st stats r tasks' stat c1 rs1)
  obtain c rs where st: "st = (c, rs)" by fastforce
  have "\<forall>k \<in> set (keys r). fc c k < MAX_FAILURE_COUNT"
    using Select_fc_bound [OF Go(1)] by (simp add: st)
  then have "\<forall>k. fc c1 k \<le> MAX_FAILURE_COUNT"
    using Submit_bound [OF Go(3) [unfolded st] assms] Select_wf [OF Go(1) Go(6)] Go(8) st by simp
  with Go Select_wf [OF Go(1) Go(6)] show ?case by (simp add: ExecuteTaskInner_go)
qed

end
