(* ===== verification/Dump_Strategy.thy ===== *)
theory Dump_Strategy
  imports Task_Order
begin

text \<open>
  Dump strategies (\<^verbatim>\<open>src/frameworks/native/dump_strategy/\<close>): from the parsed options to the
  root tasks the task controller runs. A \<open>DumpStrategy\<close> object is a function from the context to
  a status and the extended list of root tasks; the factory's table of conditions and creators is
  a list of pairs in table order.
\<close>

section \<open>The strategies\<close>

type_synonym strategy = "DumpContext \<Rightarrow> TaskId list \<Rightarrow> DumpStatus \<times> TaskId list"

definition addTaskIfNeeded :: "string list \<Rightarrow> string \<Rightarrow> TaskId list \<Rightarrow> TaskId list \<Rightarrow> TaskId list" where
  "addTaskIfNeeded sysArgs arg taskIds rootTasks =
    (if sysArgs = [] \<or> arg \<in> set sysArgs then rootTasks @ taskIds else rootTasks)"

definition SystemInfoDumpStrategy :: strategy where
  "SystemInfoDumpStrategy ctx rootTasks =
    (let opt = dumperOpts ctx in
     if isDumpList opt then (DUMP_OK, rootTasks @ [WRITE_SYSTEM_CLUSTER_INFO])
     else (DUMP_OK,
       addTaskIfNeeded (systemArgs opt) ''system''
         [WRITE_KERNEL_MODULE_INFO, WRITE_KERNEL_MEM_INFO, WRITE_CPU_FREQ_INFO, WRITE_ALL_PROCESS_MEM_INFO]
         (addTaskIfNeeded (systemArgs opt) ''base'' [WRITE_SYSTEM_BASE_INFO] rootTasks)))"

definition CpuDumpStrategy :: strategy where
  "CpuDumpStrategy ctx rootTasks =
    (if isDumpCpuFreq (dumperOpts ctx) then (DUMP_OK, rootTasks @ [WRITE_CPU_FREQ_INFO])
     else (DUMP_OK, rootTasks))"

definition MemDumpStrategy :: strategy where
  "MemDumpStrategy ctx rootTasks = (DUMP_OK, rootTasks)"

definition StorageDumpStrategy :: strategy where
  "StorageDumpStrategy ctx rootTasks =
    (let opt = dumperOpts ctx in
     if isDumpStorage opt then
       (if storagePid opt > 0 then (DUMP_OK, rootTasks @ [WRITE_STORAGE_IO_INFO])
        else (DUMP_OK, rootTasks @ [WRITE_STORAGE_INFO]))
     else (DUMP_OK, rootTasks))"

definition NetDumpStrategy :: strategy where
  "NetDumpStrategy ctx rootTasks = (DUMP_OK, rootTasks)"

definition SystemAbilityDumpStrategy :: strategy where
  "SystemAbilityDumpStrategy ctx rootTasks =
    (if isDumpList (dumperOpts ctx) then (DUMP_OK, rootTasks @ [WRITE_SYSTEM_ABILITY_LIST])
     else (DUMP_OK, rootTasks @ [WRITE_SYSTEM_ABILITY_INFO]))"

definition ProcessInfoDumpStrategy :: strategy where
  "ProcessInfoDumpStrategy ctx rootTasks = (DUMP_OK, rootTasks)"

definition LogDumpStrategy :: strategy where
  "LogDumpStrategy ctx rootTasks = (DUMP_OK, rootTasks)"

definition StackDumpStrategy :: strategy where
  "StackDumpStrategy ctx rootTasks = (DUMP_OK, rootTasks)"

definition IpcStatDumpStrategy :: strategy where
  "IpcStatDumpStrategy ctx rootTasks = (DUMP_OK, rootTasks)"

section \<open>The factory\<close>

definition strategyConfigs :: "((DumperOptions \<Rightarrow> bool) \<times> strategy) list" where
  "strategyConfigs =
    [(isDumpSystem, SystemInfoDumpStrategy),
     (\<lambda>opts. isDumpCpuFreq opts \<or> isDumpCpuUsage opts, CpuDumpStrategy),
     (isDumpMem, MemDumpStrategy),
     (isDumpStorage, StorageDumpStrategy),
     (isDumpNet, NetDumpStrategy),
     (isDumpSystemAbility, SystemAbilityDumpStrategy),
     (isDumpProcesses, ProcessInfoDumpStrategy),
     (isDumpLog, LogDumpStrategy),
     (isAppendix, StackDumpStrategy),
     (isDumpIpcStat, IpcStatDumpStrategy)]"

definition CreateStrategies :: "DumperOptions \<Rightarrow> strategy list" where
  "CreateStrategies opts = map snd (filter (\<lambda>config. fst config opts) strategyConfigs)"

fun strategy_loop :: "strategy list \<Rightarrow> DumpContext \<Rightarrow> DumpStatus \<Rightarrow> TaskId list \<Rightarrow> DumpStatus \<times> TaskId list" where
  "strategy_loop [] ctx ret rootTasks = (ret, rootTasks)"
| "strategy_loop (s # ss) ctx ret rootTasks =
    (case s ctx rootTasks of (ret', rootTasks') \<Rightarrow>
       if ret' \<noteq> DUMP_OK then (ret', rootTasks') else strategy_loop ss ctx ret' rootTasks')"

definition ExecuteStrategies :: "strategy list \<Rightarrow> DumpContext \<Rightarrow> TaskId list \<Rightarrow> DumpStatus \<times> TaskId list" where
  "ExecuteStrategies strategies ctx rootTasks =
    (if strategies = [] then (DUMP_FAIL, rootTasks) else strategy_loop strategies ctx DUMP_OK rootTasks)"

definition CollectRootTasks :: "DumpContext \<Rightarrow> TaskId list \<Rightarrow> DumpStatus \<times> TaskId list" where
  "CollectRootTasks ctx rootTasks = ExecuteStrategies (CreateStrategies (dumperOpts ctx)) ctx rootTasks"

lemmas strategy_defs = SystemInfoDumpStrategy_def CpuDumpStrategy_def MemDumpStrategy_def
  StorageDumpStrategy_def NetDumpStrategy_def SystemAbilityDumpStrategy_def
  ProcessInfoDumpStrategy_def LogDumpStrategy_def StackDumpStrategy_def IpcStatDumpStrategy_def

section \<open>What a strategy promises\<close>

text \<open>
  A strategy never fails, keeps the roots collected before it and adds root task ids only. The
  factory's result then has the same three properties, whatever the list of strategies is.
\<close>

locale root_collector =
  fixes collect :: strategy
  assumes ok: "fst (collect ctx roots) = DUMP_OK"
    and extends: "\<exists>new. snd (collect ctx roots) = roots @ new \<and> (\<forall>t \<in> set new. ROOT_TASK_START < t)"

lemma root_collectorI:
  "(\<And>ctx roots. \<exists>new. s ctx roots = (DUMP_OK, roots @ new) \<and> (\<forall>t \<in> set new. ROOT_TASK_START < t))
    \<Longrightarrow> root_collector s"
  by unfold_locales (metis fst_conv, metis snd_conv)

lemma strategies_root_collector:
  "s \<in> set (map snd strategyConfigs) \<Longrightarrow> root_collector s"
  by (rule root_collectorI)
    (auto simp: strategyConfigs_def strategy_defs addTaskIfNeeded_def Let_def)

interpretation sys_strategy: root_collector SystemInfoDumpStrategy
  by (rule strategies_root_collector) (simp add: strategyConfigs_def)

interpretation storage_strategy: root_collector StorageDumpStrategy
  by (rule strategies_root_collector) (simp add: strategyConfigs_def)

lemma strategy_loop_extends:
  "\<forall>s \<in> set ss. root_collector s \<Longrightarrow>
    \<exists>new. strategy_loop ss ctx DUMP_OK roots = (DUMP_OK, roots @ new) \<and> (\<forall>t \<in> set new. ROOT_TASK_START < t)"
proof (induction ss arbitrary: roots)
  case Nil
  then show ?case by simp
next
  case (Cons s ss)
  then have "root_collector s" by simp
  from root_collector.ok [OF this, of ctx roots] root_collector.extends [OF this, of ctx roots]
  obtain new where s: "s ctx roots = (DUMP_OK, roots @ new)" "\<forall>t \<in> set new. ROOT_TASK_START < t"
    by (metis prod.collapse)
  from Cons obtain new' where
    "strategy_loop ss ctx DUMP_OK (roots @ new) = (DUMP_OK, (roots @ new) @ new')"
    "\<forall>t \<in> set new'. ROOT_TASK_START < t" by (metis list.set_intros(2))
  with s show ?case by (intro exI [where x = "new @ new'"]) auto
qed

lemma CollectRootTasks_cases:
  "(\<exists>new. CollectRootTasks ctx roots = (DUMP_OK, roots @ new) \<and> (\<forall>t \<in> set new. ROOT_TASK_START < t)
      \<and> CreateStrategies (dumperOpts ctx) \<noteq> [])
   \<or> CollectRootTasks ctx roots = (DUMP_FAIL, roots) \<and> CreateStrategies (dumperOpts ctx) = []"
proof -
  have "\<forall>s \<in> set (CreateStrategies (dumperOpts ctx)). root_collector s"
    using strategies_root_collector by (auto simp: CreateStrategies_def)
  from strategy_loop_extends [OF this, of ctx roots] show ?thesis
    by (auto simp: CollectRootTasks_def ExecuteStrategies_def)
qed

end
