(* ===== verification/Task_Fresh.thy ===== *)
theory Task_Fresh
  imports Task_Order
begin

text \<open>
  Cached topologies across executions. A cached topology carries the failure counts its tasks had
  when it was built, while the registry goes on counting. Nothing reads the copied counts, so a
  cache entry is as good as a fresh one when the two agree up to that field; this is the invariant
  \<open>cache_fresh\<close> that every \<open>ExecuteTask\<close> keeps.
\<close>

definition norm_info :: "'w RegTaskInfo \<Rightarrow> 'w RegTaskInfo" where
  "norm_info i = i\<lparr>failureCount := 0\<rparr>"

definition norm :: "'w TaskCollection \<Rightarrow> 'w TaskCollection" where
  "norm c = map (map_prod id norm_info) c"

lemma norm_simps [simp]:
  "norm [] = []" "norm (kv # c) = (fst kv, norm_info (snd kv)) # norm c" "norm (c @ c') = norm c @ norm c'"
  by (simp_all add: norm_def map_prod_def case_prod_beta)

lemma keys_norm [simp]: "keys (norm c) = keys c"
  by (induction c) simp_all

lemma map_of_norm: "map_of (norm c) t = map_option norm_info (map_of c t)"
  by (induction c) auto

lemma deps_norm_info [simp]: "taskDependency (norm_info i) = taskDependency i"
  by (simp add: norm_info_def)

lemma norm_info_deps: "norm_info (i\<lparr>taskDependency := ds\<rparr>) = (norm_info i)\<lparr>taskDependency := ds\<rparr>"
  by (simp add: norm_info_def)

lemma norm_emplace: "norm (emplace k i m) = emplace k (norm_info i) (norm m)"
  by (simp add: emplace_def)

lemma norm_emplace_all: "norm (emplace_all ts m) = emplace_all (norm ts) (norm m)"
  by (induction ts arbitrary: m) (simp_all add: emplace_all_def norm_emplace)

lemma bfs_norm:
  "bfs (norm c) en q v (norm topo) (norm indep) = map_prod norm norm (bfs c en q v topo indep)"
proof (induction c en q v topo indep rule: bfs_induct)
  case (Nil c en v topo indep)
  then show ?case by (simp add: bfs.simps(1))
next
  case (Skip c en t q v topo indep)
  then show ?case by (simp add: map_of_norm bfs_skip)
next
  case (Step c en t q v topo indep i kept q' v')
  have "map_of (norm c) t = Some (norm_info i)" using Step(1) by (simp add: map_of_norm)
  from bfs_step [OF this, of en q v kept q' v' "norm topo" "norm indep"] Step
  show ?case by (simp add: bfs_step norm_emplace norm_info_deps)
qed

lemma root_topo_norm: "norm (root_topo c en root) = root_topo (norm c) en root"
  using bfs_norm [of c en "[root]" "[root]" "[]" "[]"] by (simp add: build_topo_def)

lemma norm_modify:
  "(\<And>i. norm_info (f i) = norm_info i) \<Longrightarrow> norm (modify k f c) = norm c"
  by (simp add: modify_def norm_def map_prod_def case_prod_beta)

lemma norm_Update [simp]: "norm (UpdateTaskFailureCount k b c) = norm c"
  by (auto simp: UpdateTaskFailureCount_def norm_info_def intro!: norm_modify)

lemma norm_single: "ExecuteSingleTask k i ctx (c, rs) = Some (s, c', rs') \<Longrightarrow> norm c' = norm c"
  using ExecuteSingleTask_frame by fastforce

lemma norm_level: "run_level ctx ts (c, rs) = Some (res, c', rs') \<Longrightarrow> norm c' = norm c"
proof (induction ts arbitrary: c rs res)
  case Nil
  then show ?case by simp
next
  case (Cons kv ts)
  obtain k i where kv: "kv = (k, i)" by fastforce
  from Cons.prems [unfolded kv] obtain s c1 rs1 res' where
    r: "ExecuteSingleTask k i ctx (c, rs) = Some (s, c1, rs1)"
      "run_level ctx ts (c1, rs1) = Some (res', c', rs')" by (rule run_level_Cons)
  from Cons.IH [OF r(2)] norm_single [OF r(1)] show ?case by simp
qed

lemma norm_submit:
  assumes "SubmitRunnableTasks sched ctx r st = Some (stat, c', rs')"
  shows "norm c' = norm (fst st)"
proof -
  obtain c rs where st: "st = (c, rs)" by fastforce
  from assms [unfolded st] obtain res where "run_level ctx (sched r) (c, rs) = Some (res, c', rs')"
    by (rule Submit_run)
  from norm_level [OF this] st show ?thesis by simp
qed

lemma norm_inner:
  "ExecuteTaskInner sched ctx tasks st stats = Some (ret, (c', rs'), stats') \<Longrightarrow> norm c' = norm (fst st)"
proof (induction tasks st stats rule: ExecuteTaskInner_induct [where sched = sched and ctx = ctx])
  case (Stop tasks st stats tasks')
  then show ?case by (auto simp: ExecuteTaskInner_stop)
next
  case (Fail tasks st stats r tasks' stat c1 rs1)
  with norm_submit [OF Fail(3)] show ?case by (simp add: ExecuteTaskInner_fail)
next
  case (Go tasks st stats r tasks' stat c1 rs1)
  with norm_submit [OF Go(3)] show ?case by (simp add: ExecuteTaskInner_go)
qed

section \<open>Freshness of the cache\<close>

definition cache_fresh :: "'w TaskCollection \<Rightarrow> (TaskId \<Rightarrow> bool) \<Rightarrow> 'w TopoCache \<Rightarrow> bool" where
  "cache_fresh c en s \<longleftrightarrow>
    (\<forall>t topo. map_of (taskTopoCache s) t = Some topo \<longrightarrow> norm topo = norm (root_topo c en t))"

lemma cache_fresh_norm: "norm c = norm c' \<Longrightarrow> cache_fresh c en s = cache_fresh c' en s"
  by (simp add: cache_fresh_def root_topo_norm)

lemma BuildTaskTopo_fresh:
  assumes "cache_fresh c en s"
  shows "norm (fst (BuildTaskTopo c en root (topo, s))) = norm (fst (build_topo c en root topo))"
    and "cache_fresh c en (snd (BuildTaskTopo c en root (topo, s)))"
proof -
  obtain v s' where g: "GetCachedTaskTopo root s = (v, s')" by fastforce
  have v: "v = map_of (taskTopoCache s) root" and s': "map_of (taskTopoCache s') = map_of (taskTopoCache s)"
    using topo_memo.get_value [of root s] topo_memo.get_content [of root s] g by simp_all
  have m: "topo_memo.memo (root_topo c en) root s =
      (case v of Some w \<Rightarrow> (w, s') | None \<Rightarrow> (root_topo c en root, CacheTaskTopo root (root_topo c en root) s'))"
    by (simp add: topo_memo.memo_def g split: option.splits)
  have hit: "norm w = norm (root_topo c en root)" if "v = Some w" for w
    using assms v that by (simp add: cache_fresh_def)
  have "norm (fst (topo_memo.memo (root_topo c en) root s)) = norm (root_topo c en root)"
    using hit by (simp add: m split: option.splits)
  then show "norm (fst (BuildTaskTopo c en root (topo, s))) = norm (fst (build_topo c en root topo))"
    by (simp add: BuildTaskTopo_memo build_topo_merge norm_emplace_all)
  have fs': "cache_fresh c en s'" using assms s' by (simp add: cache_fresh_def)
  have "cache_fresh c en (CacheTaskTopo root (root_topo c en root) s')"
    unfolding cache_fresh_def
  proof (intro allI impI)
    fix t topo
    assume h: "map_of (taskTopoCache (CacheTaskTopo root (root_topo c en root) s')) t = Some topo"
    show "norm topo = norm (root_topo c en t)"
    proof (cases "t = root")
      case True
      with h show ?thesis using topo_memo.put_content [of root "root_topo c en root" s'] by simp
    next
      case False
      from topo_memo.put_sub [OF h False] fs' show ?thesis by (simp add: cache_fresh_def)
    qed
  qed
  with fs' show "cache_fresh c en (snd (BuildTaskTopo c en root (topo, s)))"
    by (simp add: BuildTaskTopo_memo m split: option.splits)
qed

text \<open>One round of the root loop, and the invariant rule it gives.\<close>

abbreviation add_dep :: "TaskId \<Rightarrow> TaskId \<Rightarrow> 'w TaskCollection \<Rightarrow> 'w TaskCollection" where
  "add_dep k p topo \<equiv> modify k (\<lambda>i. i\<lparr>taskDependency := hm_insert p (taskDependency i)\<rparr>) topo"

lemma collect_topo_step:
  assumes "collect_topo c en prev (t # ts) (topo, s) = Some r"
  obtains (disabled) "\<not> en t" "collect_topo c en (Some t) ts (topo, s) = Some r"
    | (first) topo1 s1 where "en t" "BuildTaskTopo c en t (topo, s) = (topo1, s1)"
      "collect_topo c en (Some t) ts (topo1, s1) = Some r"
    | (linked) topo1 s1 p where "en t" "BuildTaskTopo c en t (topo, s) = (topo1, s1)"
      "collect_topo c en (Some t) ts (add_dep t p topo1, s1) = Some r"
  using assms by (auto split: if_splits prod.splits option.splits)

lemma collect_topo_rule:
  assumes "collect_topo c en prev ts (topo, s) = Some (topo', s')" and "P topo s"
    and build: "\<And>t topo s topo1 s1. P topo s \<Longrightarrow> BuildTaskTopo c en t (topo, s) = (topo1, s1) \<Longrightarrow> P topo1 s1"
    and dep: "\<And>k p topo s. P topo s \<Longrightarrow> P (add_dep k p topo) s"
  shows "P topo' s'"
  using assms(1,2)
proof (induction ts arbitrary: prev topo s)
  case Nil
  then show ?case by simp
next
  case (Cons t ts)
  from Cons.prems(1) show ?case
  proof (cases rule: collect_topo_step)
    case disabled
    with Cons show ?thesis by blast
  next
    case (first topo1 s1)
    with Cons.IH build [OF Cons.prems(2)] show ?thesis by blast
  next
    case (linked topo1 s1 p)
    with Cons.IH dep [OF build [OF Cons.prems(2)]] show ?thesis by blast
  qed
qed

lemma collect_topo_fresh:
  "collect_topo c en prev ts (topo, s) = Some (topo', s') \<Longrightarrow> cache_fresh c en s \<Longrightarrow> cache_fresh c en s'"
  by (erule collect_topo_rule [where P = "\<lambda>_. cache_fresh c en"])
    (assumption, metis BuildTaskTopo_fresh(2) snd_conv)

lemma collect_topo_inv:
  "collect_topo c en prev ts (topo, s) = Some (topo', s') \<Longrightarrow> lru_inv s \<Longrightarrow> lru_inv s'"
  by (erule collect_topo_rule [where P = "\<lambda>_. lru_inv"])
    (assumption, metis BuildTaskTopo_inv snd_conv)

lemma BuildTaskTopo_wf: "BuildTaskTopo c en t (topo, s) = (topo1, s1) \<Longrightarrow> wf_map topo \<Longrightarrow> wf_map topo1"
  by (metis BuildTaskTopo_memo fst_conv wf_emplace_all)

lemma collect_topo_wf:
  "collect_topo c en prev ts (topo, s) = Some (topo', s') \<Longrightarrow> wf_map topo \<Longrightarrow> wf_map topo'"
  by (erule collect_topo_rule [where P = "\<lambda>topo _. wf_map topo"]) (auto dest: BuildTaskTopo_wf)

text \<open>One execution: what \<open>ExecuteTask\<close> did, as a case distinction the properties use.\<close>

lemma ExecuteTask_cases:
  assumes "ExecuteTask sched ids ctx tc rs = Some (ret, tc', rs', stats)"
  obtains (bad_root) "ret = DUMP_FAIL" "tc' = tc" "rs' = rs" "stats = []"
    | (rejected) topo cache where
      "collect_topo (container tc) (IsTaskEnabled (enableConfig tc)) None ids ([], topoCache tc) = Some (topo, cache)"
      "\<not> VerifyTaskTopo (container tc) topo" "ret = DUMP_FAIL" "tc' = tc\<lparr>topoCache := cache\<rparr>"
      "rs' = rs" "stats = []"
    | (ran) topo cache c' where
      "collect_topo (container tc) (IsTaskEnabled (enableConfig tc)) None ids ([], topoCache tc) = Some (topo, cache)"
      "VerifyTaskTopo (container tc) topo"
      "ExecuteTaskInner sched ctx topo (container tc, rs) [] = Some (ret, (c', rs'), stats)"
      "tc' = tc\<lparr>container := c', topoCache := cache\<rparr>"
  using assms by (auto simp: ExecuteTask_def split: option.splits prod.splits if_splits)

lemma ExecuteTask_status:
  "\<exists>ret tc' rs' stats. ExecuteTask sched ids ctx tc rs = Some (ret, tc', rs', stats)
     \<and> (ret = DUMP_OK \<or> ret = DUMP_FAIL)"
proof (cases "collect_topo (container tc) (IsTaskEnabled (enableConfig tc)) None ids ([], topoCache tc)")
  case None
  then show ?thesis by (simp add: ExecuteTask_def)
next
  case (Some p)
  obtain topo cache where p: "p = (topo, cache)" by fastforce
  show ?thesis
    using Some p ExecuteTaskInner_total [of sched ctx topo "(container tc, rs)" "[]"]
    by (auto simp: ExecuteTask_def)
qed

lemma ExecuteTask_never_throws:
  "\<exists>ret tc' rs' stats. ExecuteTask sched ids ctx tc rs = Some (ret, tc', rs', stats)"
  using ExecuteTask_status by blast

section \<open>What is in a collected topology\<close>

text \<open>Entries come from the registry and keep all their enabled dependencies.\<close>

definition entry_from :: "'w TaskCollection \<Rightarrow> (TaskId \<Rightarrow> bool) \<Rightarrow> TaskId \<times> 'w RegTaskInfo \<Rightarrow> bool" where
  "entry_from c en kv \<longleftrightarrow> (\<exists>i. map_of c (fst kv) = Some i
     \<and> {d \<in> set (taskDependency i). en d} \<subseteq> set (taskDependency (snd kv)))"

definition from_registry :: "'w TaskCollection \<Rightarrow> (TaskId \<Rightarrow> bool) \<Rightarrow> 'w TaskCollection \<Rightarrow> bool" where
  "from_registry c en ts \<longleftrightarrow> (\<forall>kv \<in> set ts. entry_from c en kv)"

lemma from_registry_norm:
  assumes "norm ts = norm ts'" and "from_registry c en ts'"
  shows "from_registry c en ts"
  unfolding from_registry_def
proof
  fix kv assume "kv \<in> set ts"
  then have "map_prod id norm_info kv \<in> set (norm ts)" by (simp add: norm_def)
  then have "map_prod id norm_info kv \<in> set (norm ts')" by (simp add: assms(1))
  then obtain kv' where kv': "kv' \<in> set ts'" "fst kv' = fst kv" "norm_info (snd kv') = norm_info (snd kv)"
    by (auto simp: norm_def map_prod_def case_prod_beta)
  then have "taskDependency (snd kv') = taskDependency (snd kv)" by (metis deps_norm_info)
  with kv' assms(2) show "entry_from c en kv" by (auto simp: from_registry_def entry_from_def)
qed

lemma from_registry_root_topo: "from_registry c en (root_topo c en root)"
  using build_topo_entries [of c en root "[]"]
  by (auto simp: from_registry_def entry_from_def topo_entry_ok_def list_all_iff)

lemma from_registry_emplace_all:
  "from_registry c en ts \<Longrightarrow> from_registry c en m \<Longrightarrow> from_registry c en (emplace_all ts m)"
proof (induction ts arbitrary: m)
  case Nil
  then show ?case by (simp add: emplace_all_def)
next
  case (Cons t ts)
  then have "from_registry c en ts" "from_registry c en (emplace (fst t) (snd t) m)"
    by (auto simp: from_registry_def emplace_def)
  from Cons.IH [OF this] show ?case by (simp add: emplace_all_def)
qed

lemma BuildTaskTopo_from:
  assumes "cache_fresh c en s" and "from_registry c en topo"
  shows "from_registry c en (fst (BuildTaskTopo c en root (topo, s)))"
    and "set (keys (fst (BuildTaskTopo c en root (topo, s)))) =
      set (keys topo) \<union> set (keys (root_topo c en root))"
proof -
  have n: "norm (fst (BuildTaskTopo c en root (topo, s))) = norm (emplace_all (root_topo c en root) topo)"
    using BuildTaskTopo_fresh(1) [OF assms(1)] by (simp add: build_topo_merge)
  show "from_registry c en (fst (BuildTaskTopo c en root (topo, s)))"
    using from_registry_norm [OF n] from_registry_emplace_all [OF from_registry_root_topo assms(2)] by blast
  from n have "keys (fst (BuildTaskTopo c en root (topo, s))) = keys (emplace_all (root_topo c en root) topo)"
    by (metis keys_norm)
  then show "set (keys (fst (BuildTaskTopo c en root (topo, s)))) =
      set (keys topo) \<union> set (keys (root_topo c en root))" by (simp add: keys_emplace_all)
qed

lemma from_registry_add_dep:
  "from_registry c en m \<Longrightarrow>
    from_registry c en (modify k (\<lambda>i. i\<lparr>taskDependency := hm_insert p (taskDependency i)\<rparr>) m)"
  by (fastforce simp: from_registry_def entry_from_def modify_def)

lemma root_in_topo: "t \<in> set (keys c) \<Longrightarrow> t \<in> set (keys (root_topo c en t))"
  using build_topo_reach [of c en t "[]"] dep_reach.root by fastforce

lemma collect_topo_from:
  assumes "collect_topo c en prev ts (topo, s) = Some (topo', s')" and "cache_fresh c en s"
    and "from_registry c en topo"
  shows "from_registry c en topo'"
proof -
  have "from_registry c en topo' \<and> cache_fresh c en s'"
  proof (rule collect_topo_rule [OF assms(1), of "\<lambda>topo s. from_registry c en topo \<and> cache_fresh c en s"])
    show "from_registry c en topo \<and> cache_fresh c en s" using assms(2,3) by blast
    show "from_registry c en topo1 \<and> cache_fresh c en s1"
      if "from_registry c en topo \<and> cache_fresh c en s" "BuildTaskTopo c en t (topo, s) = (topo1, s1)"
      for t topo s topo1 s1
      using BuildTaskTopo_from(1) [of c en s topo t] BuildTaskTopo_fresh(2) [of c en s t topo] that by simp
    show "from_registry c en (add_dep k p topo) \<and> cache_fresh c en s"
      if "from_registry c en topo \<and> cache_fresh c en s" for k p topo s
      using that from_registry_add_dep by blast
  qed
  then show ?thesis by blast
qed

lemma collect_topo_roots:
  "collect_topo c en prev ts (topo, s) = Some (topo', s') \<Longrightarrow> cache_fresh c en s \<Longrightarrow> from_registry c en topo
    \<Longrightarrow> set (keys topo) \<union> {t \<in> set ts. en t \<and> t \<in> set (keys c)} \<subseteq> set (keys topo')"
proof (induction ts arbitrary: prev topo s)
  case Nil
  then show ?case by simp
next
  case (Cons t ts)
  have step: "cache_fresh c en s1 \<and> from_registry c en topo1
      \<and> set (keys topo1) = set (keys topo) \<union> set (keys (root_topo c en t))"
    if "BuildTaskTopo c en t (topo, s) = (topo1, s1)" for topo1 s1
    using BuildTaskTopo_from [OF Cons.prems(2,3), of t] BuildTaskTopo_fresh(2) [OF Cons.prems(2), of t topo] that
    by simp
  from Cons.prems(1) show ?case
  proof (cases rule: collect_topo_step)
    case disabled
    from Cons.IH [OF disabled(2) Cons.prems(2,3)] disabled(1) show ?thesis by auto
  next
    case (first topo1 s1)
    from Cons.IH [OF first(3)] step [OF first(2)] root_in_topo [of t c en] show ?thesis by auto
  next
    case (linked topo1 s1 p)
    from Cons.IH [OF linked(3)] step [OF linked(2)] root_in_topo [of t c en] from_registry_add_dep [of c en topo1 t p]
    show ?thesis by auto
  qed
qed

lemma collect_topo_keys:
  "from_registry c en topo \<Longrightarrow> set (keys topo) \<subseteq> set (keys c)"
  by (force simp: from_registry_def entry_from_def keys_def dest: map_of_SomeD)

lemma missing_dep_rejected:
  assumes col: "collect_topo c en None ids ([], s) = Some (topo, s')" and fresh: "cache_fresh c en s"
    and root: "root \<in> set ids" "en root" "map_of c root = Some i" "\<not> IsTaskExcessivelyFailed c root"
    and d: "d \<in> set (taskDependency i)" "en d" "d \<notin> set (keys c)"
  shows "\<not> VerifyTaskTopo c topo"
proof -
  have fr: "from_registry c en topo" "root \<in> set (keys topo)"
    using collect_topo_from [OF col fresh] collect_topo_roots [OF col fresh] root map_of_Some_key [OF root(3)]
    by (auto simp: from_registry_def)
  then obtain j where j: "(root, j) \<in> set topo" by (auto simp: in_keys_iff)
  with fr(1) root(3) d(1,2) have "d \<in> set (taskDependency j)"
    by (force simp: from_registry_def entry_from_def)
  moreover have "\<not> live c topo d" using d(3) collect_topo_keys [OF fr(1)] by (auto simp: live_def)
  moreover have "wf_map topo" using collect_topo_wf [OF col] by simp
  ultimately show ?thesis using VerifyTaskTopo_dead_dep [OF _ j root(4)] by blast
qed

end
