(* ===== verification/Dumper_Tasks.thy ===== *)
theory Dumper_Tasks
  imports Dump_Strategy Task_Fresh
begin

text \<open>
  The tasks of the new framework: collectors
  (\<^verbatim>\<open>src/frameworks/native/task/{cpu,memory,storage,system_info}/\<close>), writers
  (\<^verbatim>\<open>task/writer/\<close>), the registry their \<open>REGISTER_TASK\<close> and \<open>REGISTER_DEPENDENT_DATA\<close> lines
  build, and \<open>DumpManager::StartDump\<close> (\<^verbatim>\<open>manager/dump_manager.cpp\<close>) from its parsed context on.

  The state of the device is a record of answers: files, commands, the number of processors,
  and the strings of the device-information service, whose code is not part of this repository.
  A read through a pointer cast to the wrong type is undefined behaviour; the model records it in
  \<open>badCast\<close>, and the invariant of the last section shows that no execution of the registered
  tasks sets it.
\<close>

section \<open>The device\<close>

record dump_os = os_sources +
  nprocessors_onln :: int
  load_string :: "string \<Rightarrow> string option"
  device_api :: "string \<Rightarrow> string" \<comment> \<open>the device-information getters, by name\<close>
  badCast :: bool \<comment> \<open>a typed read met data of another type\<close>

type_synonym run_state = "dump_os RunState"

definition read_ptr :: "'a cast_ptr \<Rightarrow> run_state \<Rightarrow> 'a option \<times> run_state" where
  "read_ptr p rs = (case p of Ptr x \<Rightarrow> (Some x, rs) | Nullptr \<Rightarrow> (None, rs)
     | BadCast \<Rightarrow> (None, rs\<lparr>world := (world rs)\<lparr>badCast := True\<rparr>\<rparr>))"

definition std_sources :: "run_state \<Rightarrow> os_sources" where
  "std_sources rs = os_sources.truncate (world rs)"

definition inject_string :: "string \<Rightarrow> DataId \<Rightarrow> bool \<Rightarrow> run_state \<Rightarrow> bool \<times> run_state" where
  "inject_string src dataId isFile rs =
    (case InjectString (std_sources rs) src dataId isFile (inventory rs) of
       (ok, m) \<Rightarrow> (ok, rs\<lparr>inventory := m\<rparr>))"

definition inject_value :: "DataId \<Rightarrow> BaseType \<Rightarrow> run_state \<Rightarrow> run_state" where
  "inject_value dataId v rs = rs\<lparr>inventory := snd (Inject dataId (Some v) (inventory rs))\<rparr>"

definition write_fd :: "(int \<Rightarrow> string list \<Rightarrow> string list) \<Rightarrow> DumpContext \<Rightarrow> run_state \<Rightarrow> run_state" where
  "write_fd w ctx rs = rs\<lparr>fdWrites := w (GetOutputFd ctx) (fdWrites rs)\<rparr>"

section \<open>Collectors\<close>

definition cpu_freq_path :: "int \<Rightarrow> string \<Rightarrow> string" where
  "cpu_freq_path i name = ''/sys/devices/system/cpu/cpu'' @ to_string i @ ''/cpufreq/'' @ name"

fun cpu_freq_loop :: "(string \<Rightarrow> string option) \<Rightarrow> int list \<Rightarrow> CpuFreqInfo list option" where
  "cpu_freq_loop load [] = Some []"
| "cpu_freq_loop load (i # is) =
    (case load (cpu_freq_path i ''cpuinfo_cur_freq'') of None \<Rightarrow> None
     | Some cur \<Rightarrow>
        (case load (cpu_freq_path i ''cpuinfo_max_freq'') of None \<Rightarrow> None
         | Some mx \<Rightarrow>
            map_option (\<lambda>rest. \<lparr>cpuId = i, curFreq = cur, maxFreq = mx\<rparr> # rest) (cpu_freq_loop load is)))"

definition CpuFreqInfoTask :: "DumpContext \<Rightarrow> run_state \<Rightarrow> DumpStatus \<times> run_state" where
  "CpuFreqInfoTask ctx rs =
    (case cpu_freq_loop (load_string (world rs)) [0 .. nprocessors_onln (world rs) - 1] of
       None \<Rightarrow> (DUMP_FAIL, rs)
     | Some infos \<Rightarrow> (DUMP_OK, inject_value CPU_FREQ_INFO (CpuFreqVec infos) rs))"

definition SlabInfoTask :: "DumpContext \<Rightarrow> run_state \<Rightarrow> DumpStatus \<times> run_state" where
  "SlabInfoTask ctx rs =
    (DUMP_OK, snd (inject_string ''/proc/devhost/root/slabinfo'' PROC_DEVHOST_SLAB_INFO True
       (snd (inject_string ''/proc/slabinfo'' PROC_SLAB_INFO True rs))))"

definition DiskInfoTask :: "DumpContext \<Rightarrow> run_state \<Rightarrow> DumpStatus \<times> run_state" where
  "DiskInfoTask ctx rs =
    (DUMP_OK, snd (inject_string ''df -k'' DF_INFO False
       (snd (inject_string ''storaged -u -p'' STORAGE_STATE_INFO False rs))))"

text \<open>\<open>FilterControlChar\<close>: one pass with the \<open>skip\<close> flag and one character of lookahead.\<close>

definition is_letter :: "char \<Rightarrow> bool" where
  "is_letter c \<longleftrightarrow> (of_char c \<ge> (0x41 :: nat) \<and> of_char c \<le> (0x5A :: nat))
     \<or> (of_char c \<ge> (0x61 :: nat) \<and> of_char c \<le> (0x7A :: nat))"

fun filter_control :: "bool \<Rightarrow> string \<Rightarrow> string" where
  "filter_control skip [] = []"
| "filter_control skip (c # cs) =
    (let skip' = (if \<not> skip \<and> c = CHR 0x1B \<and> cs \<noteq> [] then hd cs = CHR 0x5B else skip) in
     if skip' \<and> is_letter c then filter_control False cs
     else if skip' \<or> c = CHR 0x0D \<or> c = CHR 0x0A then filter_control skip' cs
     else c # filter_control skip' cs)"

definition FilterControlChar :: "string \<Rightarrow> string" where
  "FilterControlChar str = filter_control False str"

definition IoTopInfoTask :: "DumpContext \<Rightarrow> run_state \<Rightarrow> DumpStatus \<times> run_state" where
  "IoTopInfoTask ctx rs =
    (DUMP_OK, rs\<lparr>inventory := snd (InjectStringWithFilter (std_sources rs) ''iotop -n 1 -m 100''
       IOTOP_INFO False FilterControlChar (inventory rs))\<rparr>)"

definition LsofInfoTask :: "DumpContext \<Rightarrow> run_state \<Rightarrow> DumpStatus \<times> run_state" where
  "LsofInfoTask ctx rs = (DUMP_OK, snd (inject_string ''lsof'' LSOF_INFO False rs))"

definition MountsInfoTask :: "DumpContext \<Rightarrow> run_state \<Rightarrow> DumpStatus \<times> run_state" where
  "MountsInfoTask ctx rs = (DUMP_OK, snd (inject_string ''/proc/mounts'' PROC_MOUNTS_INFO True rs))"

definition StorageIoInfoTask :: "DumpContext \<Rightarrow> run_state \<Rightarrow> DumpStatus \<times> run_state" where
  "StorageIoInfoTask ctx rs =
    (DUMP_OK, snd (inject_string (''/proc/'' @ to_string (storagePid (dumperOpts ctx)) @ ''/io'')
       PROC_PID_IO_INFO True rs))"

text \<open>The getters of \<open>GetDeviceInfoByParam\<close> and their titles. A getter that returns a number
  is represented by the text the stream prints for it.\<close>

definition device_params :: "(string \<times> string) list" where
  "device_params =
    [(''GetDisplayVersion'', ''BuildId''), (''GetOsReleaseType'', ''RleaseType''),
     (''GetVersionId'', ''OsVersion''), (''GetDeviceType'', ''DeviceType''),
     (''GetManufacture'', ''Manufacture''), (''GetBrand'', ''Brand''),
     (''GetMarketName'', ''MarketName''), (''GetProductSeries'', ''ProductSeries''),
     (''GetProductModel'', ''ProductModel''), (''GetSoftwareModel'', ''SoftwareModel''),
     (''GetHardwareModel'', ''HardwareModel''), (''GetHardwareProfile'', ''HardwareProfile''),
     (''GetBootloaderVersion'', ''BootLoaderVersion''), (''GetAbiList'', ''ABIList''),
     (''GetSecurityPatchTag'', ''SecurityPatch''), (''GetIncrementalVersion'', ''IncrementalVersion''),
     (''GetOSFullName'', ''OSFullName''), (''GetSdkApiVersion'', ''SDKAPIVersion''),
     (''GetFirstApiVersion'', ''FirstAPIVersion''), (''GetBuildRootHash'', ''BuildHash''),
     (''GetBuildType'', ''BuildType''), (''GetBuildUser'', ''BuildUser''),
     (''GetBuildHost'', ''BuildHost''), (''GetBuildTime'', ''BuildTime'')]"

definition AddApiRetIntoResult :: "string \<Rightarrow> string \<Rightarrow> string list \<Rightarrow> string list" where
  "AddApiRetIntoResult content title result = result @ [title @ '': '' @ content]"

definition GetDeviceInfoByParam :: "run_state \<Rightarrow> bool \<times> run_state" where
  "GetDeviceInfoByParam rs =
    (True, inject_value DEVICE_INFO (StrVec
       (fold (\<lambda>(api, title). AddApiRetIntoResult (device_api (world rs) api) title) device_params [])) rs)"

definition DeviceInfoTask :: "DumpContext \<Rightarrow> run_state \<Rightarrow> DumpStatus \<times> run_state" where
  "DeviceInfoTask ctx rs =
    (case GetDeviceInfoByParam rs of (ret, rs1) \<Rightarrow>
      (let rs2 = snd (inject_string ''/proc/version'' PROC_VERSION_INFO True rs1);
           rs3 = snd (inject_string ''/proc/cmdline'' PROC_CMDLINE_INFO True rs2);
           rs4 = snd (inject_string ''uptime -p'' UPTIME_INFO False rs3)
       in if \<not> ret then (DUMP_FAIL, rs4) else (DUMP_OK, rs4)))"

definition KernelModuleInfoTask :: "DumpContext \<Rightarrow> run_state \<Rightarrow> DumpStatus \<times> run_state" where
  "KernelModuleInfoTask ctx rs =
    (DUMP_OK, snd (inject_string ''/proc/modules'' PROC_MODULES_INFO True
       (snd (inject_string ''lsmod'' LSMOD_INFO False
         (snd (inject_string ''printenv'' PRINTENV_INFO False rs))))))"

definition SYSTEM_CLUSTER :: "string list" where
  "SYSTEM_CLUSTER = [''base'', ''system'']"

definition SystemClusterInfoTask :: "DumpContext \<Rightarrow> run_state \<Rightarrow> DumpStatus \<times> run_state" where
  "SystemClusterInfoTask ctx rs =
    (DUMP_OK, inject_value SYSTEM_CLUSTER_INFO (StrVec
       [fold (\<lambda>cluster acc. acc @ cluster @ replicate 30 (CHR '' '')) SYSTEM_CLUSTER []]) rs)"

definition WakeupSourcesInfoTask :: "DumpContext \<Rightarrow> run_state \<Rightarrow> DumpStatus \<times> run_state" where
  "WakeupSourcesInfoTask ctx rs =
    (case inject_string ''/sys/kernel/debug/wakeup_sources'' WAKEUP_SOURCES_INFO True rs of
       (ok, rs') \<Rightarrow> if \<not> ok then (DUMP_FAIL, rs') else (DUMP_OK, rs'))"

section \<open>Writers\<close>

definition write_info :: "DumpContext \<Rightarrow> string \<times> DataId \<Rightarrow> run_state \<Rightarrow> bool \<times> run_state" where
  "write_info ctx config rs =
    (let rs1 = (if fst config \<noteq> [] then write_fd (WriteTitle (fst config)) ctx rs else rs) in
     case read_ptr (GetPtr_strs (inventory rs1) (snd config)) rs1 of
       (None, rs2) \<Rightarrow> (False, rs2)
     | (Some strs, rs2) \<Rightarrow> (True, write_fd (WriteStringsIntoFd strs) ctx rs2))"

text \<open>The loop over \<open>infoConfigs\<close> that goes on (\<open>continue\<close>) and the one that stops
  (\<open>return DUMP_FAIL\<close>) when an item has no data.\<close>

fun write_continue :: "DumpContext \<Rightarrow> (string \<times> DataId) list \<Rightarrow> run_state \<Rightarrow> DumpStatus \<times> run_state" where
  "write_continue ctx [] rs = (DUMP_OK, rs)"
| "write_continue ctx (config # cs) rs = write_continue ctx cs (snd (write_info ctx config rs))"

fun write_strict :: "DumpContext \<Rightarrow> (string \<times> DataId) list \<Rightarrow> run_state \<Rightarrow> DumpStatus \<times> run_state" where
  "write_strict ctx [] rs = (DUMP_OK, rs)"
| "write_strict ctx (config # cs) rs =
    (case write_info ctx config rs of (ok, rs') \<Rightarrow>
       if ok then write_strict ctx cs rs' else (DUMP_FAIL, rs'))"

definition write_freq :: "DumpContext \<Rightarrow> CpuFreqInfo \<Rightarrow> run_state \<Rightarrow> run_state" where
  "write_freq ctx info rs =
    (let cur = ''cmd is: cat '' @ cpu_freq_path (cpuId info) ''cpuinfo_cur_freq'';
         mx = ''cmd is: cat '' @ cpu_freq_path (cpuId info) ''cpuinfo_max_freq''
     in write_fd (WriteStringIntoFd (maxFreq info)) ctx (write_fd (WriteTitle mx) ctx
        (write_fd (WriteStringIntoFd (curFreq info)) ctx (write_fd (WriteTitle cur) ctx rs))))"

definition CpuFreqInfoWriter :: "DumpContext \<Rightarrow> run_state \<Rightarrow> DumpStatus \<times> run_state" where
  "CpuFreqInfoWriter ctx rs =
    (let rs1 = (if \<not> isDumpSystem (dumperOpts ctx)
        then write_fd (WriteTitle ''-------------------------------[cpufreq]-------------------------------'') ctx rs
        else rs) in
     case read_ptr (GetPtr_freqs (inventory rs1) CPU_FREQ_INFO) rs1 of
       (None, rs2) \<Rightarrow> (DUMP_FAIL, rs2)
     | (Some infos, rs2) \<Rightarrow>
         if infos = [] then (DUMP_FAIL, rs2) else (DUMP_OK, fold (write_freq ctx) infos rs2))"

definition kernel_mem_configs :: "(string \<times> DataId) list" where
  "kernel_mem_configs =
    [(''/proc/slabinfo'', PROC_SLAB_INFO), (''/proc/devhost/root/slabinfo'', PROC_DEVHOST_SLAB_INFO),
     (''/proc/zoneinfo'', PROC_ZONE_INFO), (''/proc/vmstat'', PROC_VMSTAT_INFO),
     (''/proc/vmallocinfo'', PROC_VMALLOC_INFO)]"

definition KernelMemInfoWriter :: "DumpContext \<Rightarrow> run_state \<Rightarrow> DumpStatus \<times> run_state" where
  "KernelMemInfoWriter ctx rs = write_continue ctx kernel_mem_configs rs"

definition kernel_module_configs :: "(string \<times> DataId) list" where
  "kernel_module_configs =
    [(''cmd is: printenv'', PRINTENV_INFO), (''/proc/modules'', PROC_MODULES_INFO),
     (''cmd is: lsmod'', LSMOD_INFO)]"

definition KernelModuleInfoWriter :: "DumpContext \<Rightarrow> run_state \<Rightarrow> DumpStatus \<times> run_state" where
  "KernelModuleInfoWriter ctx rs =
    write_strict ctx kernel_module_configs
      (write_fd (WriteTitle ''-------------------------------[system]-------------------------------'') ctx rs)"

definition storage_configs :: "(string \<times> DataId) list" where
  "storage_configs =
    [(''cmd is: storaged -u -p'', STORAGE_STATE_INFO), (''cmd is: df -k'', DF_INFO),
     (''cmd is: lsof'', LSOF_INFO), (''cmd is: iotop -n 1 -m 100'', IOTOP_INFO),
     (''/proc/mounts'', PROC_MOUNTS_INFO)]"

definition StorageInfoWriter :: "DumpContext \<Rightarrow> run_state \<Rightarrow> DumpStatus \<times> run_state" where
  "StorageInfoWriter ctx rs =
    write_continue ctx storage_configs
      (write_fd (WriteTitle ''-------------------------------[storage]-------------------------------'') ctx rs)"

definition StorageIoInfoWriter :: "DumpContext \<Rightarrow> run_state \<Rightarrow> DumpStatus \<times> run_state" where
  "StorageIoInfoWriter ctx rs =
    write_strict ctx [([], PROC_PID_IO_INFO)]
      (write_fd (WriteTitle ''-------------------------------[storage io]-------------------------------'') ctx rs)"

definition system_base_configs :: "(string \<times> DataId) list" where
  "system_base_configs =
    [([], DEVICE_INFO), (''/proc/version'', PROC_VERSION_INFO), (''/proc/cmdline'', PROC_CMDLINE_INFO),
     (''/sys/kernel/debug/wakeup_sources'', WAKEUP_SOURCES_INFO), (''cmd is: uptime -p'', UPTIME_INFO)]"

definition SystemBaseInfoWriter :: "DumpContext \<Rightarrow> run_state \<Rightarrow> DumpStatus \<times> run_state" where
  "SystemBaseInfoWriter ctx rs =
    write_strict ctx system_base_configs
      (write_fd (WriteTitle ''-------------------------------[base]-------------------------------'') ctx rs)"

section \<open>The registry\<close>

text \<open>\<open>TCreator<T>\<close>: a task object with the default empty \<open>PreDump\<close> and \<open>PostDump\<close>.\<close>

definition TCreator ::
    "(DumpContext \<Rightarrow> run_state \<Rightarrow> DumpStatus \<times> run_state) \<Rightarrow> (run_state \<Rightarrow> dump_os Task option) option" where
  "TCreator entry = Some (\<lambda>_. Some \<lparr>PreDump = \<lambda>_ rs. rs, TaskEntry = entry, PostDump = \<lambda>_ rs. rs\<rparr>)"

text \<open>Static initialisation of the translation units; the order between them is not specified
  and does not matter, since each id is registered once.\<close>

definition static_registry :: "dump_os TaskCollection" where
  "static_registry = fold (\<lambda>f. f)
    [register_task DUMP_CPU_FREQ_INFO (TCreator CpuFreqInfoTask) False ''CpuFreqInfoTask'' [],
     register_task DUMP_SLAB_INFO (TCreator SlabInfoTask) False ''SlabInfoTask'' [],
     register_task DUMP_DISK_INFO (TCreator DiskInfoTask) False ''DiskInfoTask'' [],
     register_task DUMP_IOTOP_INFO (TCreator IoTopInfoTask) False ''IoTopInfoTask'' [],
     register_task DUMP_LSOF_INFO (TCreator LsofInfoTask) False ''LsofInfoTask'' [],
     register_task DUMP_MOUNTS_INFO (TCreator MountsInfoTask) False ''MountsInfoTask'' [],
     register_task DUMP_STORAGE_IO_INFO (TCreator StorageIoInfoTask) False ''StorageIoInfoTask'' [],
     register_task DUMP_DEVICE_INFO (TCreator DeviceInfoTask) False ''DeviceInfoTask'' [],
     register_task DUMP_KERNEL_MODULE_INFO (TCreator KernelModuleInfoTask) False ''KernelModuleInfoTask'' [],
     register_task DUMP_SYSTEM_CLUSTER_INFO (TCreator SystemClusterInfoTask) True ''SystemClusterInfoTask'' [],
     register_task DUMP_WAKEUP_SOURCES_INFO (TCreator WakeupSourcesInfoTask) False ''WakeupSourcesInfoTask'' [],
     register_task WRITE_CPU_FREQ_INFO (TCreator CpuFreqInfoWriter) False ''CpuFreqInfoWriter''
       [DUMP_CPU_FREQ_INFO],
     register_data WRITE_CPU_FREQ_INFO [CPU_FREQ_INFO],
     register_task WRITE_KERNEL_MEM_INFO (TCreator KernelMemInfoWriter) False ''KernelMemInfoWriter''
       [DUMP_SLAB_INFO, DUMP_ZONE_INFO, DUMP_VMSTAT_INFO, DUMP_VMALLOC_INFO],
     register_data WRITE_KERNEL_MEM_INFO
       [PROC_SLAB_INFO, PROC_ZONE_INFO, PROC_VMSTAT_INFO, PROC_VMALLOC_INFO, PROC_DEVHOST_SLAB_INFO],
     register_task WRITE_KERNEL_MODULE_INFO (TCreator KernelModuleInfoWriter) True ''KernelModuleInfoWriter''
       [DUMP_KERNEL_MODULE_INFO],
     register_data WRITE_KERNEL_MODULE_INFO [PRINTENV_INFO, PROC_MODULES_INFO, LSMOD_INFO],
     register_task WRITE_STORAGE_INFO (TCreator StorageInfoWriter) True ''StorageInfoWriter''
       [DUMP_DISK_INFO, DUMP_LSOF_INFO, DUMP_IOTOP_INFO, DUMP_MOUNTS_INFO],
     register_data WRITE_STORAGE_INFO
       [STORAGE_STATE_INFO, DF_INFO, LSOF_INFO, IOTOP_INFO, PROC_MOUNTS_INFO],
     register_task WRITE_STORAGE_IO_INFO (TCreator StorageIoInfoWriter) True ''StorageIoInfoWriter''
       [DUMP_STORAGE_IO_INFO],
     register_data WRITE_STORAGE_IO_INFO [PROC_PID_IO_INFO],
     register_task WRITE_SYSTEM_BASE_INFO (TCreator SystemBaseInfoWriter) True ''SystemBaseInfoWriter''
       [DUMP_DEVICE_INFO, DUMP_WAKEUP_SOURCES_INFO],
     register_data WRITE_SYSTEM_BASE_INFO
       [DEVICE_INFO, PROC_VERSION_INFO, PROC_CMDLINE_INFO, WAKEUP_SOURCES_INFO, UPTIME_INFO]] []"

definition TaskControl_init :: "dump_os TaskControl" where
  "TaskControl_init =
    \<lparr>container = static_registry, topoCache = TopoCache_init, enableConfig = TaskEnableConfig_init\<rparr>"

section \<open>DumpManager\<close>

text \<open>
  \<open>StartDump\<close> with the command line parser as an argument: \<open>parse\<close> gives the status and the
  context. The inventory starts empty.
\<close>

definition StartDump ::
    "'j cJSON_api \<Rightarrow> (string \<Rightarrow> string option) \<Rightarrow> string
      \<Rightarrow> (DumpContext \<Rightarrow> DumpStatus \<times> DumpContext)
      \<Rightarrow> (dump_os TaskCollection \<Rightarrow> dump_os TaskCollection)
      \<Rightarrow> DumpContext \<Rightarrow> dump_os TaskControl \<Rightarrow> string list \<Rightarrow> dump_os
      \<Rightarrow> (DumpStatus \<times> dump_os TaskControl \<times> string list) option" where
  "StartDump J read_file configPath parse sched ctx0 tc out os =
    (case parse ctx0 of (st, ctx) \<Rightarrow>
      if st \<noteq> DUMP_OK then Some (DUMP_FAIL, tc, out)
      else (case LoadFromConfig J read_file configPath (enableConfig tc) of (st, cfg) \<Rightarrow>
        let tc1 = tc\<lparr>enableConfig := cfg\<rparr> in
        if st \<noteq> DUMP_OK then Some (DUMP_FAIL, tc1, out)
        else (case CollectRootTasks ctx [] of (st, rootTasks) \<Rightarrow>
          if st \<noteq> DUMP_OK then Some (DUMP_FAIL, tc1, out)
          else (case ExecuteTask sched rootTasks ctx tc1
                       \<lparr>inventory = Map.empty, fdWrites = out, world = os\<rparr> of
                  None \<Rightarrow> None
                | Some (st, tc2, rs, stats) \<Rightarrow>
                    if st \<noteq> DUMP_OK then Some (DUMP_FAIL, tc2, fdWrites rs)
                    else Some (DUMP_OK, tc2, fdWrites rs)))))"

section \<open>Control characters\<close>

lemma filter_control_skip_seq:
  "list_all (\<lambda>c. \<not> is_letter c) ps \<Longrightarrow> is_letter l \<Longrightarrow> filter_control True (ps @ l # cs) = filter_control False cs"
  by (induction ps) (auto simp: Let_def)

lemma filter_control_plain:
  "list_all (\<lambda>c. c \<noteq> CHR 0x1B) as \<Longrightarrow>
    filter_control False (as @ cs) = filter (\<lambda>c. c \<noteq> CHR 0x0D \<and> c \<noteq> CHR 0x0A) as @ filter_control False cs"
  by (induction as) (auto simp: Let_def)

lemma filter_control_no_newline: "set (filter_control s cs) \<inter> {CHR 0x0D, CHR 0x0A} = {}"
proof (induction cs arbitrary: s)
  case Nil
  then show ?case by simp
next
  case (Cons c cs)
  then show ?case by (cases s) (simp_all add: Let_def, metis)
qed

section \<open>Invariants of an execution\<close>

text \<open>
  A predicate on the run state that every task of a set of creators keeps and that releasing data
  keeps is an invariant of the whole execution. The locale proves it once for the controller's
  operations; the typing of the inventory is the instance below.
\<close>

definition uses_creators ::
    "('w RunState \<Rightarrow> 'w Task option) set \<Rightarrow> 'w TaskCollection \<Rightarrow> bool" where
  "uses_creators K ts \<longleftrightarrow> (\<forall>kv \<in> set ts. \<forall>f. creator (snd kv) = Some f \<longrightarrow> f \<in> K)"

locale task_invariant =
  fixes K :: "('w RunState \<Rightarrow> 'w Task option) set" and P :: "'w RunState \<Rightarrow> bool"
  assumes run_keeps: "f \<in> K \<Longrightarrow> f rs0 = Some t \<Longrightarrow> P rs \<Longrightarrow> P (snd (Run t ctx rs))"
    and release_keeps: "P rs \<Longrightarrow> P (ReleaseNoUsedData ts rs)"
begin

lemma single_keeps:
  assumes "ExecuteSingleTask k i ctx (c, rs) = Some (s, c', rs')" and "P rs"
    and "\<forall>f. creator i = Some f \<longrightarrow> f \<in> K"
  shows "P rs'"
proof (cases "creator i")
  case None
  with assms show ?thesis by (simp add: ExecuteSingleTask_def CreateTask_def)
next
  case (Some f)
  have step: "P (snd (Run t ctx r))" if "f r0 = Some t" "P r" for r0 r t
    using run_keeps [of f r0 t r ctx] that assms(3) Some by blast
  show ?thesis
  proof (cases "f rs")
    case None
    with Some assms show ?thesis by (simp add: ExecuteSingleTask_def CreateTask_def)
  next
    case t: (Some t)
    obtain s1 rs1 where r1: "Run t ctx rs = (s1, rs1)" by fastforce
    then have P1: "P rs1" using step [OF t assms(2)] by simp
    show ?thesis
    proof (cases "s1 = DUMP_OK \<or> f rs1 = None")
      case True
      with Some t r1 P1 assms(1) show ?thesis
        by (auto simp: ExecuteSingleTask_def CreateTask_def HandleTaskRetry_def split: if_splits)
    next
      case False
      then obtain t2 where t2: "f rs1 = Some t2" by blast
      with False Some t r1 assms(1) have "rs' = snd (Run t2 ctx rs1)"
        by (auto simp: ExecuteSingleTask_def CreateTask_def HandleTaskRetry_def split: prod.splits if_splits)
      with step [OF t2 P1] show ?thesis by simp
    qed
  qed
qed

lemma level_keeps:
  "run_level ctx ts (c, rs) = Some (res, c', rs') \<Longrightarrow> P rs \<Longrightarrow> uses_creators K ts \<Longrightarrow> P rs'"
proof (induction ts arbitrary: c rs res)
  case Nil
  then show ?case by simp
next
  case (Cons kv ts)
  obtain k i where kv: "kv = (k, i)" by fastforce
  from Cons.prems(1) [unfolded kv] obtain s c1 rs1 res' where
    r: "ExecuteSingleTask k i ctx (c, rs) = Some (s, c1, rs1)"
      "run_level ctx ts (c1, rs1) = Some (res', c', rs')" by (rule run_level_Cons)
  have "\<forall>f. creator i = Some f \<longrightarrow> f \<in> K" "uses_creators K ts"
    using Cons.prems(3) by (simp_all add: uses_creators_def kv)
  with single_keeps [OF r(1) Cons.prems(2)] Cons.IH [OF r(2)] show ?case by blast
qed

lemma inner_keeps:
  assumes fair: "\<And>ts. set (sched ts) = set ts"
  shows "uses_creators K tasks \<Longrightarrow> P (snd st)
    \<Longrightarrow> ExecuteTaskInner sched ctx tasks st stats = Some (ret, (c', rs'), stats') \<Longrightarrow> P rs'"
proof (induction tasks st stats rule: ExecuteTaskInner_induct [where sched = sched and ctx = ctx])
  case (Stop tasks st stats tasks')
  then show ?case by (auto simp: ExecuteTaskInner_stop)
next
  case (Fail tasks st stats r tasks' stat c1 rs1)
  then obtain res where "run_level ctx (sched r) st = Some (res, c1, rs1)"
    by (metis Submit_run prod.collapse)
  moreover have "uses_creators K (sched r)"
    using Fail(5) Select_ready [OF Fail(1)] fair by (auto simp: uses_creators_def)
  ultimately have "P rs1" using level_keeps Fail(6) by (metis prod.collapse)
  with Fail show ?case by (simp add: ExecuteTaskInner_fail)
next
  case (Go tasks st stats r tasks' stat c1 rs1)
  then obtain res where "run_level ctx (sched r) st = Some (res, c1, rs1)"
    by (metis Submit_run prod.collapse)
  moreover have "uses_creators K (sched r)"
    using Go(6) Select_ready [OF Go(1)] fair by (auto simp: uses_creators_def)
  ultimately have "P rs1" using level_keeps Go(7) by (metis prod.collapse)
  then have rel: "P (snd (c1, ReleaseNoUsedData tasks' rs1))" using release_keeps by simp
  have rest: "uses_creators K tasks'"
    using Go(6) Select_rest [OF Go(1)] by (fastforce simp: uses_creators_def)
  show ?case using Go.IH [OF rest rel] Go(1-4,8) by (simp add: ExecuteTaskInner_go)
qed

end

lemma uses_creators_emplace:
  "uses_creators K m \<Longrightarrow> (\<forall>f. creator i = Some f \<longrightarrow> f \<in> K) \<Longrightarrow> uses_creators K (emplace k i m)"
  by (auto simp: uses_creators_def emplace_def)

lemma uses_creators_emplace_all:
  "uses_creators K m \<Longrightarrow> uses_creators K ts \<Longrightarrow> uses_creators K (emplace_all ts m)"
proof (induction ts arbitrary: m)
  case Nil
  then show ?case by (simp add: emplace_all_def)
next
  case (Cons t ts)
  then have "\<forall>f. creator (snd t) = Some f \<longrightarrow> f \<in> K" and ts: "uses_creators K ts"
    by (simp_all add: uses_creators_def)
  then have "uses_creators K (emplace (fst t) (snd t) m)"
    using uses_creators_emplace Cons.prems(1) by blast
  note this ts
  from Cons.IH [OF this] show ?case by (simp add: emplace_all_def)
qed

lemma uses_creators_topo:
  assumes "uses_creators K c"
  shows "uses_creators K (root_topo c en root)"
  unfolding uses_creators_def
proof (intro ballI allI impI)
  fix kv f
  assume kv: "kv \<in> set (root_topo c en root)" "creator (snd kv) = Some f"
  then have "topo_entry_ok c en kv" using build_topo_entries [of c en root "[]"] by (simp add: list_all_iff)
  then obtain i where "map_of c (fst kv) = Some i"
      "snd kv = i\<lparr>taskDependency := filter en (taskDependency i)\<rparr>"
    by (auto simp: topo_entry_ok_def)
  then have "(fst kv, i) \<in> set c" "creator i = Some f" using kv(2) by (auto dest: map_of_SomeD)
  with assms show "f \<in> K" by (force simp: uses_creators_def)
qed

lemma uses_creators_modify:
  "uses_creators K m \<Longrightarrow> (\<And>i. creator (g i) = creator i) \<Longrightarrow> uses_creators K (modify k g m)"
  by (auto simp: uses_creators_def modify_def)

text \<open>All creators reachable from a controller: the registry and every cached topology.\<close>

definition cache_uses :: "('w RunState \<Rightarrow> 'w Task option) set \<Rightarrow> 'w TopoCache \<Rightarrow> bool" where
  "cache_uses K s \<longleftrightarrow> (\<forall>t topo. map_of (taskTopoCache s) t = Some topo \<longrightarrow> uses_creators K topo)"

definition control_uses :: "('w RunState \<Rightarrow> 'w Task option) set \<Rightarrow> 'w TaskControl \<Rightarrow> bool" where
  "control_uses K tc \<longleftrightarrow> uses_creators K (container tc) \<and> cache_uses K (topoCache tc)"

lemma BuildTaskTopo_uses:
  assumes "uses_creators K c" "cache_uses K s" "uses_creators K topo"
  shows "uses_creators K (fst (BuildTaskTopo c en root (topo, s)))"
    and "cache_uses K (snd (BuildTaskTopo c en root (topo, s)))"
proof -
  obtain v s' where g: "GetCachedTaskTopo root s = (v, s')" by fastforce
  have v: "v = map_of (taskTopoCache s) root" and s': "map_of (taskTopoCache s') = map_of (taskTopoCache s)"
    using topo_memo.get_value [of root s] topo_memo.get_content [of root s] g by simp_all
  have cs': "cache_uses K s'" using assms(2) s' by (simp add: cache_uses_def)
  have new: "uses_creators K (root_topo c en root)" by (rule uses_creators_topo [OF assms(1)])
  have put: "cache_uses K (CacheTaskTopo root (root_topo c en root) s')"
    unfolding cache_uses_def
  proof (intro allI impI)
    fix t topo
    assume h: "map_of (taskTopoCache (CacheTaskTopo root (root_topo c en root) s')) t = Some topo"
    show "uses_creators K topo"
    proof (cases "t = root")
      case True
      with h new show ?thesis using topo_memo.put_content [of root "root_topo c en root" s'] by simp
    next
      case False
      from topo_memo.put_sub [OF h False] cs' show ?thesis by (simp add: cache_uses_def)
    qed
  qed
  have m: "topo_memo.memo (root_topo c en) root s =
      (case v of Some w \<Rightarrow> (w, s') | None \<Rightarrow> (root_topo c en root, CacheTaskTopo root (root_topo c en root) s'))"
    by (simp add: topo_memo.memo_def g split: option.splits)
  have cv: "uses_creators K w" if "v = Some w" for w
    using assms(2) v that by (simp add: cache_uses_def)
  show "uses_creators K (fst (BuildTaskTopo c en root (topo, s)))"
    using new cv assms(3) by (auto simp: BuildTaskTopo_memo m intro!: uses_creators_emplace_all split: option.splits)
  show "cache_uses K (snd (BuildTaskTopo c en root (topo, s)))"
    using cs' put by (auto simp: BuildTaskTopo_memo m split: option.splits)
qed

lemma collect_topo_uses:
  assumes "collect_topo c en prev ts (topo, s) = Some (topo', s')" and "uses_creators K c"
    and "cache_uses K s" and "uses_creators K topo"
  shows "uses_creators K topo' \<and> cache_uses K s'"
proof (rule collect_topo_rule [OF assms(1), of "\<lambda>topo s. uses_creators K topo \<and> cache_uses K s"])
  show "uses_creators K topo \<and> cache_uses K s" using assms(3,4) by blast
  show "uses_creators K topo1 \<and> cache_uses K s1"
    if "uses_creators K topo \<and> cache_uses K s" "BuildTaskTopo c en t (topo, s) = (topo1, s1)"
    for t topo s topo1 s1
    using BuildTaskTopo_uses [OF assms(2), of s topo en t] that by simp
  show "uses_creators K (add_dep k p topo) \<and> cache_uses K s"
    if "uses_creators K topo \<and> cache_uses K s" for k p topo s
    using that by (auto intro: uses_creators_modify)
qed

lemma uses_creators_Update: "uses_creators K c \<Longrightarrow> uses_creators K (UpdateTaskFailureCount k b c)"
  by (simp add: UpdateTaskFailureCount_def uses_creators_modify)

lemma single_uses:
  "ExecuteSingleTask k i ctx (c, rs) = Some (s, c', rs') \<Longrightarrow> uses_creators K c \<Longrightarrow> uses_creators K c'"
  using ExecuteSingleTask_frame uses_creators_Update by blast

lemma level_uses:
  "run_level ctx ts (c, rs) = Some (res, c', rs') \<Longrightarrow> uses_creators K c \<Longrightarrow> uses_creators K c'"
proof (induction ts arbitrary: c rs res)
  case Nil
  then show ?case by simp
next
  case (Cons kv ts)
  obtain k i where kv: "kv = (k, i)" by fastforce
  from Cons.prems(1) [unfolded kv] obtain s c1 rs1 res' where
    r: "ExecuteSingleTask k i ctx (c, rs) = Some (s, c1, rs1)"
      "run_level ctx ts (c1, rs1) = Some (res', c', rs')" by (rule run_level_Cons)
  from Cons.IH [OF r(2) single_uses [OF r(1) Cons.prems(2)]] show ?case .
qed

lemma submit_uses:
  assumes "SubmitRunnableTasks sched ctx r st = Some (stat, c', rs')" and "uses_creators K (fst st)"
  shows "uses_creators K c'"
proof -
  obtain c rs where st: "st = (c, rs)" by fastforce
  from assms(1) [unfolded st] obtain res where "run_level ctx (sched r) (c, rs) = Some (res, c', rs')"
    by (rule Submit_run)
  from level_uses [OF this] assms(2) st show ?thesis by simp
qed

lemma inner_uses:
  "uses_creators K (fst st) \<Longrightarrow> ExecuteTaskInner sched ctx tasks st stats = Some (ret, (c', rs'), stats')
    \<Longrightarrow> uses_creators K c'"
proof (induction tasks st stats rule: ExecuteTaskInner_induct [where sched = sched and ctx = ctx])
  case (Stop tasks st stats tasks')
  then show ?case by (auto simp: ExecuteTaskInner_stop)
next
  case (Fail tasks st stats r tasks' stat c1 rs1)
  with submit_uses [OF Fail(3,5)] show ?case by (simp add: ExecuteTaskInner_fail)
next
  case (Go tasks st stats r tasks' stat c1 rs1)
  with submit_uses [OF Go(3) Go(6)] show ?case by (simp add: ExecuteTaskInner_go)
qed

context task_invariant
begin

lemma ExecuteTask_keeps:
  assumes fair: "\<And>ts. set (sched ts) = set ts" and K: "control_uses K tc" and P: "P rs"
    and ex: "ExecuteTask sched taskIds ctx tc rs = Some (ret, tc', rs', stats)"
  shows "P rs' \<and> control_uses K tc'"
proof (cases "collect_topo (container tc) (IsTaskEnabled (enableConfig tc)) None taskIds ([], topoCache tc)")
  case None
  with ex K P show ?thesis by (auto simp: ExecuteTask_def)
next
  case (Some p)
  obtain topo cache where p: "p = (topo, cache)" by fastforce
  have u: "uses_creators K topo" "cache_uses K cache"
    using collect_topo_uses [OF Some [unfolded p], of K] K by (simp_all add: control_uses_def uses_creators_def)
  have c: "uses_creators K (container tc)" using K by (simp add: control_uses_def)
  show ?thesis
  proof (cases "VerifyTaskTopo (container tc) topo")
    case False
    with ex Some p c u P show ?thesis by (auto simp: ExecuteTask_def control_uses_def)
  next
    case True
    obtain ret' c' rs'' stats' where
      i: "ExecuteTaskInner sched ctx topo (container tc, rs) [] = Some (ret', (c', rs''), stats')"
      using ExecuteTaskInner_total [of sched ctx topo "(container tc, rs)" "[]"] by auto
    have "P rs''" using inner_keeps [OF fair u(1) _ i] P by simp
    moreover have "uses_creators K c'" using inner_uses [OF _ i] c by simp
    ultimately show ?thesis using ex Some p True i u(2) by (auto simp: ExecuteTask_def control_uses_def)
  qed
qed

end

text \<open>The instance: the inventory stays well typed and no read is badly cast.\<close>

definition typed_state :: "run_state \<Rightarrow> bool" where
  "typed_state rs \<longleftrightarrow> well_typed (inventory rs) \<and> \<not> badCast (world rs)"

definition task_entries :: "(DumpContext \<Rightarrow> run_state \<Rightarrow> DumpStatus \<times> run_state) list" where
  "task_entries =
    [CpuFreqInfoTask, SlabInfoTask, DiskInfoTask, IoTopInfoTask, LsofInfoTask, MountsInfoTask,
     StorageIoInfoTask, DeviceInfoTask, KernelModuleInfoTask, SystemClusterInfoTask,
     WakeupSourcesInfoTask, CpuFreqInfoWriter, KernelMemInfoWriter, KernelModuleInfoWriter,
     StorageInfoWriter, StorageIoInfoWriter, SystemBaseInfoWriter]"

definition static_creators :: "(run_state \<Rightarrow> dump_os Task option) set" where
  "static_creators = set (map (\<lambda>entry. the (TCreator entry)) task_entries)"

lemma typed_write [hd_invs]: "typed_state (write_fd w ctx rs) = typed_state rs"
  by (simp add: typed_state_def write_fd_def)

lemma typed_inject_string [hd_invs]:
  "typed_state rs \<Longrightarrow> d \<noteq> CPU_FREQ_INFO \<Longrightarrow> typed_state (snd (inject_string src d isFile rs))"
  by (simp add: typed_state_def inject_string_def well_typed_InjectString split: prod.splits)
    (metis snd_conv well_typed_InjectString)

lemma typed_inject_strs [hd_invs]:
  "typed_state rs \<Longrightarrow> d \<noteq> CPU_FREQ_INFO \<Longrightarrow> typed_state (inject_value d (StrVec xs) rs)"
  by (simp add: typed_state_def inject_value_def well_typed_Inject_strs)

lemma typed_inject_freqs [hd_invs]:
  "typed_state rs \<Longrightarrow> typed_state (inject_value CPU_FREQ_INFO (CpuFreqVec xs) rs)"
  by (simp add: typed_state_def inject_value_def well_typed_Inject_freqs)

lemma typed_write_info [hd_invs]:
  assumes "typed_state rs" and "snd config \<noteq> CPU_FREQ_INFO"
  shows "typed_state (snd (write_info ctx config rs))"
proof -
  define rs1 where "rs1 = (if fst config \<noteq> [] then write_fd (WriteTitle (fst config)) ctx rs else rs)"
  have t: "typed_state rs1" using assms(1) by (simp add: rs1_def typed_write)
  then have "GetPtr_strs (inventory rs1) (snd config) \<noteq> BadCast"
    using GetPtr_strs_typed assms(2) by (simp add: typed_state_def)
  with t show ?thesis
    by (cases "GetPtr_strs (inventory rs1) (snd config)")
      (simp_all add: write_info_def Let_def flip: rs1_def, simp_all add: read_ptr_def typed_write)
qed

lemma typed_write_continue [hd_invs]:
  "typed_state rs \<Longrightarrow> list_all (\<lambda>c. snd c \<noteq> CPU_FREQ_INFO) cs \<Longrightarrow> typed_state (snd (write_continue ctx cs rs))"
  by (induction cs arbitrary: rs) (simp_all add: typed_write_info)

lemma typed_write_strict [hd_invs]:
  "typed_state rs \<Longrightarrow> list_all (\<lambda>c. snd c \<noteq> CPU_FREQ_INFO) cs \<Longrightarrow> typed_state (snd (write_strict ctx cs rs))"
proof (induction cs arbitrary: rs)
  case Nil
  then show ?case by simp
next
  case (Cons c cs)
  then show ?case
    using typed_write_info [of rs c ctx] by (cases "write_info ctx c rs") simp
qed

lemma typed_write_freqs [hd_invs]: "typed_state (fold (write_freq ctx) infos rs) = typed_state rs"
  by (induction infos arbitrary: rs) (simp_all add: write_freq_def Let_def typed_write)

lemmas task_defs = CpuFreqInfoTask_def SlabInfoTask_def DiskInfoTask_def IoTopInfoTask_def
  LsofInfoTask_def MountsInfoTask_def StorageIoInfoTask_def DeviceInfoTask_def GetDeviceInfoByParam_def
  KernelModuleInfoTask_def SystemClusterInfoTask_def WakeupSourcesInfoTask_def
  KernelMemInfoWriter_def KernelModuleInfoWriter_def StorageInfoWriter_def
  StorageIoInfoWriter_def SystemBaseInfoWriter_def

lemma text_configs [simp]:
  "list_all (\<lambda>c. snd c \<noteq> CPU_FREQ_INFO) kernel_mem_configs"
  "list_all (\<lambda>c. snd c \<noteq> CPU_FREQ_INFO) kernel_module_configs"
  "list_all (\<lambda>c. snd c \<noteq> CPU_FREQ_INFO) storage_configs"
  "list_all (\<lambda>c. snd c \<noteq> CPU_FREQ_INFO) system_base_configs"
  by (simp_all add: kernel_mem_configs_def kernel_module_configs_def storage_configs_def
      system_base_configs_def)

lemma uses_creators_container_at:
  assumes "uses_creators K c" and "\<And>i f. creator (g i) = Some f \<Longrightarrow> creator i = Some f \<or> f \<in> K"
  shows "uses_creators K (container_at t g c)"
proof -
  have "uses_creators K (emplace t RegTaskInfo_init c)"
    using assms(1) by (intro uses_creators_emplace) (simp_all add: RegTaskInfo_init_def)
  then show ?thesis
    using assms(2) unfolding uses_creators_def container_at_def modify_def by fastforce
qed

lemma uses_creators_register_task:
  "uses_creators K c \<Longrightarrow> the (TCreator e) \<in> K \<Longrightarrow> uses_creators K (register_task t (TCreator e) m n ds c)"
  unfolding register_task_def by (rule uses_creators_container_at) (simp_all add: TCreator_def)

lemma uses_creators_register_data: "uses_creators K c \<Longrightarrow> uses_creators K (register_data t ds c)"
  unfolding register_data_def by (rule uses_creators_container_at) simp_all

lemma static_uses: "uses_creators static_creators static_registry"
proof -
  have "uses_creators static_creators []" by (simp add: uses_creators_def)
  moreover have "the (TCreator e) \<in> static_creators" if "e \<in> set task_entries" for e
    using that by (simp add: static_creators_def)
  ultimately show ?thesis
    unfolding static_registry_def fold.simps id_def comp_def
    by (simp add: uses_creators_register_task uses_creators_register_data task_entries_def)
qed

lemma typed_CpuFreqInfoWriter: "typed_state rs \<Longrightarrow> typed_state (snd (CpuFreqInfoWriter ctx rs))"
proof -
  assume "typed_state rs"
  define rs1 where "rs1 = (if \<not> isDumpSystem (dumperOpts ctx)
        then write_fd (WriteTitle ''-------------------------------[cpufreq]-------------------------------'') ctx rs
        else rs)"
  then have t: "typed_state rs1" using \<open>typed_state rs\<close> by (simp add: typed_write)
  then have "GetPtr_freqs (inventory rs1) CPU_FREQ_INFO \<noteq> BadCast"
    using GetPtr_freqs_typed by (simp add: typed_state_def)
  with t show ?thesis
    by (cases "GetPtr_freqs (inventory rs1) CPU_FREQ_INFO")
      (simp_all add: CpuFreqInfoWriter_def Let_def flip: rs1_def, simp_all add: read_ptr_def typed_write_freqs)
qed

lemma typed_IoTopInfoTask: "typed_state rs \<Longrightarrow> typed_state (snd (IoTopInfoTask ctx rs))"
  by (simp add: IoTopInfoTask_def typed_state_def well_typed_InjectStringWithFilter)

lemma typed_WakeupSourcesInfoTask: "typed_state rs \<Longrightarrow> typed_state (snd (WakeupSourcesInfoTask ctx rs))"
  using typed_inject_string [of rs WAKEUP_SOURCES_INFO "''/sys/kernel/debug/wakeup_sources''" True]
  by (cases "inject_string ''/sys/kernel/debug/wakeup_sources'' WAKEUP_SOURCES_INFO True rs")
    (simp add: WakeupSourcesInfoTask_def)

lemma entries_typed:
  assumes "entry \<in> set task_entries" and "typed_state rs"
  shows "typed_state (snd (entry ctx rs))"
proof -
  consider "entry = CpuFreqInfoTask" | "entry = CpuFreqInfoWriter" | "entry = IoTopInfoTask"
    | "entry = WakeupSourcesInfoTask"
    | "entry \<in> {SlabInfoTask, DiskInfoTask, LsofInfoTask, MountsInfoTask, StorageIoInfoTask,
         DeviceInfoTask, KernelModuleInfoTask, SystemClusterInfoTask}"
    | "entry \<in> {KernelMemInfoWriter, KernelModuleInfoWriter, StorageInfoWriter, StorageIoInfoWriter,
         SystemBaseInfoWriter}"
    using assms(1) unfolding task_entries_def by auto
  then show ?thesis
  proof cases
    case 1
    with assms(2) show ?thesis by (simp add: CpuFreqInfoTask_def typed_inject_freqs split: option.splits)
  next
    case 5
    with assms(2) show ?thesis
      by (auto simp: task_defs Let_def typed_inject_string typed_inject_strs)
  next
    case 6
    with assms(2) show ?thesis
      by (auto simp: task_defs typed_write typed_write_continue typed_write_strict
          simp del: write_strict.simps)
  qed (simp_all add: assms(2) typed_CpuFreqInfoWriter typed_IoTopInfoTask typed_WakeupSourcesInfoTask)
qed

interpretation typed_exec: task_invariant static_creators typed_state
proof
  fix f rs0 t rs ctx
  assume "f \<in> static_creators" "f rs0 = Some t" "typed_state rs"
  then show "typed_state (snd (Run t ctx rs))"
    using entries_typed by (auto simp: static_creators_def TCreator_def Run_def split: prod.splits)
      (metis snd_conv)
next
  show "typed_state rs \<Longrightarrow> typed_state (ReleaseNoUsedData ts rs)" for rs :: run_state and ts
    by (simp add: typed_state_def ReleaseNoUsedData_def well_typed_RemoveRestData)
qed

lemma control_uses_init: "control_uses static_creators TaskControl_init"
  by (simp add: control_uses_def TaskControl_init_def static_uses cache_uses_def TopoCache_init_def)

end
