(* ===== verification/Task_Properties.thy ===== *)
theory Task_Properties
  imports Dumper_Tasks
begin

text \<open>
  The correctness properties of the task framework, each over the definitions of the component
  theories, with its witness. The example registry at the start serves the witnesses only.
\<close>

section \<open>An example registry\<close>

definition demo_task :: "DumpStatus \<Rightarrow> unit Task" where
  "demo_task s = \<lparr>PreDump = \<lambda>_ rs. rs, TaskEntry = \<lambda>_ rs. (s, rs), PostDump = \<lambda>_ rs. rs\<rparr>"

definition demo_info :: "DumpStatus \<Rightarrow> bool \<Rightarrow> TaskId list \<Rightarrow> unit RegTaskInfo" where
  "demo_info s m deps = \<lparr>creator = Some (\<lambda>_. Some (demo_task s)), dataDependency = [],
     taskDependency = deps, taskName = ''demo'', failureCount = 0, mandatory = m\<rparr>"

definition demo_reg :: "DumpStatus \<Rightarrow> unit TaskCollection" where
  "demo_reg s = [(10001, demo_info s True [1, 2]), (1, demo_info DUMP_FAIL False []), (2, demo_info DUMP_OK True [1])]"

definition demo_state :: "unit RunState" where
  "demo_state = \<lparr>inventory = Map.empty, fdWrites = [], world = ()\<rparr>"

definition demo_ctx :: DumpContext where
  "demo_ctx = DumpContext_new 0 0 1"

section \<open>Running a topology\<close>



text \<open>
  C2. When a run fails, it fails because a mandatory task of the last executed level failed twice;
  the levels before it had no failed mandatory task, and the executed levels are an initial part
  of the topology's levels.
\<close>

definition level_ok :: "LevelStat \<Rightarrow> bool" where
  "level_ok l \<longleftrightarrow> (\<forall>t \<in> set (taskStats l). statMandatory t \<longrightarrow> dumpStatus t = DUMP_OK)"

lemma exec_level_stats:
  "ExecuteTaskInner sched ctx tasks st stats = Some (ret, st', stats')
    \<Longrightarrow> list_all (\<lambda>l. executeResult l = level_ok l) stats
    \<Longrightarrow> list_all executeResult stats
    \<Longrightarrow> list_all (\<lambda>l. executeResult l = level_ok l) stats' \<and> list_all executeResult (butlast stats')"
proof (induction tasks st stats rule: ExecuteTaskInner_induct [where sched = sched and ctx = ctx])
  case (Stop tasks st stats tasks')
  then show ?case by (auto simp: ExecuteTaskInner_stop list_all_iff dest: in_set_butlastD)
next
  case (Fail tasks st stats r tasks' stat c1 rs1)
  then have "stats' = snd (GetTaskResult stat stats)" by (simp add: ExecuteTaskInner_fail)
  with Fail(6,7) show ?case
    by (auto simp: GetTaskResult_def Let_def level_ok_def list_all_iff)
next
  case (Go tasks st stats r tasks' stat c1 rs1)
  have "ExecuteTaskInner sched ctx tasks' (c1, ReleaseNoUsedData tasks' rs1) (snd (GetTaskResult stat stats))
      = Some (ret, st', stats')" using Go by (simp add: ExecuteTaskInner_go)
  then show ?case
    using Go(4,7,8) by (intro Go.IH) (auto simp: GetTaskResult_def Let_def level_ok_def list_all_iff)
qed

theorem ExecuteTaskInner_failure:
  assumes "fair sched" and "wf_map tasks"
    and "ExecuteTaskInner sched ctx tasks (c, rs) [] = Some (ret, st', stats)" and "ret \<noteq> DUMP_OK"
  shows "ret = DUMP_FAIL \<and> stats \<noteq> []
    \<and> (\<exists>n. map level_ids stats = take n (levels c tasks))
    \<and> list_all level_ok (butlast stats)
    \<and> (\<exists>t \<in> set (taskStats (last stats)). statMandatory t \<and> dumpStatus t \<noteq> DUMP_OK)"
proof -
  obtain n where e: "map level_ids stats = take n (levels c tasks)"
      "ret = DUMP_FAIL" "stats \<noteq> []" "\<not> executeResult (last stats)"
    using exec_levels [OF assms(1-3)] assms(4) by auto
  have l: "list_all (\<lambda>l. executeResult l = level_ok l) stats" "list_all executeResult (butlast stats)"
    using exec_level_stats [OF assms(3)] by simp_all
  then have "list_all level_ok (butlast stats)" by (auto simp: list_all_iff dest: in_set_butlastD)
  moreover have "\<not> level_ok (last stats)" using l(1) e(3,4) by (simp add: list_all_iff)
  ultimately show ?thesis using e(1-3) by (auto simp: level_ok_def)
qed

theorem ExecuteTaskInner_failure_witness:
  "\<exists>st' stats. ExecuteTaskInner (\<lambda>ts. ts) demo_ctx (demo_reg DUMP_FAIL) (demo_reg DUMP_FAIL, demo_state) []
      = Some (DUMP_FAIL, st', stats) \<and> list_all level_ok (butlast stats)"
proof -
  have "fst (the (ExecuteTaskInner (\<lambda>ts. ts) demo_ctx (demo_reg DUMP_FAIL) (demo_reg DUMP_FAIL, demo_state) []))
      = DUMP_FAIL" by code_simp
  then obtain st' stats where
    r: "ExecuteTaskInner (\<lambda>ts. ts) demo_ctx (demo_reg DUMP_FAIL) (demo_reg DUMP_FAIL, demo_state) []
      = Some (DUMP_FAIL, st', stats)"
    using ExecuteTaskInner_total [of "\<lambda>ts. ts" demo_ctx "demo_reg DUMP_FAIL" "(demo_reg DUMP_FAIL, demo_state)" "[]"]
    by auto
  have "fair (\<lambda>ts. ts)" by (simp add: fair_def)
  moreover have "wf_map (demo_reg DUMP_FAIL)" by (simp add: demo_reg_def)
  ultimately show ?thesis using ExecuteTaskInner_failure [OF _ _ r] r by blast
qed

text \<open>
  C3. \<open>VerifyTaskTopo\<close> accepts a topology exactly when it is not empty and has a rank: every task
  that is not switched off depends only on tasks of the topology that are not switched off and
  have a smaller rank. So it rejects cycles, missing dependencies and switched-off dependencies,
  and nothing else.
\<close>

theorem VerifyTaskTopo_exact:
  assumes "wf_map tasks"
  shows "VerifyTaskTopo c tasks \<longleftrightarrow> tasks \<noteq> [] \<and> (\<exists>rank. ranked c tasks rank)"
  using VerifyTaskTopo_iff_ranked [OF assms] .

theorem VerifyTaskTopo_exact_witness:
  "\<not> VerifyTaskTopo (demo_reg DUMP_OK) [(1, demo_info DUMP_OK True [2]), (2, demo_info DUMP_OK True [1])]
   \<and> \<not> (\<exists>rank. ranked (demo_reg DUMP_OK) [(1, demo_info DUMP_OK True [2]), (2, demo_info DUMP_OK True [1])] rank)"
proof -
  have "\<not> VerifyTaskTopo (demo_reg DUMP_OK) [(1, demo_info DUMP_OK True [2]), (2, demo_info DUMP_OK True [1])]"
    by code_simp
  moreover have "wf_map [(1 :: TaskId, demo_info DUMP_OK True [2]), (2, demo_info DUMP_OK True [1])]" by simp
  ultimately show ?thesis using VerifyTaskTopo_exact by blast
qed

section \<open>Building and caching topologies\<close>

text \<open>
  C4. The topology \<open>BuildTaskTopo\<close> gives for a root has exactly the registered tasks that the
  root reaches through enabled dependencies, one entry per task, and each entry is the registered
  one with the disabled dependencies taken out, when the cache has no entry for the root.
\<close>

theorem BuildTaskTopo_reachable:
  assumes "map_of (taskTopoCache s) root = None"
  shows "set (keys (fst (BuildTaskTopo c en root ([], s)))) = {t \<in> set (keys c). dep_reach c en root t}
    \<and> list_all (topo_entry_ok c en) (fst (BuildTaskTopo c en root ([], s)))
    \<and> wf_map (fst (BuildTaskTopo c en root ([], s)))"
proof -
  have "fst (BuildTaskTopo c en root ([], s)) = fst (build_topo c en root [])"
    using assms by (auto simp: BuildTaskTopo_def GetCachedTaskTopo_def split: prod.splits)
  also have "\<dots> = emplace_all (root_topo c en root) []" by (rule build_topo_merge)
  also have "\<dots> = root_topo c en root" by (rule emplace_all_self) (rule build_topo_wf)
  finally show ?thesis using build_topo_reach [of c en root "[]"] build_topo_entries [of c en root "[]"]
      build_topo_wf [of c en root "[]"] by simp
qed

theorem BuildTaskTopo_reachable_witness:
  "set (keys (fst (BuildTaskTopo (demo_reg DUMP_OK) (\<lambda>t. t \<noteq> 1) 10001 ([], TopoCache_init)))) =
    {t \<in> set (keys (demo_reg DUMP_OK)). dep_reach (demo_reg DUMP_OK) (\<lambda>t. t \<noteq> 1) 10001 t}"
  using BuildTaskTopo_reachable [of TopoCache_init 10001 "demo_reg DUMP_OK" "\<lambda>t. t \<noteq> 1"]
  by (simp add: TopoCache_init_def)

text \<open>
  C5. Going through the cache changes nothing: as long as every cached topology agrees with the
  registry up to the failure counter, which nothing reads from a topology, the topology built
  through the cache agrees with the one built without it, and the cache stays that way, also
  over whole executions that count failures in between.
\<close>

theorem cache_equivalence:
  assumes "cache_fresh (container tc) (IsTaskEnabled (enableConfig tc)) (topoCache tc)"
    and "ExecuteTask sched ids ctx tc rs = Some (ret, tc', rs', stats)"
  shows "cache_fresh (container tc') (IsTaskEnabled (enableConfig tc')) (topoCache tc')
    \<and> norm (fst (BuildTaskTopo (container tc') (IsTaskEnabled (enableConfig tc')) root (topo, topoCache tc')))
      = norm (fst (build_topo (container tc') (IsTaskEnabled (enableConfig tc')) root topo))"
proof -
  have "cache_fresh (container tc') (IsTaskEnabled (enableConfig tc')) (topoCache tc')"
    using assms(2)
  proof (cases rule: ExecuteTask_cases)
    case bad_root
    with assms(1) show ?thesis by simp
  next
    case (rejected topo cache)
    with collect_topo_fresh [OF rejected(1) assms(1)] show ?thesis by simp
  next
    case (ran topo cache c')
    with collect_topo_fresh [OF ran(1) assms(1)] norm_inner [OF ran(3)] show ?thesis
      using cache_fresh_norm [of c' "container tc"] by simp
  qed
  with BuildTaskTopo_fresh(1) [OF this] show ?thesis by blast
qed

definition demo_control :: "DumpStatus \<Rightarrow> unit TaskControl" where
  "demo_control s = \<lparr>container = demo_reg s, topoCache = TopoCache_init, enableConfig = TaskEnableConfig_init\<rparr>"

theorem cache_equivalence_witness:
  "\<exists>ret tc' rs' stats. ExecuteTask (\<lambda>ts. ts) [10001] demo_ctx (demo_control DUMP_OK) demo_state
      = Some (ret, tc', rs', stats)
    \<and> norm (fst (BuildTaskTopo (container tc') (IsTaskEnabled (enableConfig tc')) 10001 ([], topoCache tc')))
      = norm (fst (build_topo (container tc') (IsTaskEnabled (enableConfig tc')) 10001 []))"
proof -
  have "cache_fresh (container (demo_control DUMP_OK)) (IsTaskEnabled (enableConfig (demo_control DUMP_OK)))
      (topoCache (demo_control DUMP_OK))"
    by (simp add: cache_fresh_def demo_control_def TopoCache_init_def)
  moreover obtain ret tc' rs' stats where
    "ExecuteTask (\<lambda>ts. ts) [10001] demo_ctx (demo_control DUMP_OK) demo_state = Some (ret, tc', rs', stats)"
    using ExecuteTask_never_throws by blast
  ultimately show ?thesis using cache_equivalence by blast
qed

text \<open>
  C6. The cache keeps its invariant over every execution: the list, the iterator map and the topology
  map hold the same roots, every iterator is valid, and at most ten topologies are stored.
\<close>

theorem cache_invariant:
  assumes "lru_inv (topoCache tc)" and "ExecuteTask sched ids ctx tc rs = Some (ret, tc', rs', stats)"
  shows "lru_inv (topoCache tc') \<and> length (taskTopoCache (topoCache tc')) \<le> 10"
proof -
  have "lru_inv (topoCache tc')"
    using assms(2)
  proof (cases rule: ExecuteTask_cases)
    case bad_root
    with assms(1) show ?thesis by simp
  next
    case (rejected topo cache)
    with collect_topo_inv [OF rejected(1) assms(1)] show ?thesis by simp
  next
    case (ran topo cache c')
    with collect_topo_inv [OF ran(1) assms(1)] show ?thesis by simp
  qed
  then show ?thesis by (simp add: lru_inv_def MAX_CACHE_SIZE_def)
qed

theorem cache_invariant_witness:
  "\<exists>ret tc' rs' stats. ExecuteTask (\<lambda>ts. ts) [10001] demo_ctx (demo_control DUMP_OK) demo_state
      = Some (ret, tc', rs', stats)
    \<and> lru_inv (topoCache tc') \<and> length (taskTopoCache (topoCache tc')) \<le> 10"
proof -
  have "lru_inv (topoCache (demo_control DUMP_OK))" by (simp add: demo_control_def lru_inv_init)
  moreover obtain ret tc' rs' stats where
    "ExecuteTask (\<lambda>ts. ts) [10001] demo_ctx (demo_control DUMP_OK) demo_state = Some (ret, tc', rs', stats)"
    using ExecuteTask_never_throws by blast
  ultimately show ?thesis using cache_invariant by blast
qed

section \<open>Whole executions\<close>

text \<open>
  \<open>ExecuteTask\<close> always returns, with \<open>DUMP_OK\<close> or \<open>DUMP_FAIL\<close>: no empty creator is ever
  called and every loop ends, for any registry, roots and schedule.
\<close>

theorem ExecuteTask_returns:
  "\<exists>ret tc' rs' stats. ExecuteTask sched ids ctx tc rs = Some (ret, tc', rs', stats)
     \<and> (ret = DUMP_OK \<or> ret = DUMP_FAIL)"
  by (rule ExecuteTask_status)

text \<open>
  The failure count of a task never exceeds ten: a task that has failed ten times is not run
  again, so its count stays, and a task that runs had a smaller count before.
\<close>

theorem failure_counts_bounded:
  assumes "fair sched" and "\<forall>k. fc (container tc) k \<le> MAX_FAILURE_COUNT"
    and "ExecuteTask sched ids ctx tc rs = Some (ret, tc', rs', stats)"
  shows "fc (container tc') k \<le> 10"
  using assms(3)
proof (cases rule: ExecuteTask_cases)
  case bad_root
  with assms(2) show ?thesis by (simp add: MAX_FAILURE_COUNT_def)
next
  case (rejected topo cache)
  with assms(2) show ?thesis by (simp add: MAX_FAILURE_COUNT_def)
next
  case (ran topo cache c')
  have "wf_map topo" using collect_topo_wf [OF ran(1)] by simp
  from exec_bound [OF assms(1) this ran(3)] assms(2) ran(4) show ?thesis by (simp add: MAX_FAILURE_COUNT_def)
qed

theorem failure_counts_bounded_witness:
  "\<exists>ret tc' rs' stats. ExecuteTask (\<lambda>ts. ts) [10001] demo_ctx (demo_control DUMP_OK) demo_state
      = Some (ret, tc', rs', stats)
    \<and> fc (container tc') 1 \<le> 10"
proof -
  have "\<forall>k. fc (container (demo_control DUMP_OK)) k \<le> MAX_FAILURE_COUNT"
    by (simp add: demo_control_def demo_reg_def demo_info_def fc_def)
  moreover have "fair (\<lambda>ts. ts)" by (simp add: fair_def)
  moreover obtain ret tc' rs' stats where
    "ExecuteTask (\<lambda>ts. ts) [10001] demo_ctx (demo_control DUMP_OK) demo_state = Some (ret, tc', rs', stats)"
    using ExecuteTask_never_throws by blast
  ultimately show ?thesis using failure_counts_bounded by blast
qed

text \<open>
  C9. Started with a well-typed inventory, an execution of the registered tasks never reads data
  through a pointer of the wrong type, for any roots, schedule, options and device answers, and
  leaves a controller for which the same holds again.
\<close>

theorem execution_never_miscasts:
  assumes "\<And>ts. set (sched ts) = set ts" and "control_uses static_creators tc"
    and "well_typed (inventory rs)" and "\<not> badCast (world rs)"
    and "ExecuteTask sched ids ctx tc rs = Some (ret, tc', rs', stats)"
  shows "\<not> badCast (world rs') \<and> well_typed (inventory rs') \<and> control_uses static_creators tc'"
  using typed_exec.ExecuteTask_keeps [OF assms(1,2) _ assms(5)] assms(3,4) by (auto simp: typed_state_def)

definition demo_os :: dump_os where
  "demo_os = \<lparr>file_lines = \<lambda>_. Some [''x''], cmd_lines = \<lambda>_. None, nprocessors_onln = 2,
     load_string = \<lambda>_. Some ''1'', device_api = \<lambda>_. [], badCast = False\<rparr>"

theorem execution_never_miscasts_witness:
  "\<exists>ret tc' rs' stats. ExecuteTask rev [WRITE_STORAGE_INFO, WRITE_CPU_FREQ_INFO] demo_ctx TaskControl_init
        \<lparr>inventory = Map.empty, fdWrites = [], world = demo_os\<rparr> = Some (ret, tc', rs', stats)
     \<and> \<not> badCast (world rs')"
proof -
  obtain ret tc' rs' stats where
    r: "ExecuteTask rev [WRITE_STORAGE_INFO, WRITE_CPU_FREQ_INFO] demo_ctx TaskControl_init
        \<lparr>inventory = Map.empty, fdWrites = [], world = demo_os\<rparr> = Some (ret, tc', rs', stats)"
    using ExecuteTask_never_throws by blast
  have "\<not> badCast (world rs')"
    using execution_never_miscasts [OF _ control_uses_init _ _ r] by (simp add: demo_os_def)
  with r show ?thesis by blast
qed


text \<open>
  C11. A request one of whose roots needs a task that nobody registered is refused before any task
  runs: nothing is written and no data is collected. (The root \<open>WRITE_KERNEL_MEM_INFO\<close> of the
  system dump is such a root: its zone, vmstat and vmalloc collectors are not registered.)
\<close>

theorem missing_dependency_refused:
  assumes "cache_fresh (container tc) (IsTaskEnabled (enableConfig tc)) (topoCache tc)"
    and "root \<in> set ids" and "map_of (container tc) root = Some i" and "IsTaskEnabled (enableConfig tc) root"
    and "\<not> IsTaskExcessivelyFailed (container tc) root"
    and "d \<in> set (taskDependency i)" and "IsTaskEnabled (enableConfig tc) d" and "d \<notin> set (keys (container tc))"
  shows "\<exists>tc'. ExecuteTask sched ids ctx tc rs = Some (DUMP_FAIL, tc', rs, [])"
proof -
  obtain ret tc' rs' stats where r: "ExecuteTask sched ids ctx tc rs = Some (ret, tc', rs', stats)"
    using ExecuteTask_never_throws by blast
  then show ?thesis
  proof (cases rule: ExecuteTask_cases)
    case (ran topo cache c')
    with missing_dep_rejected [OF ran(1) assms(1,2,4,3,5,6,7,8)] show ?thesis by blast
  qed (use r in auto)
qed

lemma kernel_mem_registered:
  "\<exists>i. map_of static_registry WRITE_KERNEL_MEM_INFO = Some i \<and> failureCount i = 0
     \<and> DUMP_ZONE_INFO \<in> set (taskDependency i)"
  "DUMP_ZONE_INFO \<notin> set (keys static_registry)"
proof -
  have "case map_of static_registry WRITE_KERNEL_MEM_INFO of None \<Rightarrow> False
      | Some i \<Rightarrow> failureCount i = 0 \<and> DUMP_ZONE_INFO \<in> set (taskDependency i)" by code_simp
  then show "\<exists>i. map_of static_registry WRITE_KERNEL_MEM_INFO = Some i \<and> failureCount i = 0
     \<and> DUMP_ZONE_INFO \<in> set (taskDependency i)" by (auto split: option.splits)
  show "DUMP_ZONE_INFO \<notin> set (keys static_registry)" by code_simp
qed

theorem missing_dependency_refused_witness:
  "\<exists>tc'. ExecuteTask (\<lambda>ts. ts) (snd (CollectRootTasks (demo_ctx\<lparr>dumperOpts := DumperOptions_init\<lparr>isDumpSystem := True\<rparr>\<rparr>) []))
      demo_ctx TaskControl_init \<lparr>inventory = Map.empty, fdWrites = [], world = demo_os\<rparr>
    = Some (DUMP_FAIL, tc', \<lparr>inventory = Map.empty, fdWrites = [], world = demo_os\<rparr>, [])"
proof -
  obtain i where i: "map_of static_registry WRITE_KERNEL_MEM_INFO = Some i" "failureCount i = 0"
      "DUMP_ZONE_INFO \<in> set (taskDependency i)"
    using kernel_mem_registered(1) by blast
  have r: "WRITE_KERNEL_MEM_INFO \<in> set (snd (CollectRootTasks
      (demo_ctx\<lparr>dumperOpts := DumperOptions_init\<lparr>isDumpSystem := True\<rparr>\<rparr>) []))" by code_simp
  show ?thesis
    using r i kernel_mem_registered(2)
    by (intro missing_dependency_refused [where root = WRITE_KERNEL_MEM_INFO and d = DUMP_ZONE_INFO and i = i])
      (simp_all add: TaskControl_init_def cache_fresh_def TopoCache_init_def IsTaskEnabled_def
        TaskEnableConfig_init_def IsTaskExcessivelyFailed_def MAX_FAILURE_COUNT_def)
qed

section \<open>The inventory\<close>

text \<open>
  The first value injected under an id wins: after any sequence of injections a read gives what
  was there before, or else the first value injected for the id.
\<close>

theorem first_injection_wins:
  "GetPtr (fold (\<lambda>(k, v) m. snd (Inject k (Some v) m)) kvs m) d =
    (case GetPtr m d of Some v \<Rightarrow> Some v | None \<Rightarrow> map_of kvs d)"
  using inv.look_inject_all [of kvs m d] by (simp add: inv.inject_all_def)

text \<open>
  \<open>RemoveRestData\<close> reports exactly the ids it removes, and the number of stored items goes down
  by as many.
\<close>

theorem RemoveRestData_counts:
  "fst (RemoveRestData m K) = dom (GetPtr m) - K
   \<and> Size m = Size (snd (RemoveRestData m K)) + card (fst (RemoveRestData m K))"
proof -
  have sz: "Size n = card (dom (GetPtr n))" for n
    by (simp add: Size_def length_filter_card [OF distinct_all_DataId] GetPtr_eq dom_def)
  have "finite (dom (GetPtr m))" by (rule finite_subset [OF _ finite_set [of all_DataId]]) auto
  then have "finite (fst (RemoveRestData m K))" "finite (dom (GetPtr (snd (RemoveRestData m K))))"
    using inv.restrict_partition(1) [of m K] by (metis finite_Un)+
  from card_Un_disjoint [OF this inv.restrict_partition(2)] inv.restrict_partition(1) [of m K]
  have "Size m = Size (snd (RemoveRestData m K)) + card (fst (RemoveRestData m K))" by (simp add: sz)
  with inv.restrict_dropped [of m K] show ?thesis by blast
qed

text \<open>
  \<open>InjectString\<close> on a file stores every line of the file, each with its newline, in order; it
  answers false and stores nothing when the file cannot be read or the id is taken.
\<close>

theorem InjectString_file:
  "InjectString os path d True m =
    (case file_lines os path of None \<Rightarrow> (False, m)
     | Some ls \<Rightarrow> if m d = None then (True, m(d \<mapsto> StrVec (map (\<lambda>l. l @ [CHR 0x0A]) ls))) else (False, m))"
  by (simp add: InjectString_def handle_collect Inject_def InputToData_def GetPtr_def split: option.splits)

section \<open>Roots, switches and filters\<close>

text \<open>
  The strategies turn options into root tasks: the collection fails, adding nothing, exactly when
  no option selects a strategy; otherwise it succeeds, keeps the roots it was given and adds root
  ids only, so that \<open>ExecuteTask\<close> never refuses one as out of range.
\<close>

theorem CollectRootTasks_roots:
  "(\<exists>new. CollectRootTasks ctx roots = (DUMP_OK, roots @ new) \<and> (\<forall>t \<in> set new. ROOT_TASK_START < t)
      \<and> (\<exists>config \<in> set strategyConfigs. fst config (dumperOpts ctx)))
   \<or> CollectRootTasks ctx roots = (DUMP_FAIL, roots)
      \<and> \<not> (\<exists>config \<in> set strategyConfigs. fst config (dumperOpts ctx))"
  using CollectRootTasks_cases [of ctx roots]
  by (auto simp: CreateStrategies_def filter_empty_conv)

theorem CollectRootTasks_roots_witness:
  "CollectRootTasks demo_ctx [7] = (DUMP_FAIL, [7])"
proof -
  have "\<not> (\<exists>config \<in> set strategyConfigs. fst config (dumperOpts demo_ctx))" by code_simp
  then show ?thesis using CollectRootTasks_roots [of demo_ctx "[7]"] by blast
qed

text \<open>
  A terminal control sequence (escape, bracket, parameters, letter) is removed with everything in
  it and the text around it is kept, carriage returns and line feeds aside.
\<close>

theorem FilterControlChar_removes_sequence:
  assumes "list_all (\<lambda>c. c \<noteq> CHR 0x1B) as" and "list_all (\<lambda>c. \<not> is_letter c) ps" and "is_letter l"
  shows "FilterControlChar (as @ [CHR 0x1B, CHR 0x5B] @ ps @ [l] @ cs) =
    filter (\<lambda>c. c \<noteq> CHR 0x0D \<and> c \<noteq> CHR 0x0A) as @ FilterControlChar cs"
proof -
  have "\<not> is_letter (CHR 0x1B)" "\<not> is_letter (CHR 0x5B)" by (simp_all add: is_letter_def)
  with filter_control_skip_seq [OF assms(2,3), of cs] show ?thesis
    by (simp add: FilterControlChar_def filter_control_plain [OF assms(1)] Let_def)
qed

theorem FilterControlChar_removes_sequence_witness:
  "FilterControlChar (''ab'' @ [CHR 0x1B, CHR 0x5B] @ ''1;31'' @ [CHR ''m''] @ ''cd'') = ''ab'' @ FilterControlChar ''cd''"
  using FilterControlChar_removes_sequence [of "''ab''" "''1;31''" "CHR ''m''" "''cd''"]
  by (simp add: is_letter_def)

text \<open>
  The task switches: a failed load changes nothing, so that every task stays enabled; after a
  successful load later loads are answered from memory without looking at the file again.
\<close>

theorem LoadFromConfig_once:
  assumes "LoadFromConfig J read_file path TaskEnableConfig_init = (st, cfg)"
  shows "(if st = DUMP_OK then (\<forall>J' rf p. LoadFromConfig J' rf p cfg = (DUMP_OK, cfg))
          else cfg = TaskEnableConfig_init \<and> (\<forall>t. IsTaskEnabled cfg t))"
proof (cases "st = DUMP_OK")
  case True
  with LoadFromConfig_loaded [of J read_file path TaskEnableConfig_init cfg] assms show ?thesis
    by (simp add: LoadFromConfig_def [of _ _ _ cfg])
next
  case False
  with assms have "ParseConfigFile J read_file path TaskEnableConfig_init = (st, cfg)"
    by (auto simp: LoadFromConfig_def TaskEnableConfig_init_def split: prod.splits if_splits)
  from ParseConfigFile_fail_unchanged [OF this False] have "cfg = TaskEnableConfig_init" .
  moreover have "IsTaskEnabled TaskEnableConfig_init t" for t
    by (simp add: IsTaskEnabled_def TaskEnableConfig_init_def)
  ultimately show ?thesis using False by auto
qed

definition demo_json :: "unit cJSON_api" where
  "demo_json = \<lparr>cJSON_Parse = \<lambda>_. None, cJSON_GetObjectItem = \<lambda>_ _. None, cJSON_IsObject = \<lambda>_. False,
     cJSON_IsNumber = \<lambda>_. False, cJSON_IsBool = \<lambda>_. False, cJSON_IsTrue = \<lambda>_. False,
     cJSON_valueint = \<lambda>_. 0, cJSON_children = \<lambda>_. []\<rparr>"

theorem LoadFromConfig_once_witness:
  "\<exists>cfg. LoadFromConfig demo_json (\<lambda>_. Some []) [] TaskEnableConfig_init = (DUMP_FAIL, cfg)
     \<and> (\<forall>t. IsTaskEnabled cfg t)"
proof -
  obtain cfg where "LoadFromConfig demo_json (\<lambda>_. Some []) [] TaskEnableConfig_init = (DUMP_FAIL, cfg)"
    by (simp add: LoadFromConfig_def ParseConfigFile_def ParseJsonContent_def demo_json_def TaskEnableConfig_init_def)
  with LoadFromConfig_once [OF this] show ?thesis by auto
qed

end
