(* ===== verification/Dumper_Opts.thy ===== *)
theory Dumper_Opts
  imports Hidumper_Prelude
begin

text \<open>
  The options of one dump request: \<open>DumperOpts\<close> of
  \<^verbatim>\<open>src/frameworks/native/include/common/dumper_opts.h\<close> and
  \<^verbatim>\<open>src/common/dumper_opts.cpp\<close>, and \<open>OptionArgs\<close> of \<^verbatim>\<open>src/common/option_args.cpp\<close>.

  The field \<open>x_\<close> of the struct is \<open>o_x\<close> here. \<open>int\<close> and \<open>long long\<close> fields are integers: the
  operations of this file only copy and compare them. \<open>CheckOptions\<close>, which needs the
  configuration tables, is in \<^verbatim>\<open>Dump_Implement\<close>.
\<close>

section \<open>The option record\<close>

record DumperOpts =
  o_isDumpCpuFreq :: bool
  o_isDumpCpuUsage :: bool
  o_cpuUsagePid :: int
  o_isDumpLog :: bool
  o_logArgs :: "string list"
  o_isDumpMem :: bool
  o_memPid :: int
  o_isDumpStorage :: bool
  o_storagePid :: int
  o_isDumpNet :: bool
  o_netPid :: int
  o_isDumpList :: bool
  o_isDumpService :: bool
  o_isDumpSystemAbility :: bool
  o_abilitieNames :: "string list"
  o_abilitieArgs :: "string list"
  o_isDumpSystem :: bool
  o_systemArgs :: "string list"
  o_isDumpProcesses :: bool
  o_processPid :: int
  o_eventId :: string
  o_showEventCount :: int
  o_processName :: string
  o_startTime :: int
  o_endTime :: int
  o_isFaultLog :: bool
  o_path :: string
  o_isAppendix :: bool
  o_isShowSmaps :: bool
  o_isShowSmapsInfo :: bool
  o_isDumpJsHeapMem :: bool
  o_isDumpJsHeapMemGC :: bool
  o_isDumpJsHeapLeakobj :: bool
  o_isDumpJsHeapClean :: bool
  o_isDumpJsHeapCombine :: bool
  o_dumpJsHeapMemPid :: int
  o_threadId :: int
  o_ipcStatPid :: int
  o_isDumpHeapMem :: bool
  o_isDumpHeapNative :: bool
  o_isDumpHeapKotlin :: bool
  o_isDumpHeapJsvm :: bool
  o_isDumpHeapArkwebJs :: bool
  o_dumpHeapRenderPid :: int
  o_isDumpHeapMemGc :: bool
  o_dumpRawHeap :: bool
  o_isDumpHeapLeakobj :: bool
  o_dumpHeapMemPid :: int
  o_dumpHeapArgPid :: int
  o_isDumpAllIpc :: bool
  o_isDumpIpc :: bool
  o_isDumpIpcStartStat :: bool
  o_isDumpIpcStopStat :: bool
  o_isDumpIpcStat :: bool
  o_dumpJsRawHeap :: bool
  o_dumpMemPrune :: bool
  o_isDumpCjHeapMem :: bool
  o_isDumpCjHeapMemGC :: bool
  o_dumpCjHeapMemPid :: int
  o_timeInterval :: int
  o_isReceivedSigInt :: bool
  o_showAshmem :: bool
  o_showDmaBuf :: bool
  o_showGpumem :: bool
  o_showArktsHeap :: bool
  o_showLeakThread :: bool
  o_isEventList :: bool
  o_isEventDetail :: bool
  o_isDumpFd :: bool
  o_isDumpThread :: bool

definition ResetCpuOptions :: "DumperOpts \<Rightarrow> DumperOpts" where
  "ResetCpuOptions this =
    this\<lparr>o_isDumpCpuFreq := False, o_isDumpCpuUsage := False, o_cpuUsagePid := -1\<rparr>"

definition ResetMemOptions :: "DumperOpts \<Rightarrow> DumperOpts" where
  "ResetMemOptions this =
    this\<lparr>o_isDumpMem := False, o_isReceivedSigInt := False, o_dumpMemPrune := False,
       o_showAshmem := False, o_showDmaBuf := False, o_showGpumem := False,
       o_showArktsHeap := False, o_showLeakThread := False, o_timeInterval := 0, o_memPid := -1\<rparr>"

definition ResetStorageOptions :: "DumperOpts \<Rightarrow> DumperOpts" where
  "ResetStorageOptions this =
    this\<lparr>o_isDumpStorage := False, o_storagePid := -1\<rparr>"

definition ResetNetOptions :: "DumperOpts \<Rightarrow> DumperOpts" where
  "ResetNetOptions this =
    this\<lparr>o_isDumpNet := False, o_netPid := -1\<rparr>"

definition ResetSystemAbilityOptions :: "DumperOpts \<Rightarrow> DumperOpts" where
  "ResetSystemAbilityOptions this =
    this\<lparr>o_isDumpSystemAbility := False, o_abilitieNames := [], o_abilitieArgs := []\<rparr>"

definition ResetSystemOptions :: "DumperOpts \<Rightarrow> DumperOpts" where
  "ResetSystemOptions this =
    this\<lparr>o_isDumpSystem := False, o_systemArgs := []\<rparr>"

definition ResetProcessOptions :: "DumperOpts \<Rightarrow> DumperOpts" where
  "ResetProcessOptions this =
    this\<lparr>o_isDumpProcesses := False, o_processPid := -1, o_processName := []\<rparr>"

definition ResetEventOptions :: "DumperOpts \<Rightarrow> DumperOpts" where
  "ResetEventOptions this =
    this\<lparr>o_isEventList := False, o_isEventDetail := False, o_eventId := [],
       o_showEventCount := -1, o_startTime := -1, o_endTime := -1\<rparr>"

definition ResetIpcOptions :: "DumperOpts \<Rightarrow> DumperOpts" where
  "ResetIpcOptions this =
    this\<lparr>o_ipcStatPid := -1, o_isDumpAllIpc := False, o_isDumpIpc := False,
       o_isDumpIpcStartStat := False, o_isDumpIpcStopStat := False, o_isDumpIpcStat := False\<rparr>"

definition ResetJsHeapOptions :: "DumperOpts \<Rightarrow> DumperOpts" where
  "ResetJsHeapOptions this =
    this\<lparr>o_isDumpJsHeapMem := False, o_isDumpJsHeapMemGC := False,
       o_isDumpJsHeapLeakobj := False, o_isDumpJsHeapClean := False,
       o_isDumpJsHeapCombine := False, o_isDumpCjHeapMem := False,
       o_isDumpCjHeapMemGC := False, o_dumpJsHeapMemPid := 0, o_dumpCjHeapMemPid := 0,
       o_dumpJsRawHeap := False, o_isDumpHeapMem := False, o_isDumpHeapNative := False,
       o_isDumpHeapKotlin := False, o_isDumpHeapJsvm := False, o_isDumpHeapArkwebJs := False,
       o_dumpHeapRenderPid := 0, o_isDumpHeapMemGc := False, o_dumpRawHeap := False,
       o_isDumpHeapLeakobj := False, o_dumpHeapMemPid := 0, o_dumpHeapArgPid := 0\<rparr>"

definition ResetMiscOptions :: "DumperOpts \<Rightarrow> DumperOpts" where
  "ResetMiscOptions this =
    this\<lparr>o_isDumpLog := False, o_logArgs := [], o_isDumpList := False, o_isDumpService := False,
       o_isFaultLog := False, o_path := [], o_isAppendix := False, o_isShowSmaps := False,
       o_isShowSmapsInfo := False, o_threadId := 0, o_isDumpFd := False,
       o_isDumpThread := False\<rparr>"

definition Reset :: "DumperOpts \<Rightarrow> DumperOpts" where
  "Reset this =
    ResetMiscOptions (ResetJsHeapOptions (ResetIpcOptions (ResetEventOptions (ResetProcessOptions (
    ResetSystemOptions (ResetSystemAbilityOptions (ResetNetOptions (ResetStorageOptions (
    ResetMemOptions (ResetCpuOptions this))))))))))"

definition AssignCpuOptions :: "DumperOpts \<Rightarrow> DumperOpts \<Rightarrow> DumperOpts" where
  "AssignCpuOptions opts this =
    this\<lparr>o_isDumpCpuFreq := o_isDumpCpuFreq opts, o_isDumpCpuUsage := o_isDumpCpuUsage opts,
       o_cpuUsagePid := o_cpuUsagePid opts\<rparr>"

definition AssignMemOptions :: "DumperOpts \<Rightarrow> DumperOpts \<Rightarrow> DumperOpts" where
  "AssignMemOptions opts this =
    this\<lparr>o_isDumpMem := o_isDumpMem opts, o_isReceivedSigInt := o_isReceivedSigInt opts,
       o_timeInterval := o_timeInterval opts, o_memPid := o_memPid opts,
       o_dumpMemPrune := o_dumpMemPrune opts, o_showAshmem := o_showAshmem opts,
       o_showDmaBuf := o_showDmaBuf opts, o_showGpumem := o_showGpumem opts,
       o_showArktsHeap := o_showArktsHeap opts, o_showLeakThread := o_showLeakThread opts,
       o_isShowSmaps := o_isShowSmaps opts, o_isShowSmapsInfo := o_isShowSmapsInfo opts\<rparr>"

definition AssignStorageOptions :: "DumperOpts \<Rightarrow> DumperOpts \<Rightarrow> DumperOpts" where
  "AssignStorageOptions opts this =
    this\<lparr>o_isDumpStorage := o_isDumpStorage opts, o_storagePid := o_storagePid opts\<rparr>"

definition AssignListServiceOptions :: "DumperOpts \<Rightarrow> DumperOpts \<Rightarrow> DumperOpts" where
  "AssignListServiceOptions opts this =
    this\<lparr>o_isDumpList := o_isDumpList opts, o_isDumpService := o_isDumpService opts\<rparr>"

definition AssignSystemAbilityOptions :: "DumperOpts \<Rightarrow> DumperOpts \<Rightarrow> DumperOpts" where
  "AssignSystemAbilityOptions opts this =
    this\<lparr>o_isDumpSystemAbility := o_isDumpSystemAbility opts,
       o_abilitieNames := o_abilitieNames opts, o_abilitieArgs := o_abilitieArgs opts\<rparr>"

definition AssignSystemOptions :: "DumperOpts \<Rightarrow> DumperOpts \<Rightarrow> DumperOpts" where
  "AssignSystemOptions opts this =
    this\<lparr>o_isDumpSystem := o_isDumpSystem opts, o_systemArgs := o_systemArgs opts\<rparr>"

definition AssignProcessOptions :: "DumperOpts \<Rightarrow> DumperOpts \<Rightarrow> DumperOpts" where
  "AssignProcessOptions opts this =
    this\<lparr>o_isDumpProcesses := o_isDumpProcesses opts, o_processPid := o_processPid opts,
       o_processName := o_processName opts\<rparr>"

definition AssignEventOptions :: "DumperOpts \<Rightarrow> DumperOpts \<Rightarrow> DumperOpts" where
  "AssignEventOptions opts this =
    this\<lparr>o_eventId := o_eventId opts, o_showEventCount := o_showEventCount opts,
       o_isEventList := o_isEventList opts, o_isEventDetail := o_isEventDetail opts,
       o_startTime := o_startTime opts, o_endTime := o_endTime opts\<rparr>"

definition AssignJsHeapOptions :: "DumperOpts \<Rightarrow> DumperOpts \<Rightarrow> DumperOpts" where
  "AssignJsHeapOptions opts this =
    this\<lparr>o_isDumpJsHeapMem := o_isDumpJsHeapMem opts,
       o_isDumpJsHeapMemGC := o_isDumpJsHeapMemGC opts,
       o_isDumpJsHeapLeakobj := o_isDumpJsHeapLeakobj opts,
       o_isDumpJsHeapClean := o_isDumpJsHeapClean opts,
       o_isDumpJsHeapCombine := o_isDumpJsHeapCombine opts,
       o_isDumpCjHeapMem := o_isDumpCjHeapMem opts,
       o_isDumpCjHeapMemGC := o_isDumpCjHeapMemGC opts,
       o_dumpJsHeapMemPid := o_dumpJsHeapMemPid opts,
       o_dumpCjHeapMemPid := o_dumpCjHeapMemPid opts, o_dumpJsRawHeap := o_dumpJsRawHeap opts,
       o_isDumpHeapMem := o_isDumpHeapMem opts, o_isDumpHeapNative := o_isDumpHeapNative opts,
       o_isDumpHeapKotlin := o_isDumpHeapKotlin opts,
       o_isDumpHeapJsvm := o_isDumpHeapJsvm opts,
       o_isDumpHeapArkwebJs := o_isDumpHeapArkwebJs opts,
       o_dumpHeapRenderPid := o_dumpHeapRenderPid opts,
       o_isDumpHeapMemGc := o_isDumpHeapMemGc opts, o_dumpRawHeap := o_dumpRawHeap opts,
       o_isDumpHeapLeakobj := o_isDumpHeapLeakobj opts,
       o_dumpHeapMemPid := o_dumpHeapMemPid opts, o_dumpHeapArgPid := o_dumpHeapArgPid opts\<rparr>"

definition AssignIpcOptions :: "DumperOpts \<Rightarrow> DumperOpts \<Rightarrow> DumperOpts" where
  "AssignIpcOptions opts this =
    this\<lparr>o_ipcStatPid := o_ipcStatPid opts, o_isDumpAllIpc := o_isDumpAllIpc opts,
       o_isDumpIpc := o_isDumpIpc opts, o_isDumpIpcStartStat := o_isDumpIpcStartStat opts,
       o_isDumpIpcStopStat := o_isDumpIpcStopStat opts, o_isDumpIpcStat := o_isDumpIpcStat opts\<rparr>"

definition AssignMiscOptions :: "DumperOpts \<Rightarrow> DumperOpts \<Rightarrow> DumperOpts" where
  "AssignMiscOptions opts this =
    this\<lparr>o_isDumpNet := o_isDumpNet opts, o_netPid := o_netPid opts,
       o_isDumpLog := o_isDumpLog opts, o_logArgs := o_logArgs opts,
       o_isDumpList := o_isDumpList opts, o_isDumpService := o_isDumpService opts,
       o_isFaultLog := o_isFaultLog opts, o_path := o_path opts,
       o_isAppendix := o_isAppendix opts, o_threadId := o_threadId opts,
       o_isDumpFd := o_isDumpFd opts, o_isDumpThread := o_isDumpThread opts\<rparr>"

definition assign_opts :: "DumperOpts \<Rightarrow> DumperOpts \<Rightarrow> DumperOpts" where
  "assign_opts opts this =
    AssignMiscOptions opts (
     AssignIpcOptions opts (
     AssignJsHeapOptions opts (
     AssignEventOptions opts (
     AssignProcessOptions opts (
     AssignSystemOptions opts (
     AssignSystemAbilityOptions opts (
     AssignListServiceOptions opts (
     AssignStorageOptions opts (
     AssignMemOptions opts (
     AssignCpuOptions opts (
     Reset this)))))))))))"

definition AddSelectAll :: "DumperOpts \<Rightarrow> DumperOpts" where
  "AddSelectAll this =
    this\<lparr>o_isDumpCpuFreq := True, o_isDumpCpuUsage := True, o_isDumpLog := True,
       o_isDumpMem := True, o_isDumpStorage := True, o_isDumpNet := True,
       o_isDumpService := True, o_isDumpSystemAbility := True, o_isDumpSystem := True,
       o_isDumpProcesses := True, o_isFaultLog := True, o_isAppendix := True\<rparr>"

definition DumperOpts_zero :: DumperOpts where
  "DumperOpts_zero =
    \<lparr>o_isDumpCpuFreq = False, o_isDumpCpuUsage = False, o_cpuUsagePid = 0,
     o_isDumpLog = False, o_logArgs = [], o_isDumpMem = False, o_memPid = 0,
     o_isDumpStorage = False, o_storagePid = 0, o_isDumpNet = False, o_netPid = 0,
     o_isDumpList = False, o_isDumpService = False, o_isDumpSystemAbility = False,
     o_abilitieNames = [], o_abilitieArgs = [], o_isDumpSystem = False, o_systemArgs = [],
     o_isDumpProcesses = False, o_processPid = 0, o_eventId = [], o_showEventCount = 0,
     o_processName = [], o_startTime = 0, o_endTime = 0, o_isFaultLog = False, o_path = [],
     o_isAppendix = False, o_isShowSmaps = False, o_isShowSmapsInfo = False,
     o_isDumpJsHeapMem = False, o_isDumpJsHeapMemGC = False, o_isDumpJsHeapLeakobj = False,
     o_isDumpJsHeapClean = False, o_isDumpJsHeapCombine = False, o_dumpJsHeapMemPid = 0,
     o_threadId = 0, o_ipcStatPid = 0, o_isDumpHeapMem = False, o_isDumpHeapNative = False,
     o_isDumpHeapKotlin = False, o_isDumpHeapJsvm = False, o_isDumpHeapArkwebJs = False,
     o_dumpHeapRenderPid = 0, o_isDumpHeapMemGc = False, o_dumpRawHeap = False,
     o_isDumpHeapLeakobj = False, o_dumpHeapMemPid = 0, o_dumpHeapArgPid = 0,
     o_isDumpAllIpc = False, o_isDumpIpc = False, o_isDumpIpcStartStat = False,
     o_isDumpIpcStopStat = False, o_isDumpIpcStat = False, o_dumpJsRawHeap = False,
     o_dumpMemPrune = False, o_isDumpCjHeapMem = False, o_isDumpCjHeapMemGC = False,
     o_dumpCjHeapMemPid = 0, o_timeInterval = 0, o_isReceivedSigInt = False,
     o_showAshmem = False, o_showDmaBuf = False, o_showGpumem = False,
     o_showArktsHeap = False, o_showLeakThread = False, o_isEventList = False,
     o_isEventDetail = False, o_isDumpFd = False, o_isDumpThread = False\<rparr>"

text \<open>
  \<open>operator=\<close> takes its argument by reference. When the argument is the object itself every
  step reads the fields that \<open>Reset\<close> has just cleared.
\<close>

definition assign_opts_self :: "DumperOpts \<Rightarrow> DumperOpts" where
  "assign_opts_self this =
    (let self_step = (\<lambda>f o1. f o1 o1) in
     self_step AssignMiscOptions (
     self_step AssignIpcOptions (
     self_step AssignJsHeapOptions (
     self_step AssignEventOptions (
     self_step AssignProcessOptions (
     self_step AssignSystemOptions (
     self_step AssignSystemAbilityOptions (
     self_step AssignListServiceOptions (
     self_step AssignStorageOptions (
     self_step AssignMemOptions (
     self_step AssignCpuOptions (
     Reset this))))))))))))"

definition StartWith :: "string \<Rightarrow> string \<Rightarrow> bool" where
  "StartWith str head =
    (if length str < length head then False else take (length head) str = head)"

definition IsDumpZip :: "DumperOpts \<Rightarrow> bool" where
  "IsDumpZip this = StartWith (o_path this) ''/''"

definition IsSelectAny :: "DumperOpts \<Rightarrow> bool" where
  "IsSelectAny this =
    (if o_isDumpCpuFreq this \<or> o_isDumpCpuUsage this then True
     else if o_isDumpLog this \<or> o_isFaultLog this then True
     else if o_isDumpMem this then True
     else if o_isDumpStorage this then True
     else if o_isDumpNet this then True
     else if o_isDumpService this \<or> o_isDumpSystemAbility this \<or> o_isDumpSystem this then True
     else if o_isDumpProcesses this then True
     else if o_isShowSmaps this then True
     else if o_isDumpJsHeapMem this then True
     else if o_isDumpCjHeapMem this then True
     else if o_isDumpHeapMem this then True
     else if o_isDumpIpc this then True
     else False)"

text \<open>The error text, or \<open>None\<close> for \<open>return true\<close>.\<close>

definition CheckRemainingOptions :: "DumperOpts \<Rightarrow> string option" where
  "CheckRemainingOptions this =
    (if o_processPid this < -1 then Some (to_string (o_processPid this))
     else if o_storagePid this < -1 then Some (to_string (o_storagePid this))
     else if o_netPid this < -1 then Some (to_string (o_netPid this))
     else if o_dumpJsHeapMemPid this < 0 then Some (to_string (o_dumpJsHeapMemPid this))
     else if o_dumpCjHeapMemPid this < 0 then Some (to_string (o_dumpCjHeapMemPid this))
     else if o_threadId this < 0 then Some (to_string (o_threadId this))
     else if o_timeInterval this < 0 then Some (to_string (o_timeInterval this))
     else if o_ipcStatPid this < -1 then Some (to_string (o_ipcStatPid this))
     else None)"

section \<open>Option arguments\<close>

record OptionArgs =
  a_type :: int
  hasPid :: bool
  a_pid :: int
  a_uid :: int
  hasCpuId :: bool
  a_cpuId :: int
  hasStr :: bool
  a_str :: string
  hasList :: bool
  a_list :: "string list"
  hasNamesAndArgs :: bool
  a_names :: "string list"
  a_args :: "string list"

definition OptionArgs_Create :: OptionArgs where
  "OptionArgs_Create =
    \<lparr>a_type = 0, hasPid = False, a_pid = -1, a_uid = -1, hasCpuId = False, a_cpuId = -1,
     hasStr = False, a_str = [], hasList = False, a_list = [],
     hasNamesAndArgs = False, a_names = [], a_args = []\<rparr>"

definition SetPid :: "int \<Rightarrow> int \<Rightarrow> OptionArgs \<Rightarrow> OptionArgs" where
  "SetPid pid uid a = a\<lparr>hasPid := True, a_pid := pid, a_uid := uid\<rparr>"

definition SetCpuId :: "int \<Rightarrow> OptionArgs \<Rightarrow> OptionArgs" where
  "SetCpuId cpuid a = a\<lparr>hasCpuId := True, a_cpuId := cpuid\<rparr>"

definition SetStr :: "string \<Rightarrow> OptionArgs \<Rightarrow> OptionArgs" where
  "SetStr str a = a\<lparr>hasStr := True, a_str := str\<rparr>"

definition SetStrList :: "string list \<Rightarrow> OptionArgs \<Rightarrow> OptionArgs" where
  "SetStrList ls a = a\<lparr>hasList := True, a_list := ls\<rparr>"

definition SetNamesAndArgs :: "string list \<Rightarrow> string list \<Rightarrow> OptionArgs \<Rightarrow> OptionArgs" where
  "SetNamesAndArgs names args a = a\<lparr>hasNamesAndArgs := True, a_names := names, a_args := args\<rparr>"

text \<open>\<open>Clone\<close> of a null pointer is a fresh object.\<close>

definition OptionArgs_Clone :: "OptionArgs option \<Rightarrow> OptionArgs" where
  "OptionArgs_Clone optArgs =
    (let ret = OptionArgs_Create in
     case optArgs of None \<Rightarrow> ret
     | Some a \<Rightarrow> ret\<lparr>a_type := a_type a, hasPid := hasPid a, a_pid := a_pid a, a_uid := a_uid a,
         hasCpuId := hasCpuId a, a_cpuId := a_cpuId a, hasStr := hasStr a, a_str := a_str a,
         hasList := hasList a, a_list := a_list a, hasNamesAndArgs := hasNamesAndArgs a,
         a_names := a_names a, a_args := a_args a\<rparr>)"

section \<open>Facts\<close>

lemmas reset_defs = ResetCpuOptions_def ResetMemOptions_def ResetStorageOptions_def ResetNetOptions_def
  ResetSystemAbilityOptions_def ResetSystemOptions_def ResetProcessOptions_def
  ResetEventOptions_def ResetIpcOptions_def ResetJsHeapOptions_def ResetMiscOptions_def

lemmas assign_defs = AssignCpuOptions_def AssignMemOptions_def AssignStorageOptions_def
  AssignListServiceOptions_def AssignSystemAbilityOptions_def AssignSystemOptions_def
  AssignProcessOptions_def AssignEventOptions_def AssignJsHeapOptions_def
  AssignIpcOptions_def AssignMiscOptions_def

text \<open>\<open>Reset\<close> overwrites every field: what the memory held before does not matter.\<close>

lemma Reset_forgets: "Reset a = Reset b"
  by (simp add: Reset_def reset_defs)

lemma assign_opts_copies: "assign_opts opts this = opts"
  by (simp add: assign_opts_def assign_defs Reset_def reset_defs)

lemma IsSelectAny_Reset: "\<not> IsSelectAny (Reset o0)"
  by (simp add: IsSelectAny_def Reset_def reset_defs)

lemma Clone_eq: "OptionArgs_Clone (Some a) = a"
  by (simp add: OptionArgs_Clone_def OptionArgs_Create_def)

lemma StartWith_iff: "StartWith str head \<longleftrightarrow> (\<exists>rest. str = head @ rest)"
  by (auto simp: StartWith_def) (metis append_take_drop_id)

end
