(* ===== verification/Text_Lib.thy ===== *)
theory Text_Lib
  imports Hidumper_Prelude
begin

text \<open>
  The operations of \<open>std::string\<close> and of C streams that several components use: searching, replacing,
  C strings, and reading a stream line by line.
\<close>

section \<open>Searching and replacing\<close>

text \<open>\<open>find\<close> of \<open>std::string\<close>: the position of the first occurrence.\<close>

fun find_str :: "string \<Rightarrow> string \<Rightarrow> nat option" where
  "find_str p [] = (if p = [] then Some 0 else None)"
| "find_str p (c # s) = (if take (length p) (c # s) = p then Some 0 else map_option Suc (find_str p s))"

definition contains :: "string \<Rightarrow> string \<Rightarrow> bool" where
  "contains s p = (find_str p s \<noteq> None)"

text \<open>\<open>find\<close>, then \<open>erase\<close> of the occurrence that was found.\<close>

definition erase_first :: "string \<Rightarrow> string \<Rightarrow> string" where
  "erase_first p s = (case find_str p s of None \<Rightarrow> s | Some pos \<Rightarrow> take pos s @ drop (pos + length p) s)"

text \<open>\<open>replace(pos, len, r)\<close> of \<open>std::string\<close>; what is left of the string may be shorter than \<open>len\<close>.\<close>

definition replace_at :: "nat \<Rightarrow> nat \<Rightarrow> string \<Rightarrow> string \<Rightarrow> string" where
  "replace_at pos len r s = take pos s @ r @ drop (pos + len) s"

text \<open>\<open>find\<close>, then \<open>replace\<close> of the occurrence that was found.\<close>

definition replace_first :: "string \<Rightarrow> string \<Rightarrow> string \<Rightarrow> string" where
  "replace_first p r s = (case find_str p s of None \<Rightarrow> s | Some pos \<Rightarrow> replace_at pos (length p) r s)"

text \<open>The C string in a buffer ends at the first null character.\<close>

definition c_str :: "string \<Rightarrow> string" where
  "c_str s = takeWhile (\<lambda>c. c \<noteq> CHR 0x00) s"

lemma find_str_Some: "find_str p s = Some n \<Longrightarrow> \<exists>b. s = take n s @ p @ b"
proof (induction s arbitrary: n)
  case Nil
  then show ?case by (simp split: if_splits)
next
  case (Cons c s)
  show ?case
  proof (cases "take (length p) (c # s) = p")
    case True
    then obtain b where "c # s = p @ b" by (metis append_take_drop_id)
    moreover have "n = 0" using True Cons.prems by simp
    ultimately show ?thesis by simp
  next
    case False
    with Cons.prems obtain m where m: "find_str p s = Some m" "n = Suc m" by auto
    from Cons.IH [OF m(1)] obtain b where "s = take m s @ p @ b" by blast
    with m(2) show ?thesis by auto
  qed
qed

lemma find_str_None: "find_str p s = None \<Longrightarrow> s \<noteq> a @ p @ b"
proof (induction s arbitrary: a)
  case Nil
  then show ?case by (auto split: if_splits)
next
  case (Cons c s)
  then have n: "take (length p) (c # s) \<noteq> p" "find_str p s = None" by (auto split: if_splits)
  show ?case
  proof (cases a)
    case Nil
    with n(1) show ?thesis by auto
  next
    case (Cons d a')
    with Cons.IH [OF n(2), of a'] show ?thesis by auto
  qed
qed

lemma contains_iff: "contains s p \<longleftrightarrow> (\<exists>a b. s = a @ p @ b)"
proof
  assume "contains s p"
  then obtain n where "find_str p s = Some n" by (auto simp: contains_def)
  from find_str_Some [OF this] show "\<exists>a b. s = a @ p @ b" by blast
next
  assume "\<exists>a b. s = a @ p @ b"
  then show "contains s p" using find_str_None [of p s] by (auto simp: contains_def)
qed

lemma contains_char: "contains s [c] \<longleftrightarrow> c \<in> set s"
  by (auto simp: contains_iff in_set_conv_decomp)

section \<open>Numbers in text\<close>

definition is_space :: "char \<Rightarrow> bool" where
  "is_space c \<longleftrightarrow> c = CHR '' '' \<or> of_char c \<in> {9 .. 13 :: nat}"

definition is_digit :: "char \<Rightarrow> bool" where
  "is_digit c \<longleftrightarrow> of_char c \<in> {48 .. 57 :: nat}"

definition decimal :: "string \<Rightarrow> nat" where
  "decimal ds = fold (\<lambda>c n. 10 * n + (of_char c - 48)) ds 0"

text \<open>
  \<open>strtoull\<close> with base 10: \<open>None\<close> when there are no digits or the value does not fit; a minus sign
  negates the value modulo \<open>2 ^ 64\<close>.
\<close>

definition strtoull :: "string \<Rightarrow> nat option" where
  "strtoull s =
    (let t = dropWhile is_space s;
         neg = (t \<noteq> [] \<and> hd t = CHR ''-'');
         u = (if t \<noteq> [] \<and> (hd t = CHR ''-'' \<or> hd t = CHR ''+'') then tl t else t);
         ds = takeWhile is_digit u in
     if ds = [] then None
     else if decimal ds \<ge> 2 ^ 64 then None
     else Some (if neg then (2 ^ 64 - decimal ds) mod 2 ^ 64 else decimal ds))"

text \<open>\<open>std::stoi\<close>; \<open>None\<close> stands for the exception that it throws.\<close>

definition stoi :: "string \<Rightarrow> int option" where
  "stoi s =
    (let t = dropWhile is_space s;
         neg = (t \<noteq> [] \<and> hd t = CHR ''-'');
         u = (if t \<noteq> [] \<and> (hd t = CHR ''-'' \<or> hd t = CHR ''+'') then tl t else t);
         ds = takeWhile is_digit u;
         v = (if neg then - int (decimal ds) else int (decimal ds)) in
     if ds = [] \<or> v < - (2 ^ 31) \<or> v \<ge> 2 ^ 31 then None else Some v)"

definition pad_right :: "nat \<Rightarrow> string \<Rightarrow> string" where
  "pad_right width s = s @ replicate (width - length s) CHR '' ''"

definition pad_left :: "nat \<Rightarrow> string \<Rightarrow> string" where
  "pad_left width s = replicate (width - length s) CHR '' '' @ s"

section \<open>Streams\<close>

text \<open>
  A \<open>FILE*\<close> open for reading: the characters that are left, whether the read after the last of them
  fails instead of reporting the end, and the end-of-file indicator.
\<close>

record stream =
  st_rest :: string
  st_error :: bool
  st_eof :: bool

definition stream_of :: "string \<Rightarrow> stream" where
  "stream_of content = \<lparr>st_rest = content, st_error = False, st_eof = False\<rparr>"

text \<open>
  \<open>getline\<close>: a line with its line feed, or what is left before the end of the file; \<open>None\<close> stands for
  the return value \<open>-1\<close>. A read error loses a partial line.
\<close>

definition getline :: "stream \<Rightarrow> string option \<times> stream" where
  "getline s =
    (let line = takeWhile (\<lambda>c. c \<noteq> CHR 0x0A) (st_rest s); rest = drop (length line) (st_rest s) in
     if rest \<noteq> [] then (Some (line @ [CHR 0x0A]), s\<lparr>st_rest := tl rest\<rparr>)
     else if st_error s then (None, s\<lparr>st_rest := []\<rparr>)
     else if line = [] then (None, s\<lparr>st_rest := [], st_eof := True\<rparr>)
     else (Some line, s\<lparr>st_rest := [], st_eof := True\<rparr>))"

text \<open>What the readers do with a line: the line feed becomes the end of the C string.\<close>

definition chomp :: "string \<Rightarrow> string" where
  "chomp line = c_str (if line \<noteq> [] \<and> last line = CHR 0x0A then butlast line else line)"

text \<open>All lines of a file, without their line feeds.\<close>

fun split_lines :: "string \<Rightarrow> string \<Rightarrow> string list" where
  "split_lines acc [] = (if acc = [] then [] else [rev acc])"
| "split_lines acc (c # cs) = (if c = CHR 0x0A then rev acc # split_lines [] cs else split_lines (c # acc) cs)"

definition text_lines :: "string \<Rightarrow> string list" where
  "text_lines content = map c_str (split_lines [] content)"

lemma split_lines_none: "CHR 0x0A \<notin> set l \<Longrightarrow> split_lines acc l = (if acc = [] \<and> l = [] then [] else [rev acc @ l])"
  by (induction l arbitrary: acc) auto

lemma split_lines_line: "CHR 0x0A \<notin> set l \<Longrightarrow> split_lines acc (l @ CHR 0x0A # r) = (rev acc @ l) # split_lines [] r"
  by (induction l arbitrary: acc) auto

text \<open>The three outcomes of \<open>getline\<close> on a readable stream.\<close>

lemma getline_cases:
  assumes "\<not> st_error s"
  obtains (line) l r where "CHR 0x0A \<notin> set l" "st_rest s = l @ CHR 0x0A # r"
      "getline s = (Some (l @ [CHR 0x0A]), s\<lparr>st_rest := r\<rparr>)"
  | (tail) l where "CHR 0x0A \<notin> set l" "l \<noteq> []" "st_rest s = l"
      "getline s = (Some l, s\<lparr>st_rest := [], st_eof := True\<rparr>)"
  | (eof) "st_rest s = []" "getline s = (None, s\<lparr>st_rest := [], st_eof := True\<rparr>)"
proof -
  define l where "l = takeWhile (\<lambda>c. c \<noteq> CHR 0x0A) (st_rest s)"
  define d where "d = dropWhile (\<lambda>c. c \<noteq> CHR 0x0A) (st_rest s)"
  have l: "CHR 0x0A \<notin> set l" unfolding l_def using set_takeWhileD by fastforce
  have split: "st_rest s = l @ d" by (simp add: l_def d_def)
  have dr: "drop (length l) (st_rest s) = d" by (simp add: split)
  show ?thesis
  proof (cases d)
    case Nil
    then have "st_rest s = l" using split by simp
    show ?thesis
    proof (cases "l = []")
      case True
      with \<open>st_rest s = l\<close> assms eof show ?thesis by (simp add: getline_def)
    next
      case False
      then have "getline s = (Some l, s\<lparr>st_rest := [], st_eof := True\<rparr>)"
        using dr Nil assms by (simp add: getline_def Let_def l_def [symmetric])
      then show ?thesis using tail [OF l False] \<open>st_rest s = l\<close> by simp
    qed
  next
    case (Cons c r)
    then have c: "c = CHR 0x0A" unfolding d_def by (simp add: dropWhile_eq_Cons_conv)
    have "getline s = (Some (l @ [CHR 0x0A]), s\<lparr>st_rest := r\<rparr>)"
      unfolding getline_def l_def [symmetric] Let_def dr Cons c by simp
    then show ?thesis using line [OF l] Cons c split by simp
  qed
qed

lemma getline_shrinks:
  assumes "getline s = (Some l, s')"
  shows "length (st_rest s') < length (st_rest s)"
  using assms by (auto simp: getline_def Let_def split: if_splits)

end
