(* ===== verification/Dump_Cfg.thy ===== *)
theory Dump_Cfg
  imports Dumper_Opts Text_Lib
begin

text \<open>
  Configuration entries: \<open>DumperConstant\<close>
  (\<^verbatim>\<open>src/frameworks/native/include/common/dumper_constant.h\<close>), \<open>DumpCfg\<close>
  (\<^verbatim>\<open>src/common/dump_cfg.cpp\<close>) and the tree of entries the configuration reader builds.

  \<open>class_\<close>, \<open>level_\<close>, \<open>loop_\<close> and \<open>type_\<close> are plain integers of one enumeration in the code and
  stay integers here. The fields of a node are the record \<open>DumpCfg\<close>; \<open>childs_\<close> is the second
  component of a tree node and \<open>parent_\<close> an index into the flattened list.
\<close>

section \<open>The constants\<close>

abbreviation NONE :: int where "NONE \<equiv> 0"
abbreviation GROUP :: int where "GROUP \<equiv> 1"
abbreviation DUMPER_BEGIN :: int where "DUMPER_BEGIN \<equiv> 2"
abbreviation CPU_DUMPER :: int where "CPU_DUMPER \<equiv> 3"
abbreviation FILE_DUMPER :: int where "FILE_DUMPER \<equiv> 4"
abbreviation ENV_PARAM_DUMPER :: int where "ENV_PARAM_DUMPER \<equiv> 5"
abbreviation CMD_DUMPER :: int where "CMD_DUMPER \<equiv> 6"
abbreviation PROPERTIES_DUMPER :: int where "PROPERTIES_DUMPER \<equiv> 7"
abbreviation API_DUMPER :: int where "API_DUMPER \<equiv> 8"
abbreviation LIST_DUMPER :: int where "LIST_DUMPER \<equiv> 9"
abbreviation VERSION_DUMPER :: int where "VERSION_DUMPER \<equiv> 10"
abbreviation SA_DUMPER :: int where "SA_DUMPER \<equiv> 11"
abbreviation MEMORY_DUMPER :: int where "MEMORY_DUMPER \<equiv> 12"
abbreviation JSHEAP_MEMORY_DUMPER :: int where "JSHEAP_MEMORY_DUMPER \<equiv> 13"
abbreviation CJHEAP_MEMORY_DUMPER :: int where "CJHEAP_MEMORY_DUMPER \<equiv> 14"
abbreviation HEAP_MEMORY_DUMPER :: int where "HEAP_MEMORY_DUMPER \<equiv> 15"
abbreviation EVENT_DETAIL_DUMPER :: int where "EVENT_DETAIL_DUMPER \<equiv> 16"
abbreviation EVENT_LIST_DUMPER :: int where "EVENT_LIST_DUMPER \<equiv> 17"
abbreviation FD_THREAD_DUMPER :: int where "FD_THREAD_DUMPER \<equiv> 18"
abbreviation STACK_DUMPER :: int where "STACK_DUMPER \<equiv> 19"
abbreviation TRAFFIC_DUMPER :: int where "TRAFFIC_DUMPER \<equiv> 20"
abbreviation IPC_STAT_DUMPER :: int where "IPC_STAT_DUMPER \<equiv> 21"
abbreviation DUMPER_END :: int where "DUMPER_END \<equiv> 22"
abbreviation FILTER_BEGIN :: int where "FILTER_BEGIN \<equiv> 23"
abbreviation COLUMN_ROWS_FILTER :: int where "COLUMN_ROWS_FILTER \<equiv> 24"
abbreviation FILE_FORMAT_DUMP_FILTER :: int where "FILE_FORMAT_DUMP_FILTER \<equiv> 25"
abbreviation FILTER_END :: int where "FILTER_END \<equiv> 26"
abbreviation OUTPUT_BEGIN :: int where "OUTPUT_BEGIN \<equiv> 27"
abbreviation STD_OUTPUT :: int where "STD_OUTPUT \<equiv> 28"
abbreviation FILE_OUTPUT :: int where "FILE_OUTPUT \<equiv> 29"
abbreviation FD_OUTPUT :: int where "FD_OUTPUT \<equiv> 30"
abbreviation ZIP_OUTPUT :: int where "ZIP_OUTPUT \<equiv> 31"
abbreviation OUTPUT_END :: int where "OUTPUT_END \<equiv> 32"
abbreviation LEVEL_BEGIN :: int where "LEVEL_BEGIN \<equiv> 33"
abbreviation LEVEL_NONE :: int where "LEVEL_NONE \<equiv> 34"
abbreviation LEVEL_MIDDLE :: int where "LEVEL_MIDDLE \<equiv> 35"
abbreviation LEVEL_HIGH :: int where "LEVEL_HIGH \<equiv> 36"
abbreviation LEVEL_ALL :: int where "LEVEL_ALL \<equiv> 37"
abbreviation LEVEL_END :: int where "LEVEL_END \<equiv> 38"
abbreviation GROUPTYPE_BEGIN :: int where "GROUPTYPE_BEGIN \<equiv> 39"
abbreviation GROUPTYPE_PID :: int where "GROUPTYPE_PID \<equiv> 40"
abbreviation GROUPTYPE_CPUID :: int where "GROUPTYPE_CPUID \<equiv> 41"
abbreviation GROUPTYPE_END :: int where "GROUPTYPE_END \<equiv> 42"
abbreviation LOOP :: int where "LOOP \<equiv> 43"

section \<open>Entries and trees\<close>

record DumpCfg =
  c_name :: string
  c_desc :: string
  c_target :: string
  c_section :: string
  c_class :: int
  c_level :: int
  c_loop :: int
  c_filterCfg :: string
  c_args :: "OptionArgs option"
  c_type :: int
  c_expand :: bool

definition DumpCfg_Create :: DumpCfg where
  "DumpCfg_Create =
    \<lparr>c_name = [], c_desc = [], c_target = [], c_section = [], c_class = NONE, c_level = NONE,
     c_loop = NONE, c_filterCfg = [], c_args = None, c_type = NONE, c_expand = False\<rparr>"

datatype cfg_tree = Node (node_cfg: DumpCfg) (childs: "cfg_tree list")

definition IsDumper :: "int \<Rightarrow> bool" where
  "IsDumper cls \<longleftrightarrow> cls > DUMPER_BEGIN \<and> cls < DUMPER_END"

definition IsFilter :: "int \<Rightarrow> bool" where
  "IsFilter cls \<longleftrightarrow> cls > FILTER_BEGIN \<and> cls < FILTER_END"

definition IsLevel :: "int \<Rightarrow> bool" where
  "IsLevel level \<longleftrightarrow> level > LEVEL_BEGIN \<and> level < LEVEL_END"

definition CanLoop :: "int \<Rightarrow> bool" where
  "CanLoop loop \<longleftrightarrow> loop \<noteq> NONE \<and> loop > 0"

definition IsOutput :: "int \<Rightarrow> bool" where
  "IsOutput cls \<longleftrightarrow> cls > OUTPUT_BEGIN \<and> cls < OUTPUT_END"

definition IsGroup :: "cfg_tree \<Rightarrow> bool" where
  "IsGroup t \<longleftrightarrow> c_class (node_cfg t) = GROUP \<or> childs t \<noteq> []"

definition HasPid :: "string \<Rightarrow> bool" where
  "HasPid target = contains target ''%pid''"

definition HasCpuId :: "string \<Rightarrow> bool" where
  "HasCpuId target = contains target ''%cpuid''"

section \<open>Names of constants\<close>

definition ToDumperStr :: "int \<Rightarrow> string" where
  "ToDumperStr t =
    (if t = CPU_DUMPER then ''cpu_dumper''
     else if t = FILE_DUMPER then ''file_dumper''
     else if t = ENV_PARAM_DUMPER then ''env_dumper''
     else if t = CMD_DUMPER then ''cmd_dumper''
     else if t = PROPERTIES_DUMPER then ''prop_dumper''
     else if t = API_DUMPER then ''api_dumper''
     else if t = LIST_DUMPER then ''list_dumper''
     else if t = VERSION_DUMPER then ''ver_dumper''
     else if t = SA_DUMPER then ''sa_dumper''
     else if t = MEMORY_DUMPER then ''mem_dumper''
     else if t = JSHEAP_MEMORY_DUMPER then ''dumper_jsheap_memory''
     else if t = CJHEAP_MEMORY_DUMPER then ''dumper_cjheap_memory''
     else if t = STACK_DUMPER then ''stack_dumper''
     else if t = TRAFFIC_DUMPER then ''traffic_dumper''
     else if t = IPC_STAT_DUMPER then ''ipc_stat_dumper''
     else ''unknown_dumper'')"

definition ToFilterStr :: "int \<Rightarrow> string" where
  "ToFilterStr t =
    (if t = COLUMN_ROWS_FILTER then ''col_row_filter''
     else if t = FILE_FORMAT_DUMP_FILTER then ''file_format_dump_filter''
     else ''unknown_filter'')"

definition ToOutputStr :: "int \<Rightarrow> string" where
  "ToOutputStr t =
    (if t = STD_OUTPUT then ''std_output''
     else if t = FILE_OUTPUT then ''file_output''
     else if t = FD_OUTPUT then ''fd_output''
     else if t = ZIP_OUTPUT then ''zip_output''
     else ''unknown_output'')"

definition ToLevelStr :: "int \<Rightarrow> string" where
  "ToLevelStr t =
    (if t = LEVEL_NONE then ''level_none''
     else if t = LEVEL_MIDDLE then ''level_middle''
     else if t = LEVEL_HIGH then ''level_high''
     else if t = LEVEL_ALL then ''level_all''
     else ''level_unknown'')"

definition ToTypeStr :: "int \<Rightarrow> string" where
  "ToTypeStr t =
    (if t = LEVEL_NONE then ''type_none''
     else if t = GROUPTYPE_PID then ''type_pid''
     else if t = GROUPTYPE_CPUID then ''type_cpuid''
     else ''type_unknown'')"

definition ToStr :: "int \<Rightarrow> string" where
  "ToStr t =
    (if t = NONE then ''none''
     else if t = GROUP then ''group''
     else if t \<ge> DUMPER_BEGIN \<and> t \<le> DUMPER_END then ToDumperStr t
     else if t \<ge> FILTER_BEGIN \<and> t \<le> FILTER_END then ToFilterStr t
     else if t \<ge> OUTPUT_BEGIN \<and> t \<le> OUTPUT_END then ToOutputStr t
     else if t \<ge> LEVEL_BEGIN \<and> t \<le> LEVEL_END then ToLevelStr t
     else if t \<ge> GROUPTYPE_BEGIN \<and> t \<le> GROUPTYPE_END then ToTypeStr t
     else if t = LOOP then ''loop''
     else ''unknown_type'')"

section \<open>Facts\<close>

lemma class_kinds_disjoint:
  "\<not> (IsDumper c \<and> IsFilter c)" "\<not> (IsDumper c \<and> IsOutput c)" "\<not> (IsFilter c \<and> IsOutput c)"
  "IsDumper c \<or> IsFilter c \<or> IsOutput c \<Longrightarrow> c \<noteq> GROUP"
  by (auto simp: IsDumper_def IsFilter_def IsOutput_def)

end
