(* ===== verification/Config_Data.thy ===== *)
theory Config_Data
  imports Dump_Cfg
begin

text \<open>
  The dumper configuration tables of \<^verbatim>\<open>src/frameworks/native/src/util/config_data.cpp\<close>, entry
  by entry: the items of each dumper, the dumpers, the member lists of the groups and the groups.
  \<open>CONFIG_X_\<close> of the code is \<open>CONFIG_X_prefix\<close>, and an array carries its size as a list. The
  closing section states what makes the tables consistent.
\<close>

section \<open>Names\<close>

definition CONFIG_NAME_SPLIT :: string where
  "CONFIG_NAME_SPLIT = ''_''"

definition CONFIG_GROUP :: string where
  "CONFIG_GROUP = ''group''"

definition CONFIG_GROUP_prefix :: string where
  "CONFIG_GROUP_prefix = CONFIG_GROUP @ CONFIG_NAME_SPLIT"

definition CONFIG_MINIGROUP :: string where
  "CONFIG_MINIGROUP = ''groupmini''"

definition CONFIG_MINIGROUP_prefix :: string where
  "CONFIG_MINIGROUP_prefix = CONFIG_MINIGROUP @ CONFIG_NAME_SPLIT"

definition CONFIG_DUMPER :: string where
  "CONFIG_DUMPER = ''dumper''"

definition CONFIG_DUMPER_prefix :: string where
  "CONFIG_DUMPER_prefix = CONFIG_DUMPER @ CONFIG_NAME_SPLIT"

definition CONFIG_DUMPER_LIST :: string where
  "CONFIG_DUMPER_LIST = CONFIG_DUMPER_prefix @ ''list''"

definition CONFIG_DUMPER_LIST_prefix :: string where
  "CONFIG_DUMPER_LIST_prefix = CONFIG_DUMPER_LIST @ CONFIG_NAME_SPLIT"

definition CONFIG_DUMPER_LIST_SERVICE :: string where
  "CONFIG_DUMPER_LIST_SERVICE = CONFIG_DUMPER_LIST_prefix @ ''service''"

definition CONFIG_DUMPER_LIST_SYSTEM_ABILITY :: string where
  "CONFIG_DUMPER_LIST_SYSTEM_ABILITY = CONFIG_DUMPER_LIST_prefix @ ''system_ability''"

definition CONFIG_DUMPER_LIST_SYSTEM :: string where
  "CONFIG_DUMPER_LIST_SYSTEM = CONFIG_DUMPER_LIST_prefix @ ''system''"

definition CONFIG_DUMPER_JSHEAP_MEMORY :: string where
  "CONFIG_DUMPER_JSHEAP_MEMORY = CONFIG_DUMPER_prefix @ ''jsheap_memory''"

definition CONFIG_DUMPER_CJHEAP_MEMORY :: string where
  "CONFIG_DUMPER_CJHEAP_MEMORY = CONFIG_DUMPER_prefix @ ''cjheap_memory''"

definition CONFIG_DUMPER_HEAP_MEMORY :: string where
  "CONFIG_DUMPER_HEAP_MEMORY = CONFIG_DUMPER_prefix @ ''heap_memory''"

definition CONFIG_DUMPER_EVENT_LIST :: string where
  "CONFIG_DUMPER_EVENT_LIST = CONFIG_DUMPER_prefix @ ''event_list''"

definition CONFIG_DUMPER_EVENT_DETAIL :: string where
  "CONFIG_DUMPER_EVENT_DETAIL = CONFIG_DUMPER_prefix @ ''event_detail''"

definition CONFIG_DUMPER_FD_THREAD :: string where
  "CONFIG_DUMPER_FD_THREAD = CONFIG_DUMPER_prefix @ ''fd_thread''"

definition CONFIG_GROUP_IPC_STAT :: string where
  "CONFIG_GROUP_IPC_STAT = CONFIG_GROUP_prefix @ ''ipc''"

definition CONFIG_GROUP_CPU_FREQ :: string where
  "CONFIG_GROUP_CPU_FREQ = CONFIG_GROUP_prefix @ ''cpufreq''"

definition CONFIG_GROUP_CPU_USAGE :: string where
  "CONFIG_GROUP_CPU_USAGE = CONFIG_GROUP_prefix @ ''cpuusage''"

definition CONFIG_GROUP_LOG :: string where
  "CONFIG_GROUP_LOG = CONFIG_GROUP_prefix @ ''log''"

definition CONFIG_GROUP_LOG_prefix :: string where
  "CONFIG_GROUP_LOG_prefix = CONFIG_GROUP_LOG @ CONFIG_NAME_SPLIT"

definition CONFIG_GROUP_LOG_KERNEL :: string where
  "CONFIG_GROUP_LOG_KERNEL = CONFIG_GROUP_LOG_prefix @ ''kernel''"

definition CONFIG_GROUP_LOG_HILOG :: string where
  "CONFIG_GROUP_LOG_HILOG = CONFIG_GROUP_LOG_prefix @ ''hilog''"

definition CONFIG_GROUP_LOG_INIT :: string where
  "CONFIG_GROUP_LOG_INIT = CONFIG_GROUP_LOG_prefix @ ''init''"

definition CONFIG_GROUP_MEMORY :: string where
  "CONFIG_GROUP_MEMORY = CONFIG_GROUP_prefix @ ''memory''"

definition CONFIG_GROUP_STORAGE :: string where
  "CONFIG_GROUP_STORAGE = CONFIG_GROUP_prefix @ ''storage''"

definition CONFIG_GROUP_STORAGE_IO :: string where
  "CONFIG_GROUP_STORAGE_IO = CONFIG_GROUP_prefix @ ''storage io''"

definition CONFIG_GROUP_NET :: string where
  "CONFIG_GROUP_NET = CONFIG_GROUP_prefix @ ''net''"

definition CONFIG_GROUP_NET_TRAFFIC :: string where
  "CONFIG_GROUP_NET_TRAFFIC = CONFIG_GROUP_prefix @ ''net traffic''"

definition CONFIG_GROUP_SERVICE :: string where
  "CONFIG_GROUP_SERVICE = CONFIG_GROUP_prefix @ ''service''"

definition CONFIG_GROUP_ABILITY :: string where
  "CONFIG_GROUP_ABILITY = CONFIG_GROUP_prefix @ ''ability''"

definition CONFIG_GROUP_SYSTEM :: string where
  "CONFIG_GROUP_SYSTEM = CONFIG_GROUP_prefix @ ''system''"

definition CONFIG_GROUP_SYSTEM_prefix :: string where
  "CONFIG_GROUP_SYSTEM_prefix = CONFIG_GROUP_SYSTEM @ CONFIG_NAME_SPLIT"

definition CONFIG_GROUP_SYSTEM_BASE :: string where
  "CONFIG_GROUP_SYSTEM_BASE = CONFIG_GROUP_SYSTEM_prefix @ ''base''"

definition CONFIG_GROUP_SYSTEM_SYSTEM :: string where
  "CONFIG_GROUP_SYSTEM_SYSTEM = CONFIG_GROUP_SYSTEM_prefix @ ''system''"

definition CONFIG_GROUP_PROCESSES :: string where
  "CONFIG_GROUP_PROCESSES = CONFIG_GROUP_prefix @ ''processes''"

definition CONFIG_GROUP_PROCESSES_ENG :: string where
  "CONFIG_GROUP_PROCESSES_ENG = CONFIG_GROUP_prefix @ ''eng_processes''"

definition CONFIG_GROUP_PROCESSES_PID :: string where
  "CONFIG_GROUP_PROCESSES_PID = CONFIG_GROUP_prefix @ ''pid_processes''"

definition CONFIG_GROUP_PROCESSES_PID_ENG :: string where
  "CONFIG_GROUP_PROCESSES_PID_ENG = CONFIG_GROUP_prefix @ ''pid_eng_processes''"

definition CONFIG_GROUP_FAULT_LOG :: string where
  "CONFIG_GROUP_FAULT_LOG = CONFIG_GROUP_prefix @ ''faultlog''"

definition CONFIG_GROUP_STACK :: string where
  "CONFIG_GROUP_STACK = CONFIG_GROUP_prefix @ ''stack''"

definition CONFIG_GROUP_TEST :: string where
  "CONFIG_GROUP_TEST = CONFIG_GROUP_prefix @ ''test''"

definition STR_ABILITY :: string where
  "STR_ABILITY = ''ability''"

definition STR_BASE :: string where
  "STR_BASE = ''base''"

definition STR_SERVICE :: string where
  "STR_SERVICE = ''service''"

definition STR_SYSTEM :: string where
  "STR_SYSTEM = ''system''"


section \<open>Items\<close>

datatype ItemCfg = ItemCfg (i_name: string) (i_desc: string) (i_target: string) (i_section: string)
  (i_class: int) (i_level: int) (i_loop: int) (i_filterCfg: string)

datatype DumperCfg = DumperCfg (d_name: string) (d_desc: string) (d_list: "ItemCfg list")

datatype GroupCfg = GroupCfg (g_name: string) (g_desc: string) (g_list: "string list")
  (g_type: int) (g_expand: bool)

definition baseInfoDumper :: "ItemCfg list" where
  "baseInfoDumper =
    [ItemCfg ''dumper_base_info'' ''Base Information'' [] [] API_DUMPER NONE NONE [],
     ItemCfg [] [] [] [] FD_OUTPUT NONE NONE []]"

definition kernelVersionDumper :: "ItemCfg list" where
  "kernelVersionDumper =
    [ItemCfg ''dumper_kernel_version'' ''Kernel Version'' ''/proc/version'' [] FILE_DUMPER NONE NONE [],
     ItemCfg [] [] [] [] FD_OUTPUT NONE NONE []]"

definition cmdlineDumper :: "ItemCfg list" where
  "cmdlineDumper =
    [ItemCfg ''dumper_command_line'' ''Command Line'' ''/proc/cmdline'' [] FILE_DUMPER NONE NONE [],
     ItemCfg [] [] [] [] FD_OUTPUT NONE NONE []]"

definition kernelWakeSourcesDumper :: "ItemCfg list" where
  "kernelWakeSourcesDumper =
    [ItemCfg ''dumper_kernel_wake_sources'' ''KERNEL WAKE SOURCES'' ''/sys/kernel/debug/wakeup_sources'' [] FILE_DUMPER NONE NONE [],
     ItemCfg [] [] [] [] FD_OUTPUT NONE NONE []]"

definition kernelCpufreqDumper :: "ItemCfg list" where
  "kernelCpufreqDumper =
    [ItemCfg ''dumper_kernel_cpu_freq'' ''KERNEL CPUFREQ'' ''cat /sys/devices/system/cpu/cpu%cpuid/cpufreq/cpuinfo_cur_freq'' [] CMD_DUMPER NONE NONE [],
     ItemCfg [] [] [] [] FD_OUTPUT NONE NONE [],
     ItemCfg [] [] ''cat /sys/devices/system/cpu/cpu%cpuid/cpufreq/cpuinfo_max_freq'' [] CMD_DUMPER NONE NONE [],
     ItemCfg [] [] [] [] FD_OUTPUT NONE NONE []]"

definition uptimeDumper :: "ItemCfg list" where
  "uptimeDumper =
    [ItemCfg ''dumper_uptime'' ''Up Time'' ''uptime -p'' [] CMD_DUMPER NONE NONE [],
     ItemCfg [] [] [] [] FD_OUTPUT NONE NONE []]"

definition cpuUsageDumper :: "ItemCfg list" where
  "cpuUsageDumper =
    [ItemCfg ''dumper_cpu_usage'' ''CPU Usage'' ''%pid'' [] CPU_DUMPER NONE NONE [],
     ItemCfg [] [] [] [] FD_OUTPUT NONE NONE []]"

definition cpuFreqDumper :: "ItemCfg list" where
  "cpuFreqDumper =
    [ItemCfg ''dumper_cpu_freq'' ''CPU Frequency'' ''cat /sys/devices/system/cpu/cpu%cpuid/cpufreq/cpuinfo_cur_freq'' [] CMD_DUMPER NONE NONE [],
     ItemCfg [] [] [] [] FD_OUTPUT NONE NONE [],
     ItemCfg [] [] ''cat /sys/devices/system/cpu/cpu%cpuid/cpufreq/cpuinfo_max_freq'' [] CMD_DUMPER NONE NONE [],
     ItemCfg [] [] [] [] FD_OUTPUT NONE NONE []]"

definition memDumper :: "ItemCfg list" where
  "memDumper =
    [ItemCfg ''dumper_mem'' ''Memory Information'' ''%pid'' [] MEMORY_DUMPER NONE LOOP [],
     ItemCfg [] [] [] [] FD_OUTPUT NONE LOOP []]"

definition jsHeapMemDumper :: "ItemCfg list" where
  "jsHeapMemDumper =
    [ItemCfg CONFIG_DUMPER_JSHEAP_MEMORY ''jsheap Memory Information'' ''%pid'' [] JSHEAP_MEMORY_DUMPER NONE LOOP [],
     ItemCfg [] [] [] [] FD_OUTPUT NONE LOOP []]"

definition cjHeapMemDumper :: "ItemCfg list" where
  "cjHeapMemDumper =
    [ItemCfg CONFIG_DUMPER_CJHEAP_MEMORY ''cjheap Memory Information'' ''%pid'' [] CJHEAP_MEMORY_DUMPER NONE LOOP [],
     ItemCfg [] [] [] [] FD_OUTPUT NONE LOOP []]"

definition heapMemDumper :: "ItemCfg list" where
  "heapMemDumper =
    [ItemCfg CONFIG_DUMPER_HEAP_MEMORY ''Heap Memory Information'' ''%pid'' [] HEAP_MEMORY_DUMPER NONE NONE [],
     ItemCfg [] [] [] [] FD_OUTPUT NONE NONE []]"

definition eventListDumper :: "ItemCfg list" where
  "eventListDumper =
    [ItemCfg CONFIG_DUMPER_EVENT_LIST ''event List Information'' [] [] EVENT_LIST_DUMPER NONE NONE [],
     ItemCfg [] [] [] [] FD_OUTPUT NONE NONE []]"

definition eventDetailDumper :: "ItemCfg list" where
  "eventDetailDumper =
    [ItemCfg CONFIG_DUMPER_EVENT_DETAIL ''event Detail Information'' [] [] EVENT_DETAIL_DUMPER NONE NONE [],
     ItemCfg [] [] [] [] FD_OUTPUT NONE NONE []]"

definition fdThreadDumper :: "ItemCfg list" where
  "fdThreadDumper =
    [ItemCfg CONFIG_DUMPER_FD_THREAD ''fd Thread Information'' [] [] FD_THREAD_DUMPER NONE NONE [],
     ItemCfg [] [] [] [] FD_OUTPUT NONE NONE []]"

definition envDumper :: "ItemCfg list" where
  "envDumper =
    [ItemCfg ''dumper_env'' ''Environment Variable'' ''printenv'' [] CMD_DUMPER NONE NONE [],
     ItemCfg [] [] [] [] FD_OUTPUT NONE NONE []]"

definition kernelModuleDumper :: "ItemCfg list" where
  "kernelModuleDumper =
    [ItemCfg ''dumper_kernel_module'' ''Kernel Module'' ''/proc/modules'' [] FILE_DUMPER NONE NONE [],
     ItemCfg [] [] [] [] FD_OUTPUT NONE NONE [],
     ItemCfg [] [] ''lsmod'' [] CMD_DUMPER NONE NONE [],
     ItemCfg [] [] [] [] FD_OUTPUT NONE NONE []]"

definition dumpFormatVersionDumper :: "ItemCfg list" where
  "dumpFormatVersionDumper =
    [ItemCfg ''dumper_dump_format_version'' ''HiDumper Version'' ''HiDumper version:x.x'' [] VERSION_DUMPER NONE NONE [],
     ItemCfg [] [] [] [] FD_OUTPUT NONE NONE []]"

definition slabinfoDumper :: "ItemCfg list" where
  "slabinfoDumper =
    [ItemCfg ''dumper_slabinfo'' ''SLAB INFO'' ''/proc/slabinfo'' [] FILE_DUMPER NONE NONE [],
     ItemCfg [] [] [] [] FD_OUTPUT NONE NONE []]"

definition ldkslabinfoDumper :: "ItemCfg list" where
  "ldkslabinfoDumper =
    [ItemCfg ''dumper_ldkslabinfo'' ''LDK SLAB INFO'' ''/proc/devhost/root/slabinfo'' [] FILE_DUMPER NONE NONE [],
     ItemCfg [] [] [] [] FD_OUTPUT NONE NONE []]"

definition zoneinfoDumper :: "ItemCfg list" where
  "zoneinfoDumper =
    [ItemCfg ''dumper_zoneinfo'' ''ZONE INFO'' ''/proc/zoneinfo'' [] FILE_DUMPER NONE NONE [],
     ItemCfg [] [] [] [] FD_OUTPUT NONE NONE []]"

definition vmStatDumper :: "ItemCfg list" where
  "vmStatDumper =
    [ItemCfg ''dumper_vmstat'' ''VIRTUAL MEMORY STATS'' ''/proc/vmstat'' [] FILE_DUMPER NONE NONE [],
     ItemCfg [] [] [] [] FD_OUTPUT NONE NONE []]"

definition vmAllocInfoDumper :: "ItemCfg list" where
  "vmAllocInfoDumper =
    [ItemCfg ''dumper_vmallocinfo'' ''VIRTUAL MEMORY STATS'' ''/proc/vmallocinfo'' [] FILE_DUMPER NONE NONE [],
     ItemCfg [] [] [] [] FD_OUTPUT NONE NONE []]"

definition crashDumper :: "ItemCfg list" where
  "crashDumper =
    [ItemCfg ''dumper_crash'' ''Crash Log'' ''/data/log/faultlog/faultlogger'' [] FILE_DUMPER NONE NONE [],
     ItemCfg [] [] [] [] FD_OUTPUT NONE NONE []]"

definition kernelLogDumper :: "ItemCfg list" where
  "kernelLogDumper =
    [ItemCfg ''dumper_kernel_log'' ''Kernel Log'' ''dmesg'' [] CMD_DUMPER NONE LOOP [],
     ItemCfg [] [] [] [] FD_OUTPUT NONE LOOP []]"

definition hilogDumper :: "ItemCfg list" where
  "hilogDumper =
    [ItemCfg ''dumper_hilog'' ''Hilog'' ''hilog -x --exit'' [] CMD_DUMPER NONE LOOP [],
     ItemCfg [] [] [] [] FD_OUTPUT NONE LOOP []]"

definition portDumper :: "ItemCfg list" where
  "portDumper =
    [ItemCfg ''dumper_port'' ''Port Information'' ''netstat -nW'' [] CMD_DUMPER NONE NONE [],
     ItemCfg [] [] [] [] FD_OUTPUT NONE NONE []]"

definition packetDumper :: "ItemCfg list" where
  "packetDumper =
    [ItemCfg ''dumper_packet'' ''Packet State'' ''/proc/net/dev'' [] FILE_DUMPER NONE NONE [],
     ItemCfg [] [] [] [] FD_OUTPUT NONE NONE [],
     ItemCfg [] [] ''/proc/net/xt_qtaguid/iface_stat_all'' [] FILE_DUMPER NONE NONE [],
     ItemCfg [] [] [] [] FD_OUTPUT NONE NONE [],
     ItemCfg [] [] ''/proc/net/xt_qtaguid/iface_stat_fmt'' [] FILE_DUMPER NONE NONE [],
     ItemCfg [] [] [] [] FD_OUTPUT NONE NONE [],
     ItemCfg [] [] ''/proc/net/xt_qtaguid/ctrl'' [] FILE_DUMPER NONE NONE [],
     ItemCfg [] [] [] [] FD_OUTPUT NONE NONE [],
     ItemCfg [] [] ''/proc/net/xt_qtaguid/stats'' [] FILE_DUMPER NONE NONE [],
     ItemCfg [] [] [] [] FD_OUTPUT NONE NONE []]"

definition ipDumper :: "ItemCfg list" where
  "ipDumper =
    [ItemCfg ''dumper_ip'' ''IP v4/6 State'' ''ifconfig -a'' [] CMD_DUMPER NONE NONE [],
     ItemCfg [] [] [] [] FD_OUTPUT NONE NONE []]"

definition ipTableDumper :: "ItemCfg list" where
  "ipTableDumper =
    [ItemCfg ''dumper_ip_table'' ''IPTable v4/6 Information'' ''iptables -L -nvx'' [] CMD_DUMPER NONE NONE [],
     ItemCfg [] [] [] [] FD_OUTPUT NONE NONE [],
     ItemCfg [] [] ''ip6tables -L -nvx'' [] CMD_DUMPER NONE NONE [],
     ItemCfg [] [] [] [] FD_OUTPUT NONE NONE [],
     ItemCfg [] [] ''iptables -t nat -L -nvx'' [] CMD_DUMPER NONE NONE [],
     ItemCfg [] [] [] [] FD_OUTPUT NONE NONE [],
     ItemCfg [] [] ''iptables -t mangle -L -nvx'' [] CMD_DUMPER NONE NONE [],
     ItemCfg [] [] [] [] FD_OUTPUT NONE NONE [],
     ItemCfg [] [] ''ip6tables -t mangle -L -nvx'' [] CMD_DUMPER NONE NONE [],
     ItemCfg [] [] [] [] FD_OUTPUT NONE NONE [],
     ItemCfg [] [] ''iptables -t raw -L -nvx'' [] CMD_DUMPER NONE NONE [],
     ItemCfg [] [] [] [] FD_OUTPUT NONE NONE [],
     ItemCfg [] [] ''ip6tables -t raw -L -nvx'' [] CMD_DUMPER NONE NONE [],
     ItemCfg [] [] [] [] FD_OUTPUT NONE NONE []]"

definition routeTableDumper :: "ItemCfg list" where
  "routeTableDumper =
    [ItemCfg ''dumper_route_table'' ''IP Table v4/6 Information'' ''/data/misc/net/rt_tables'' [] FILE_DUMPER NONE NONE [],
     ItemCfg [] [] [] [] FD_OUTPUT NONE NONE []]"

definition ipcDumper :: "ItemCfg list" where
  "ipcDumper =
    [ItemCfg ''dumper_ipc'' ''IPC Information'' ''/sys/kernel/debug/binder/failed_transaction_log'' [] FILE_DUMPER NONE NONE [],
     ItemCfg [] [] [] [] FD_OUTPUT NONE NONE [],
     ItemCfg [] [] ''/sys/kernel/debug/binder/transaction_log'' [] FILE_DUMPER NONE NONE [],
     ItemCfg [] [] [] [] FD_OUTPUT NONE NONE [],
     ItemCfg [] [] ''/sys/kernel/debug/binder/transactions'' [] FILE_DUMPER NONE NONE [],
     ItemCfg [] [] [] [] FD_OUTPUT NONE NONE [],
     ItemCfg [] [] ''/sys/kernel/debug/binder/stats'' [] FILE_DUMPER NONE NONE [],
     ItemCfg [] [] [] [] FD_OUTPUT NONE NONE [],
     ItemCfg [] [] ''/sys/kernel/debug/binder/state'' [] FILE_DUMPER NONE NONE [],
     ItemCfg [] [] [] [] FD_OUTPUT NONE NONE []]"

definition ipRulesDumper :: "ItemCfg list" where
  "ipRulesDumper =
    [ItemCfg ''dumper_ip_rules'' ''IP RULES v4/6'' ''ip link'' [] CMD_DUMPER NONE NONE [],
     ItemCfg [] [] [] [] FD_OUTPUT NONE NONE [],
     ItemCfg [] [] ''ip -4 addr show'' [] CMD_DUMPER NONE NONE [],
     ItemCfg [] [] [] [] FD_OUTPUT NONE NONE [],
     ItemCfg [] [] ''ip -6 addr show'' [] CMD_DUMPER NONE NONE [],
     ItemCfg [] [] [] [] FD_OUTPUT NONE NONE [],
     ItemCfg [] [] ''ip rule show'' [] CMD_DUMPER NONE NONE [],
     ItemCfg [] [] [] [] FD_OUTPUT NONE NONE [],
     ItemCfg [] [] ''ip -6 rule show'' [] CMD_DUMPER NONE NONE [],
     ItemCfg [] [] [] [] FD_OUTPUT NONE NONE []]"

definition storageStateDumper :: "ItemCfg list" where
  "storageStateDumper =
    [ItemCfg ''dumper_storage_state'' ''Storage State'' ''storaged -u -p'' [] CMD_DUMPER NONE NONE [],
     ItemCfg [] [] [] [] FD_OUTPUT NONE NONE []]"

definition blockDumper :: "ItemCfg list" where
  "blockDumper =
    [ItemCfg ''dumper_block'' ''Block Information'' ''df -k'' [] CMD_DUMPER NONE NONE [],
     ItemCfg [] [] [] [] FD_OUTPUT NONE NONE []]"

definition fileDumper :: "ItemCfg list" where
  "fileDumper =
    [ItemCfg ''dumper_file'' ''File Information'' ''lsof'' [] CMD_DUMPER NONE NONE [],
     ItemCfg [] [] [] [] FD_OUTPUT NONE NONE []]"

definition topIoDumper :: "ItemCfg list" where
  "topIoDumper =
    [ItemCfg ''dumper_top_io'' ''TOP IO Information'' ''iotop -n 1 -m 100'' [] CMD_DUMPER NONE NONE [],
     ItemCfg [] [] [] [] FILE_FORMAT_DUMP_FILTER LEVEL_ALL NONE [],
     ItemCfg [] [] [] [] FD_OUTPUT NONE NONE []]"

definition mountsDumper :: "ItemCfg list" where
  "mountsDumper =
    [ItemCfg ''dumper_mounts'' ''Mount List'' ''/proc/mounts'' [] FILE_DUMPER NONE NONE [],
     ItemCfg [] [] [] [] FD_OUTPUT NONE NONE []]"

definition threadsDumper :: "ItemCfg list" where
  "threadsDumper =
    [ItemCfg ''dumper_threads'' ''Processes/Threads List'' ''ps -efT'' [] CMD_DUMPER NONE NONE [],
     ItemCfg [] [] [] [] FD_OUTPUT NONE NONE []]"

definition threadsPidDumper :: "ItemCfg list" where
  "threadsPidDumper =
    [ItemCfg ''dumper_threads_pid'' ''Processes/Threads List'' ''ps -efT -p %pid'' [] CMD_DUMPER NONE NONE [],
     ItemCfg [] [] [] [] FD_OUTPUT NONE NONE []]"

definition smapDumper :: "ItemCfg list" where
  "smapDumper =
    [ItemCfg ''dumper_smap'' ''Process SMAP Information'' ''/proc/%pid/smaps'' [] FILE_DUMPER NONE LOOP [],
     ItemCfg [] [] [] [] FD_OUTPUT NONE LOOP []]"

definition mapDumper :: "ItemCfg list" where
  "mapDumper =
    [ItemCfg ''dumper_map'' ''Process MAP Information'' ''/proc/%pid/maps'' [] FILE_DUMPER NONE LOOP [],
     ItemCfg [] [] [] [] FD_OUTPUT NONE LOOP []]"

definition blockChannelDumper :: "ItemCfg list" where
  "blockChannelDumper =
    [ItemCfg ''dumper_block_channel'' ''Block Channel'' ''/proc/%pid/wchan'' [] FILE_DUMPER NONE NONE [],
     ItemCfg [] [] [] [] FD_OUTPUT NONE NONE []]"

definition excuteTimeDumper :: "ItemCfg list" where
  "excuteTimeDumper =
    [ItemCfg ''dumper_excute_time'' ''Excute Time'' (''ps -o '' @ [CHR 0x22] @ ''TIME'' @ [CHR 0x22] @ '' -p %pid'') [] CMD_DUMPER NONE NONE [],
     ItemCfg [] [] [] [] FD_OUTPUT NONE NONE []]"

definition mountInfoDumper :: "ItemCfg list" where
  "mountInfoDumper =
    [ItemCfg ''dumper_mount_info'' ''Mount Information'' ''/proc/%pid/mountinfo'' [] FILE_DUMPER NONE LOOP [],
     ItemCfg [] [] [] [] FD_OUTPUT NONE LOOP []]"

definition systemAbilityDumper :: "ItemCfg list" where
  "systemAbilityDumper =
    [ItemCfg ''dumper_system_ability'' ''System Ability Information'' STR_ABILITY [] SA_DUMPER NONE NONE [],
     ItemCfg [] [] [] [] FD_OUTPUT NONE NONE []]"

definition stackDumper :: "ItemCfg list" where
  "stackDumper =
    [ItemCfg ''dumper_stack'' ''Dump Stack Info'' ''dumpcatcher -p %pid'' [] CMD_DUMPER NONE NONE [],
     ItemCfg [] [] [] [] FD_OUTPUT NONE NONE []]"

definition listServiceDumper :: "ItemCfg list" where
  "listServiceDumper =
    [ItemCfg CONFIG_DUMPER_LIST_SERVICE ''list service'' STR_SERVICE [] LIST_DUMPER NONE NONE [],
     ItemCfg [] [] [] [] FD_OUTPUT NONE NONE []]"

definition listSystemAbilityDumper :: "ItemCfg list" where
  "listSystemAbilityDumper =
    [ItemCfg CONFIG_DUMPER_LIST_SYSTEM_ABILITY ''list system ability'' STR_ABILITY [] LIST_DUMPER NONE NONE [],
     ItemCfg [] [] [] [] FD_OUTPUT NONE NONE []]"

definition listSystemDumper :: "ItemCfg list" where
  "listSystemDumper =
    [ItemCfg CONFIG_DUMPER_LIST_SYSTEM ''list system'' STR_SYSTEM [] LIST_DUMPER NONE NONE [],
     ItemCfg [] [] [] [] FD_OUTPUT NONE NONE []]"

definition testDumper :: "ItemCfg list" where
  "testDumper =
    [ItemCfg ''dumper_test'' ''test used dumper'' ''/data/local/tmp/hidumper_mockdata_0001.txt'' [] FILE_DUMPER NONE NONE [],
     ItemCfg [] [] [] [] FD_OUTPUT NONE NONE [],
     ItemCfg [] [] ''cat /data/local/tmp/hidumper_mockdata_0002.txt'' [] CMD_DUMPER NONE NONE [],
     ItemCfg [] [] [] [] FD_OUTPUT NONE NONE []]"

definition ioDumper :: "ItemCfg list" where
  "ioDumper =
    [ItemCfg ''dumper_io_info'' ''io information'' ''/proc/%pid/io'' [] FILE_DUMPER NONE NONE [],
     ItemCfg [] [] [] [] FD_OUTPUT NONE NONE []]"

definition trafficDumper :: "ItemCfg list" where
  "trafficDumper =
    [ItemCfg ''dumper_traffic'' ''Traffic Information'' ''%pid'' [] TRAFFIC_DUMPER NONE NONE [],
     ItemCfg [] [] [] [] FD_OUTPUT NONE NONE []]"

definition ipcStatDumper :: "ItemCfg list" where
  "ipcStatDumper =
    [ItemCfg ''dumper_ipc_stat'' ''IPC stat Information'' ''%pid'' [] IPC_STAT_DUMPER NONE NONE [],
     ItemCfg [] [] [] [] FD_OUTPUT NONE NONE []]"

section \<open>Dumpers\<close>

text \<open>Every entry takes its name and description from the first item of its list.\<close>

definition dumper_of :: "ItemCfg list \<Rightarrow> DumperCfg" where
  "dumper_of items = DumperCfg (i_name (items ! 0)) (i_desc (items ! 0)) items"

definition dumpers :: "DumperCfg list" where
  "dumpers =
    [dumper_of baseInfoDumper, dumper_of kernelVersionDumper, dumper_of cmdlineDumper, dumper_of kernelWakeSourcesDumper,
     dumper_of kernelCpufreqDumper, dumper_of uptimeDumper, dumper_of cpuUsageDumper, dumper_of cpuFreqDumper,
     dumper_of memDumper, dumper_of jsHeapMemDumper, dumper_of cjHeapMemDumper, dumper_of heapMemDumper,
     dumper_of eventListDumper, dumper_of eventDetailDumper, dumper_of fdThreadDumper, dumper_of envDumper,
     dumper_of kernelModuleDumper, dumper_of dumpFormatVersionDumper, dumper_of slabinfoDumper, dumper_of ldkslabinfoDumper,
     dumper_of zoneinfoDumper, dumper_of vmStatDumper, dumper_of vmAllocInfoDumper, dumper_of crashDumper,
     dumper_of kernelLogDumper, dumper_of hilogDumper, dumper_of portDumper, dumper_of packetDumper,
     dumper_of ipDumper, dumper_of ipTableDumper, dumper_of routeTableDumper, dumper_of ipcDumper,
     dumper_of ipRulesDumper, dumper_of storageStateDumper, dumper_of blockDumper, dumper_of fileDumper,
     dumper_of topIoDumper, dumper_of mountsDumper, dumper_of threadsDumper, dumper_of threadsPidDumper,
     dumper_of smapDumper, dumper_of mapDumper, dumper_of blockChannelDumper, dumper_of excuteTimeDumper,
     dumper_of mountInfoDumper, dumper_of systemAbilityDumper, dumper_of stackDumper, dumper_of listServiceDumper,
     dumper_of listSystemAbilityDumper, dumper_of listSystemDumper, dumper_of testDumper, dumper_of ioDumper,
     dumper_of trafficDumper, dumper_of ipcStatDumper]"

section \<open>Groups\<close>

definition cpuFreqGroup :: "string list" where
  "cpuFreqGroup = [''dumper_cpu_freq'']"

definition cpuUsageGroup :: "string list" where
  "cpuUsageGroup = [''dumper_cpu_usage'']"

definition logKernelGroup :: "string list" where
  "logKernelGroup = [''dumper_kernel_log'']"

definition logHilogGroup :: "string list" where
  "logHilogGroup = [''dumper_hilog'']"

definition logInitGroup :: "string list" where
  "logInitGroup = [''cpu_dumper_name_000'']"

definition memoryGroup :: "string list" where
  "memoryGroup = [''dumper_mem'']"

definition storageGroup :: "string list" where
  "storageGroup =
    [''dumper_storage_state'',
     ''dumper_block'',
     ''dumper_file'',
     ''dumper_top_io'',
     ''dumper_mounts'']"

definition storageIoGroup :: "string list" where
  "storageIoGroup = [''dumper_io_info'']"

definition netGroup :: "string list" where
  "netGroup =
    [''dumper_port'',
     ''dumper_packet'',
     ''dumper_ip'',
     ''dumper_ip_table'',
     ''dumper_route_table'',
     ''dumper_ipc'',
     ''dumper_ip_rules'']"

definition netTrafficGroup :: "string list" where
  "netTrafficGroup = [''dumper_traffic'']"

definition serviceGroup :: "string list" where
  "serviceGroup = [''mem_dumper_name_000'']"

definition systemAbilityGroup :: "string list" where
  "systemAbilityGroup = [''dumper_system_ability'']"

definition systemBaseGroup :: "string list" where
  "systemBaseGroup =
    [''dumper_base_info'',
     ''dumper_kernel_version'',
     ''dumper_command_line'',
     ''dumper_kernel_wake_sources'',
     ''dumper_uptime'']"

definition systemBaseCpuIdGroupMini :: "string list" where
  "systemBaseCpuIdGroupMini = [''dumper_kernel_cpu_freq'']"

definition systemSystemGroup :: "string list" where
  "systemSystemGroup =
    [''dumper_env'',
     ''dumper_kernel_module'',
     ''dumper_dump_format_version'',
     ''dumper_slabinfo'',
     ''dumper_ldkslabinfo'',
     ''dumper_zoneinfo'',
     ''dumper_vmstat'',
     ''dumper_vmallocinfo'',
     ''groupmini_cpuid_expand_systemSystemGroup'',
     ''groupmini_pid_nonexpand_systemSystemGroup'']"

definition systemSystemCpuIdGroupMini :: "string list" where
  "systemSystemCpuIdGroupMini = [''dumper_cpu_freq'']"

definition systemSystemPidGroupMini :: "string list" where
  "systemSystemPidGroupMini = [''dumper_cpu_usage'', ''dumper_mem'']"

definition processesGroup :: "string list" where
  "processesGroup = [''dumper_threads'', ''groupmini_expand_processesGroup'']"

definition processesGroup_eng :: "string list" where
  "processesGroup_eng = [''dumper_threads'', ''groupmini_expand_processesGroup_eng'']"

definition processesPidGroup :: "string list" where
  "processesPidGroup = [''groupmini_pid_expand_processesGroup'']"

definition processesPidGroup_eng :: "string list" where
  "processesPidGroup_eng = [''groupmini_pid_expand_processesGroup_eng'']"

definition processesGroupMini :: "string list" where
  "processesGroupMini = [''dumper_block_channel'', ''dumper_excute_time'', ''dumper_mount_info'']"

definition processesGroupMini_eng :: "string list" where
  "processesGroupMini_eng =
    [''dumper_map'',
     ''dumper_block_channel'',
     ''dumper_excute_time'',
     ''dumper_mount_info'']"

definition processesPidGroupMini :: "string list" where
  "processesPidGroupMini =
    [''dumper_threads_pid'',
     ''dumper_block_channel'',
     ''dumper_excute_time'',
     ''dumper_mount_info'']"

definition processesPidGroupMini_eng :: "string list" where
  "processesPidGroupMini_eng =
    [''dumper_threads_pid'',
     ''dumper_map'',
     ''dumper_block_channel'',
     ''dumper_excute_time'',
     ''dumper_mount_info'']"

definition faultLogGroup :: "string list" where
  "faultLogGroup = [''dumper_crash'']"

definition stackGroup :: "string list" where
  "stackGroup = [''dumper_stack'']"

definition testGroup :: "string list" where
  "testGroup = [''dumper_test'']"

definition ipcStatGroup :: "string list" where
  "ipcStatGroup = [''dumper_ipc_stat'']"

definition groups :: "GroupCfg list" where
  "groups =
    [GroupCfg CONFIG_GROUP_CPU_FREQ ''group of cpu freq dumper'' cpuFreqGroup GROUPTYPE_CPUID True,
     GroupCfg CONFIG_GROUP_CPU_USAGE ''group of cpu usage dumper'' cpuUsageGroup GROUPTYPE_PID False,
     GroupCfg CONFIG_GROUP_LOG_KERNEL ''group of kernel log dumper'' logKernelGroup NONE False,
     GroupCfg CONFIG_GROUP_LOG_HILOG ''group of hilog dumper'' logHilogGroup NONE False,
     GroupCfg CONFIG_GROUP_LOG_INIT ''group of init log dumper'' logInitGroup NONE False,
     GroupCfg CONFIG_GROUP_MEMORY ''group of memory dumper'' memoryGroup GROUPTYPE_PID False,
     GroupCfg CONFIG_GROUP_IPC_STAT ''group of ipc stat dumper'' ipcStatGroup GROUPTYPE_PID False,
     GroupCfg CONFIG_GROUP_STORAGE ''group of storage dumper'' storageGroup NONE False,
     GroupCfg CONFIG_GROUP_NET ''group of net dumper'' netGroup NONE False,
     GroupCfg CONFIG_GROUP_SERVICE ''group of service dumper'' serviceGroup NONE False,
     GroupCfg CONFIG_GROUP_ABILITY ''group of ability dumper'' systemAbilityGroup NONE False,
     GroupCfg CONFIG_GROUP_SYSTEM_BASE ''group of base log dumper'' systemBaseGroup NONE False,
     GroupCfg CONFIG_GROUP_STORAGE_IO ''group of io dumper'' storageIoGroup GROUPTYPE_PID False,
     GroupCfg CONFIG_GROUP_NET_TRAFFIC ''group of traffic dumper'' netTrafficGroup GROUPTYPE_PID False,
     GroupCfg CONFIG_GROUP_SYSTEM_SYSTEM ''group of system log dumper'' systemSystemGroup NONE False,
     GroupCfg CONFIG_GROUP_PROCESSES ''group of processes dumper'' processesGroup NONE False,
     GroupCfg CONFIG_GROUP_PROCESSES_ENG ''group of processes dumper by eng '' processesGroup_eng NONE False,
     GroupCfg CONFIG_GROUP_PROCESSES_PID ''group of processes pid dumper'' processesPidGroup NONE False,
     GroupCfg CONFIG_GROUP_PROCESSES_PID_ENG ''group of processes pid dumper by eng'' processesPidGroup_eng NONE False,
     GroupCfg CONFIG_GROUP_FAULT_LOG ''group of fault log dumper'' faultLogGroup NONE False,
     GroupCfg CONFIG_GROUP_STACK ''group of stack dumper'' stackGroup GROUPTYPE_PID True,
     GroupCfg CONFIG_GROUP_TEST ''group of test dumper'' testGroup NONE False,
     GroupCfg ''groupmini_expand_processesGroup'' ''mini-group for of processes dumper'' processesGroupMini GROUPTYPE_PID True,
     GroupCfg ''groupmini_expand_processesGroup_eng'' ''mini-group for of processes dumper by eng'' processesGroupMini_eng GROUPTYPE_PID True,
     GroupCfg ''groupmini_pid_expand_processesGroup'' ''mini-group for of processes dumper'' processesPidGroupMini GROUPTYPE_PID True,
     GroupCfg ''groupmini_pid_expand_processesGroup_eng'' ''mini-group for of processes dumper by eng'' processesPidGroupMini_eng GROUPTYPE_PID True,
     GroupCfg ''groupmini_cpuid_expand_systemBaseGroup'' ''mini-group for of base dumper'' systemBaseCpuIdGroupMini GROUPTYPE_CPUID True,
     GroupCfg ''groupmini_cpuid_expand_systemSystemGroup'' ''mini-group for of system dumper'' systemSystemCpuIdGroupMini GROUPTYPE_CPUID True,
     GroupCfg ''groupmini_pid_nonexpand_systemSystemGroup'' ''group of cpu usage dumper'' systemSystemPidGroupMini GROUPTYPE_PID False]"

definition NEST_MAX :: int where
  "NEST_MAX = 10"

section \<open>Consistency of the tables\<close>

text \<open>
  A dumper's items are chains: a dumper, any number of filters, one output. The executor of an
  output flushes what the dumper before it has read, so a chain without an output prints nothing.
\<close>

fun chain_ok :: "bool \<Rightarrow> int list \<Rightarrow> bool" where
  "chain_ok open_chain [] = (\<not> open_chain)"
| "chain_ok open_chain (c # cs) =
    (if IsDumper c then \<not> open_chain \<and> chain_ok True cs
     else if IsFilter c then open_chain \<and> chain_ok True cs
     else IsOutput c \<and> open_chain \<and> chain_ok False cs)"

definition item_chain_ok :: "ItemCfg list \<Rightarrow> bool" where
  "item_chain_ok items \<longleftrightarrow> items \<noteq> [] \<and> chain_ok False (map i_class items)"

text \<open>A member of a group names a dumper, or a mini-group that itself has dumpers only.\<close>

definition member_ok :: "string \<Rightarrow> bool" where
  "member_ok m \<longleftrightarrow>
    StartWith m CONFIG_DUMPER_prefix \<and> m \<in> set (map d_name dumpers)
    \<or> StartWith m CONFIG_MINIGROUP_prefix \<and>
      list_ex (\<lambda>g. g_name g = m \<and> list_all (\<lambda>m'. StartWith m' CONFIG_DUMPER_prefix) (g_list g)) groups"

lemmas config_names = CONFIG_NAME_SPLIT_def CONFIG_GROUP_def CONFIG_GROUP_prefix_def CONFIG_MINIGROUP_def
  CONFIG_MINIGROUP_prefix_def CONFIG_DUMPER_def CONFIG_DUMPER_prefix_def
  CONFIG_DUMPER_LIST_def CONFIG_DUMPER_LIST_prefix_def CONFIG_DUMPER_LIST_SERVICE_def
  CONFIG_DUMPER_LIST_SYSTEM_ABILITY_def CONFIG_DUMPER_LIST_SYSTEM_def
  CONFIG_DUMPER_JSHEAP_MEMORY_def CONFIG_DUMPER_CJHEAP_MEMORY_def
  CONFIG_DUMPER_HEAP_MEMORY_def CONFIG_DUMPER_EVENT_LIST_def CONFIG_DUMPER_EVENT_DETAIL_def
  CONFIG_DUMPER_FD_THREAD_def CONFIG_GROUP_IPC_STAT_def CONFIG_GROUP_CPU_FREQ_def
  CONFIG_GROUP_CPU_USAGE_def CONFIG_GROUP_LOG_def CONFIG_GROUP_LOG_prefix_def
  CONFIG_GROUP_LOG_KERNEL_def CONFIG_GROUP_LOG_HILOG_def CONFIG_GROUP_LOG_INIT_def
  CONFIG_GROUP_MEMORY_def CONFIG_GROUP_STORAGE_def CONFIG_GROUP_STORAGE_IO_def
  CONFIG_GROUP_NET_def CONFIG_GROUP_NET_TRAFFIC_def CONFIG_GROUP_SERVICE_def
  CONFIG_GROUP_ABILITY_def CONFIG_GROUP_SYSTEM_def CONFIG_GROUP_SYSTEM_prefix_def
  CONFIG_GROUP_SYSTEM_BASE_def CONFIG_GROUP_SYSTEM_SYSTEM_def CONFIG_GROUP_PROCESSES_def
  CONFIG_GROUP_PROCESSES_ENG_def CONFIG_GROUP_PROCESSES_PID_def
  CONFIG_GROUP_PROCESSES_PID_ENG_def CONFIG_GROUP_FAULT_LOG_def CONFIG_GROUP_STACK_def
  CONFIG_GROUP_TEST_def STR_ABILITY_def STR_BASE_def STR_SERVICE_def STR_SYSTEM_def

lemmas config_items = baseInfoDumper_def kernelVersionDumper_def cmdlineDumper_def kernelWakeSourcesDumper_def
  kernelCpufreqDumper_def uptimeDumper_def cpuUsageDumper_def cpuFreqDumper_def
  memDumper_def jsHeapMemDumper_def cjHeapMemDumper_def heapMemDumper_def
  eventListDumper_def eventDetailDumper_def fdThreadDumper_def envDumper_def
  kernelModuleDumper_def dumpFormatVersionDumper_def slabinfoDumper_def
  ldkslabinfoDumper_def zoneinfoDumper_def vmStatDumper_def vmAllocInfoDumper_def
  crashDumper_def kernelLogDumper_def hilogDumper_def portDumper_def packetDumper_def
  ipDumper_def ipTableDumper_def routeTableDumper_def ipcDumper_def ipRulesDumper_def
  storageStateDumper_def blockDumper_def fileDumper_def topIoDumper_def mountsDumper_def
  threadsDumper_def threadsPidDumper_def smapDumper_def mapDumper_def blockChannelDumper_def
  excuteTimeDumper_def mountInfoDumper_def systemAbilityDumper_def stackDumper_def
  listServiceDumper_def listSystemAbilityDumper_def listSystemDumper_def testDumper_def
  ioDumper_def trafficDumper_def ipcStatDumper_def

lemmas config_groups = cpuFreqGroup_def cpuUsageGroup_def logKernelGroup_def logHilogGroup_def logInitGroup_def
  memoryGroup_def storageGroup_def storageIoGroup_def netGroup_def netTrafficGroup_def
  serviceGroup_def systemAbilityGroup_def systemBaseGroup_def systemBaseCpuIdGroupMini_def
  systemSystemGroup_def systemSystemCpuIdGroupMini_def systemSystemPidGroupMini_def
  processesGroup_def processesGroup_eng_def processesPidGroup_def processesPidGroup_eng_def
  processesGroupMini_def processesGroupMini_eng_def processesPidGroupMini_def
  processesPidGroupMini_eng_def faultLogGroup_def stackGroup_def testGroup_def
  ipcStatGroup_def

end
