(* ===== verification/Config_Utils.thy ===== *)
theory Config_Utils
  imports Config_Data
begin

text \<open>
  The configuration reader, \<^verbatim>\<open>src/frameworks/native/src/util/config_utils.cpp\<close>: from the options
  of a request to the flat list of dumpers, filters and outputs that the executor runs.

  \<open>GetGroup\<close> recurses through mini-groups. The recursion is the model's, and its termination
  proof is a fact about the tables: a mini-group holds dumpers only, so the depth is two. What the
  operating system and the bundle manager answer is the record \<open>proc_env\<close>. A flat entry carries
  the index of its parent in the list (\<open>parent_\<close> of the code).
\<close>

section \<open>State\<close>

record PidInfo =
  p_pid :: int
  p_uid :: int
  p_gid :: int
  p_ppid :: int
  p_name :: string
  p_cmdline :: string

definition PidInfo_Reset :: PidInfo where
  "PidInfo_Reset = \<lparr>p_pid = -1, p_uid = -1, p_gid = -1, p_ppid = -1, p_name = [], p_cmdline = []\<rparr>"

record proc_env =
  cpu_infos :: "int list" \<comment> \<open>what \<open>GetCpuInfos\<close> appends\<close>
  pid_infos :: "PidInfo list" \<comment> \<open>what \<open>GetPidInfos\<close> appends\<close>
  process_info :: "int \<Rightarrow> bool \<times> PidInfo" \<comment> \<open>\<open>GetProcessInfo\<close>\<close>
  app_debug :: "int \<Rightarrow> bool" \<comment> \<open>\<open>CheckAppDebugVersion\<close>\<close>
  user_mode :: bool \<comment> \<open>\<open>IsUserMode\<close>\<close>
  client_folder :: "string option" \<comment> \<open>folder of the client callback, if there is one\<close>
  canceled_at :: "nat \<Rightarrow> bool" \<comment> \<open>answer of the n-th \<open>IsCanceled\<close> of \<open>CopySmaps\<close>\<close>

type_synonym flat_cfg = "nat option \<times> DumpCfg"

record ConfigUtils =
  dumperUid :: int \<comment> \<open>\<open>dumperParam_->GetUid()\<close>\<close>
  dumperOpts_ref :: DumperOpts \<comment> \<open>\<open>dumperParam_->GetOpts()\<close>\<close>
  pidInfos :: "PidInfo list"
  cpuInfos :: "int list"
  currentPidInfos :: "PidInfo list"
  currentPidInfo :: PidInfo
  isDumpSystemSystem :: bool
  clientWrites :: "string list" \<comment> \<open>text saved to the client's descriptor\<close>
  copiedFiles :: "(string \<times> string) list" \<comment> \<open>\<open>CopyFile\<close> calls\<close>

definition ConfigUtils_new :: "int \<Rightarrow> DumperOpts \<Rightarrow> ConfigUtils" where
  "ConfigUtils_new uid opts =
    \<lparr>dumperUid = uid, dumperOpts_ref = opts, pidInfos = [], cpuInfos = [], currentPidInfos = [],
     currentPidInfo = PidInfo_Reset, isDumpSystemSystem = False, clientWrites = [], copiedFiles = []\<rparr>"

definition clear_pids :: "ConfigUtils \<Rightarrow> ConfigUtils" where
  "clear_pids cu = cu\<lparr>currentPidInfo := PidInfo_Reset, currentPidInfos := []\<rparr>"

section \<open>Section names\<close>

definition GetGroupNames :: "string \<Rightarrow> string list" where
  "GetGroupNames name =
    map g_name (filter (\<lambda>g. g_name g \<noteq> [] \<and> (name \<noteq> [] \<longrightarrow> StartWith (g_name g) name)) groups)"

text \<open>The text after the last underscore; empty when there is none.\<close>

definition GetSectionName :: "string \<Rightarrow> string" where
  "GetSectionName name =
    (if CHR ''_'' \<in> set name then rev (takeWhile (\<lambda>c. c \<noteq> CHR ''_'') (rev name)) else [])"

definition RemoveDuplicateString :: "string list \<Rightarrow> string list" where
  "RemoveDuplicateString strs = fold (\<lambda>s acc. if s \<in> set acc then acc else acc @ [s]) strs []"

definition GetSectionNames :: "string \<Rightarrow> string list \<Rightarrow> string list" where
  "GetSectionNames name nameList =
    RemoveDuplicateString (nameList @ map GetSectionName (GetGroupNames name))"

section \<open>Processes\<close>

definition GetDumpLevelByPid :: "int \<Rightarrow> PidInfo \<Rightarrow> int" where
  "GetDumpLevelByPid uid pidInfo =
    (if uid = 0 then LEVEL_HIGH
     else if uid < 10000 then LEVEL_MIDDLE
     else if uid = p_uid pidInfo then LEVEL_MIDDLE else LEVEL_NONE)"

definition MergePidInfos :: "proc_env \<Rightarrow> int \<Rightarrow> ConfigUtils \<Rightarrow> ConfigUtils" where
  "MergePidInfos env pid cu =
    (if pid < 0 then
       let cu1 = cu\<lparr>pidInfos := pid_infos env,
             currentPidInfo := (currentPidInfo cu)\<lparr>p_pid := pid, p_uid := -1\<rparr>\<rparr>
       in cu1\<lparr>currentPidInfos := pidInfos cu1\<rparr>
     else case process_info env pid of (ok, info) \<Rightarrow>
       let cu1 = cu\<lparr>currentPidInfo := info\<rparr>
       in cu1\<lparr>currentPidInfos := (if ok then [info] else [])\<rparr>)"

text \<open>\<open>pidInfos_\<close> is not cleared here: \<open>GetPidInfos\<close> appends to it.\<close>

definition MergeDebugPidInfos :: "proc_env \<Rightarrow> int \<Rightarrow> ConfigUtils \<Rightarrow> bool \<times> ConfigUtils" where
  "MergeDebugPidInfos env pid cu =
    (let cu0 = cu\<lparr>currentPidInfos := []\<rparr> in
     if pid < 0 then
       let infos = pidInfos cu @ pid_infos env;
           debugs = filter (\<lambda>i. app_debug env (p_pid i)) infos;
           cu1 = cu0\<lparr>pidInfos := infos, currentPidInfos := debugs,
             currentPidInfo := (currentPidInfo cu)\<lparr>p_pid := pid, p_uid := -1\<rparr>\<rparr>
       in if debugs = [] then (False, cu1) else (True, cu1)
     else if app_debug env pid then
       (case process_info env pid of (ok, info) \<Rightarrow>
          let cu1 = cu0\<lparr>currentPidInfo := info\<rparr>
          in if ok then (True, cu1\<lparr>currentPidInfos := [info]\<rparr>) else (False, cu1))
     else (False, cu0))"

section \<open>Dumpers\<close>

definition keep_item :: "int \<Rightarrow> ItemCfg \<Rightarrow> bool" where
  "keep_item level item \<longleftrightarrow>
    \<not> (IsFilter (i_class item) \<and> IsLevel level \<and> i_level item \<noteq> LEVEL_ALL \<and> i_level item \<noteq> level)"

definition item_to_cfg :: "OptionArgs option \<Rightarrow> ItemCfg \<Rightarrow> DumpCfg" where
  "item_to_cfg args item =
    DumpCfg_Create\<lparr>c_name := i_name item, c_desc := i_desc item, c_target := i_target item,
      c_section := i_section item, c_class := i_class item, c_level := i_level item,
      c_loop := i_loop item, c_filterCfg := i_filterCfg item,
      c_args := (if IsDumper (i_class item) then args else None)\<rparr>"

definition GetDumper_index ::
    "int \<Rightarrow> DumpCfg list \<Rightarrow> OptionArgs option \<Rightarrow> int \<Rightarrow> DumpStatus \<times> DumpCfg list" where
  "GetDumper_index index result args level =
    (if index < 0 \<or> index \<ge> int (length dumpers) then (DUMP_INVALID_ARG, result)
     else (DUMP_OK, result @ map (item_to_cfg args) (filter (keep_item level) (d_list (dumpers ! nat index)))))"

text \<open>The search loops: the index of the first entry with the name, or -1.\<close>

fun find_index_from :: "int \<Rightarrow> string \<Rightarrow> string list \<Rightarrow> int" where
  "find_index_from i name [] = -1"
| "find_index_from i name (n # ns) =
    (if n = [] then find_index_from (i + 1) name ns
     else if name \<noteq> n then find_index_from (i + 1) name ns
     else i)"

definition GetDumper ::
    "string \<Rightarrow> DumpCfg list \<Rightarrow> OptionArgs option \<Rightarrow> int \<Rightarrow> DumpStatus \<times> DumpCfg list" where
  "GetDumper name result args level =
    (let index = find_index_from 0 name (map d_name dumpers) in
     if index > -1 then GetDumper_index index result args level else (DUMP_FAIL, result))"

section \<open>Groups\<close>

definition group_cfg :: "GroupCfg \<Rightarrow> DumpCfg" where
  "group_cfg g = DumpCfg_Create\<lparr>c_class := GROUP, c_name := g_name g, c_desc := g_desc g,
     c_type := g_type g, c_expand := g_expand g\<rparr>"

text \<open>The member loop of \<open>GetGroupSimple\<close>; \<open>sub\<close> is the call of \<open>GetGroup\<close> on a mini-group.\<close>

fun members_loop ::
    "(string \<Rightarrow> cfg_tree list) \<Rightarrow> (string \<Rightarrow> cfg_tree list) \<Rightarrow> string list \<Rightarrow> DumpStatus \<times> cfg_tree list" where
  "members_loop dumper sub [] = (DUMP_OK, [])"
| "members_loop dumper sub (m # ms) =
    (if m = [] then members_loop dumper sub ms
     else if StartWith m CONFIG_DUMPER_prefix then
       (case members_loop dumper sub ms of (st, outs) \<Rightarrow> (st, dumper m @ outs))
     else if StartWith m CONFIG_MINIGROUP_prefix then
       (case members_loop dumper sub ms of (st, outs) \<Rightarrow> (st, sub m @ outs))
     else (DUMP_INVALID_ARG, []))"

definition GetGroupSimple ::
    "(string \<Rightarrow> OptionArgs option \<Rightarrow> int \<Rightarrow> int \<Rightarrow> cfg_tree list) \<Rightarrow> GroupCfg
      \<Rightarrow> OptionArgs option \<Rightarrow> int \<Rightarrow> int \<Rightarrow> DumpStatus \<times> cfg_tree list" where
  "GetGroupSimple sub g args level nest =
    (if nest > NEST_MAX then (DUMP_INVALID_ARG, [])
     else if g_list g = [] then (DUMP_OK, [])
     else case members_loop
            (\<lambda>m. map (\<lambda>c. Node c []) (snd (GetDumper m [] args level)))
            (\<lambda>m. sub m args level (nest + 1)) (g_list g) of
          (st, outs) \<Rightarrow> (st, if g_expand g then [Node (group_cfg g) outs] else outs))"

definition GetGroup_index ::
    "(string \<Rightarrow> OptionArgs option \<Rightarrow> int \<Rightarrow> int \<Rightarrow> cfg_tree list) \<Rightarrow> ConfigUtils \<Rightarrow> GroupCfg
      \<Rightarrow> OptionArgs option \<Rightarrow> int \<Rightarrow> int \<Rightarrow> DumpStatus \<times> cfg_tree list" where
  "GetGroup_index sub cu g args level nest =
    (if nest > NEST_MAX then (DUMP_INVALID_ARG, [])
     else if g_expand g \<and> g_type g = GROUPTYPE_PID then
       (DUMP_OK, [Node (group_cfg g) (concat (map (\<lambda>p.
          let newLevel = GetDumpLevelByPid (dumperUid cu) p in
          if newLevel = LEVEL_NONE then []
          else snd (GetGroupSimple sub g (Some (SetPid (p_pid p) (p_uid p) (OptionArgs_Clone args)))
                      newLevel nest)) (currentPidInfos cu)))])
     else if g_expand g \<and> g_type g = GROUPTYPE_CPUID then
       (DUMP_OK, [Node (group_cfg g) (concat (map (\<lambda>cpu.
          snd (GetGroupSimple sub g (Some (SetCpuId cpu (OptionArgs_Clone args))) level nest)) (cpuInfos cu)))])
     else if g_type g = GROUPTYPE_PID then
       (DUMP_OK, [Node (group_cfg g)
          (if GetDumpLevelByPid (dumperUid cu) (currentPidInfo cu) \<noteq> LEVEL_NONE
           then snd (GetGroupSimple sub g (Some (SetPid (p_pid (currentPidInfo cu))
                  (p_uid (currentPidInfo cu)) (OptionArgs_Clone args))) level nest)
           else [])])
     else if g_type g = GROUPTYPE_CPUID then
       (DUMP_OK, [Node (group_cfg g)
          (snd (GetGroupSimple sub g (Some (SetCpuId (-1) (OptionArgs_Clone args))) level nest))])
     else if g_type g = NONE then
       (DUMP_OK, [Node (group_cfg g) (snd (GetGroupSimple sub g args level nest))])
     else (DUMP_INVALID_ARG, [Node (group_cfg g) []]))"

text \<open>Only the members that are mini-groups reach the recursive call.\<close>

definition mini_members :: "GroupCfg \<Rightarrow> string list" where
  "mini_members g = filter (\<lambda>m. m \<noteq> [] \<and> \<not> StartWith m CONFIG_DUMPER_prefix
     \<and> StartWith m CONFIG_MINIGROUP_prefix) (g_list g)"

lemma members_loop_cong:
  "(\<And>m. m \<in> set ms \<Longrightarrow> m \<noteq> [] \<Longrightarrow> \<not> StartWith m CONFIG_DUMPER_prefix
      \<Longrightarrow> StartWith m CONFIG_MINIGROUP_prefix \<Longrightarrow> sub m = sub' m)
    \<Longrightarrow> members_loop dumper sub ms = members_loop dumper sub' ms"
  by (induction ms) (auto split: prod.splits)

lemma GetGroupSimple_cong:
  assumes "\<And>m a l n. m \<in> set (mini_members g) \<Longrightarrow> sub m a l n = sub' m a l n"
  shows "GetGroupSimple sub g args level nest = GetGroupSimple sub' g args level nest"
proof -
  have "members_loop d (\<lambda>m. sub m args level (nest + 1)) (g_list g)
      = members_loop d (\<lambda>m. sub' m args level (nest + 1)) (g_list g)" for d
    by (rule members_loop_cong) (simp add: assms mini_members_def)
  then show ?thesis by (simp add: GetGroupSimple_def)
qed

lemma GetGroup_index_cong [fundef_cong]:
  assumes "cu = cu'" "g = g'" "args = args'" "level = level'" "nest = nest'"
    and "\<And>m a l n. m \<in> set (mini_members g') \<Longrightarrow> sub m a l n = sub' m a l n"
  shows "GetGroup_index sub cu g args level nest = GetGroup_index sub' cu' g' args' level' nest'"
proof -
  have eq: "GetGroupSimple sub g' = GetGroupSimple sub' g'"
    using assms(6) by (intro ext GetGroupSimple_cong) simp
  show ?thesis unfolding GetGroup_index_def assms(1-5) eq ..
qed

text \<open>
  \<open>GetGroup\<close> by name, without the merge into the result. Note that the code calls the overload
  by index without its \<open>nest\<close> argument, so that the depth starts again from 0 at every level.
\<close>

definition find_group :: "string \<Rightarrow> GroupCfg option" where
  "find_group name =
    (let index = find_index_from 0 name (map g_name groups) in
     if index > -1 then Some (groups ! nat index) else None)"

definition deep :: "string \<Rightarrow> bool" where
  "deep name = (case find_group name of None \<Rightarrow> False | Some g \<Rightarrow> mini_members g \<noteq> [])"

lemma groups_shallow:
  "list_all (\<lambda>g. list_all (\<lambda>m. \<not> deep m) (mini_members g)) groups"
  by code_simp

lemma find_index_sound:
  assumes "find_index_from i name ns = j" and "j \<noteq> -1" and "0 \<le> i"
  shows "ns ! nat (j - i) = name \<and> i \<le> j \<and> j < i + int (length ns)"
  using assms
proof (induction ns arbitrary: i)
  case Nil
  then show ?case by simp
next
  case (Cons n ns)
  show ?case
  proof (cases "n = [] \<or> name \<noteq> n")
    case True
    with Cons.prems have "find_index_from (i + 1) name ns = j" by auto
    from Cons.IH [OF this] Cons.prems have
      ih: "ns ! nat (j - (i + 1)) = name" "i + 1 \<le> j" "j < i + 1 + int (length ns)" by auto
    then have "nat (j - i) = Suc (nat (j - (i + 1)))" by simp
    with ih show ?thesis by simp
  next
    case False
    with Cons.prems show ?thesis by auto
  qed
qed

lemma find_group_in: "find_group name = Some g \<Longrightarrow> g \<in> set groups \<and> g_name g = name"
proof -
  assume h: "find_group name = Some g"
  define j where "j = find_index_from 0 name (map g_name groups)"
  from h have j: "j > -1" "g = groups ! nat j"
    by (auto simp: find_group_def Let_def j_def split: if_splits)
  from find_index_sound [of 0 name "map g_name groups" j] j
  have "map g_name groups ! nat j = name" "j < int (length groups)" by (auto simp: j_def)
  moreover from this(2) j(1) have "nat j < length groups" by linarith
  ultimately show ?thesis using j(2) by simp
qed

lemma mini_not_deep: "find_group name = Some g \<Longrightarrow> m \<in> set (mini_members g) \<Longrightarrow> \<not> deep m"
  using groups_shallow find_group_in by (fastforce simp: list_all_iff)

function group_named ::
    "ConfigUtils \<Rightarrow> string \<Rightarrow> OptionArgs option \<Rightarrow> int \<Rightarrow> int \<Rightarrow> DumpStatus \<times> cfg_tree list" where
  "group_named cu name args level nest =
    (if nest > NEST_MAX then (DUMP_INVALID_ARG, [])
     else case find_group name of None \<Rightarrow> (DUMP_FAIL, [])
       | Some g \<Rightarrow> GetGroup_index (\<lambda>m a l n. snd (group_named cu m a l n)) cu g args level 0)"
  by pat_completeness auto
termination
proof (relation "measure (\<lambda>(cu, name, args, level, nest). if deep name then 1 else 0)", goal_cases)
  case (2 cu name args level nest g m a l n)
  then have "deep name" using mini_not_deep by (auto simp: deep_def)
  moreover have "\<not> deep m" using 2 mini_not_deep by blast
  ultimately show ?case by simp
qed simp

declare group_named.simps [simp del]

section \<open>From the tree to the list\<close>

fun set_section :: "string \<Rightarrow> int \<Rightarrow> cfg_tree \<Rightarrow> cfg_tree" where
  "set_section section nest (Node c ts) =
    (if nest > NEST_MAX then Node c ts
     else Node (if IsDumper (c_class c) then c\<lparr>c_section := section\<rparr> else c)
            (map (set_section section (nest + 1)) ts))"

definition SetSection :: "cfg_tree list \<Rightarrow> string \<Rightarrow> cfg_tree list" where
  "SetSection ts section = map (set_section section 0) ts"

text \<open>\<open>base\<close> is the position the first entry gets in the final list.\<close>

fun flat_node :: "int \<Rightarrow> nat \<Rightarrow> nat option \<Rightarrow> cfg_tree \<Rightarrow> flat_cfg list"
  and flat_list :: "int \<Rightarrow> nat \<Rightarrow> nat option \<Rightarrow> cfg_tree list \<Rightarrow> flat_cfg list" where
  "flat_node nest base parent (Node c ts) = (parent, c) # flat_list (nest + 1) (Suc base) (Some base) ts"
| "flat_list nest base parent [] = []"
| "flat_list nest base parent (t # ts) =
    (if nest > NEST_MAX then []
     else flat_node nest base parent t
       @ flat_list nest (base + length (flat_node nest base parent t)) parent ts)"

definition ConvertTreeToList :: "cfg_tree list \<Rightarrow> flat_cfg list \<Rightarrow> flat_cfg list" where
  "ConvertTreeToList tree lst = lst @ flat_list 0 (length lst) None tree"

definition GetGroup ::
    "ConfigUtils \<Rightarrow> string \<Rightarrow> flat_cfg list \<Rightarrow> OptionArgs option \<Rightarrow> DumpStatus \<times> flat_cfg list" where
  "GetGroup cu name result args =
    (case group_named cu name args NONE 0 of (ret, tmpUse) \<Rightarrow>
       (ret, ConvertTreeToList (SetSection tmpUse (GetSectionName name)) result))"

definition GetConfig ::
    "ConfigUtils \<Rightarrow> string \<Rightarrow> flat_cfg list \<Rightarrow> OptionArgs option \<Rightarrow> DumpStatus \<times> flat_cfg list" where
  "GetConfig cu name result args =
    (if StartWith name CONFIG_DUMPER_prefix then
       (case GetDumper name [] args NONE of (st, cfgs) \<Rightarrow> (st, result @ map (\<lambda>c. (None, c)) cfgs))
     else if StartWith name CONFIG_GROUP_prefix then GetGroup cu name result args
     else (DUMP_FAIL, result))"

section \<open>One handler per option\<close>

text \<open>
  A handler returns its answer, the state and the list. \<open>add\<close> is a call of \<open>GetConfig\<close> whose
  status the code ignores.
\<close>

type_synonym handler_result = "bool \<times> ConfigUtils \<times> flat_cfg list"

definition add :: "ConfigUtils \<Rightarrow> OptionArgs option \<Rightarrow> string \<Rightarrow> flat_cfg list \<Rightarrow> flat_cfg list" where
  "add cu args name cfgs = snd (GetConfig cu name cfgs args)"

definition HandleDumpLog :: "ConfigUtils \<Rightarrow> flat_cfg list \<Rightarrow> handler_result" where
  "HandleDumpLog cu cfgs =
    (let opts = dumperOpts_ref cu in
     if \<not> o_isDumpLog opts then (False, cu, cfgs)
     else let cu1 = clear_pids cu;
              args = Some (SetStrList (o_logArgs opts) OptionArgs_Create)
          in (True, clear_pids cu1,
              fold (\<lambda>a. add cu1 args (CONFIG_GROUP_LOG_prefix @ a)) (o_logArgs opts) cfgs))"

definition HandleDumpList :: "ConfigUtils \<Rightarrow> flat_cfg list \<Rightarrow> handler_result" where
  "HandleDumpList cu cfgs =
    (let opts = dumperOpts_ref cu in
     if \<not> o_isDumpList opts then (False, cu, cfgs)
     else let cu1 = clear_pids cu;
              cfgs1 = (if o_isDumpSystemAbility opts
                       then add cu1 None CONFIG_DUMPER_LIST_SYSTEM_ABILITY cfgs else cfgs);
              cfgs2 = (if o_isDumpService opts
                       then add cu1 None CONFIG_DUMPER_LIST_SERVICE cfgs1 else cfgs1);
              cfgs3 = (if o_isDumpSystem opts
                       then add cu1 None CONFIG_DUMPER_LIST_SYSTEM cfgs2 else cfgs2)
          in (True, clear_pids cu1, cfgs3))"

definition HandleDumpService :: "ConfigUtils \<Rightarrow> flat_cfg list \<Rightarrow> handler_result" where
  "HandleDumpService cu cfgs =
    (let opts = dumperOpts_ref cu in
     if o_isDumpList opts \<or> \<not> o_isDumpService opts then (False, cu, cfgs)
     else let cu1 = clear_pids cu in (True, clear_pids cu1, add cu1 None CONFIG_GROUP_SERVICE cfgs))"

definition HandleDumpAbility :: "ConfigUtils \<Rightarrow> flat_cfg list \<Rightarrow> handler_result" where
  "HandleDumpAbility cu cfgs =
    (let opts = dumperOpts_ref cu in
     if o_isDumpList opts \<or> \<not> o_isDumpSystemAbility opts then (False, cu, cfgs)
     else let cu1 = clear_pids cu;
              args = Some (SetNamesAndArgs (o_abilitieNames opts) (o_abilitieArgs opts) OptionArgs_Create)
          in (True, clear_pids cu1, add cu1 args CONFIG_GROUP_ABILITY cfgs))"

definition HandleDumpSystem :: "ConfigUtils \<Rightarrow> flat_cfg list \<Rightarrow> handler_result" where
  "HandleDumpSystem cu cfgs =
    (let opts = dumperOpts_ref cu in
     if o_isDumpList opts \<or> \<not> o_isDumpSystem opts then (False, cu, cfgs)
     else let cu1 = clear_pids cu in
       if o_systemArgs opts = [] then
         (True, cu1\<lparr>isDumpSystemSystem := True\<rparr>,
          add cu1 None CONFIG_GROUP_SYSTEM_SYSTEM (add cu1 None CONFIG_GROUP_SYSTEM_BASE cfgs))
       else let args = Some (SetStrList (o_systemArgs opts) OptionArgs_Create);
                names = map (\<lambda>a. CONFIG_GROUP_SYSTEM_prefix @ a) (o_systemArgs opts)
            in (True,
                clear_pids (cu1\<lparr>isDumpSystemSystem :=
                  isDumpSystemSystem cu1 \<or> CONFIG_GROUP_SYSTEM_SYSTEM \<in> set names\<rparr>),
                fold (add cu1 args) names cfgs))"

definition HandleDumpCpuFreq :: "ConfigUtils \<Rightarrow> flat_cfg list \<Rightarrow> handler_result" where
  "HandleDumpCpuFreq cu cfgs =
    (if \<not> o_isDumpCpuFreq (dumperOpts_ref cu) then (False, cu, cfgs)
     else if isDumpSystemSystem cu then (False, cu, cfgs)
     else let cu1 = clear_pids cu in (True, clear_pids cu1, add cu1 None CONFIG_GROUP_CPU_FREQ cfgs))"

definition HandleDumpCpuUsage :: "proc_env \<Rightarrow> ConfigUtils \<Rightarrow> flat_cfg list \<Rightarrow> handler_result" where
  "HandleDumpCpuUsage env cu cfgs =
    (let opts = dumperOpts_ref cu in
     if \<not> o_isDumpCpuUsage opts then (False, cu, cfgs)
     else if isDumpSystemSystem cu \<and> o_cpuUsagePid opts < 0 then (False, cu, cfgs)
     else let cu1 = MergePidInfos env (o_cpuUsagePid opts) (clear_pids cu)
          in (True, clear_pids cu1, add cu1 None CONFIG_GROUP_CPU_USAGE cfgs))"

definition HandleDumpMemCommon :: "proc_env \<Rightarrow> ConfigUtils \<Rightarrow> flat_cfg list \<Rightarrow> ConfigUtils \<times> flat_cfg list" where
  "HandleDumpMemCommon env cu cfgs =
    (let cu1 = MergePidInfos env (o_memPid (dumperOpts_ref cu)) (clear_pids cu)
     in (clear_pids cu1, add cu1 None CONFIG_GROUP_MEMORY cfgs))"

definition HandleDumpMem :: "proc_env \<Rightarrow> ConfigUtils \<Rightarrow> flat_cfg list \<Rightarrow> handler_result" where
  "HandleDumpMem env cu cfgs =
    (let opts = dumperOpts_ref cu in
     if \<not> o_isDumpMem opts then (False, cu, cfgs)
     else if isDumpSystemSystem cu \<and> o_memPid opts < 0 then (False, cu, cfgs)
     else (True, HandleDumpMemCommon env cu cfgs))"

definition HandleDumpJsHeapMem :: "ConfigUtils \<Rightarrow> flat_cfg list \<Rightarrow> handler_result" where
  "HandleDumpJsHeapMem cu cfgs =
    (let opts = dumperOpts_ref cu in
     if \<not> o_isDumpJsHeapMem opts then (False, cu, cfgs)
     else if o_dumpJsHeapMemPid opts \<le> 0 \<or> o_threadId opts < 0 then (False, cu, cfgs)
     else (True, cu, add cu None CONFIG_DUMPER_JSHEAP_MEMORY cfgs))"

definition HandleDumpCjHeapMem :: "ConfigUtils \<Rightarrow> flat_cfg list \<Rightarrow> handler_result" where
  "HandleDumpCjHeapMem cu cfgs =
    (let opts = dumperOpts_ref cu in
     if \<not> o_isDumpCjHeapMem opts then (False, cu, cfgs)
     else if o_dumpCjHeapMemPid opts \<le> 0 then (False, cu, cfgs)
     else (True, cu, add cu None CONFIG_DUMPER_CJHEAP_MEMORY cfgs))"

definition HandleDumpHeapMem :: "ConfigUtils \<Rightarrow> flat_cfg list \<Rightarrow> handler_result" where
  "HandleDumpHeapMem cu cfgs =
    (let opts = dumperOpts_ref cu in
     if \<not> o_isDumpHeapMem opts then (False, cu, cfgs)
     else if o_dumpHeapMemPid opts \<le> 0 \<and> o_dumpHeapArgPid opts \<le> 0 then (False, cu, cfgs)
     else (True, cu, add cu None CONFIG_DUMPER_HEAP_MEMORY cfgs))"

definition HandleDumpMemShowMaps :: "proc_env \<Rightarrow> ConfigUtils \<Rightarrow> flat_cfg list \<Rightarrow> handler_result" where
  "HandleDumpMemShowMaps env cu cfgs =
    (let opts = dumperOpts_ref cu in
     if \<not> o_isShowSmaps opts then (False, cu, cfgs)
     else if isDumpSystemSystem cu \<and> o_memPid opts < 0 then (False, cu, cfgs)
     else (True, HandleDumpMemCommon env cu cfgs))"

text \<open>The guard of the storage handler tests \<open>memPid_\<close>, as the code does.\<close>

definition HandleDumpStorage :: "proc_env \<Rightarrow> ConfigUtils \<Rightarrow> flat_cfg list \<Rightarrow> handler_result" where
  "HandleDumpStorage env cu cfgs =
    (let opts = dumperOpts_ref cu in
     if \<not> o_isDumpStorage opts then (False, cu, cfgs)
     else if isDumpSystemSystem cu \<and> o_memPid opts < 0 then (False, cu, cfgs)
     else let cu1 = MergePidInfos env (o_storagePid opts) (clear_pids cu)
          in (True, clear_pids cu1,
              if o_storagePid opts < 0 then add cu1 None CONFIG_GROUP_STORAGE cfgs
              else add cu1 None CONFIG_GROUP_STORAGE_IO cfgs))"

definition HandleDumpNet :: "proc_env \<Rightarrow> ConfigUtils \<Rightarrow> flat_cfg list \<Rightarrow> handler_result" where
  "HandleDumpNet env cu cfgs =
    (let opts = dumperOpts_ref cu in
     if \<not> o_isDumpNet opts then (False, cu, cfgs)
     else if isDumpSystemSystem cu \<and> o_netPid opts < 0 then (False, cu, cfgs)
     else let cu1 = MergePidInfos env (o_netPid opts) (clear_pids cu);
              cfgs1 = add cu1 None CONFIG_GROUP_NET_TRAFFIC cfgs
          in (True, clear_pids cu1,
              if o_netPid opts < 0 then add cu1 None CONFIG_GROUP_NET cfgs1 else cfgs1))"

fun copy_loop :: "(nat \<Rightarrow> bool) \<Rightarrow> int \<Rightarrow> string \<Rightarrow> nat \<Rightarrow> PidInfo list \<Rightarrow> (string \<times> string) list" where
  "copy_loop canceled uid folder n [] = []"
| "copy_loop canceled uid folder n (p # ps) =
    (if GetDumpLevelByPid uid p = LEVEL_NONE then copy_loop canceled uid folder n ps
     else if canceled n then []
     else let pid = to_string (p_pid p);
              desfolder = folder @ ''smaps/'' @ p_name p @ ''-'' @ pid
          in (''/proc/'' @ pid @ ''/smaps'', desfolder @ ''/smaps'')
             # copy_loop canceled uid folder (Suc n) ps)"

definition CopySmaps :: "proc_env \<Rightarrow> ConfigUtils \<Rightarrow> bool \<times> ConfigUtils" where
  "CopySmaps env cu =
    (case client_folder env of None \<Rightarrow> (False, cu)
     | Some folder \<Rightarrow> (True, cu\<lparr>copiedFiles :=
         copiedFiles cu @ copy_loop (canceled_at env) (dumperUid cu) folder 0 (currentPidInfos cu)\<rparr>))"

definition HandleDumpProcesses :: "proc_env \<Rightarrow> ConfigUtils \<Rightarrow> flat_cfg list \<Rightarrow> handler_result" where
  "HandleDumpProcesses env cu cfgs =
    (let opts = dumperOpts_ref cu; isUserMode = user_mode env in
     if \<not> o_isDumpProcesses opts then (False, cu, cfgs)
     else case (if isUserMode then MergeDebugPidInfos env (o_processPid opts) (clear_pids cu)
                else (True, MergePidInfos env (o_processPid opts) (clear_pids cu))) of
       (False, cu1) \<Rightarrow>
         (False, (case client_folder env of None \<Rightarrow> cu1
            | Some _ \<Rightarrow> cu1\<lparr>clientWrites := clientWrites cu1 @
                [''-p option only support debug application'' @ [CHR 0x0A]]\<rparr>), cfgs)
     | (True, cu1) \<Rightarrow>
         if o_isDumpFd opts \<or> o_isDumpThread opts then (True, cu1, add cu1 None CONFIG_DUMPER_FD_THREAD cfgs)
         else if isUserMode then
           (True, clear_pids cu1,
            if o_processPid opts < 0 then add cu1 None CONFIG_GROUP_PROCESSES cfgs
            else add cu1 None CONFIG_GROUP_PROCESSES_PID cfgs)
         else
           (True, clear_pids (if IsDumpZip opts then snd (CopySmaps env cu1) else cu1),
            if o_processPid opts < 0 then add cu1 None CONFIG_GROUP_PROCESSES_ENG cfgs
            else add cu1 None CONFIG_GROUP_PROCESSES_PID_ENG cfgs))"

definition HandleDumpFaultLog :: "ConfigUtils \<Rightarrow> flat_cfg list \<Rightarrow> handler_result" where
  "HandleDumpFaultLog cu cfgs =
    (let opts = dumperOpts_ref cu in
     if \<not> o_isFaultLog opts then (False, cu, cfgs)
     else let cu1 = clear_pids cu in
       (True, clear_pids cu1,
        if o_isEventList opts \<or> o_isEventDetail opts then
          (if o_isEventList opts then add cu1 None CONFIG_DUMPER_EVENT_LIST cfgs
           else if o_isEventDetail opts then add cu1 None CONFIG_DUMPER_EVENT_DETAIL cfgs else cfgs)
        else add cu1 None CONFIG_GROUP_FAULT_LOG cfgs))"

definition HandleDumpAppendix :: "proc_env \<Rightarrow> ConfigUtils \<Rightarrow> flat_cfg list \<Rightarrow> handler_result" where
  "HandleDumpAppendix env cu cfgs =
    (if \<not> o_isAppendix (dumperOpts_ref cu) then (False, cu, cfgs)
     else let cu1 = MergePidInfos env (-1) (clear_pids cu);
              cfgs1 = add cu1 None CONFIG_GROUP_LOG_HILOG (add cu1 None CONFIG_GROUP_LOG_INIT
                        (add cu1 None CONFIG_GROUP_LOG_KERNEL cfgs));
              callingUid = dumperUid cu1
          in (True, clear_pids cu1,
              if callingUid = 0 \<or> callingUid = 1000 then add cu1 None CONFIG_GROUP_STACK cfgs1 else cfgs1))"

definition HandleDumpIpcStat :: "proc_env \<Rightarrow> ConfigUtils \<Rightarrow> flat_cfg list \<Rightarrow> handler_result" where
  "HandleDumpIpcStat env cu cfgs =
    (let opts = dumperOpts_ref cu in
     if \<not> o_isDumpIpc opts then (False, cu, cfgs)
     else let cu1 = MergePidInfos env (o_ipcStatPid opts) (clear_pids cu)
          in (True, clear_pids cu1, add cu1 None CONFIG_GROUP_IPC_STAT cfgs))"

section \<open>The configuration of a request\<close>

text \<open>The handlers in the order of \<open>GetDumperConfigs\<close>; their answers are ignored.\<close>

definition handlers :: "proc_env \<Rightarrow> (ConfigUtils \<Rightarrow> flat_cfg list \<Rightarrow> handler_result) list" where
  "handlers env =
    [HandleDumpSystem, HandleDumpCpuFreq, HandleDumpCpuUsage env, HandleDumpMem env,
     HandleDumpJsHeapMem, HandleDumpCjHeapMem, HandleDumpHeapMem, HandleDumpMemShowMaps env,
     HandleDumpLog, HandleDumpStorage env, HandleDumpNet env, HandleDumpList, HandleDumpAbility,
     HandleDumpService, HandleDumpProcesses env, HandleDumpFaultLog, HandleDumpAppendix env,
     HandleDumpIpcStat env]"

definition GetDumperConfigs :: "proc_env \<Rightarrow> ConfigUtils \<Rightarrow> DumpStatus \<times> ConfigUtils \<times> flat_cfg list" where
  "GetDumperConfigs env cu =
    (let cu1 = clear_pids (cu\<lparr>cpuInfos := cpuInfos cu @ cpu_infos env\<rparr>)
     in (DUMP_OK, fold (\<lambda>h (c, cfgs). snd (h c cfgs)) (handlers env) (cu1, [])))"

end
