(* ===== verification/Config_Facts.thy ===== *)
theory Config_Facts
  imports Config_Utils
begin

text \<open>
  What the configuration reader guarantees for the list it hands to the executor: complete chains
  of dumper, filters and output; parent indices that point back to a group; and process arguments
  that the calling user may see.
\<close>

section \<open>Chains\<close>

lemma chain_ok_append: "chain_ok b xs \<Longrightarrow> chain_ok False ys \<Longrightarrow> chain_ok b (xs @ ys)"
  by (induction b xs rule: chain_ok.induct) (auto split: if_splits)

lemma chain_ok_drop_filters:
  "chain_ok b (map i_class xs) \<Longrightarrow> chain_ok b (map i_class (filter (keep_item level) xs))"
proof (induction xs arbitrary: b)
  case Nil
  then show ?case by simp
next
  case (Cons x xs)
  show ?case
  proof (cases "keep_item level x")
    case True
    with Cons show ?thesis by (auto split: if_splits)
  next
    case False
    then have "IsFilter (i_class x)" by (simp add: keep_item_def)
    moreover from this have "\<not> IsDumper (i_class x)" using class_kinds_disjoint(1) by blast
    ultimately show ?thesis using Cons False by auto
  qed
qed

lemma dumpers_chains: "list_all (\<lambda>d. item_chain_ok (d_list d)) dumpers"
  by code_simp

lemma chain_no_group: "chain_ok b cs \<Longrightarrow> GROUP \<notin> set cs"
  by (induction b cs rule: chain_ok.induct)
    (auto simp: IsDumper_def IsFilter_def IsOutput_def split: if_splits)

lemma GetDumper_chain: "chain_ok False (map c_class (snd (GetDumper name [] args level)))"
proof -
  have "chain_ok False (map i_class (filter (keep_item level) (d_list (dumpers ! nat i))))"
    if "i < int (length dumpers)" "i \<ge> 0" for i
  proof (rule chain_ok_drop_filters)
    have "dumpers ! nat i \<in> set dumpers" using that by simp
    then show "chain_ok False (map i_class (d_list (dumpers ! nat i)))"
      using dumpers_chains by (auto simp: list_all_iff item_chain_ok_def)
  qed
  then show ?thesis
    by (auto simp: GetDumper_def GetDumper_index_def Let_def item_to_cfg_def comp_def)
qed

text \<open>The classes of a flat list without its group entries.\<close>

definition work_classes :: "flat_cfg list \<Rightarrow> int list" where
  "work_classes cfgs = filter (\<lambda>c. c \<noteq> GROUP) (map (\<lambda>e. c_class (snd e)) cfgs)"

definition flat_ok :: "cfg_tree list \<Rightarrow> bool" where
  "flat_ok ts \<longleftrightarrow> (\<forall>nest base parent. chain_ok False (work_classes (flat_list nest base parent ts)))"

lemma work_classes_append [simp]: "work_classes (xs @ ys) = work_classes xs @ work_classes ys"
  by (simp add: work_classes_def)

lemma flat_list_cut: "nest > NEST_MAX \<Longrightarrow> flat_list nest base parent ts = []"
  by (cases ts) auto

lemma flat_list_append:
  "flat_list nest base parent (xs @ ys) =
    flat_list nest base parent xs @ flat_list nest (base + length (flat_list nest base parent xs)) parent ys"
proof (cases "nest > NEST_MAX")
  case True
  then show ?thesis by (simp add: flat_list_cut)
next
  case False
  then show ?thesis by (induction xs arbitrary: base) (simp_all add: add.assoc)
qed

lemma flat_ok_append: "flat_ok xs \<Longrightarrow> flat_ok ys \<Longrightarrow> flat_ok (xs @ ys)"
  by (simp add: flat_ok_def flat_list_append chain_ok_append)

lemma flat_ok_Nil [simp]: "flat_ok []"
  by (simp add: flat_ok_def work_classes_def)

lemma flat_ok_group: "c_class c = GROUP \<Longrightarrow> flat_ok ts \<Longrightarrow> flat_ok [Node c ts]"
  by (auto simp: flat_ok_def work_classes_def)

lemma flat_leaves:
  "\<not> nest > NEST_MAX \<Longrightarrow> flat_list nest base parent (map (\<lambda>c. Node c []) cs) = map (\<lambda>c. (parent, c)) cs"
  by (induction cs arbitrary: base) simp_all

lemma flat_ok_leaves: "chain_ok False (map c_class cs) \<Longrightarrow> flat_ok (map (\<lambda>c. Node c []) cs)"
  unfolding flat_ok_def
proof (intro allI)
  fix nest base parent
  assume c: "chain_ok False (map c_class cs)"
  have "filter (\<lambda>c. c \<noteq> GROUP) (map c_class cs) = map c_class cs"
    using chain_no_group [OF c] by (intro filter_True) force
  with c show "chain_ok False (work_classes (flat_list nest base parent (map (\<lambda>c. Node c []) cs)))"
    by (cases "nest > NEST_MAX") (simp_all add: flat_list_cut flat_leaves work_classes_def comp_def)
qed

section \<open>Properties of the group trees\<close>

text \<open>
  The tree of a group is built from leaves, group nodes and concatenation. A property of tree lists
  that these three keep, for the arguments the construction passes down, holds of every group.
\<close>

locale tree_property =
  fixes uid :: int and A :: "OptionArgs option \<Rightarrow> bool" and R :: "cfg_tree list \<Rightarrow> bool"
  assumes empty: "R []"
    and append: "R xs \<Longrightarrow> R ys \<Longrightarrow> R (xs @ ys)"
    and group: "R ts \<Longrightarrow> R [Node (group_cfg g) ts]"
    and leaves: "A args \<Longrightarrow> R (map (\<lambda>c. Node c []) (snd (GetDumper m [] args level)))"
    and with_pid: "A args \<Longrightarrow> GetDumpLevelByPid uid p \<noteq> LEVEL_NONE
      \<Longrightarrow> A (Some (SetPid (p_pid p) (p_uid p) (OptionArgs_Clone args)))"
    and with_cpu: "A args \<Longrightarrow> A (Some (SetCpuId cpu (OptionArgs_Clone args)))"
begin

lemma R_concat: "(\<And>x. x \<in> set xs \<Longrightarrow> R (f x)) \<Longrightarrow> R (concat (map f xs))"
  by (induction xs) (simp_all add: append empty)

lemma R_members: "(\<And>m. R (d m)) \<Longrightarrow> (\<And>m. R (sub m)) \<Longrightarrow> R (snd (members_loop d sub ms))"
  by (induction ms) (auto split: prod.splits intro: append empty)

lemma R_simple:
  assumes "\<And>m a l n. A a \<Longrightarrow> R (sub m a l n)" and "A args"
  shows "R (snd (GetGroupSimple sub g args level nest))"
proof -
  have "R (snd (members_loop (\<lambda>m. map (\<lambda>c. Node c []) (snd (GetDumper m [] args level)))
      (\<lambda>m. sub m args level (nest + 1)) (g_list g)))"
    by (rule R_members) (simp_all add: assms leaves)
  then show ?thesis by (auto simp: GetGroupSimple_def empty intro: group split: prod.splits)
qed

lemma R_index:
  assumes "\<And>m a l n. A a \<Longrightarrow> R (sub m a l n)" and "A args" and "dumperUid cu = uid"
  shows "R (snd (GetGroup_index sub cu g args level nest))"
proof -
  note s = R_simple [of sub, OF assms(1)]
  show ?thesis
    using assms(2,3)
    by (auto simp: GetGroup_index_def Let_def empty intro!: group R_concat s with_pid with_cpu)
qed

lemma R_named: "A args \<Longrightarrow> dumperUid cu = uid \<Longrightarrow> R (snd (group_named cu name args level nest))"
proof (induction cu name args level nest rule: group_named.induct)
  case (1 cu name args level nest)
  show ?case
  proof (cases "nest > NEST_MAX \<or> find_group name = None")
    case True
    then show ?thesis by (subst group_named.simps) (auto simp: empty)
  next
    case False
    then obtain g where n: "\<not> nest > NEST_MAX" and g: "find_group name = Some g" by auto
    define sub where "sub m a l n = (if m \<in> set (mini_members g) then snd (group_named cu m a l n) else [])"
      for m a l n
    have "GetGroup_index (\<lambda>m a l n. snd (group_named cu m a l n)) cu g args level 0
        = GetGroup_index sub cu g args level 0"
      by (rule GetGroup_index_cong) (simp_all add: sub_def)
    moreover have "R (snd (GetGroup_index sub cu g args level 0))"
      by (rule R_index) (simp_all add: sub_def empty 1(1) [OF n g] 1(2,3))
    ultimately show ?thesis using n g by (subst group_named.simps) simp
  qed
qed

end

interpretation chain_tree: tree_property uid "\<lambda>_. True" flat_ok for uid
  by unfold_locales (auto intro: flat_ok_append flat_ok_leaves GetDumper_chain flat_ok_group simp: group_cfg_def)

lemmas group_named_flat_ok = chain_tree.R_named [OF TrueI refl]

section \<open>From trees to the list\<close>

lemma flat_classes_section:
  "map (\<lambda>e. c_class (snd e)) (flat_node n b p (set_section s k t)) = map (\<lambda>e. c_class (snd e)) (flat_node n b p t)"
  "map (\<lambda>e. c_class (snd e)) (flat_list n b p (map (set_section s k) ts)) = map (\<lambda>e. c_class (snd e)) (flat_list n b p ts)"
proof (induction n b p t and n b p ts arbitrary: k and k rule: flat_node_flat_list.induct)
  case (1 nest base parent c ts)
  then show ?case by simp
next
  case (2 nest base parent)
  then show ?case by simp
next
  case (3 nest base parent t ts)
  show ?case
  proof (cases "nest > NEST_MAX")
    case False
    note hd = 3(1) [OF False, of k]
    then have len: "length (flat_node nest base parent (set_section s k t)) = length (flat_node nest base parent t)"
      by (metis length_map)
    note tl = 3(3) [OF False, of k]
    show ?thesis using False hd tl len by simp
  qed simp
qed

lemma add_chain:
  assumes "chain_ok False (work_classes cfgs)"
  shows "chain_ok False (work_classes (add cu args name cfgs))"
proof -
  have leaf: "filter (\<lambda>c. c \<noteq> GROUP) (map c_class cs) = map c_class cs"
    if "chain_ok False (map c_class cs)" for cs
    using chain_no_group [OF that] by (intro filter_True) force
  have "chain_ok False (work_classes (map (\<lambda>c. (None, c)) (snd (GetDumper name [] args NONE))))"
    using GetDumper_chain [of name args NONE] leaf [OF GetDumper_chain [of name args NONE]]
    by (simp add: work_classes_def comp_def)
  moreover have "chain_ok False (work_classes (flat_list 0 (length cfgs) None
      (SetSection (snd (group_named cu name args NONE 0)) (GetSectionName name))))"
    using group_named_flat_ok [of cu name args NONE 0]
    by (simp add: work_classes_def SetSection_def flat_classes_section flat_ok_def)
  ultimately show ?thesis
    using assms
    by (auto simp: add_def GetConfig_def GetGroup_def ConvertTreeToList_def chain_ok_append split: prod.splits)
qed

section \<open>Invariants of the handlers\<close>

text \<open>
  Every handler changes the list through \<open>add\<close> only, with arguments that name no process, and
  keeps the calling user. A predicate on the list that one \<open>add\<close> keeps therefore holds of the
  whole configuration.
\<close>

definition no_pid :: "OptionArgs option \<Rightarrow> bool" where
  "no_pid args \<longleftrightarrow> (\<forall>a. args = Some a \<longrightarrow> \<not> hasPid a)"

lemma no_pid_simps [simp]:
  "no_pid None" "no_pid (Some (SetStrList ls OptionArgs_Create))"
  "no_pid (Some (SetNamesAndArgs ns as OptionArgs_Create))"
  by (simp_all add: no_pid_def SetStrList_def SetNamesAndArgs_def OptionArgs_Create_def)

lemma uid_simps [simp]:
  "dumperUid (clear_pids cu) = dumperUid cu" "dumperUid (MergePidInfos env pid cu) = dumperUid cu"
  "dumperUid (snd (CopySmaps env cu)) = dumperUid cu"
  by (simp_all add: clear_pids_def MergePidInfos_def CopySmaps_def Let_def split: prod.splits option.splits)

lemma uid_MergeDebug: "MergeDebugPidInfos env pid cu = (b, cu') \<Longrightarrow> dumperUid cu' = dumperUid cu"
  by (auto simp: MergeDebugPidInfos_def Let_def split: if_splits prod.splits)

locale list_invariant =
  fixes Q :: "int \<Rightarrow> flat_cfg list \<Rightarrow> bool"
  assumes start: "Q uid []"
    and add_keeps: "Q (dumperUid cu) cfgs \<Longrightarrow> no_pid args \<Longrightarrow> Q (dumperUid cu) (add cu args name cfgs)"
begin

definition keeps :: "(ConfigUtils \<Rightarrow> flat_cfg list \<Rightarrow> handler_result) \<Rightarrow> bool" where
  "keeps h \<longleftrightarrow> (\<forall>cu cfgs. Q (dumperUid cu) cfgs \<longrightarrow>
     dumperUid (fst (snd (h cu cfgs))) = dumperUid cu \<and> Q (dumperUid cu) (snd (snd (h cu cfgs))))"

lemma add_uid:
  "Q uid cfgs \<Longrightarrow> dumperUid cu = uid \<Longrightarrow> no_pid args \<Longrightarrow> Q uid (add cu args name cfgs)"
  using add_keeps by blast

lemma add_fold:
  "Q uid cfgs \<Longrightarrow> dumperUid cu = uid \<Longrightarrow> no_pid args \<Longrightarrow> Q uid (fold (\<lambda>n. add cu args (f n)) names cfgs)"
  by (induction names arbitrary: cfgs) (auto intro: add_uid)

lemma keeps_simple:
  "keeps HandleDumpLog" "keeps HandleDumpList" "keeps HandleDumpService" "keeps HandleDumpAbility"
  "keeps HandleDumpCpuFreq" "keeps (HandleDumpCpuUsage env)" "keeps (HandleDumpMem env)"
  "keeps HandleDumpJsHeapMem" "keeps HandleDumpCjHeapMem" "keeps HandleDumpHeapMem"
  "keeps (HandleDumpMemShowMaps env)" "keeps (HandleDumpStorage env)" "keeps (HandleDumpNet env)"
  "keeps HandleDumpFaultLog" "keeps (HandleDumpAppendix env)" "keeps (HandleDumpIpcStat env)"
  unfolding keeps_def HandleDumpLog_def HandleDumpList_def HandleDumpService_def HandleDumpAbility_def
    HandleDumpCpuFreq_def HandleDumpCpuUsage_def HandleDumpMem_def HandleDumpMemCommon_def
    HandleDumpJsHeapMem_def HandleDumpCjHeapMem_def HandleDumpHeapMem_def HandleDumpMemShowMaps_def
    HandleDumpStorage_def HandleDumpNet_def HandleDumpFaultLog_def HandleDumpAppendix_def
    HandleDumpIpcStat_def Let_def
  by (simp_all add: add_uid add_fold)

lemma keeps_system: "keeps HandleDumpSystem"
  unfolding keeps_def HandleDumpSystem_def Let_def
  using add_fold [where f = "\<lambda>n. n"] by (simp add: add_uid)

lemma keeps_processes: "keeps (HandleDumpProcesses env)"
  unfolding keeps_def
proof (intro allI impI)
  fix cu :: ConfigUtils and cfgs
  assume q: "Q (dumperUid cu) cfgs"
  obtain b cu1 where m: "(if user_mode env then MergeDebugPidInfos env (o_processPid (dumperOpts_ref cu)) (clear_pids cu)
      else (True, MergePidInfos env (o_processPid (dumperOpts_ref cu)) (clear_pids cu))) = (b, cu1)" by fastforce
  then have u: "dumperUid cu1 = dumperUid cu" by (auto dest: uid_MergeDebug split: if_splits)
  show "dumperUid (fst (snd (HandleDumpProcesses env cu cfgs))) = dumperUid cu
      \<and> Q (dumperUid cu) (snd (snd (HandleDumpProcesses env cu cfgs)))"
    unfolding HandleDumpProcesses_def Let_def m
    using q u by (cases b) (simp_all add: add_uid split: option.splits)
qed

lemma keeps_fold:
  "list_all keeps hs \<Longrightarrow> Q (dumperUid cu) cfgs
    \<Longrightarrow> Q (dumperUid cu) (snd (fold (\<lambda>h (c, cfgs). snd (h c cfgs)) hs (cu, cfgs)))"
proof (induction hs arbitrary: cu cfgs)
  case Nil
  then show ?case by simp
next
  case (Cons h hs)
  obtain cu1 cfgs1 where h: "snd (h cu cfgs) = (cu1, cfgs1)" by fastforce
  have "keeps h" using Cons.prems(1) by simp
  then have k: "dumperUid cu1 = dumperUid cu" "Q (dumperUid cu1) cfgs1"
    using Cons.prems(2) h unfolding keeps_def by (metis fst_conv, metis fst_conv snd_conv)
  from Cons.IH [OF _ k(2)] Cons.prems(1) show ?case by (simp add: h k(1))
qed

lemma GetDumperConfigs_keeps: "Q (dumperUid cu) (snd (snd (GetDumperConfigs env cu)))"
proof -
  have "list_all keeps (handlers env)"
    by (simp add: handlers_def keeps_simple keeps_system keeps_processes)
  from keeps_fold [OF this, of "clear_pids (cu\<lparr>cpuInfos := cpuInfos cu @ cpu_infos env\<rparr>)" "[]"]
  show ?thesis by (simp add: GetDumperConfigs_def Let_def start)
qed

end

interpretation chains: list_invariant "\<lambda>_ cfgs. chain_ok False (work_classes cfgs)"
  by unfold_locales (simp_all add: work_classes_def add_chain [unfolded work_classes_def])

section \<open>Which processes a configuration names\<close>

text \<open>
  System users see every process, an application (user id 10000 and above) sees its own only.
\<close>

definition may_see :: "int \<Rightarrow> int \<Rightarrow> bool" where
  "may_see uid u \<longleftrightarrow> uid < 10000 \<or> u = uid"

definition args_ok :: "int \<Rightarrow> OptionArgs option \<Rightarrow> bool" where
  "args_ok uid args \<longleftrightarrow> (\<forall>a. args = Some a \<longrightarrow> hasPid a \<longrightarrow> may_see uid (a_uid a))"

fun nodes :: "cfg_tree \<Rightarrow> DumpCfg list" where
  "nodes (Node c ts) = c # concat (map nodes ts)"

definition trees_ok :: "int \<Rightarrow> cfg_tree list \<Rightarrow> bool" where
  "trees_ok uid ts \<longleftrightarrow> (\<forall>t \<in> set ts. \<forall>c \<in> set (nodes t). args_ok uid (c_args c))"

lemma GetDumper_args: "c \<in> set (snd (GetDumper m [] args level)) \<Longrightarrow> c_args c = None \<or> c_args c = args"
  by (auto simp: GetDumper_def GetDumper_index_def Let_def item_to_cfg_def DumpCfg_Create_def split: if_splits)

lemma args_ok_None [simp]: "args_ok uid None"
  by (simp add: args_ok_def)

lemma level_may_see: "GetDumpLevelByPid uid p \<noteq> LEVEL_NONE \<Longrightarrow> may_see uid (p_uid p)"
  by (auto simp: GetDumpLevelByPid_def may_see_def split: if_splits)

lemma Clone_hasPid: "hasPid (OptionArgs_Clone args) \<Longrightarrow> \<exists>a. args = Some a \<and> OptionArgs_Clone args = a"
  by (cases args) (simp_all add: OptionArgs_Clone_def OptionArgs_Create_def)

interpretation args_tree: tree_property uid "args_ok uid" "trees_ok uid" for uid
proof
  show "trees_ok uid []" by (simp add: trees_ok_def)
  show "trees_ok uid xs \<Longrightarrow> trees_ok uid ys \<Longrightarrow> trees_ok uid (xs @ ys)" for xs ys
    by (auto simp: trees_ok_def)
  show "trees_ok uid ts \<Longrightarrow> trees_ok uid [Node (group_cfg g) ts]" for ts g
    by (auto simp: trees_ok_def group_cfg_def DumpCfg_Create_def)
  show "args_ok uid args \<Longrightarrow> trees_ok uid (map (\<lambda>c. Node c []) (snd (GetDumper m [] args level)))"
    for args m level
    using GetDumper_args by (auto simp: trees_ok_def) (metis args_ok_None)
  show "GetDumpLevelByPid uid p \<noteq> LEVEL_NONE
      \<Longrightarrow> args_ok uid (Some (SetPid (p_pid p) (p_uid p) (OptionArgs_Clone args)))" for args p
    using level_may_see by (simp add: args_ok_def SetPid_def)
  show "args_ok uid args \<Longrightarrow> args_ok uid (Some (SetCpuId cpu (OptionArgs_Clone args)))" for args cpu
    using Clone_hasPid [of args] by (auto simp: args_ok_def SetCpuId_def)
qed

lemma nodes_section: "c_args ` set (nodes (set_section s k t)) = c_args ` set (nodes t)"
  by (induction s k t rule: set_section.induct) (auto simp: image_UN)

lemma flat_nodes:
  "snd ` set (flat_node n b p t) \<subseteq> set (nodes t)"
  "snd ` set (flat_list n b p ts) \<subseteq> (\<Union>t \<in> set ts. set (nodes t))"
  by (induction n b p t and n b p ts rule: flat_node_flat_list.induct) auto

definition cfgs_args_ok :: "int \<Rightarrow> flat_cfg list \<Rightarrow> bool" where
  "cfgs_args_ok uid cfgs \<longleftrightarrow> list_all (\<lambda>e. args_ok uid (c_args (snd e))) cfgs"

lemma flat_args_ok:
  assumes "trees_ok uid ts"
  shows "cfgs_args_ok uid (flat_list n b p (SetSection ts s))"
  unfolding cfgs_args_ok_def list_all_iff
proof
  fix e assume "e \<in> set (flat_list n b p (SetSection ts s))"
  then have "snd e \<in> (\<Union>t \<in> set (SetSection ts s). set (nodes t))"
    using flat_nodes(2) [of n b p "SetSection ts s"] by blast
  then obtain t where t: "t \<in> set ts" "snd e \<in> set (nodes (set_section s 0 t))"
    by (auto simp: SetSection_def)
  have "c_args (snd e) \<in> c_args ` set (nodes t)"
    using imageI [OF t(2), of c_args] unfolding nodes_section .
  with t(1) assms show "args_ok uid (c_args (snd e))" by (auto simp: trees_ok_def)
qed

lemma no_pid_args_ok: "no_pid args \<Longrightarrow> args_ok uid args"
  by (simp add: no_pid_def args_ok_def)

interpretation permitted: list_invariant cfgs_args_ok
proof
  show "cfgs_args_ok uid []" for uid by (simp add: cfgs_args_ok_def)
next
  fix cu :: ConfigUtils and cfgs args name
  assume c: "cfgs_args_ok (dumperUid cu) cfgs" and a: "no_pid args"
  have "args_ok (dumperUid cu) (c_args x)" if "x \<in> set (snd (GetDumper name [] args NONE))" for x
    using GetDumper_args [OF that] no_pid_args_ok [OF a] by auto
  then have d: "cfgs_args_ok (dumperUid cu) (map (\<lambda>c. (None, c)) (snd (GetDumper name [] args NONE)))"
    by (simp add: cfgs_args_ok_def list_all_iff)
  have g: "cfgs_args_ok (dumperUid cu) (flat_list 0 (length cfgs) None
      (SetSection (snd (group_named cu name args NONE 0)) (GetSectionName name)))"
    by (rule flat_args_ok [OF args_tree.R_named [OF no_pid_args_ok [OF a] refl]])
  show "cfgs_args_ok (dumperUid cu) (add cu args name cfgs)"
    using c d g
    by (auto simp: add_def GetConfig_def GetGroup_def ConvertTreeToList_def cfgs_args_ok_def split: prod.splits)
qed

section \<open>Parents\<close>

definition parents_ok :: "flat_cfg list \<Rightarrow> bool" where
  "parents_ok cfgs \<longleftrightarrow> (\<forall>i < length cfgs. \<forall>j. fst (cfgs ! i) = Some j \<longrightarrow> j < i \<and> c_class (snd (cfgs ! j)) = GROUP)"

text \<open>Only group nodes have children.\<close>

fun shape_ok :: "cfg_tree \<Rightarrow> bool" where
  "shape_ok (Node c ts) \<longleftrightarrow> (ts \<noteq> [] \<longrightarrow> c_class c = GROUP) \<and> list_all shape_ok ts"

interpretation shape_tree: tree_property uid "\<lambda>_. True" "list_all shape_ok" for uid
  by unfold_locales (auto simp: group_cfg_def list_all_iff)

lemma shape_section: "shape_ok t \<Longrightarrow> shape_ok (set_section s k t)"
  by (induction s k t rule: set_section.induct) (auto simp: list_all_iff IsDumper_def)

lemma parents_ok_snoc:
  assumes "parents_ok L" and "\<And>j. p = Some j \<Longrightarrow> j < length L \<and> c_class (snd (L ! j)) = GROUP"
  shows "parents_ok (L @ [(p, c)])"
  using assms by (auto simp: parents_ok_def nth_append less_Suc_eq)

lemma flat_parents:
  "parents_ok L \<Longrightarrow> length L = b \<Longrightarrow> shape_ok t
    \<Longrightarrow> (\<And>j. p = Some j \<Longrightarrow> j < length L \<and> c_class (snd (L ! j)) = GROUP)
    \<Longrightarrow> parents_ok (L @ flat_node n b p t)"
  "parents_ok L \<Longrightarrow> length L = b \<Longrightarrow> list_all shape_ok ts
    \<Longrightarrow> (\<And>j. p = Some j \<Longrightarrow> j < length L \<and> c_class (snd (L ! j)) = GROUP)
    \<Longrightarrow> parents_ok (L @ flat_list n b p ts)"
proof (induction n b p t and n b p ts arbitrary: L and L rule: flat_node_flat_list.induct)
  case (1 nest base parent c ts)
  have snoc: "parents_ok (L @ [(parent, c)])" using 1(2,5) by (rule parents_ok_snoc)
  show ?case
  proof (cases "ts = []")
    case True
    with snoc show ?thesis by simp
  next
    case False
    have "parents_ok ((L @ [(parent, c)]) @ flat_list (nest + 1) (Suc base) (Some base) ts)"
      using snoc False 1(3,4) by (intro 1(1)) (auto simp: nth_append)
    then show ?thesis by simp
  qed
next
  case (2 nest base parent)
  then show ?case by simp
next
  case (3 nest base parent t ts)
  show ?case
  proof (cases "nest > NEST_MAX")
    case True
    with 3 show ?thesis by simp
  next
    case False
    have hd: "parents_ok (L @ flat_node nest base parent t)"
      using 3(1) [OF False, of L] 3(4-7) by simp
    have "parents_ok ((L @ flat_node nest base parent t)
        @ flat_list nest (base + length (flat_node nest base parent t)) parent ts)"
      using 3(5-7) hd by (intro 3(3) [OF False]) (auto simp: nth_append)
    with False show ?thesis by simp
  qed
qed

interpretation parents: list_invariant "\<lambda>_. parents_ok"
proof
  show "parents_ok []" by (simp add: parents_ok_def)
next
  fix cu :: ConfigUtils and cfgs args name
  assume c: "parents_ok cfgs"
  have d: "parents_ok (cfgs @ map (\<lambda>c. (None, c)) xs)" for xs
    using c by (auto simp: parents_ok_def nth_append)
  have "list_all shape_ok (snd (group_named cu name args NONE 0))"
    by (rule shape_tree.R_named [OF TrueI refl])
  then have "list_all shape_ok (SetSection (snd (group_named cu name args NONE 0)) (GetSectionName name))"
    by (simp add: SetSection_def list_all_iff shape_section)
  from flat_parents(2) [OF c refl this, of None 0]
  have "parents_ok (cfgs @ flat_list 0 (length cfgs) None
      (SetSection (snd (group_named cu name args NONE 0)) (GetSectionName name)))" by simp
  with c d show "parents_ok (add cu args name cfgs)"
    by (auto simp: add_def GetConfig_def GetGroup_def ConvertTreeToList_def split: prod.splits)
qed

end
