(* ===== verification/Config_Properties.thy ===== *)
theory Config_Properties
  imports Config_Facts
begin

text \<open>
  The correctness properties of the options and of the configuration reader, with their witnesses.
\<close>

section \<open>Example request\<close>

definition demo_pid :: "int \<Rightarrow> int \<Rightarrow> PidInfo" where
  "demo_pid pid uid = PidInfo_Reset\<lparr>p_pid := pid, p_uid := uid, p_name := ''app''\<rparr>"

definition demo_env :: proc_env where
  "demo_env = \<lparr>cpu_infos = [0, 1], pid_infos = [demo_pid 10 20010, demo_pid 11 20011],
     process_info = \<lambda>pid. (True, demo_pid pid 20010), app_debug = \<lambda>_. True, user_mode = False,
     client_folder = Some ''/data/log/hidumper/'', canceled_at = \<lambda>_. False\<rparr>"

abbreviation default_opts :: DumperOpts where
  "default_opts \<equiv> Reset DumperOpts_zero"

section \<open>The list handed to the executor\<close>

text \<open>
  C18. Whatever the options, the caller and the state of the device are, the configuration of a request
  is a sequence of complete chains: a dumper, its filters, and one output, with group entries only
  between the chains. So nothing that is collected is left without an output and no filter or
  output runs without a dumper.
\<close>

theorem configuration_chains:
  "chain_ok False (work_classes (snd (snd (GetDumperConfigs env cu))))"
  by (rule chains.GetDumperConfigs_keeps)

text \<open>
  C19. A configuration made for an application (user id 10000 and above) names processes of that user
  only: every entry that carries a process id carries the caller's user id.
\<close>

theorem configuration_permitted:
  assumes "10000 \<le> uid" and "(p, c) \<in> set (snd (snd (GetDumperConfigs env (ConfigUtils_new uid opts))))"
    and "c_args c = Some a" and "hasPid a"
  shows "a_uid a = uid"
proof -
  have "cfgs_args_ok uid (snd (snd (GetDumperConfigs env (ConfigUtils_new uid opts))))"
    using permitted.GetDumperConfigs_keeps [of "ConfigUtils_new uid opts" env] by (simp add: ConfigUtils_new_def)
  with assms show ?thesis by (force simp: cfgs_args_ok_def list_all_iff args_ok_def may_see_def)
qed

definition demo_cpu_request :: "flat_cfg list" where
  "demo_cpu_request =
    snd (snd (GetDumperConfigs demo_env (ConfigUtils_new 20010 (default_opts\<lparr>o_isDumpCpuUsage := True, o_cpuUsagePid := 10\<rparr>))))"

theorem configuration_permitted_witness:
  "(case demo_cpu_request ! 1 of (p, c) \<Rightarrow> (case c_args c of None \<Rightarrow> False | Some a \<Rightarrow> hasPid a \<and> a_uid a = 20010))"
proof -
  have "1 < length demo_cpu_request" by code_simp
  then have m: "demo_cpu_request ! 1 \<in> set demo_cpu_request" by simp
  have "case demo_cpu_request ! 1 of (p, c) \<Rightarrow> (case c_args c of None \<Rightarrow> False | Some a \<Rightarrow> hasPid a)" by code_simp
  then obtain p c a where e: "demo_cpu_request ! 1 = (p, c)" "c_args c = Some a" "hasPid a"
    by (auto split: prod.splits option.splits)
  have "a_uid a = 20010"
    using configuration_permitted [of 20010 p c demo_env _ a] m e by (simp add: demo_cpu_request_def)
  with e show ?thesis by simp
qed

text \<open>
  C20. The parent of an entry is an entry before it, and it is a group.
\<close>

theorem configuration_parents:
  assumes "i < length (snd (snd (GetDumperConfigs env cu)))"
    and "fst (snd (snd (GetDumperConfigs env cu)) ! i) = Some j"
  shows "j < i \<and> c_class (snd (snd (snd (GetDumperConfigs env cu)) ! j)) = GROUP"
  using parents.GetDumperConfigs_keeps [of env cu] assms by (simp add: parents_ok_def)

theorem configuration_parents_witness:
  "c_class (snd (demo_cpu_request ! 0)) = GROUP \<and> fst (demo_cpu_request ! 1) = Some 0"
proof -
  have "1 < length demo_cpu_request" "fst (demo_cpu_request ! 1) = Some 0" by code_simp+
  with configuration_parents [of 1 demo_env _ 0] show ?thesis by (simp add: demo_cpu_request_def)
qed




text \<open>
  C23. \<open>CopySmaps\<close> copies the maps of permitted processes only, into a folder of the client's folder
  named after the process.
\<close>

lemma copy_loop_permitted:
  "(src, des) \<in> set (copy_loop canceled uid folder n ps) \<Longrightarrow>
    \<exists>p \<in> set ps. may_see uid (p_uid p) \<and> src = ''/proc/'' @ to_string (p_pid p) @ ''/smaps''
      \<and> des = folder @ ''smaps/'' @ p_name p @ ''-'' @ to_string (p_pid p) @ ''/smaps''"
proof (induction ps arbitrary: n)
  case Nil
  then show ?case by simp
next
  case (Cons p ps)
  show ?case
  proof (cases "GetDumpLevelByPid uid p = LEVEL_NONE")
    case True
    with Cons show ?thesis by force
  next
    case False
    with Cons level_may_see [OF False] show ?thesis
      by (auto simp: Let_def split: if_splits)
  qed
qed

theorem CopySmaps_permitted:
  assumes "client_folder env = Some folder" and "copiedFiles cu = []"
    and "(src, des) \<in> set (copiedFiles (snd (CopySmaps env cu)))"
  shows "\<exists>p \<in> set (currentPidInfos cu). may_see (dumperUid cu) (p_uid p)
    \<and> src = ''/proc/'' @ to_string (p_pid p) @ ''/smaps''
    \<and> des = folder @ ''smaps/'' @ p_name p @ ''-'' @ to_string (p_pid p) @ ''/smaps''"
  using assms copy_loop_permitted by (simp add: CopySmaps_def)

theorem CopySmaps_permitted_witness:
  "\<exists>p \<in> {demo_pid 10 20010, demo_pid 11 20011}. may_see 20010 (p_uid p) \<and>
     copiedFiles (snd (CopySmaps demo_env ((ConfigUtils_new 20010 default_opts)
       \<lparr>currentPidInfos := [demo_pid 10 20010, demo_pid 11 20011]\<rparr>)))
     = [(''/proc/'' @ to_string (p_pid p) @ ''/smaps'', ''/data/log/hidumper/smaps/app-10/smaps'')]"
proof -
  let ?cu = "(ConfigUtils_new 20010 default_opts)\<lparr>currentPidInfos := [demo_pid 10 20010, demo_pid 11 20011]\<rparr>"
  have c: "copiedFiles (snd (CopySmaps demo_env ?cu))
      = [(''/proc/10/smaps'', ''/data/log/hidumper/smaps/app-10/smaps'')]" by code_simp
  have "client_folder demo_env = Some ''/data/log/hidumper/''" by (simp add: demo_env_def)
  from CopySmaps_permitted [OF this, of ?cu "''/proc/10/smaps''" "''/data/log/hidumper/smaps/app-10/smaps''"] c
  show ?thesis by (auto simp: ConfigUtils_new_def)
qed

section \<open>Options\<close>

text \<open>
  Assigning options copies every field: the target becomes equal to the source, whatever it held.
\<close>

theorem assignment_copies_all: "assign_opts opts this = opts"
  by (rule assign_opts_copies)

text \<open>
  Assigning an options object to itself clears it: the operator resets the target first and then
  reads the fields it has cleared.
\<close>

theorem self_assignment_clears: "assign_opts_self this = Reset this"
  by (simp add: assign_opts_self_def assign_defs Reset_def reset_defs Let_def)

text \<open>
  \<open>Reset\<close> determines every field, selects nothing, asks for no archive and passes the range checks,
  and \<open>AddSelectAll\<close> selects something.
\<close>

theorem Reset_default:
  "Reset a = Reset b \<and> \<not> IsSelectAny (Reset a) \<and> \<not> IsDumpZip (Reset a)
   \<and> CheckRemainingOptions (Reset a) = None \<and> IsSelectAny (AddSelectAll a)"
proof (intro conjI)
  show "Reset a = Reset b" by (rule Reset_forgets)
  show "\<not> IsSelectAny (Reset a)" by (rule IsSelectAny_Reset)
  show "\<not> IsDumpZip (Reset a)" by (simp add: IsDumpZip_def StartWith_def Reset_def reset_defs)
  show "CheckRemainingOptions (Reset a) = None" by (simp add: CheckRemainingOptions_def Reset_def reset_defs)
  show "IsSelectAny (AddSelectAll a)" by (simp add: IsSelectAny_def AddSelectAll_def)
qed

text \<open>
  Four dumper classes that the tables use have no name in \<open>ToStr\<close>; every other dumper class, every
  filter, output and level class has one.
\<close>

theorem unnamed_dumper_classes:
  "filter (\<lambda>c. IsDumper c \<and> ToStr c = ''unknown_dumper'') [0..43]
     = [HEAP_MEMORY_DUMPER, EVENT_DETAIL_DUMPER, EVENT_LIST_DUMPER, FD_THREAD_DUMPER]
   \<and> filter (\<lambda>c. IsFilter c \<and> ToStr c = ''unknown_filter'' \<or> IsOutput c \<and> ToStr c = ''unknown_output''
       \<or> IsLevel c \<and> ToStr c = ''level_unknown'') [0..43] = []"
  by code_simp

end
