(* ===== verification/Dump_Utils.thy ===== *)
theory Dump_Utils
  imports Dumper_Opts
begin

text \<open>
  \<^verbatim>\<open>src/frameworks/native/dump_utils.cpp\<close>: the names of the system abilities, and the questions
  the permission checks ask about a process and its application.

  The numbers of the system abilities come from a header of another part of the system; a key of
  the table is a literal number or the name of such a constant, and the valuation of the constants
  is a parameter. What the device answers is the record \<open>dev_env\<close>.
\<close>

section \<open>System ability names\<close>

datatype sa_key = SaNum int | SaConst string

fun sa_value :: "(string \<Rightarrow> int) \<Rightarrow> sa_key \<Rightarrow> int" where
  "sa_value val (SaNum n) = n"
| "sa_value val (SaConst c) = val c"

definition sa_names :: "(sa_key \<times> string) list" where
  "sa_names = [
    (SaNum 0, ''SystemAbilityManager''),
    (SaNum 200, ''AccountMgr''),
    (SaNum 301, ''AIEngine''),
    (SaConst ''ABILITY_MGR_SERVICE_ID'', ''AbilityManagerService''),
    (SaConst ''AGENT_MGR_SERVICE_ID'', ''AgentManagerService''),
    (SaConst ''CLI_TOOL_MGR_SERVICE_ID'', ''CliToolManagerService''),
    (SaConst ''DATAOBS_MGR_SERVICE_SA_ID'', ''DataObserverMgr''),
    (SaConst ''APP_MGR_SERVICE_ID'', ''ApplicationManagerService''),
    (SaConst ''URI_PERMISSION_MGR_SERVICE_ID'', ''UriPermissionMgr''),
    (SaConst ''QUICK_FIX_MGR_SERVICE_ID'', ''QuickFixMgrService''),
    (SaConst ''BUNDLE_MGR_SERVICE_SYS_ABILITY_ID'', ''BundleMgr''),
    (SaConst ''SERVICE_ROUTER_MGR_SERVICE_ID'', ''ServiceRouterMgr''),
    (SaConst ''INSTALLD_SERVICE_ID'', ''Installd''),
    (SaConst ''FORM_MGR_SERVICE_ID'', ''FormMgr''),
    (SaConst ''WIFI_DEVICE_SYS_ABILITY_ID'', ''WifiDevice''),
    (SaConst ''WIFI_HOTSPOT_SYS_ABILITY_ID'', ''WifiHotspot''),
    (SaConst ''WIFI_ENHANCER_SYS_ABILITY_ID'', ''WifiEnhancer''),
    (SaConst ''WIFI_P2P_SYS_ABILITY_ID'', ''WifiP2p''),
    (SaConst ''WIFI_SCAN_SYS_ABILITY_ID'', ''WifiScan''),
    (SaConst ''BLUETOOTH_HOST_SYS_ABILITY_ID'', ''BluetoothHost''),
    (SaConst ''NFC_MANAGER_SYS_ABILITY_ID'', ''NfcManager''),
    (SaConst ''SE_MANAGER_SYS_ABILITY_ID'', ''SeManager''),
    (SaConst ''NET_MANAGER_SYS_ABILITY_ID'', ''NetManager''),
    (SaConst ''DISTRIBUTED_KV_DATA_SERVICE_ABILITY_ID'', ''DistributedKvData''),
    (SaConst ''DISTRIBUTED_SCHED_SA_ID'', ''DistributedSched''),
    (SaConst ''DISTRIBUTED_SCHED_ADAPTER_SA_ID'', ''DistributedSchedAdapter''),
    (SaConst ''DISTRIBUTED_SCENARIO_MGR_SA_ID'', ''DistributedScenarioMgr''),
    (SaConst ''CONTINUATION_MANAGER_SA_ID'', ''ContinuationManagerService''),
    (SaConst ''RES_SCHED_SYS_ABILITY_ID'', ''ResourceSched''),
    (SaConst ''RESSCHEDD_SA_ID'', ''ResourceSchedDamon''),
    (SaConst ''BACKGROUND_TASK_MANAGER_SERVICE_ID'', ''BackgroundTaskManager''),
    (SaConst ''WORK_SCHEDULE_SERVICE_ID'', ''WorkSchedule''),
    (SaConst ''CONCURRENT_TASK_SERVICE_ID'', ''ConcurrentTaskService''),
    (SaConst ''RESOURCE_QUOTA_CONTROL_SYSTEM_ABILITY_ID'', ''ResourceQuotaControl''),
    (SaConst ''DEVICE_STANDBY_SERVICE_SYSTEM_ABILITY_ID'', ''DeviceStandbyService''),
    (SaConst ''TASK_HEARTBEAT_MGR_SYSTEM_ABILITY_ID'', ''TaskHeartbeatMgrService''),
    (SaConst ''COMPONENT_SCHEDULE_SERVICE_ID'', ''ComponentSchedServer''),
    (SaConst ''SOC_PERF_SERVICE_SA_ID'', ''SocPerfService''),
    (SaConst ''SUSPEND_MANAGER_SYSTEM_ABILITY_ID'', ''SuspendManager''),
    (SaConst ''APP_NAP_SYSTEM_ABILITY_ID'', ''AppNap''),
    (SaConst ''ABNORMAL_EFFICIENCY_MGR_SYSTEM_ABILITY_ID'', ''AbnormalEfficiencyManager''),
    (SaConst ''LOCATION_GEO_CONVERT_SA_ID'', ''LocationGeoConvert''),
    (SaConst ''LOCATION_LOCATOR_SA_ID'', ''LocationLocator''),
    (SaConst ''LOCATION_GNSS_SA_ID'', ''LocationGnss''),
    (SaConst ''LOCATION_NETWORK_LOCATING_SA_ID'', ''LocationNetworkLocating''),
    (SaConst ''LOCATION_NOPOWER_LOCATING_SA_ID'', ''LocationNopowerLocating''),
    (SaConst ''AUDIO_DISTRIBUTED_SERVICE_ID'', ''AudioDistributed''),
    (SaConst ''COMMON_EVENT_SERVICE_ABILITY_ID'', ''CommonEventService''),
    (SaConst ''ADVANCED_NOTIFICATION_SERVICE_ABILITY_ID'', ''DistributedNotificationService''),
    (SaConst ''REMINDER_AGENT_SERVICE_ABILITY_ID'', ''ReminderAgentService''),
    (SaConst ''COMMON_EVENT_SERVICE_ID'', ''CommonEventService''),
    (SaConst ''POWER_MANAGER_SERVICE_ID'', ''PowerManagerService''),
    (SaConst ''POWER_MANAGER_BATT_SERVICE_ID'', ''BatteryService''),
    (SaConst ''POWER_MANAGER_BATT_STATS_SERVICE_ID'', ''BatteryStatisticsService''),
    (SaConst ''POWER_MANAGER_THERMAL_SERVICE_ID'', ''ThermalService''),
    (SaConst ''DISPLAY_MANAGER_SERVICE_ID'', ''DisplayPowerManagerService''),
    (SaNum 3502, ''DpmsService''),
    (SaNum 3510, ''KeystoreService''),
    (SaConst ''DEVICE_SECURITY_LEVEL_MANAGER_SA_ID'', ''DslmService''),
    (SaConst ''CERT_MANAGER_SERVICE_SA_ID'', ''CertManagerService''),
    (SaConst ''DEVICE_THREAT_DETECTION_SERVICE_SA_ID'', ''DeviceThreatDetectionService''),
    (SaConst ''SENSOR_SERVICE_ABILITY_ID'', ''SensorService''),
    (SaConst ''MISCDEVICE_SERVICE_ABILITY_ID'', ''MiscDeviceService''),
    (SaConst ''PASTEBOARD_SERVICE_ID'', ''PasteboardService''),
    (SaConst ''SCREENLOCK_SERVICE_ID'', ''ScreenlockService''),
    (SaConst ''WALLPAPER_MANAGER_SERVICE_ID'', ''WallpaperManagerService''),
    (SaConst ''PRINT_SERVICE_ID'', ''PrintFramework''),
    (SaConst ''SCAN_SERVICE_ID'', ''ScanFramework''),
    (SaConst ''TELEPHONY_SYS_ABILITY_ID'', ''Telephony''),
    (SaConst ''DCALL_SYS_ABILITY_ID'', ''DistributedCallMgr''),
    (SaConst ''TELEPHONY_CALL_MANAGER_SYS_ABILITY_ID'', ''TelephonyCallManager''),
    (SaConst ''TELEPHONY_CELLULAR_CALL_SYS_ABILITY_ID'', ''TelephonyCellularCall''),
    (SaConst ''TELEPHONY_CELLULAR_DATA_SYS_ABILITY_ID'', ''TelephonyCellularData''),
    (SaConst ''TELEPHONY_SMS_MMS_SYS_ABILITY_ID'', ''TelephonySmsMms''),
    (SaConst ''TELEPHONY_STATE_REGISTRY_SYS_ABILITY_ID'', ''TelephonyStateRegistry''),
    (SaConst ''TELEPHONY_CORE_SERVICE_SYS_ABILITY_ID'', ''TelephonyCoreService''),
    (SaConst ''TELEPHONY_DATA_STORAGE_SYS_ABILITY_ID'', ''TelephonyDataStorage''),
    (SaConst ''TELEPHONY_IMS_SYS_ABILITY_ID'', ''TelephonyIms''),
    (SaConst ''DISTRIBUTED_HARDWARE_DEVICEMANAGER_SA_ID'', ''DeviceManagerService''),
    (SaConst ''DISTRIBUTED_HARDWARE_SA_ID'', ''DistributedHardwareFramework''),
    (SaConst ''DISTRIBUTED_HARDWARE_CAMERA_SOURCE_SA_ID'', ''DistributedCameraSourceService''),
    (SaConst ''DISTRIBUTED_HARDWARE_CAMERA_SINK_SA_ID'', ''DistributedCameraSinkService''),
    (SaConst ''DISTRIBUTED_HARDWARE_AUDIO_SOURCE_SA_ID'', ''DistributedAudioSourceService''),
    (SaConst ''DISTRIBUTED_HARDWARE_AUDIO_SINK_SA_ID'', ''DistributedAudioSinkService''),
    (SaConst ''DISTRIBUTED_HARDWARE_SCREEN_SOURCE_SA_ID'', ''DistributedScreenSourceService''),
    (SaConst ''DISTRIBUTED_HARDWARE_SCREEN_SINK_SA_ID'', ''DistributedScreenSinkService''),
    (SaConst ''DISTRIBUTED_HARDWARE_INPUT_SOURCE_SA_ID'', ''DistributedInputSourceService''),
    (SaConst ''DISTRIBUTED_HARDWARE_INPUT_SINK_SA_ID'', ''DistributedInputSinkService''),
    (SaConst ''INPUT_METHOD_SYSTEM_ABILITY_ID'', ''InputMethodService''),
    (SaConst ''MEDICAL_SENSOR_SERVICE_ABILITY_ID'', ''MedicalSensorService''),
    (SaConst ''USB_SYSTEM_ABILITY_ID'', ''UsbService''),
    (SaConst ''SERIAL_SYSTEM_ABILITY_ID'', ''SerialService''),
    (SaConst ''STORAGE_MANAGER_DAEMON_ID'', ''StorageDaemon''),
    (SaConst ''STORAGE_MANAGER_MANAGER_ID'', ''StorageManager''),
    (SaConst ''FILEMANAGEMENT_DISTRIBUTED_FILE_DAEMON_SA_ID'', ''DistributedFileDaemon''),
    (SaConst ''FILEMANAGEMENT_CLOUD_SYNC_SERVICE_SA_ID'', ''CloudFileSyncService''),
    (SaConst ''FILEMANAGEMENT_CLOUD_DAEMON_SERVICE_SA_ID'', ''CloudFileDaemonService''),
    (SaConst ''DEVICE_SERVICE_MANAGER_SA_ID'', ''HdfDeviceServiceManager''),
    (SaConst ''HDF_EXTERNAL_DEVICE_MANAGER_SA_ID'', ''HdfExternalDeviceManager''),
    (SaConst ''DISTRIBUTED_DEVICE_PROFILE_SA_ID'', ''DistributedDeviceProfile''),
    (SaConst ''WINDOW_MANAGER_SERVICE_ID'', ''WindowManagerService''),
    (SaConst ''DISPLAY_MANAGER_SERVICE_SA_ID'', ''DisplayManagerService''),
    (SaConst ''SOFTBUS_SERVER_SA_ID'', ''DSoftbus''),
    (SaConst ''DEVICE_AUTH_SERVICE_ID'', ''DeviceAuthService''),
    (SaConst ''WINDOW_MANAGER_ID'', ''WindowManager''),
    (SaConst ''VSYNC_MANAGER_ID'', ''VsyncManager''),
    (SaConst ''VSYNC_MANAGER_TEST_ID'', ''VsyncManagerTest''),
    (SaConst ''GRAPHIC_DUMPER_SERVICE_SA_ID'', ''GraphicDumperService''),
    (SaConst ''GRAPHIC_DUMPER_COMMAND_SA_ID'', ''GraphicDumperCommand''),
    (SaConst ''ANIMATION_SERVER_SA_ID'', ''AnimationServer''),
    (SaConst ''CA_DAEMON_ID'', ''CaDaemon''),
    (SaConst ''ACCESSIBILITY_MANAGER_SERVICE_ID'', ''AccessibilityManagerService''),
    (SaConst ''DEVICE_USAGE_STATISTICS_SYS_ABILITY_ID'', ''DeviceUsageStatistics''),
    (SaConst ''MEMORY_MANAGER_SA_ID'', ''MemoryManagerService''),
    (SaConst ''AVSESSION_SERVICE_ID'', ''AVSessionService''),
    (SaConst ''SYS_INSTALLER_DISTRIBUTED_SERVICE_ID'', ''SysInstallerService''),
    (SaConst ''MODULE_UPDATE_SERVICE_ID'', ''ModuleUpdateService''),
    (SaConst ''SUBSYS_ACE_SYS_ABILITY_ID_BEGIN'', ''UiService''),
    (SaConst ''ARKUI_UI_APPEARANCE_SERVICE_ID'', ''UiAppearanceService''),
    (SaConst ''SUBSYS_USERIAM_SYS_ABILITY_USERIDM'', ''UserIdmService''),
    (SaConst ''SUBSYS_USERIAM_SYS_ABILITY_AUTHEXECUTORMGR'', ''AuthExecutorMgrService''),
    (SaConst ''RENDER_SERVICE'', ''RenderService''),
    (SaConst ''ACCESS_TOKEN_MANAGER_SERVICE_ID'', ''AccessTokenManagerService''),
    (SaConst ''TOKEN_SYNC_MANAGER_SERVICE_ID'', ''TokenSyncManagerService''),
    (SaConst ''SANDBOX_MANAGER_SERVICE_ID'', ''SandboxManagerService''),
    (SaConst ''DLP_PERMISSION_SERVICE_ID'', ''DlpPermissionService''),
    (SaConst ''RISK_ANALYSIS_MANAGER_SA_ID'', ''RiskAnalysisManagerService''),
    (SaConst ''DATA_COLLECT_MANAGER_SA_ID'', ''DataCollectManagerService''),
    (SaConst ''MSDP_DEVICESTATUS_SERVICE_ID'', ''DeviceStatusService''),
    (SaConst ''MULTIMODAL_INPUT_SERVICE_ID'', ''MultimodalInput''),
    (SaConst ''DFX_SYS_HIVIEW_ABILITY_ID'', ''HiviewService''),
    (SaConst ''PRIVACY_MANAGER_SERVICE_ID'', ''PrivacyManagerService''),
    (SaConst ''DFX_FAULT_LOGGER_ABILITY_ID'', ''HiviewFaultLogger''),
    (SaConst ''DFX_SYS_EVENT_SERVICE_ABILITY_ID'', ''HiviewSysEventService''),
    (SaConst ''DFX_SYS_NATIVE_MEMORY_PROFILER_SERVICE_ABILITY_ID'', ''HiviewSysNativeMemoryProfilerService''),
    (SaConst ''XPERF_SYS_TRACE_SERVICE_ABILITY_ID'', ''XperfTraceService''),
    (SaConst ''XPERF_SYS_IO_SERVICE_ABILITY_ID'', ''XperfIoService''),
    (SaConst ''XPERF_BIGDATA_MANAGER_SERVICE_ABILITY_ID'', ''XperfBigDataManagerService''),
    (SaConst ''DFX_HI_DUMPER_SERVICE_ABILITY_ID'', ''HiDumperService''),
    (SaConst ''XPOWER_MANAGER_SYSTEM_ABILITY_ID'', ''XpowerManager''),
    (SaConst ''DFX_HI_PERF_SERVICE_ABILITY_ID'', ''HiPerfService''),
    (SaConst ''DFX_HI_DUMPER_CPU_SERVICE_ABILITY_ID'', ''HiDumperCpuService''),
    (SaConst ''SUBSYS_USERIAM_SYS_ABILITY_USERAUTH'', ''UserAuthService''),
    (SaConst ''SUBSYS_USERIAM_SYS_ABILITY_PINAUTH'', ''PinAuthService''),
    (SaConst ''SUBSYS_USERIAM_SYS_ABILITY_FACEAUTH'', ''FaceAuthService''),
    (SaConst ''SUBSYS_USERIAM_SYS_ABILITY_FINGERPRINTAUTH'', ''FingerprintAuthService''),
    (SaConst ''SUBSYS_USERIAM_SYS_ABILITY_FINGERPRINTAUTH_EX'', ''FingerprintAuthServiceEx''),
    (SaConst ''NET_MANAGER_SYS_ABILITY_ID'', ''NetManager''),
    (SaConst ''COMM_NET_CONN_MANAGER_SYS_ABILITY_ID'', ''NetConnManager''),
    (SaConst ''COMM_NET_POLICY_MANAGER_SYS_ABILITY_ID'', ''NetPolicyManager''),
    (SaConst ''COMM_NET_STATS_MANAGER_SYS_ABILITY_ID'', ''NetStatsManager''),
    (SaConst ''COMM_NET_TETHERING_MANAGER_SYS_ABILITY_ID'', ''NetTetheringManager''),
    (SaConst ''COMM_VPN_MANAGER_SYS_ABILITY_ID'', ''VPNManager''),
    (SaConst ''COMM_DNS_MANAGER_SYS_ABILITY_ID'', ''DNSManager''),
    (SaConst ''COMM_ETHERNET_MANAGER_SYS_ABILITY_ID'', ''EthernetManager''),
    (SaConst ''COMM_NETSYS_NATIVE_SYS_ABILITY_ID'', ''NetsysNative''),
    (SaConst ''COMM_MDNS_MANAGER_SYS_ABILITY_ID'', ''MDNSManager''),
    (SaConst ''COMM_NETSYS_EXT_SYS_ABILITY_ID'', ''NetsysExtService''),
    (SaConst ''COMM_DISTRIBUTED_NET_ABILITY_ID'', ''DistributedNet''),
    (SaConst ''COMM_WEARABLE_DISTRIBUTED_NET_ABILITY_ID'', ''WearableDistributedNet''),
    (SaConst ''ENTERPRISE_DEVICE_MANAGER_SA_ID'', ''EnterpriseDeviceManagerService''),
    (SaConst ''I18N_SA_ID'', ''I18nService''),
    (SaConst ''PARAM_WATCHER_DISTRIBUTED_SERVICE_ID'', ''ParamWatcher''),
    (SaConst ''SYSPARAM_DEVICE_SERVICE_ID'', ''SysParamDevice''),
    (SaConst ''TIME_SERVICE_ID'', ''TimeService''),
    (SaConst ''PLAYER_DISTRIBUTED_SERVICE_ID'', ''PlayerDistributedService''),
    (SaConst ''AV_CODEC_SERVICE_ID'', ''AVCodecService''),
    (SaConst ''CAMERA_SERVICE_ID'', ''CameraService''),
    (SaConst ''MEDIA_KEY_SYSTEM_SERVICE_ID'', ''MediaKeySystemService''),
    (SaConst ''AUDIO_POLICY_SERVICE_ID'', ''AudioPolicyService''),
    (SaConst ''AUDIO_SUITE_SERVICE_ID'', ''AudioSuiteService''),
    (SaConst ''DLP_CREDENTIAL_SERVICE_ID'', ''DlpCreService''),
    (SaConst ''QUICKFIX_ENGINE_SERVICE_ID'', ''QuickfixEngineService''),
    (SaConst ''DEVICE_ATTEST_PROFILE_SA_ID'', ''devattest_service''),
    (SaConst ''AIDISPATCHER_ENGINE_SERVICE'', ''AIDispatcherEngineService''),
    (SaConst ''SECURITY_COMPONENT_SERVICE_ID'', ''SecurityComponentService''),
    (SaConst ''ADVERTISING_SA_ID'', ''Advertising''),
    (SaConst ''LOCAL_CODE_SIGN_SERVICE_ID'', ''LocalCodeSignService''),
    (SaConst ''INTELL_VOICE_SERVICE_ID'', ''IntellVoiceService''),
    (SaConst ''FILE_ACCESS_SERVICE_ID'', ''FileAccessService''),
    (SaConst ''MSDP_USER_STATUS_SERVICE_ID'', ''UserStatusAwarenessService''),
    (SaConst ''NEARLINK_HOST_SYS_ABILITY_ID'', ''NearLinkHost''),
    (SaConst ''ECOLOGICAL_RULE_MANAGER_SA_ID'', ''EcologicalRuleManager''),
    (SaConst ''ASSET_SERVICE_ID'', ''AssetService''),
    (SaConst ''TEST_SERVER_SA_ID'', ''TestServer''),
    (SaConst ''APP_DOMAIN_VERIFY_MANAGER_SA_ID'', ''AppDomainVerifyManager''),
    (SaConst ''APP_DOMAIN_VERIFY_AGENT_SA_ID'', ''AppDomainVerifyAgent''),
    (SaConst ''AOT_COMPILER_SERVICE_ID'', ''AotCompilerService''),
    (SaConst ''EL5_FILEKEY_MANAGER_SERVICE_ID'', ''El5FilekeyManager''),
    (SaConst ''COMM_FIREWALL_MANAGER_SYS_ABILITY_ID'', ''NetFirewallManager''),
    (SaConst ''SUBSYS_WEBVIEW_SYS_UPDATE_SERVICE_ID'', ''AppFwkUpdateService''),
    (SaConst ''SELECTION_FWK_SA_ID'', ''SelectionService''),
    (SaConst ''MECH_BODY_SA_ID'', ''MechBodyController''),
    (SaConst ''XPERF_SERVICE_SA_ID'', ''XperfService''),
    (SaConst ''FUSION_CONN_SYS_ABILITY_ID'', ''PartnerDeviceAgent''),
    (SaConst ''FUSION_RANGING_SYS_ABILITY_ID'', ''FusionRanging''),
    (SaConst ''DISK_MANAGER_SA_ID'', ''DiskManager''),
    (SaConst ''MIDI_SERVICE_ID'', ''MidiService''),
    (SaConst ''ASSESSMENT_SERVICE_ID'', ''AssessmentConfigurationService'')]"

text \<open>
  An \<open>std::map\<close> made from an initialiser list: sorted by key, the first entry of a key wins.
\<close>

definition saNameMap :: "(string \<Rightarrow> int) \<Rightarrow> (int \<times> string) list" where
  "saNameMap val = sort_key fst (fold (\<lambda>(k, n) m. emplace (sa_value val k) n m) sa_names [])"

definition StrToId :: "(string \<Rightarrow> int) \<Rightarrow> (string \<Rightarrow> int option) \<Rightarrow> string \<Rightarrow> int" where
  "StrToId val StrToInt name =
    (case find (\<lambda>item. snd item = name) (saNameMap val) of
       None \<Rightarrow> (case StrToInt name of None \<Rightarrow> -1 | Some n \<Rightarrow> n)
     | Some item \<Rightarrow> fst item)"

definition ConvertSaIdToSaName :: "(string \<Rightarrow> int) \<Rightarrow> (string \<Rightarrow> int option) \<Rightarrow> string \<Rightarrow> string" where
  "ConvertSaIdToSaName val StrToInt saIdStr =
    (case map_of (saNameMap val) (StrToId val StrToInt saIdStr) of None \<Rightarrow> saIdStr | Some n \<Rightarrow> n)"

section \<open>Processes and applications\<close>

record app_info =
  appProvisionType :: string
  profileable :: bool
  appDistributionType :: string

record dev_env =
  GetParameter :: "string \<Rightarrow> string \<Rightarrow> string" \<comment> \<open>key, default\<close>
  LoadStringFromFile :: "string \<Rightarrow> string option"
  path_exists :: "string \<Rightarrow> bool" \<comment> \<open>\<open>realpath\<close> and \<open>access\<close> succeed\<close>
  bundle_enable :: bool \<comment> \<open>built with \<open>HIDUMPER_BUNDLEMANAGER_FRAMEWORK_ENABLE\<close>\<close>
  GetApplicationInfo :: "string \<Rightarrow> app_info option" \<comment> \<open>answer of the bundle manager, if it is reached\<close>
  provision_debug :: string \<comment> \<open>\<open>APP_PROVISION_TYPE_DEBUG\<close> of the bundle manager\<close>

definition CheckProcessAlive_pid :: "dev_env \<Rightarrow> int \<Rightarrow> bool" where
  "CheckProcessAlive_pid dev pid = path_exists dev (''/proc/'' @ to_string (pid mod 2 ^ 32))"

definition IsUserMode :: "dev_env \<Rightarrow> bool" where
  "IsUserMode dev \<longleftrightarrow> GetParameter dev ''const.debuggable'' ''0'' = ''0''"

definition IsDeveloperModeEnabled :: "dev_env \<Rightarrow> bool" where
  "IsDeveloperModeEnabled dev \<longleftrightarrow> GetParameter dev ''const.security.developermode.state'' [] = ''true''"

text \<open>The text before the first colon and before the first zero byte of the command line.\<close>

definition GetBundleNameByPid :: "dev_env \<Rightarrow> int \<Rightarrow> string option" where
  "GetBundleNameByPid dev pid =
    (if pid \<le> 0 then None
     else case LoadStringFromFile dev (''/proc/'' @ to_string pid @ ''/cmdline'') of
       None \<Rightarrow> None
     | Some bundleName \<Rightarrow>
        if bundleName = [] then None
        else Some (takeWhile (\<lambda>c. c \<noteq> CHR 0x00) (takeWhile (\<lambda>c. c \<noteq> CHR '':'') bundleName)))"

definition GetApplicationInfoBase :: "dev_env \<Rightarrow> int \<Rightarrow> app_info option" where
  "GetApplicationInfoBase dev pid =
    (case GetBundleNameByPid dev pid of None \<Rightarrow> None | Some b \<Rightarrow> GetApplicationInfo dev b)"

definition CheckAppDebugVersion :: "dev_env \<Rightarrow> int \<Rightarrow> bool" where
  "CheckAppDebugVersion dev pid =
    (bundle_enable dev \<and>
     (case GetApplicationInfoBase dev pid of None \<Rightarrow> False
      | Some a \<Rightarrow> appProvisionType a = provision_debug dev))"

definition CheckAppProfileable :: "dev_env \<Rightarrow> int \<Rightarrow> bool" where
  "CheckAppProfileable dev pid =
    (bundle_enable dev \<and>
     (case GetApplicationInfoBase dev pid of None \<Rightarrow> False | Some a \<Rightarrow> profileable a))"

definition CheckAppInhouse :: "dev_env \<Rightarrow> int \<Rightarrow> bool" where
  "CheckAppInhouse dev pid =
    (bundle_enable dev \<and>
     (case GetApplicationInfoBase dev pid of None \<Rightarrow> False
      | Some a \<Rightarrow> appDistributionType a = ''enterprise''))"

section \<open>Facts\<close>

lemma saNameMap_wf: "distinct (map fst (saNameMap val))"
proof -
  have "distinct (map fst m) \<Longrightarrow> distinct (map fst (fold (\<lambda>(k, n) m. emplace (sa_value val k) n m) xs m))"
    for xs :: "(sa_key \<times> string) list" and m :: "(int \<times> string) list"
    by (induction xs arbitrary: m) (auto simp: emplace_def keys_def split: prod.splits)
  from this [of "[]" sa_names] show ?thesis
    by (simp add: saNameMap_def distinct_map inj_on_def)
qed

text \<open>A name of the table is converted to itself, whatever the numbers are.\<close>

lemma sa_name_roundtrip:
  assumes "(k, n) \<in> set (saNameMap val)"
  shows "ConvertSaIdToSaName val StrToInt n = n"
proof -
  have "find (\<lambda>item. snd item = n) (saNameMap val) \<noteq> None"
    using assms by (auto simp: find_None_iff)
  then obtain item where f: "find (\<lambda>item. snd item = n) (saNameMap val) = Some item" by blast
  then have "item \<in> set (saNameMap val)" "snd item = n" by (auto simp: find_Some_iff)
  then have "map_of (saNameMap val) (fst item) = Some n"
    using map_of_is_SomeI [OF saNameMap_wf] by (metis prod.collapse)
  with f show ?thesis by (simp add: ConvertSaIdToSaName_def StrToId_def)
qed

lemma no_application_nonpositive: "pid \<le> 0 \<Longrightarrow> \<not> CheckAppDebugVersion dev pid"
  by (simp add: CheckAppDebugVersion_def GetApplicationInfoBase_def GetBundleNameByPid_def)

end
