(* ===== verification/Cmd_Usage.thy ===== *)
theory Cmd_Usage
  imports Dump_Utils Text_Lib
begin

text \<open>
  The help text of \<^verbatim>\<open>src/frameworks/native/src/manager/dump_implement.cpp\<close> (\<open>CmdHelp\<close>,
  \<open>PrintCommonUsage\<close>). \<open>plugin\<close> is the build option
  \<open>HIDUMPER_HIVIEWDFX_PLUGIN_ENABLE\<close>, \<open>hiview\<close> is \<open>HIDUMPER_HIVIEWDFX_HIVIEW_ENABLE\<close>.
\<close>

section \<open>The text\<close>

definition commonUsageStr :: "bool \<Rightarrow> string" where
  "commonUsageStr plugin =
    ''usage:'' @ [CHR 0x0A] @
    ''  -h                          |help text for the tool'' @ [CHR 0x0A] @
    ''  -lc                         |a list of system information clusters'' @ [CHR 0x0A] @
    ''  -ls                         |a list of system abilities'' @ [CHR 0x0A] @
    ''  -c                          |all system information clusters'' @ [CHR 0x0A] @
    ''  -c [base system]            |system information clusters labeled \"base\" and \"system\"'' @ [CHR 0x0A] @
    ''  -s                          |all system abilities'' @ [CHR 0x0A] @
    ''  -s [SA0 SA1]                |system abilities labeled \"SA0\" and \"SA1\"'' @ [CHR 0x0A] @
    ''  -s [SA] -a ['-h']           |system ability labeled \"SA\" with arguments \"-h\" specified'' @ [CHR 0x0A] @
    ''  -e                          |faultlogs of crash history'' @ [CHR 0x0A] @
    ''  -e --list [process_name] [-n num] [--since timestamp] [--until timestamp]  |dump list of abnormal exits'' @ [CHR 0x0A] @
    ''  -e --print [process_name] [-n num] [--since timestamp] [--until timestamp]  |dump faultlogs of abnormal'' @
    '' exits'' @ [CHR 0x0A] @
    ''  -e --print record_id        |dump faultlogs of the specified record'' @ [CHR 0x0A] @
    ''  --net [pid]                 |dump network information; if pid is specified,'' @
    '' dump traffic usage of specified pid'' @ [CHR 0x0A] @
    ''  --storage [pid]             |dump storage information; if pid is specified, dump /proc/pid/io'' @ [CHR 0x0A] @
    ''  -p                          |processes information, include list and infromation of processes'' @
    '' and threads'' @ [CHR 0x0A] @
    ''  -p [pid]                    |dump threads under pid, includes smap, block channel,'' @
    '' execute time, mountinfo'' @ [CHR 0x0A] @
    ''  -p pid ARG [-v]             |dump thread or fd descriptor information;'' @
    '' ARG must be one of --thread | --fd; use -v to dump all thread or fd descriptor information'' @ [CHR 0x0A] @
    ''  --cpufreq                   |dump real CPU frequency of each core'' @ [CHR 0x0A] @
    ''  --mem [pid] [--prune]       |dump memory usage of total; dump memory usage of specified'' @
    '' pid if pid was specified; dump simplified memory information if prune is specified and not support'' @
    '' dumped simplified memory information of specified pid'' @ [CHR 0x0A] @
    ''  --mem [pid] [--show-ashmem]   |show ashmem info when dumping memory of specified pid'' @ [CHR 0x0A] @
    ''  --mem [pid] [--show-dmabuf]   |show dmabuf info when dumping memory of specified pid'' @ [CHR 0x0A] @
    (if plugin then ''  --mem [pid] [--show-gpumem]   |show gpumem info when dumping memory of specified pid'' @ [CHR 0x0A] else []) @
    ''  --mem [pid] [--show-arktsheap] |show arkts heap info when dumping memory of specified pid'' @ [CHR 0x0A] @
    ''  --mem [pid] [--show-leakthread] |show leak thread stack info when dumping memory of specified pid'' @ [CHR 0x0A] @
    ''  --mem [pid] -t [timeInterval]  |dump process memory change information, press Ctrl+C to stop the export.'' @
    '' detail information is stored in /data/log/hidumper/record_mem.txt.'' @ [CHR 0x0A] @
    ''  --zip                       |compress output to /data/log/hidumper'' @ [CHR 0x0A] @
    ''  --mem-smaps pid [-v]        |display statistic in /proc/pid/smaps, use -v specify more details'' @ [CHR 0x0A] @
    ''  --mem-jsheap pid [-T tid] [--gc] [--leakobj] [--raw] [--single] [--clean]  |triggerGC, dumpHeapSnapshot,'' @
    '' dumpRawHeap and dumpLeakList under pid and tid'' @ [CHR 0x0A] @
    ''  --mem-cjheap pid [--gc]     |the pid should belong to the Cangjie process; triggerGC and'' @
    '' dumpHeapSnapshot under pid'' @ [CHR 0x0A] @
    (if plugin then ''  --mem-heap pid ARG [--leakobj] [--raw] [-T tid] [--gc] |ARG must be one of --native | --kotlin | --jsvm | '' @
    ''--arkweb-js.'' @ [CHR 0x0A]
     else ''  --mem-heap pid ARG [--leakobj] [--gc] |ARG must be one of --native | --kotlin.'' @ [CHR 0x0A]) @
    ''  --ipc pid ARG               |ipc load statistic; pid must be specified or set to -a dump all'' @
    '' processes. ARG must be one of --start-stat | --stop-stat | --stat'' @ [CHR 0x0A]"

definition extendedUsageStr :: string where
  "extendedUsageStr =
    ''  --cpuusage [pid]            |dump cpu usage by processes and category; if PID is specified,'' @
    '' dump category usage of specified pid'' @ [CHR 0x0A]"

definition intervalUsageStr :: string where
  "intervalUsageStr =
    ''  --mem [pid] -t [timeInterval]  |dump process memory change information, press Ctrl+C to stop the export. detail information is stored in /data/log/hidumper/record_mem.txt.'' @ [CHR 0x0A]"

definition usage_text :: "bool \<Rightarrow> bool \<Rightarrow> bool \<Rightarrow> string" where
  "usage_text plugin hiview userMode =
    (let str = (if hiview then commonUsageStr plugin @ extendedUsageStr else commonUsageStr plugin) in
     if userMode then erase_first intervalUsageStr str else str)"

end
