(* ===== verification/Raw_Param.thy ===== *)
theory Raw_Param
  imports Text_Lib
begin

text \<open>
  The request object: \<open>RawParam\<close> (\<^verbatim>\<open>src/services/native/src/raw_param.cpp\<close>), which the service makes
  from the arguments of a call and hands to the frameworks, and the client that sends the arguments
  (\<^verbatim>\<open>src/client/native/dump_client_main.cpp\<close>).

  Arguments are the UTF-8 strings that \<open>Str16ToStr8\<close> gives. \<open>argHead_\<close> is a list of 65 slots, an
  empty slot is the null pointer. What is written to the descriptor of the request is a list of
  strings that an operation returns beside the new state.
\<close>

definition ARG_MIN_COUNT :: nat where "ARG_MIN_COUNT = 1"
definition ARG_MAX_COUNT :: nat where "ARG_MAX_COUNT = 64"
definition SINGLE_ARG_MAXLEN :: nat where "SINGLE_ARG_MAXLEN = 256"

record RawParam =
  rp_uid :: int
  rp_pid :: int
  rp_callerPpid :: int
  rp_canceled :: bool
  rp_finished :: bool
  rp_hasError :: bool
  rp_reqId :: nat
  rp_argHead :: "string option list"
  rp_outfd :: int
  rp_progressEnabled :: bool
  rp_progressTick :: nat
  rp_progress :: nat
  rp_path :: string
  rp_folder :: string
  rp_closed :: "int list" \<comment> \<open>descriptors that were closed\<close>

definition FINISH :: nat where "FINISH = 100"

section \<open>Life cycle\<close>

text \<open>\<open>sprintf_s(value, SINGLE_ARG_MAXLEN, "%s", arg)\<close> fails when the string and its end do not fit.\<close>

fun fill_args :: "nat \<Rightarrow> string list \<Rightarrow> string option list \<Rightarrow> bool \<times> string option list" where
  "fill_args i [] slots = (True, slots)"
| "fill_args i (arg # args) slots =
    (if i > ARG_MAX_COUNT then (True, slots)
     else if length arg \<ge> SINGLE_ARG_MAXLEN then (False, slots)
     else fill_args (Suc i) args (slots[i := Some arg]))"

definition RawParam_Init :: "(string \<Rightarrow> int option) \<Rightarrow> string list \<Rightarrow> RawParam \<Rightarrow> bool \<times> RawParam" where
  "RawParam_Init str_to_int args rp =
    (let rp1 = (if length args \<ge> ARG_MIN_COUNT then
                  rp\<lparr>rp_callerPpid := (case str_to_int (last args) of None \<Rightarrow> rp_callerPpid rp | Some p \<Rightarrow> p)\<rparr>
                else rp);
         args1 = (if length args \<ge> ARG_MIN_COUNT then butlast args else args) in
     case fill_args 0 args1 (rp_argHead rp1) of (ok, slots) \<Rightarrow> (ok, rp1\<lparr>rp_argHead := slots\<rparr>))"

definition RawParam_new :: "(string \<Rightarrow> int option) \<Rightarrow> int \<Rightarrow> int \<Rightarrow> nat \<Rightarrow> string list \<Rightarrow> int \<Rightarrow> RawParam" where
  "RawParam_new str_to_int calllingUid calllingPid reqId args outfd =
    snd (RawParam_Init str_to_int args
      \<lparr>rp_uid = calllingUid, rp_pid = calllingPid, rp_callerPpid = -1, rp_canceled = False, rp_finished = False,
       rp_hasError = False, rp_reqId = reqId, rp_argHead = replicate (ARG_MAX_COUNT + 1) None, rp_outfd = outfd,
       rp_progressEnabled = False, rp_progressTick = 0, rp_progress = 0, rp_path = [], rp_folder = [], rp_closed = []\<rparr>)"

definition CloseOutputFd :: "RawParam \<Rightarrow> RawParam" where
  "CloseOutputFd rp =
    (if rp_outfd rp > -1 then rp\<lparr>rp_closed := rp_closed rp @ [rp_outfd rp], rp_outfd := -1\<rparr> else rp\<lparr>rp_outfd := -1\<rparr>)"

text \<open>\<open>GetArgc\<close> counts up to the first empty slot, among the first 64.\<close>

definition GetArgc :: "RawParam \<Rightarrow> nat" where
  "GetArgc rp = length (takeWhile (\<lambda>a. a \<noteq> None) (take ARG_MAX_COUNT (rp_argHead rp)))"

definition GetArgv :: "RawParam \<Rightarrow> string option list" where
  "GetArgv rp = rp_argHead rp"

definition request_args :: "RawParam \<Rightarrow> string list" where
  "request_args rp = map the (take (GetArgc rp) (GetArgv rp))"

definition IsFinished :: "RawParam \<Rightarrow> bool" where
  "IsFinished rp \<longleftrightarrow> rp_canceled rp \<or> rp_finished rp \<or> rp_hasError rp"

definition Cancel :: "RawParam \<Rightarrow> RawParam" where
  "Cancel rp = rp\<lparr>rp_canceled := True\<rparr>"

definition SetProgressEnabled :: "bool \<Rightarrow> RawParam \<Rightarrow> RawParam" where
  "SetProgressEnabled enable rp = rp\<lparr>rp_progressEnabled := enable\<rparr>"

definition SetTitle :: "string \<Rightarrow> RawParam \<Rightarrow> RawParam" where
  "SetTitle path rp = rp\<lparr>rp_path := path\<rparr>"

definition SetFolder :: "string \<Rightarrow> RawParam \<Rightarrow> RawParam" where
  "SetFolder folder rp = rp\<lparr>rp_folder := folder\<rparr>"

section \<open>Progress\<close>

definition PROGRESS_TICK :: string where
  "PROGRESS_TICK = [CHR ''-'', CHR 0x5C, CHR ''|'', CHR ''/'']"

text \<open>\<open>%2d\<close>\<close>

definition pad2 :: "nat \<Rightarrow> string" where
  "pad2 n = (let s = digits n in replicate (2 - length s) CHR '' '' @ s)"

definition UpdateProgress_to :: "nat \<Rightarrow> RawParam \<Rightarrow> string list \<times> RawParam" where
  "UpdateProgress_to progress rp =
    (if \<not> rp_progressEnabled rp \<or> rp_outfd rp < 0 \<or> progress > FINISH then ([], rp)
     else
       let rp1 = rp\<lparr>rp_progress := max progress (rp_progress rp), rp_progressTick := (rp_progressTick rp + 1) mod 4\<rparr> in
       ([[CHR 0x1B] @ ''[?25l'' @ [CHR 0x0D] @ pad2 (rp_progress rp1) @ ''%,['' @ [PROGRESS_TICK ! rp_progressTick rp1]
          @ '']'' @ [CHR 0x1B] @ ''[?25h'']
        @ (if rp_progress rp1 = FINISH then [rp_path rp1 @ [CHR 0x0A]] else []), rp1))"

definition UpdateProgress :: "nat \<Rightarrow> nat \<Rightarrow> RawParam \<Rightarrow> string list \<times> RawParam" where
  "UpdateProgress steps current rp =
    (if \<not> rp_progressEnabled rp \<or> rp_outfd rp < 0 \<or> steps < 1 \<or> steps < current then ([], rp)
     else UpdateProgress_to (FINISH * current div steps) rp)"

section \<open>The client\<close>

text \<open>
  \<open>DumpClientMain::Main\<close> checks the command line and sends it with the process id of its parent;
  \<open>Inl\<close> is the status of a refused command line.
\<close>

definition SetCmdArgs :: "int \<Rightarrow> string list \<Rightarrow> string list" where
  "SetCmdArgs ppid argv = argv @ [to_string ppid]"

definition client_args :: "int \<Rightarrow> string list \<Rightarrow> DumpStatus + string list" where
  "client_args ppid argv =
    (if length argv > ARG_MAX_COUNT then Inl DUMP_INVALID_ARG
     else if list_ex (\<lambda>arg. length arg = 0 \<or> length arg > SINGLE_ARG_MAXLEN) argv then Inl DUMP_INVALID_ARG
     else Inr (SetCmdArgs ppid argv))"

section \<open>Facts\<close>

lemma fill_args_slots:
  "length pre = i \<Longrightarrow> length pre + length post = Suc ARG_MAX_COUNT \<Longrightarrow>
    snd (fill_args i args (pre @ post)) =
      (let fit = take (length post) (takeWhile (\<lambda>a. length a < SINGLE_ARG_MAXLEN) args) in
       pre @ map Some fit @ drop (length fit) post)"
proof (induction args arbitrary: i pre post)
  case Nil
  then show ?case by simp
next
  case (Cons a args)
  show ?case
  proof (cases "i > ARG_MAX_COUNT \<or> length a \<ge> SINGLE_ARG_MAXLEN")
    case True
    show ?thesis
    proof (cases "i > ARG_MAX_COUNT")
      case True
      then have "length post = 0" using Cons.prems by linarith
      then have "post = []" by simp
      with True show ?thesis by simp
    next
      case False
      with \<open>i > ARG_MAX_COUNT \<or> length a \<ge> SINGLE_ARG_MAXLEN\<close> show ?thesis by simp
    qed
  next
    case False
    then obtain p post' where post: "post = p # post'" using Cons.prems by (cases post) auto
    have upd: "(pre @ p # post')[i := Some a] = pre @ Some a # post'" using Cons.prems(1) by (simp add: list_update_append)
    show ?thesis
      using Cons.IH [of "pre @ [Some a]" "Suc i" post'] Cons.prems post False by (simp add: upd Let_def)
  qed
qed

text \<open>The arguments that a request hands over: up to the first one that does not fit, at most 64.\<close>

lemma request_args_new:
  "request_args (RawParam_new sti uid pid rid args fd)
     = take ARG_MAX_COUNT (takeWhile (\<lambda>a. length a < SINGLE_ARG_MAXLEN) (butlast args))"
proof -
  define fit where "fit = takeWhile (\<lambda>a. length a < SINGLE_ARG_MAXLEN) (butlast args)"
  have b: "(if length args \<ge> ARG_MIN_COUNT then butlast args else args) = butlast args"
    by (cases args) (auto simp: ARG_MIN_COUNT_def)
  have s: "rp_argHead (RawParam_new sti uid pid rid args fd) =
      map Some (take (Suc ARG_MAX_COUNT) fit) @ drop (length (take (Suc ARG_MAX_COUNT) fit)) (replicate (Suc ARG_MAX_COUNT) None)"
    using fill_args_slots [of "[]" 0 "replicate (Suc ARG_MAX_COUNT) None" "butlast args"]
    by (simp add: RawParam_new_def RawParam_Init_def b Let_def fit_def case_prod_unfold)
  define slots where "slots = take ARG_MAX_COUNT (rp_argHead (RawParam_new sti uid pid rid args fd))"
  have sl: "slots = map Some (take ARG_MAX_COUNT fit) @ replicate (ARG_MAX_COUNT - length fit) None"
    unfolding slots_def s by (simp add: take_map min_def take_replicate del: replicate_Suc)
  have "takeWhile (\<lambda>a. a \<noteq> None) slots = map Some (take ARG_MAX_COUNT fit)"
    unfolding sl by (subst takeWhile_append2) auto
  then have n: "GetArgc (RawParam_new sti uid pid rid args fd) = length (take ARG_MAX_COUNT fit)"
    by (simp add: GetArgc_def slots_def)
  have "take (length (take ARG_MAX_COUNT fit)) (rp_argHead (RawParam_new sti uid pid rid args fd)) = map Some (take ARG_MAX_COUNT fit)"
    unfolding s by (simp add: take_map min_def)
  then show ?thesis by (simp add: request_args_def GetArgv_def n fit_def comp_def)
qed

lemma UpdateProgress_le: "rp_progress rp \<le> FINISH \<Longrightarrow> rp_progress (snd (UpdateProgress t c rp)) \<le> FINISH
    \<and> rp_progress rp \<le> rp_progress (snd (UpdateProgress t c rp))"
  by (auto simp: UpdateProgress_def UpdateProgress_to_def Let_def)

end
