(* ===== verification/Getopt.thy ===== *)
theory Getopt
  imports Main "HOL-Library.Monad_Syntax"
begin

text \<open>
  What the two command line parsers see of \<open>getopt_long\<close>.
\<close>

datatype has_arg = no_argument | required_argument | optional_argument

text \<open>One answer of \<open>getopt_long\<close>: 0 with an index of the table, or a character (code 1: no option).\<close>

datatype getopt_c = LongOpt nat | OptChar char

record getopt_event =
  ge_c :: getopt_c
  ge_optarg :: "string option"
  ge_optind :: nat
  ge_optopt :: char

definition nth_opt :: "'a list \<Rightarrow> nat \<Rightarrow> 'a option" where
  "nth_opt xs i = (if i < length xs then Some (xs ! i) else None)"

lemma nth_opt_some: "i < length xs \<Longrightarrow> nth_opt xs i = Some (xs ! i)"
  by (simp add: nth_opt_def)

end
