(* ===== verification/Dump_Implement.thy ===== *)
theory Dump_Implement
  imports Config_Utils Cmd_Usage Raw_Param Getopt
begin

text \<open>
  The command line of the classic framework, first half of
  \<^verbatim>\<open>src/frameworks/native/src/manager/dump_implement.cpp\<close>: from \<open>argv\<close> to checked options.

  \<open>getopt_long\<close> belongs to the C library. Nothing the parser does influences it, so a call of the
  parser takes the list of its answers as an argument, each with the values of \<open>optarg\<close>,
  \<open>optind\<close> and \<open>optopt\<close> after the call; the end of the list is the answer \<open>-1\<close>. The string
  functions of the base library are fields of \<open>cmd_env\<close>, like the answers of the device and the
  build options. A read outside \<open>argv\<close>, of a null \<open>optarg\<close> or outside the table of long options is
  the result \<open>None\<close>.
\<close>

section \<open>State and environment\<close>

record DumperSysEventParams =
  errorCode :: int
  callerPpid :: int
  ev_opt :: string
  subOpt :: string
  ev_target :: string
  arguments :: string
  errorMsg :: string

record DumpImplement =
  im_opts :: DumperOpts \<comment> \<open>the \<open>opts\<close> that the parser fills\<close>
  im_event :: DumperSysEventParams \<comment> \<open>\<open>dumperSysEventParams_\<close>\<close>
  im_path :: string \<comment> \<open>\<open>path_\<close>\<close>
  im_writes :: "string list" \<comment> \<open>text written to the client's descriptor\<close>
  im_reports :: "(string \<times> string) list" \<comment> \<open>\<open>ARK_STATS_DUMP\<close> events: process and type\<close>

record cmd_env =
  dev :: dev_env
  penv :: proc_env
  proc_content :: "string \<Rightarrow> string option" \<comment> \<open>\<open>LoadStringFromProcCb\<close>\<close>
  all_pid_infos :: "PidInfo list" \<comment> \<open>\<open>GetPidInfos\<close> with command lines\<close>
  sa_val :: "string \<Rightarrow> int"
  StrToInt :: "string \<Rightarrow> int option"
  IsNumericStr :: "string \<Rightarrow> bool"
  IsSubStr :: "string \<Rightarrow> string \<Rightarrow> bool"
  TrimStr :: "string \<Rightarrow> string"
  SplitStr :: "string \<Rightarrow> string \<Rightarrow> bool \<Rightarrow> bool \<Rightarrow> string list" \<comment> \<open>text, separator, keep empty parts, trim\<close>
  mktime_of :: "string \<Rightarrow> int option" \<comment> \<open>\<open>get_time\<close> and \<open>mktime\<close>: seconds\<close>
  GetTime :: string
  hiview_enable :: bool
  plugin_enable :: bool
  is_emulator :: bool
  outputFd :: int \<comment> \<open>of the request\<close>
  reqUid :: int
  reqPid :: int
  reqCallerPpid :: int

definition LONG_OPTIONS :: "cmd_env \<Rightarrow> (string \<times> has_arg) list" where
  "LONG_OPTIONS env =
    [(''cpufreq'', no_argument)] @
    (if hiview_enable env then [(''cpuusage'', optional_argument)] else []) @
    [(''mem'', optional_argument), (''net'', no_argument), (''storage'', no_argument), (''zip'', no_argument),
     (''mem-smaps'', required_argument), (''mem-jsheap'', required_argument), (''mem-cjheap'', required_argument),
     (''mem-heap'', optional_argument), (''native'', optional_argument), (''kotlin'', optional_argument)] @
    (if plugin_enable env then [(''jsvm'', optional_argument), (''arkweb-js'', optional_argument)] else []) @
    [(''gc'', no_argument), (''leakobj'', no_argument), (''clean'', no_argument), (''raw'', no_argument),
     (''single'', no_argument), (''prune'', no_argument), (''show-ashmem'', no_argument), (''show-dmabuf'', no_argument)] @
    (if plugin_enable env then [(''show-gpumem'', no_argument)] else []) @
    [(''show-arktsheap'', no_argument), (''show-leakthread'', no_argument), (''ipc'', optional_argument),
     (''start-stat'', no_argument), (''stop-stat'', no_argument), (''stat'', no_argument), (''list'', no_argument),
     (''print'', no_argument), (''since'', required_argument), (''until'', required_argument),
     (''fd'', no_argument), (''thread'', no_argument)]"

abbreviation put :: "(DumperOpts \<Rightarrow> DumperOpts) \<Rightarrow> DumpImplement \<Rightarrow> DumpImplement" where
  "put f im \<equiv> im\<lparr>im_opts := f (im_opts im)\<rparr>"

abbreviation note_event :: "(DumperSysEventParams \<Rightarrow> DumperSysEventParams) \<Rightarrow> DumpImplement \<Rightarrow> DumpImplement" where
  "note_event f im \<equiv> im\<lparr>im_event := f (im_event im)\<rparr>"

section \<open>Messages\<close>

definition unrecognizedError :: string where "unrecognizedError = ''hidumper: option pid missed. ''"

definition invalidError :: string where "invalidError = ''hidumper: invalid arg: ''"

definition requireError :: string where "requireError = ''hidumper: option requires an argument: ''"

definition send_raw :: "cmd_env \<Rightarrow> string \<Rightarrow> DumpImplement \<Rightarrow> DumpImplement" where
  "send_raw env s im = (if outputFd env < 0 then im else im\<lparr>im_writes := im_writes im @ [s]\<rparr>)"

definition SendErrorMessage :: "cmd_env \<Rightarrow> string \<Rightarrow> DumpImplement \<Rightarrow> DumpImplement" where
  "SendErrorMessage env errorStr = send_raw env (errorStr @ [CHR 0x0A])"

definition SendPidErrorMessage :: "cmd_env \<Rightarrow> int \<Rightarrow> DumpImplement \<Rightarrow> DumpImplement" where
  "SendPidErrorMessage env pid = send_raw env (''hidumper: No such process: '' @ to_string pid @ [CHR 0x0A])"

definition SendReleaseAppErrorMessage :: "cmd_env \<Rightarrow> string \<Rightarrow> DumpImplement \<Rightarrow> DumpImplement" where
  "SendReleaseAppErrorMessage env opt = send_raw env
    (''[ERROR]: The '' @ opt @ '' option is only supported for debug-signed application [ '' @
     ''\"appProvisionType\": \"debug\"].'' @ [CHR 0x0A])"

definition SendNotAppErrorMessage :: "cmd_env \<Rightarrow> string \<Rightarrow> DumpImplement \<Rightarrow> DumpImplement" where
  "SendNotAppErrorMessage env opt = send_raw env
    (''[ERROR]: The '' @ opt @ '' option is only supported for application.'' @ [CHR 0x0A])"

definition SendReleaseVersionErrorMessage :: "cmd_env \<Rightarrow> string \<Rightarrow> DumpImplement \<Rightarrow> DumpImplement" where
  "SendReleaseVersionErrorMessage env opt = send_raw env
    (''[ERROR]: The '' @ opt @ '' option is not supported in user privilege.'' @ [CHR 0x0A])"

definition SendPermissionCheckErrorMessage ::
    "cmd_env \<Rightarrow> string \<Rightarrow> bool \<Rightarrow> bool \<Rightarrow> bool \<Rightarrow> DumpImplement \<Rightarrow> DumpImplement" where
  "SendPermissionCheckErrorMessage env opt isProfileable isInhouse isDeveloperMode =
    (let say = (\<lambda>b. if b then ''satisfied'' else ''not satisfied'') in
     send_raw env
      (''[Permission Check Failed]'' @ [CHR 0x0A] @
       ''  The '' @ opt @ '' option needs a debug-signed application.'' @ [CHR 0x0A] @
       ''  If release-signed application needs to meet all of the following conditions:'' @ [CHR 0x0A] @
       ''  - profilerable-label: '' @ say isProfileable @ [CHR 0x0A] @
       ''  - enterprise-app-type: '' @ say isInhouse @ [CHR 0x0A] @
       ''  - developer mode: '' @ say isDeveloperMode @ [CHR 0x0A]))"

definition CmdHelp :: "cmd_env \<Rightarrow> DumpImplement \<Rightarrow> DumpImplement" where
  "CmdHelp env = send_raw env (usage_text (plugin_enable env) (hiview_enable env) (IsUserMode (dev env)))"

definition RemoveCharacterFromStr :: "string \<Rightarrow> char \<Rightarrow> string" where
  "RemoveCharacterFromStr str character = removeAll character str"

definition SendErrorMessageIf :: "cmd_env \<Rightarrow> string \<Rightarrow> DumpImplement \<Rightarrow> DumpImplement" where
  "SendErrorMessageIf env optionValue im =
    (if o_isFaultLog (im_opts im) \<and> (o_isEventList (im_opts im) \<or> o_isEventDetail (im_opts im))
     then SendErrorMessage env (invalidError @ RemoveCharacterFromStr optionValue CHR ''-'') im
     else SendErrorMessage env (unrecognizedError @ RemoveCharacterFromStr optionValue CHR ''-'') im)"

definition IsShortOptionReqArg :: "cmd_env \<Rightarrow> string \<Rightarrow> char \<Rightarrow> DumpImplement \<Rightarrow> bool \<times> DumpImplement" where
  "IsShortOptionReqArg env optStr optopt im =
    (if optopt \<in> set optStr then (True, SendErrorMessage env (requireError @ [optopt]) im) else (False, im))"

definition optStr :: string where "optStr = ''-hlcsa:epvT:t:n:''"

definition CheckIncorrectCmdOption ::
    "cmd_env \<Rightarrow> string list \<Rightarrow> getopt_event \<Rightarrow> DumpImplement \<Rightarrow> DumpImplement option" where
  "CheckIncorrectCmdOption env argv ge im =
    (if ge_optopt ge = CHR 0x00 then do {
       arg \<leftarrow> (if ge_optind ge = 0 then None else nth_opt argv (ge_optind ge - 1));
       let optLongStr = RemoveCharacterFromStr arg CHR ''-'';
       Some (if optLongStr = ''since'' \<or> optLongStr = ''until'' then SendErrorMessage env (requireError @ optLongStr) im
             else SendErrorMessage env (unrecognizedError @ optLongStr) im)
     }
     else (case IsShortOptionReqArg env optStr (ge_optopt ge) im of (req, im') \<Rightarrow>
       Some (if req then im' else SendErrorMessage env (unrecognizedError @ [ge_optopt ge]) im')))"

section \<open>Numbers\<close>

definition SetCmdIntegerParameter ::
    "cmd_env \<Rightarrow> string \<Rightarrow> (int \<Rightarrow> DumperOpts \<Rightarrow> DumperOpts) \<Rightarrow> DumpImplement \<Rightarrow> DumpStatus \<times> DumpImplement" where
  "SetCmdIntegerParameter env str value im =
    (if \<not> IsNumericStr env str then (DUMP_INVALID_ARG, SendErrorMessage env (invalidError @ str) im)
     else case StrToInt env str of
       None \<Rightarrow> (DUMP_FAIL, im)
     | Some n \<Rightarrow> (DUMP_OK, note_event (\<lambda>e. e\<lparr>ev_target := str\<rparr>) (put (value n) im)))"

definition SetShowCount :: "cmd_env \<Rightarrow> string \<Rightarrow> DumpImplement \<Rightarrow> DumpStatus \<times> DumpImplement" where
  "SetShowCount env str im =
    (case SetCmdIntegerParameter env str (\<lambda>n opts. opts\<lparr>o_showEventCount := n\<rparr>) im of (status, im') \<Rightarrow>
       if status \<noteq> DUMP_OK then (status, im')
       else if o_showEventCount (im_opts im') \<le> 0 then
         (DUMP_INVALID_ARG,
          note_event (\<lambda>e. e\<lparr>ev_target := []\<rparr>) (SendErrorMessage env (invalidError @ str) im'))
       else (DUMP_OK, im'))"

definition StringToUnixMs :: "cmd_env \<Rightarrow> string \<Rightarrow> int" where
  "StringToUnixMs env datetime =
    (case mktime_of env datetime of None \<Rightarrow> -1 | Some t \<Rightarrow> if t = -1 then -1 else t * 1000)"

section \<open>Setters of the long options\<close>

definition SetMemSmapsParam :: "cmd_env \<Rightarrow> string list \<Rightarrow> DumpImplement \<Rightarrow> DumpStatus \<times> DumpImplement" where
  "SetMemSmapsParam env argv im =
    (let im1 = note_event (\<lambda>e. e\<lparr>ev_opt := ''mem-smaps''\<rparr>) (put (\<lambda>opt. opt\<lparr>o_isShowSmaps := True\<rparr>) im) in
     if 2 \<ge> length argv then (DUMP_FAIL, im1)
     else SetCmdIntegerParameter env (argv ! 2) (\<lambda>n opt. opt\<lparr>o_memPid := n\<rparr>) im1)"

definition SetMemJsheapParam :: "cmd_env \<Rightarrow> string option \<Rightarrow> DumpImplement \<Rightarrow> DumpStatus \<times> DumpImplement" where
  "SetMemJsheapParam env optarg im =
    (let im1 = note_event (\<lambda>e. e\<lparr>ev_opt := ''mem-jsheap''\<rparr>) (put (\<lambda>opt. opt\<lparr>o_isDumpJsHeapMem := True\<rparr>) im) in
     case optarg of None \<Rightarrow> (DUMP_FAIL, im1)
     | Some a \<Rightarrow> SetCmdIntegerParameter env a (\<lambda>n opt. opt\<lparr>o_dumpJsHeapMemPid := n\<rparr>) im1)"

definition SetMemCjheapParam :: "cmd_env \<Rightarrow> string option \<Rightarrow> DumpImplement \<Rightarrow> DumpStatus \<times> DumpImplement" where
  "SetMemCjheapParam env optarg im =
    (let im1 = note_event (\<lambda>e. e\<lparr>ev_opt := ''mem-cjheap''\<rparr>) (put (\<lambda>opt. opt\<lparr>o_isDumpCjHeapMem := True\<rparr>) im) in
     case optarg of None \<Rightarrow> (DUMP_FAIL, im1)
     | Some a \<Rightarrow> SetCmdIntegerParameter env a (\<lambda>n opt. opt\<lparr>o_dumpCjHeapMemPid := n\<rparr>) im1)"

definition SetMemHeapParam :: "DumpImplement \<Rightarrow> DumpStatus \<times> DumpImplement" where
  "SetMemHeapParam im =
    (DUMP_OK, note_event (\<lambda>e. e\<lparr>ev_opt := ''mem-heap''\<rparr>) (put (\<lambda>opt. opt\<lparr>o_isDumpHeapMem := True\<rparr>) im))"

definition refuse :: "cmd_env \<Rightarrow> string \<Rightarrow> DumpImplement \<Rightarrow> DumpStatus \<times> DumpImplement" where
  "refuse env msg im = (DUMP_HELP, CmdHelp env (SendErrorMessage env msg im))"

definition SetNativeParam :: "cmd_env \<Rightarrow> DumpImplement \<Rightarrow> DumpStatus \<times> DumpImplement" where
  "SetNativeParam env im =
    (if o_isDumpHeapMem (im_opts im) then (DUMP_OK, put (\<lambda>opt. opt\<lparr>o_isDumpHeapNative := True\<rparr>) im)
     else refuse env (''native param invalid'' @ [CHR 0x0A]) im)"

definition SetKotlinParam :: "cmd_env \<Rightarrow> DumpImplement \<Rightarrow> DumpStatus \<times> DumpImplement" where
  "SetKotlinParam env im =
    (if o_isDumpHeapMem (im_opts im) then (DUMP_OK, put (\<lambda>opt. opt\<lparr>o_isDumpHeapKotlin := True\<rparr>) im)
     else refuse env (''kotlin param invalid'' @ [CHR 0x0A]) im)"

definition SetJsvmParam :: "cmd_env \<Rightarrow> DumpImplement \<Rightarrow> DumpStatus \<times> DumpImplement" where
  "SetJsvmParam env im =
    (if o_isDumpHeapMem (im_opts im) then (DUMP_OK, put (\<lambda>opt. opt\<lparr>o_isDumpHeapJsvm := True\<rparr>) im)
     else refuse env (''jsvm param invalid'' @ [CHR 0x0A]) im)"

definition SetArkwebJsParam :: "cmd_env \<Rightarrow> DumpImplement \<Rightarrow> DumpStatus \<times> DumpImplement" where
  "SetArkwebJsParam env im =
    (if o_isDumpHeapMem (im_opts im) then (DUMP_OK, put (\<lambda>opt. opt\<lparr>o_isDumpHeapArkwebJs := True\<rparr>) im)
     else refuse env (''arkweb-js param invalid'' @ [CHR 0x0A]) im)"

definition SetRawParam :: "cmd_env \<Rightarrow> DumpImplement \<Rightarrow> DumpStatus \<times> DumpImplement" where
  "SetRawParam env im =
    (if o_isDumpJsHeapMem (im_opts im) then
       (DUMP_OK, note_event (\<lambda>e. e\<lparr>ev_opt := ''mem-jsrawheap''\<rparr>) (put (\<lambda>opt. opt\<lparr>o_dumpJsRawHeap := True\<rparr>) im))
     else if o_isDumpHeapMem (im_opts im) then
       (DUMP_OK, note_event (\<lambda>e. e\<lparr>ev_opt := ''mem-rawheap''\<rparr>) (put (\<lambda>opt. opt\<lparr>o_dumpRawHeap := True\<rparr>) im))
     else refuse env (''raw param invalid'' @ [CHR 0x0A]) im)"

definition SetMemPruneParam :: "DumpImplement \<Rightarrow> DumpStatus \<times> DumpImplement" where
  "SetMemPruneParam im =
    (if o_isDumpMem (im_opts im) then
       (DUMP_OK, note_event (\<lambda>e. e\<lparr>ev_opt := ''mem''\<rparr>) (put (\<lambda>opt. opt\<lparr>o_dumpMemPrune := True\<rparr>) im))
     else (DUMP_FAIL, im))"

definition leakthread_error :: string where
  "leakthread_error = ''Error [ARGUMENT]: Invalid arguments for '--show-leakthread' (requires '--mem <pid>').''"

definition leakthread_fix :: string where
  "leakthread_fix = ''Fix: Set '--mem <pid> --show-leakthread' where <pid> is a valid application process id.''"

definition SetShowLeakthreadParam :: "cmd_env \<Rightarrow> DumpImplement \<Rightarrow> DumpStatus \<times> DumpImplement" where
  "SetShowLeakthreadParam env im =
    (if o_isDumpMem (im_opts im) then (DUMP_OK, put (\<lambda>opt. opt\<lparr>o_showLeakThread := True\<rparr>) im)
     else refuse env leakthread_fix (SendErrorMessage env leakthread_error im))"

definition SetGCParam :: "cmd_env \<Rightarrow> DumpImplement \<Rightarrow> DumpStatus \<times> DumpImplement" where
  "SetGCParam env im =
    (if o_isDumpJsHeapMem (im_opts im) then (DUMP_OK, put (\<lambda>opt. opt\<lparr>o_isDumpJsHeapMemGC := True\<rparr>) im)
     else if o_isDumpCjHeapMem (im_opts im) then (DUMP_OK, put (\<lambda>opt. opt\<lparr>o_isDumpCjHeapMemGC := True\<rparr>) im)
     else if o_isDumpHeapMem (im_opts im) then (DUMP_OK, put (\<lambda>opt. opt\<lparr>o_isDumpHeapMemGc := True\<rparr>) im)
     else refuse env (''gc param invalid'' @ [CHR 0x0A]) im)"

definition SetLeakobjParam :: "cmd_env \<Rightarrow> DumpImplement \<Rightarrow> DumpStatus \<times> DumpImplement" where
  "SetLeakobjParam env im =
    (if o_isDumpJsHeapMem (im_opts im) then (DUMP_OK, put (\<lambda>opt. opt\<lparr>o_isDumpJsHeapLeakobj := True\<rparr>) im)
     else if o_isDumpHeapMem (im_opts im) \<and> o_isDumpHeapNative (im_opts im) then
       (DUMP_OK, put (\<lambda>opt. opt\<lparr>o_isDumpHeapLeakobj := True\<rparr>) im)
     else refuse env (''leakobj param invalid'' @ [CHR 0x0A]) im)"

definition SetCleanParam :: "DumpImplement \<Rightarrow> DumpStatus \<times> DumpImplement" where
  "SetCleanParam im =
    (if o_isDumpJsHeapMem (im_opts im) then (DUMP_OK, put (\<lambda>opt. opt\<lparr>o_isDumpJsHeapClean := True\<rparr>) im)
     else (DUMP_FAIL, im))"

definition SetHeapCombineParam :: "DumpImplement \<Rightarrow> DumpStatus \<times> DumpImplement" where
  "SetHeapCombineParam im = (DUMP_OK, put (\<lambda>opt. opt\<lparr>o_isDumpJsHeapCombine := True\<rparr>) im)"

definition SetIpcStatParam :: "string \<Rightarrow> DumpImplement \<Rightarrow> bool \<times> DumpImplement" where
  "SetIpcStatParam param im =
    (if param = ''start-stat'' then
       (True, note_event (\<lambda>e. e\<lparr>subOpt := ''start-stat''\<rparr>) (put (\<lambda>opt. opt\<lparr>o_isDumpIpcStartStat := True\<rparr>) im))
     else if param = ''stop-stat'' then
       (True, note_event (\<lambda>e. e\<lparr>subOpt := ''stop-stat''\<rparr>) (put (\<lambda>opt. opt\<lparr>o_isDumpIpcStopStat := True\<rparr>) im))
     else if param = ''stat'' then
       (True, note_event (\<lambda>e. e\<lparr>subOpt := ''stat''\<rparr>) (put (\<lambda>opt. opt\<lparr>o_isDumpIpcStat := True\<rparr>) im))
     else (False, im))"

definition ParseEventCmdOption :: "DumperOpts \<Rightarrow> string \<Rightarrow> bool" where
  "ParseEventCmdOption opts param =
    (if \<not> o_isFaultLog opts then False else param \<in> set [''list'', ''print'', ''since'', ''until''])"

definition set_time ::
    "cmd_env \<Rightarrow> string option \<Rightarrow> (int \<Rightarrow> DumperOpts \<Rightarrow> DumperOpts) \<Rightarrow> DumpImplement \<Rightarrow> DumpStatus \<times> DumpImplement" where
  "set_time env optarg value im =
    (case optarg of None \<Rightarrow> (DUMP_FAIL, im)
     | Some a \<Rightarrow>
        let t = StringToUnixMs env a; im1 = put (value t) im in
        if t < 0 then (DUMP_INVALID_ARG, SendErrorMessage env (invalidError @ a) im1) else (DUMP_OK, im1))"

definition SetEventParam ::
    "cmd_env \<Rightarrow> string option \<Rightarrow> string \<Rightarrow> DumpImplement \<Rightarrow> DumpStatus \<times> DumpImplement" where
  "SetEventParam env optarg param im =
    (if param = ''list'' then
       (DUMP_OK, note_event (\<lambda>e. e\<lparr>subOpt := ''list''\<rparr>) (put (\<lambda>opt. opt\<lparr>o_isEventList := True\<rparr>) im))
     else if param = ''print'' then
       (DUMP_OK, note_event (\<lambda>e. e\<lparr>subOpt := ''print''\<rparr>) (put (\<lambda>opt. opt\<lparr>o_isEventDetail := True\<rparr>) im))
     else if param = ''since'' then set_time env optarg (\<lambda>t opt. opt\<lparr>o_startTime := t\<rparr>) im
     else if param = ''until'' then set_time env optarg (\<lambda>t opt. opt\<lparr>o_endTime := t\<rparr>) im
     else (DUMP_FAIL, im))"

section \<open>Long options\<close>

definition ParseSubLongCmdOption :: "cmd_env \<Rightarrow> string \<Rightarrow> DumpImplement \<Rightarrow> bool \<times> DumpImplement" where
  "ParseSubLongCmdOption env name im =
    (if name = ''cpufreq'' then
       (True, note_event (\<lambda>e. e\<lparr>ev_opt := ''cpufreq''\<rparr>) (put (\<lambda>opt. opt\<lparr>o_isDumpCpuFreq := True\<rparr>) im))
     else if hiview_enable env \<and> name = ''cpuusage'' then
       (True, note_event (\<lambda>e. e\<lparr>ev_opt := ''cpuusage''\<rparr>) (put (\<lambda>opt. opt\<lparr>o_isDumpCpuUsage := True\<rparr>) im))
     else if name = ''mem'' then
       (True, note_event (\<lambda>e. e\<lparr>ev_opt := ''mem''\<rparr>) (put (\<lambda>opt. opt\<lparr>o_isDumpMem := True\<rparr>) im))
     else if name = ''net'' then
       (True, note_event (\<lambda>e. e\<lparr>ev_opt := ''net''\<rparr>) (put (\<lambda>opt. opt\<lparr>o_isDumpNet := True\<rparr>) im))
     else if name = ''storage'' then
       (True, note_event (\<lambda>e. e\<lparr>ev_opt := ''storage''\<rparr>) (put (\<lambda>opt. opt\<lparr>o_isDumpStorage := True\<rparr>) im))
     else if name = ''zip'' then
       (let path = ''/data/log/hidumper/'' @ GetTime env @ ''.zip'' in
        (True, (put (\<lambda>opt. opt\<lparr>o_path := path\<rparr>) im)\<lparr>im_path := path\<rparr>))
     else (False, im))"

definition ipc_error :: string where "ipc_error = ''ipc stat cmd args invalid'' @ [CHR 0x0A]"

definition ParseLongCmdOption ::
    "cmd_env \<Rightarrow> string list \<Rightarrow> string option \<Rightarrow> string \<Rightarrow> DumpImplement \<Rightarrow> DumpStatus \<times> DumpImplement" where
  "ParseLongCmdOption env argv optarg name im =
    (case ParseSubLongCmdOption env name im of (done, im0) \<Rightarrow>
     if done then (DUMP_OK, im0)
     else if name = ''mem-smaps'' then SetMemSmapsParam env argv im
     else if name = ''show-ashmem'' then (DUMP_OK, put (\<lambda>opt. opt\<lparr>o_showAshmem := True\<rparr>) im)
     else if name = ''show-dmabuf'' then (DUMP_OK, put (\<lambda>opt. opt\<lparr>o_showDmaBuf := True\<rparr>) im)
     else if plugin_enable env \<and> name = ''show-gpumem'' then (DUMP_OK, put (\<lambda>opt. opt\<lparr>o_showGpumem := True\<rparr>) im)
     else if name = ''show-arktsheap'' then (DUMP_OK, put (\<lambda>opt. opt\<lparr>o_showArktsHeap := True\<rparr>) im)
     else if name = ''show-leakthread'' then SetShowLeakthreadParam env im
     else if name = ''fd'' then (DUMP_OK, put (\<lambda>opt. opt\<lparr>o_isDumpFd := True\<rparr>) im)
     else if name = ''thread'' then (DUMP_OK, put (\<lambda>opt. opt\<lparr>o_isDumpThread := True\<rparr>) im)
     else if name = ''mem-jsheap'' then SetMemJsheapParam env optarg im
     else if name = ''mem-cjheap'' then SetMemCjheapParam env optarg im
     else if name = ''mem-heap'' then SetMemHeapParam im
     else if name = ''native'' then SetNativeParam env im
     else if name = ''kotlin'' then SetKotlinParam env im
     else if plugin_enable env \<and> name = ''jsvm'' then SetJsvmParam env im
     else if plugin_enable env \<and> name = ''arkweb-js'' then SetArkwebJsParam env im
     else if name = ''raw'' then SetRawParam env im
     else if name = ''prune'' then SetMemPruneParam im
     else if name = ''gc'' then SetGCParam env im
     else if name = ''leakobj'' then SetLeakobjParam env im
     else if name = ''single'' then SetHeapCombineParam im
     else if name = ''clean'' then SetCleanParam im
     else if name = ''ipc'' then
       (let im1 = note_event (\<lambda>e. e\<lparr>ev_opt := ''ipc''\<rparr>) (put (\<lambda>opt. opt\<lparr>o_isDumpIpc := True\<rparr>) im) in
        if length argv \<noteq> 4 then refuse env ipc_error im1 else (DUMP_OK, im1))
     else case SetIpcStatParam name im of (stat, im1) \<Rightarrow>
       if stat then (if \<not> o_isDumpIpc (im_opts im1) then refuse env ipc_error im1 else (DUMP_OK, im1))
       else if ParseEventCmdOption (im_opts im) name then SetEventParam env optarg name im
       else (DUMP_OK, im))"

section \<open>Short options and their values\<close>

fun sa_scan :: "cmd_env \<Rightarrow> string list \<Rightarrow> nat \<Rightarrow> bool option" where
  "sa_scan env argv 0 = Some False"
| "sa_scan env argv (Suc i) = do {
     arg \<leftarrow> nth_opt argv (Suc i);
     if IsSubStr env arg ''-'' then Some (arg = ''-s'' \<or> arg = ''-a'') else sa_scan env argv i
   }"

definition IsSADumperOption :: "cmd_env \<Rightarrow> string list \<Rightarrow> nat \<Rightarrow> bool option" where
  "IsSADumperOption env argv optind = sa_scan env argv (optind - 2)"

text \<open>The branches after the test for a system ability.\<close>

definition handle_late_option ::
    "cmd_env \<Rightarrow> string \<Rightarrow> string \<Rightarrow> DumpImplement \<Rightarrow> DumpStatus \<times> DumpImplement" where
  "handle_late_option env optionName optionValue im =
    (if optionName = ''--ipc'' then SetCmdIntegerParameter env optionValue (\<lambda>n opts. opts\<lparr>o_ipcStatPid := n\<rparr>) im
     else if optionName = ''--mem-heap'' then
       SetCmdIntegerParameter env optionValue (\<lambda>n opts. opts\<lparr>o_dumpHeapMemPid := n\<rparr>) im
     else if optionName = ''--native'' \<or> optionName = ''--kotlin''
        \<or> plugin_enable env \<and> (optionName = ''--jsvm'' \<or> optionName = ''--arkweb-js'') then
       SetCmdIntegerParameter env optionValue (\<lambda>n opts. opts\<lparr>o_dumpHeapArgPid := n\<rparr>) im
     else (DUMP_FAIL, SendErrorMessageIf env optionValue im))"

definition HandleOptionParameter ::
    "cmd_env \<Rightarrow> string list \<Rightarrow> nat \<Rightarrow> string \<Rightarrow> string \<Rightarrow> DumpImplement \<Rightarrow> (DumpStatus \<times> DumpImplement) option" where
  "HandleOptionParameter env argv optind optionName optionValue im =
    (if hiview_enable env \<and> optionName = ''--cpuusage'' then
       Some (SetCmdIntegerParameter env optionValue (\<lambda>n opts. opts\<lparr>o_cpuUsagePid := n\<rparr>) im)
     else if optionName = ''--mem'' then
       Some (if optionValue = ''SIGINT'' then (DUMP_OK, put (\<lambda>opts. opts\<lparr>o_isReceivedSigInt := True\<rparr>) im)
             else SetCmdIntegerParameter env optionValue (\<lambda>n opts. opts\<lparr>o_memPid := n\<rparr>) im)
     else if optionName = ''--net'' then
       Some (SetCmdIntegerParameter env optionValue (\<lambda>n opts. opts\<lparr>o_netPid := n\<rparr>) im)
     else if optionName = ''--storage'' then
       Some (SetCmdIntegerParameter env optionValue (\<lambda>n opts. opts\<lparr>o_storagePid := n\<rparr>) im)
     else if optionName = ''-c'' then
       Some (DUMP_OK, note_event (\<lambda>e. e\<lparr>subOpt := optionValue\<rparr>)
         (put (\<lambda>opts. opts\<lparr>o_systemArgs := o_systemArgs opts @ [optionValue]\<rparr>) im))
     else if optionName = ''-p'' then
       Some (SetCmdIntegerParameter env optionValue (\<lambda>n opts. opts\<lparr>o_processPid := n\<rparr>) im)
     else if optionName = ''-T'' then
       Some (SetCmdIntegerParameter env optionValue (\<lambda>n opts. opts\<lparr>o_threadId := n\<rparr>) im)
     else if optionName = ''-t'' then
       Some (SetCmdIntegerParameter env optionValue (\<lambda>n opts. opts\<lparr>o_timeInterval := n\<rparr>) im)
     else if optionName = ''-n'' then Some (SetShowCount env optionValue im)
     else if optionName = ''--list'' then Some (DUMP_OK, put (\<lambda>opts. opts\<lparr>o_processName := optionValue\<rparr>) im)
     else if optionName = ''--print'' then
       Some (DUMP_OK, if IsNumericStr env optionValue then put (\<lambda>opts. opts\<lparr>o_eventId := optionValue\<rparr>) im
         else put (\<lambda>opts. opts\<lparr>o_processName := optionValue\<rparr>) im)
     else do {
       sa \<leftarrow> IsSADumperOption env argv optind;
       Some (if sa then
         (DUMP_OK, note_event (\<lambda>e. e\<lparr>ev_target := ev_target e @ optionValue\<rparr>)
           (put (\<lambda>opts. opts\<lparr>o_abilitieNames := o_abilitieNames opts @ [optionValue]\<rparr>) im))
         else handle_late_option env optionName optionValue im)
     })"

definition SetCmdParameter ::
    "cmd_env \<Rightarrow> string list \<Rightarrow> nat \<Rightarrow> DumpImplement \<Rightarrow> (DumpStatus \<times> DumpImplement) option" where
  "SetCmdParameter env argv optind im =
    (if optind > 1 \<and> optind \<le> length argv then do {
       optionName \<leftarrow> nth_opt argv (optind - 2);
       optionValue \<leftarrow> nth_opt argv (optind - 1);
       HandleOptionParameter env argv optind optionName optionValue im
     }
     else Some (DUMP_OK, im))"

definition ParseCmdOptionForA ::
    "cmd_env \<Rightarrow> string list \<Rightarrow> getopt_event \<Rightarrow> DumpImplement \<Rightarrow> (DumpStatus \<times> DumpImplement) option" where
  "ParseCmdOptionForA env argv ge im =
    (if o_isDumpSystemAbility (im_opts im) then do {
       a \<leftarrow> ge_optarg ge;
       Some (DUMP_OK, note_event (\<lambda>e. e\<lparr>subOpt := ''a''\<rparr>)
         (put (\<lambda>opts. opts\<lparr>o_abilitieArgs := SplitStr env a '' '' False True\<rparr>) im))
     }
     else if o_isDumpIpc (im_opts im) then
       (let im1 = note_event (\<lambda>e. e\<lparr>ev_target := ''allPid''\<rparr>) (put (\<lambda>opts. opts\<lparr>o_isDumpAllIpc := True\<rparr>) im) in
        Some (case ge_optarg ge of None \<Rightarrow> (DUMP_OK, im1)
          | Some a \<Rightarrow>
             (case SplitStr env a ''--'' False True of
                [] \<Rightarrow> (DUMP_INVALID_ARG, SendErrorMessage env invalidError im1)
              | p # ps \<Rightarrow>
                 (case SetIpcStatParam p im1 of (done, im2) \<Rightarrow>
                    if done then (DUMP_OK, im2)
                    else (DUMP_INVALID_ARG, SendErrorMessage env (invalidError @ '':'' @ p) im2)))))
     else do {
       arg \<leftarrow> (if ge_optind ge = 0 then None else nth_opt argv (ge_optind ge - 1));
       Some (DUMP_INVALID_ARG,
         SendErrorMessage env (unrecognizedError @ RemoveCharacterFromStr arg CHR ''-'') im)
     })"

definition ParseShortCmdOption ::
    "cmd_env \<Rightarrow> string list \<Rightarrow> getopt_event \<Rightarrow> char \<Rightarrow> DumpImplement \<Rightarrow> (DumpStatus \<times> DumpImplement) option" where
  "ParseShortCmdOption env argv ge c im =
    (if c = CHR ''a'' then ParseCmdOptionForA env argv ge im
     else if c = CHR ''c'' then
       Some (DUMP_OK, note_event (\<lambda>e. e\<lparr>ev_opt := ev_opt e @ ''c''\<rparr>) (put (\<lambda>opts. opts\<lparr>o_isDumpSystem := True\<rparr>) im))
     else if c = CHR ''e'' then
       Some (DUMP_OK, note_event (\<lambda>e. e\<lparr>ev_opt := ''e''\<rparr>) (put (\<lambda>opts. opts\<lparr>o_isFaultLog := True\<rparr>) im))
     else if c = CHR ''l'' then
       Some (DUMP_OK, note_event (\<lambda>e. e\<lparr>ev_opt := ev_opt e @ ''l''\<rparr>) (put (\<lambda>opts. opts\<lparr>o_isDumpList := True\<rparr>) im))
     else if c = CHR ''s'' then
       Some (DUMP_OK, note_event (\<lambda>e. e\<lparr>ev_opt := ev_opt e @ ''s''\<rparr>) (put (\<lambda>opts. opts\<lparr>o_isDumpSystemAbility := True\<rparr>) im))
     else if c = CHR ''p'' then
       Some (DUMP_OK, note_event (\<lambda>e. e\<lparr>ev_opt := ''p''\<rparr>) (put (\<lambda>opts. opts\<lparr>o_isDumpProcesses := True\<rparr>) im))
     else if c = CHR ''v'' then
       Some (DUMP_OK, note_event (\<lambda>e. e\<lparr>subOpt := ''v''\<rparr>) (put (\<lambda>opts. opts\<lparr>o_isShowSmapsInfo := True\<rparr>) im))
     else SetCmdParameter env argv (ge_optind ge) im)"

fun parse_loop ::
    "cmd_env \<Rightarrow> string list \<Rightarrow> getopt_event list \<Rightarrow> DumpImplement \<Rightarrow> (DumpStatus \<times> DumpImplement) option" where
  "parse_loop env argv [] im = Some (DUMP_OK, im)"
| "parse_loop env argv (ge # ges) im =
    (case ge_c ge of
       LongOpt optionIndex \<Rightarrow> do {
         longOption \<leftarrow> nth_opt (LONG_OPTIONS env) optionIndex;
         let (status, im') = ParseLongCmdOption env argv (ge_optarg ge) (fst longOption) im;
         if status \<noteq> DUMP_OK then Some (status, im') else parse_loop env argv ges im'
       }
     | OptChar c \<Rightarrow>
        if c = CHR ''h'' then Some (DUMP_HELP, CmdHelp env im)
        else if c = CHR ''?'' then
          map_option (\<lambda>im'. (DUMP_INVALID_ARG, im')) (CheckIncorrectCmdOption env argv ge im)
        else do {
          (status, im') \<leftarrow> ParseShortCmdOption env argv ge c im;
          if status \<noteq> DUMP_OK then Some (status, im') else parse_loop env argv ges im'
        })"

section \<open>Checks of the options\<close>

definition GetProcessNameByPid :: "cmd_env \<Rightarrow> int \<Rightarrow> string option" where
  "GetProcessNameByPid env pid =
    (case proc_content env (''/proc/'' @ to_string pid @ ''/cmdline'') of None \<Rightarrow> None
     | Some content \<Rightarrow>
        (case SplitStr env content '' '' False False of [] \<Rightarrow> None
         | name0 # names \<Rightarrow>
            (let longNames = SplitStr env name0 ''/'' False False in
             if longNames = [] then None
             else if contains name0 ''/bin'' then Some (last longNames) else Some name0)))"

definition IsHidumperClientProcess :: "cmd_env \<Rightarrow> int \<Rightarrow> bool" where
  "IsHidumperClientProcess env pid =
    (case GetProcessNameByPid env pid of None \<Rightarrow> False | Some procName \<Rightarrow> contains procName ''hidumper'')"

fun alive_checks :: "cmd_env \<Rightarrow> (bool \<times> int) list \<Rightarrow> DumpImplement \<Rightarrow> DumpStatus \<times> DumpImplement" where
  "alive_checks env [] im = (DUMP_OK, im)"
| "alive_checks env ((given, pid) # cs) im =
    (if given \<and> \<not> CheckProcessAlive_pid (dev env) pid then (DUMP_FAIL, SendPidErrorMessage env pid im)
     else alive_checks env cs im)"

definition CheckProcessAlive :: "cmd_env \<Rightarrow> DumpImplement \<Rightarrow> DumpStatus \<times> DumpImplement" where
  "CheckProcessAlive env im =
    (let opts = im_opts im in
     alive_checks env
      [(o_cpuUsagePid opts > -1, o_cpuUsagePid opts), (o_memPid opts > -1, o_memPid opts),
       (o_processPid opts > -1, o_processPid opts), (o_storagePid opts > -1, o_storagePid opts),
       (o_netPid opts > -1, o_netPid opts), (o_dumpJsHeapMemPid opts > 0, o_dumpJsHeapMemPid opts),
       (o_dumpCjHeapMemPid opts > 0, o_dumpCjHeapMemPid opts), (o_dumpHeapMemPid opts > 0, o_dumpHeapMemPid opts),
       (o_dumpHeapArgPid opts > 0, o_dumpHeapArgPid opts), (o_ipcStatPid opts > 0, o_ipcStatPid opts)] im)"

definition CheckJsHeapPermission :: "cmd_env \<Rightarrow> int \<Rightarrow> DumpImplement \<Rightarrow> bool \<times> DumpImplement" where
  "CheckJsHeapPermission env pid im =
    (if CheckAppDebugVersion (dev env) pid then (True, im)
     else
       let isProfileable = CheckAppProfileable (dev env) pid;
           isInhouse = CheckAppInhouse (dev env) pid;
           isDeveloperMode = IsDeveloperModeEnabled (dev env) in
       if \<not> isProfileable \<or> \<not> isInhouse \<or> \<not> isDeveloperMode then
         (False, SendPermissionCheckErrorMessage env ''--mem-jsheap'' isProfileable isInhouse isDeveloperMode im)
       else (True, im))"

definition IsApplicationPid :: "cmd_env \<Rightarrow> int \<Rightarrow> bool" where
  "IsApplicationPid env pid =
    (case process_info (penv env) pid of (found, pidInfo) \<Rightarrow> found \<and> \<not> p_uid pidInfo \<le> 20000)"

definition heap_pid :: "DumperOpts \<Rightarrow> int" where
  "heap_pid opt = (if o_dumpHeapArgPid opt > 0 then o_dumpHeapArgPid opt else o_dumpHeapMemPid opt)"

definition CheckDumpPermission :: "cmd_env \<Rightarrow> DumpImplement \<Rightarrow> bool \<times> DumpImplement" where
  "CheckDumpPermission env im =
    (let opt = im_opts im; debug = CheckAppDebugVersion (dev env) in
     if (o_isDumpFd opt \<or> o_isDumpThread opt) \<and> o_processPid opt \<le> 0 then
       (False, SendErrorMessage env (invalidError @ ''--fd/--thread requires -p PID'') im)
     else if \<not> IsUserMode (dev env) then (True, im)
     else if o_isShowSmaps opt \<and> reqUid env \<noteq> 1201 \<and> \<not> debug (o_memPid opt) then
       (False, SendReleaseAppErrorMessage env ''--mem-smaps'' im)
     else
       (case (if o_isDumpJsHeapMem opt then CheckJsHeapPermission env (o_dumpJsHeapMemPid opt) im else (True, im)) of
          (jsOk, im1) \<Rightarrow>
        if \<not> jsOk then (False, im1)
        else if o_isDumpCjHeapMem opt \<and> \<not> debug (o_dumpCjHeapMemPid opt) then
          (False, SendReleaseAppErrorMessage env ''--mem-cjheap'' im1)
        else if o_isDumpHeapMem opt \<and> \<not> debug (heap_pid opt) then
          (False, SendReleaseAppErrorMessage env ''--mem-heap'' im1)
        else if o_showLeakThread opt \<and> IsApplicationPid env (o_memPid opt) \<and> \<not> debug (o_memPid opt) then
          (False, SendReleaseAppErrorMessage env ''--show-leakthread'' im1)
        else if o_isDumpMem opt \<and> o_timeInterval opt > 0 then
          (False, SendReleaseVersionErrorMessage env ''-t'' im1)
        else (True, im1)))"

definition CheckUnableToDumpAll :: "string list \<Rightarrow> DumperOpts \<Rightarrow> bool" where
  "CheckUnableToDumpAll argv opt =
    (let validArgc = length argv = 1 \<or> length argv = 2 \<and> IsDumpZip opt in
     \<not> IsSelectAny opt \<and> \<not> validArgc)"

definition render_suffix :: string where "render_suffix = '':render''"

text \<open>The name before \<open>:render\<close>, which has to be non-empty.\<close>

definition main_proc_name :: "string \<Rightarrow> string option" where
  "main_proc_name name =
    (let n = length name - length render_suffix in
     if length name > length render_suffix \<and> drop n name = render_suffix then Some (take n name) else None)"

definition find_main_pid :: "cmd_env \<Rightarrow> string \<Rightarrow> int" where
  "find_main_pid env mainProcName =
    (case find (\<lambda>info. p_cmdline info = mainProcName) (all_pid_infos env) of
       None \<Rightarrow> -1 | Some info \<Rightarrow> p_pid info)"

definition ValidateRenderProcessAndFindMainPid ::
    "cmd_env \<Rightarrow> int \<Rightarrow> DumpImplement \<Rightarrow> bool \<times> DumpImplement" where
  "ValidateRenderProcessAndFindMainPid env renderPid im =
    (case GetProcessNameByPid env renderPid of
       None \<Rightarrow> (False,
         SendErrorMessage env ''Fix: Verify the pid is valid and the process is running.''
          (SendErrorMessage env (''Error [RUNTIME]: Cannot get process name for pid '' @ to_string renderPid @ ''.'') im))
     | Some renderProcName \<Rightarrow>
       (case main_proc_name renderProcName of
          None \<Rightarrow> (False,
            SendErrorMessage env (''Fix: Set '--mem-heap <render_pid> --arkweb-js' where '' @ ''<render_pid> is a valid render process.'')
             (SendErrorMessage env (''Error [ARGUMENT]: Invalid pid '' @ to_string renderPid @
                '' for '--arkweb-js' (must be a render process ending with ':render').'') im))
        | Some mainProcName \<Rightarrow>
           (let mainPid = find_main_pid env mainProcName in
            if mainPid \<le> 0 then (False,
              SendErrorMessage env ''Fix: Verify the render process is correctly associated with a main process.''
               (SendErrorMessage env (''Error [RUNTIME]: Cannot find main process for '' @ [CHR 0x27] @ mainProcName @ [CHR 0x27] @ ''.'') im))
            else (True, put (\<lambda>opt. opt\<lparr>o_dumpHeapArgPid := (if o_dumpHeapArgPid opt > 0 then mainPid else 0),
                   o_dumpHeapMemPid := (if o_dumpHeapMemPid opt > 0 then mainPid else 0)\<rparr>) im))))"

definition CheckArkwebJsParameter :: "cmd_env \<Rightarrow> DumpImplement \<Rightarrow> bool \<times> DumpImplement" where
  "CheckArkwebJsParameter env im =
    (if o_isDumpHeapMemGc (im_opts im) \<and> o_dumpRawHeap (im_opts im) then (False,
       SendErrorMessage env ''Fix: Remove either '--raw' or '--gc' from the command.''
        (SendErrorMessage env ''Error [CONFLICT]: '--raw' and '--gc' cannot be used together with '--arkweb-js'.'' im))
     else
       let renderPid = heap_pid (im_opts im) in
       ValidateRenderProcessAndFindMainPid env renderPid (put (\<lambda>opt. opt\<lparr>o_dumpHeapRenderPid := renderPid\<rparr>) im))"

definition CheckKmpParameter :: "cmd_env \<Rightarrow> DumpImplement \<Rightarrow> bool \<times> DumpImplement" where
  "CheckKmpParameter env im =
    (let opt = im_opts im;
         extraCount = of_bool (o_isDumpHeapMemGc opt) + of_bool (o_dumpRawHeap opt)
           + of_bool (o_isDumpHeapLeakobj opt) + of_bool (o_threadId opt \<noteq> 0) :: int in
     if extraCount = 0 \<or> extraCount = 1 \<and> o_isDumpHeapMemGc opt then (True, im)
     else (False,
       SendErrorMessage env (''Fix: Use 'hidumper --mem-heap <pid> --kotlin' or 'hidumper --mem-heap <pid> --kotlin --gc'' @ [CHR 0x27])
        (SendErrorMessage env ''Error [ARGUMENT]: Among optional parameters, only '--gc' is allowed for KMP heap.'' im)))"

definition heap_arg_count :: "DumperOpts \<Rightarrow> int" where
  "heap_arg_count opt = of_bool (o_isDumpHeapNative opt) + of_bool (o_isDumpHeapKotlin opt)
     + of_bool (o_isDumpHeapJsvm opt) + of_bool (o_isDumpHeapArkwebJs opt)"

definition CheckDumpHeapMemParameter :: "cmd_env \<Rightarrow> string list \<Rightarrow> DumpImplement \<Rightarrow> bool \<times> DumpImplement" where
  "CheckDumpHeapMemParameter env argv im =
    (let opt = im_opts im in
     if length argv < 4 then (False,
       SendErrorMessage env (''Fix: Set '--mem-heap <pid> <ARG>' where <ARG> is one of '' @ ''--native, --kotlin, --jsvm, --arkweb-js.'')
        (SendErrorMessage env ''Error [ARGUMENT]: Insufficient arguments for '--mem-heap' (requires at least pid and ARG).'' im))
     else if heap_arg_count opt \<noteq> 1 then (False,
       SendErrorMessage env ''Fix: Add one of --native, --kotlin, --jsvm, --arkweb-js after the pid.''
        (SendErrorMessage env ''Error [ARGUMENT]: Invalid ARG for '--mem-heap' (must specify exactly one ARG).'' im))
     else if \<not> (o_dumpHeapMemPid opt > 0 \<and> o_dumpHeapArgPid opt = 0
              \<or> o_dumpHeapMemPid opt = 0 \<and> o_dumpHeapArgPid opt > 0) then (False,
       SendErrorMessage env ''Fix: Set '--mem-heap <pid> <ARG>' where <pid> is a valid process id.''
        (SendErrorMessage env ''Error [ARGUMENT]: Invalid PID for '--mem-heap' (must specify exactly one pid).'' im))
     else if o_isDumpHeapArkwebJs opt then CheckArkwebJsParameter env im
     else if o_isDumpHeapKotlin opt then CheckKmpParameter env im
     else (True, im))"

definition CheckShowLeakthreadParameter :: "cmd_env \<Rightarrow> DumpImplement \<Rightarrow> bool \<times> DumpImplement" where
  "CheckShowLeakthreadParameter env im =
    (if o_memPid (im_opts im) \<le> 0 then
       (False, SendErrorMessage env leakthread_fix (SendErrorMessage env leakthread_error im))
     else if \<not> IsApplicationPid env (o_memPid (im_opts im)) then
       (False, SendNotAppErrorMessage env ''--show-leakthread'' im)
     else (True, im))"

definition CheckJsHeapSingleParam :: "cmd_env \<Rightarrow> DumpImplement \<Rightarrow> bool \<times> DumpImplement" where
  "CheckJsHeapSingleParam env im =
    (let opt = im_opts im in
     if \<not> o_isDumpJsHeapCombine opt then (True, im)
     else if \<not> o_dumpJsRawHeap opt then
       (False, SendErrorMessage env ''mem-jsheap paramerr, '--single' only used with '--raw'.'' im)
     else if o_threadId opt \<noteq> 0 then
       (False, SendErrorMessage env ''mem-jsheap paramerr, '--single' not need 'tid'.'' im)
     else (True, im))"

definition CheckMemDetailParamSupported :: "cmd_env \<Rightarrow> DumpImplement \<Rightarrow> bool \<times> DumpImplement" where
  "CheckMemDetailParamSupported env im =
    (let opt = im_opts im in
     if \<not> o_showAshmem opt \<and> \<not> o_showDmaBuf opt \<and> \<not> o_showGpumem opt then (True, im)
     else if is_emulator env then
       (False, SendErrorMessage env ''The capability is not supported on the emulator at this time.'' im)
     else (True, im))"

section \<open>The whole command\<close>

definition ValidateDumpOptions :: "cmd_env \<Rightarrow> string list \<Rightarrow> DumpImplement \<Rightarrow> DumpStatus \<times> DumpImplement" where
  "ValidateDumpOptions env argv im0 =
    (case (if o_isDumpJsHeapMem (im_opts im0) then CheckJsHeapSingleParam env im0 else (True, im0)) of (ok1, im1) \<Rightarrow>
     if \<not> ok1 then (DUMP_FAIL, im1) else
     (case (if o_isDumpMem (im_opts im1) then CheckMemDetailParamSupported env im1 else (True, im1)) of (ok2, im2) \<Rightarrow>
      if \<not> ok2 then (DUMP_FAIL, im2) else
      (case (if o_isDumpHeapMem (im_opts im2) then CheckDumpHeapMemParameter env argv im2 else (True, im2)) of (ok3, im3) \<Rightarrow>
       if \<not> ok3 then refuse env [] im3 else
       (case (if o_showLeakThread (im_opts im3) then CheckShowLeakthreadParameter env im3 else (True, im3)) of (ok4, im4) \<Rightarrow>
        if \<not> ok4 then (DUMP_HELP, CmdHelp env im4)
        else if CheckUnableToDumpAll argv (im_opts im4) then (DUMP_HELP, CmdHelp env im4)
        else (DUMP_OK, im4)))))"

definition RemoveDuplicateString_opts :: "DumperOpts \<Rightarrow> DumperOpts" where
  "RemoveDuplicateString_opts opts =
    opts\<lparr>o_logArgs := RemoveDuplicateString (o_logArgs opts),
      o_systemArgs := RemoveDuplicateString (o_systemArgs opts),
      o_abilitieNames := RemoveDuplicateString (o_abilitieNames opts)\<rparr>"

definition CmdParseWithParameter_args ::
    "cmd_env \<Rightarrow> string list \<Rightarrow> getopt_event list \<Rightarrow> DumpImplement \<Rightarrow> (DumpStatus \<times> DumpImplement) option" where
  "CmdParseWithParameter_args env argv ges im = do {
     (status, im1) \<leftarrow> parse_loop env argv ges im;
     Some (if status \<noteq> DUMP_OK then (status, im1) else
       (case CheckProcessAlive env im1 of (alive, im2) \<Rightarrow>
        if alive \<noteq> DUMP_OK then (alive, im2) else
        (case CheckDumpPermission env im2 of (permitted, im3) \<Rightarrow>
         if \<not> permitted then
           (DUMP_HELP, if \<not> o_isShowSmaps (im_opts im3) \<or> \<not> o_isDumpMem (im_opts im3) then CmdHelp env im3 else im3)
         else
         (case ValidateDumpOptions env argv im3 of (dumpStatus, im4) \<Rightarrow>
          if dumpStatus \<noteq> DUMP_OK then (dumpStatus, im4)
          else (DUMP_OK, put RemoveDuplicateString_opts im4)))))
   }"

text \<open>The error text of \<open>DumperOpts::CheckOptions\<close>, or \<open>None\<close> for \<open>return true\<close>.\<close>

definition CheckOptions :: "cmd_env \<Rightarrow> DumperOpts \<Rightarrow> string option" where
  "CheckOptions env this =
    (let path = TrimStr env (o_path this); systemList = GetSectionNames CONFIG_GROUP_SYSTEM_prefix [] in
     if o_cpuUsagePid this < -1 then Some (to_string (o_cpuUsagePid this))
     else if o_memPid this < -1 then Some (to_string (o_memPid this))
     else if o_isDumpList this \<and> \<not> o_isDumpService this \<and> \<not> o_isDumpSystemAbility this \<and> \<not> o_isDumpSystem this
       then Some ''-l''
     else if o_isEventDetail this \<and> o_isEventList this then Some ''--list and --detail cannot be used together''
     else if o_isDumpFd this \<and> o_isDumpThread this then Some ''--fd and --thread cannot be used together''
     else if path \<noteq> [] \<and> \<not> StartWith path ''/'' then Some (o_path this)
     else case find (\<lambda>name. StrToId (sa_val env) (StrToInt env) name = -1) (o_abilitieNames this) of
       Some name \<Rightarrow> Some name
     | None \<Rightarrow>
        (case find (\<lambda>arg. arg \<notin> set systemList) (o_systemArgs this) of
           Some arg \<Rightarrow> Some arg
         | None \<Rightarrow> CheckRemainingOptions this))"

definition CmdParseWithParameter ::
    "cmd_env \<Rightarrow> string list \<Rightarrow> getopt_event list \<Rightarrow> DumpImplement \<Rightarrow> (DumpStatus \<times> DumpImplement) option" where
  "CmdParseWithParameter env argv ges im = do {
     (ret, im1) \<leftarrow> CmdParseWithParameter_args env argv ges (note_event (\<lambda>e. e\<lparr>callerPpid := reqCallerPpid env\<rparr>) im);
     Some (if ret \<noteq> DUMP_OK then (ret, im1)
       else case CheckOptions env (im_opts im1) of
         None \<Rightarrow> (DUMP_OK, im1)
       | Some errorStr \<Rightarrow> (DUMP_INVALID_ARG, SendErrorMessage env (invalidError @ errorStr) im1))
   }"

definition CheckArgs :: "string list \<Rightarrow> DumpImplement \<Rightarrow> DumpStatus \<times> DumpImplement" where
  "CheckArgs argv im =
    (if length argv > ARG_MAX_COUNT then (DUMP_FAIL, im)
     else if list_ex (\<lambda>arg. length arg = 0 \<or> length arg > SINGLE_ARG_MAXLEN) argv then (DUMP_FAIL, im)
     else
       let dumpCmd = concat (map (\<lambda>arg. arg @ '' '') argv) in
       (DUMP_OK, if length dumpCmd > 0 then note_event (\<lambda>e. e\<lparr>arguments := butlast dumpCmd\<rparr>) im else im))"

definition ProcessDumpOptions :: "cmd_env \<Rightarrow> int \<Rightarrow> DumperOpts \<Rightarrow> DumperOpts" where
  "ProcessDumpOptions env clientPid opts =
    (if IsHidumperClientProcess env clientPid then (AddSelectAll opts)\<lparr>o_isAppendix := True\<rparr>
     else
       let opts1 = opts\<lparr>o_isDumpCpuFreq := True\<rparr>;
           opts2 = (if hiview_enable env then opts1\<lparr>o_isDumpCpuUsage := True, o_cpuUsagePid := clientPid\<rparr> else opts1) in
       opts2\<lparr>o_isDumpMem := True, o_memPid := clientPid\<rparr>)"

definition ReportJsheap :: "DumpImplement \<Rightarrow> DumpImplement" where
  "ReportJsheap im =
    (let opts = im_opts im in
     if \<not> o_isDumpJsHeapMem opts \<or> o_isDumpJsHeapMemGC opts then im
     else im\<lparr>im_reports := im_reports im @ [(to_string (o_dumpJsHeapMemPid opts),
       if o_dumpJsRawHeap opts then ''hidumperRawHeap'' else ''hidumper'')]\<rparr>)"

definition ReportCjheap :: "DumpImplement \<Rightarrow> DumpImplement" where
  "ReportCjheap im =
    (let opts = im_opts im in
     if \<not> o_isDumpCjHeapMem opts \<or> o_isDumpCjHeapMemGC opts then im
     else im\<lparr>im_reports := im_reports im @ [(to_string (o_dumpCjHeapMemPid opts), ''hidumper'')]\<rparr>)"

definition memheap_type :: "DumperOpts \<Rightarrow> string option" where
  "memheap_type opts =
    (if o_isDumpHeapKotlin opts then (if o_isDumpHeapMemGc opts then None else Some ''hidumperKmpHeap'')
     else if o_isDumpHeapNative opts then Some ''hidumperNativeHeap''
     else if o_isDumpHeapJsvm opts then Some (if o_dumpRawHeap opts then ''hidumperJsvmRawHeap'' else ''hidumperJsvmHeap'')
     else if o_isDumpHeapArkwebJs opts then (if o_isDumpHeapMemGc opts then None else Some ''hidumperArkwebJsHeap'')
     else None)"

definition ReportMemheap :: "DumpImplement \<Rightarrow> DumpImplement" where
  "ReportMemheap im =
    (let opts = im_opts im in
     if \<not> o_isDumpHeapMem opts then im
     else case memheap_type opts of None \<Rightarrow> im
       | Some strType \<Rightarrow> im\<lparr>im_reports := im_reports im @ [(to_string (heap_pid opts), strType)]\<rparr>)"

definition CmdParse ::
    "cmd_env \<Rightarrow> string list \<Rightarrow> getopt_event list \<Rightarrow> DumpImplement \<Rightarrow> (DumpStatus \<times> DumpImplement) option" where
  "CmdParse env argv ges im =
    (case CheckArgs argv im of (ok, im0) \<Rightarrow>
     if ok \<noteq> DUMP_OK then Some (DUMP_FAIL, im0)
     else do {
       (status, im1) \<leftarrow> CmdParseWithParameter env argv ges (im0\<lparr>im_opts := Reset DumperOpts_zero\<rparr>);
       Some (if status \<noteq> DUMP_OK then (status, im1)
         else
           let im2 = (if \<not> IsSelectAny (im_opts im1) then put (ProcessDumpOptions env (reqPid env)) im1 else im1) in
           (DUMP_OK, ReportMemheap (ReportCjheap (ReportJsheap im2))))
     })"

definition event_init :: DumperSysEventParams where
  "event_init = \<lparr>errorCode = 0, callerPpid = -1, ev_opt = [], subOpt = [], ev_target = [], arguments = [], errorMsg = []\<rparr>"

definition status_code :: "DumpStatus \<Rightarrow> int" where
  "status_code s = (case s of DUMP_REQUEST_MAX \<Rightarrow> -5 | DUMP_TIMEOUT \<Rightarrow> -4 | DUMP_INVALID_ARG \<Rightarrow> -3
     | DUMP_NOPERMISSION \<Rightarrow> -2 | DUMP_FAIL \<Rightarrow> -1 | DUMP_OK \<Rightarrow> 0 | DUMP_HELP \<Rightarrow> 1 | DUMP_CHECK_OK \<Rightarrow> 2 | DUMP_MORE_DATA \<Rightarrow> 3)"

text \<open>The parameters end in the request: options, configuration list and the state of the parser.\<close>

definition InitHandle ::
    "cmd_env \<Rightarrow> string list \<Rightarrow> getopt_event list \<Rightarrow> DumpImplement
      \<Rightarrow> (DumpStatus \<times> DumpImplement \<times> flat_cfg list) option" where
  "InitHandle env argv ges im = do {
     (ret, im1) \<leftarrow> CmdParse env argv ges (im\<lparr>im_event := event_init\<rparr>);
     Some (if ret \<noteq> DUMP_OK then
         (ret, note_event (\<lambda>e. e\<lparr>errorCode := status_code ret, errorMsg := ''parse cmd fail''\<rparr>) im1, [])
       else
         (case GetDumperConfigs
            ((penv env)\<lparr>app_debug := CheckAppDebugVersion (dev env), user_mode := IsUserMode (dev env)\<rparr>)
            (ConfigUtils_new (reqUid env) (im_opts im1)) of (st, cu, cfgs) \<Rightarrow>
          (DUMP_OK, im1\<lparr>im_writes := im_writes im1 @ clientWrites cu\<rparr>, cfgs)))
   }"

end
