(* ===== verification/Dump_Implement_Facts.thy ===== *)
theory Dump_Implement_Facts
  imports Dump_Implement
begin

text \<open>
  Facts about the command line: what messages leave alone, a locale for predicates of the options
  that every accepted step of the parser keeps, and what the checks after the loop guarantee.
\<close>

section \<open>Messages change no options\<close>

lemma send_raw_opts [simp]: "im_opts (send_raw env s im) = im_opts im"
  by (simp add: send_raw_def)

lemma SendErrorMessage_opts [simp]: "im_opts (SendErrorMessage env s im) = im_opts im"
  by (simp add: SendErrorMessage_def)

lemma CmdHelp_opts [simp]: "im_opts (CmdHelp env im) = im_opts im"
  by (simp add: CmdHelp_def)

lemma refuse_status [simp]: "fst (refuse env s im) = DUMP_HELP"
  by (simp add: refuse_def)

lemma refuse_not_ok [simp]: "refuse env s im \<noteq> (DUMP_OK, im')"
  by (simp add: refuse_def)

lemma alive_checks_opts: "im_opts (snd (alive_checks env cs im)) = im_opts im"
  by (induction env cs im rule: alive_checks.induct) (auto simp: SendPidErrorMessage_def)

lemma CheckProcessAlive_opts: "CheckProcessAlive env im = (s, im') \<Longrightarrow> im_opts im' = im_opts im"
  using alive_checks_opts by (metis CheckProcessAlive_def snd_conv)

lemma SetCmdIntegerParameter_ok:
  "SetCmdIntegerParameter env str value im = (DUMP_OK, im') \<Longrightarrow>
    \<exists>n. StrToInt env str = Some n \<and> im_opts im' = value n (im_opts im)"
  by (auto simp: SetCmdIntegerParameter_def split: if_splits option.splits)

lemma SetShowCount_ok:
  "SetShowCount env str im = (DUMP_OK, im') \<Longrightarrow> \<exists>n. im_opts im' = (im_opts im)\<lparr>o_showEventCount := n\<rparr>"
  by (auto simp: SetShowCount_def split: prod.splits if_splits dest!: SetCmdIntegerParameter_ok)

lemma set_time_ok:
  "set_time env optarg value im = (DUMP_OK, im') \<Longrightarrow> \<exists>t. im_opts im' = value t (im_opts im)"
  by (auto simp: set_time_def Let_def split: option.splits if_splits)

section \<open>The options a command line may set\<close>

text \<open>
  The abstract option machine: the single changes of the options that the command line syntax
  allows, with the options each change needs to be set before.
\<close>

inductive opt_step :: "cmd_env \<Rightarrow> DumperOpts \<Rightarrow> DumperOpts \<Rightarrow> bool" for env where
  cpufreq: "opt_step env opts (opts\<lparr>o_isDumpCpuFreq := True\<rparr>)"
| mem: "opt_step env opts (opts\<lparr>o_isDumpMem := True\<rparr>)"
| net: "opt_step env opts (opts\<lparr>o_isDumpNet := True\<rparr>)"
| storage: "opt_step env opts (opts\<lparr>o_isDumpStorage := True\<rparr>)"
| ashmem: "opt_step env opts (opts\<lparr>o_showAshmem := True\<rparr>)"
| dmabuf: "opt_step env opts (opts\<lparr>o_showDmaBuf := True\<rparr>)"
| arktsheap: "opt_step env opts (opts\<lparr>o_showArktsHeap := True\<rparr>)"
| fd: "opt_step env opts (opts\<lparr>o_isDumpFd := True\<rparr>)"
| thread: "opt_step env opts (opts\<lparr>o_isDumpThread := True\<rparr>)"
| mem_heap: "opt_step env opts (opts\<lparr>o_isDumpHeapMem := True\<rparr>)"
| single: "opt_step env opts (opts\<lparr>o_isDumpJsHeapCombine := True\<rparr>)"
| ipc: "opt_step env opts (opts\<lparr>o_isDumpIpc := True\<rparr>)"
| system: "opt_step env opts (opts\<lparr>o_isDumpSystem := True\<rparr>)"
| fault_log: "opt_step env opts (opts\<lparr>o_isFaultLog := True\<rparr>)"
| dump_list: "opt_step env opts (opts\<lparr>o_isDumpList := True\<rparr>)"
| ability: "opt_step env opts (opts\<lparr>o_isDumpSystemAbility := True\<rparr>)"
| processes: "opt_step env opts (opts\<lparr>o_isDumpProcesses := True\<rparr>)"
| smaps_info: "opt_step env opts (opts\<lparr>o_isShowSmapsInfo := True\<rparr>)"
| sigint: "opt_step env opts (opts\<lparr>o_isReceivedSigInt := True\<rparr>)"
| cpuusage: "hiview_enable env \<Longrightarrow> opt_step env opts (opts\<lparr>o_isDumpCpuUsage := True\<rparr>)"
| gpumem: "plugin_enable env \<Longrightarrow> opt_step env opts (opts\<lparr>o_showGpumem := True\<rparr>)"
| zip: "opt_step env opts (opts\<lparr>o_path := ''/data/log/hidumper/'' @ GetTime env @ ''.zip''\<rparr>)"
| smaps: "StrToInt env str = Some n \<Longrightarrow> opt_step env opts (opts\<lparr>o_isShowSmaps := True, o_memPid := n\<rparr>)"
| jsheap: "StrToInt env str = Some n \<Longrightarrow> opt_step env opts (opts\<lparr>o_isDumpJsHeapMem := True, o_dumpJsHeapMemPid := n\<rparr>)"
| cjheap: "StrToInt env str = Some n \<Longrightarrow> opt_step env opts (opts\<lparr>o_isDumpCjHeapMem := True, o_dumpCjHeapMemPid := n\<rparr>)"
| native: "o_isDumpHeapMem opts \<Longrightarrow> opt_step env opts (opts\<lparr>o_isDumpHeapNative := True\<rparr>)"
| kotlin: "o_isDumpHeapMem opts \<Longrightarrow> opt_step env opts (opts\<lparr>o_isDumpHeapKotlin := True\<rparr>)"
| jsvm: "plugin_enable env \<Longrightarrow> o_isDumpHeapMem opts \<Longrightarrow> opt_step env opts (opts\<lparr>o_isDumpHeapJsvm := True\<rparr>)"
| arkweb_js: "plugin_enable env \<Longrightarrow> o_isDumpHeapMem opts \<Longrightarrow> opt_step env opts (opts\<lparr>o_isDumpHeapArkwebJs := True\<rparr>)"
| raw_js: "o_isDumpJsHeapMem opts \<Longrightarrow> opt_step env opts (opts\<lparr>o_dumpJsRawHeap := True\<rparr>)"
| raw_heap: "\<not> o_isDumpJsHeapMem opts \<Longrightarrow> o_isDumpHeapMem opts \<Longrightarrow> opt_step env opts (opts\<lparr>o_dumpRawHeap := True\<rparr>)"
| prune: "o_isDumpMem opts \<Longrightarrow> opt_step env opts (opts\<lparr>o_dumpMemPrune := True\<rparr>)"
| leakthread: "o_isDumpMem opts \<Longrightarrow> opt_step env opts (opts\<lparr>o_showLeakThread := True\<rparr>)"
| gc_js: "o_isDumpJsHeapMem opts \<Longrightarrow> opt_step env opts (opts\<lparr>o_isDumpJsHeapMemGC := True\<rparr>)"
| gc_cj: "\<not> o_isDumpJsHeapMem opts \<Longrightarrow> o_isDumpCjHeapMem opts \<Longrightarrow> opt_step env opts (opts\<lparr>o_isDumpCjHeapMemGC := True\<rparr>)"
| gc_heap: "\<not> o_isDumpJsHeapMem opts \<Longrightarrow> \<not> o_isDumpCjHeapMem opts \<Longrightarrow> o_isDumpHeapMem opts \<Longrightarrow> opt_step env opts (opts\<lparr>o_isDumpHeapMemGc := True\<rparr>)"
| leakobj_js: "o_isDumpJsHeapMem opts \<Longrightarrow> opt_step env opts (opts\<lparr>o_isDumpJsHeapLeakobj := True\<rparr>)"
| leakobj_heap: "\<not> o_isDumpJsHeapMem opts \<Longrightarrow> o_isDumpHeapMem opts \<Longrightarrow> o_isDumpHeapNative opts \<Longrightarrow> opt_step env opts (opts\<lparr>o_isDumpHeapLeakobj := True\<rparr>)"
| clean: "o_isDumpJsHeapMem opts \<Longrightarrow> opt_step env opts (opts\<lparr>o_isDumpJsHeapClean := True\<rparr>)"
| start_stat: "o_isDumpIpc opts \<Longrightarrow> opt_step env opts (opts\<lparr>o_isDumpIpcStartStat := True\<rparr>)"
| stop_stat: "o_isDumpIpc opts \<Longrightarrow> opt_step env opts (opts\<lparr>o_isDumpIpcStopStat := True\<rparr>)"
| stat: "o_isDumpIpc opts \<Longrightarrow> opt_step env opts (opts\<lparr>o_isDumpIpcStat := True\<rparr>)"
| all_ipc: "o_isDumpIpc opts \<Longrightarrow> opt_step env opts (opts\<lparr>o_isDumpAllIpc := True\<rparr>)"
| event_list: "o_isFaultLog opts \<Longrightarrow> opt_step env opts (opts\<lparr>o_isEventList := True\<rparr>)"
| event_detail: "o_isFaultLog opts \<Longrightarrow> opt_step env opts (opts\<lparr>o_isEventDetail := True\<rparr>)"
| since: "o_isFaultLog opts \<Longrightarrow> 0 \<le> t \<Longrightarrow> opt_step env opts (opts\<lparr>o_startTime := t\<rparr>)"
| until: "o_isFaultLog opts \<Longrightarrow> 0 \<le> t \<Longrightarrow> opt_step env opts (opts\<lparr>o_endTime := t\<rparr>)"
| cpuusage_pid: "StrToInt env str = Some n \<Longrightarrow> opt_step env opts (opts\<lparr>o_cpuUsagePid := n\<rparr>)"
| mem_pid: "StrToInt env str = Some n \<Longrightarrow> opt_step env opts (opts\<lparr>o_memPid := n\<rparr>)"
| net_pid: "StrToInt env str = Some n \<Longrightarrow> opt_step env opts (opts\<lparr>o_netPid := n\<rparr>)"
| storage_pid: "StrToInt env str = Some n \<Longrightarrow> opt_step env opts (opts\<lparr>o_storagePid := n\<rparr>)"
| process_pid: "StrToInt env str = Some n \<Longrightarrow> opt_step env opts (opts\<lparr>o_processPid := n\<rparr>)"
| thread_id: "StrToInt env str = Some n \<Longrightarrow> opt_step env opts (opts\<lparr>o_threadId := n\<rparr>)"
| interval: "StrToInt env str = Some n \<Longrightarrow> opt_step env opts (opts\<lparr>o_timeInterval := n\<rparr>)"
| ipc_pid: "StrToInt env str = Some n \<Longrightarrow> opt_step env opts (opts\<lparr>o_ipcStatPid := n\<rparr>)"
| heap_mem_pid: "StrToInt env str = Some n \<Longrightarrow> opt_step env opts (opts\<lparr>o_dumpHeapMemPid := n\<rparr>)"
| heap_arg_pid: "StrToInt env str = Some n \<Longrightarrow> opt_step env opts (opts\<lparr>o_dumpHeapArgPid := n\<rparr>)"
| show_count: "StrToInt env str = Some n \<Longrightarrow> 0 < n \<Longrightarrow> opt_step env opts (opts\<lparr>o_showEventCount := n\<rparr>)"
| system_arg: "opt_step env opts (opts\<lparr>o_systemArgs := o_systemArgs opts @ [a]\<rparr>)"
| ability_name: "opt_step env opts (opts\<lparr>o_abilitieNames := o_abilitieNames opts @ [a]\<rparr>)"
| process_name: "opt_step env opts (opts\<lparr>o_processName := a\<rparr>)"
| event_id: "IsNumericStr env a \<Longrightarrow> opt_step env opts (opts\<lparr>o_eventId := a\<rparr>)"
| ability_args: "o_isDumpSystemAbility opts \<Longrightarrow> opt_step env opts (opts\<lparr>o_abilitieArgs := as\<rparr>)"

lemmas long_setters = SetMemHeapParam_def SetNativeParam_def SetKotlinParam_def SetJsvmParam_def
  SetArkwebJsParam_def SetRawParam_def SetMemPruneParam_def SetShowLeakthreadParam_def SetGCParam_def
  SetLeakobjParam_def SetCleanParam_def SetHeapCombineParam_def

lemma number_step:
  assumes "SetCmdIntegerParameter env str value im = (DUMP_OK, im')"
    and "\<And>n. StrToInt env str = Some n \<Longrightarrow> opt_step env opts (value n (im_opts im))"
  shows "opt_step env opts (im_opts im')"
  using SetCmdIntegerParameter_ok [OF assms(1)] assms(2) by auto

lemma long_setter_steps:
  "SetMemSmapsParam env argv im = (DUMP_OK, im') \<Longrightarrow> opt_step env (im_opts im) (im_opts im')"
  "SetMemJsheapParam env optarg im = (DUMP_OK, im') \<Longrightarrow> opt_step env (im_opts im) (im_opts im')"
  "SetMemCjheapParam env optarg im = (DUMP_OK, im') \<Longrightarrow> opt_step env (im_opts im) (im_opts im')"
  "SetMemHeapParam im = (DUMP_OK, im') \<Longrightarrow> opt_step env (im_opts im) (im_opts im')"
  "SetNativeParam env im = (DUMP_OK, im') \<Longrightarrow> opt_step env (im_opts im) (im_opts im')"
  "SetKotlinParam env im = (DUMP_OK, im') \<Longrightarrow> opt_step env (im_opts im) (im_opts im')"
  "plugin_enable env \<Longrightarrow> SetJsvmParam env im = (DUMP_OK, im') \<Longrightarrow> opt_step env (im_opts im) (im_opts im')"
  "plugin_enable env \<Longrightarrow> SetArkwebJsParam env im = (DUMP_OK, im') \<Longrightarrow> opt_step env (im_opts im) (im_opts im')"
  "SetRawParam env im = (DUMP_OK, im') \<Longrightarrow> opt_step env (im_opts im) (im_opts im')"
  "SetMemPruneParam im = (DUMP_OK, im') \<Longrightarrow> opt_step env (im_opts im) (im_opts im')"
  "SetShowLeakthreadParam env im = (DUMP_OK, im') \<Longrightarrow> opt_step env (im_opts im) (im_opts im')"
  "SetGCParam env im = (DUMP_OK, im') \<Longrightarrow> opt_step env (im_opts im) (im_opts im')"
  "SetLeakobjParam env im = (DUMP_OK, im') \<Longrightarrow> opt_step env (im_opts im) (im_opts im')"
  "SetCleanParam im = (DUMP_OK, im') \<Longrightarrow> opt_step env (im_opts im) (im_opts im')"
  "SetHeapCombineParam im = (DUMP_OK, im') \<Longrightarrow> opt_step env (im_opts im) (im_opts im')"
proof -
  show "SetMemSmapsParam env argv im = (DUMP_OK, im') \<Longrightarrow> opt_step env (im_opts im) (im_opts im')"
    by (auto simp: SetMemSmapsParam_def Let_def split: if_splits intro: opt_step.intros elim!: number_step)
  show "SetMemJsheapParam env optarg im = (DUMP_OK, im') \<Longrightarrow> opt_step env (im_opts im) (im_opts im')"
    by (auto simp: SetMemJsheapParam_def Let_def split: option.splits intro: opt_step.intros elim!: number_step)
  show "SetMemCjheapParam env optarg im = (DUMP_OK, im') \<Longrightarrow> opt_step env (im_opts im) (im_opts im')"
    by (auto simp: SetMemCjheapParam_def Let_def split: option.splits intro: opt_step.intros elim!: number_step)
qed (auto simp: long_setters split: if_splits intro: opt_step.intros)

lemma SetIpcStatParam_steps:
  assumes "SetIpcStatParam param im = (True, im')" and "o_isDumpIpc (im_opts im')"
  shows "opt_step env (im_opts im) (im_opts im')"
  using assms by (auto simp: SetIpcStatParam_def split: if_splits intro: opt_step.intros)

lemma SetEventParam_steps:
  assumes "SetEventParam env optarg param im = (DUMP_OK, im')" and "o_isFaultLog (im_opts im)"
  shows "opt_step env (im_opts im) (im_opts im')"
  using assms
  by (auto simp: SetEventParam_def set_time_def Let_def not_less split: if_splits option.splits intro: opt_step.intros)

lemma ParseSubLongCmdOption_steps:
  "ParseSubLongCmdOption env name im = (True, im') \<Longrightarrow> opt_step env (im_opts im) (im_opts im')"
  by (auto simp: ParseSubLongCmdOption_def Let_def split: if_splits intro: opt_step.intros opt_step.zip [simplified])

lemma if_eqE:
  assumes "(if c then a else b) = x"
  obtains "c" "a = x" | "\<not> c" "b = x"
  using assms by (auto split: if_splits)

lemma ParseLongCmdOption_steps:
  assumes "ParseLongCmdOption env argv optarg name im = (DUMP_OK, im')"
  shows "(opt_step env)\<^sup>=\<^sup>= (im_opts im) (im_opts im')"
proof -
  obtain ok im0 where sub: "ParseSubLongCmdOption env name im = (ok, im0)" by fastforce
  obtain stat im1 where ipc: "SetIpcStatParam name im = (stat, im1)" by fastforce
  have sub': "opt_step env (im_opts im) (im_opts im')" if ok "im0 = im'"
    using ParseSubLongCmdOption_steps sub that by simp
  have ipc': "opt_step env (im_opts im) (im_opts im')" if stat "o_isDumpIpc (im_opts im')" "im1 = im'"
    using SetIpcStatParam_steps ipc that by simp
  have event: "opt_step env (im_opts im) (im_opts im')"
    if "ParseEventCmdOption (im_opts im) name" "SetEventParam env optarg name im = (DUMP_OK, im')"
    using SetEventParam_steps [OF that(2)] that(1) by (simp add: ParseEventCmdOption_def split: if_splits)
  from assms [unfolded ParseLongCmdOption_def sub ipc prod.case Let_def] show ?thesis
    by (elim if_eqE) (auto intro: opt_step.intros sub' ipc' event dest: long_setter_steps)
qed

lemma handle_late_option_steps:
  "handle_late_option env optionName optionValue im = (DUMP_OK, im') \<Longrightarrow> opt_step env (im_opts im) (im_opts im')"
  unfolding handle_late_option_def by (elim if_eqE) (auto elim!: number_step intro: opt_step.intros)

lemma SetShowCount_steps:
  "SetShowCount env str im = (DUMP_OK, im') \<Longrightarrow> opt_step env (im_opts im) (im_opts im')"
  by (auto simp: SetShowCount_def not_le split: prod.splits if_splits intro: opt_step.intros dest!: SetCmdIntegerParameter_ok)

lemma HandleOptionParameter_steps:
  assumes "HandleOptionParameter env argv optind optionName optionValue im = Some (DUMP_OK, im')"
  shows "opt_step env (im_opts im) (im_opts im')"
  using assms unfolding HandleOptionParameter_def
  by (elim if_eqE)
    (auto elim!: number_step intro: opt_step.intros dest: SetShowCount_steps handle_late_option_steps
      simp: bind_eq_Some_conv split: if_splits)

lemma SetCmdParameter_runs:
  "SetCmdParameter env argv optind im = Some (DUMP_OK, im') \<Longrightarrow> (opt_step env)\<^sup>*\<^sup>* (im_opts im) (im_opts im')"
  by (auto simp: SetCmdParameter_def bind_eq_Some_conv split: if_splits
      dest: HandleOptionParameter_steps intro: r_into_rtranclp)

lemma all_ipc_runs:
  assumes "o_isDumpIpc (im_opts im)" and "SetIpcStatParam p im = (True, im')"
  shows "(opt_step env)\<^sup>*\<^sup>* (im_opts im) (im_opts im')"
proof -
  have "o_isDumpIpc (im_opts im')" using assms by (auto simp: SetIpcStatParam_def split: if_splits)
  with SetIpcStatParam_steps assms(2) show ?thesis by blast
qed

lemma ParseCmdOptionForA_runs:
  assumes "ParseCmdOptionForA env argv ge im = Some (DUMP_OK, im')"
  shows "(opt_step env)\<^sup>*\<^sup>* (im_opts im) (im_opts im')"
proof (cases "o_isDumpSystemAbility (im_opts im)")
  case True
  with assms obtain a where "im_opts im' = (im_opts im)\<lparr>o_abilitieArgs := a\<rparr>"
    by (auto simp: ParseCmdOptionForA_def bind_eq_Some_conv)
  with True show ?thesis using opt_step.ability_args by (metis r_into_rtranclp)
next
  case not_sa: False
  define im1 where
    "im1 = note_event (\<lambda>e. e\<lparr>ev_target := ''allPid''\<rparr>) (put (\<lambda>opts. opts\<lparr>o_isDumpAllIpc := True\<rparr>) im)"
  show ?thesis
  proof (cases "o_isDumpIpc (im_opts im)")
    case False
    with assms not_sa show ?thesis by (auto simp: ParseCmdOptionForA_def bind_eq_Some_conv)
  next
    case True
    note unfolded = assms [unfolded ParseCmdOptionForA_def Let_def im1_def [symmetric]]
    have first: "opt_step env (im_opts im) (im_opts im1)" "o_isDumpIpc (im_opts im1)"
      using True by (simp_all add: im1_def opt_step.all_ipc)
    have "(opt_step env)\<^sup>*\<^sup>* (im_opts im1) (im_opts im')"
    proof (cases "ge_optarg ge")
      case None
      with unfolded True not_sa show ?thesis by simp
    next
      case (Some a)
      with unfolded True not_sa obtain p ps where "SplitStr env a ''--'' False True = p # ps"
        by (cases "SplitStr env a ''--'' False True") auto
      moreover obtain r im2 where "SetIpcStatParam p im1 = (r, im2)" by fastforce
      ultimately have "SetIpcStatParam p im1 = (True, im')"
        using unfolded True not_sa Some by (cases r) auto
      with all_ipc_runs first(2) show ?thesis by blast
    qed
    with first(1) show ?thesis by (rule converse_rtranclp_into_rtranclp)
  qed
qed

lemmas flag_runs = opt_step.system [THEN r_into_rtranclp [where r = "opt_step env" for env]]
  opt_step.fault_log [THEN r_into_rtranclp [where r = "opt_step env" for env]]
  opt_step.dump_list [THEN r_into_rtranclp [where r = "opt_step env" for env]]
  opt_step.ability [THEN r_into_rtranclp [where r = "opt_step env" for env]]
  opt_step.processes [THEN r_into_rtranclp [where r = "opt_step env" for env]]
  opt_step.smaps_info [THEN r_into_rtranclp [where r = "opt_step env" for env]]

lemma ParseShortCmdOption_runs:
  assumes "ParseShortCmdOption env argv ge c im = Some (DUMP_OK, im')"
  shows "(opt_step env)\<^sup>*\<^sup>* (im_opts im) (im_opts im')"
  using assms unfolding ParseShortCmdOption_def
  by (elim if_eqE) (auto intro: flag_runs dest: ParseCmdOptionForA_runs SetCmdParameter_runs)

lemma parse_loop_ConsE:
  assumes "parse_loop env argv (ge # ges) im = Some (DUMP_OK, im')"
  obtains im1 where "(opt_step env)\<^sup>*\<^sup>* (im_opts im) (im_opts im1)" "parse_loop env argv ges im1 = Some (DUMP_OK, im')"
proof (cases "ge_c ge")
  case (LongOpt i)
  with assms obtain lo where lo: "nth_opt (LONG_OPTIONS env) i = Some lo" by (auto simp: bind_eq_Some_conv)
  obtain st im1 where p: "ParseLongCmdOption env argv (ge_optarg ge) (fst lo) im = (st, im1)" by fastforce
  with assms LongOpt lo have "st = DUMP_OK" "parse_loop env argv ges im1 = Some (DUMP_OK, im')"
    by (auto split: if_splits)
  moreover from this p have "(opt_step env)\<^sup>*\<^sup>* (im_opts im) (im_opts im1)"
    using ParseLongCmdOption_steps by (metis r_into_rtranclp rtranclp_reflclp)
  ultimately show ?thesis using that by blast
next
  case (OptChar c)
  with assms have "c \<noteq> CHR ''h''" "c \<noteq> CHR ''?''" by auto
  with assms OptChar obtain st im1 where p: "ParseShortCmdOption env argv ge c im = Some (st, im1)"
    by (auto simp: bind_eq_Some_conv)
  with assms OptChar \<open>c \<noteq> CHR ''h''\<close> \<open>c \<noteq> CHR ''?''\<close>
  have "st = DUMP_OK" "parse_loop env argv ges im1 = Some (DUMP_OK, im')" by (auto split: if_splits)
  with p that ParseShortCmdOption_runs show ?thesis by blast
qed

text \<open>An accepted command line is a run of the option machine.\<close>

lemma parse_loop_runs:
  "parse_loop env argv ges im = Some (DUMP_OK, im') \<Longrightarrow> (opt_step env)\<^sup>*\<^sup>* (im_opts im) (im_opts im')"
proof (induction ges arbitrary: im)
  case Nil
  then show ?case by simp
next
  case (Cons ge ges)
  from Cons.prems show ?case
  proof (rule parse_loop_ConsE)
    fix im1
    assume "(opt_step env)\<^sup>*\<^sup>* (im_opts im) (im_opts im1)" "parse_loop env argv ges im1 = Some (DUMP_OK, im')"
    with Cons.IH show ?case by (meson rtranclp_trans)
  qed
qed

section \<open>Predicates every accepted command line keeps\<close>

locale option_invariant =
  fixes env :: cmd_env and P :: "DumperOpts \<Rightarrow> bool"
  assumes step_keeps: "opt_step env opts opts' \<Longrightarrow> P opts \<Longrightarrow> P opts'"
begin

lemma run_keeps: "(opt_step env)\<^sup>*\<^sup>* opts opts' \<Longrightarrow> P opts \<Longrightarrow> P opts'"
  by (induction rule: rtranclp_induct) (auto intro: step_keeps)

lemma parse_loop_keeps: "parse_loop env argv ges im = Some (DUMP_OK, im') \<Longrightarrow> P (im_opts im) \<Longrightarrow> P (im_opts im')"
  using parse_loop_runs run_keeps by blast

end

text \<open>An option that refines another one is given only together with it.\<close>

definition suboptions_ok :: "DumperOpts \<Rightarrow> bool" where
  "suboptions_ok opts \<longleftrightarrow>
    (o_isDumpHeapNative opts \<or> o_isDumpHeapKotlin opts \<or> o_isDumpHeapJsvm opts \<or> o_isDumpHeapArkwebJs opts
       \<or> o_dumpRawHeap opts \<or> o_isDumpHeapMemGc opts \<or> o_isDumpHeapLeakobj opts \<longrightarrow> o_isDumpHeapMem opts)
    \<and> (o_isDumpHeapLeakobj opts \<longrightarrow> o_isDumpHeapNative opts)
    \<and> (o_dumpJsRawHeap opts \<or> o_isDumpJsHeapMemGC opts \<or> o_isDumpJsHeapLeakobj opts \<or> o_isDumpJsHeapClean opts
       \<longrightarrow> o_isDumpJsHeapMem opts)
    \<and> (o_isDumpCjHeapMemGC opts \<longrightarrow> o_isDumpCjHeapMem opts)
    \<and> (o_dumpMemPrune opts \<or> o_showLeakThread opts \<longrightarrow> o_isDumpMem opts)
    \<and> (o_isEventList opts \<or> o_isEventDetail opts \<longrightarrow> o_isFaultLog opts)
    \<and> (o_isDumpAllIpc opts \<or> o_isDumpIpcStartStat opts \<or> o_isDumpIpcStopStat opts \<or> o_isDumpIpcStat opts
       \<longrightarrow> o_isDumpIpc opts)"

lemma suboptions_step: "opt_step env opts opts' \<Longrightarrow> suboptions_ok opts \<Longrightarrow> suboptions_ok opts'"
  by (induction rule: opt_step.induct) (simp_all add: suboptions_ok_def)

interpretation subopts: option_invariant env suboptions_ok for env
  by unfold_locales (rule suboptions_step)

text \<open>The archive is always a file of the log folder.\<close>

definition zip_path_ok :: "cmd_env \<Rightarrow> DumperOpts \<Rightarrow> bool" where
  "zip_path_ok env opts \<longleftrightarrow> o_path opts \<in> {[], ''/data/log/hidumper/'' @ GetTime env @ ''.zip''}"

lemma zip_path_step: "opt_step env opts opts' \<Longrightarrow> zip_path_ok env opts \<Longrightarrow> zip_path_ok env opts'"
  by (induction rule: opt_step.induct) (simp_all add: zip_path_ok_def)

interpretation zip_path: option_invariant env "zip_path_ok env" for env
  by unfold_locales (rule zip_path_step)

section \<open>The checks after the loop\<close>

lemma alive_checks_ok:
  "fst (alive_checks env cs im) = DUMP_OK \<longleftrightarrow> list_all (\<lambda>(given, pid). given \<longrightarrow> CheckProcessAlive_pid (dev env) pid) cs"
  by (induction env cs im rule: alive_checks.induct) auto

lemma CheckProcessAlive_ok:
  "CheckProcessAlive env im = (DUMP_OK, im') \<longleftrightarrow> im' = im \<and>
    list_all (\<lambda>pid. pid > -1 \<longrightarrow> CheckProcessAlive_pid (dev env) pid)
      (map (\<lambda>f. f (im_opts im)) [o_cpuUsagePid, o_memPid, o_processPid, o_storagePid, o_netPid])
    \<and> list_all (\<lambda>pid. pid > 0 \<longrightarrow> CheckProcessAlive_pid (dev env) pid)
      (map (\<lambda>f. f (im_opts im)) [o_dumpJsHeapMemPid, o_dumpCjHeapMemPid, o_dumpHeapMemPid, o_dumpHeapArgPid, o_ipcStatPid])"
  by (auto simp: CheckProcessAlive_def Let_def split: if_splits)

lemma CheckJsHeapPermission_ok:
  "CheckJsHeapPermission env pid im = (True, im') \<longleftrightarrow> im' = im \<and>
    (CheckAppDebugVersion (dev env) pid \<or>
     CheckAppProfileable (dev env) pid \<and> CheckAppInhouse (dev env) pid \<and> IsDeveloperModeEnabled (dev env))"
  by (auto simp: CheckJsHeapPermission_def Let_def split: if_splits)

text \<open>What a release build of the system demands of a request.\<close>

definition user_mode_ok :: "cmd_env \<Rightarrow> DumperOpts \<Rightarrow> bool" where
  "user_mode_ok env opt \<longleftrightarrow>
    (o_isShowSmaps opt \<longrightarrow> reqUid env = 1201 \<or> CheckAppDebugVersion (dev env) (o_memPid opt))
    \<and> (o_isDumpJsHeapMem opt \<longrightarrow> CheckAppDebugVersion (dev env) (o_dumpJsHeapMemPid opt)
        \<or> CheckAppProfileable (dev env) (o_dumpJsHeapMemPid opt) \<and> CheckAppInhouse (dev env) (o_dumpJsHeapMemPid opt)
          \<and> IsDeveloperModeEnabled (dev env))
    \<and> (o_isDumpCjHeapMem opt \<longrightarrow> CheckAppDebugVersion (dev env) (o_dumpCjHeapMemPid opt))
    \<and> (o_isDumpHeapMem opt \<longrightarrow> CheckAppDebugVersion (dev env) (heap_pid opt))
    \<and> (o_showLeakThread opt \<longrightarrow> IsApplicationPid env (o_memPid opt) \<longrightarrow> CheckAppDebugVersion (dev env) (o_memPid opt))
    \<and> \<not> (o_isDumpMem opt \<and> o_timeInterval opt > 0)"

lemma CheckDumpPermission_ok:
  assumes "CheckDumpPermission env im = (True, im')"
  shows "im' = im \<and> (o_isDumpFd (im_opts im) \<or> o_isDumpThread (im_opts im) \<longrightarrow> o_processPid (im_opts im) > 0)
    \<and> (IsUserMode (dev env) \<longrightarrow> user_mode_ok env (im_opts im))"
proof -
  let ?js = "if o_isDumpJsHeapMem (im_opts im) then CheckJsHeapPermission env (o_dumpJsHeapMemPid (im_opts im)) im else (True, im)"
  obtain ok im1 where js: "?js = (ok, im1)" by fastforce
  have ok: "im1 = im \<and> (o_isDumpJsHeapMem (im_opts im) \<longrightarrow> CheckAppDebugVersion (dev env) (o_dumpJsHeapMemPid (im_opts im))
      \<or> CheckAppProfileable (dev env) (o_dumpJsHeapMemPid (im_opts im)) \<and> CheckAppInhouse (dev env) (o_dumpJsHeapMemPid (im_opts im))
        \<and> IsDeveloperModeEnabled (dev env))" if ok
    using js that CheckJsHeapPermission_ok by (auto split: if_splits)
  from assms [unfolded CheckDumpPermission_def Let_def js prod.case] ok show ?thesis
    by (elim if_eqE, simp_all add: user_mode_ok_def not_le, blast+)
qed

lemma single_param_opts: "CheckJsHeapSingleParam env im = (True, im') \<Longrightarrow> im' = im"
  by (auto simp: CheckJsHeapSingleParam_def Let_def split: if_splits)

lemma mem_detail_opts: "CheckMemDetailParamSupported env im = (True, im') \<Longrightarrow> im' = im"
  by (auto simp: CheckMemDetailParamSupported_def Let_def split: if_splits)

lemma leakthread_ok:
  "CheckShowLeakthreadParameter env im = (True, im') \<Longrightarrow>
    im' = im \<and> o_memPid (im_opts im) > 0 \<and> IsApplicationPid env (o_memPid (im_opts im))"
  by (auto simp: CheckShowLeakthreadParameter_def split: if_splits)

text \<open>The process ids of a heap dump, and what replaces them when a render process is named.\<close>

abbreviation set_heap_pids :: "int \<Rightarrow> int \<Rightarrow> int \<Rightarrow> DumperOpts \<Rightarrow> DumperOpts" where
  "set_heap_pids a m r opt \<equiv> opt\<lparr>o_dumpHeapRenderPid := r, o_dumpHeapArgPid := a, o_dumpHeapMemPid := m\<rparr>"

lemma arkweb_ok:
  assumes "CheckArkwebJsParameter env im = (True, im')"
  shows "\<exists>mainPid > 0. im_opts im' =
    set_heap_pids (if o_dumpHeapArgPid (im_opts im) > 0 then mainPid else 0)
      (if o_dumpHeapMemPid (im_opts im) > 0 then mainPid else 0) (heap_pid (im_opts im)) (im_opts im)"
  using assms
  by (auto simp: CheckArkwebJsParameter_def ValidateRenderProcessAndFindMainPid_def Let_def not_le
      split: if_splits option.splits)

lemma kmp_opts: "CheckKmpParameter env im = (True, im') \<Longrightarrow> im' = im"
  by (auto simp: CheckKmpParameter_def Let_def split: if_splits)

definition one_heap_pid :: "DumperOpts \<Rightarrow> bool" where
  "one_heap_pid opt \<longleftrightarrow> o_dumpHeapMemPid opt > 0 \<and> o_dumpHeapArgPid opt = 0
     \<or> o_dumpHeapMemPid opt = 0 \<and> o_dumpHeapArgPid opt > 0"

lemma heap_mem_ok:
  assumes "CheckDumpHeapMemParameter env argv im = (True, im')"
  shows "heap_arg_count (im_opts im) = 1 \<and> one_heap_pid (im_opts im) \<and>
    (if o_isDumpHeapArkwebJs (im_opts im)
     then \<exists>mainPid > 0. im_opts im' =
       set_heap_pids (if o_dumpHeapArgPid (im_opts im) > 0 then mainPid else 0)
         (if o_dumpHeapMemPid (im_opts im) > 0 then mainPid else 0) (heap_pid (im_opts im)) (im_opts im)
     else im' = im)"
  using assms unfolding CheckDumpHeapMemParameter_def Let_def
  by (elim if_eqE, simp_all add: one_heap_pid_def arkweb_ok, auto dest: kmp_opts)

lemma heap_mem_frame:
  assumes "CheckDumpHeapMemParameter env argv im = (True, im')"
  shows "\<exists>a m r. im_opts im' = set_heap_pids a m r (im_opts im)"
proof (cases "o_isDumpHeapArkwebJs (im_opts im)")
  case True
  with heap_mem_ok [OF assms] show ?thesis by (simp only: if_True) blast
next
  case False
  with heap_mem_ok [OF assms] have
    "im_opts im' = set_heap_pids (o_dumpHeapArgPid (im_opts im)) (o_dumpHeapMemPid (im_opts im))
       (o_dumpHeapRenderPid (im_opts im)) (im_opts im)" by simp
  then show ?thesis by blast
qed

lemma ValidateDumpOptions_ok:
  assumes "ValidateDumpOptions env argv im = (DUMP_OK, im')"
  shows "\<not> CheckUnableToDumpAll argv (im_opts im')
    \<and> (o_showLeakThread (im_opts im) \<longrightarrow> o_memPid (im_opts im) > 0 \<and> IsApplicationPid env (o_memPid (im_opts im)))
    \<and> (if o_isDumpHeapMem (im_opts im) then \<exists>im0. im_opts im0 = im_opts im' \<and> CheckDumpHeapMemParameter env argv im = (True, im0)
       else im' = im)"
proof -
  obtain ok1 im1 where 1: "(if o_isDumpJsHeapMem (im_opts im) then CheckJsHeapSingleParam env im else (True, im)) = (ok1, im1)"
    by fastforce
  obtain ok2 im2 where 2: "(if o_isDumpMem (im_opts im1) then CheckMemDetailParamSupported env im1 else (True, im1)) = (ok2, im2)"
    by fastforce
  obtain ok3 im3 where 3: "(if o_isDumpHeapMem (im_opts im2) then CheckDumpHeapMemParameter env argv im2 else (True, im2)) = (ok3, im3)"
    by fastforce
  obtain ok4 im4 where 4: "(if o_showLeakThread (im_opts im3) then CheckShowLeakthreadParameter env im3 else (True, im3)) = (ok4, im4)"
    by fastforce
  note v = assms [unfolded ValidateDumpOptions_def 1 prod.case 2 3 4]
  have ok: "ok1" "ok2" "ok3" "ok4" "\<not> CheckUnableToDumpAll argv (im_opts im4)" "im' = im4"
    using v by (auto split: if_splits)
  have i1: "im1 = im" using 1 ok(1) single_param_opts by (auto split: if_splits)
  have i2: "im2 = im" using 2 ok(2) i1 mem_detail_opts by (auto split: if_splits)
  have i4: "im4 = im3 \<and> (o_showLeakThread (im_opts im3) \<longrightarrow>
      o_memPid (im_opts im3) > 0 \<and> IsApplicationPid env (o_memPid (im_opts im3)))"
    using 4 ok(4) leakthread_ok [of env im3 im4] by (auto split: if_splits)
  show ?thesis
  proof (cases "o_isDumpHeapMem (im_opts im)")
    case True
    with 3 ok(3) i2 have h: "CheckDumpHeapMemParameter env argv im = (True, im3)" by simp
    from heap_mem_frame [OF h] obtain a m r where f: "im_opts im3 = set_heap_pids a m r (im_opts im)" by blast
    have "o_showLeakThread (im_opts im3) = o_showLeakThread (im_opts im)" "o_memPid (im_opts im3) = o_memPid (im_opts im)"
      unfolding f by simp_all
    then have "o_showLeakThread (im_opts im) \<longrightarrow> o_memPid (im_opts im) > 0 \<and> IsApplicationPid env (o_memPid (im_opts im))"
      using i4 by simp
    moreover have "im' = im3" "\<not> CheckUnableToDumpAll argv (im_opts im')" using ok i4 by simp_all
    ultimately show ?thesis using h True by (metis (full_types))
  next
    case False
    with 3 ok(3) i2 have "im3 = im" by simp
    with i4 ok False show ?thesis by simp
  qed
qed

section \<open>The whole command\<close>

lemma CheckArgs_ok:
  "CheckArgs argv im = (DUMP_OK, im') \<Longrightarrow>
    length argv \<le> 64 \<and> list_all (\<lambda>arg. 0 < length arg \<and> length arg \<le> 256) argv"
  by (auto simp: CheckArgs_def Let_def ARG_MAX_COUNT_def SINGLE_ARG_MAXLEN_def list_ex_iff list_all_iff
      split: if_splits)

lemma report_opts [simp]:
  "im_opts (ReportJsheap im) = im_opts im" "im_opts (ReportCjheap im) = im_opts im" "im_opts (ReportMemheap im) = im_opts im"
  by (auto simp: ReportJsheap_def ReportCjheap_def ReportMemheap_def Let_def split: option.splits)

lemma args_okE:
  assumes "CmdParseWithParameter_args env argv ges im = Some (DUMP_OK, im')"
  obtains im1 im4 where "parse_loop env argv ges im = Some (DUMP_OK, im1)"
    "CheckProcessAlive env im1 = (DUMP_OK, im1)" "CheckDumpPermission env im1 = (True, im1)"
    "ValidateDumpOptions env argv im1 = (DUMP_OK, im4)" "im_opts im' = RemoveDuplicateString_opts (im_opts im4)"
proof -
  from assms obtain st im1 where p: "parse_loop env argv ges im = Some (st, im1)"
    by (auto simp: CmdParseWithParameter_args_def bind_eq_Some_conv)
  obtain al im2 where a: "CheckProcessAlive env im1 = (al, im2)" by fastforce
  obtain pe im3 where c: "CheckDumpPermission env im2 = (pe, im3)" by fastforce
  obtain ds im4 where v: "ValidateDumpOptions env argv im3 = (ds, im4)" by fastforce
  have ok: "st = DUMP_OK" "al = DUMP_OK" "pe" "ds = DUMP_OK" "im' = put RemoveDuplicateString_opts im4"
    using assms p a c v by (auto simp: CmdParseWithParameter_args_def split: if_splits)
  have "im2 = im1" using a ok(2) CheckProcessAlive_ok by blast
  moreover have "im3 = im2" using c ok(3) CheckDumpPermission_ok [of env im2 im3] by simp
  ultimately show ?thesis using that p a c v ok by simp
qed

lemma CmdParse_okE:
  assumes "CmdParse env argv ges im = Some (DUMP_OK, im')"
  obtains im0 im1 im4 where "im_opts im0 = Reset DumperOpts_zero"
    "parse_loop env argv ges im0 = Some (DUMP_OK, im1)"
    "CheckProcessAlive env im1 = (DUMP_OK, im1)" "CheckDumpPermission env im1 = (True, im1)"
    "ValidateDumpOptions env argv im1 = (DUMP_OK, im4)"
    "CheckOptions env (RemoveDuplicateString_opts (im_opts im4)) = None"
    "im_opts im' = (if IsSelectAny (RemoveDuplicateString_opts (im_opts im4)) then RemoveDuplicateString_opts (im_opts im4)
       else ProcessDumpOptions env (reqPid env) (RemoveDuplicateString_opts (im_opts im4)))"
proof -
  obtain ok im00 where ca: "CheckArgs argv im = (ok, im00)" by fastforce
  with assms have ok: "ok = DUMP_OK" by (auto simp: CmdParse_def split: if_splits)
  let ?i = "im00\<lparr>im_opts := Reset DumperOpts_zero\<rparr>"
  from assms ca ok obtain st im5 where w: "CmdParseWithParameter env argv ges ?i = Some (st, im5)"
    by (auto simp: CmdParse_def bind_eq_Some_conv)
  with assms ca ok have st: "st = DUMP_OK"
    and im': "im_opts im' = (if IsSelectAny (im_opts im5) then im_opts im5 else ProcessDumpOptions env (reqPid env) (im_opts im5))"
    by (auto simp: CmdParse_def Let_def split: if_splits)
  let ?i0 = "note_event (\<lambda>e. e\<lparr>callerPpid := reqCallerPpid env\<rparr>) ?i"
  from w st obtain ret im6 where a: "CmdParseWithParameter_args env argv ges ?i0 = Some (ret, im6)"
    by (auto simp: CmdParseWithParameter_def bind_eq_Some_conv)
  with w st have "ret = DUMP_OK" "im6 = im5" "CheckOptions env (im_opts im5) = None"
    by (auto simp: CmdParseWithParameter_def split: if_splits option.splits)
  with a have "CmdParseWithParameter_args env argv ges ?i0 = Some (DUMP_OK, im5)" by simp
  then show ?thesis
    by (rule args_okE) (use that [of ?i0] im' \<open>CheckOptions env (im_opts im5) = None\<close> in simp)
qed

lemma validated_frame:
  assumes "ValidateDumpOptions env argv im = (DUMP_OK, im')"
  shows "\<exists>a m r. im_opts im' = set_heap_pids a m r (im_opts im)"
proof (cases "o_isDumpHeapMem (im_opts im)")
  case True
  with ValidateDumpOptions_ok [OF assms] obtain im0 where
    e: "im_opts im0 = im_opts im'" and h: "CheckDumpHeapMemParameter env argv im = (True, im0)" by auto
  from heap_mem_frame [OF h] show ?thesis unfolding e .
next
  case False
  with ValidateDumpOptions_ok [OF assms] have
    "im_opts im' = set_heap_pids (o_dumpHeapArgPid (im_opts im)) (o_dumpHeapMemPid (im_opts im))
       (o_dumpHeapRenderPid (im_opts im)) (im_opts im)" by simp
  then show ?thesis by blast
qed

text \<open>The fields that the steps after the parsing loop leave alone.\<close>

definition same_flags :: "DumperOpts \<Rightarrow> DumperOpts \<Rightarrow> bool" where
  "same_flags opts opts' \<longleftrightarrow> (\<exists>a m r l s n. opts' = (set_heap_pids a m r opts)
     \<lparr>o_logArgs := l, o_systemArgs := s, o_abilitieNames := n\<rparr>)"

lemma validated_same:
  assumes "ValidateDumpOptions env argv im = (DUMP_OK, im')"
  shows "same_flags (im_opts im) (RemoveDuplicateString_opts (im_opts im'))"
proof -
  from validated_frame [OF assms] obtain a m r where e: "im_opts im' = set_heap_pids a m r (im_opts im)" by blast
  show ?thesis unfolding same_flags_def RemoveDuplicateString_opts_def e by (intro exI) (rule refl)
qed

lemma same_IsSelectAny: "same_flags opts opts' \<Longrightarrow> IsSelectAny opts' = IsSelectAny opts"
  unfolding same_flags_def by (elim exE) (simp add: IsSelectAny_def)

lemma same_suboptions: "same_flags opts opts' \<Longrightarrow> suboptions_ok opts' = suboptions_ok opts"
  unfolding same_flags_def by (elim exE) (simp add: suboptions_ok_def)

lemma same_zip: "same_flags opts opts' \<Longrightarrow> zip_path_ok env opts' = zip_path_ok env opts"
  unfolding same_flags_def by (elim exE) (simp add: zip_path_ok_def)

lemma ProcessDumpOptions_selects: "IsSelectAny (ProcessDumpOptions env pid opts)"
  by (simp add: ProcessDumpOptions_def Let_def AddSelectAll_def IsSelectAny_def)

lemma ProcessDumpOptions_suboptions: "suboptions_ok opts \<Longrightarrow> suboptions_ok (ProcessDumpOptions env pid opts)"
  by (simp add: ProcessDumpOptions_def Let_def AddSelectAll_def suboptions_ok_def)

lemma ProcessDumpOptions_zip: "zip_path_ok env opts \<Longrightarrow> zip_path_ok env (ProcessDumpOptions env pid opts)"
  by (simp add: ProcessDumpOptions_def Let_def AddSelectAll_def zip_path_ok_def)

lemma suboptions_reset: "suboptions_ok (Reset opts)"
  by (simp add: suboptions_ok_def Reset_def reset_defs)

lemma zip_path_reset: "zip_path_ok env (Reset opts)"
  by (simp add: zip_path_ok_def Reset_def reset_defs)

section \<open>Reads inside the arguments\<close>

text \<open>
  What the parser relies on of \<open>getopt_long\<close>: it answers with indices of the table, an argument for
  an option that takes one, and an index of the argument after the one it has read.
\<close>

definition getopt_ok :: "cmd_env \<Rightarrow> string list \<Rightarrow> getopt_event \<Rightarrow> bool" where
  "getopt_ok env argv ge \<longleftrightarrow>
    (case ge_c ge of
       LongOpt i \<Rightarrow> i < length (LONG_OPTIONS env)
     | OptChar c \<Rightarrow>
        (c = CHR ''a'' \<longrightarrow> ge_optarg ge \<noteq> None)
        \<and> (c = CHR ''a'' \<or> c = CHR ''?'' \<and> ge_optopt ge = CHR 0x00 \<longrightarrow> 1 \<le> ge_optind ge \<and> ge_optind ge \<le> length argv))"

lemma sa_scan_defined: "i < length argv \<Longrightarrow> sa_scan env argv i \<noteq> None"
  by (induction env argv i rule: sa_scan.induct) (auto simp: nth_opt_some)

lemma SetCmdParameter_defined: "SetCmdParameter env argv optind im \<noteq> None"
proof (cases "1 < optind \<and> optind \<le> length argv")
  case True
  then have "IsSADumperOption env argv optind \<noteq> None"
    unfolding IsSADumperOption_def by (intro sa_scan_defined) arith
  then have "HandleOptionParameter env argv optind n v im \<noteq> None" for n v
    by (auto simp: HandleOptionParameter_def)
  with True show ?thesis by (auto simp: SetCmdParameter_def nth_opt_some)
qed (auto simp: SetCmdParameter_def)

lemma ParseCmdOptionForA_defined:
  assumes "ge_optarg ge = Some a" and "1 \<le> ge_optind ge" and "ge_optind ge \<le> length argv"
  shows "ParseCmdOptionForA env argv ge im \<noteq> None"
proof -
  have "nth_opt argv (ge_optind ge - 1) = Some (argv ! (ge_optind ge - 1))"
    using assms by (intro nth_opt_some) arith
  with assms show ?thesis by (simp add: ParseCmdOptionForA_def Let_def)
qed

lemma ParseShortCmdOption_defined:
  assumes "ge_c ge = OptChar c" and "getopt_ok env argv ge"
  shows "ParseShortCmdOption env argv ge c im \<noteq> None"
proof (cases "c = CHR ''a''")
  case True
  with assms obtain a where "ge_optarg ge = Some a" "1 \<le> ge_optind ge" "ge_optind ge \<le> length argv"
    by (auto simp: getopt_ok_def)
  from ParseCmdOptionForA_defined [OF this] True show ?thesis by (simp add: ParseShortCmdOption_def)
next
  case False
  with SetCmdParameter_defined show ?thesis by (simp add: ParseShortCmdOption_def)
qed

lemma parse_loop_defined: "list_all (getopt_ok env argv) ges \<Longrightarrow> parse_loop env argv ges im \<noteq> None"
proof (induction ges arbitrary: im)
  case Nil
  then show ?case by simp
next
  case (Cons ge ges)
  show ?case
  proof (cases "ge_c ge")
    case (LongOpt i)
    with Cons.prems have "nth_opt (LONG_OPTIONS env) i = Some (LONG_OPTIONS env ! i)"
      by (simp add: getopt_ok_def nth_opt_some)
    with Cons LongOpt show ?thesis by (auto split: prod.splits)
  next
    case (OptChar c)
    with Cons.prems have "CheckIncorrectCmdOption env argv ge im \<noteq> None" if "c = CHR ''?''"
      using that by (auto simp: CheckIncorrectCmdOption_def getopt_ok_def nth_opt_some Let_def split: prod.splits)
    moreover obtain r where "ParseShortCmdOption env argv ge c im = Some r"
      using ParseShortCmdOption_defined OptChar Cons.prems by fastforce
    ultimately show ?thesis using Cons OptChar by (auto split: prod.splits)
  qed
qed

lemma CmdParse_defined:
  assumes "list_all (getopt_ok env argv) ges"
  shows "CmdParse env argv ges im \<noteq> None"
proof -
  obtain ok im0 where ca: "CheckArgs argv im = (ok, im0)" by fastforce
  obtain st im1 where "parse_loop env argv ges (note_event (\<lambda>e. e\<lparr>callerPpid := reqCallerPpid env\<rparr>)
      (im0\<lparr>im_opts := Reset DumperOpts_zero\<rparr>)) = Some (st, im1)"
    using parse_loop_defined [OF assms] by fastforce
  with ca show ?thesis
    by (auto simp: CmdParse_def CmdParseWithParameter_def CmdParseWithParameter_args_def Let_def split: prod.splits)
qed

section \<open>Permissions of the final options\<close>

definition permitted_final :: "cmd_env \<Rightarrow> DumperOpts \<Rightarrow> bool" where
  "permitted_final env opt \<longleftrightarrow>
    (o_isShowSmaps opt \<longrightarrow> reqUid env = 1201 \<or> CheckAppDebugVersion (dev env) (o_memPid opt))
    \<and> (o_isDumpJsHeapMem opt \<longrightarrow> CheckAppDebugVersion (dev env) (o_dumpJsHeapMemPid opt)
        \<or> CheckAppProfileable (dev env) (o_dumpJsHeapMemPid opt) \<and> CheckAppInhouse (dev env) (o_dumpJsHeapMemPid opt)
          \<and> IsDeveloperModeEnabled (dev env))
    \<and> (o_isDumpCjHeapMem opt \<longrightarrow> CheckAppDebugVersion (dev env) (o_dumpCjHeapMemPid opt))
    \<and> (o_isDumpHeapMem opt \<longrightarrow>
        CheckAppDebugVersion (dev env) (if o_isDumpHeapArkwebJs opt then o_dumpHeapRenderPid opt else heap_pid opt))
    \<and> (o_showLeakThread opt \<longrightarrow> IsApplicationPid env (o_memPid opt) \<and> CheckAppDebugVersion (dev env) (o_memPid opt))"

lemma permitted_unselected:
  assumes "\<not> IsSelectAny opts" and "suboptions_ok opts"
  shows "permitted_final env (ProcessDumpOptions env pid opts)"
proof -
  have "\<not> o_isShowSmaps opts" "\<not> o_isDumpJsHeapMem opts" "\<not> o_isDumpCjHeapMem opts" "\<not> o_isDumpHeapMem opts" "\<not> o_showLeakThread opts"
    using assms by (auto simp: IsSelectAny_def suboptions_ok_def split: if_splits)
  then show ?thesis by (simp add: ProcessDumpOptions_def Let_def AddSelectAll_def permitted_final_def)
qed

lemma permitted_same_heap:
  assumes "user_mode_ok env opts" and "opts' = (set_heap_pids a m r opts)\<lparr>o_logArgs := l, o_systemArgs := s, o_abilitieNames := n\<rparr>"
    and "o_showLeakThread opts \<longrightarrow> IsApplicationPid env (o_memPid opts)"
    and "o_isDumpHeapMem opts \<longrightarrow> heap_pid opts = (if o_isDumpHeapArkwebJs opts then r else if a > 0 then a else m)"
  shows "permitted_final env opts'"
proof -
  have "heap_pid opts' = (if a > 0 then a else m)" unfolding assms(2) by (simp add: heap_pid_def)
  with assms(1,3,4) show ?thesis unfolding permitted_final_def user_mode_ok_def unfolding assms(2)
    by (cases "o_isDumpHeapArkwebJs opts"; cases "0 < a") simp_all
qed

lemma permitted_validated:
  assumes "user_mode_ok env (im_opts im)" and "ValidateDumpOptions env argv im = (DUMP_OK, im')"
  shows "permitted_final env (RemoveDuplicateString_opts (im_opts im'))"
proof -
  note v = ValidateDumpOptions_ok [OF assms(2)]
  let ?o = "im_opts im"
  have "\<exists>a m r. im_opts im' = set_heap_pids a m r ?o \<and>
      (o_isDumpHeapMem ?o \<longrightarrow> heap_pid ?o = (if o_isDumpHeapArkwebJs ?o then r else if a > 0 then a else m))"
  proof (cases "o_isDumpHeapMem ?o \<and> o_isDumpHeapArkwebJs ?o")
    case True
    with v obtain im0 where e: "im_opts im0 = im_opts im'" and h: "CheckDumpHeapMemParameter env argv im = (True, im0)" by auto
    from heap_mem_ok [OF h] True obtain a m where "im_opts im0 = set_heap_pids a m (heap_pid ?o) ?o" by auto
    with e True show ?thesis by (intro exI [of _ a] exI [of _ m] exI [of _ "heap_pid ?o"]) simp
  next
    case False
    have "im_opts im' = ?o"
    proof (cases "o_isDumpHeapMem ?o")
      case True
      with v obtain im0 where "im_opts im0 = im_opts im'" "CheckDumpHeapMemParameter env argv im = (True, im0)" by auto
      with heap_mem_ok [of env argv im im0] False True show ?thesis by simp
    next
      case False
      with v show ?thesis by simp
    qed
    then have "im_opts im' = set_heap_pids (o_dumpHeapArgPid ?o) (o_dumpHeapMemPid ?o) (o_dumpHeapRenderPid ?o) ?o" by simp
    with False show ?thesis by (metis heap_pid_def)
  qed
  then obtain a m r where e: "im_opts im' = set_heap_pids a m r ?o"
    and h: "o_isDumpHeapMem ?o \<longrightarrow> heap_pid ?o = (if o_isDumpHeapArkwebJs ?o then r else if a > 0 then a else m)" by blast
  have l: "o_showLeakThread ?o \<longrightarrow> IsApplicationPid env (o_memPid ?o)" using v by blast
  show ?thesis unfolding RemoveDuplicateString_opts_def e by (rule permitted_same_heap [OF assms(1) refl l h])
qed

lemma heap_validated:
  assumes "ValidateDumpOptions env argv im = (DUMP_OK, im')"
  shows "o_isDumpHeapMem (RemoveDuplicateString_opts (im_opts im')) \<longrightarrow>
    heap_arg_count (RemoveDuplicateString_opts (im_opts im')) = 1 \<and> one_heap_pid (RemoveDuplicateString_opts (im_opts im'))"
proof
  let ?o = "im_opts im"
  assume "o_isDumpHeapMem (RemoveDuplicateString_opts (im_opts im'))"
  moreover from validated_frame [OF assms] obtain a m r where e: "im_opts im' = set_heap_pids a m r ?o" by blast
  ultimately have "o_isDumpHeapMem ?o" unfolding RemoveDuplicateString_opts_def e by simp
  with ValidateDumpOptions_ok [OF assms] obtain im0 where
    e0: "im_opts im0 = im_opts im'" and h: "CheckDumpHeapMemParameter env argv im = (True, im0)" by auto
  note k = heap_mem_ok [OF h]
  have "heap_arg_count (RemoveDuplicateString_opts (im_opts im')) = 1"
    using k unfolding RemoveDuplicateString_opts_def e by (simp add: heap_arg_count_def)
  moreover have "one_heap_pid (im_opts im0)"
  proof (cases "o_isDumpHeapArkwebJs ?o")
    case True
    with k obtain p where p: "p > 0" "im_opts im0 = set_heap_pids (if o_dumpHeapArgPid ?o > 0 then p else 0)
        (if o_dumpHeapMemPid ?o > 0 then p else 0) (heap_pid ?o) ?o" by auto
    show ?thesis unfolding p(2) using k p(1) by (auto simp: one_heap_pid_def)
  next
    case False
    with k show ?thesis by simp
  qed
  ultimately show "heap_arg_count (RemoveDuplicateString_opts (im_opts im')) = 1
      \<and> one_heap_pid (RemoveDuplicateString_opts (im_opts im'))"
    unfolding e0 by (simp add: RemoveDuplicateString_opts_def one_heap_pid_def)
qed

end
