(* ===== verification/Command_Properties.thy ===== *)
theory Command_Properties
  imports Dump_Implement_Facts
begin

text \<open>
  The properties of the command line of the classic framework, with their witnesses: the request
  \<^verbatim>\<open>hidumper --mem-heap 123 --native\<close> on a release build, for a debug-signed application.
\<close>

section \<open>Example request\<close>

definition demo_dev :: dev_env where
  "demo_dev = \<lparr>GetParameter = \<lambda>k d. d, LoadStringFromFile = \<lambda>_. Some ''com.app'', path_exists = \<lambda>_. True,
     bundle_enable = True, GetApplicationInfo = \<lambda>_. Some \<lparr>appProvisionType = ''debug'', profileable = False,
       appDistributionType = []\<rparr>, provision_debug = ''debug''\<rparr>"

definition demo_penv :: proc_env where
  "demo_penv = \<lparr>cpu_infos = [], pid_infos = [], process_info = \<lambda>pid. (False, PidInfo_Reset), app_debug = \<lambda>_. False,
     user_mode = True, client_folder = None, canceled_at = \<lambda>_. False\<rparr>"

definition demo_cmd :: cmd_env where
  "demo_cmd = \<lparr>dev = demo_dev, penv = demo_penv, proc_content = \<lambda>_. None, all_pid_infos = [], sa_val = \<lambda>_. 1,
     StrToInt = \<lambda>s. if s = ''123'' then Some 123 else None, IsNumericStr = \<lambda>s. s = ''123'', IsSubStr = contains,
     TrimStr = \<lambda>s. s, SplitStr = \<lambda>s _ _ _. [s], mktime_of = \<lambda>_. None, GetTime = ''t'', hiview_enable = False,
     plugin_enable = False, is_emulator = False, outputFd = 1, reqUid = 2000, reqPid = 50, reqCallerPpid = 1\<rparr>"

definition demo_argv :: "string list" where
  "demo_argv = [''hidumper'', ''--mem-heap'', ''123'', ''--native'']"

definition demo_answers :: "getopt_event list" where
  "demo_answers =
    [\<lparr>ge_c = LongOpt 8, ge_optarg = None, ge_optind = 2, ge_optopt = CHR 0x00\<rparr>,
     \<lparr>ge_c = OptChar (CHR 0x01), ge_optarg = Some ''123'', ge_optind = 3, ge_optopt = CHR 0x00\<rparr>,
     \<lparr>ge_c = LongOpt 9, ge_optarg = None, ge_optind = 4, ge_optopt = CHR 0x00\<rparr>]"

definition demo_impl :: DumpImplement where
  "demo_impl = \<lparr>im_opts = Reset DumperOpts_zero, im_event = event_init, im_path = [], im_writes = [], im_reports = []\<rparr>"

lemma demo_parse: "\<exists>im'. CmdParse demo_cmd demo_argv demo_answers demo_impl = Some (DUMP_OK, im')
    \<and> o_isDumpHeapMem (im_opts im') \<and> heap_pid (im_opts im') = 123 \<and> \<not> o_isDumpHeapArkwebJs (im_opts im')"
proof -
  have "case CmdParse demo_cmd demo_argv demo_answers demo_impl of None \<Rightarrow> False
      | Some (st, im') \<Rightarrow> st = DUMP_OK \<and> o_isDumpHeapMem (im_opts im') \<and> heap_pid (im_opts im') = 123 \<and> \<not> o_isDumpHeapArkwebJs (im_opts im')"
    by code_simp
  then show ?thesis by (auto split: option.splits prod.splits)
qed

section \<open>Accepted command lines\<close>

text \<open>
  C28. Permissions. On a release build of the system an accepted request reads the memory maps of a
  process only for a debug-signed application (or for the log service), a JavaScript heap only of a
  debug-signed or an in-house, profileable application in developer mode, and any other heap or
  the leaking threads only of a debug-signed application. For a render process it is the render
  process named in the request that was checked, not the main process that replaces it.
\<close>

theorem command_permitted:
  assumes "CmdParse env argv ges im = Some (DUMP_OK, im')" and "IsUserMode (dev env)" and "opt = im_opts im'"
  shows "(o_isShowSmaps opt \<longrightarrow> reqUid env = 1201 \<or> CheckAppDebugVersion (dev env) (o_memPid opt))
    \<and> (o_isDumpJsHeapMem opt \<longrightarrow> CheckAppDebugVersion (dev env) (o_dumpJsHeapMemPid opt)
        \<or> CheckAppProfileable (dev env) (o_dumpJsHeapMemPid opt) \<and> CheckAppInhouse (dev env) (o_dumpJsHeapMemPid opt)
          \<and> IsDeveloperModeEnabled (dev env))
    \<and> (o_isDumpCjHeapMem opt \<longrightarrow> CheckAppDebugVersion (dev env) (o_dumpCjHeapMemPid opt))
    \<and> (o_isDumpHeapMem opt \<longrightarrow>
        CheckAppDebugVersion (dev env) (if o_isDumpHeapArkwebJs opt then o_dumpHeapRenderPid opt else heap_pid opt))
    \<and> (o_showLeakThread opt \<longrightarrow> IsApplicationPid env (o_memPid opt) \<and> CheckAppDebugVersion (dev env) (o_memPid opt))"
proof -
  have "permitted_final env (im_opts im')"
  proof (rule CmdParse_okE [OF assms(1)])
    fix im0 im1 im4
    assume p: "im_opts im0 = Reset DumperOpts_zero" "parse_loop env argv ges im0 = Some (DUMP_OK, im1)"
      and c: "CheckDumpPermission env im1 = (True, im1)" and v: "ValidateDumpOptions env argv im1 = (DUMP_OK, im4)"
      and f: "im_opts im' = (if IsSelectAny (RemoveDuplicateString_opts (im_opts im4)) then RemoveDuplicateString_opts (im_opts im4)
        else ProcessDumpOptions env (reqPid env) (RemoveDuplicateString_opts (im_opts im4)))"
    have "user_mode_ok env (im_opts im1)" using CheckDumpPermission_ok [OF c] assms(2) by blast
    with v have "permitted_final env (RemoveDuplicateString_opts (im_opts im4))" by (intro permitted_validated)
    moreover have "suboptions_ok (RemoveDuplicateString_opts (im_opts im4))"
      using subopts.parse_loop_keeps [OF p(2)] p(1) suboptions_reset same_suboptions [OF validated_same [OF v]] by simp
    ultimately show ?thesis using f permitted_unselected by simp
  qed
  then show ?thesis unfolding permitted_final_def assms(3) .
qed

theorem command_permitted_witness:
  "\<exists>im'. CmdParse demo_cmd demo_argv demo_answers demo_impl = Some (DUMP_OK, im')
     \<and> o_isDumpHeapMem (im_opts im') \<and> CheckAppDebugVersion (dev demo_cmd) 123"
proof -
  obtain im' where r: "CmdParse demo_cmd demo_argv demo_answers demo_impl = Some (DUMP_OK, im')"
    and o: "o_isDumpHeapMem (im_opts im')" "heap_pid (im_opts im') = 123" "\<not> o_isDumpHeapArkwebJs (im_opts im')"
    using demo_parse by blast
  have "IsUserMode (dev demo_cmd)" by code_simp
  from command_permitted [OF r this refl] o have "CheckAppDebugVersion (dev demo_cmd) 123" by simp
  with r o show ?thesis by blast
qed



text \<open>
  C30. Consistency. The options of an accepted command line have no sub-option without the option it
  belongs to, select something to dump, and name an archive inside the log folder or none; a heap
  dump has exactly one kind of heap and exactly one process.
\<close>

theorem command_consistent:
  assumes "CmdParse env argv ges im = Some (DUMP_OK, im')"
  shows "suboptions_ok (im_opts im') \<and> IsSelectAny (im_opts im')
    \<and> o_path (im_opts im') \<in> {[], ''/data/log/hidumper/'' @ GetTime env @ ''.zip''}
    \<and> (o_isDumpHeapMem (im_opts im') \<longrightarrow> heap_arg_count (im_opts im') = 1 \<and> one_heap_pid (im_opts im'))"
proof (rule CmdParse_okE [OF assms])
  fix im0 im1 im4
  assume p: "im_opts im0 = Reset DumperOpts_zero" "parse_loop env argv ges im0 = Some (DUMP_OK, im1)"
    and v: "ValidateDumpOptions env argv im1 = (DUMP_OK, im4)"
    and f: "im_opts im' = (if IsSelectAny (RemoveDuplicateString_opts (im_opts im4)) then RemoveDuplicateString_opts (im_opts im4)
      else ProcessDumpOptions env (reqPid env) (RemoveDuplicateString_opts (im_opts im4)))"
  note same = validated_same [OF v]
  have s: "suboptions_ok (RemoveDuplicateString_opts (im_opts im4))"
    using subopts.parse_loop_keeps [OF p(2)] p(1) suboptions_reset same_suboptions [OF same] by simp
  have z: "zip_path_ok env (RemoveDuplicateString_opts (im_opts im4))"
    using zip_path.parse_loop_keeps [OF p(2)] p(1) zip_path_reset same_zip [OF same] by simp
  have h: "o_isDumpHeapMem opts \<longrightarrow> heap_arg_count opts = 1 \<and> one_heap_pid opts"
    if "opts = RemoveDuplicateString_opts (im_opts im4)" for opts
    unfolding that by (rule heap_validated [OF v])
  have u: "\<not> o_isDumpHeapMem (ProcessDumpOptions env (reqPid env) opts)" if "\<not> IsSelectAny opts" for opts
    using that by (simp add: ProcessDumpOptions_def Let_def AddSelectAll_def IsSelectAny_def split: if_splits)
  show ?thesis
  proof (cases "IsSelectAny (RemoveDuplicateString_opts (im_opts im4))")
    case True
    with f s z h show ?thesis by (simp add: zip_path_ok_def)
  next
    case False
    with f s z u ProcessDumpOptions_suboptions [OF s] ProcessDumpOptions_zip [OF z] ProcessDumpOptions_selects
    show ?thesis by (simp add: zip_path_ok_def)
  qed
qed

theorem command_consistent_witness:
  "\<exists>im'. CmdParse demo_cmd demo_argv demo_answers demo_impl = Some (DUMP_OK, im') \<and> heap_arg_count (im_opts im') = 1"
proof -
  obtain im' where r: "CmdParse demo_cmd demo_argv demo_answers demo_impl = Some (DUMP_OK, im')" "o_isDumpHeapMem (im_opts im')"
    using demo_parse by blast
  with command_consistent [OF r(1)] show ?thesis by blast
qed




text \<open>
  C32. Bounds. As long as \<open>getopt_long\<close> keeps its contract, parsing any command line ends with a status
  and never reads outside the arguments, outside the table of long options or through a null
  \<open>optarg\<close>; and only command lines of at most 64 arguments of 1 to 256 characters get past the
  first check.
\<close>

theorem command_in_bounds:
  assumes "list_all (getopt_ok env argv) ges"
  shows "\<exists>status im'. CmdParse env argv ges im = Some (status, im')
    \<and> (status = DUMP_OK \<longrightarrow> length argv \<le> 64 \<and> list_all (\<lambda>arg. 0 < length arg \<and> length arg \<le> 256) argv)"
proof -
  obtain ok im0 where ca: "CheckArgs argv im = (ok, im0)" by fastforce
  from CmdParse_defined [OF assms] obtain status im' where r: "CmdParse env argv ges im = Some (status, im')" by fastforce
  have "ok = DUMP_OK" if "status = DUMP_OK" using r ca that by (auto simp: CmdParse_def split: if_splits)
  with r ca CheckArgs_ok show ?thesis by blast
qed

theorem command_in_bounds_witness:
  "\<exists>status im'. CmdParse demo_cmd demo_argv demo_answers demo_impl = Some (status, im')"
proof -
  have "list_all (getopt_ok demo_cmd demo_argv) demo_answers" by code_simp
  from command_in_bounds [OF this] show ?thesis by blast
qed

end
