(* ===== verification/Exec_Stream.thy ===== *)
theory Exec_Stream
  imports Dump_Cfg Dump_Utils Raw_Param
begin

text \<open>
  The executors that stream a file or the output of a command:
  \<^verbatim>\<open>src/frameworks/native/src/executor/file_stream_dumper.cpp\<close> and \<^verbatim>\<open>cmd_dumper.cpp\<close>, with what all
  executors share: the device they read (\<open>exec_env\<close>) and the state they change (\<open>exec_world\<close>): the
  matrix of strings that dumpers fill and outputs empty, what was written to the descriptor of
  the request and to the log file, the request object, the calls made to other services.

  The matrix pointer that \<open>DumpDatas\<close> hands to every executor is never null, so the null checks of
  the executors are taken. The contents of files do not change during a request. Descriptors are
  not modelled beside the stream that owns them.
\<close>

section \<open>Device and state\<close>

type_synonym matrix = "string list list"

text \<open>
  Requests that executors send to other services. The kinds of a memory dump are those of the
  application manager that the code names.
\<close>

datatype MemDumpType = NATIVE | KMP_KOTLIN | JSVM | ARKWEB_JS | INVALID

datatype exec_call =
    SaDump int "string list" \<comment> \<open>\<open>Dump\<close> of a system ability, with its arguments\<close>
  | JsHeapDump (js_pid: int) (js_tid: int) (js_gc: bool) (js_snapshot: bool) (js_leakobj: bool) (js_binary: bool)
      (js_clean: bool) (js_combine: bool)
  | CjHeapDump (cj_pid: int) (cj_gc: bool) (cj_snapshot: bool)
  | MemHeapDump (mh_pid: int) (mh_tid: int) (mh_type: MemDumpType) (mh_leakobj: bool) (mh_raw: bool) (mh_render: int)
      (mh_dump: bool) (mh_gc: bool) (mh_sync: bool)
  | ThreadStackLeak int
  | ArktsHeap int
  | ZipFolder string string \<comment> \<open>source folder, archive\<close>

record exec_world =
  w_matrix :: matrix
  w_out :: "string list" \<comment> \<open>written to the descriptor of the request\<close>
  w_file :: "string list" \<comment> \<open>appended to the output file or log file\<close>
  w_raw :: RawParam
  w_tick :: nat \<comment> \<open>number of cancellation checks so far\<close>
  w_calls :: "exec_call list"

record file_env =
  open_read :: "string \<Rightarrow> stream option" \<comment> \<open>\<open>FdToRead\<close> and \<open>fdopen\<close>, or \<open>fopen\<close>\<close>
  list_dir :: "string \<Rightarrow> string list option" \<comment> \<open>\<open>opendir\<close> and \<open>readdir\<close>\<close>
  popen :: "string \<Rightarrow> stream option"
  open_append :: "string \<Rightarrow> bool"
  fd_to_write :: "string \<Rightarrow> bool" \<comment> \<open>\<open>FdToWrite\<close> gives a descriptor\<close>
  cancel_at :: "nat \<Rightarrow> bool" \<comment> \<open>whether the n-th check finds the request canceled\<close>
  x_dev :: dev_env

definition push_line :: "string list \<Rightarrow> exec_world \<Rightarrow> exec_world" where
  "push_line line w = w\<lparr>w_matrix := w_matrix w @ [line]\<rparr>"

definition IsCanceled :: "('e file_env_scheme) \<Rightarrow> exec_world \<Rightarrow> bool \<times> exec_world" where
  "IsCanceled env w = (cancel_at env (w_tick w), w\<lparr>w_tick := Suc (w_tick w)\<rparr>)"

text \<open>\<open>DumpCommonUtils::IsUserPid\<close>: the first line of the process's \<open>smaps\<close> is not empty.\<close>

definition IsUserPid :: "('e file_env_scheme) \<Rightarrow> string \<Rightarrow> bool" where
  "IsUserPid env pid =
    (case open_read env (''/proc/'' @ pid @ ''/smaps'') of
       None \<Rightarrow> False
     | Some s \<Rightarrow> (case fst (getline s) of None \<Rightarrow> False | Some line \<Rightarrow> c_str line \<noteq> []))"

section \<open>Files\<close>

record FileStreamDumper =
  filenames :: "string list"
  fs_fp :: "stream option"
  next_file_index :: nat
  more_data :: bool
  need_loop :: bool
  needHideAddr :: bool

definition FileStreamDumper_new :: FileStreamDumper where
  "FileStreamDumper_new = \<lparr>filenames = [], fs_fp = None, next_file_index = 0, more_data = False, need_loop = False, needHideAddr = False\<rparr>"

definition binder_state :: string where "binder_state = ''/sys/kernel/debug/binder/state''"

definition ReplacePid :: "int \<Rightarrow> string \<Rightarrow> string" where
  "ReplacePid pid name = replace_first ''%pid'' (to_string pid) name"

definition ReplaceCpuId :: "int \<Rightarrow> string \<Rightarrow> string" where
  "ReplaceCpuId cpuid name = replace_first ''%cpuid'' (to_string cpuid) name"

definition BuildFileNames :: "('e file_env_scheme) \<Rightarrow> string \<Rightarrow> OptionArgs option \<Rightarrow> string list" where
  "BuildFileNames env target args =
    (let named = (\<lambda>name. case args of None \<Rightarrow> name
                  | Some a \<Rightarrow> (let name1 = (if hasPid a then ReplacePid (a_pid a) name else name) in
                              if hasCpuId a then ReplaceCpuId (a_cpuId a) name1 else name1)) in
     case list_dir env target of
       Some entries \<Rightarrow>
         (let dir_name = (if last target \<noteq> CHR ''/'' then target @ ''/'' else target) in
          map (\<lambda>d. named (dir_name @ d)) (filter (\<lambda>d. d \<noteq> ''.'' \<and> d \<noteq> ''..'') entries))
     | None \<Rightarrow> [named target])"

definition fs_CloseFd :: "FileStreamDumper \<Rightarrow> FileStreamDumper" where
  "fs_CloseFd fs = fs\<lparr>fs_fp := None\<rparr>"

text \<open>\<open>OpenNextFile\<close> returns 0 when there are no more files, -1 on an error.\<close>

definition OpenNextFile :: "('e file_env_scheme) \<Rightarrow> FileStreamDumper \<Rightarrow> exec_world \<Rightarrow> int \<times> FileStreamDumper \<times> exec_world" where
  "OpenNextFile env fs0 w =
    (let fs = fs_CloseFd fs0 in
     if next_file_index fs \<ge> length (filenames fs) then (0, fs, w)
     else
       let filename = filenames fs ! next_file_index fs in
       case open_read env filename of
         None \<Rightarrow> (-1, fs, w)
       | Some s \<Rightarrow>
           (int (Suc (next_file_index fs)), fs\<lparr>fs_fp := Some s, next_file_index := Suc (next_file_index fs)\<rparr>,
            push_line [[]] (push_line [filename] (push_line [[]] w))))"

definition fs_PreExecute ::
    "('e file_env_scheme) \<Rightarrow> DumpCfg \<Rightarrow> FileStreamDumper \<Rightarrow> exec_world \<Rightarrow> DumpStatus \<times> FileStreamDumper \<times> exec_world" where
  "fs_PreExecute env cfg fs w =
    (if next_file_index fs \<le> 0 then
       let fs1 = fs\<lparr>needHideAddr := (if c_target cfg = binder_state then True else needHideAddr fs),
                    filenames := filenames fs @ BuildFileNames env (c_target cfg) (c_args cfg),
                    need_loop := (c_loop cfg = LOOP)\<rparr> in
       case OpenNextFile env fs1 w of (ret, fs2, w2) \<Rightarrow>
         (if ret \<le> 0 then DUMP_FAIL else DUMP_OK, fs2, w2)
     else (DUMP_OK, fs, w))"

definition ReplaceAddresses :: "string \<Rightarrow> string" where
  "ReplaceAddresses line =
    (case find_str '': u'' line of
       None \<Rightarrow> line
     | Some start \<Rightarrow>
         (let replacement = '': u0000000000000000 c0000000000000000'' in
          if start < length line then replace_at start (length replacement) replacement line else line))"

definition hide_address :: "('e file_env_scheme) \<Rightarrow> FileStreamDumper \<Rightarrow> string \<Rightarrow> string" where
  "hide_address env fs line = (if needHideAddr fs \<and> IsUserMode (x_dev env) then ReplaceAddresses line else line)"

definition ReadLineInFile ::
    "('e file_env_scheme) \<Rightarrow> FileStreamDumper \<Rightarrow> exec_world \<Rightarrow> DumpStatus \<times> FileStreamDumper \<times> exec_world" where
  "ReadLineInFile env fs w =
    (case fs_fp fs of
       None \<Rightarrow> (DUMP_FAIL, fs, w)
     | Some s \<Rightarrow>
        (case getline s of (line, s') \<Rightarrow>
         let fs1 = fs\<lparr>fs_fp := Some s'\<rparr>;
             w1 = (case line of Some l \<Rightarrow> push_line [hide_address env fs (chomp l)] w | None \<Rightarrow> w);
             ret1 = (if line = None \<and> \<not> st_eof s' then DUMP_FAIL else DUMP_MORE_DATA);
             (ret, fs2, w2) =
               (if st_eof s' then
                  case OpenNextFile env fs1 w1 of (more_file, fs2, w2) \<Rightarrow>
                    (if more_file > 0 then DUMP_MORE_DATA else if more_file = 0 then DUMP_OK else DUMP_FAIL, fs2, w2)
                else (ret1, fs1, w1)) in
         (ret, fs2\<lparr>more_data := (ret = DUMP_MORE_DATA)\<rparr>, w2)))"

text \<open>What is left to read, in lines and characters: the measure of the reading loops.\<close>

definition stream_size :: "stream option \<Rightarrow> nat" where
  "stream_size fp = (case fp of None \<Rightarrow> 0 | Some s \<Rightarrow> Suc (length (st_rest s)))"

definition fs_remaining :: "('e file_env_scheme) \<Rightarrow> FileStreamDumper \<Rightarrow> nat" where
  "fs_remaining env fs =
    sum_list (map (\<lambda>f. stream_size (open_read env f)) (drop (next_file_index fs) (filenames fs))) + stream_size (fs_fp fs)"

lemma OpenNextFile_size:
  "OpenNextFile env fs w = (r, fs', w') \<Longrightarrow> r > 0 \<Longrightarrow> fs_remaining env fs' \<le> fs_remaining env fs - stream_size (fs_fp fs)"
  by (auto simp: OpenNextFile_def fs_CloseFd_def Let_def fs_remaining_def stream_size_def Cons_nth_drop_Suc [symmetric]
      split: if_splits option.splits)

lemma ReadLineInFile_shrinks:
  assumes "ReadLineInFile env fs w = (DUMP_MORE_DATA, fs', w')"
  shows "fs_remaining env fs' < fs_remaining env fs"
proof -
  from assms obtain s where s: "fs_fp fs = Some s" by (auto simp: ReadLineInFile_def split: option.splits)
  obtain line s' where g: "getline s = (line, s')" by fastforce
  define w1 where "w1 = (case line of Some l \<Rightarrow> push_line [hide_address env fs (chomp l)] w | None \<Rightarrow> w)"
  have pos: "stream_size (fs_fp fs) > 0" by (simp add: s stream_size_def)
  show ?thesis
  proof (cases "st_eof s'")
    case True
    obtain r fs2 w2 where o: "OpenNextFile env (fs\<lparr>fs_fp := Some s'\<rparr>) w1 = (r, fs2, w2)" by (metis prod_cases3)
    with assms s g True have "r > 0" and f: "fs' = fs2\<lparr>more_data := True\<rparr>"
      by (auto simp: ReadLineInFile_def Let_def w1_def split: if_splits)
    from OpenNextFile_size [OF o \<open>r > 0\<close>] have "fs_remaining env fs2 \<le> fs_remaining env fs - stream_size (fs_fp fs)"
      by (simp add: fs_remaining_def)
    then show ?thesis using f pos by (simp add: fs_remaining_def)
  next
    case False
    with assms s g obtain l where "line = Some l" and f: "fs' = fs\<lparr>fs_fp := Some s', more_data := True\<rparr>"
      by (auto simp: ReadLineInFile_def Let_def split: if_splits)
    with getline_shrinks [of s l s'] g s show ?thesis by (simp add: f fs_remaining_def stream_size_def)
  qed
qed

text \<open>The loop of \<open>Execute\<close> that reads every line, unless the request is canceled.\<close>

function read_all_lines ::
    "('e file_env_scheme) \<Rightarrow> DumpStatus \<Rightarrow> FileStreamDumper \<Rightarrow> exec_world \<Rightarrow> DumpStatus \<times> FileStreamDumper \<times> exec_world" where
  "read_all_lines env ret fs w =
    (case IsCanceled env w of (canceled, w1) \<Rightarrow>
     if canceled then (ret, fs, w1)
     else case ReadLineInFile env fs w1 of (ret', fs', w') \<Rightarrow>
       if ret' = DUMP_MORE_DATA then read_all_lines env ret' fs' w' else (ret', fs', w'))"
  by pat_completeness auto
termination
  by (relation "measure (\<lambda>(env, ret, fs, w). fs_remaining env fs)") (auto dest: ReadLineInFile_shrinks split: prod.splits)

declare read_all_lines.simps [simp del]

definition fs_Execute ::
    "('e file_env_scheme) \<Rightarrow> FileStreamDumper \<Rightarrow> exec_world \<Rightarrow> DumpStatus \<times> FileStreamDumper \<times> exec_world" where
  "fs_Execute env fs w = (if need_loop fs then ReadLineInFile env fs w else read_all_lines env DUMP_OK fs w)"

definition fs_AfterExecute :: "DumpCfg \<Rightarrow> FileStreamDumper \<Rightarrow> DumpStatus \<times> FileStreamDumper" where
  "fs_AfterExecute cfg fs =
    (if \<not> more_data fs then
       let fs1 = fs_CloseFd fs in
       (DUMP_OK, if c_target cfg = binder_state then fs1\<lparr>needHideAddr := False\<rparr> else fs1)
     else (DUMP_MORE_DATA, fs))"

section \<open>Commands\<close>

record CMDDumper =
  cd_cmd :: string
  cd_fp :: "stream option"
  cd_lineData :: "string list"
  moreData :: bool
  needLoop :: bool

definition CMDDumper_new :: CMDDumper where
  "CMDDumper_new = \<lparr>cd_cmd = [], cd_fp = None, cd_lineData = [], moreData = False, needLoop = False\<rparr>"

definition CMD_PREFIX :: string where "CMD_PREFIX = ''/system/bin/''"

definition cd_PreExecute ::
    "('e file_env_scheme) \<Rightarrow> DumpCfg \<Rightarrow> CMDDumper \<Rightarrow> exec_world \<Rightarrow> DumpStatus \<times> CMDDumper \<times> exec_world" where
  "cd_PreExecute env cfg cd w =
    (let kernel = (case c_args cfg of None \<Rightarrow> False
                   | Some a \<Rightarrow> hasPid a \<and> c_name cfg = ''dumper_stack'' \<and> \<not> IsUserPid env (to_string (a_pid a)));
         cmd = (case c_args cfg of None \<Rightarrow> c_target cfg
                | Some a \<Rightarrow> (let cmd1 = (if hasPid a then ReplacePid (a_pid a) (c_target cfg) else c_target cfg) in
                            if hasCpuId a then ReplaceCpuId (a_cpuId a) cmd1 else cmd1)) in
     if kernel then (DUMP_FAIL, cd, w)
     else
       let cd1 = cd\<lparr>cd_cmd := cmd, needLoop := (c_loop cfg = LOOP)\<rparr>;
           fp = (case cd_fp cd1 of Some s \<Rightarrow> Some s | None \<Rightarrow> popen env (CMD_PREFIX @ cmd)) in
       if fp = None then (DUMP_FAIL, cd1\<lparr>cd_fp := None\<rparr>, w)
       else if cd_lineData cd1 = [] then
         let line = [[CHR 0x0A] @ ''cmd is: '' @ cmd @ [CHR 0x0A, CHR 0x0A]] in
         (DUMP_OK, cd1\<lparr>cd_fp := fp, cd_lineData := line\<rparr>, push_line line w)
       else (DUMP_OK, cd1\<lparr>cd_fp := fp\<rparr>, w))"

definition GetLineData :: "stream \<Rightarrow> exec_world \<Rightarrow> DumpStatus \<times> stream \<times> exec_world" where
  "GetLineData fp w =
    (case getline fp of (line, fp') \<Rightarrow>
       case line of
         Some l \<Rightarrow> (DUMP_MORE_DATA, fp', push_line [chomp l] w)
       | None \<Rightarrow> (if \<not> st_eof fp' then DUMP_FAIL else DUMP_OK, fp', w))"

definition ReadLineInCmd :: "CMDDumper \<Rightarrow> exec_world \<Rightarrow> DumpStatus \<times> CMDDumper \<times> exec_world" where
  "ReadLineInCmd cd w =
    (case cd_fp cd of
       None \<Rightarrow> (DUMP_FAIL, cd, w)
     | Some fp \<Rightarrow> (case GetLineData fp w of (ret, fp', w') \<Rightarrow>
         (ret, cd\<lparr>cd_fp := Some fp', moreData := (ret = DUMP_MORE_DATA)\<rparr>, w')))"

lemma GetLineData_shrinks: "GetLineData fp w = (DUMP_MORE_DATA, fp', w') \<Longrightarrow> length (st_rest fp') < length (st_rest fp)"
  by (auto simp: GetLineData_def split: prod.splits option.splits if_splits intro: getline_shrinks)

lemma ReadLineInCmd_shrinks:
  "ReadLineInCmd cd w = (DUMP_MORE_DATA, cd', w') \<Longrightarrow> stream_size (cd_fp cd') < stream_size (cd_fp cd)"
  by (auto simp: ReadLineInCmd_def stream_size_def split: option.splits prod.splits dest: GetLineData_shrinks)

function read_all_cmd ::
    "('e file_env_scheme) \<Rightarrow> DumpStatus \<Rightarrow> CMDDumper \<Rightarrow> exec_world \<Rightarrow> DumpStatus \<times> CMDDumper \<times> exec_world" where
  "read_all_cmd env ret cd w =
    (case IsCanceled env w of (canceled, w1) \<Rightarrow>
     if canceled then (ret, cd, w1)
     else case ReadLineInCmd cd w1 of (ret', cd', w') \<Rightarrow>
       if ret' = DUMP_MORE_DATA then read_all_cmd env ret' cd' w' else (ret', cd', w'))"
  by pat_completeness auto
termination
  by (relation "measure (\<lambda>(env, ret, cd, w). stream_size (cd_fp cd))") (auto dest: ReadLineInCmd_shrinks split: prod.splits)

declare read_all_cmd.simps [simp del]

definition cd_Execute ::
    "('e file_env_scheme) \<Rightarrow> CMDDumper \<Rightarrow> exec_world \<Rightarrow> DumpStatus \<times> CMDDumper \<times> exec_world" where
  "cd_Execute env cd w = (if needLoop cd then ReadLineInCmd cd w else read_all_cmd env DUMP_OK cd w)"

definition cd_AfterExecute :: "CMDDumper \<Rightarrow> DumpStatus \<times> CMDDumper" where
  "cd_AfterExecute cd = (if \<not> moreData cd then (DUMP_OK, cd\<lparr>cd_fp := None\<rparr>) else (DUMP_MORE_DATA, cd))"

text \<open>\<open>GetCmdInterface\<close>: the whole output of a command.\<close>

function read_lines :: "stream \<Rightarrow> exec_world \<Rightarrow> DumpStatus \<times> exec_world" where
  "read_lines fp w = (case GetLineData fp w of (ret, fp', w') \<Rightarrow> if ret = DUMP_MORE_DATA then read_lines fp' w' else (ret, w'))"
  by pat_completeness auto
termination
  by (relation "measure (\<lambda>(fp, w). length (st_rest fp))") (auto dest: GetLineData_shrinks [OF sym])

declare read_lines.simps [simp del]

definition GetCmdInterface :: "('e file_env_scheme) \<Rightarrow> string \<Rightarrow> exec_world \<Rightarrow> DumpStatus \<times> exec_world" where
  "GetCmdInterface env cmd w = (case popen env (CMD_PREFIX @ cmd) of None \<Rightarrow> (DUMP_FAIL, w) | Some fp \<Rightarrow> read_lines fp w)"

end
