(* ===== verification/Exec_Output.thy ===== *)
theory Exec_Output
  imports Exec_Stream Dumper_Tasks
begin

text \<open>
  Filters and outputs of the classic framework: \<^verbatim>\<open>file_format_dump_filter.cpp\<close>, \<^verbatim>\<open>fd_output.cpp\<close> and
  \<^verbatim>\<open>zipfolder_output.cpp\<close> under \<^verbatim>\<open>src/frameworks/native/src/executor\<close>. \<open>ColumnRowsFilter\<close>,
  \<open>DumperGroup\<close>, \<open>EnvParamDumper\<close> and \<open>PropertiesDumper\<close> do nothing in the code.
\<close>

section \<open>Removing control characters\<close>

text \<open>The loop over the positions of the string, with the flag \<open>skip\<close> and the new string.\<close>

function fmt_loop :: "string \<Rightarrow> nat \<Rightarrow> bool \<Rightarrow> string \<Rightarrow> string" where
  "fmt_loop str pos skip newStr =
    (if pos \<ge> length str then newStr
     else
       let c = str ! pos;
           skip1 = (if \<not> skip \<and> c = CHR 0x1B \<and> pos + 1 < length str then str ! (pos + 1) = CHR 0x5B else skip) in
       if skip1 \<and> is_letter c then fmt_loop str (Suc pos) False newStr
       else if skip1 \<or> c = CHR 0x0D \<or> c = CHR 0x0A then fmt_loop str (Suc pos) skip1 newStr
       else fmt_loop str (Suc pos) skip1 (newStr @ [c]))"
  by pat_completeness auto
termination
  by (relation "measure (\<lambda>(str, pos, skip, newStr). length str - pos)") auto

declare fmt_loop.simps [simp del]

definition fmt_FilterControlChar :: "string \<Rightarrow> string" where
  "fmt_FilterControlChar str = fmt_loop str 0 False []"

definition fmt_Execute :: "exec_world \<Rightarrow> DumpStatus \<times> exec_world" where
  "fmt_Execute w = (DUMP_OK, w\<lparr>w_matrix := map (map fmt_FilterControlChar) (w_matrix w)\<rparr>)"

text \<open>The filter of the executor and the filter of the task framework are the same function.\<close>

lemma fmt_loop_drop: "drop pos str = ds \<Longrightarrow> fmt_loop str pos skip newStr = newStr @ filter_control skip ds"
proof (induction ds arbitrary: pos skip newStr)
  case Nil
  then show ?case by (simp add: fmt_loop.simps)
next
  case (Cons d ds)
  then have p: "pos < length str" by (metis drop_all list.distinct(1) not_le)
  with Cons.prems have d: "str ! pos = d" "drop (Suc pos) str = ds" by (metis Cons_nth_drop_Suc list.inject)+
  have n: "(pos + 1 < length str) = (ds \<noteq> [])" using d(2) p by auto
  have h: "str ! (pos + 1) = hd ds" if "ds \<noteq> []" using that d(2) hd_drop_conv_nth [of "pos + 1" str] n by simp
  define skip1 where "skip1 = (if \<not> skip \<and> d = CHR 0x1B \<and> ds \<noteq> [] then hd ds = CHR 0x5B else skip)"
  have s1: "(if \<not> skip \<and> d = CHR 0x1B \<and> pos + 1 < length str then str ! (pos + 1) = CHR 0x5B else skip) = skip1"
    unfolding skip1_def n using h by simp
  show ?case
    unfolding fmt_loop.simps [of str pos] filter_control.simps Let_def d(1) s1 skip1_def [symmetric]
    using p Cons.IH [OF d(2)] by simp
qed

lemma fmt_is_FilterControlChar: "fmt_FilterControlChar = FilterControlChar"
  by (rule ext) (simp add: fmt_FilterControlChar_def FilterControlChar_def fmt_loop_drop)

section \<open>Output to descriptors\<close>

record FDOutput =
  fo_open :: bool \<comment> \<open>\<open>fd_\<close> is a descriptor of the output file\<close>
  fo_path :: string

definition FDOutput_new :: FDOutput where
  "FDOutput_new = \<lparr>fo_open = False, fo_path = []\<rparr>"

definition fo_PreExecute :: "('e file_env_scheme) \<Rightarrow> string \<Rightarrow> FDOutput \<Rightarrow> DumpStatus \<times> FDOutput" where
  "fo_PreExecute env outputFilePath fo =
    (let fo1 = fo\<lparr>fo_path := outputFilePath\<rparr> in
     if \<not> fo_open fo1 \<and> fo_path fo1 \<noteq> [] then
       (if open_append env (fo_path fo1) then (DUMP_OK, fo1\<lparr>fo_open := True\<rparr>) else (DUMP_FAIL, fo1))
     else (DUMP_OK, fo1))"

definition NewLineMethod :: "string \<Rightarrow> string" where
  "NewLineMethod str = (if \<not> contains str [CHR 0x0A] then str @ [CHR 0x0A] else str)"

definition WriteToFd :: "FDOutput \<Rightarrow> string \<Rightarrow> exec_world \<Rightarrow> exec_world" where
  "WriteToFd fo str w =
    (let w1 = (if rp_outfd (w_raw w) > -1 then w\<lparr>w_out := w_out w @ [c_str str]\<rparr> else w) in
     if fo_open fo then w1\<lparr>w_file := w_file w1 @ [c_str str]\<rparr> else w1)"

fun out_items :: "FDOutput \<Rightarrow> string list \<Rightarrow> exec_world \<Rightarrow> exec_world" where
  "out_items fo [] w = w"
| "out_items fo [str] w = WriteToFd fo (NewLineMethod str) w"
| "out_items fo (str # rest) w = out_items fo rest (WriteToFd fo str w)"

fun out_lines :: "FDOutput \<Rightarrow> matrix \<Rightarrow> exec_world \<Rightarrow> exec_world" where
  "out_lines fo [] w = w"
| "out_lines fo (line # rest) w = out_lines fo rest (out_items fo line w)"

definition OutMethod :: "FDOutput \<Rightarrow> exec_world \<Rightarrow> exec_world" where
  "OutMethod fo w = out_lines fo (w_matrix w) w"

definition fo_Execute :: "FDOutput \<Rightarrow> exec_world \<Rightarrow> DumpStatus \<times> exec_world" where
  "fo_Execute fo w = (DUMP_OK, OutMethod fo w)"

definition clear_matrix :: "exec_world \<Rightarrow> exec_world" where
  "clear_matrix w = w\<lparr>w_matrix := []\<rparr>"

section \<open>Output to an archive\<close>

record ZipFolderOutput =
  zo_open :: bool
  zo_logDefaultPath :: string
  zo_param :: bool \<comment> \<open>\<open>param_\<close> is set\<close>

definition ZipFolderOutput_new :: ZipFolderOutput where
  "ZipFolderOutput_new = \<lparr>zo_open = False, zo_logDefaultPath = [], zo_param = False\<rparr>"

definition LOG_DEFAULT :: string where "LOG_DEFAULT = ''log.txt''"

definition zo_PreExecute :: "('e file_env_scheme) \<Rightarrow> ZipFolderOutput \<Rightarrow> exec_world \<Rightarrow> DumpStatus \<times> ZipFolderOutput" where
  "zo_PreExecute env zo w =
    (let zo1 = (if zo_logDefaultPath zo = [] then
                  let path = rp_folder (w_raw w) @ LOG_DEFAULT in
                  zo\<lparr>zo_param := True, zo_logDefaultPath := path, zo_open := fd_to_write env path\<rparr>
                else zo) in
     if \<not> zo_open zo1 then (DUMP_FAIL, zo1) else (DUMP_OK, zo1))"

definition zip_line :: "string list \<Rightarrow> string" where
  "zip_line items =
    (let line = concat items in if line = [] \<or> last line \<noteq> CHR 0x0A then line @ [CHR 0x0A] else line)"

definition zo_Execute :: "ZipFolderOutput \<Rightarrow> exec_world \<Rightarrow> DumpStatus \<times> exec_world" where
  "zo_Execute zo w =
    (if \<not> zo_open zo then (DUMP_FAIL, w)
     else
       let outstr = concat (map zip_line (w_matrix w));
           w1 = w\<lparr>w_matrix := map (\<lambda>_. []) (w_matrix w)\<rparr> in
       (DUMP_OK, if outstr \<noteq> [] then w1\<lparr>w_file := w_file w1 @ [outstr]\<rparr> else w1))"

text \<open>
  \<open>Reset\<close> closes the log file and packs the folder; the archive writer calls back \<open>notifies\<close> times,
  and each time the progress is shown.
\<close>

definition notify_progress :: "exec_world \<Rightarrow> exec_world" where
  "notify_progress w = (case UpdateProgress_to 0 (w_raw w) of (texts, raw) \<Rightarrow> w\<lparr>w_raw := raw, w_out := w_out w @ texts\<rparr>)"

definition zo_Reset :: "string \<Rightarrow> nat \<Rightarrow> ZipFolderOutput \<Rightarrow> exec_world \<Rightarrow> ZipFolderOutput \<times> exec_world" where
  "zo_Reset zip_path notifies zo w =
    (let w1 = (if zo_param zo then
                 (notify_progress ^^ notifies) (w\<lparr>w_calls := w_calls w @ [ZipFolder (rp_folder (w_raw w)) zip_path]\<rparr>)
               else w) in
     (zo\<lparr>zo_open := False, zo_param := False\<rparr>, w1))"

section \<open>Facts\<close>

definition line_items :: "string list \<Rightarrow> string list" where
  "line_items line = (if line = [] then [] else map c_str (butlast line @ [NewLineMethod (last line)]))"

lemma WriteToFd_simps [simp]:
  "w_out (WriteToFd fo s w) = w_out w @ (if rp_outfd (w_raw w) > -1 then [c_str s] else [])"
  "w_file (WriteToFd fo s w) = w_file w @ (if fo_open fo then [c_str s] else [])"
  "w_raw (WriteToFd fo s w) = w_raw w" "w_matrix (WriteToFd fo s w) = w_matrix w"
  "w_tick (WriteToFd fo s w) = w_tick w" "w_calls (WriteToFd fo s w) = w_calls w"
  by (auto simp: WriteToFd_def Let_def)

lemma out_items_simps:
  "w_raw (out_items fo line w) = w_raw w \<and> w_matrix (out_items fo line w) = w_matrix w
   \<and> w_tick (out_items fo line w) = w_tick w \<and> w_calls (out_items fo line w) = w_calls w
   \<and> w_out (out_items fo line w) = w_out w @ (if rp_outfd (w_raw w) > -1 then line_items line else [])
   \<and> w_file (out_items fo line w) = w_file w @ (if fo_open fo then line_items line else [])"
  by (induction fo line w rule: out_items.induct) (auto simp: line_items_def)

lemma out_lines_simps:
  "w_raw (out_lines fo m w) = w_raw w \<and> w_matrix (out_lines fo m w) = w_matrix w
   \<and> w_tick (out_lines fo m w) = w_tick w \<and> w_calls (out_lines fo m w) = w_calls w
   \<and> w_out (out_lines fo m w) = w_out w @ (if rp_outfd (w_raw w) > -1 then concat (map line_items m) else [])
   \<and> w_file (out_lines fo m w) = w_file w @ (if fo_open fo then concat (map line_items m) else [])"
  by (induction fo m w rule: out_lines.induct) (auto simp: out_items_simps)

text \<open>The descriptor output as one equation.\<close>

lemma OutMethod_eq:
  "OutMethod fo w = w\<lparr>w_out := w_out w @ (if rp_outfd (w_raw w) > -1 then concat (map line_items (w_matrix w)) else []),
     w_file := w_file w @ (if fo_open fo then concat (map line_items (w_matrix w)) else [])\<rparr>"
  using out_lines_simps [of fo "w_matrix w" w] by (simp add: OutMethod_def)

end
