(* ===== verification/Fd_Thread.thy ===== *)
theory Fd_Thread
  imports Exec_Stream Dumper_Opts "HOL-Library.Multiset" "HOL-Library.Char_ord" "HOL-Library.List_Lexorder"
    "HOL-Library.Product_Lexorder"
begin

text \<open>
  The dumper of open descriptors and threads of a process,
  \<^verbatim>\<open>src/frameworks/native/src/executor/fd_thread_dumper.cpp\<close>.

  What the C++ library leaves open is a parameter: the iteration order of \<open>std::unordered_map\<close>, the order
  that \<open>std::sort\<close> gives to equivalent elements, and which of several smallest elements a
  \<open>std::priority_queue\<close> has on top. A priority queue is the vector that it wraps, its top is the
  head of the vector.
\<close>

type_synonym count_entry = "string \<times> int"

record count_env =
  read_link :: "string \<Rightarrow> string option" \<comment> \<open>\<open>readlink\<close>, up to 4095 characters\<close>
  hash_order :: "count_entry list \<Rightarrow> count_entry list"
  sort_counts :: "count_entry list \<Rightarrow> count_entry list" \<comment> \<open>\<open>std::sort\<close>, larger counts first\<close>
  heap_push :: "count_entry \<Rightarrow> count_entry list \<Rightarrow> count_entry list"
  heap_pop :: "count_entry list \<Rightarrow> count_entry list"

definition FD_TOP_CNT :: nat where "FD_TOP_CNT = 10"
definition FD_PATH_MAX :: nat where "FD_PATH_MAX = 4096"
definition START_TIME_FIELD_INDEX :: nat where "START_TIME_FIELD_INDEX = 19"
definition ft_STORAGE_PATH_PREFIX :: string where "ft_STORAGE_PATH_PREFIX = ''/data/storage/el''"

section \<open>Nodes and links\<close>

definition ft_IsNumericStr :: "string \<Rightarrow> bool" where
  "ft_IsNumericStr str \<longleftrightarrow> str \<noteq> [] \<and> list_all is_digit str"

definition ft_GetSubNodes :: "('e file_env_scheme) \<Rightarrow> string \<Rightarrow> bool \<Rightarrow> string list" where
  "ft_GetSubNodes env path digit =
    (case list_dir env path of None \<Rightarrow> []
     | Some entries \<Rightarrow> filter (\<lambda>n. n \<noteq> ''.'' \<and> n \<noteq> ''..'' \<and> (digit \<longrightarrow> ft_IsNumericStr n)) entries)"

definition GetFdLink :: "count_env \<Rightarrow> string \<Rightarrow> string" where
  "GetFdLink ce linkPath =
    (case read_link ce linkPath of None \<Rightarrow> ''unknown'' | Some dest \<Rightarrow> c_str (take (FD_PATH_MAX - 1) dest))"

definition GetFdLinks :: "('e file_env_scheme) \<Rightarrow> count_env \<Rightarrow> int \<Rightarrow> string list" where
  "GetFdLinks env ce pid =
    (let fdPath = ''/proc/'' @ to_string pid @ ''/fd/'' in
     map (\<lambda>node. GetFdLink ce (fdPath @ node)) (ft_GetSubNodes env fdPath True))"

text \<open>The known types in the order of the \<open>std::set\<close>.\<close>

definition knownTypes :: "string list" where
  "knownTypes = [''ashmem'', ''dmabuf'', ''eventfd'', ''eventpoll'', ''pipe'', ''socket'', ''sync_file'']"

definition MaybeKnownType :: "string \<Rightarrow> string" where
  "MaybeKnownType link = (case find (\<lambda>type. contains link type) knownTypes of None \<Rightarrow> ''unknown'' | Some type \<Rightarrow> type)"

text \<open>\<open>++counter[k]\<close>\<close>

definition bump :: "string \<Rightarrow> count_entry list \<Rightarrow> count_entry list" where
  "bump k counter = modify k (\<lambda>n. n + 1) (emplace k 0 counter)"

definition path_key :: "string \<Rightarrow> string" where
  "path_key link = (let type = MaybeKnownType link in if type \<noteq> ''unknown'' then type else link)"

definition CountPaths :: "string list \<Rightarrow> count_entry list" where
  "CountPaths links = fold (\<lambda>link counter. bump (path_key link) counter) links []"

section \<open>The largest counts\<close>

definition topn_step :: "count_env \<Rightarrow> nat \<Rightarrow> count_entry \<Rightarrow> count_entry list \<Rightarrow> count_entry list" where
  "topn_step ce n kv minHeap =
    (if length minHeap < n then heap_push ce kv minHeap
     else if snd kv > snd (hd minHeap) then heap_push ce kv (heap_pop ce minHeap)
     else minHeap)"

text \<open>Emptying the queue takes as many rounds as it has elements.\<close>

primrec drain :: "count_env \<Rightarrow> nat \<Rightarrow> count_entry list \<Rightarrow> count_entry list" where
  "drain ce 0 minHeap = []"
| "drain ce (Suc k) minHeap = (if minHeap = [] then [] else hd minHeap # drain ce k (heap_pop ce minHeap))"

definition topn_rank :: "count_entry \<Rightarrow> int \<times> string" where
  "topn_rank e = (- snd e, fst e)"

definition TopN :: "count_env \<Rightarrow> count_entry list \<Rightarrow> nat \<Rightarrow> count_entry list" where
  "TopN ce counter n =
    (let minHeap = fold (topn_step ce n) (hash_order ce counter) [] in
     sort_key topn_rank (drain ce (length minHeap) minHeap))"

section \<open>The descriptor report\<close>

definition GetSummary :: "count_entry list \<Rightarrow> count_entry list \<Rightarrow> string" where
  "GetSummary topLinks topTypes =
    (if topLinks = [] \<and> topTypes = [] then []
     else if topLinks = [] then ''Leaked dir:'' @ fst (topTypes ! 0)
     else if topTypes = [] then ''Leaked fd:'' @ fst (topLinks ! 0)
     else if snd (topTypes ! 0) > snd (topLinks ! 0) then ''Leaked dir:'' @ fst (topTypes ! 0)
     else ''Leaked fd:'' @ fst (topLinks ! 0))"

definition GetTopFdInfo :: "count_entry list \<Rightarrow> string" where
  "GetTopFdInfo topLinks = concat (map (\<lambda>(name, count). to_string count @ [CHR 0x09] @ name @ [CHR 0x0A]) topLinks)"

definition GetTopDirInfo :: "count_env \<Rightarrow> count_entry list \<Rightarrow> (string \<times> count_entry list) list \<Rightarrow> string" where
  "GetTopDirInfo ce topTypes typePaths =
    concat (map (\<lambda>(type, cnt). to_string cnt @ [CHR 0x09] @ type @ [CHR 0x0A]
      @ (case map_of typePaths type of
           None \<Rightarrow> []
         | Some paths \<Rightarrow> concat (map (\<lambda>(path, count). ''0'' @ to_string count @ [CHR 0x09] @ path @ [CHR 0x0A])
             (TopN ce paths FD_TOP_CNT)))) topTypes)"

definition ft_FindFdClusterStartIndex :: "string \<Rightarrow> nat" where
  "ft_FindFdClusterStartIndex fullFileName =
    (let n = length ft_STORAGE_PATH_PREFIX;
         from = (\<lambda>i. if i > length fullFileName then length fullFileName
                     else i + length (takeWhile (\<lambda>c. \<not> is_digit c) (drop i fullFileName))) in
     if take n fullFileName \<noteq> ft_STORAGE_PATH_PREFIX \<or> \<not> (n < length fullFileName \<and> is_digit (fullFileName ! n))
     then from 0 else from (n + 1))"

text \<open>\<open>typePaths[type][path] = count\<close>\<close>

definition put_path :: "string \<Rightarrow> count_entry \<Rightarrow> (string \<times> count_entry list) list \<Rightarrow> (string \<times> count_entry list) list" where
  "put_path type e typePaths =
    modify type (\<lambda>paths. modify (fst e) (\<lambda>_. snd e) (emplace (fst e) 0 paths)) (emplace type [] typePaths)"

definition type_paths :: "count_entry list \<Rightarrow> (string \<times> count_entry list) list" where
  "type_paths linkCounts =
    fold (\<lambda>e typePaths. let type = take (ft_FindFdClusterStartIndex (fst e)) (fst e) in
        if type \<noteq> fst e then put_path type e typePaths else typePaths) linkCounts []"

definition type_total :: "(string \<times> count_entry list) list \<Rightarrow> count_entry list" where
  "type_total typePaths = map (\<lambda>(type, paths). (type, sum_list (map snd paths))) typePaths"

text \<open>\<open>std::getline\<close> on a string stream, one line of the matrix per line.\<close>

definition push_lines :: "string list \<Rightarrow> exec_world \<Rightarrow> exec_world" where
  "push_lines lines w = fold (\<lambda>l w. push_line [l] w) lines w"

definition DumpFdSummary :: "count_entry list \<Rightarrow> count_entry list \<Rightarrow> exec_world \<Rightarrow> exec_world" where
  "DumpFdSummary topLinks topTypes w =
    (let summary = GetSummary topLinks topTypes in
     push_lines ([''Summary:''] @ (if summary \<noteq> [] then [summary] else []) @ [[]]) w)"

definition DumpFdTopInfo :: "count_entry list \<Rightarrow> exec_world \<Rightarrow> exec_world" where
  "DumpFdTopInfo topLinks w =
    push_lines ((''Leaked fd Top '' @ to_string (int FD_TOP_CNT) @ '':'') # split_lines [] (GetTopFdInfo topLinks)) w"

definition DumpFdDirInfo :: "count_env \<Rightarrow> count_entry list \<Rightarrow> (string \<times> count_entry list) list \<Rightarrow> exec_world \<Rightarrow> exec_world" where
  "DumpFdDirInfo ce topTypes typePaths w =
    push_lines ((''Top Dir '' @ to_string (int FD_TOP_CNT) @ '':'') # split_lines [] (GetTopDirInfo ce topTypes typePaths)) w"

definition DumpFdLinkCounts :: "count_env \<Rightarrow> bool \<Rightarrow> count_entry list \<Rightarrow> exec_world \<Rightarrow> exec_world" where
  "DumpFdLinkCounts ce isDumpFdThreadAll linkCounts w =
    (if \<not> isDumpFdThreadAll then w
     else push_lines (''Fd link counts:'' # map (\<lambda>(key, v). key @ '':'' @ to_string v) (hash_order ce linkCounts)) w)"

definition DumpFdInfo :: "('e file_env_scheme) \<Rightarrow> count_env \<Rightarrow> DumperOpts \<Rightarrow> exec_world \<Rightarrow> bool \<times> exec_world" where
  "DumpFdInfo env ce opts w =
    (let links = GetFdLinks env ce (o_processPid opts) in
     if links = [] then (False, w)
     else
       let linkCounts = CountPaths links;
           topLinks = TopN ce linkCounts FD_TOP_CNT;
           typePaths = type_paths (hash_order ce linkCounts);
           topTypes = TopN ce (type_total typePaths) FD_TOP_CNT;
           w1 = push_lines [''fd num: '' @ to_string (int (length links))] w in
       (True, DumpFdLinkCounts ce (o_isShowSmapsInfo opts) linkCounts
          (DumpFdDirInfo ce topTypes typePaths (DumpFdTopInfo topLinks (DumpFdSummary topLinks topTypes w1)))))"

section \<open>The thread report\<close>

definition first_line :: "('e file_env_scheme) \<Rightarrow> string \<Rightarrow> string option" where
  "first_line env path =
    (case open_read env path of None \<Rightarrow> None
     | Some s \<Rightarrow> map_option (\<lambda>l. if last l = CHR 0x0A then butlast l else l) (fst (getline s)))"

text \<open>\<open>ss >> field\<close> until the stream ends.\<close>

fun split_spaces :: "string \<Rightarrow> string \<Rightarrow> string list" where
  "split_spaces acc [] = (if acc = [] then [] else [rev acc])"
| "split_spaces acc (c # cs) =
    (if is_space c then (if acc = [] then [] else [rev acc]) @ split_spaces [] cs else split_spaces (c # acc) cs)"

definition GetThreadStartTime :: "('e file_env_scheme) \<Rightarrow> int \<Rightarrow> string \<Rightarrow> string" where
  "GetThreadStartTime env pid tid =
    (case first_line env (''/proc/'' @ to_string pid @ ''/task/'' @ tid @ ''/stat'') of
       None \<Rightarrow> []
     | Some line \<Rightarrow>
        (case find_str '')'' line of
           None \<Rightarrow> []
         | Some parenPos \<Rightarrow>
             (let fields = split_spaces [] (drop (parenPos + 1) line) in
              if length fields \<le> START_TIME_FIELD_INDEX then []
              else
                let startTimeStr = fields ! START_TIME_FIELD_INDEX in
                if startTimeStr = [] \<or> \<not> list_all is_digit startTimeStr then []
                else digits (min (decimal startTimeStr) (2 ^ 64 - 1)))))"

definition GetThreadName :: "('e file_env_scheme) \<Rightarrow> int \<Rightarrow> string \<Rightarrow> string" where
  "GetThreadName env pid tid =
    (case first_line env (''/proc/'' @ to_string pid @ ''/task/'' @ tid @ ''/comm'') of None \<Rightarrow> [] | Some line \<Rightarrow> line)"

text \<open>A \<open>std::map\<close> is traversed in the order of its keys.\<close>

definition DumpThreadInfo :: "('e file_env_scheme) \<Rightarrow> count_env \<Rightarrow> DumperOpts \<Rightarrow> exec_world \<Rightarrow> exec_world" where
  "DumpThreadInfo env ce opts w =
    (let pid = o_processPid opts;
         threadIds = ft_GetSubNodes env (''/proc/'' @ to_string pid @ ''/task/'') True;
         threadInfos = map (\<lambda>tid. (tid, GetThreadName env pid tid, GetThreadStartTime env pid tid)) threadIds;
         nameCntMap = sort_key fst (fold (\<lambda>(_, name, _) m. bump name m) threadInfos []);
         threadCnt = sort_counts ce nameCntMap in
     push_lines
       ([''Thread num: '' @ to_string (int (length threadIds)), ''Top 10 Thread Names:'']
        @ map (\<lambda>(name, cnt). to_string cnt @ [CHR 0x09] @ name) (take FD_TOP_CNT threadCnt)
        @ (if o_isShowSmapsInfo opts
           then (''tid'' @ [CHR 0x09] @ ''thread_name'' @ [CHR 0x09] @ ''start_time'')
             # map (\<lambda>(tid, name, time). tid @ [CHR 0x09] @ name @ [CHR 0x09] @ time) threadInfos
           else [])) w)"

definition fd_thread_Execute :: "('e file_env_scheme) \<Rightarrow> count_env \<Rightarrow> DumperOpts \<Rightarrow> exec_world \<Rightarrow> DumpStatus \<times> exec_world" where
  "fd_thread_Execute env ce opts w =
    (let w1 = (if o_isDumpFd opts then snd (DumpFdInfo env ce opts w) else w) in
     (DUMP_OK, if o_isDumpThread opts then DumpThreadInfo env ce opts w1 else w1))"

end
