(* ===== verification/Event_Dumper.thy ===== *)
theory Event_Dumper
  imports Exec_Stream Dumper_Opts
begin

text \<open>
  The dumpers of process-kill records and of their fault logs, under
  \<^verbatim>\<open>src/frameworks/native/src/executor\<close>: \<^verbatim>\<open>event/dump_event_info.cpp\<close>, \<^verbatim>\<open>event/event_query_callback.cpp\<close>,
  \<^verbatim>\<open>event_list_dumper.cpp\<close> and \<^verbatim>\<open>event_detail_dumper.cpp\<close>. The event service, the names of kill reasons
  and local time are parameters, as is the order that \<open>std::sort\<close> gives to events of the same time.
\<close>

section \<open>Queries\<close>

record HiSysEventRecord =
  ev_text :: "string \<Rightarrow> string option" \<comment> \<open>\<open>GetParamValue\<close> into a string\<close>
  ev_number :: "string \<Rightarrow> int option" \<comment> \<open>\<open>GetParamValue\<close> into an \<open>int64_t\<close>\<close>
  ev_time :: nat

record EventQueryCallback =
  qc_completed :: bool
  qc_reason :: int
  qc_events :: "HiSysEventRecord list"

record EventQueryParam =
  qp_startTime :: int
  qp_endTime :: int
  qp_processName :: string
  qp_eventId :: string
  qp_queryRule :: "(string \<times> string list) list"

record event_env =
  Query :: "int \<Rightarrow> int \<Rightarrow> (string \<times> string list) list \<Rightarrow> int \<times> HiSysEventRecord list option list \<times> int option"
    \<comment> \<open>return value, batches handed to \<open>OnQuery\<close>, reason handed to \<open>OnComplete\<close> in time\<close>
  GetAppExitReason :: "int \<Rightarrow> string"
  GetKillReason :: "int \<Rightarrow> string"
  local_time :: "int \<Rightarrow> string" \<comment> \<open>\<open>localtime_r\<close> and \<open>strftime\<close>\<close>
  sort_times :: "HiSysEventRecord list \<Rightarrow> HiSysEventRecord list"
  can_fdopen :: "string \<Rightarrow> bool"

datatype EventDumpResult = NONE_PROCESSKILL_EVENT | NOT_FAULT_EVENT | EVENT_DUMP_FAIL | EVENT_DUMP_OK

definition EventQueryCallback_new :: EventQueryCallback where
  "EventQueryCallback_new = \<lparr>qc_completed = False, qc_reason = -1, qc_events = []\<rparr>"

definition OnQuery :: "HiSysEventRecord list option \<Rightarrow> EventQueryCallback \<Rightarrow> EventQueryCallback" where
  "OnQuery sysEvents cb = (case sysEvents of None \<Rightarrow> cb | Some es \<Rightarrow> cb\<lparr>qc_events := qc_events cb @ es\<rparr>)"

definition OnComplete :: "int \<Rightarrow> EventQueryCallback \<Rightarrow> EventQueryCallback" where
  "OnComplete reason cb = cb\<lparr>qc_completed := True, qc_reason := reason\<rparr>"

definition KILL_ID_KEY :: string where "KILL_ID_KEY = ''KILL_ID''"

definition FAULTEVENTSET :: "string list" where
  "FAULTEVENTSET =
    [''Js Error'', ''Cpp Crash'', ''THREAD_BLOCK_6S'', ''APP_INPUT_BLOCK'', ''LIFECYCLE_TIMEOUT'',
     ''JsError'', ''CppCrash'', ''ThreadBlock6S'', ''AppInputBlock'', ''LifecycleTimeout'']"

definition in_int32 :: "int \<Rightarrow> bool" where
  "in_int32 i \<longleftrightarrow> - (2 ^ 31) \<le> i \<and> i < 2 ^ 31"

text \<open>The kill id of a candidate.\<close>

definition IsPkEventCandidate :: "HiSysEventRecord \<Rightarrow> EventQueryParam \<Rightarrow> int option" where
  "IsPkEventCandidate event param =
    (case (ev_text event ''PROCESS_NAME'', ev_text event ''id_'', ev_number event KILL_ID_KEY) of
       (Some processName, Some eventId, Some killId) \<Rightarrow>
         (if \<not> in_int32 killId then None
          else if qp_processName param \<noteq> [] \<and> \<not> contains processName (qp_processName param) then None
          else if qp_eventId param = [] \<or> find_str (qp_eventId param) eventId = Some 0 then Some killId
          else None)
     | _ \<Rightarrow> None)"

definition query_failed :: "int \<Rightarrow> bool" where
  "query_failed ret \<longleftrightarrow> ret \<noteq> 0 \<and> ret \<noteq> -23"

definition DumpEventList ::
    "event_env \<Rightarrow> HiSysEventRecord list \<Rightarrow> EventQueryParam \<Rightarrow> bool \<Rightarrow> HiSysEventRecord list option" where
  "DumpEventList ee events param isSort =
    (let startTime = (if qp_startTime param = 0 then -1 else qp_startTime param);
         endTime = (if qp_endTime param = 0 then -1 else qp_endTime param) in
     case Query ee startTime endTime (qp_queryRule param) of (ret, batches, complete) \<Rightarrow>
       if query_failed ret then None
       else
         let cb = fold OnQuery batches EventQueryCallback_new;
             cb1 = (case complete of None \<Rightarrow> cb | Some reason \<Rightarrow> OnComplete reason cb) in
         if \<not> qc_completed cb1 \<or> query_failed (qc_reason cb1) then None
         else
           let es = events @ qc_events cb1 in
           Some (if isSort then sort_times ee es else es))"

definition pk_rule :: "(string \<times> string list) list" where
  "pk_rule = [(''FRAMEWORK'', [''PROCESS_KILL'']), (''KERNEL_VENDOR'', [''PROCESS_KILL''])]"

definition fault_types :: "string \<Rightarrow> string list" where
  "fault_types reason =
    (if reason = ''Cpp Crash'' \<or> reason = ''CppCrash'' then [''CPP_CRASH'']
     else if reason = ''Js Error'' \<or> reason = ''JsError'' then [''JS_ERROR'']
     else if reason = ''LIFECYCLE_TIMEOUT'' \<or> reason = ''LifecycleTimeout'' then [''SYS_FREEZE'', ''APP_FREEZE'']
     else if reason \<in> {''THREAD_BLOCK_6S'', ''ThreadBlock6S'', ''APP_INPUT_BLOCK'', ''AppInputBlock''} then [''APP_FREEZE'']
     else [])"

text \<open>State of the loop: running ids, fault events to query, whether another kind of event was seen.\<close>

definition pk_step ::
    "event_env \<Rightarrow> EventQueryParam \<Rightarrow> HiSysEventRecord \<Rightarrow> string list \<times> string list \<times> bool \<Rightarrow> string list \<times> string list \<times> bool" where
  "pk_step ee param event st =
    (case st of (ids, types, notFault) \<Rightarrow>
     case IsPkEventCandidate event param of
       None \<Rightarrow> st
     | Some killId \<Rightarrow>
         (let reason = GetKillReason ee killId in
          if reason \<notin> set FAULTEVENTSET then (ids, types, True)
          else case ev_text event ''APP_RUNNING_UNIQUE_ID'' of
              None \<Rightarrow> st
            | Some runningId \<Rightarrow> (hm_insert runningId ids, fold hm_insert (fault_types reason) types, notFault)))"

definition ExtractPkRunningIdsAndFaultTypes ::
    "event_env \<Rightarrow> EventQueryParam \<Rightarrow> HiSysEventRecord list \<Rightarrow> EventDumpResult \<times> string list \<times> string list" where
  "ExtractPkRunningIdsAndFaultTypes ee param pkEvents =
    (case fold (pk_step ee param) pkEvents ([], [], False) of (ids, types, notFault) \<Rightarrow>
      (if ids = [] then (if notFault then NOT_FAULT_EVENT else NONE_PROCESSKILL_EVENT) else EVENT_DUMP_OK, ids, types))"

definition FillQueryParam :: "EventQueryParam \<Rightarrow> string list \<Rightarrow> EventQueryParam" where
  "FillQueryParam param types = param\<lparr>qp_startTime := 0, qp_endTime := 0, qp_queryRule :=
     (if ''CPP_CRASH'' \<in> set types then [(''RELIABILITY'', [''CPP_CRASH''])] else [])
     @ (if ''JS_ERROR'' \<in> set types then [(''AAFWK'', [''JS_ERROR'']), (''ACE'', [''JS_ERROR''])] else [])
     @ (if ''SYS_FREEZE'' \<in> set types then [(''RELIABILITY'', [''SYS_FREEZE''])] else [])
     @ (if ''APP_FREEZE'' \<in> set types then [(''RELIABILITY'', [''APP_FREEZE''])] else [])\<rparr>"

definition DumpFaultEventListByPK ::
    "event_env \<Rightarrow> HiSysEventRecord list \<Rightarrow> EventQueryParam \<Rightarrow> EventDumpResult \<times> HiSysEventRecord list" where
  "DumpFaultEventListByPK ee events param0 =
    (let param = param0\<lparr>qp_queryRule := pk_rule\<rparr> in
     case DumpEventList ee [] param False of
       None \<Rightarrow> (EVENT_DUMP_FAIL, events)
     | Some pkEvents \<Rightarrow>
        (if pkEvents = [] then (NONE_PROCESSKILL_EVENT, events)
         else case ExtractPkRunningIdsAndFaultTypes ee param pkEvents of (result, ids, types) \<Rightarrow>
           if result \<noteq> EVENT_DUMP_OK then (result, events)
           else case DumpEventList ee [] (FillQueryParam param types) False of
               None \<Rightarrow> (EVENT_DUMP_FAIL, events)
             | Some faultEvents \<Rightarrow>
                 (EVENT_DUMP_OK, sort_times ee (events @ filter (\<lambda>e. case ev_text e ''APP_RUNNING_UNIQUE_ID'' of
                    None \<Rightarrow> False | Some i \<Rightarrow> i \<in> set ids) faultEvents))))"

section \<open>The list of records\<close>

definition EVENTTITLES :: "string list" where
  "EVENTTITLES = [''time'', ''foreground'', ''reason'', ''record_id'', ''process_name'']"

definition FIELDMAP :: "(string \<times> string) list" where
  "FIELDMAP = [(''time'', ''time_''), (''process_name'', ''PROCESS_NAME''), (''foreground'', ''FOREGROUND''),
     (''reason'', KILL_ID_KEY), (''record_id'', ''id_'')]"

definition INVALID_KILL_ID :: string where "INVALID_KILL_ID = ''InvalidKillId''"

definition QueryEvents :: "event_env \<Rightarrow> DumperOpts \<Rightarrow> HiSysEventRecord list \<Rightarrow> HiSysEventRecord list option" where
  "QueryEvents ee opts events = DumpEventList ee events
     \<lparr>qp_startTime = o_startTime opts, qp_endTime = o_endTime opts, qp_processName = [], qp_eventId = [],
      qp_queryRule = pk_rule\<rparr> True"

definition ShouldSkipEvent :: "string \<Rightarrow> HiSysEventRecord \<Rightarrow> int option" where
  "ShouldSkipEvent wanted event =
    (case (ev_text event ''PROCESS_NAME'', ev_number event KILL_ID_KEY) of
       (Some processName, Some killId) \<Rightarrow>
         (if processName = [] \<or> \<not> in_int32 killId then None
          else if wanted \<noteq> [] \<and> \<not> contains processName wanted then None
          else Some killId)
     | _ \<Rightarrow> None)"

definition UnixMsToString :: "event_env \<Rightarrow> nat \<Rightarrow> string" where
  "UnixMsToString ee ms = (if ms > 2 ^ 63 - 1 then [] else local_time ee (int ms div 1000))"

definition cell_value :: "event_env \<Rightarrow> HiSysEventRecord \<Rightarrow> int \<Rightarrow> string \<Rightarrow> string \<Rightarrow> string" where
  "cell_value ee event killId title v =
    (if title = ''time'' then UnixMsToString ee (ev_time event)
     else if title = ''foreground'' then (if v = ''1'' then ''True'' else ''False'')
     else if title = ''reason'' then GetAppExitReason ee killId
     else v)"

definition cell_invalid :: "string \<Rightarrow> string \<Rightarrow> bool" where
  "cell_invalid title v \<longleftrightarrow> title = ''reason'' \<and> v = INVALID_KILL_ID"

text \<open>A row ends early at an unknown kill reason; the widths that were raised before stay raised.\<close>

fun row_loop ::
    "event_env \<Rightarrow> HiSysEventRecord \<Rightarrow> int \<Rightarrow> string list \<Rightarrow> string list \<Rightarrow> (string \<times> nat) list \<Rightarrow> string list \<times> (string \<times> nat) list" where
  "row_loop ee event killId [] row widths = (row, widths)"
| "row_loop ee event killId (title # titles) row widths =
    (case ev_text event (the (map_of FIELDMAP title)) of
       None \<Rightarrow> row_loop ee event killId titles (row @ [''Null'']) widths
     | Some v \<Rightarrow>
        (if cell_invalid title (cell_value ee event killId title v) then (row, widths)
         else row_loop ee event killId titles (row @ [cell_value ee event killId title v])
           (modify title (max (length (cell_value ee event killId title v))) widths)))"

definition BuildRow ::
    "event_env \<Rightarrow> HiSysEventRecord \<Rightarrow> int \<Rightarrow> (string \<times> nat) list \<Rightarrow> string list \<times> (string \<times> nat) list" where
  "BuildRow ee event killId widths = row_loop ee event killId EVENTTITLES [] widths"

fun build_rows ::
    "event_env \<Rightarrow> string \<Rightarrow> HiSysEventRecord list \<Rightarrow> (string \<times> nat) list \<Rightarrow> matrix \<times> (string \<times> nat) list" where
  "build_rows ee wanted [] widths = ([], widths)"
| "build_rows ee wanted (event # events) widths =
    (case ShouldSkipEvent wanted event of
       None \<Rightarrow> build_rows ee wanted events widths
     | Some killId \<Rightarrow>
         (case BuildRow ee event killId widths of (row, widths1) \<Rightarrow>
          case build_rows ee wanted events widths1 of (rows, widths2) \<Rightarrow>
            (if row = [] \<or> length row \<noteq> length EVENTTITLES then rows else row # rows, widths2)))"

definition limit_count :: "int \<Rightarrow> 'a list \<Rightarrow> 'a list" where
  "limit_count n xs = (if n > 0 \<and> length xs > nat n then take (nat n) xs else xs)"

definition BuildResults ::
    "event_env \<Rightarrow> DumperOpts \<Rightarrow> HiSysEventRecord list \<Rightarrow> (string \<times> nat) list \<Rightarrow> matrix \<times> (string \<times> nat) list" where
  "BuildResults ee opts events widths =
    (case build_rows ee (o_processName opts) events widths of (rows, widths1) \<Rightarrow>
      (limit_count (o_showEventCount opts) rows, widths1))"

definition format_row :: "(string \<times> nat) list \<Rightarrow> string list \<Rightarrow> string" where
  "format_row widths row =
    concat (map (\<lambda>i. pad_right (min (the (map_of widths (EVENTTITLES ! i))) 32 + 6) (if i < length row then row ! i else ''Null'') @ ''  '')
      [0 ..< length EVENTTITLES])"

definition FormatResults :: "matrix \<Rightarrow> (string \<times> nat) list \<Rightarrow> exec_world \<Rightarrow> exec_world" where
  "FormatResults results widths w = fold (\<lambda>row w. push_line [format_row widths row] w) results w"

definition event_list_Execute ::
    "event_env \<Rightarrow> DumperOpts \<Rightarrow> HiSysEventRecord list \<Rightarrow> exec_world \<Rightarrow> DumpStatus \<times> HiSysEventRecord list \<times> exec_world" where
  "event_list_Execute ee opts events w =
    (case QueryEvents ee opts events of
       None \<Rightarrow> (DUMP_FAIL, events, w)
     | Some es \<Rightarrow>
        (case BuildResults ee opts es (map (\<lambda>t. (t, length t)) EVENTTITLES) of (results, widths) \<Rightarrow>
          (DUMP_OK, es,
           if results = [] then push_line [''no records found.''] w else FormatResults (EVENTTITLES # results) widths w)))"

section \<open>The fault logs\<close>

definition QueryFaultEvents ::
    "event_env \<Rightarrow> DumperOpts \<Rightarrow> HiSysEventRecord list \<Rightarrow> EventDumpResult \<times> HiSysEventRecord list" where
  "QueryFaultEvents ee opts events = DumpFaultEventListByPK ee events
     \<lparr>qp_startTime = (if o_eventId opts \<noteq> [] then 0 else o_startTime opts),
      qp_endTime = (if o_eventId opts \<noteq> [] then 0 else o_endTime opts),
      qp_processName = o_processName opts, qp_eventId = o_eventId opts, qp_queryRule = []\<rparr>"

definition FilterLogPaths :: "DumperOpts \<Rightarrow> HiSysEventRecord list \<Rightarrow> string list" where
  "FilterLogPaths opts events =
    limit_count (if o_eventId opts \<noteq> [] then -1 else o_showEventCount opts)
      (map the (filter (\<lambda>p. p \<noteq> None) (map (\<lambda>e. ev_text e ''LOG_PATH'') events)))"

function log_lines :: "('e file_env_scheme) \<Rightarrow> stream \<Rightarrow> exec_world \<Rightarrow> exec_world" where
  "log_lines env s w =
    (case IsCanceled env w of (canceled, w1) \<Rightarrow>
     if canceled then w1
     else case getline s of
         (None, _) \<Rightarrow> w1
       | (Some line, s') \<Rightarrow> log_lines env s' (push_line [chomp line] w1))"
  by pat_completeness auto
termination
  by (relation "measure (\<lambda>(_, s, _). length (st_rest s))") (auto dest: getline_shrinks [OF sym])

declare log_lines.simps [simp del]

definition ReadSingleLogFile :: "('e file_env_scheme) \<Rightarrow> event_env \<Rightarrow> string \<Rightarrow> exec_world \<Rightarrow> exec_world" where
  "ReadSingleLogFile env ee path w =
    (case open_read env path of
       None \<Rightarrow> push_line [''The faultlog has been deleted by the system due to expiration.''] w
     | Some s \<Rightarrow> if can_fdopen ee path then log_lines env s w else w)"

fun ReadLogsByPaths :: "('e file_env_scheme) \<Rightarrow> event_env \<Rightarrow> string list \<Rightarrow> exec_world \<Rightarrow> exec_world" where
  "ReadLogsByPaths env ee [] w = w"
| "ReadLogsByPaths env ee (path # logPaths) w =
    (let w1 = fold push_line
           [[[]], [replicate 31 CHR ''-'' @ ''[faultlog]'' @ replicate 31 CHR ''-''], [[]], [path], [[]]] w in
     case IsCanceled env (ReadSingleLogFile env ee path w1) of (canceled, w2) \<Rightarrow>
       if canceled then w2 else ReadLogsByPaths env ee logPaths w2)"

definition event_detail_Execute ::
    "('e file_env_scheme) \<Rightarrow> event_env \<Rightarrow> DumperOpts \<Rightarrow> HiSysEventRecord list \<Rightarrow> exec_world
      \<Rightarrow> DumpStatus \<times> HiSysEventRecord list \<times> exec_world" where
  "event_detail_Execute env ee opts events w =
    (case QueryFaultEvents ee opts events of (result, es) \<Rightarrow>
      case result of
        EVENT_DUMP_FAIL \<Rightarrow> (DUMP_FAIL, es, w)
      | NONE_PROCESSKILL_EVENT \<Rightarrow> (DUMP_OK, es, push_line [''no faultlogs found.''] w)
      | NOT_FAULT_EVENT \<Rightarrow> (DUMP_OK, es, push_line [''this type of record does not have faultlog.''] w)
      | EVENT_DUMP_OK \<Rightarrow>
          (let logPaths = FilterLogPaths opts es in
           (DUMP_OK, es,
            if logPaths = [] then push_line [''no faultlogs found.''] w else ReadLogsByPaths env ee logPaths w)))"

text \<open>Every row of the table has one cell per title, and at most as many rows as were asked for.\<close>

lemma build_rows_width: "row \<in> set (fst (build_rows ee wanted events widths)) \<Longrightarrow> length row = length EVENTTITLES"
  by (induction ee wanted events widths rule: build_rows.induct) (auto split: option.splits prod.splits if_splits)

lemma BuildResults_limit: "o_showEventCount opts > 0 \<Longrightarrow> length (fst (BuildResults ee opts events widths)) \<le> nat (o_showEventCount opts)"
  by (auto simp: BuildResults_def limit_count_def split: prod.splits)

end
