(* ===== verification/Exec_Dumpers.thy ===== *)
theory Exec_Dumpers
  imports Exec_Output Config_Utils Fd_Thread Event_Dumper
begin

text \<open>
  The dumpers that ask the system or another service, under \<^verbatim>\<open>src/frameworks/native/src/executor\<close>:
  \<^verbatim>\<open>api_dumper.cpp\<close>, \<^verbatim>\<open>version_dumper.cpp\<close>, \<^verbatim>\<open>list_dumper.cpp\<close>, \<^verbatim>\<open>cpu_dumper.cpp\<close>, \<^verbatim>\<open>sa_dumper.cpp\<close>,
  \<^verbatim>\<open>traffic_dumper.cpp\<close>, \<^verbatim>\<open>ipc_stat_dumper.cpp\<close>, the three heap dumpers and \<^verbatim>\<open>memory_dumper.cpp\<close> with
  \<^verbatim>\<open>memory/dump_*_info.cpp\<close>.

  Answers of other services are fields of \<open>exec_env\<close>; a service that cannot be reached is \<open>None\<close>. The
  memory library is loaded when it is needed (\<open>dlopen\<close>, \<open>dlsym\<close>), each of its functions may be missing.
\<close>

section \<open>The services\<close>

record sam_env = \<comment> \<open>the system ability manager\<close>
  ListSystemAbilities :: "string list"
  CheckSystemAbility :: "int \<Rightarrow> bool"
  GetRunningSystemProcess :: "(int \<times> string) list option"
  GetAllRunningProcesses :: "int list option" \<comment> \<open>of the application manager\<close>
  ListAllHost :: "int list option" \<comment> \<open>of the device manager\<close>

record app_mgr =
  am_dump :: "exec_call \<Rightarrow> bool" \<comment> \<open>the call returns \<open>ERR_OK\<close>\<close>
  am_result :: "exec_call \<Rightarrow> string option" \<comment> \<open>\<open>WaitForResult\<close>\<close>

record mem_lib =
  GetMemoryInfoByPid :: "(int \<Rightarrow> bool \<Rightarrow> bool \<Rightarrow> bool \<Rightarrow> matrix \<Rightarrow> bool \<times> matrix) option"
  GetMemoryInfoNoPid :: "(bool \<Rightarrow> exec_world \<Rightarrow> bool \<times> exec_world) option" \<comment> \<open>the flag: to the log file\<close>
  GetMemoryInfoPrune :: "(bool \<Rightarrow> exec_world \<Rightarrow> bool \<times> exec_world) option"
  ShowMemorySmapsByPid :: "(int \<Rightarrow> bool \<Rightarrow> matrix \<Rightarrow> bool \<times> matrix) option"
  GetMemoryInfoByTimeInterval :: "(int \<Rightarrow> int \<Rightarrow> exec_world \<Rightarrow> exec_world) option"
  SetReceivedSigInt_sym :: bool

record net_env =
  RxBytes :: "int option \<Rightarrow> nat option" \<comment> \<open>of a user or of all; \<open>None\<close> when the call fails\<close>
  TxBytes :: "int option \<Rightarrow> nat option"

record exec_env = file_env +
  x_opts :: DumperOpts
  x_outputFilePath :: string
  zip_notifies :: nat
  sys_text :: "string \<Rightarrow> string option" \<comment> \<open>getters of the parameter library, by title\<close>
  sys_int :: "string \<Rightarrow> int"
  sam :: "sam_env option"
  apps :: "app_mgr option"
  ability_runtime :: bool \<comment> \<open>built with \<open>HIDUMPER_ABILITY_RUNTIME_ENABLE\<close>\<close>
  net :: "net_env option" \<comment> \<open>built with \<open>HIDUMPER_NETMANAGER_BASE_ENABLE\<close>\<close>
  uid_of :: "int \<Rightarrow> int option" \<comment> \<open>\<open>GetProcessInfo\<close>\<close>
  cpu_service :: "matrix \<Rightarrow> int \<Rightarrow> matrix" \<comment> \<open>\<open>DumpManagerCpuClient::Request\<close>\<close>
  mem_so :: "mem_lib option"
  x_sa_val :: "string \<Rightarrow> int"
  x_StrToInt :: "string \<Rightarrow> int option"
  x_counts :: count_env
  x_events :: event_env

section \<open>Device description and version\<close>

definition api_line :: "string \<Rightarrow> string \<Rightarrow> exec_world \<Rightarrow> exec_world" where
  "api_line title content w = push_line [title @ '': '' @ content] w"

definition AddApiRetIntoResult_text :: "exec_env \<Rightarrow> string \<Rightarrow> exec_world \<Rightarrow> exec_world" where
  "AddApiRetIntoResult_text env title w =
    (case sys_text env title of None \<Rightarrow> w | Some content \<Rightarrow> api_line title (c_str content) w)"

definition AddApiRetIntoResult_int :: "exec_env \<Rightarrow> string \<Rightarrow> exec_world \<Rightarrow> exec_world" where
  "AddApiRetIntoResult_int env title w = api_line title (to_string (sys_int env title)) w"

definition api_titles_before :: "string list" where
  "api_titles_before = [''BuildId'', ''ReleaseType'', ''OsVersion'', ''DeviceType'', ''Manufacture'', ''Brand'',
     ''MarketName'', ''ProductSeries'', ''ProductModel'', ''SoftwareModel'', ''HardwareModel'', ''HardwareProfile'',
     ''BootLoaderVersion'', ''ABIList'', ''SecurityPatch'', ''IncrementalVersion'', ''OSFullName'']"

definition api_titles_after :: "string list" where
  "api_titles_after = [''BuildHash'', ''BuildType'', ''BuildUser'', ''BuildHost'', ''BuildTime'']"

definition api_Execute :: "exec_env \<Rightarrow> exec_world \<Rightarrow> DumpStatus \<times> exec_world" where
  "api_Execute env w =
    (let w1 = fold (AddApiRetIntoResult_text env) api_titles_before w;
         w2 = fold (AddApiRetIntoResult_int env) [''SDKAPIVersion'', ''FirstAPIVersion''] w1 in
     (DUMP_OK, fold (AddApiRetIntoResult_text env) api_titles_after w2))"

definition version_Execute :: "exec_world \<Rightarrow> DumpStatus \<times> exec_world" where
  "version_Execute w = (DUMP_OK, push_line [''HiDumper version:0.8.8''] w)"

section \<open>Lists\<close>

definition ITEM_SUM_LINE :: nat where "ITEM_SUM_LINE = 3"

definition NAME_SPACE :: nat where "NAME_SPACE = 33"

definition AppendBlank :: "string \<Rightarrow> string" where
  "AppendBlank str = replicate (NAME_SPACE - length str) CHR '' ''"

text \<open>Three names per line; \<open>sum\<close> is the length of the line so far.\<close>

fun list_rows :: "string list \<Rightarrow> string list \<Rightarrow> matrix" where
  "list_rows line_vector [] = (if line_vector \<noteq> [] then [line_vector] else [])"
| "list_rows line_vector (name # names) =
    (let line = line_vector @ [name @ AppendBlank name] in
     if length line < ITEM_SUM_LINE then list_rows line names else line # list_rows [] names)"

definition list_Execute :: "exec_env \<Rightarrow> string \<Rightarrow> exec_world \<Rightarrow> DumpStatus \<times> exec_world" where
  "list_Execute env target w =
    (let show = (\<lambda>header names. w\<lparr>w_matrix := w_matrix w @ [[header]] @ list_rows [] names @ [[]]\<rparr>) in
     if target = STR_ABILITY then
       (case sam env of
          None \<Rightarrow> (DUMP_OK, w)
        | Some sma \<Rightarrow> (DUMP_OK, show ''System ability list:''
            (map (ConvertSaIdToSaName (x_sa_val env) (x_StrToInt env)) (ListSystemAbilities sma))))
     else if target = STR_SYSTEM then
       (DUMP_OK, show ''System cluster list:'' (GetSectionNames CONFIG_GROUP_SYSTEM_prefix []))
     else (DUMP_OK, w))"

section \<open>Processor usage and traffic\<close>

definition cpu_Execute :: "exec_env \<Rightarrow> exec_world \<Rightarrow> DumpStatus \<times> exec_world" where
  "cpu_Execute env w =
    (if o_isDumpCpuUsage (x_opts env) then
       (DUMP_OK, w\<lparr>w_matrix := cpu_service env (w_matrix w) (o_cpuUsagePid (x_opts env))\<rparr>)
     else (DUMP_FAIL, w))"

text \<open>
  A failed call of the network statistics sets the status of the dumper to \<open>DUMP_FAIL\<close>; the last
  statement sets it to \<open>DUMP_OK\<close> in any case.
\<close>

definition byte_lines :: "exec_env \<Rightarrow> int option \<Rightarrow> exec_world \<Rightarrow> DumpStatus \<times> exec_world" where
  "byte_lines env user w =
    (let stats = (\<lambda>f. case net env of None \<Rightarrow> 0 | Some n \<Rightarrow> (case f n user of None \<Rightarrow> 0 | Some b \<Rightarrow> b)) in
     (DUMP_OK, push_line [''Sent Bytes:'' @ digits (stats TxBytes)] (push_line [''Received Bytes:'' @ digits (stats RxBytes)] w)))"

definition GetAllBytes :: "exec_env \<Rightarrow> exec_world \<Rightarrow> DumpStatus \<times> exec_world" where
  "GetAllBytes env w = byte_lines env None w"

definition GetApplicationUidBytes :: "exec_env \<Rightarrow> int \<Rightarrow> DumpStatus \<Rightarrow> exec_world \<Rightarrow> DumpStatus \<times> exec_world" where
  "GetApplicationUidBytes env pid status w =
    (case uid_of env pid of None \<Rightarrow> (status, w) | Some uid \<Rightarrow> byte_lines env (Some uid) w)"

definition traffic_Execute :: "exec_env \<Rightarrow> DumpStatus \<Rightarrow> exec_world \<Rightarrow> DumpStatus \<times> exec_world" where
  "traffic_Execute env status w =
    (let pid = o_netPid (x_opts env) in if pid \<ge> 0 then GetApplicationUidBytes env pid status w else GetAllBytes env w)"

section \<open>System abilities\<close>

record SADumper =
  sa_names :: "string list"
  sa_args :: "string list"
  sa_toFile :: bool \<comment> \<open>\<open>outputFd_\<close> is the log file, not the descriptor of the request\<close>
  sa_fdOk :: bool

definition SADumper_new :: SADumper where
  "SADumper_new = \<lparr>sa_names = [], sa_args = [], sa_toFile = False, sa_fdOk = False\<rparr>"

text \<open>\<open>args_\<close> is set in every entry of this class that the configuration makes.\<close>

definition sa_PreExecute :: "exec_env \<Rightarrow> DumpCfg \<Rightarrow> SADumper \<Rightarrow> exec_world \<Rightarrow> DumpStatus \<times> SADumper" where
  "sa_PreExecute env cfg sd w =
    (let args = (case c_args cfg of None \<Rightarrow> OptionArgs_Create | Some a \<Rightarrow> a);
         isZip = IsDumpZip (x_opts env);
         sd1 = sd\<lparr>sa_names := a_names args, sa_toFile := isZip,
                  sa_fdOk := (if isZip then fd_to_write env (rp_folder (w_raw w) @ LOG_DEFAULT) else rp_outfd (w_raw w) \<ge> 0)\<rparr> in
     (DUMP_OK, if a_args args \<noteq> [] \<and> length (sa_names sd1) = 1 then sd1\<lparr>sa_args := sa_args sd1 @ a_args args\<rparr> else sd1))"

definition sa_save :: "SADumper \<Rightarrow> string \<Rightarrow> exec_world \<Rightarrow> exec_world" where
  "sa_save sd text w =
    (if \<not> sa_fdOk sd then w
     else if sa_toFile sd then w\<lparr>w_file := w_file w @ [text]\<rparr> else w\<lparr>w_out := w_out w @ [text]\<rparr>)"

definition GetData :: "exec_env \<Rightarrow> sam_env \<Rightarrow> SADumper \<Rightarrow> string \<Rightarrow> exec_world \<Rightarrow> DumpStatus \<times> exec_world" where
  "GetData env sm sd name w =
    (let saId = StrToId (x_sa_val env) (x_StrToInt env) name; sep = replicate 34 CHR ''-'' in
     if saId = -1 then (DUMP_FAIL, w)
     else if \<not> CheckSystemAbility sm saId then (DUMP_FAIL, w)
     else
       let title = sep @ ConvertSaIdToSaName (x_sa_val env) (x_StrToInt env) name @ sep;
           w1 = sa_save sd ([CHR 0x0A] @ replicate 31 CHR ''-'' @ ''[ability]'' @ replicate 31 CHR ''-'' @ [CHR 0x0A]) w;
           w2 = sa_save sd ([CHR 0x0A, CHR 0x0A] @ title @ [CHR 0x0A]) w1 in
       (DUMP_OK, w2\<lparr>w_calls := w_calls w2 @ [SaDump saId (sa_args sd)]\<rparr>))"

definition sa_Execute :: "exec_env \<Rightarrow> SADumper \<Rightarrow> exec_world \<Rightarrow> DumpStatus \<times> SADumper \<times> exec_world" where
  "sa_Execute env sd w =
    (case sam env of
       None \<Rightarrow> (DUMP_FAIL, sd, w)
     | Some sm \<Rightarrow>
         (let sd1 = (if sa_names sd = [] then sd\<lparr>sa_names := ListSystemAbilities sm\<rparr> else sd) in
          (DUMP_OK, sd1, fold (\<lambda>name w. snd (GetData env sm sd1 name w)) (sa_names sd1) w)))"

section \<open>IPC statistics\<close>

record IPCStatDumper =
  ipcDumpCmd :: "string list"

definition ipc_error :: "string \<Rightarrow> exec_world \<Rightarrow> exec_world" where
  "ipc_error errorStr w =
    (if rp_outfd (w_raw w) < 0 then w else w\<lparr>w_out := w_out w @ [errorStr @ [CHR 0x0A]]\<rparr>)"

definition CheckPidIsSa :: "sam_env \<Rightarrow> int \<Rightarrow> (string \<times> bool) option" where
  "CheckPidIsSa sm pid =
    (case GetRunningSystemProcess sm of
       None \<Rightarrow> None
     | Some infos \<Rightarrow> (case find (\<lambda>i. fst i = pid) infos of
         None \<Rightarrow> None | Some info \<Rightarrow> Some (snd info, CheckSystemAbility sm 0)))"

definition CheckPidIsApp :: "exec_env \<Rightarrow> sam_env \<Rightarrow> int \<Rightarrow> (string \<times> bool) option" where
  "CheckPidIsApp env sm pid =
    (case GetAllRunningProcesses sm of
       None \<Rightarrow> None
     | Some pids \<Rightarrow> if pid \<in> set pids then Some (to_string pid, CheckSystemAbility sm (x_sa_val env ''APP_MGR_SERVICE_ID'')) else None)"

definition CheckPidIsDriver :: "exec_env \<Rightarrow> sam_env \<Rightarrow> int \<Rightarrow> (string \<times> bool) option" where
  "CheckPidIsDriver env sm pid =
    (case ListAllHost sm of
       None \<Rightarrow> None
     | Some pids \<Rightarrow> if pid \<in> set pids then Some (to_string pid, CheckSystemAbility sm (x_sa_val env ''DEVICE_SERVICE_MANAGER_SA_ID'')) else None)"

text \<open>
  The command for the services, the service that answers for the process (as its identifier, \<open>None\<close>
  for all processes), and whether that service was found.
\<close>

definition ipc_target :: "exec_env \<Rightarrow> sam_env \<Rightarrow> int \<Rightarrow> (string \<times> int \<times> bool) option" where
  "ipc_target env sm pid =
    (case CheckPidIsSa sm pid of Some (arg, ok) \<Rightarrow> Some (arg, 0, ok)
     | None \<Rightarrow> (case CheckPidIsApp env sm pid of Some (arg, ok) \<Rightarrow> Some (arg, x_sa_val env ''APP_MGR_SERVICE_ID'', ok)
     | None \<Rightarrow> (case CheckPidIsDriver env sm pid of Some (arg, ok) \<Rightarrow> Some (arg, x_sa_val env ''DEVICE_SERVICE_MANAGER_SA_ID'', ok)
     | None \<Rightarrow> None)))"

definition ipc_mode :: "DumperOpts \<Rightarrow> string option" where
  "ipc_mode opts =
    (if o_isDumpIpcStartStat opts then Some ''--start-stat''
     else if o_isDumpIpcStopStat opts then Some ''--stop-stat''
     else if o_isDumpIpcStat opts then Some ''--stat'' else None)"

definition SetIpcStatCmd ::
    "exec_env \<Rightarrow> sam_env \<Rightarrow> IPCStatDumper \<Rightarrow> exec_world \<Rightarrow> (IPCStatDumper \<times> (int \<times> bool) option) option \<times> exec_world" where
  "SetIpcStatCmd env sm ic w =
    (let opts = x_opts env;
         finish = (\<lambda>arg sa. case ipc_mode opts of
            None \<Rightarrow> (None, ipc_error ''input ARG is not valid'' w)
          | Some mode \<Rightarrow> (Some (ic\<lparr>ipcDumpCmd := ipcDumpCmd ic @ [''--ipc'', arg, mode]\<rparr>, sa), w)) in
     if o_isDumpAllIpc opts then finish ''all'' None
     else case ipc_target env sm (o_ipcStatPid opts) of
         None \<Rightarrow> (None, ipc_error ''pid is not support ipc statistic.'' w)
       | Some (arg, saId, ok) \<Rightarrow> finish arg (Some (saId, ok)))"

definition DoDumpIpcStat :: "IPCStatDumper \<Rightarrow> int \<Rightarrow> bool \<Rightarrow> exec_world \<Rightarrow> DumpStatus \<times> exec_world" where
  "DoDumpIpcStat ic saId ok w =
    (if \<not> ok then (DUMP_FAIL, w)
     else if rp_outfd (w_raw w) < 0 then (DUMP_FAIL, w)
     else (DUMP_OK, w\<lparr>w_calls := w_calls w @ [SaDump saId (ipcDumpCmd ic)]\<rparr>))"

fun dump_ipc_all :: "sam_env \<Rightarrow> IPCStatDumper \<Rightarrow> int list \<Rightarrow> exec_world \<Rightarrow> DumpStatus \<times> exec_world" where
  "dump_ipc_all sm ic [] w = (DUMP_OK, w)"
| "dump_ipc_all sm ic (saId # ids) w =
    (case DoDumpIpcStat ic saId (CheckSystemAbility sm saId) w of (ret, w1) \<Rightarrow>
       if ret \<noteq> DUMP_OK then (DUMP_FAIL, w1) else dump_ipc_all sm ic ids w1)"

definition DumpIpcStat :: "exec_env \<Rightarrow> sam_env \<Rightarrow> IPCStatDumper \<Rightarrow> (int \<times> bool) option \<Rightarrow> exec_world \<Rightarrow> DumpStatus \<times> exec_world" where
  "DumpIpcStat env sm ic sa w =
    (if o_isDumpAllIpc (x_opts env) then
       dump_ipc_all sm ic [0, x_sa_val env ''APP_MGR_SERVICE_ID'', x_sa_val env ''DEVICE_SERVICE_MANAGER_SA_ID''] w
     else case sa of None \<Rightarrow> (DUMP_FAIL, w) | Some (saId, ok) \<Rightarrow> DoDumpIpcStat ic saId ok w)"

definition ipc_Execute :: "exec_env \<Rightarrow> IPCStatDumper \<Rightarrow> exec_world \<Rightarrow> DumpStatus \<times> IPCStatDumper \<times> exec_world" where
  "ipc_Execute env ic w =
    (case sam env of
       None \<Rightarrow> (DUMP_FAIL, ic, w)
     | Some sm \<Rightarrow> (case SetIpcStatCmd env sm ic w of
         (None, w1) \<Rightarrow> (DUMP_FAIL, ic, w1)
       | (Some (ic1, sa), w1) \<Rightarrow> (case DumpIpcStat env sm ic1 sa w1 of (ret, w2) \<Rightarrow>
           (if ret \<noteq> DUMP_OK then DUMP_FAIL else DUMP_OK, ic1, w2))))"

end
