(* ===== verification/Exec_Memory.thy ===== *)
theory Exec_Memory
  imports Exec_Dumpers
begin

text \<open>
  The heap dumpers (\<^verbatim>\<open>jsheap_memory_dumper.cpp\<close>, \<^verbatim>\<open>cjheap_memory_dumper.cpp\<close>, \<^verbatim>\<open>heap_memory_dumper.cpp\<close>,
  \<^verbatim>\<open>memory/dump_jsheap_info.cpp\<close>, \<^verbatim>\<open>dump_cjheap_info.cpp\<close>, \<^verbatim>\<open>dump_heap_info.cpp\<close>, \<^verbatim>\<open>dump_arkts_heap_info.cpp\<close>)
  and \<^verbatim>\<open>memory_dumper.cpp\<close>. Process and thread ids that the code casts to \<open>uint32_t\<close> are taken modulo
  \<open>2 ^ 32\<close>.
\<close>

definition uint32 :: "int \<Rightarrow> int" where "uint32 i = i mod 2 ^ 32"

section \<open>Calls to the application manager\<close>

text \<open>A call that only reports success (\<open>DumpJsHeapMemory\<close>, \<open>DumpCjHeapMemory\<close>).\<close>

definition app_call :: "exec_env \<Rightarrow> exec_call \<Rightarrow> exec_world \<Rightarrow> bool \<times> exec_world" where
  "app_call env call w =
    (if \<not> ability_runtime env then (True, w)
     else if sam env = None then (False, w)
     else case apps env of
         None \<Rightarrow> (False, w)
       | Some am \<Rightarrow> (am_dump am call, w\<lparr>w_calls := w_calls w @ [call]\<rparr>))"

text \<open>\<open>DumpHeapMemory\<close>: a synchronous call waits for a text, which must not be empty.\<close>

definition DumpHeapMemory :: "exec_env \<Rightarrow> bool \<Rightarrow> exec_call \<Rightarrow> string \<Rightarrow> exec_world \<Rightarrow> bool \<times> string \<times> exec_world" where
  "DumpHeapMemory env isSync call dumpResult w =
    (if \<not> ability_runtime env then (True, dumpResult, w)
     else if sam env = None then (False, dumpResult, w)
     else case apps env of
         None \<Rightarrow> (False, dumpResult, w)
       | Some am \<Rightarrow>
          (let w1 = w\<lparr>w_calls := w_calls w @ [call]\<rparr> in
           if \<not> am_dump am call then (False, dumpResult, w1)
           else if isSync then
             (case am_result am call of
                None \<Rightarrow> (False, dumpResult, w1)
              | Some text \<Rightarrow> (text \<noteq> [], text, w1))
           else (True, dumpResult, w1)))"

section \<open>Heap dumpers\<close>

text \<open>\<open>JsHeapMemoryDumper\<close>: the request that \<open>PreExecute\<close> prepares and \<open>Execute\<close> sends.\<close>

definition jsheap_call :: "DumperOpts \<Rightarrow> exec_call" where
  "jsheap_call opts =
    (let gcOnly = o_isDumpJsHeapMemGC opts;
         pid = uint32 (o_dumpJsHeapMemPid opts);
         tid = (if o_isDumpJsHeapCombine opts then pid else uint32 (o_threadId opts)) in
     JsHeapDump pid tid True (\<not> gcOnly) (o_isDumpJsHeapLeakobj opts \<and> \<not> gcOnly) (o_dumpJsRawHeap opts \<and> \<not> gcOnly)
       (o_isDumpJsHeapClean opts) (o_isDumpJsHeapCombine opts))"

definition jsheap_Execute :: "exec_env \<Rightarrow> exec_world \<Rightarrow> DumpStatus \<times> exec_world" where
  "jsheap_Execute env w =
    (case app_call env (jsheap_call (x_opts env)) w of (ok, w1) \<Rightarrow> (if ok then DUMP_OK else DUMP_FAIL, w1))"

definition cjheap_call :: "DumperOpts \<Rightarrow> exec_call" where
  "cjheap_call opts = CjHeapDump (uint32 (o_dumpCjHeapMemPid opts)) True (\<not> o_isDumpCjHeapMemGC opts)"

definition cjheap_Execute :: "exec_env \<Rightarrow> exec_world \<Rightarrow> DumpStatus \<times> exec_world" where
  "cjheap_Execute env w =
    (case app_call env (cjheap_call (x_opts env)) w of (ok, w1) \<Rightarrow> (if ok then DUMP_OK else DUMP_FAIL, w1))"

definition DetermineDumpType :: "DumperOpts \<Rightarrow> MemDumpType" where
  "DetermineDumpType opts =
    (if o_isDumpHeapKotlin opts then KMP_KOTLIN
     else if o_isDumpHeapNative opts then NATIVE
     else if o_isDumpHeapJsvm opts then JSVM
     else if o_isDumpHeapArkwebJs opts then ARKWEB_JS else INVALID)"

definition heap_call :: "DumperOpts \<Rightarrow> exec_call" where
  "heap_call opts =
    (let type = DetermineDumpType opts; leak = o_isDumpHeapLeakobj opts in
     MemHeapDump (if o_dumpHeapArgPid opts > 0 then o_dumpHeapArgPid opts else o_dumpHeapMemPid opts) (o_threadId opts)
       type leak (o_dumpRawHeap opts) (o_dumpHeapRenderPid opts) (\<not> o_isDumpHeapMemGc opts) (o_isDumpHeapMemGc opts)
       (type = NATIVE \<and> leak))"

record HeapMemoryDumper =
  hm_status :: DumpStatus
  hm_result :: string

definition HeapMemoryDumper_new :: HeapMemoryDumper where
  "HeapMemoryDumper_new = \<lparr>hm_status = DUMP_FAIL, hm_result = []\<rparr>"

definition heap_Execute :: "exec_env \<Rightarrow> HeapMemoryDumper \<Rightarrow> exec_world \<Rightarrow> DumpStatus \<times> HeapMemoryDumper \<times> exec_world" where
  "heap_Execute env hm w =
    (let call = heap_call (x_opts env) in
     case DumpHeapMemory env (mh_sync call) call (hm_result hm) w of (ok, res, w1) \<Rightarrow>
       (let st = (if ok then DUMP_OK else DUMP_FAIL) in (st, hm\<lparr>hm_status := st, hm_result := res\<rparr>, w1)))"

definition leak_failed :: string where
  "leak_failed = ''Failed to get native heap leak object info. Please ensure the application is in foreground with screen on.''"

definition heap_AfterExecute :: "exec_env \<Rightarrow> HeapMemoryDumper \<Rightarrow> exec_world \<Rightarrow> DumpStatus \<times> exec_world" where
  "heap_AfterExecute env hm w =
    (hm_status hm,
     if o_isDumpHeapLeakobj (x_opts env) then push_line [if hm_result hm \<noteq> [] then hm_result hm else leak_failed] w else w)"

section \<open>The memory dumper\<close>

definition ParseArktsHeapResult :: "string \<Rightarrow> (nat \<times> string) option" where
  "ParseArktsHeapResult result =
    (case find_str ''|'' result of
       None \<Rightarrow> None
     | Some pos \<Rightarrow>
         if pos + 1 \<ge> length result then None
         else case strtoull (c_str result) of
             None \<Rightarrow> None
           | Some v \<Rightarrow> if v = 0 then None else Some (v, drop (pos + 1) result))"

definition AppendArktsHeapData :: "int \<Rightarrow> string \<Rightarrow> exec_world \<Rightarrow> exec_world" where
  "AppendArktsHeapData pid result w =
    (case ParseArktsHeapResult result of
       None \<Rightarrow> w
     | Some (heapSize, threadName) \<Rightarrow>
         (let buf = pad_right 18 (to_string pid) @ pad_right 30 (c_str threadName) @ digits (heapSize div 1024) in
          if length buf > 255 then w else push_line [buf] w))"

text \<open>\<open>StartArktsHeapFetch\<close>, \<open>StartLeakThreadFetch\<close>: the text a future delivers, empty on any failure.\<close>

definition GetArktsHeapSize :: "exec_env \<Rightarrow> int \<Rightarrow> exec_world \<Rightarrow> string \<times> exec_world" where
  "GetArktsHeapSize env pid w =
    (if \<not> ability_runtime env then ([], w)
     else case DumpHeapMemory env True (ArktsHeap (uint32 pid)) [] w of (ok, res, w1) \<Rightarrow> (if ok then res else [], w1))"

definition leak_thread_fetch :: "exec_env \<Rightarrow> int \<Rightarrow> exec_world \<Rightarrow> string \<times> exec_world" where
  "leak_thread_fetch env pid w =
    (case DumpHeapMemory env True (ThreadStackLeak (uint32 pid)) [] w of (ok, res, w1) \<Rightarrow> (if ok then res else [], w1))"

definition MergeArktsHeapResult :: "int \<Rightarrow> string \<Rightarrow> exec_world \<Rightarrow> exec_world" where
  "MergeArktsHeapResult pid result w =
    (let w1 = push_line [''tid               thread name                   arkts_heap(KB)'']
                (push_line [''arkts heap:''] (push_line [[]] w)) in
     if result \<noteq> [] then AppendArktsHeapData pid result w1 else w1)"

definition MergeLeakThreadResult :: "string \<Rightarrow> exec_world \<Rightarrow> exec_world" where
  "MergeLeakThreadResult result w =
    (let w1 = push_line [''leakthread:''] (push_line [[]] w) in if result \<noteq> [] then push_line [result] w1 else w1)"

definition with_matrix :: "(matrix \<Rightarrow> bool \<times> matrix) \<Rightarrow> exec_world \<Rightarrow> DumpStatus \<times> exec_world" where
  "with_matrix f w = (case f (w_matrix w) of (ok, m) \<Rightarrow> (if ok then DUMP_OK else DUMP_FAIL, w\<lparr>w_matrix := m\<rparr>))"

definition GetMemByPid :: "exec_env \<Rightarrow> DumpStatus \<Rightarrow> exec_world \<Rightarrow> DumpStatus \<times> exec_world" where
  "GetMemByPid env status w =
    (let opts = x_opts env; pid = o_memPid opts;
         (heap, w1) = (if o_showArktsHeap opts then GetArktsHeapSize env pid w else ([], w));
         (leak, w2) = (if o_showLeakThread opts then leak_thread_fetch env pid w1 else ([], w1)) in
     case mem_so env of
       None \<Rightarrow> (status, w2)
     | Some lib \<Rightarrow> (case GetMemoryInfoByPid lib of
         None \<Rightarrow> (status, w2)
       | Some pfn \<Rightarrow>
          (case with_matrix (pfn pid (o_showAshmem opts) (o_showDmaBuf opts) (o_showGpumem opts)) w2 of (st, w3) \<Rightarrow>
           let w4 = (if o_showArktsHeap opts then MergeArktsHeapResult pid heap w3 else w3) in
           (st, if o_showLeakThread opts then MergeLeakThreadResult leak w4 else w4))))"

text \<open>The functions of the library without a process; \<open>isZip\<close> says where they write.\<close>

definition mem_no_pid ::
    "(mem_lib \<Rightarrow> (bool \<Rightarrow> exec_world \<Rightarrow> bool \<times> exec_world) option) \<Rightarrow> exec_env \<Rightarrow> DumpStatus \<Rightarrow> exec_world \<Rightarrow> DumpStatus \<times> exec_world" where
  "mem_no_pid sel env status w =
    (case mem_so env of
       None \<Rightarrow> (status, w)
     | Some lib \<Rightarrow> (case sel lib of
         None \<Rightarrow> (DUMP_FAIL, w)
       | Some pfn \<Rightarrow> (case pfn (IsDumpZip (x_opts env)) w of (ok, w1) \<Rightarrow> (if ok then DUMP_OK else DUMP_FAIL, w1))))"

definition GetMemSmapsByPid :: "exec_env \<Rightarrow> DumpStatus \<Rightarrow> exec_world \<Rightarrow> DumpStatus \<times> exec_world" where
  "GetMemSmapsByPid env status w =
    (case mem_so env of
       None \<Rightarrow> (status, w)
     | Some lib \<Rightarrow> (case ShowMemorySmapsByPid lib of
         None \<Rightarrow> (status, w)
       | Some pfn \<Rightarrow> with_matrix (pfn (o_memPid (x_opts env)) (o_isShowSmapsInfo (x_opts env))) w))"

definition GetMemByTimeInterval :: "exec_env \<Rightarrow> DumpStatus \<Rightarrow> exec_world \<Rightarrow> DumpStatus \<times> exec_world" where
  "GetMemByTimeInterval env status w =
    (case mem_so env of
       None \<Rightarrow> (status, w)
     | Some lib \<Rightarrow> (case GetMemoryInfoByTimeInterval lib of
         None \<Rightarrow> (status, w)
       | Some pfn \<Rightarrow> (DUMP_OK, pfn (o_memPid (x_opts env)) (o_timeInterval (x_opts env)) w)))"

definition mem_SetReceivedSigInt :: "exec_env \<Rightarrow> DumpStatus \<Rightarrow> DumpStatus" where
  "mem_SetReceivedSigInt env status =
    (case mem_so env of None \<Rightarrow> status | Some lib \<Rightarrow> if SetReceivedSigInt_sym lib then DUMP_OK else status)"

text \<open>\<open>Execute\<close>; the result is also the status that \<open>AfterExecute\<close> returns.\<close>

definition mem_Execute :: "exec_env \<Rightarrow> DumpStatus \<Rightarrow> exec_world \<Rightarrow> DumpStatus \<times> exec_world" where
  "mem_Execute env status w =
    (let opts = x_opts env in
     if o_isReceivedSigInt opts then (mem_SetReceivedSigInt env status, w)
     else if o_memPid opts \<ge> 0 then
       (if o_isShowSmaps opts then GetMemSmapsByPid env status w
        else if o_timeInterval opts > 0 then GetMemByTimeInterval env status w
        else GetMemByPid env status w)
     else if o_dumpMemPrune opts then mem_no_pid GetMemoryInfoPrune env status w
     else mem_no_pid GetMemoryInfoNoPid env status w)"

section \<open>Facts\<close>

text \<open>None of these dumpers ever has more data.\<close>

lemma with_matrix_status: "fst (with_matrix f w) \<in> {DUMP_OK, DUMP_FAIL}"
  by (auto simp: with_matrix_def split: prod.splits)

lemma GetMemByPid_status: "fst (GetMemByPid env status w) \<in> {DUMP_OK, DUMP_FAIL, status}"
proof (cases "mem_so env = None \<or> GetMemoryInfoByPid (the (mem_so env)) = None")
  case True
  then show ?thesis by (cases "mem_so env") (simp_all add: GetMemByPid_def Let_def case_prod_unfold)
next
  case False
  then obtain lib pfn where "mem_so env = Some lib" "GetMemoryInfoByPid lib = Some pfn" by auto
  then show ?thesis
    using with_matrix_status [of "pfn (o_memPid (x_opts env)) (o_showAshmem (x_opts env)) (o_showDmaBuf (x_opts env)) (o_showGpumem (x_opts env))"]
    by (simp add: GetMemByPid_def Let_def case_prod_unfold) blast
qed

lemma mem_Execute_status: "fst (mem_Execute env status w) \<in> {DUMP_OK, DUMP_FAIL, status}"
proof -
  have "fst (GetMemSmapsByPid env status w) \<in> {DUMP_OK, DUMP_FAIL, status}"
    using with_matrix_status by (fastforce simp: GetMemSmapsByPid_def split: option.splits)
  moreover have "fst (GetMemByTimeInterval env status w) \<in> {DUMP_OK, DUMP_FAIL, status}"
    by (auto simp: GetMemByTimeInterval_def split: option.splits)
  moreover have "fst (mem_no_pid sel env status w) \<in> {DUMP_OK, DUMP_FAIL, status}" for sel
    by (auto simp: mem_no_pid_def split: option.splits prod.splits)
  moreover have "mem_SetReceivedSigInt env status \<in> {DUMP_OK, DUMP_FAIL, status}"
    by (auto simp: mem_SetReceivedSigInt_def split: option.splits)
  ultimately show ?thesis using GetMemByPid_status [of env status w] by (simp add: mem_Execute_def Let_def)
qed

end
