(* ===== verification/Executor_Loop.thy ===== *)
theory Executor_Loop
  imports Exec_Memory
begin

text \<open>
  The executors as objects and the loop that runs them: \<open>setExecutorList\<close>, \<open>DumpDatas\<close> and the group
  titles of \<^verbatim>\<open>src/frameworks/native/src/manager/dump_implement.cpp\<close>, the factories under
  \<^verbatim>\<open>src/factory\<close>, and \<^verbatim>\<open>hidumper_executor.cpp\<close>.

  Executors are shared pointers: all output entries of a request share one output object. The
  objects are a list, the executor list is a list of indices into it. The loop is written over the
  interface that \<open>HidumperExecutor\<close> declares, the record \<open>exec_ops\<close>, so that its lemmas hold for
  any executors that keep the interface's laws. A loop that never ends is the value \<open>None\<close>.
\<close>

section \<open>Executor objects\<close>

datatype executor =
    FileExec FileStreamDumper | CmdExec CMDDumper | ApiExec | VersionExec | ListExec | CpuExec
  | SaExec SADumper | TrafficExec DumpStatus | IpcExec IPCStatDumper
  | JsHeapExec DumpStatus | CjHeapExec DumpStatus | HeapExec HeapMemoryDumper | MemExec DumpStatus
  | FdThreadExec | EventListExec "HiSysEventRecord list" | EventDetailExec "HiSysEventRecord list" | IdleExec | FormatExec | FdExec FDOutput | ZipExec ZipFolderOutput

record exec_obj =
  eo_cfg :: DumpCfg
  eo_exec :: executor

text \<open>\<open>AddExecutorFactoryToMap\<close> and \<open>CreateExecutor\<close> of the factories.\<close>

definition CreateExecutor :: "bool \<Rightarrow> int \<Rightarrow> executor option" where
  "CreateExecutor hiview cls =
    (if cls = CPU_DUMPER then (if hiview then Some CpuExec else None)
     else if cls = FILE_DUMPER then Some (FileExec FileStreamDumper_new)
     else if cls = CMD_DUMPER then Some (CmdExec CMDDumper_new)
     else if cls = API_DUMPER then Some ApiExec
     else if cls = LIST_DUMPER then Some ListExec
     else if cls = VERSION_DUMPER then Some VersionExec
     else if cls = SA_DUMPER then Some (SaExec SADumper_new)
     else if cls = FILE_FORMAT_DUMP_FILTER then Some FormatExec
     else if cls \<in> {ENV_PARAM_DUMPER, PROPERTIES_DUMPER, COLUMN_ROWS_FILTER, GROUP} then Some IdleExec
     else if cls = MEMORY_DUMPER then Some (MemExec DUMP_FAIL)
     else if cls = JSHEAP_MEMORY_DUMPER then Some (JsHeapExec DUMP_FAIL)
     else if cls = CJHEAP_MEMORY_DUMPER then Some (CjHeapExec DUMP_FAIL)
     else if cls = HEAP_MEMORY_DUMPER then Some (HeapExec HeapMemoryDumper_new)
     else if cls = EVENT_LIST_DUMPER then Some (EventListExec [])
     else if cls = EVENT_DETAIL_DUMPER then Some (EventDetailExec [])
     else if cls = FD_THREAD_DUMPER then Some FdThreadExec
     else if cls = TRAFFIC_DUMPER then Some (TrafficExec DUMP_FAIL)
     else if cls = IPC_STAT_DUMPER then Some (IpcExec \<lparr>ipcDumpCmd = []\<rparr>)
     else None)"

definition CreateOutput :: "bool \<Rightarrow> executor" where
  "CreateOutput isZip = (if isZip then ZipExec ZipFolderOutput_new else FdExec FDOutput_new)"

fun set_executors ::
    "bool \<Rightarrow> bool \<Rightarrow> DumpCfg list \<Rightarrow> exec_obj list \<times> nat option \<times> nat list \<Rightarrow> exec_obj list \<times> nat option \<times> nat list" where
  "set_executors hiview isZip [] st = st"
| "set_executors hiview isZip (cfg # cfgs) (objs, ptrOutput, executors) =
    (if c_class cfg = FD_OUTPUT then
       (case ptrOutput of
          None \<Rightarrow> set_executors hiview isZip cfgs
            (objs @ [\<lparr>eo_cfg = cfg, eo_exec = CreateOutput isZip\<rparr>], Some (length objs), executors @ [length objs])
        | Some r \<Rightarrow> set_executors hiview isZip cfgs (objs[r := (objs ! r)\<lparr>eo_cfg := cfg\<rparr>], Some r, executors @ [r]))
     else
       (case CreateExecutor hiview (c_class cfg) of
          None \<Rightarrow> set_executors hiview isZip cfgs (objs, ptrOutput, executors)
        | Some e \<Rightarrow> set_executors hiview isZip cfgs
            (objs @ [\<lparr>eo_cfg = cfg, eo_exec = e\<rparr>], ptrOutput, executors @ [length objs])))"

definition setExecutorList :: "bool \<Rightarrow> bool \<Rightarrow> DumpCfg list \<Rightarrow> exec_obj list \<times> nat list" where
  "setExecutorList hiview isZip configs =
    (case set_executors hiview isZip configs ([], None, []) of (objs, _, executors) \<Rightarrow> (objs, executors))"

section \<open>The interface\<close>

record 'o exec_ops =
  op_cfg :: "'o \<Rightarrow> DumpCfg"
  op_pre :: "'o \<Rightarrow> exec_world \<Rightarrow> DumpStatus \<times> 'o \<times> exec_world"
  op_exec :: "'o \<Rightarrow> exec_world \<Rightarrow> DumpStatus \<times> 'o \<times> exec_world"
  op_after :: "'o \<Rightarrow> exec_world \<Rightarrow> DumpStatus \<times> 'o \<times> exec_world"
  op_reset :: "'o \<Rightarrow> exec_world \<Rightarrow> 'o \<times> exec_world"

definition DoPreExecute :: "exec_env \<Rightarrow> exec_obj \<Rightarrow> exec_world \<Rightarrow> DumpStatus \<times> exec_obj \<times> exec_world" where
  "DoPreExecute env ob w =
    (case eo_exec ob of
       FileExec fs \<Rightarrow> (case fs_PreExecute env (eo_cfg ob) fs w of (st, fs', w') \<Rightarrow> (st, ob\<lparr>eo_exec := FileExec fs'\<rparr>, w'))
     | CmdExec cd \<Rightarrow> (case cd_PreExecute env (eo_cfg ob) cd w of (st, cd', w') \<Rightarrow> (st, ob\<lparr>eo_exec := CmdExec cd'\<rparr>, w'))
     | SaExec sd \<Rightarrow> (case sa_PreExecute env (eo_cfg ob) sd w of (st, sd') \<Rightarrow> (st, ob\<lparr>eo_exec := SaExec sd'\<rparr>, w))
     | FdExec fo \<Rightarrow> (case fo_PreExecute env (x_outputFilePath env) fo of (st, fo') \<Rightarrow> (st, ob\<lparr>eo_exec := FdExec fo'\<rparr>, w))
     | ZipExec zo \<Rightarrow> (case zo_PreExecute env zo w of (st, zo') \<Rightarrow> (st, ob\<lparr>eo_exec := ZipExec zo'\<rparr>, w))
     | _ \<Rightarrow> (DUMP_OK, ob, w))"

definition DoExecute :: "exec_env \<Rightarrow> exec_obj \<Rightarrow> exec_world \<Rightarrow> DumpStatus \<times> exec_obj \<times> exec_world" where
  "DoExecute env ob w =
    (case eo_exec ob of
       FileExec fs \<Rightarrow> (case fs_Execute env fs w of (st, fs', w') \<Rightarrow> (st, ob\<lparr>eo_exec := FileExec fs'\<rparr>, w'))
     | CmdExec cd \<Rightarrow> (case cd_Execute env cd w of (st, cd', w') \<Rightarrow> (st, ob\<lparr>eo_exec := CmdExec cd'\<rparr>, w'))
     | ApiExec \<Rightarrow> (case api_Execute env w of (st, w') \<Rightarrow> (st, ob, w'))
     | VersionExec \<Rightarrow> (case version_Execute w of (st, w') \<Rightarrow> (st, ob, w'))
     | ListExec \<Rightarrow> (case list_Execute env (c_target (eo_cfg ob)) w of (st, w') \<Rightarrow> (st, ob, w'))
     | CpuExec \<Rightarrow> (case cpu_Execute env w of (st, w') \<Rightarrow> (st, ob, w'))
     | SaExec sd \<Rightarrow> (case sa_Execute env sd w of (st, sd', w') \<Rightarrow> (st, ob\<lparr>eo_exec := SaExec sd'\<rparr>, w'))
     | TrafficExec status \<Rightarrow> (case traffic_Execute env status w of (st, w') \<Rightarrow> (st, ob\<lparr>eo_exec := TrafficExec st\<rparr>, w'))
     | IpcExec ic \<Rightarrow> (case ipc_Execute env ic w of (st, ic', w') \<Rightarrow> (st, ob\<lparr>eo_exec := IpcExec ic'\<rparr>, w'))
     | JsHeapExec status \<Rightarrow> (case jsheap_Execute env w of (st, w') \<Rightarrow> (st, ob\<lparr>eo_exec := JsHeapExec st\<rparr>, w'))
     | CjHeapExec status \<Rightarrow> (case cjheap_Execute env w of (st, w') \<Rightarrow> (st, ob\<lparr>eo_exec := CjHeapExec st\<rparr>, w'))
     | HeapExec hm \<Rightarrow> (case heap_Execute env hm w of (st, hm', w') \<Rightarrow> (st, ob\<lparr>eo_exec := HeapExec hm'\<rparr>, w'))
     | MemExec status \<Rightarrow> (case mem_Execute env status w of (st, w') \<Rightarrow> (st, ob\<lparr>eo_exec := MemExec st\<rparr>, w'))
     | FdThreadExec \<Rightarrow> (case fd_thread_Execute env (x_counts env) (x_opts env) w of (st, w') \<Rightarrow> (st, ob, w'))
     | EventListExec es \<Rightarrow> (case event_list_Execute (x_events env) (x_opts env) es w of (st, es', w') \<Rightarrow>
         (st, ob\<lparr>eo_exec := EventListExec es'\<rparr>, w'))
     | EventDetailExec es \<Rightarrow> (case event_detail_Execute env (x_events env) (x_opts env) es w of (st, es', w') \<Rightarrow>
         (st, ob\<lparr>eo_exec := EventDetailExec es'\<rparr>, w'))
     | IdleExec \<Rightarrow> (DUMP_OK, ob, w)
     | FormatExec \<Rightarrow> (case fmt_Execute w of (st, w') \<Rightarrow> (st, ob, w'))
     | FdExec fo \<Rightarrow> (case fo_Execute fo w of (st, w') \<Rightarrow> (st, ob, w'))
     | ZipExec zo \<Rightarrow> (case zo_Execute zo w of (st, w') \<Rightarrow> (st, ob, w')))"

definition DoAfterExecute :: "exec_env \<Rightarrow> exec_obj \<Rightarrow> exec_world \<Rightarrow> DumpStatus \<times> exec_obj \<times> exec_world" where
  "DoAfterExecute env ob w =
    (case eo_exec ob of
       FileExec fs \<Rightarrow> (case fs_AfterExecute (eo_cfg ob) fs of (st, fs') \<Rightarrow> (st, ob\<lparr>eo_exec := FileExec fs'\<rparr>, w))
     | CmdExec cd \<Rightarrow> (case cd_AfterExecute cd of (st, cd') \<Rightarrow> (st, ob\<lparr>eo_exec := CmdExec cd'\<rparr>, w))
     | JsHeapExec status \<Rightarrow> (status, ob, w)
     | CjHeapExec status \<Rightarrow> (status, ob, w)
     | HeapExec hm \<Rightarrow> (case heap_AfterExecute env hm w of (st, w') \<Rightarrow> (st, ob, w'))
     | MemExec status \<Rightarrow> (status, ob, w)
     | FdExec fo \<Rightarrow> (DUMP_OK, ob, clear_matrix w)
     | ZipExec zo \<Rightarrow> (DUMP_OK, ob, clear_matrix w)
     | _ \<Rightarrow> (DUMP_OK, ob, w))"

definition DoReset :: "exec_env \<Rightarrow> exec_obj \<Rightarrow> exec_world \<Rightarrow> exec_obj \<times> exec_world" where
  "DoReset env ob w =
    (case eo_exec ob of
       ZipExec zo \<Rightarrow> (case zo_Reset (o_path (x_opts env)) (zip_notifies env) zo w of (zo', w') \<Rightarrow> (ob\<lparr>eo_exec := ZipExec zo'\<rparr>, w'))
     | _ \<Rightarrow> (ob, w))"

definition executor_ops :: "exec_env \<Rightarrow> exec_obj exec_ops" where
  "executor_ops env = \<lparr>op_cfg = eo_cfg, op_pre = DoPreExecute env, op_exec = DoExecute env, op_after = DoAfterExecute env,
     op_reset = DoReset env\<rparr>"

section \<open>Titles and progress\<close>

definition CheckGroupName :: "string \<Rightarrow> string \<Rightarrow> bool" where
  "CheckGroupName lastName curName \<longleftrightarrow> curName \<noteq> [] \<and> lastName \<noteq> curName"

definition AddGroupTitle :: "DumperOpts \<Rightarrow> string \<Rightarrow> exec_world \<Rightarrow> exec_world" where
  "AddGroupTitle opts groupName w =
    (if groupName = ''ipc'' then w
     else if groupName = ''memory'' \<and> o_memPid opts \<le> 0 then w
     else if groupName = ''memory'' \<and> o_timeInterval opts > 0 then w
     else if groupName = ''ability'' then w
     else push_line [[]] (push_line [replicate 31 CHR ''-'' @ ''['', groupName, '']'' @ replicate 31 CHR ''-''] (push_line [[]] w)))"

definition SetZipTitle :: "DumperOpts \<Rightarrow> DumpCfg \<Rightarrow> exec_world \<Rightarrow> exec_world" where
  "SetZipTitle opts cfg w =
    (if c_class cfg = FD_OUTPUT \<and> IsDumpZip opts then w\<lparr>w_raw := SetTitle '',Failed to create the file.'' (w_raw w)\<rparr> else w)"

definition update_progress :: "nat \<Rightarrow> nat \<Rightarrow> exec_world \<Rightarrow> exec_world" where
  "update_progress steps current w =
    (case UpdateProgress steps current (w_raw w) of (texts, raw) \<Rightarrow> w\<lparr>w_raw := raw, w_out := w_out w @ texts\<rparr>)"

section \<open>The loop\<close>

record 'o loop_state =
  ls_objs :: "'o list"
  ls_world :: exec_world
  ls_index :: nat
  ls_stack :: "nat list" \<comment> \<open>\<open>loopStack\<close>, its back is the last element\<close>
  ls_group :: string

text \<open>One pass of the loop body; false stands for the \<open>break\<close> of a canceled request.\<close>

definition run_executor ::
    "'o exec_ops \<Rightarrow> DumperOpts \<Rightarrow> 'o \<Rightarrow> exec_world \<Rightarrow> DumpStatus option \<times> 'o \<times> exec_world" where
  "run_executor ops opts ob w =
    (case op_pre ops ob w of (ret, ob1, w1) \<Rightarrow>
     if ret \<noteq> DUMP_OK then (None, ob1, SetZipTitle opts (op_cfg ops ob1) w1)
     else case op_exec ops ob1 w1 of (ret, ob2, w2) \<Rightarrow>
     if ret \<noteq> DUMP_OK \<and> ret \<noteq> DUMP_MORE_DATA then (None, ob2, SetZipTitle opts (op_cfg ops ob2) w2)
     else case op_after ops ob2 w2 of (ret, ob3, w3) \<Rightarrow> (Some ret, ob3, w3))"

definition dump_step ::
    "'o exec_ops \<Rightarrow> exec_env \<Rightarrow> nat list \<Rightarrow> 'o loop_state \<Rightarrow> bool \<times> 'o loop_state" where
  "dump_step ops env executors ls =
    (let i = ls_index ls; r = executors ! i; ob = ls_objs ls ! r; cfg = op_cfg ops ob in
     case IsCanceled env (update_progress (length executors) i (ls_world ls)) of (canceled, w1) \<Rightarrow>
     if canceled then (False, ls\<lparr>ls_world := w1\<rparr>)
     else
       let titled = IsDumper (c_class cfg) \<and> CheckGroupName (ls_group ls) (c_section cfg);
           grp = (if titled then c_section cfg else ls_group ls);
           w2 = (if titled then AddGroupTitle (x_opts env) grp w1 else w1) in
       case run_executor ops (x_opts env) ob w2 of (ret, ob', w3) \<Rightarrow>
         let ls1 = ls\<lparr>ls_objs := (ls_objs ls)[r := ob'], ls_world := w3, ls_group := grp\<rparr> in
         (True,
          case ret of
            None \<Rightarrow> ls1\<lparr>ls_index := Suc i\<rparr>
          | Some status \<Rightarrow>
              (let stack = (if IsDumper (c_class cfg) \<and> CanLoop (c_loop cfg) \<and> status = DUMP_MORE_DATA
                            then ls_stack ls @ [i] else ls_stack ls) in
               if IsOutput (c_class cfg) \<or> c_class cfg = GROUP then
                 ls1\<lparr>ls_index := (if stack \<noteq> [] then last stack else Suc i), ls_stack := []\<rparr>
               else ls1\<lparr>ls_index := Suc i, ls_stack := stack\<rparr>)))"

partial_function (option) dump_loop ::
    "'o exec_ops \<Rightarrow> exec_env \<Rightarrow> nat list \<Rightarrow> 'o loop_state \<Rightarrow> 'o loop_state option" where
  "dump_loop ops env executors ls =
    (if ls_index ls \<ge> length executors then Some ls
     else case dump_step ops env executors ls of (continue, ls') \<Rightarrow>
       if continue then dump_loop ops env executors ls' else Some ls')"

text \<open>\<open>Reset\<close> of every entry of the executor list, so of a shared output once per entry.\<close>

fun reset_all :: "'o exec_ops \<Rightarrow> nat list \<Rightarrow> 'o list \<Rightarrow> exec_world \<Rightarrow> 'o list \<times> exec_world" where
  "reset_all ops [] objs w = (objs, w)"
| "reset_all ops (r # rs) objs w = (case op_reset ops (objs ! r) w of (ob, w') \<Rightarrow> reset_all ops rs (objs[r := ob]) w')"

definition loop_start :: "'o list \<Rightarrow> exec_world \<Rightarrow> 'o loop_state" where
  "loop_start objs w = \<lparr>ls_objs = objs, ls_world = w, ls_index = 0, ls_stack = [], ls_group = []\<rparr>"

definition DumpDatas ::
    "'o exec_ops \<Rightarrow> exec_env \<Rightarrow> 'o list \<Rightarrow> nat list \<Rightarrow> exec_world \<Rightarrow> (DumpStatus \<times> 'o list \<times> exec_world) option" where
  "DumpDatas ops env objs executors w =
    (case dump_loop ops env executors (loop_start objs w) of
       None \<Rightarrow> None
     | Some ls \<Rightarrow> (case reset_all ops executors (ls_objs ls) (ls_world ls) of (objs', w') \<Rightarrow>
         Some (DUMP_OK, objs', update_progress (length executors) (length executors) w')))"

end
