(* ===== verification/Common_Utils.thy ===== *)
theory Common_Utils
  imports Exec_Stream Dump_Implement
begin

text \<open>
  The process queries and the usage statistics of
  \<^verbatim>\<open>src/services/native/src/dump_common_utils.cpp\<close>, and what they use of
  \<^verbatim>\<open>src/frameworks/native/src/util/file_utils.cpp\<close>. The string functions of the C++ utility
  library (\<open>SplitStr\<close>, \<open>TrimStr\<close>, \<open>StrToInt\<close>, \<open>IsNumericStr\<close>) are parameters.
\<close>

record common_env =
  ce_open :: "string \<Rightarrow> stream option" \<comment> \<open>\<open>realpath\<close> and \<open>fopen\<close>\<close>
  ce_dir :: "string \<Rightarrow> string list option" \<comment> \<open>\<open>opendir\<close> and \<open>readdir\<close>\<close>
  ce_is_dir :: "string \<Rightarrow> bool" \<comment> \<open>\<open>stat\<close> and \<open>S_ISDIR\<close>\<close>
  ce_numeric :: "string \<Rightarrow> bool"
  ce_int :: "string \<Rightarrow> int option"
  ce_split :: "string \<Rightarrow> string \<Rightarrow> bool \<Rightarrow> bool \<Rightarrow> string list"
  ce_trim :: "string \<Rightarrow> char \<Rightarrow> string"

section \<open>Files and folders\<close>

text \<open>The lines that \<open>LoadStringFromProcCb\<close> hands to its callback.\<close>

function proc_lines :: "bool \<Rightarrow> bool \<Rightarrow> stream \<Rightarrow> string list" where
  "proc_lines oneLine endWithoutN s =
    (case getline s of
       (None, _) \<Rightarrow> []
     | (Some line, s') \<Rightarrow>
         (if endWithoutN then chomp line else c_str line) # (if oneLine then [] else proc_lines oneLine endWithoutN s'))"
  by pat_completeness auto
termination
  by (relation "measure (\<lambda>(_, _, s). length (st_rest s))") (auto dest: getline_shrinks [OF sym])

declare proc_lines.simps [simp del]

definition LoadStringFromProcCb :: "common_env \<Rightarrow> string \<Rightarrow> bool \<Rightarrow> bool \<Rightarrow> string list option" where
  "LoadStringFromProcCb env path oneLine endWithoutN = map_option (proc_lines oneLine endWithoutN) (ce_open env path)"

definition GetLinesInFile :: "common_env \<Rightarrow> string \<Rightarrow> string list option" where
  "GetLinesInFile env file =
    map_option (\<lambda>content. ce_split env (concat content) [CHR 0x0A] False True) (LoadStringFromProcCb env file False False)"

definition not_dots :: "string \<Rightarrow> bool" where
  "not_dots name \<longleftrightarrow> name \<noteq> ''.'' \<and> name \<noteq> ''..''"

definition GetNamesInFolder :: "common_env \<Rightarrow> string \<Rightarrow> string list option" where
  "GetNamesInFolder env folder = map_option (filter not_dots) (ce_dir env folder)"

definition GetSubNodes :: "common_env \<Rightarrow> string \<Rightarrow> bool \<Rightarrow> string list" where
  "GetSubNodes env path digit =
    (case ce_dir env path of None \<Rightarrow> []
     | Some entries \<Rightarrow> filter (\<lambda>n. not_dots n \<and> (digit \<longrightarrow> ce_numeric env n)) entries)"

definition GetSubDir :: "common_env \<Rightarrow> string \<Rightarrow> bool \<Rightarrow> string list" where
  "GetSubDir env path digit =
    (case ce_dir env path of None \<Rightarrow> []
     | Some entries \<Rightarrow>
         filter (\<lambda>n. not_dots n \<and> (digit \<longrightarrow> ce_numeric env n) \<and> ce_is_dir env (path @ ''/'' @ n)) entries)"

section \<open>Processes\<close>

definition GetCpuInfos :: "common_env \<Rightarrow> int list option" where
  "GetCpuInfos env =
    map_option (\<lambda>names. concat (map (\<lambda>name.
        if \<not> StartWith name ''cpu'' then []
        else let cpuId = drop 3 name in
          if cpuId = [] \<or> \<not> ce_numeric env cpuId then []
          else [case ce_int env cpuId of None \<Rightarrow> -1 | Some i \<Rightarrow> i]) names))
      (GetNamesInFolder env ''/sys/devices/system/cpu/'')"

definition set_number :: "common_env \<Rightarrow> string \<Rightarrow> ((int \<Rightarrow> int) \<Rightarrow> PidInfo \<Rightarrow> PidInfo) \<Rightarrow> PidInfo \<Rightarrow> PidInfo" where
  "set_number env val upd info = upd (\<lambda>old. case ce_int env val of None \<Rightarrow> old | Some i \<Rightarrow> i) info"

text \<open>One line of \<open>/proc/<pid>/status\<close>; \<open>None\<close> stands for the \<open>continue\<close> of the loop.\<close>

definition status_line :: "common_env \<Rightarrow> string \<Rightarrow> PidInfo \<Rightarrow> PidInfo option" where
  "status_line env line info =
    (let keyValue = ce_split env line '':'' False True in
     if length keyValue < 2 then None
     else
       let key = keyValue ! 0; val = ce_trim env (keyValue ! 1) (CHR 0x09); values = ce_split env val [CHR 0x09] True True in
       if values = [] then None
       else if key = ''Pid'' then Some (set_number env (values ! 0) p_pid_update info)
       else if key = ''PPid'' then Some (set_number env (values ! 0) p_ppid_update info)
       else if key = ''Uid'' then Some (set_number env (values ! 0) p_uid_update info)
       else if key = ''Gid'' then Some (set_number env (values ! 0) p_gid_update info)
       else if key = ''Name'' then Some (info\<lparr>p_name := val\<rparr>)
       else None)"

definition info_complete :: "PidInfo \<Rightarrow> bool" where
  "info_complete info \<longleftrightarrow> p_pid info > -1 \<and> p_ppid info > -1 \<and> p_uid info > -1 \<and> p_gid info > -1"

fun status_lines :: "common_env \<Rightarrow> string list \<Rightarrow> PidInfo \<Rightarrow> bool \<times> PidInfo" where
  "status_lines env [] info = (False, info)"
| "status_lines env (line # lines) info =
    (case status_line env line info of
       None \<Rightarrow> status_lines env lines info
     | Some info1 \<Rightarrow> if info_complete info1 then (True, info1) else status_lines env lines info1)"

definition GetProcessInfo :: "common_env \<Rightarrow> int \<Rightarrow> bool \<times> PidInfo" where
  "GetProcessInfo env pid =
    (case GetLinesInFile env (''/proc/'' @ to_string pid @ ''/status'') of
       None \<Rightarrow> (False, PidInfo_Reset)
     | Some lines \<Rightarrow> status_lines env lines PidInfo_Reset)"

text \<open>\<open>GetProcessInfo\<close> resets the information first, so that the process id comes from the status file.\<close>

definition GetPidInfos :: "common_env \<Rightarrow> (int \<Rightarrow> string option) \<Rightarrow> bool \<Rightarrow> PidInfo list option" where
  "GetPidInfos env process_name all =
    map_option (\<lambda>names. concat (map (\<lambda>name.
        if name = [] \<or> \<not> ce_numeric env name then []
        else
          let pid = (case ce_int env name of None \<Rightarrow> -1 | Some i \<Rightarrow> i); info = snd (GetProcessInfo env pid) in
          [if all then info\<lparr>p_cmdline := (case process_name (p_pid info) of None \<Rightarrow> p_cmdline info | Some n \<Rightarrow> n)\<rparr> else info]) names))
      (GetNamesInFolder env ''/proc/'')"

text \<open>\<open>GetAllPids\<close> throws when the name of a process folder is too large a number.\<close>

definition GetAllPids :: "common_env \<Rightarrow> int list option" where
  "GetAllPids env =
    (let pids = map stoi (filter (ce_numeric env) (GetSubDir env ''/proc'' True)) in
     if None \<in> set pids then None else Some (map the pids))"

definition GetUserPids :: "common_env \<Rightarrow> int list option" where
  "GetUserPids env =
    map_option (\<lambda>files. concat (map (\<lambda>file.
        if file = [] \<or> \<not> ce_numeric env file then []
        else case LoadStringFromProcCb env (''/proc/'' @ file @ ''/smaps'') True False of
            None \<Rightarrow> []
          | Some ls \<Rightarrow> if concat ls = [] then [] else (case ce_int env file of None \<Rightarrow> [] | Some pid \<Rightarrow> [pid])) files))
      (GetNamesInFolder env ''/proc/'')"

lemma status_lines_complete: "status_lines env lines info = (True, info') \<Longrightarrow> info_complete info'"
  by (induction env lines info rule: status_lines.induct) (auto split: option.splits if_splits)

section \<open>Clusters of file names\<close>

definition first_digit_from :: "nat \<Rightarrow> string \<Rightarrow> nat" where
  "first_digit_from i s = (if i > length s then length s else i + length (takeWhile (\<lambda>c. \<not> is_digit c) (drop i s)))"

definition STORAGE_PATH_PREFIX :: string where "STORAGE_PATH_PREFIX = ''/data/storage/el''"

text \<open>The character after the end of a \<open>std::string\<close> is the null character, which is no digit.\<close>

definition FindFdClusterStartIndex :: "string \<Rightarrow> nat" where
  "FindFdClusterStartIndex fullFileName =
    (let n = length STORAGE_PATH_PREFIX in
     if take n fullFileName \<noteq> STORAGE_PATH_PREFIX \<or> \<not> (n < length fullFileName \<and> is_digit (fullFileName ! n))
     then first_digit_from 0 fullFileName
     else first_digit_from (Suc n) fullFileName)"

lemma first_digit_from_le: "first_digit_from i s \<le> length s"
  using length_takeWhile_le [of "\<lambda>c. \<not> is_digit c" "drop i s"] by (auto simp: first_digit_from_def)

lemma FindFdClusterStartIndex_le: "FindFdClusterStartIndex s \<le> length s"
  by (simp add: FindFdClusterStartIndex_def Let_def first_digit_from_le)

section \<open>Usage statistics\<close>

text \<open>
  The temporary file that remembers what was reported today: its content (\<open>None\<close> when it does not
  exist) and the time of its last change. Broken-down local time is a parameter.
\<close>

record tm =
  tm_year :: int
  tm_mon :: int
  tm_mday :: int
  tm_hour :: int
  tm_min :: int
  tm_sec :: int

record usage_env =
  us_now :: int
  us_localtime :: "int \<Rightarrow> tm"
  us_can_stat :: bool \<comment> \<open>\<open>GetLastWriteTime\<close> succeeds\<close>
  us_can_open :: bool
  us_can_read :: bool
  us_event :: "DumperSysEventParams \<Rightarrow> int" \<comment> \<open>result of \<open>HiSysEventWrite\<close>, 0 when built without it\<close>

record usage_file =
  uf_content :: "string option"
  uf_mtime :: int
  uf_events :: "DumperSysEventParams list" \<comment> \<open>events that were reported\<close>

definition ONE_DAY_TO_SECONDS :: int where "ONE_DAY_TO_SECONDS = 24 * 60 * 60"

definition ClearHisyseventTmpFile :: "usage_env \<Rightarrow> usage_file \<Rightarrow> usage_file" where
  "ClearHisyseventTmpFile env uf =
    (if uf_content uf = None \<or> \<not> us_can_stat env then uf
     else
       let cur = us_localtime env (us_now env); lst = us_localtime env (uf_mtime uf) in
       if us_now env - uf_mtime uf > ONE_DAY_TO_SECONDS
          \<or> (tm_year cur = tm_year lst \<and> tm_mon cur = tm_mon lst \<and> tm_mday cur - tm_mday lst \<ge> 1)
       then uf\<lparr>uf_content := Some [], uf_mtime := us_now env\<rparr> else uf)"

definition usage_key :: "DumperSysEventParams \<Rightarrow> string" where
  "usage_key param =
    (if errorCode param = 0 then ''OPT:'' @ ev_opt param @ '' SUB_OPT:'' @ subOpt param @ [CHR 0x0A]
     else ''ERROR_MESSAGE:'' @ errorMsg param @ [CHR 0x0A])"

definition ReportCmdUsage :: "usage_env \<Rightarrow> DumperSysEventParams \<Rightarrow> usage_file \<Rightarrow> usage_file" where
  "ReportCmdUsage env param uf0 =
    (let uf = ClearHisyseventTmpFile env uf0 in
     if \<not> us_can_open env then uf
     else
       let content = (case uf_content uf of None \<Rightarrow> [] | Some c \<Rightarrow> c);
           uf1 = uf\<lparr>uf_content := Some content, uf_mtime := (if uf_content uf = None then us_now env else uf_mtime uf)\<rparr> in
       if \<not> us_can_read env then uf1
       else if contains content (usage_key param) then uf1
       else if us_event env param \<noteq> 0 then uf1
       else uf1\<lparr>uf_events := uf_events uf1 @ [param], uf_content := Some (content @ c_str (usage_key param)), uf_mtime := us_now env\<rparr>)"

text \<open>A usage is reported once: a second report of the same usage at the same time adds no event.\<close>

lemma usage_reported_once:
  assumes "c_str (usage_key param) = usage_key param" "us_can_open env" "us_can_read env" "us_event env param = 0"
  shows "uf_events (ReportCmdUsage env param (ReportCmdUsage env param uf)) = uf_events (ReportCmdUsage env param uf)"
proof -
  define uf1 where "uf1 = ReportCmdUsage env param uf"
  have "contains (a @ usage_key param) (usage_key param)" for a by (metis append_Nil2 contains_iff)
  with assms have c: "\<exists>c. uf_content uf1 = Some c \<and> contains c (usage_key param)"
    by (auto simp: uf1_def ReportCmdUsage_def Let_def)
  have "us_now env - uf_mtime uf1 \<le> ONE_DAY_TO_SECONDS
      \<and> \<not> (tm_year (us_localtime env (us_now env)) = tm_year (us_localtime env (uf_mtime uf1))
        \<and> tm_mon (us_localtime env (us_now env)) = tm_mon (us_localtime env (uf_mtime uf1))
        \<and> tm_mday (us_localtime env (us_now env)) - tm_mday (us_localtime env (uf_mtime uf1)) \<ge> 1) \<or> \<not> us_can_stat env"
    using assms by (auto simp: uf1_def ReportCmdUsage_def ClearHisyseventTmpFile_def Let_def ONE_DAY_TO_SECONDS_def split: option.splits)
  then have "ClearHisyseventTmpFile env uf1 = uf1" by (auto simp: ClearHisyseventTmpFile_def Let_def)
  with c have "uf_events (ReportCmdUsage env param uf1) = uf_events uf1" by (auto simp: ReportCmdUsage_def Let_def)
  then show ?thesis by (simp add: uf1_def)
qed

section \<open>Dates\<close>

definition two_digits :: "int \<Rightarrow> string" where
  "two_digits n = (if n < 10 then ''0'' else []) @ to_string n"

definition GetDateAndTime :: "tm \<Rightarrow> string" where
  "GetDateAndTime t =
    to_string (1900 + tm_year t) @ ''-'' @ two_digits (1 + tm_mon t) @ ''-'' @ two_digits (tm_mday t) @ '' ''
    @ two_digits (tm_hour t) @ '':'' @ two_digits (tm_min t) @ '':'' @ two_digits (tm_sec t)"

end
