(* ===== verification/Dump_Main.thy ===== *)
theory Dump_Main
  imports Executor_Loop Common_Utils
begin

text \<open>
  \<open>DumpImplement::Main\<close> of \<^verbatim>\<open>src/frameworks/native/src/manager/dump_implement.cpp\<close>: the whole classic
  framework, from the arguments of a request to its output. \<open>IsNewStructSupport\<close> of the same file
  always answers false, so that requests never reach the task framework from here.

  The request object is in the world of the executors. \<open>getopt_long\<close> and the device are parameters, as
  in the parts.
\<close>

record main_state =
  ms_impl :: DumpImplement
  ms_world :: exec_world
  ms_usage :: usage_file

definition request_env :: "RawParam \<Rightarrow> cmd_env \<Rightarrow> cmd_env" where
  "request_env rp env = env\<lparr>outputFd := rp_outfd rp, reqUid := rp_uid rp, reqPid := rp_pid rp, reqCallerPpid := rp_callerPpid rp\<rparr>"

definition IsNewStructSupport :: bool where
  "IsNewStructSupport = False"

text \<open>What the request object and the matrix are when the executors start.\<close>

definition start_world :: "DumpImplement \<Rightarrow> bool \<Rightarrow> exec_world \<Rightarrow> exec_world" where
  "start_world im isZip w = w\<lparr>w_matrix := [],
     w_raw := SetTitle (if isZip then '',The result is:'' @ im_path im else []) (SetProgressEnabled isZip (w_raw w))\<rparr>"

definition run_executors ::
    "cmd_env \<Rightarrow> exec_env \<Rightarrow> usage_env \<Rightarrow> flat_cfg list \<Rightarrow> main_state \<Rightarrow> (DumpStatus \<times> main_state) option" where
  "run_executors env xenv uenv cfgs ms =
    (let im = ms_impl ms; isZip = IsDumpZip (im_opts im); xenv1 = xenv\<lparr>x_opts := im_opts im\<rparr> in
     if cfgs = [] then Some (DUMP_FAIL, ms)
     else case setExecutorList (hiview_enable env) isZip (map snd cfgs) of (objs, executors) \<Rightarrow>
       if executors = [] then Some (DUMP_FAIL, ms)
       else case DumpDatas (executor_ops xenv1) xenv1 objs executors (start_world im isZip (ms_world ms)) of
           None \<Rightarrow> None
         | Some (ret, objs', w) \<Rightarrow>
             (let im1 = (if ret \<noteq> DUMP_OK then note_event (\<lambda>e. e\<lparr>errorCode := status_code ret, errorMsg := ''dump fail''\<rparr>) im
                         else im) in
              Some (ret, ms\<lparr>ms_impl := im1, ms_world := w, ms_usage := ReportCmdUsage uenv (im_event im1) (ms_usage ms)\<rparr>)))"

definition DumpImplement_Main ::
    "cmd_env \<Rightarrow> exec_env \<Rightarrow> usage_env \<Rightarrow> string list \<Rightarrow> getopt_event list \<Rightarrow> main_state \<Rightarrow> (DumpStatus \<times> main_state) option" where
  "DumpImplement_Main env xenv uenv argv ges ms =
    (case InitHandle (request_env (w_raw (ms_world ms)) env) argv ges ((ms_impl ms)\<lparr>im_writes := []\<rparr>) of
       None \<Rightarrow> None
     | Some (ret, im, cfgs) \<Rightarrow>
        (let ms1 = ms\<lparr>ms_impl := im, ms_world := (ms_world ms)\<lparr>w_out := w_out (ms_world ms) @ im_writes im\<rparr>\<rparr> in
         if ret \<noteq> DUMP_OK then Some (ret, ms1\<lparr>ms_usage := ReportCmdUsage uenv (im_event im) (ms_usage ms)\<rparr>)
         else run_executors env xenv uenv cfgs ms1))"

end
