(* ===== verification/Executor_Facts.thy ===== *)
theory Executor_Facts
  imports Executor_Loop Config_Facts
begin

text \<open>
  Why the executor loop ends. The interface of the executors is the locale \<open>streaming\<close>: a dumper that
  has more data can be resumed, and resuming it leaves less to read. The loop jumps back to the
  last dumper that has more data; what runs between that dumper and the jump may start again from
  the beginning. So the measure is a vector with one entry per executor, ordered
  lexicographically: fresh executors are on top, a dumper that waits for its jump has what is left
  to read, everything that has passed is zero.
\<close>

section \<open>The contract of the executors\<close>

locale streaming =
  fixes ops :: "'o exec_ops" and good :: "'o \<Rightarrow> bool" and resumable :: "'o \<Rightarrow> bool" and left_over :: "'o \<Rightarrow> nat"
  assumes run_keeps: "good ob \<Longrightarrow> run_executor ops opts ob w = (ret, ob', w') \<Longrightarrow> good ob' \<and> op_cfg ops ob' = op_cfg ops ob"
    and run_more: "good ob \<Longrightarrow> run_executor ops opts ob w = (Some DUMP_MORE_DATA, ob', w') \<Longrightarrow> CanLoop (c_loop (op_cfg ops ob))
      \<Longrightarrow> resumable ob' \<and> (resumable ob \<longrightarrow> left_over ob' < left_over ob)"
begin

abbreviation cls :: "nat list \<Rightarrow> 'o list \<Rightarrow> nat \<Rightarrow> int" where
  "cls executors objs p \<equiv> c_class (op_cfg ops (objs ! (executors ! p)))"

text \<open>Two entries share an object only when it is an output.\<close>

definition shared_ok :: "nat list \<Rightarrow> 'o list \<Rightarrow> bool" where
  "shared_ok executors objs \<longleftrightarrow> (\<forall>p < length executors. executors ! p < length objs
     \<and> (\<forall>q < length executors. p \<noteq> q \<and> executors ! p = executors ! q \<longrightarrow> IsOutput (cls executors objs p)))"

definition waiting :: "nat list \<Rightarrow> 'o list \<Rightarrow> nat \<Rightarrow> nat \<Rightarrow> bool" where
  "waiting executors objs p n \<longleftrightarrow> resumable (objs ! (executors ! p)) \<and> n = left_over (objs ! (executors ! p))"

text \<open>The measure \<open>v\<close> of a state.\<close>

definition ghost :: "nat list \<Rightarrow> 'o loop_state \<Rightarrow> (nat \<times> nat) list \<Rightarrow> bool" where
  "ghost executors ls v \<longleftrightarrow>
     length v = length executors \<and> shared_ok executors (ls_objs ls) \<and> list_all good (ls_objs ls)
     \<and> (\<forall>p < length executors. ls_index ls < p \<longrightarrow> v ! p = (1, 0))
     \<and> (ls_index ls < length executors \<longrightarrow> v ! ls_index ls = (1, 0)
          \<or> (\<exists>n. waiting executors (ls_objs ls) (ls_index ls) n \<and> v ! ls_index ls = (0, 2 * n + 1)))
     \<and> (\<forall>p \<in> set (ls_stack ls). p < ls_index ls \<and> p < length executors \<and> IsDumper (cls executors (ls_objs ls) p)
          \<and> (\<exists>n. waiting executors (ls_objs ls) p n \<and> v ! p = (0, 2 * n + 2)))"

definition smaller :: "nat \<Rightarrow> ((nat \<times> nat) list \<times> (nat \<times> nat) list) set" where
  "smaller n = lexn (less_than <*lex*> less_than) n"

lemma wf_smaller: "wf (smaller n)"
  unfolding smaller_def by (intro wf_lexn wf_lex_prod wf_less_than)

lemma smaller_at:
  assumes "i < length v" "length v = n" "length v' = n" "take i v' = take i v" "(v' ! i, v ! i) \<in> less_than <*lex*> less_than"
  shows "(v', v) \<in> smaller n"
proof -
  have "v' = take i v @ v' ! i # drop (Suc i) v'" using assms id_take_nth_drop [of i v'] by simp
  moreover have "v = take i v @ v ! i # drop (Suc i) v" using assms id_take_nth_drop [of i v] by simp
  ultimately show ?thesis unfolding smaller_def lexn_conv using assms by blast
qed

text \<open>Running an executor changes the object of its own entry, and that of other entries only for outputs.\<close>

lemma other_object:
  assumes "shared_ok executors objs" "i < length executors" "p < length executors" "p \<noteq> i" "IsDumper (cls executors objs p)"
  shows "objs[executors ! i := ob] ! (executors ! p) = objs ! (executors ! p)"
proof -
  have "executors ! i \<noteq> executors ! p"
    using assms class_kinds_disjoint(2) unfolding shared_ok_def by metis
  then show ?thesis by simp
qed

lemma updated_class:
  assumes "executors ! i < length objs" "op_cfg ops ob = op_cfg ops (objs ! (executors ! i))"
  shows "op_cfg ops (objs[executors ! i := ob] ! r) = op_cfg ops (objs ! r)"
  using assms by (cases "r = executors ! i") auto

lemma run_frame:
  assumes sh: "shared_ok executors objs" and gd: "list_all good objs" and i: "i < length executors"
    and run: "run_executor ops opts (objs ! (executors ! i)) w = (ret, ob', w')" and objs': "objs' = objs[executors ! i := ob']"
  shows "good (objs ! (executors ! i))" "list_all good objs'" "shared_ok executors objs'"
    "op_cfg ops (objs' ! q) = op_cfg ops (objs ! q)" "objs' ! (executors ! i) = ob'"
    "p < length executors \<Longrightarrow> p \<noteq> i \<Longrightarrow> IsDumper (cls executors objs p) \<Longrightarrow> objs' ! (executors ! p) = objs ! (executors ! p)"
proof -
  have r: "executors ! i < length objs" using sh i by (auto simp: shared_ok_def)
  show g: "good (objs ! (executors ! i))" using gd r by (simp add: list_all_length)
  note keep = run_keeps [OF g run]
  have cfg: "op_cfg ops (objs' ! q) = op_cfg ops (objs ! q)" for q unfolding objs' using updated_class [OF r] keep by simp
  show "op_cfg ops (objs' ! q) = op_cfg ops (objs ! q)" by (rule cfg)
  show "list_all good objs'" using gd keep r by (auto simp: objs' list_all_iff dest!: subsetD [OF set_update_subset_insert])
  have "length objs' = length objs" by (simp add: objs')
  then show "shared_ok executors objs'" using sh unfolding shared_ok_def cfg by simp
  show "objs' ! (executors ! i) = ob'" unfolding objs' using r by simp
  show "p < length executors \<Longrightarrow> p \<noteq> i \<Longrightarrow> IsDumper (cls executors objs p) \<Longrightarrow> objs' ! (executors ! p) = objs ! (executors ! p)"
    unfolding objs' by (rule other_object [OF sh i])
qed

text \<open>The stack part of the measure.\<close>

definition stack_ok :: "nat list \<Rightarrow> 'o list \<Rightarrow> nat \<Rightarrow> (nat \<times> nat) list \<Rightarrow> nat list \<Rightarrow> bool" where
  "stack_ok executors objs i v stack \<longleftrightarrow> (\<forall>p \<in> set stack. p < i \<and> p < length executors \<and> IsDumper (cls executors objs p)
     \<and> (\<exists>n. waiting executors objs p n \<and> v ! p = (0, 2 * n + 2)))"

lemma ghost_stack: "ghost executors ls v \<Longrightarrow> stack_ok executors (ls_objs ls) (ls_index ls) v (ls_stack ls)"
  by (simp add: ghost_def stack_ok_def)

lemma ghostI:
  assumes "length v = length executors" "shared_ok executors (ls_objs ls)" "list_all good (ls_objs ls)"
    "\<And>p. p < length executors \<Longrightarrow> ls_index ls < p \<Longrightarrow> v ! p = (1, 0)"
    "ls_index ls < length executors \<Longrightarrow> v ! ls_index ls = (1, 0)
       \<or> (\<exists>n. waiting executors (ls_objs ls) (ls_index ls) n \<and> v ! ls_index ls = (0, 2 * n + 1))"
    "stack_ok executors (ls_objs ls) (ls_index ls) v (ls_stack ls)"
  shows "ghost executors ls v"
  using assms by (simp add: ghost_def stack_ok_def)

text \<open>The stack after the object of entry \<open>i\<close> has changed, with or without \<open>i\<close> on it.\<close>

lemma stack_ok_run:
  assumes st: "stack_ok executors objs i v old" and stack: "set stack \<subseteq> insert i (set old)" and i: "i < length executors"
    and frame: "\<And>p. p < length executors \<Longrightarrow> p \<noteq> i \<Longrightarrow> IsDumper (cls executors objs p)
      \<Longrightarrow> objs' ! (executors ! p) = objs ! (executors ! p)"
    and cfg: "\<And>q. op_cfg ops (objs' ! q) = op_cfg ops (objs ! q)"
    and own: "i \<in> set stack \<Longrightarrow> IsDumper (cls executors objs i) \<and> resumable (objs' ! (executors ! i))
      \<and> x = (0, 2 * left_over (objs' ! (executors ! i)) + 2)" and len: "length v = length executors"
  shows "stack_ok executors objs' (Suc i) (v[i := x]) stack"
  unfolding stack_ok_def
proof
  fix p assume p: "p \<in> set stack"
  show "p < Suc i \<and> p < length executors \<and> IsDumper (cls executors objs' p)
     \<and> (\<exists>n. waiting executors objs' p n \<and> v[i := x] ! p = (0, 2 * n + 2))"
  proof (cases "p = i")
    case True
    then show ?thesis using p own i len by (auto simp: cfg waiting_def)
  next
    case False
    then have q: "p < i" "IsDumper (cls executors objs p)" "\<exists>n. waiting executors objs p n \<and> v ! p = (0, 2 * n + 2)"
      using p stack st by (auto simp: stack_ok_def)
    with frame [of p] i show ?thesis by (auto simp: cfg waiting_def)
  qed
qed

lemma ghost_pass:
  assumes g: "ghost executors ls v" and i: "i = ls_index ls" "i < length executors"
    and run: "run_executor ops opts (ls_objs ls ! (executors ! i)) w = (ret, ob', w')"
    and ls': "ls_objs ls' = (ls_objs ls)[executors ! i := ob']" "ls_index ls' = Suc i" "ls_stack ls' = stack"
    and st: "stack = ls_stack ls
      \<or> stack = ls_stack ls @ [i] \<and> ret = Some DUMP_MORE_DATA \<and> IsDumper (cls executors (ls_objs ls) i)
        \<and> CanLoop (c_loop (op_cfg ops (ls_objs ls ! (executors ! i))))"
  shows "\<exists>v'. ghost executors ls' v' \<and> (v', v) \<in> smaller (length executors)"
proof -
  define ob where "ob = ls_objs ls ! (executors ! i)"
  have sh: "shared_ok executors (ls_objs ls)" and gd: "list_all good (ls_objs ls)" and len: "length v = length executors"
    using g by (auto simp: ghost_def)
  note frame = run_frame [OF sh gd i(2) run ls'(1)]
  define x where "x = (if i \<in> set stack then (0, 2 * left_over ob' + 2) else (0::nat, 0::nat))"
  have notin: "i \<notin> set (ls_stack ls)" using g i by (auto simp: ghost_def)
  have pushed: "resumable ob' \<and> (resumable ob \<longrightarrow> left_over ob' < left_over ob) \<and> IsDumper (cls executors (ls_objs ls) i)"
    if "i \<in> set stack"
    using that st notin run_more [OF frame(1)] run by (auto simp: ob_def)
  have cur: "v ! i = (1, 0) \<or> (v ! i = (0, 2 * left_over ob + 1) \<and> resumable ob)"
    using g i by (auto simp: ghost_def waiting_def ob_def)
  have "(x, v ! i) \<in> less_than <*lex*> less_than"
    using cur pushed by (auto simp: x_def)
  then have "(v[i := x], v) \<in> smaller (length executors)"
    using i len by (intro smaller_at [of i]) auto
  moreover have "stack_ok executors (ls_objs ls') (Suc i) (v[i := x]) stack"
  proof (rule stack_ok_run [OF _ _ i(2)])
    show "stack_ok executors (ls_objs ls) i v (ls_stack ls)" using ghost_stack [OF g] i by simp
    show "set stack \<subseteq> insert i (set (ls_stack ls))" using st by auto
  qed (use frame pushed len in \<open>auto simp: x_def\<close>)
  then have "ghost executors ls' (v[i := x])"
    using g i frame(2,3) by (intro ghostI) (auto simp: ls'(2,3) ghost_def)
  ultimately show ?thesis by blast
qed

lemma ghost_jump:
  assumes g: "ghost executors ls v" and i: "i = ls_index ls" "i < length executors"
    and run: "run_executor ops opts (ls_objs ls ! (executors ! i)) w = (ret, ob', w')"
    and ls': "ls_objs ls' = (ls_objs ls)[executors ! i := ob']" "ls_index ls' = j" "ls_stack ls' = []"
    and j: "j \<in> set (ls_stack ls)"
  shows "\<exists>v'. ghost executors ls' v' \<and> (v', v) \<in> smaller (length executors)"
proof -
  have sh: "shared_ok executors (ls_objs ls)" and gd: "list_all good (ls_objs ls)" and len: "length v = length executors"
    using g by (auto simp: ghost_def)
  note frame = run_frame [OF sh gd i(2) run ls'(1)]
  from ghost_stack [OF g] j obtain n where q: "j < i" "IsDumper (cls executors (ls_objs ls) j)"
      "waiting executors (ls_objs ls) j n" "v ! j = (0, 2 * n + 2)" by (auto simp: stack_ok_def i)
  have same: "ls_objs ls' ! (executors ! j) = ls_objs ls ! (executors ! j)" using frame(6) q i by simp
  define v' where "v' = take j v @ (0, 2 * n + 1) # replicate (length executors - Suc j) (1, 0)"
  have jl: "j < length executors" using q i by simp
  have nth: "v' ! j = (0, 2 * n + 1)" "\<And>p. j < p \<Longrightarrow> p < length executors \<Longrightarrow> v' ! p = (1, 0)"
    using jl len by (auto simp: v'_def nth_append nth_Cons')
  have "(v', v) \<in> smaller (length executors)"
    using jl len q nth(1) by (intro smaller_at [of j]) (auto simp: v'_def)
  moreover have "ghost executors ls' v'"
    using frame(2,3) q(3) nth jl len
    by (intro ghostI) (auto simp: ls'(2,3) stack_ok_def waiting_def same v'_def [THEN arg_cong, of length])
  ultimately show ?thesis by blast
qed

text \<open>Every pass of the loop body makes the measure smaller.\<close>

lemma dump_step_ghost:
  assumes g: "ghost executors ls v" and i: "ls_index ls < length executors" and s: "dump_step ops env executors ls = (True, ls')"
  shows "\<exists>v'. ghost executors ls' v' \<and> (v', v) \<in> smaller (length executors)"
proof -
  define i where "i = ls_index ls"
  define cfg where "cfg = op_cfg ops (ls_objs ls ! (executors ! i))"
  from s obtain w2 ret ob' w3 where run: "run_executor ops (x_opts env) (ls_objs ls ! (executors ! i)) w2 = (ret, ob', w3)"
    and o: "ls_objs ls' = (ls_objs ls)[executors ! i := ob']"
    and n: "ls_index ls' = Suc i \<and> (ls_stack ls' = ls_stack ls \<or> ls_stack ls' = []
        \<or> ls_stack ls' = ls_stack ls @ [i] \<and> ret = Some DUMP_MORE_DATA \<and> IsDumper (c_class cfg) \<and> CanLoop (c_loop cfg))
      \<or> ls_index ls' = last (ls_stack ls) \<and> ls_stack ls \<noteq> [] \<and> ls_stack ls' = []"
    unfolding dump_step_def Let_def i_def [symmetric] cfg_def [symmetric]
    using class_kinds_disjoint(2,4) [of "c_class cfg"]
    by (auto simp: IsDumper_def IsOutput_def split: prod.splits if_splits option.splits)
  have len: "i < length executors" using assms by (simp add: i_def)
  from n consider
      "ls_index ls' = Suc i" "ls_stack ls' = []"
    | "ls_index ls' = Suc i" "ls_stack ls' = ls_stack ls
        \<or> ls_stack ls' = ls_stack ls @ [i] \<and> ret = Some DUMP_MORE_DATA \<and> IsDumper (c_class cfg) \<and> CanLoop (c_loop cfg)"
    | "ls_index ls' = last (ls_stack ls)" "ls_stack ls \<noteq> []" "ls_stack ls' = []" by blast
  then show ?thesis
  proof cases
    case 1
    obtain v' where "ghost executors (ls'\<lparr>ls_stack := ls_stack ls\<rparr>) v'" "(v', v) \<in> smaller (length executors)"
      using ghost_pass [OF g i_def len run, of "ls'\<lparr>ls_stack := ls_stack ls\<rparr>" "ls_stack ls"] o 1 by auto
    then show ?thesis using 1 by (auto simp: ghost_def waiting_def)
  next
    case 2
    then show ?thesis using ghost_pass [OF g i_def len run o, of "ls_stack ls'"] by (auto simp: cfg_def)
  next
    case 3
    then show ?thesis using ghost_jump [OF g i_def len run o, of "last (ls_stack ls)"] by simp
  qed
qed

lemma dump_loop_ends: "ghost executors ls v \<Longrightarrow> \<exists>ls'. dump_loop ops env executors ls = Some ls'"
proof (induction v arbitrary: ls rule: wf_induct_rule [OF wf_smaller [of "length executors"]])
  case (1 v)
  show ?case
  proof (cases "ls_index ls \<ge> length executors")
    case True
    then show ?thesis by (simp add: dump_loop.simps)
  next
    case False
    obtain c ls' where s: "dump_step ops env executors ls = (c, ls')" by fastforce
    show ?thesis
    proof (cases c)
      case True
      with s dump_step_ghost [OF 1(2), of env ls'] False 1(1) show ?thesis
        by (subst dump_loop.simps) (auto simp: s)
    next
      case c: False
      with False show ?thesis by (subst dump_loop.simps) (simp add: s)
    qed
  qed
qed

lemma DumpDatas_ends:
  assumes "shared_ok executors objs" and "list_all good objs"
  shows "\<exists>objs' w'. DumpDatas ops env objs executors w = Some (DUMP_OK, objs', w')"
proof -
  have "ghost executors (loop_start objs w) (replicate (length executors) (1, 0))"
    using assms by (intro ghostI) (auto simp: loop_start_def stack_ok_def)
  from dump_loop_ends [OF this] obtain ls where "dump_loop ops env executors (loop_start objs w) = Some ls" by blast
  then show ?thesis by (simp add: DumpDatas_def split: prod.splits)
qed

end

section \<open>The executors of the program keep the contract\<close>

fun exec_good :: "DumpCfg \<Rightarrow> executor \<Rightarrow> bool" where
  "exec_good cfg (FileExec fs) \<longleftrightarrow> (next_file_index fs > 0 \<longrightarrow> need_loop fs = (c_loop cfg = LOOP))"
| "exec_good cfg (MemExec st) \<longleftrightarrow> st \<noteq> DUMP_MORE_DATA"
| "exec_good cfg (JsHeapExec st) \<longleftrightarrow> st \<noteq> DUMP_MORE_DATA"
| "exec_good cfg (CjHeapExec st) \<longleftrightarrow> st \<noteq> DUMP_MORE_DATA"
| "exec_good cfg (HeapExec hm) \<longleftrightarrow> hm_status hm \<noteq> DUMP_MORE_DATA"
| "exec_good cfg _ \<longleftrightarrow> True"

definition obj_good :: "exec_obj \<Rightarrow> bool" where
  "obj_good ob \<longleftrightarrow> c_loop (eo_cfg ob) \<in> {NONE, LOOP} \<and> exec_good (eo_cfg ob) (eo_exec ob)"

definition obj_resumable :: "exec_obj \<Rightarrow> bool" where
  "obj_resumable ob = (case eo_exec ob of FileExec fs \<Rightarrow> next_file_index fs > 0 | CmdExec cd \<Rightarrow> cd_fp cd \<noteq> None | _ \<Rightarrow> False)"

definition obj_left :: "exec_env \<Rightarrow> exec_obj \<Rightarrow> nat" where
  "obj_left env ob =
    (case eo_exec ob of FileExec fs \<Rightarrow> fs_remaining env fs | CmdExec cd \<Rightarrow> stream_size (cd_fp cd) | _ \<Rightarrow> 0)"

lemma OpenNextFile_frame:
  "OpenNextFile env fs w = (r, fs', w') \<Longrightarrow> need_loop fs' = need_loop fs \<and> next_file_index fs \<le> next_file_index fs'
    \<and> (r > 0 \<longrightarrow> next_file_index fs' > 0) \<and> filenames fs' = filenames fs \<and> needHideAddr fs' = needHideAddr fs"
  by (auto simp: OpenNextFile_def fs_CloseFd_def Let_def split: if_splits option.splits)

lemma ReadLineInFile_frame:
  "ReadLineInFile env fs w = (r, fs', w') \<Longrightarrow> need_loop fs' = need_loop fs \<and> next_file_index fs \<le> next_file_index fs'
    \<and> (fs_fp fs \<noteq> None \<longrightarrow> more_data fs' = (r = DUMP_MORE_DATA)) \<and> (fs_fp fs = None \<longrightarrow> r = DUMP_FAIL)"
  by (auto simp: ReadLineInFile_def Let_def split: option.splits prod.splits if_splits dest: OpenNextFile_frame)

lemma read_all_lines_frame:
  "read_all_lines env ret fs w = (r, fs', w') \<Longrightarrow> need_loop fs' = need_loop fs \<and> next_file_index fs \<le> next_file_index fs'"
proof (induction env ret fs w arbitrary: r fs' w' rule: read_all_lines.induct)
  case (1 env ret fs w)
  obtain c w1 where c: "IsCanceled env w = (c, w1)" by fastforce
  obtain r2 fs2 w2 where rl: "ReadLineInFile env fs w1 = (r2, fs2, w2)" by (metis prod_cases3)
  note f = ReadLineInFile_frame [OF rl]
  show ?case
  proof (cases "\<not> c \<and> r2 = DUMP_MORE_DATA")
    case True
    from 1(2) True have "read_all_lines env r2 fs2 w2 = (r, fs', w')"
      by (subst (asm) read_all_lines.simps) (simp add: c rl)
    with 1(1) [OF c [symmetric] _ rl [symmetric] refl] True f show ?thesis by force
  next
    case False
    with 1(2) f show ?thesis by (subst (asm) read_all_lines.simps) (auto simp: c rl split: if_splits)
  qed
qed

lemma fs_Pre_frame:
  "fs_PreExecute env cfg fs w = (st, fs', w') \<Longrightarrow> next_file_index fs > 0 \<longrightarrow> need_loop fs = (c_loop cfg = LOOP)
    \<Longrightarrow> need_loop fs' = (c_loop cfg = LOOP) \<and> (next_file_index fs > 0 \<longrightarrow> fs' = fs) \<and> (st = DUMP_OK \<longrightarrow> next_file_index fs' > 0)"
  by (auto simp: fs_PreExecute_def Let_def split: if_splits prod.splits dest: OpenNextFile_frame)

lemma fs_Execute_frame:
  "fs_Execute env fs w = (st, fs', w') \<Longrightarrow> need_loop fs' = need_loop fs \<and> next_file_index fs \<le> next_file_index fs'"
  by (auto simp: fs_Execute_def split: if_splits dest: ReadLineInFile_frame read_all_lines_frame)

lemma fs_After_frame:
  "fs_AfterExecute cfg fs = (st, fs') \<Longrightarrow> need_loop fs' = need_loop fs \<and> next_file_index fs' = next_file_index fs
    \<and> (st = DUMP_MORE_DATA \<longrightarrow> fs' = fs \<and> more_data fs)"
  by (auto simp: fs_AfterExecute_def fs_CloseFd_def Let_def split: if_splits)

lemma cd_Pre_frame:
  "cd_PreExecute env cfg cd w = (DUMP_OK, cd', w') \<Longrightarrow> needLoop cd' = (c_loop cfg = LOOP) \<and> (cd_fp cd \<noteq> None \<longrightarrow> cd_fp cd' = cd_fp cd)"
  by (auto simp: cd_PreExecute_def Let_def split: if_splits option.splits)

lemma file_run_more:
  assumes "exec_good cfg (FileExec fs)" "c_loop cfg = LOOP" "fs_PreExecute env cfg fs w = (DUMP_OK, fs1, w1)"
    "fs_Execute env fs1 w1 = (st, fs2, w2)" "st = DUMP_OK \<or> st = DUMP_MORE_DATA" "fs_AfterExecute cfg fs2 = (DUMP_MORE_DATA, fs3)"
  shows "next_file_index fs3 > 0 \<and> (next_file_index fs > 0 \<longrightarrow> fs_remaining env fs3 < fs_remaining env fs)"
proof -
  from assms(1) have g: "next_file_index fs > 0 \<longrightarrow> need_loop fs = (c_loop cfg = LOOP)" by simp
  from fs_Pre_frame [OF assms(3) g] assms(2)
  have p: "need_loop fs1" "next_file_index fs > 0 \<longrightarrow> fs1 = fs" "next_file_index fs1 > 0" by auto
  with assms(4) have r: "ReadLineInFile env fs1 w1 = (st, fs2, w2)" by (simp add: fs_Execute_def)
  from fs_After_frame [OF assms(6)] have a: "fs3 = fs2" "more_data fs2" by auto
  from ReadLineInFile_frame [OF r] a assms(5) have "st = DUMP_MORE_DATA" by auto
  with ReadLineInFile_shrinks [of env fs1 w1] ReadLineInFile_frame [OF r] p a r show ?thesis by auto
qed

lemma cmd_run_more:
  assumes "c_loop cfg = LOOP" "cd_PreExecute env cfg cd w = (DUMP_OK, cd1, w1)" "cd_Execute env cd1 w1 = (st, cd2, w2)"
    "st = DUMP_OK \<or> st = DUMP_MORE_DATA" "cd_AfterExecute cd2 = (DUMP_MORE_DATA, cd3)"
  shows "cd_fp cd3 \<noteq> None \<and> (cd_fp cd \<noteq> None \<longrightarrow> stream_size (cd_fp cd3) < stream_size (cd_fp cd))"
proof -
  from cd_Pre_frame [OF assms(2)] assms(1) have p: "needLoop cd1" "cd_fp cd \<noteq> None \<longrightarrow> cd_fp cd1 = cd_fp cd" by auto
  with assms(3) have r: "ReadLineInCmd cd1 w1 = (st, cd2, w2)" by (simp add: cd_Execute_def)
  from assms(5) have a: "cd3 = cd2" "moreData cd2" by (auto simp: cd_AfterExecute_def split: if_splits)
  from r a assms(4) have "st = DUMP_MORE_DATA" "cd_fp cd2 \<noteq> None"
    by (auto simp: ReadLineInCmd_def split: option.splits prod.splits)
  with ReadLineInCmd_shrinks [of cd1 w1] p a r show ?thesis by auto
qed

lemmas exec_op_defs = DoPreExecute_def DoExecute_def DoAfterExecute_def

definition started :: "exec_obj \<Rightarrow> bool" where
  "started ob \<longleftrightarrow> (\<forall>fs. eo_exec ob = FileExec fs \<longrightarrow> next_file_index fs > 0)"

lemma obj_pre_keeps:
  "DoPreExecute env ob w = (st, ob', w') \<Longrightarrow> obj_good ob
    \<Longrightarrow> obj_good ob' \<and> eo_cfg ob' = eo_cfg ob \<and> (st = DUMP_OK \<longrightarrow> started ob')"
  by (auto simp: DoPreExecute_def obj_good_def started_def split: executor.splits prod.splits dest: fs_Pre_frame)

lemma status_facts:
  "jsheap_Execute env w = (st, w') \<Longrightarrow> st \<noteq> DUMP_MORE_DATA" "cjheap_Execute env w = (st, w') \<Longrightarrow> st \<noteq> DUMP_MORE_DATA"
  "heap_Execute env hm w = (st, hm', w') \<Longrightarrow> hm_status hm' \<noteq> DUMP_MORE_DATA"
  "mem_Execute env old w = (st, w') \<Longrightarrow> old \<noteq> DUMP_MORE_DATA \<Longrightarrow> st \<noteq> DUMP_MORE_DATA"
  using mem_Execute_status [of env old w]
  by (auto simp: jsheap_Execute_def cjheap_Execute_def heap_Execute_def Let_def split: prod.splits if_splits)

lemma obj_exec_keeps:
  "DoExecute env ob w = (st, ob', w') \<Longrightarrow> obj_good ob \<Longrightarrow> started ob \<Longrightarrow> obj_good ob' \<and> eo_cfg ob' = eo_cfg ob"
  by (auto simp: DoExecute_def obj_good_def started_def split: executor.splits prod.splits dest: status_facts fs_Execute_frame)

lemma obj_after_keeps: "DoAfterExecute env ob w = (st, ob', w') \<Longrightarrow> obj_good ob \<Longrightarrow> obj_good ob' \<and> eo_cfg ob' = eo_cfg ob"
  by (auto simp: DoAfterExecute_def obj_good_def split: executor.splits prod.splits dest: fs_After_frame)

lemma after_more:
  "DoAfterExecute env ob w = (DUMP_MORE_DATA, ob', w') \<Longrightarrow> obj_good ob
    \<Longrightarrow> (\<exists>fs. eo_exec ob = FileExec fs) \<or> (\<exists>cd. eo_exec ob = CmdExec cd)"
  by (cases "eo_exec ob") (simp_all add: DoAfterExecute_def obj_good_def heap_AfterExecute_def)

lemma exec_kind:
  "DoExecute env ob w = (st, ob', w') \<Longrightarrow> eo_exec ob' = FileExec fs \<Longrightarrow> \<exists>fs0. eo_exec ob = FileExec fs0"
  "DoExecute env ob w = (st, ob', w') \<Longrightarrow> eo_exec ob' = CmdExec cd \<Longrightarrow> \<exists>cd0. eo_exec ob = CmdExec cd0"
  by (cases "eo_exec ob", auto simp: DoExecute_def split: prod.splits)+

lemma pre_kind:
  "DoPreExecute env ob w = (st, ob', w') \<Longrightarrow> eo_exec ob' = FileExec fs \<Longrightarrow> \<exists>fs0. eo_exec ob = FileExec fs0"
  "DoPreExecute env ob w = (st, ob', w') \<Longrightarrow> eo_exec ob' = CmdExec cd \<Longrightarrow> \<exists>cd0. eo_exec ob = CmdExec cd0"
  by (cases "eo_exec ob", auto simp: DoPreExecute_def split: prod.splits)+

lemma obj_run_more:
  assumes "obj_good ob" "CanLoop (c_loop (eo_cfg ob))" and p: "DoPreExecute env ob w = (DUMP_OK, ob1, w1)"
    and e: "DoExecute env ob1 w1 = (st, ob2, w2)" "st = DUMP_OK \<or> st = DUMP_MORE_DATA"
    and a: "DoAfterExecute env ob2 w2 = (DUMP_MORE_DATA, ob3, w3)"
  shows "obj_resumable ob3 \<and> (obj_resumable ob \<longrightarrow> obj_left env ob3 < obj_left env ob)"
proof -
  have l: "c_loop (eo_cfg ob) = LOOP" using assms(1,2) by (auto simp: obj_good_def CanLoop_def)
  have k: "obj_good ob2" "eo_cfg ob1 = eo_cfg ob" "eo_cfg ob2 = eo_cfg ob"
    using obj_pre_keeps [OF p assms(1)] obj_exec_keeps [OF e(1)] by auto
  from after_more [OF a k(1)] show ?thesis
  proof (elim disjE exE)
    fix fs2 assume f2: "eo_exec ob2 = FileExec fs2"
    obtain fs1 where f1: "eo_exec ob1 = FileExec fs1" using exec_kind(1) [OF e(1) f2] by blast
    obtain fs where f: "eo_exec ob = FileExec fs" using pre_kind(1) [OF p f1] by blast
    obtain fs3 where a': "fs_AfterExecute (eo_cfg ob) fs2 = (DUMP_MORE_DATA, fs3)" and f3: "eo_exec ob3 = FileExec fs3"
      using a f2 k by (auto simp: DoAfterExecute_def split: prod.splits)
    have p': "fs_PreExecute env (eo_cfg ob) fs w = (DUMP_OK, fs1, w1)"
      using p f f1 by (auto simp: DoPreExecute_def split: prod.splits)
    have e': "fs_Execute env fs1 w1 = (st, fs2, w2)" using e(1) f1 f2 by (auto simp: DoExecute_def split: prod.splits)
    have "exec_good (eo_cfg ob) (FileExec fs)" using assms(1) f by (simp add: obj_good_def)
    from file_run_more [OF this l p' e' e(2) a'] show ?thesis by (simp add: obj_resumable_def obj_left_def f f3)
  next
    fix cd2 assume c2: "eo_exec ob2 = CmdExec cd2"
    obtain cd1 where c1: "eo_exec ob1 = CmdExec cd1" using exec_kind(2) [OF e(1) c2] by blast
    obtain cd where c: "eo_exec ob = CmdExec cd" using pre_kind(2) [OF p c1] by blast
    obtain cd3 where a': "cd_AfterExecute cd2 = (DUMP_MORE_DATA, cd3)" and c3: "eo_exec ob3 = CmdExec cd3"
      using a c2 by (auto simp: DoAfterExecute_def split: prod.splits)
    have p': "cd_PreExecute env (eo_cfg ob) cd w = (DUMP_OK, cd1, w1)"
      using p c c1 by (auto simp: DoPreExecute_def split: prod.splits)
    have e': "cd_Execute env cd1 w1 = (st, cd2, w2)" using e(1) c1 c2 by (auto simp: DoExecute_def split: prod.splits)
    from cmd_run_more [OF l p' e' e(2) a'] show ?thesis by (simp add: obj_resumable_def obj_left_def c c3)
  qed
qed

interpretation program: streaming "executor_ops env" obj_good obj_resumable "obj_left env" for env
proof
  fix ob opts w ret ob' w'
  assume g: "obj_good ob" and r: "run_executor (executor_ops env) opts ob w = (ret, ob', w')"
  then show "obj_good ob' \<and> op_cfg (executor_ops env) ob' = op_cfg (executor_ops env) ob"
    by (auto simp: run_executor_def executor_ops_def split: prod.splits if_splits
        dest!: obj_pre_keeps obj_exec_keeps obj_after_keeps)
next
  fix ob opts w ob' w'
  assume "obj_good ob" and "run_executor (executor_ops env) opts ob w = (Some DUMP_MORE_DATA, ob', w')"
    and "CanLoop (c_loop (op_cfg (executor_ops env) ob))"
  then show "obj_resumable ob' \<and> (obj_resumable ob \<longrightarrow> obj_left env ob' < obj_left env ob)"
    by (auto simp: run_executor_def executor_ops_def split: prod.splits if_splits dest: obj_run_more)
qed

section \<open>The executor list of a configuration\<close>

definition built :: "exec_obj list \<times> nat option \<times> nat list \<Rightarrow> bool" where
  "built st \<longleftrightarrow> (case st of (objs, ptrOutput, executors) \<Rightarrow>
     list_all obj_good objs \<and> list_all (\<lambda>r. r < length objs) executors
     \<and> (\<forall>r. ptrOutput = Some r \<longrightarrow> r < length objs \<and> c_class (eo_cfg (objs ! r)) = FD_OUTPUT \<and> (\<exists>fo zo. eo_exec (objs ! r) \<in> {FdExec fo, ZipExec zo}))
     \<and> (\<forall>p < length executors. \<forall>q < length executors. p \<noteq> q \<and> executors ! p = executors ! q \<longrightarrow> ptrOutput = Some (executors ! p)))"

lemma CreateExecutor_good: "CreateExecutor hiview cls = Some e \<Longrightarrow> exec_good cfg e"
  by (auto simp: CreateExecutor_def FileStreamDumper_new_def HeapMemoryDumper_new_def split: if_splits)

lemma built_snoc:
  assumes "built (objs, out, executors)" "obj_good ob"
    and "out' = out \<or> out = None \<and> out' = Some (length objs) \<and> c_class (eo_cfg ob) = FD_OUTPUT \<and> (\<exists>fo zo. eo_exec ob \<in> {FdExec fo, ZipExec zo})"
  shows "built (objs @ [ob], out', executors @ [length objs])"
proof -
  have "executors ! p \<noteq> length objs" "length objs \<noteq> executors ! p" if "p < length executors" for p
    using assms(1) that by (auto simp: built_def list_all_length)
  moreover have "list_all (\<lambda>r. r < length (objs @ [ob])) (executors @ [length objs])"
    using assms(1) by (auto simp: built_def list_all_iff)
  ultimately show ?thesis
    using assms by (auto simp: built_def nth_append less_Suc_eq)
qed

lemma built_output:
  assumes "built (objs, Some r, executors)" "c_class cfg = FD_OUTPUT" "c_loop cfg \<in> {NONE, LOOP}"
  shows "built (objs[r := (objs ! r)\<lparr>eo_cfg := cfg\<rparr>], Some r, executors @ [r])"
proof -
  obtain fo zo where k: "eo_exec (objs ! r) \<in> {FdExec fo, ZipExec zo}" and r: "r < length objs"
    using assms(1) by (auto simp: built_def)
  have "obj_good ((objs ! r)\<lparr>eo_cfg := cfg\<rparr>)" using assms(3) k by (auto simp: obj_good_def)
  then have "list_all obj_good (objs[r := (objs ! r)\<lparr>eo_cfg := cfg\<rparr>])"
    using assms(1) by (auto simp: built_def list_all_iff dest!: subsetD [OF set_update_subset_insert])
  then show ?thesis
    using assms k r by (auto simp: built_def nth_append less_Suc_eq)
qed

lemma set_executors_built:
  "built st \<Longrightarrow> list_all (\<lambda>c. c_loop c \<in> {NONE, LOOP}) cfgs \<Longrightarrow> built (set_executors hiview isZip cfgs st)"
proof (induction hiview isZip cfgs st rule: set_executors.induct)
  case (1 hiview isZip st)
  then show ?case by simp
next
  case (2 hiview isZip cfg cfgs objs out executors)
  have l: "c_loop cfg \<in> {NONE, LOOP}" "list_all (\<lambda>c. c_loop c \<in> {NONE, LOOP}) cfgs" using 2(6) by simp_all
  show ?case
  proof (cases "c_class cfg = FD_OUTPUT")
    case True
    show ?thesis
    proof (cases out)
      case None
      have "built (objs @ [\<lparr>eo_cfg = cfg, eo_exec = CreateOutput isZip\<rparr>], Some (length objs), executors @ [length objs])"
        using l True None by (intro built_snoc [OF 2(5)]) (auto simp: obj_good_def CreateOutput_def)
      from 2(1) [OF True None this l(2)] True None show ?thesis by simp
    next
      case (Some r)
      with 2(5) True l have "built (objs[r := (objs ! r)\<lparr>eo_cfg := cfg\<rparr>], Some r, executors @ [r])"
        by (intro built_output) auto
      from 2(2) [OF True Some this l(2)] True Some show ?thesis by simp
    qed
  next
    case False
    show ?thesis
    proof (cases "CreateExecutor hiview (c_class cfg)")
      case None
      from 2(3) [OF False None 2(5) l(2)] False None show ?thesis by simp
    next
      case (Some e)
      then have "built (objs @ [\<lparr>eo_cfg = cfg, eo_exec = e\<rparr>], out, executors @ [length objs])"
        using l by (intro built_snoc [OF 2(5)]) (auto simp: obj_good_def intro: CreateExecutor_good)
      from 2(4) [OF False Some this l(2)] False Some show ?thesis by simp
    qed
  qed
qed

lemma setExecutorList_ok:
  assumes "list_all (\<lambda>c. c_loop c \<in> {NONE, LOOP}) cfgs" "setExecutorList hiview isZip cfgs = (objs, executors)"
  shows "program.shared_ok env executors objs" "list_all obj_good objs"
proof -
  have b0: "built ([], None, [])" by (simp add: built_def)
  from assms(2) obtain out where "set_executors hiview isZip cfgs ([], None, []) = (objs, out, executors)"
    by (auto simp: setExecutorList_def split: prod.splits)
  with set_executors_built [OF b0 assms(1), of hiview isZip] have b: "built (objs, out, executors)" by simp
  then show "list_all obj_good objs" by (simp add: built_def)
  show "program.shared_ok env executors objs"
    unfolding program.shared_ok_def using b by (auto simp: built_def list_all_length executor_ops_def IsOutput_def)
qed

section \<open>Loop flags of the configuration\<close>

definition loops_ok :: "cfg_tree list \<Rightarrow> bool" where
  "loops_ok ts \<longleftrightarrow> (\<forall>t \<in> set ts. \<forall>c \<in> set (nodes t). c_loop c \<in> {NONE, LOOP})"

lemma dumpers_loops: "list_all (\<lambda>d. list_all (\<lambda>i. i_loop i \<in> {NONE, LOOP}) (d_list d)) dumpers"
  by code_simp

lemma GetDumper_loops:
  assumes "c \<in> set (snd (GetDumper name [] args level))"
  shows "c_loop c \<in> {NONE, LOOP}"
proof -
  define i where "i = find_index_from 0 name (map d_name dumpers)"
  from assms have i: "0 \<le> i" "i < int (length dumpers)" and "c \<in> item_to_cfg args ` set (d_list (dumpers ! nat i))"
    by (auto simp: GetDumper_def GetDumper_index_def Let_def i_def [symmetric] split: if_splits)
  then obtain x where x: "x \<in> set (d_list (dumpers ! nat i))" "c = item_to_cfg args x" by blast
  have "dumpers ! nat i \<in> set dumpers" using i by simp
  with x(1) dumpers_loops have "i_loop x \<in> {NONE, LOOP}" unfolding list_all_iff by blast
  then show ?thesis by (simp add: x(2) item_to_cfg_def)
qed

interpretation loop_tree: tree_property uid "\<lambda>_. True" loops_ok for uid
  by unfold_locales (auto simp: loops_ok_def group_cfg_def DumpCfg_Create_def dest: GetDumper_loops)

lemma nodes_section_loop: "c_loop ` set (nodes (set_section s k t)) = c_loop ` set (nodes t)"
  by (induction s k t rule: set_section.induct) (auto simp: image_UN)

lemma flat_loops:
  assumes "loops_ok ts"
  shows "list_all (\<lambda>e. c_loop (snd e) \<in> {NONE, LOOP}) (flat_list n b p (SetSection ts s))"
  unfolding list_all_iff
proof
  fix e assume "e \<in> set (flat_list n b p (SetSection ts s))"
  then obtain t where t: "t \<in> set ts" "snd e \<in> set (nodes (set_section s 0 t))"
    using flat_nodes(2) [of n b p "SetSection ts s"] by (fastforce simp: SetSection_def)
  have "c_loop (snd e) \<in> c_loop ` set (nodes t)"
    using imageI [OF t(2), of c_loop] unfolding nodes_section_loop .
  then obtain x where "x \<in> set (nodes t)" "c_loop (snd e) = c_loop x" by blast
  with t(1) assms show "c_loop (snd e) \<in> {NONE, LOOP}" unfolding loops_ok_def by metis
qed

interpretation loops: list_invariant "\<lambda>_ cfgs. list_all (\<lambda>e. c_loop (snd e) \<in> {NONE, LOOP}) cfgs"
proof
  fix cu :: ConfigUtils and cfgs :: "flat_cfg list" and args name
  assume c: "list_all (\<lambda>e. c_loop (snd e) \<in> {NONE, LOOP}) cfgs"
  have d: "list_all (\<lambda>e. c_loop (snd e) \<in> {NONE, LOOP}) (map (\<lambda>c. (None, c)) (snd (GetDumper name [] args NONE)))"
    using GetDumper_loops by (auto simp: list_all_iff)
  have "loops_ok (snd (group_named cu name args NONE 0))" by (rule loop_tree.R_named [OF TrueI refl])
  note g = flat_loops [OF this, of 0 "length cfgs" None "GetSectionName name"]
  show "list_all (\<lambda>e. c_loop (snd e) \<in> {NONE, LOOP}) (add cu args name cfgs)"
    using c d g by (auto simp: add_def GetConfig_def GetGroup_def ConvertTreeToList_def split: prod.splits)
qed simp

end
