(* ===== verification/Stream_Facts.thy ===== *)
theory Stream_Facts
  imports Executor_Facts
begin

text \<open>
  What a file dumper prints. \<open>report\<close> is the specification: for each file a blank line, its name, a
  blank line and its lines. A file is read either at once or one line per round of the executor
  loop; both ways print the report.
\<close>

section \<open>The report\<close>

definition shown_lines :: "('e file_env_scheme) \<Rightarrow> FileStreamDumper \<Rightarrow> string \<Rightarrow> matrix" where
  "shown_lines env fs content = map (\<lambda>l. [hide_address env fs l]) (text_lines content)"

definition file_block :: "('e file_env_scheme) \<Rightarrow> FileStreamDumper \<Rightarrow> string \<Rightarrow> matrix" where
  "file_block env fs name =
    [[[]], [name], [[]]] @ (case open_read env name of None \<Rightarrow> [] | Some s \<Rightarrow> shown_lines env fs (st_rest s))"

definition left_report :: "('e file_env_scheme) \<Rightarrow> FileStreamDumper \<Rightarrow> matrix" where
  "left_report env fs =
    (case fs_fp fs of None \<Rightarrow> [] | Some s \<Rightarrow> shown_lines env fs (st_rest s))
    @ concat (map (file_block env fs) (drop (next_file_index fs) (filenames fs)))"

definition readable :: "('e file_env_scheme) \<Rightarrow> string \<Rightarrow> bool" where
  "readable env name \<longleftrightarrow> (case open_read env name of None \<Rightarrow> False | Some s \<Rightarrow> \<not> st_error s \<and> \<not> st_eof s)"

definition fs_ok :: "('e file_env_scheme) \<Rightarrow> FileStreamDumper \<Rightarrow> bool" where
  "fs_ok env fs \<longleftrightarrow> list_all (readable env) (drop (next_file_index fs) (filenames fs))
     \<and> (case fs_fp fs of None \<Rightarrow> False | Some s \<Rightarrow> \<not> st_error s \<and> \<not> st_eof s)"

lemma shown_cong [simp]:
  "shown_lines env (fs\<lparr>fs_fp := fp\<rparr>) = shown_lines env fs" "shown_lines env (fs\<lparr>next_file_index := n\<rparr>) = shown_lines env fs"
  "shown_lines env (fs\<lparr>more_data := b\<rparr>) = shown_lines env fs"
  by (auto simp: fun_eq_iff shown_lines_def hide_address_def)

lemma block_cong [simp]:
  "file_block env (fs\<lparr>fs_fp := fp\<rparr>) = file_block env fs" "file_block env (fs\<lparr>next_file_index := n\<rparr>) = file_block env fs"
  "file_block env (fs\<lparr>more_data := b\<rparr>) = file_block env fs"
  by (simp_all add: fun_eq_iff file_block_def split: option.split)

lemma more_data_report [simp]: "left_report env (fs\<lparr>more_data := b\<rparr>) = left_report env fs" "fs_ok env (fs\<lparr>more_data := b\<rparr>) = fs_ok env fs"
  by (simp_all add: left_report_def fs_ok_def split: option.split)

lemma push_line_simps [simp]:
  "w_matrix (push_line l w) = w_matrix w @ [l]" "w_out (push_line l w) = w_out w" "w_raw (push_line l w) = w_raw w"
  by (simp_all add: push_line_def)

text \<open>Moving to the next file.\<close>

lemma OpenNextFile_report:
  assumes "list_all (readable env) (drop (next_file_index fs) (filenames fs))" "OpenNextFile env fs w = (r, fs', w')"
  shows "r \<ge> 0 \<and> w_matrix w @ concat (map (file_block env fs) (drop (next_file_index fs) (filenames fs))) = w_matrix w' @ left_report env fs'
    \<and> (r > 0 \<longrightarrow> fs_ok env fs') \<and> (r = 0 \<longrightarrow> left_report env fs' = []) \<and> w_out w' = w_out w \<and> w_raw w' = w_raw w"
proof (cases "next_file_index fs \<ge> length (filenames fs)")
  case True
  with assms(2) show ?thesis by (auto simp: OpenNextFile_def Let_def fs_CloseFd_def left_report_def)
next
  case False
  define name where "name = filenames fs ! next_file_index fs"
  have d: "drop (next_file_index fs) (filenames fs) = name # drop (Suc (next_file_index fs)) (filenames fs)"
    using False by (simp add: name_def Cons_nth_drop_Suc)
  with assms(1) obtain s where s: "open_read env name = Some s" "\<not> st_error s" "\<not> st_eof s"
    by (auto simp: readable_def split: option.splits)
  with assms False d show ?thesis
    by (auto simp: OpenNextFile_def Let_def fs_CloseFd_def left_report_def fs_ok_def name_def [symmetric] file_block_def)
qed

text \<open>Reading a line moves it from what is left to the matrix.\<close>

lemma chomp_line [simp]: "chomp (l @ [CHR 0x0A]) = c_str l"
  by (simp add: chomp_def)

lemma chomp_tail: "CHR 0x0A \<notin> set l \<Longrightarrow> chomp l = c_str l"
  by (auto simp: chomp_def dest: last_in_set)

lemma text_lines_simps:
  "CHR 0x0A \<notin> set l \<Longrightarrow> text_lines (l @ CHR 0x0A # r) = c_str l # text_lines r"
  "CHR 0x0A \<notin> set l \<Longrightarrow> l \<noteq> [] \<Longrightarrow> text_lines l = [c_str l]" "text_lines [] = []"
  by (simp_all add: text_lines_def split_lines_line split_lines_none)

lemma ReadLineInFile_report:
  assumes ok: "fs_ok env fs" and r: "ReadLineInFile env fs w = (st, fs', w')"
  shows "w_matrix w @ left_report env fs = w_matrix w' @ left_report env fs' \<and> w_out w' = w_out w \<and> w_raw w' = w_raw w
    \<and> (st = DUMP_MORE_DATA \<and> fs_ok env fs' \<and> more_data fs' \<or> st = DUMP_OK \<and> left_report env fs' = [] \<and> \<not> more_data fs')"
proof -
  from ok obtain s where s: "fs_fp fs = Some s" "\<not> st_error s" "\<not> st_eof s"
    and files: "list_all (readable env) (drop (next_file_index fs) (filenames fs))" by (auto simp: fs_ok_def split: option.splits)
  have next_file: ?thesis
    if g: "getline s = (line, s')" "st_eof s'" and w1: "w1 = (case line of Some l \<Rightarrow> push_line [hide_address env fs (chomp l)] w | None \<Rightarrow> w)"
      and ls: "w_matrix w @ shown_lines env fs (st_rest s) = w_matrix w1" for line s' w1
  proof -
    obtain more_file fs2 w2 where o: "OpenNextFile env (fs\<lparr>fs_fp := Some s'\<rparr>) w1 = (more_file, fs2, w2)" by (metis prod_cases3)
    have "list_all (readable env) (drop (next_file_index (fs\<lparr>fs_fp := Some s'\<rparr>)) (filenames (fs\<lparr>fs_fp := Some s'\<rparr>)))"
      using files by simp
    note rep = OpenNextFile_report [OF this o, simplified]
    have res: "(st, fs', w') = (if more_file > 0 then DUMP_MORE_DATA else if more_file = 0 then DUMP_OK else DUMP_FAIL,
        fs2\<lparr>more_data := (more_file > 0)\<rparr>, w2)"
      using r s g o by (auto simp: ReadLineInFile_def Let_def w1 [symmetric])
    have out: "w_out w1 = w_out w" "w_raw w1 = w_raw w" by (simp_all add: w1 split: option.splits)
    show ?thesis
      using rep res ls out by (auto simp: left_report_def [of env fs] s(1) simp flip: append_assoc)
  qed
  from s(2) show ?thesis
  proof (cases rule: getline_cases)
    case (line l rest)
    then show ?thesis
      using r s files ok
      by (auto simp: ReadLineInFile_def Let_def left_report_def shown_lines_def text_lines_simps fs_ok_def hide_address_def)
  next
    case (tail l)
    then show ?thesis using chomp_tail [OF tail(1)] by (intro next_file) (auto simp: shown_lines_def text_lines_simps)
  next
    case eof
    then show ?thesis by (intro next_file) (auto simp: shown_lines_def text_lines_simps)
  qed
qed

lemma read_all_lines_report:
  assumes "\<And>n. \<not> cancel_at env n"
  shows "fs_ok env fs \<Longrightarrow> read_all_lines env ret fs w = (st, fs', w') \<Longrightarrow>
    st = DUMP_OK \<and> w_matrix w' = w_matrix w @ left_report env fs \<and> w_out w' = w_out w \<and> w_raw w' = w_raw w \<and> \<not> more_data fs'"
proof (induction "fs_remaining env fs" arbitrary: ret fs w rule: less_induct)
  case less
  define w1 where "w1 = snd (IsCanceled env w)"
  have c: "IsCanceled env w = (False, w1)" using assms by (simp add: w1_def IsCanceled_def)
  have w1: "w_matrix w1 = w_matrix w" "w_out w1 = w_out w" "w_raw w1 = w_raw w" by (simp_all add: w1_def IsCanceled_def)
  obtain r2 fs2 w2 where rl: "ReadLineInFile env fs w1 = (r2, fs2, w2)" by (metis prod_cases3)
  note rep = ReadLineInFile_report [OF less(2) rl]
  show ?case
  proof (cases "r2 = DUMP_MORE_DATA")
    case True
    from less(3) True have again: "read_all_lines env r2 fs2 w2 = (st, fs', w')"
      by (subst (asm) read_all_lines.simps) (simp add: c rl)
    have "fs_remaining env fs2 < fs_remaining env fs" using ReadLineInFile_shrinks rl True by metis
    from less(1) [OF this _ again] rep True show ?thesis by (auto simp: w1)
  next
    case False
    with less(3) rep show ?thesis by (subst (asm) read_all_lines.simps) (auto simp: c rl w1)
  qed
qed

section \<open>Rounds of the loop\<close>

text \<open>A file dumper and its output, with nothing that disturbs them.\<close>

definition stream_pair :: "DumpCfg \<Rightarrow> FileStreamDumper \<Rightarrow> DumpCfg \<Rightarrow> exec_obj list" where
  "stream_pair cfg fs ocfg = [\<lparr>eo_cfg = cfg, eo_exec = FileExec fs\<rparr>, \<lparr>eo_cfg = ocfg, eo_exec = FdExec FDOutput_new\<rparr>]"

definition undisturbed :: "exec_env \<Rightarrow> DumpCfg \<Rightarrow> DumpCfg \<Rightarrow> bool" where
  "undisturbed env cfg ocfg \<longleftrightarrow> (\<forall>n. \<not> cancel_at env n) \<and> x_outputFilePath env = []
     \<and> c_class cfg = FILE_DUMPER \<and> c_loop cfg \<in> {NONE, LOOP} \<and> c_class ocfg = FD_OUTPUT"

definition quiet :: "exec_world \<Rightarrow> bool" where
  "quiet w \<longleftrightarrow> \<not> rp_progressEnabled (w_raw w) \<and> rp_outfd (w_raw w) > -1"

definition title_lines :: "DumperOpts \<Rightarrow> string \<Rightarrow> string \<Rightarrow> matrix" where
  "title_lines opts lastName curName =
    (if CheckGroupName lastName curName
     then w_matrix (AddGroupTitle opts curName \<lparr>w_matrix = [], w_out = [], w_file = [], w_raw = undefined, w_tick = 0, w_calls = []\<rparr>)
     else [])"

lemma AddGroupTitle_matrix:
  "w_matrix (if CheckGroupName g s then AddGroupTitle opts s w else w) = w_matrix w @ title_lines opts g s"
  "w_out (if CheckGroupName g s then AddGroupTitle opts s w else w) = w_out w"
  "w_raw (if CheckGroupName g s then AddGroupTitle opts s w else w) = w_raw w"
  by (auto simp: title_lines_def AddGroupTitle_def)

lemma update_progress_quiet: "quiet w \<Longrightarrow> update_progress n i w = w"
  by (simp add: quiet_def update_progress_def UpdateProgress_def)

lemma file_kind: "undisturbed env cfg ocfg \<Longrightarrow> IsDumper (c_class cfg) \<and> \<not> IsOutput (c_class cfg) \<and> c_class cfg \<noteq> GROUP
    \<and> \<not> IsDumper (c_class ocfg) \<and> IsOutput (c_class ocfg)"
  by (simp add: undisturbed_def IsDumper_def IsOutput_def)

lemma dumper_step:
  assumes u: "undisturbed env cfg ocfg" and q: "quiet (ls_world ls)"
    and ls: "ls_objs ls = stream_pair cfg fs ocfg" "ls_index ls = 0" "ls_stack ls = []"
    and w2: "w2 = (if CheckGroupName (ls_group ls) (c_section cfg) then AddGroupTitle (x_opts env) (c_section cfg)
        w1 else w1)"
    and w1: "w1 = snd (IsCanceled env (ls_world ls))" and p: "fs_PreExecute env cfg fs w2 = (DUMP_OK, fs1, w3)" and e: "fs_Execute env fs1 w3 = (st, fs2, w4)"
    and st: "st = DUMP_OK \<or> st = DUMP_MORE_DATA" and a: "fs_AfterExecute cfg fs2 = (st', fs3)"
  shows "\<exists>ls'. dump_step (executor_ops env) env [0, 1] ls = (True, ls') \<and> ls_objs ls' = stream_pair cfg fs3 ocfg
    \<and> ls_world ls' = w4 \<and> ls_index ls' = 1 \<and> ls_stack ls' = (if c_loop cfg = LOOP \<and> st' = DUMP_MORE_DATA then [0] else [])
    \<and> (c_section cfg \<noteq> [] \<longrightarrow> ls_group ls' = c_section cfg)"
proof -
  have "run_executor (executor_ops env) (x_opts env) \<lparr>eo_cfg = cfg, eo_exec = FileExec fs\<rparr> w2
      = (Some st', \<lparr>eo_cfg = cfg, eo_exec = FileExec fs3\<rparr>, w4)"
    using p e st a by (auto simp: run_executor_def executor_ops_def exec_op_defs)
  moreover have "CanLoop (c_loop cfg) = (c_loop cfg = LOOP)" using u by (auto simp: undisturbed_def CanLoop_def)
  moreover have "IsCanceled env (ls_world ls) = (False, w1)" using u by (simp add: w1 undisturbed_def IsCanceled_def)
  moreover have "op_cfg (executor_ops env) = eo_cfg" by (simp add: executor_ops_def)
  ultimately show ?thesis
    using file_kind [OF u] ls q w2
    by (auto simp: dump_step_def Let_def stream_pair_def update_progress_quiet CheckGroupName_def)
qed

lemma output_step:
  assumes u: "undisturbed env cfg ocfg" and q: "quiet (ls_world ls)"
    and ls: "ls_objs ls = stream_pair cfg fs ocfg" "ls_index ls = 1"
  shows "\<exists>ls'. dump_step (executor_ops env) env [0, 1] ls = (True, ls') \<and> ls_objs ls' = stream_pair cfg fs ocfg
    \<and> w_matrix (ls_world ls') = [] \<and> w_raw (ls_world ls') = w_raw (ls_world ls)
    \<and> w_out (ls_world ls') = w_out (ls_world ls) @ concat (map line_items (w_matrix (ls_world ls)))
    \<and> ls_index ls' = (if ls_stack ls \<noteq> [] then last (ls_stack ls) else 2) \<and> ls_stack ls' = [] \<and> ls_group ls' = ls_group ls"
proof -
  define w1 where "w1 = snd (IsCanceled env (ls_world ls))"
  have c: "IsCanceled env (ls_world ls) = (False, w1)" using u by (simp add: w1_def undisturbed_def IsCanceled_def)
  have w1: "w_matrix w1 = w_matrix (ls_world ls)" "w_out w1 = w_out (ls_world ls)" "w_raw w1 = w_raw (ls_world ls)"
    by (simp_all add: w1_def IsCanceled_def)
  have "fo_PreExecute env (x_outputFilePath env) FDOutput_new = (DUMP_OK, FDOutput_new)"
    using u by (simp add: fo_PreExecute_def FDOutput_new_def undisturbed_def)
  then have "run_executor (executor_ops env) (x_opts env) \<lparr>eo_cfg = ocfg, eo_exec = FdExec FDOutput_new\<rparr> w1
      = (Some DUMP_OK, \<lparr>eo_cfg = ocfg, eo_exec = FdExec FDOutput_new\<rparr>, clear_matrix (OutMethod FDOutput_new w1))"
    by (simp add: run_executor_def executor_ops_def exec_op_defs fo_Execute_def)
  then show ?thesis
    using file_kind [OF u] ls q w1 c
    by (auto simp: dump_step_def Let_def stream_pair_def update_progress_quiet executor_ops_def OutMethod_eq clear_matrix_def quiet_def FDOutput_new_def)
qed

text \<open>A round: the dumper, then the output, then back to the dumper when it has more.\<close>

lemma stream_round:
  assumes u: "undisturbed env cfg ocfg" and q: "quiet (ls_world ls)"
    and ls: "ls_objs ls = stream_pair cfg fs ocfg" "ls_index ls = 0" "ls_stack ls = []"
    and w2: "w2 = (if CheckGroupName (ls_group ls) (c_section cfg) then AddGroupTitle (x_opts env) (c_section cfg) w1 else w1)"
    and w1: "w1 = snd (IsCanceled env (ls_world ls))"
    and p: "fs_PreExecute env cfg fs w2 = (DUMP_OK, fs1, w3)" and e: "fs_Execute env fs1 w3 = (st, fs2, w4)"
    and st: "st = DUMP_OK \<or> st = DUMP_MORE_DATA" and a: "fs_AfterExecute cfg fs2 = (st', fs3)" and r: "w_raw w4 = w_raw (ls_world ls)"
  shows "\<exists>ls'. dump_loop (executor_ops env) env [0, 1] ls = dump_loop (executor_ops env) env [0, 1] ls' \<and> ls_objs ls' = stream_pair cfg fs3 ocfg
    \<and> w_matrix (ls_world ls') = [] \<and> w_raw (ls_world ls') = w_raw (ls_world ls)
    \<and> w_out (ls_world ls') = w_out w4 @ concat (map line_items (w_matrix w4))
    \<and> ls_index ls' = (if c_loop cfg = LOOP \<and> st' = DUMP_MORE_DATA then 0 else 2) \<and> ls_stack ls' = []
    \<and> (c_section cfg \<noteq> [] \<longrightarrow> ls_group ls' = c_section cfg)"
proof -
  from dumper_step [OF u q ls w2 w1 p e st a] obtain ls1 where s1: "dump_step (executor_ops env) env [0, 1] ls = (True, ls1)"
    and l1: "ls_objs ls1 = stream_pair cfg fs3 ocfg" "ls_world ls1 = w4" "ls_index ls1 = 1"
      "ls_stack ls1 = (if c_loop cfg = LOOP \<and> st' = DUMP_MORE_DATA then [0] else [])"
      "c_section cfg \<noteq> [] \<longrightarrow> ls_group ls1 = c_section cfg" by blast
  have "quiet (ls_world ls1)" using q r l1 by (simp add: quiet_def)
  from output_step [OF u this l1(1,3)] obtain ls2 where s2: "dump_step (executor_ops env) env [0, 1] ls1 = (True, ls2)"
    and l2: "ls_objs ls2 = stream_pair cfg fs3 ocfg" "w_matrix (ls_world ls2) = []" "w_raw (ls_world ls2) = w_raw (ls_world ls1)"
      "w_out (ls_world ls2) = w_out (ls_world ls1) @ concat (map line_items (w_matrix (ls_world ls1)))"
      "ls_index ls2 = (if ls_stack ls1 \<noteq> [] then last (ls_stack ls1) else 2)" "ls_stack ls2 = []" "ls_group ls2 = ls_group ls1" by blast
  have "dump_loop (executor_ops env) env [0, 1] ls = dump_loop (executor_ops env) env [0, 1] ls1"
    by (subst dump_loop.simps) (simp add: s1 [simplified] ls)
  also have "\<dots> = dump_loop (executor_ops env) env [0, 1] ls2"
    by (subst dump_loop.simps) (simp add: s2 [simplified] l1)
  finally show ?thesis using l1 l2 r by (intro exI [of _ ls2]) auto
qed

lemma stream_rounds:
  assumes u: "undisturbed env cfg ocfg" and l: "c_loop cfg = LOOP"
  shows "fs_ok env fs \<Longrightarrow> need_loop fs \<Longrightarrow> next_file_index fs > 0 \<Longrightarrow> quiet (ls_world ls) \<Longrightarrow> w_matrix (ls_world ls) = []
    \<Longrightarrow> ls_objs ls = stream_pair cfg fs ocfg \<Longrightarrow> ls_index ls = 0 \<Longrightarrow> ls_stack ls = []
    \<Longrightarrow> (c_section cfg \<noteq> [] \<longrightarrow> ls_group ls = c_section cfg)
    \<Longrightarrow> \<exists>ls' fs'. dump_loop (executor_ops env) env [0, 1] ls = Some ls' \<and> ls_objs ls' = stream_pair cfg fs' ocfg
      \<and> w_out (ls_world ls') = w_out (ls_world ls) @ concat (map line_items (left_report env fs))
      \<and> w_matrix (ls_world ls') = [] \<and> w_raw (ls_world ls') = w_raw (ls_world ls)"
proof (induction "fs_remaining env fs" arbitrary: fs ls rule: less_induct)
  case less
  define w1 where "w1 = snd (IsCanceled env (ls_world ls))"
  have w1: "w_matrix w1 = []" "w_out w1 = w_out (ls_world ls)" "w_raw w1 = w_raw (ls_world ls)"
    using less(6) by (simp_all add: w1_def IsCanceled_def)
  have t: "w1 = (if CheckGroupName (ls_group ls) (c_section cfg) then AddGroupTitle (x_opts env) (c_section cfg) w1 else w1)"
    using less(10) by (auto simp: CheckGroupName_def)
  obtain st fs2 w4 where rl: "ReadLineInFile env fs w1 = (st, fs2, w4)" by (metis prod_cases3)
  note rep = ReadLineInFile_report [OF less(2) rl] and fr = ReadLineInFile_frame [OF rl]
  have p: "fs_PreExecute env cfg fs w1 = (DUMP_OK, fs, w1)" using less(4) by (simp add: fs_PreExecute_def)
  have e: "fs_Execute env fs w1 = (st, fs2, w4)" using less(3) rl by (simp add: fs_Execute_def)
  obtain st' fs3 where a: "fs_AfterExecute cfg fs2 = (st', fs3)" by fastforce
  from stream_round [OF u less(5) less(7,8,9) t w1_def p e _ a] rep w1 obtain ls' where
    eq: "dump_loop (executor_ops env) env [0, 1] ls = dump_loop (executor_ops env) env [0, 1] ls'"
    and l': "ls_objs ls' = stream_pair cfg fs3 ocfg" "w_matrix (ls_world ls') = []" "w_raw (ls_world ls') = w_raw (ls_world ls)"
      "w_out (ls_world ls') = w_out w4 @ concat (map line_items (w_matrix w4))"
      "ls_index ls' = (if st' = DUMP_MORE_DATA then 0 else 2)" "ls_stack ls' = []" "c_section cfg \<noteq> [] \<longrightarrow> ls_group ls' = c_section cfg"
    using l by auto
  show ?case
  proof (cases "st = DUMP_MORE_DATA")
    case True
    then have f3: "fs3 = fs2" "st' = DUMP_MORE_DATA" using rep a by (auto simp: fs_AfterExecute_def)
    have "fs_remaining env fs2 < fs_remaining env fs" using ReadLineInFile_shrinks rl True by metis
    moreover have "quiet (ls_world ls')" using less(5) l' by (simp add: quiet_def)
    ultimately obtain ls2 fs' where "dump_loop (executor_ops env) env [0, 1] ls' = Some ls2 \<and> ls_objs ls2 = stream_pair cfg fs' ocfg
        \<and> w_out (ls_world ls2) = w_out (ls_world ls') @ concat (map line_items (left_report env fs2))
        \<and> w_matrix (ls_world ls2) = [] \<and> w_raw (ls_world ls2) = w_raw (ls_world ls')"
      using less(1) [of fs2 ls'] rep True fr less(3,4) l' f3 by auto
    then show ?thesis using eq rep w1 l' by auto
  next
    case False
    then have "st' \<noteq> DUMP_MORE_DATA" "left_report env fs2 = []" using rep a by (auto simp: fs_AfterExecute_def Let_def split: if_splits)
    moreover from this have "dump_loop (executor_ops env) env [0, 1] ls' = Some ls'" using l' by (subst dump_loop.simps) simp
    ultimately show ?thesis using eq l' rep w1 by auto
  qed
qed

end
