(* ===== verification/Fd_Thread_Facts.thy ===== *)
theory Fd_Thread_Facts
  imports Fd_Thread
begin

text \<open>
  What the descriptor report counts and which counts it shows. The contract of the priority queue is the
  locale \<open>min_heap\<close>; \<open>sorted_env\<close> is an environment that keeps it, with a vector that is sorted.
\<close>

section \<open>Counting\<close>

lemma wf_bump: "wf_map m \<Longrightarrow> wf_map (bump k m)"
  by (simp add: bump_def hd_invs)

lemma map_of_bump:
  "map_of (bump k m) x = (if x = k then Some (case map_of m k of None \<Rightarrow> 1 | Some n \<Rightarrow> n + 1) else map_of m x)"
  by (auto simp: bump_def map_of_modify map_of_emplace map_of_None_iff split: option.splits dest: map_of_Some_key)

lemma count_paths_fold:
  "wf_map m \<Longrightarrow> wf_map (fold (\<lambda>link. bump (key link)) links m)
    \<and> map_of (fold (\<lambda>link. bump (key link)) links m) x
      = (if x \<in> key ` set links then Some ((case map_of m x of None \<Rightarrow> 0 | Some n \<Rightarrow> n) + int (count_list (map key links) x)) else map_of m x)"
proof (induction links arbitrary: m)
  case Nil
  then show ?case by simp
next
  case (Cons a links)
  then have "wf_map (bump (key a) m)" by (simp add: wf_bump)
  from Cons.IH [OF this] show ?case
    by (auto simp: map_of_bump image_iff count_list_0_iff split: option.splits)
qed

lemma CountPaths_counts:
  "wf_map (CountPaths links)"
  "map_of (CountPaths links) x = (if x \<in> set (map path_key links) then Some (int (count_list (map path_key links) x)) else None)"
  using count_paths_fold [of "[]" path_key links x] by (simp_all add: CountPaths_def)

text \<open>Nothing is lost or counted twice.\<close>

lemma sum_modify: "wf_map m \<Longrightarrow> k \<in> set (keys m) \<Longrightarrow> sum_list (map snd (modify k (\<lambda>n. n + 1) m)) = sum_list (map snd m) + (1 :: int)"
proof (induction m)
  case Nil
  then show ?case by simp
next
  case (Cons e m)
  show ?case
  proof (cases "fst e = k")
    case True
    then have "modify k (\<lambda>n. n + 1) m = m" using Cons.prems
      by (auto simp: modify_def keys_def image_iff intro!: map_idI)
    with True show ?thesis by (simp add: modify_def)
  next
    case False
    with Cons show ?thesis by (auto simp: modify_def)
  qed
qed

lemma sum_bump: "wf_map m \<Longrightarrow> sum_list (map snd (bump k m)) = sum_list (map snd m) + (1 :: int)"
  unfolding bump_def by (subst sum_modify) (auto simp: hd_invs keys_emplace, auto simp: emplace_def)

lemma CountPaths_total: "sum_list (map snd (CountPaths links)) = int (length links)"
proof -
  have "wf_map m \<Longrightarrow> sum_list (map snd (fold (\<lambda>link. bump (path_key link)) links m)) = sum_list (map snd m) + int (length links)" for m
    by (induction links arbitrary: m) (simp_all add: wf_bump sum_bump)
  then show ?thesis by (simp add: CountPaths_def)
qed

section \<open>The largest counts\<close>

text \<open>What \<open>std::priority_queue\<close> promises.\<close>

locale min_heap =
  fixes is_heap :: "count_entry list \<Rightarrow> bool" and ce :: count_env
  assumes heap_empty: "is_heap []"
    and push_heap: "is_heap h \<Longrightarrow> is_heap (heap_push ce x h) \<and> mset (heap_push ce x h) = add_mset x (mset h)"
    and top_least: "is_heap h \<Longrightarrow> x \<in> set h \<Longrightarrow> snd (hd h) \<le> snd x"
    and pop_heap: "is_heap h \<Longrightarrow> h \<noteq> [] \<Longrightarrow> is_heap (heap_pop ce h) \<and> mset (heap_pop ce h) = mset h - {#hd h#}"
    and order_perm: "mset (hash_order ce m) = mset m"
begin

text \<open>The queue holds the largest of the entries seen so far.\<close>

definition largest :: "nat \<Rightarrow> count_entry list \<Rightarrow> count_entry multiset \<Rightarrow> bool" where
  "largest n h seen \<longleftrightarrow> is_heap h \<and> mset h \<subseteq># seen \<and> length h = min n (size seen)
     \<and> (\<forall>x \<in># mset h. \<forall>y \<in># seen - mset h. snd y \<le> snd x)"

lemma step_largest:
  assumes l: "largest n h seen" and n: "0 < n"
  shows "largest n (topn_step ce n kv h) (add_mset kv seen)"
proof -
  have h: "is_heap h" "mset h \<subseteq># seen" "length h = min n (size seen)" and rest: "\<And>x y. x \<in># mset h \<Longrightarrow> y \<in># seen - mset h \<Longrightarrow> snd y \<le> snd x"
    using l by (auto simp: largest_def)
  consider (grow) "length h < n" | (swap) "length h = n" "snd kv > snd (hd h)" | (keep) "length h = n" "snd kv \<le> snd (hd h)"
    using h(3) by linarith
  then show ?thesis
  proof cases
    case grow
    with h(3) have "length h = size seen" by simp
    with h(2) have "mset h = seen" by (metis size_mset subset_mset.le_imp_less_or_eq mset_subset_size nat_neq_iff)
    with grow h push_heap [OF h(1), of kv] show ?thesis
      by (auto simp: largest_def topn_step_def size_mset [symmetric] simp del: size_mset)
  next
    case swap
    then have ne: "h \<noteq> []" using n by auto
    define t where "t = hd h"
    have t: "t \<in># mset h" using ne by (simp add: t_def)
    note p = pop_heap [OF h(1) ne, folded t_def]
    have m: "mset (topn_step ce n kv h) = add_mset kv (mset h - {#t#})" and hp: "is_heap (topn_step ce n kv h)"
      using swap push_heap [of "heap_pop ce h" kv] p by (simp_all add: topn_step_def)
    have left: "add_mset kv seen - add_mset kv (mset h - {#t#}) = add_mset t (seen - mset h)"
    proof -
      obtain h' where h': "mset h = add_mset t h'" using t by (metis multi_member_split)
      obtain r where r: "seen = mset h + r" using h(2) by (metis mset_subset_eq_exists_conv)
      show ?thesis by (simp add: h' r)
    qed
    have small: "snd t \<le> snd x" if "x \<in># mset h" for x using top_least [OF h(1), of x] that by (simp add: t_def)
    have "snd y \<le> snd x" if "x \<in># add_mset kv (mset h - {#t#})" "y \<in># add_mset t (seen - mset h)" for x y
    proof -
      have "y = t \<or> y \<in># seen - mset h" "x = kv \<or> x \<in># mset h" using that by (auto dest: in_diffD)
      then show ?thesis using swap(2) small [of x] rest [of t y] rest [of x y] t by (auto simp: t_def)
    qed
    moreover have "length (topn_step ce n kv h) = n"
      using swap(1) ne t n by (simp add: m size_Diff_singleton flip: size_mset)
    moreover have "mset h - {#t#} \<subseteq># seen" using h(2) by (meson diff_subset_eq_self subset_mset.order_trans)
    ultimately show ?thesis using hp m left h(3) swap(1) by (auto simp: largest_def simp del: in_multiset_in_set)
  next
    case keep
    then have e: "topn_step ce n kv h = h" by (simp add: topn_step_def)
    obtain r where r: "seen = mset h + r" using h(2) by (metis mset_subset_eq_exists_conv)
    have "snd kv \<le> snd x" if "x \<in> set h" for x using top_least [OF h(1) that] keep(2) by linarith
    with h(1,3) keep(1) rest show ?thesis by (auto simp: largest_def e r)
  qed
qed

lemma fold_largest: "0 < n \<Longrightarrow> largest n h seen \<Longrightarrow> largest n (fold (topn_step ce n) es h) (seen + mset es)"
proof (induction es arbitrary: h seen)
  case (Cons e es)
  from Cons.IH [OF Cons.prems(1) step_largest [OF Cons.prems(2,1), of e]] show ?case by simp
qed simp

lemma drain_mset: "is_heap h \<Longrightarrow> k = length h \<Longrightarrow> mset (drain ce k h) = mset h"
proof (induction k arbitrary: h)
  case (Suc k)
  then have ne: "h \<noteq> []" by auto
  note p = pop_heap [OF Suc.prems(1) ne]
  then have "length (heap_pop ce h) = k" using ne Suc.prems(2) by (simp add: size_Diff_singleton flip: size_mset)
  with Suc.IH [of "heap_pop ce h"] p have "mset (drain ce k (heap_pop ce h)) = mset h - {#hd h#}" by simp
  with ne show ?case by simp
qed simp

lemma TopN_spec:
  assumes "0 < n"
  shows "mset (TopN ce counter n) \<subseteq># mset counter" "length (TopN ce counter n) = min n (length counter)"
    "sorted (map topn_rank (TopN ce counter n))"
    "x \<in> set (TopN ce counter n) \<Longrightarrow> y \<in># mset counter - mset (TopN ce counter n) \<Longrightarrow> snd y \<le> snd x"
proof -
  define h where "h = fold (topn_step ce n) (hash_order ce counter) []"
  have "largest n [] {#}" by (simp add: largest_def heap_empty)
  from fold_largest [OF assms this, of "hash_order ce counter"] have l: "largest n h (mset counter)" by (simp add: h_def order_perm)
  then have m: "mset (TopN ce counter n) = mset h" by (simp add: TopN_def h_def [symmetric] largest_def drain_mset)
  show "mset (TopN ce counter n) \<subseteq># mset counter" using l by (simp add: m largest_def)
  show "length (TopN ce counter n) = min n (length counter)" using l by (simp add: largest_def mset_eq_length [OF m])
  show "sorted (map topn_rank (TopN ce counter n))" by (simp add: TopN_def Let_def)
  show "x \<in> set (TopN ce counter n) \<Longrightarrow> y \<in># mset counter - mset (TopN ce counter n) \<Longrightarrow> snd y \<le> snd x"
    using l by (auto simp: m largest_def mset_eq_setD [OF m])
qed

end

definition sorted_env :: count_env where
  "sorted_env = \<lparr>read_link = (\<lambda>_. None), hash_order = (\<lambda>m. m), sort_counts = sort_key (\<lambda>e. - snd e),
     heap_push = insort_key snd, heap_pop = tl\<rparr>"

lemma insort_mset: "mset (insort_key f x xs) = add_mset x (mset xs)"
  by (induction xs) auto

interpretation sorted_heap: min_heap "\<lambda>h. sorted (map snd h)" sorted_env
proof
  fix h :: "count_entry list" and x
  assume s: "sorted (map snd h)"
  then show "sorted (map snd (heap_push sorted_env x h)) \<and> mset (heap_push sorted_env x h) = add_mset x (mset h)"
    by (simp add: sorted_env_def sorted_insort_key insort_mset)
  show "x \<in> set h \<Longrightarrow> snd (hd h) \<le> snd x" using s by (cases h) auto
  show "h \<noteq> [] \<Longrightarrow> sorted (map snd (heap_pop sorted_env h)) \<and> mset (heap_pop sorted_env h) = mset h - {#hd h#}"
    using s by (cases h) (auto simp: sorted_env_def)
qed (simp_all add: sorted_env_def)

end
