(* ===== verification/Executor_Properties.thy ===== *)
theory Executor_Properties
  imports Dump_Main Stream_Facts Command_Properties Fd_Thread_Facts
begin

text \<open>The properties of the executors and of the whole classic framework, with their witnesses.\<close>

section \<open>Every request is answered\<close>






definition demo_request :: main_state where
  "demo_request = \<lparr>ms_impl = demo_impl,
     ms_world = \<lparr>w_matrix = [], w_out = [], w_file = [], w_raw = RawParam_new (\<lambda>_. Some 1) 2000 50 1 (demo_argv @ [''1'']) 1,
       w_tick = 0, w_calls = []\<rparr>,
     ms_usage = \<lparr>uf_content = None, uf_mtime = 0, uf_events = []\<rparr>\<rparr>"

definition demo_exec :: exec_env where
  "demo_exec = \<lparr>open_read = (\<lambda>f. if f = ''/f'' then Some (stream_of ''ab'') else None), list_dir = (\<lambda>_. None), popen = (\<lambda>_. None),
     open_append = (\<lambda>_. False), fd_to_write = (\<lambda>_. False), cancel_at = (\<lambda>_. False), x_dev = demo_dev, x_opts = DumperOpts_zero,
     x_outputFilePath = [], zip_notifies = 0, sys_text = (\<lambda>_. None), sys_int = (\<lambda>_. 0), sam = None, apps = None, ability_runtime = False,
     net = None, uid_of = (\<lambda>_. None), cpu_service = (\<lambda>m _. m), mem_so = None, x_sa_val = (\<lambda>_. 0), x_StrToInt = (\<lambda>_. None),
     x_counts = sorted_env,
     x_events = \<lparr>Query = (\<lambda>_ _ _. (-1, [], None)), GetAppExitReason = (\<lambda>_. []), GetKillReason = (\<lambda>_. []), local_time = (\<lambda>_. []),
       sort_times = (\<lambda>es. es), can_fdopen = (\<lambda>_. True)\<rparr>\<rparr>"



section \<open>Streaming\<close>

text \<open>What a file dumper starts with.\<close>

definition file_start :: "exec_env \<Rightarrow> DumpCfg \<Rightarrow> FileStreamDumper" where
  "file_start env cfg = FileStreamDumper_new\<lparr>needHideAddr := (c_target cfg = binder_state),
     filenames := BuildFileNames env (c_target cfg) (c_args cfg), need_loop := (c_loop cfg = LOOP)\<rparr>"

lemma setExecutorList_pair:
  "undisturbed env cfg ocfg \<Longrightarrow>
    setExecutorList hiview False [cfg, ocfg] = (stream_pair cfg FileStreamDumper_new ocfg, [0, 1])"
  by (simp add: setExecutorList_def undisturbed_def CreateExecutor_def CreateOutput_def stream_pair_def)

lemma file_pre:
  assumes "list_all (readable env) (filenames (file_start env cfg))" "filenames (file_start env cfg) \<noteq> []"
  shows "\<exists>fs1 w3. fs_PreExecute env cfg FileStreamDumper_new w = (DUMP_OK, fs1, w3) \<and> fs_ok env fs1
    \<and> need_loop fs1 = (c_loop cfg = LOOP) \<and> next_file_index fs1 > 0
    \<and> w_matrix w3 @ left_report env fs1 = w_matrix w @ concat (map (file_block env (file_start env cfg)) (filenames (file_start env cfg)))
    \<and> w_out w3 = w_out w \<and> w_raw w3 = w_raw w"
proof -
  obtain r fs1 w3 where o: "OpenNextFile env (file_start env cfg) w = (r, fs1, w3)" by (metis prod_cases3)
  have n: "next_file_index (file_start env cfg) = 0" by (simp add: file_start_def FileStreamDumper_new_def)
  from OpenNextFile_report [of env "file_start env cfg", OF _ o] OpenNextFile_frame [OF o] assms(1) n
  have rep: "w_matrix w @ concat (map (file_block env (file_start env cfg)) (filenames (file_start env cfg))) = w_matrix w3 @ left_report env fs1"
    "r > 0 \<longrightarrow> fs_ok env fs1" "w_out w3 = w_out w" "w_raw w3 = w_raw w"
    "need_loop fs1 = (c_loop cfg = LOOP)" "r > 0 \<longrightarrow> next_file_index fs1 > 0"
    by (auto simp: file_start_def)
  have "r > 0" using o assms n by (auto simp: OpenNextFile_def fs_CloseFd_def Let_def list_all_length readable_def split: if_splits option.splits)
  moreover have "fs_PreExecute env cfg FileStreamDumper_new w = (if r \<le> 0 then DUMP_FAIL else DUMP_OK, fs1, w3)"
    using o by (cases "c_target cfg = binder_state") (simp_all add: fs_PreExecute_def FileStreamDumper_new_def file_start_def)
  ultimately show ?thesis using rep by auto
qed


text \<open>The first round of the loop, and what it leaves to print.\<close>

lemma first_round:
  assumes u: "undisturbed env cfg ocfg" and q: "quiet w" and m: "w_matrix w = []"
    and files: "list_all (readable env) (filenames (file_start env cfg))" "filenames (file_start env cfg) \<noteq> []"
  shows "\<exists>ls' fs'. dump_loop (executor_ops env) env [0, 1] (loop_start (stream_pair cfg FileStreamDumper_new ocfg) w)
        = dump_loop (executor_ops env) env [0, 1] ls'
    \<and> ls_objs ls' = stream_pair cfg fs' ocfg \<and> w_matrix (ls_world ls') = [] \<and> w_raw (ls_world ls') = w_raw w \<and> ls_stack ls' = []
    \<and> (c_section cfg \<noteq> [] \<longrightarrow> ls_group ls' = c_section cfg)
    \<and> w_out (ls_world ls') @ concat (map line_items (if ls_index ls' = 0 then left_report env fs' else []))
      = w_out w @ concat (map line_items (title_lines (x_opts env) [] (c_section cfg)
          @ concat (map (file_block env (file_start env cfg)) (filenames (file_start env cfg)))))
    \<and> (ls_index ls' = 2 \<or> ls_index ls' = 0 \<and> c_loop cfg = LOOP \<and> fs_ok env fs' \<and> need_loop fs' \<and> next_file_index fs' > 0)"
proof -
  define ls where "ls = loop_start (stream_pair cfg FileStreamDumper_new ocfg) w"
  define w1 where "w1 = snd (IsCanceled env (ls_world ls))"
  define w2 where "w2 = (if CheckGroupName (ls_group ls) (c_section cfg) then AddGroupTitle (x_opts env) (c_section cfg) w1 else w1)"
  have ls: "ls_objs ls = stream_pair cfg FileStreamDumper_new ocfg" "ls_index ls = 0" "ls_stack ls = []" "quiet (ls_world ls)"
    using q by (simp_all add: ls_def loop_start_def)
  have w2: "w_matrix w2 = title_lines (x_opts env) [] (c_section cfg)" "w_out w2 = w_out w" "w_raw w2 = w_raw w"
    unfolding w2_def AddGroupTitle_matrix by (simp_all add: w1_def ls_def loop_start_def IsCanceled_def m)
  from file_pre [OF files, of w2] obtain fs1 w3 where p: "fs_PreExecute env cfg FileStreamDumper_new w2 = (DUMP_OK, fs1, w3)"
    and f1: "fs_ok env fs1" "need_loop fs1 = (c_loop cfg = LOOP)" "next_file_index fs1 > 0"
      "w_matrix w3 @ left_report env fs1 = w_matrix w2 @ concat (map (file_block env (file_start env cfg)) (filenames (file_start env cfg)))"
      "w_out w3 = w_out w2" "w_raw w3 = w_raw w2" by blast
  obtain st fs2 w4 where e: "fs_Execute env fs1 w3 = (st, fs2, w4)" by (metis prod_cases3)
  have nc: "\<not> cancel_at env n" for n using u by (simp add: undisturbed_def)
  have rep: "(st = DUMP_OK \<and> w_matrix w4 = w_matrix w3 @ left_report env fs1 \<and> \<not> more_data fs2
      \<or> st = DUMP_MORE_DATA \<and> c_loop cfg = LOOP \<and> w_matrix w4 @ left_report env fs2 = w_matrix w3 @ left_report env fs1
        \<and> fs_ok env fs2 \<and> more_data fs2) \<and> w_out w4 = w_out w3 \<and> w_raw w4 = w_raw w3"
  proof (cases "need_loop fs1")
    case True
    then show ?thesis using ReadLineInFile_report [OF f1(1)] e f1(2) by (fastforce simp: fs_Execute_def)
  next
    case False
    then show ?thesis using read_all_lines_report [OF nc f1(1)] e by (fastforce simp: fs_Execute_def)
  qed
  obtain st' fs3 where a: "fs_AfterExecute cfg fs2 = (st', fs3)" by fastforce
  have st': "st' = (if st = DUMP_MORE_DATA then DUMP_MORE_DATA else DUMP_OK)" "st = DUMP_MORE_DATA \<longrightarrow> fs3 = fs2"
    using a rep by (auto simp: fs_AfterExecute_def Let_def split: if_splits)
  have "st = DUMP_OK \<or> st = DUMP_MORE_DATA" and raw: "w_raw w4 = w_raw (ls_world ls)"
    using rep f1(6) w2(3) by (auto simp: ls_def loop_start_def)
  note round = stream_round [OF u ls(4,1-3) w2_def w1_def p e this(1) a raw]
  define report where "report = title_lines (x_opts env) [] (c_section cfg)
    @ concat (map (file_block env (file_start env cfg)) (filenames (file_start env cfg)))"
  have "w_matrix w4 @ (if st = DUMP_MORE_DATA then left_report env fs3 else []) = report"
    using rep st' f1(4) w2(1) by (auto simp: report_def)
  then have printed: "concat (map line_items (w_matrix w4))
      @ concat (map line_items (if st = DUMP_MORE_DATA then left_report env fs3 else [])) = concat (map line_items report)"
    by (metis concat_append map_append)
  from round show ?thesis
    unfolding ls_def [symmetric] report_def [symmetric]
    using rep st' f1(1-3,5,6) w2(2,3) printed fs_Execute_frame [OF e] ls raw
    by (elim exE) (rule exI, rule exI [of _ fs3], auto simp: ls_def loop_start_def)
qed

text \<open>
  C34. Equivalence. A file dumper followed by its output prints the title of the group and then for
  each of its files a blank line, the name, a blank line and every line of the file, with
  addresses hidden where they must be. It makes no difference whether the file is read at once or
  line by line in rounds of the executor loop, and nothing is left in the matrix.
\<close>

theorem file_streamed:
  assumes "undisturbed env cfg ocfg" and "quiet w" and "w_matrix w = []"
    and "list_all (readable env) (filenames (file_start env cfg))" and "filenames (file_start env cfg) \<noteq> []"
    and "setExecutorList hiview False [cfg, ocfg] = (objs, executors)"
  shows "\<exists>objs' w'. DumpDatas (executor_ops env) env objs executors w = Some (DUMP_OK, objs', w') \<and> w_matrix w' = []
    \<and> w_out w' = w_out w @ concat (map line_items (title_lines (x_opts env) [] (c_section cfg)
        @ concat (map (file_block env (file_start env cfg)) (filenames (file_start env cfg)))))"
proof -
  have l: "objs = stream_pair cfg FileStreamDumper_new ocfg" "executors = [0, 1]"
    using setExecutorList_pair [OF assms(1)] assms(6) by simp_all
  from first_round [OF assms(1-5)] obtain ls' fs' where
    eq: "dump_loop (executor_ops env) env [0, 1] (loop_start (stream_pair cfg FileStreamDumper_new ocfg) w) = dump_loop (executor_ops env) env [0, 1] ls'"
    and l': "ls_objs ls' = stream_pair cfg fs' ocfg" "w_matrix (ls_world ls') = []" "w_raw (ls_world ls') = w_raw w" "ls_stack ls' = []"
      "c_section cfg \<noteq> [] \<longrightarrow> ls_group ls' = c_section cfg"
    and out: "w_out (ls_world ls') @ concat (map line_items (if ls_index ls' = 0 then left_report env fs' else []))
      = w_out w @ concat (map line_items (title_lines (x_opts env) [] (c_section cfg)
          @ concat (map (file_block env (file_start env cfg)) (filenames (file_start env cfg)))))"
    and i: "ls_index ls' = 2 \<or> ls_index ls' = 0 \<and> c_loop cfg = LOOP \<and> fs_ok env fs' \<and> need_loop fs' \<and> next_file_index fs' > 0"
    by blast
  have q': "quiet (ls_world ls')" using assms(2) l' by (simp add: quiet_def)
  have "\<exists>ls2 fs2. dump_loop (executor_ops env) env [0, 1] ls' = Some ls2 \<and> ls_objs ls2 = stream_pair cfg fs2 ocfg
      \<and> w_matrix (ls_world ls2) = [] \<and> w_raw (ls_world ls2) = w_raw (ls_world ls')
      \<and> w_out (ls_world ls2) = w_out (ls_world ls') @ concat (map line_items (if ls_index ls' = 0 then left_report env fs' else []))"
  proof (cases "ls_index ls' = 2")
    case True
    then show ?thesis using l' by (subst dump_loop.simps) auto
  next
    case False
    with i show ?thesis using stream_rounds [OF assms(1) _ _ _ _ q' l'(2,1) _ l'(4,5)] by auto
  qed
  then obtain ls2 fs2 where d: "dump_loop (executor_ops env) env [0, 1] ls' = Some ls2" "ls_objs ls2 = stream_pair cfg fs2 ocfg"
      "w_matrix (ls_world ls2) = []" "w_raw (ls_world ls2) = w_raw (ls_world ls')"
      "w_out (ls_world ls2) = w_out (ls_world ls') @ concat (map line_items (if ls_index ls' = 0 then left_report env fs' else []))" by blast
  have "reset_all (executor_ops env) [0, 1] (stream_pair cfg fs2 ocfg) (ls_world ls2) = (stream_pair cfg fs2 ocfg, ls_world ls2)"
    by (simp add: executor_ops_def DoReset_def stream_pair_def)
  moreover have "quiet (ls_world ls2)" using q' d(4) by (simp add: quiet_def)
  ultimately show ?thesis using eq d out by (simp add: l DumpDatas_def update_progress_quiet)
qed


definition demo_file_cfg :: "int \<Rightarrow> DumpCfg" where
  "demo_file_cfg loop = DumpCfg_Create\<lparr>c_target := ''/f'', c_class := FILE_DUMPER, c_loop := loop\<rparr>"

definition demo_output_cfg :: DumpCfg where
  "demo_output_cfg = DumpCfg_Create\<lparr>c_class := FD_OUTPUT\<rparr>"

theorem file_streamed_witness:
  "\<exists>objs' w'. DumpDatas (executor_ops demo_exec) demo_exec (fst (setExecutorList True False [demo_file_cfg LOOP, demo_output_cfg])) [0, 1]
      (ms_world demo_request) = Some (DUMP_OK, objs', w')
    \<and> w_out w' = [[CHR 0x0A], ''/f'' @ [CHR 0x0A], [CHR 0x0A], ''ab'' @ [CHR 0x0A]]"
proof -
  have u: "undisturbed demo_exec (demo_file_cfg LOOP) demo_output_cfg"
    by (simp add: undisturbed_def demo_exec_def demo_file_cfg_def demo_output_cfg_def)
  have q: "quiet (ms_world demo_request)" and m: "w_matrix (ms_world demo_request) = []"
    unfolding quiet_def by code_simp+
  have f: "filenames (file_start demo_exec (demo_file_cfg LOOP)) = [''/f'']" by code_simp
  have r: "readable demo_exec ''/f''" by code_simp
  have o: "w_out (ms_world demo_request) = []" by code_simp
  have t: "title_lines (x_opts demo_exec) [] (c_section (demo_file_cfg LOOP)) = []"
    by (simp add: title_lines_def demo_file_cfg_def DumpCfg_Create_def CheckGroupName_def)
  have b: "concat (map line_items (file_block demo_exec (file_start demo_exec (demo_file_cfg LOOP)) ''/f''))
      = [[CHR 0x0A], ''/f'' @ [CHR 0x0A], [CHR 0x0A], ''ab'' @ [CHR 0x0A]]" by code_simp
  have s: "setExecutorList True False [demo_file_cfg LOOP, demo_output_cfg]
      = (fst (setExecutorList True False [demo_file_cfg LOOP, demo_output_cfg]), [0, 1])"
    using setExecutorList_pair [OF u] by simp
  from file_streamed [OF u q m _ _ s] f r show ?thesis by (fastforce simp: o t b)
qed

section \<open>Arguments on their way to the service\<close>



section \<open>Descriptors of a process\<close>

text \<open>
  C36. The leak report. The counts of the paths add up to the number of open descriptors, each path is
  counted as often as it occurs, and the list of the largest counts has ten entries or all of them,
  the largest first and equal counts in the order of their names; no path that was left out has a
  larger count than one that is shown.
\<close>

theorem leak_report:
  assumes "min_heap is_heap ce" and "counter = CountPaths links" and "shown = TopN ce counter FD_TOP_CNT"
  shows "sum_list (map snd counter) = int (length links)
    \<and> (\<forall>(path, n) \<in> set counter. n = int (count_list (map path_key links) path))
    \<and> mset shown \<subseteq># mset counter \<and> length shown = min 10 (length counter) \<and> sorted (map (\<lambda>(path, n). (- n, path)) shown)
    \<and> (\<forall>(_, n) \<in> set shown. \<forall>(path, k) \<in> set counter. (path, k) \<notin> set shown \<longrightarrow> k \<le> n)"
proof -
  have n: "0 < FD_TOP_CNT" by (simp add: FD_TOP_CNT_def)
  note spec = min_heap.TopN_spec [OF assms(1) n, where counter = counter, folded assms(3)]
  have "e \<in># mset counter - mset shown" if "e \<in> set counter" "e \<notin> set shown" for e
    using that by (metis diff_zero in_diff_count in_multiset_in_set count_inI not_gr_zero count_greater_zero_iff)
  then have "\<forall>(_, n) \<in> set shown. \<forall>(path, k) \<in> set counter. (path, k) \<notin> set shown \<longrightarrow> k \<le> n" using spec(4) by fastforce
  moreover have "n = int (count_list (map path_key links) path)" if "(path, n) \<in> set counter" for path n
    using that CountPaths_counts(1) [of links] CountPaths_counts(2) [of links path] map_of_Some_iff [of counter path n]
    by (auto simp: assms(2) split: if_splits)
  moreover have "topn_rank = (\<lambda>(path, n). (- n, path))" by (auto simp: topn_rank_def)
  ultimately show ?thesis
    using spec(1-3) CountPaths_total [of links] by (auto simp: assms(2) FD_TOP_CNT_def)
qed

theorem leak_report_witness:
  "sum_list (map snd (CountPaths [''/a'', ''socket:[1]'', ''socket:[2]''])) = 3
    \<and> length (TopN sorted_env (CountPaths [''/a'', ''socket:[1]'', ''socket:[2]'']) FD_TOP_CNT) = 2"
proof -
  have l: "length (CountPaths [''/a'', ''socket:[1]'', ''socket:[2]'']) = 2" by code_simp
  have "min_heap (\<lambda>h. sorted (map snd h)) sorted_env" by (rule sorted_heap.min_heap_axioms)
  from leak_report [OF this refl refl, of "[''/a'', ''socket:[1]'', ''socket:[2]'']"] l show ?thesis by simp
qed

end
