(* ===== verification/Zip_Cleaner.thy ===== *)
theory Zip_Cleaner
  imports Hidumper_Prelude "HOL-Library.Multiset" "HOL-Library.Char_ord" "HOL-Library.List_Lexorder"
begin

text \<open>
  The limit on the archives in the log folder, \<^verbatim>\<open>src/frameworks/native/src/util/zip_file_cleaner.cpp\<close>.
  The file functions of the C++ utility library (\<open>GetDirFiles\<close>, \<open>ExtractFilePath\<close> and the like) and
  \<open>stat\<close> are parameters; a folder is the list of its files.
\<close>

record FileInfo =
  fi_path :: string
  fi_size :: int
  fi_name :: string

record dir_env =
  dir_exists :: "string \<Rightarrow> bool"
  dir_files :: "string \<Rightarrow> string list" \<comment> \<open>\<open>GetDirFiles\<close>\<close>
  path_of :: "string \<Rightarrow> string" \<comment> \<open>\<open>IncludeTrailingPathDelimiter(ExtractFilePath(str))\<close>\<close>
  name_of :: "string \<Rightarrow> string"
  ext_of :: "string \<Rightarrow> string"
  file_size :: "string \<Rightarrow> int option" \<comment> \<open>\<open>stat\<close>\<close>
  can_remove :: "string \<Rightarrow> bool" \<comment> \<open>\<open>RemoveFile\<close>\<close>

definition LOGFILE_MAX :: nat where "LOGFILE_MAX = 20"
definition ZIP_MAX_SIZE :: int where "ZIP_MAX_SIZE = 100 * 1024 * 1024"
definition ZIP_TARGET_SIZE :: int where "ZIP_TARGET_SIZE = 80 * 1024 * 1024"

definition total_size :: "FileInfo list \<Rightarrow> int" where
  "total_size files = sum_list (map fi_size files)"

definition GetDirTotalSize :: "dir_env \<Rightarrow> string \<Rightarrow> FileInfo list \<Rightarrow> int \<times> FileInfo list" where
  "GetDirTotalSize env dirPath files =
    (if \<not> dir_exists env dirPath then (0, files)
     else
       let found = concat (map (\<lambda>str.
             if path_of env str \<noteq> dirPath \<or> ext_of env (name_of env str) \<noteq> ''zip'' then []
             else case file_size env str of None \<Rightarrow> [] | Some n \<Rightarrow> [\<lparr>fi_path = str, fi_size = n, fi_name = name_of env str\<rparr>])
           (dir_files env dirPath)) in
       (total_size found, files @ found))"

text \<open>The loop over the sorted files: the paths that are removed.\<close>

fun delete_loop :: "dir_env \<Rightarrow> int \<Rightarrow> int \<Rightarrow> FileInfo list \<Rightarrow> string list" where
  "delete_loop env currentSize fileCount [] = []"
| "delete_loop env currentSize fileCount (file # files) =
    (if currentSize \<le> ZIP_TARGET_SIZE \<and> fileCount \<le> int LOGFILE_MAX then []
     else if can_remove env (fi_path file)
     then fi_path file # delete_loop env (currentSize - fi_size file) (fileCount - 1) files
     else delete_loop env currentSize fileCount files)"

definition DeleteOldestFiles :: "dir_env \<Rightarrow> int \<Rightarrow> FileInfo list \<Rightarrow> string list" where
  "DeleteOldestFiles env totalSize files =
    (if files = [] then [] else delete_loop env totalSize (int (length files)) (sort_key fi_name files))"

definition CleanOldFiles :: "dir_env \<Rightarrow> string \<Rightarrow> string list" where
  "CleanOldFiles env dirPath =
    (case GetDirTotalSize env dirPath [] of (totalSize, files) \<Rightarrow>
      if totalSize \<le> ZIP_MAX_SIZE \<and> length files \<le> LOGFILE_MAX then [] else DeleteOldestFiles env totalSize files)"

text \<open>The archives of a folder, oldest name first.\<close>

definition archives :: "dir_env \<Rightarrow> string \<Rightarrow> FileInfo list" where
  "archives env dirPath = sort_key fi_name (snd (GetDirTotalSize env dirPath []))"

definition within_target :: "FileInfo list \<Rightarrow> bool" where
  "within_target files \<longleftrightarrow> total_size files \<le> ZIP_TARGET_SIZE \<and> length files \<le> LOGFILE_MAX"

definition within_limits :: "FileInfo list \<Rightarrow> bool" where
  "within_limits files \<longleftrightarrow> total_size files \<le> ZIP_MAX_SIZE \<and> length files \<le> LOGFILE_MAX"

lemma GetDirTotalSize_total: "fst (GetDirTotalSize env dirPath []) = total_size (snd (GetDirTotalSize env dirPath []))"
  by (simp add: GetDirTotalSize_def Let_def total_size_def)

lemma total_size_sort: "total_size (sort_key f files) = total_size files"
  unfolding total_size_def by (metis mset_map mset_sort sum_mset_sum_list)

text \<open>The loop removes the shortest initial part whose removal is enough.\<close>

lemma delete_loop_prefix:
  "list_all (\<lambda>f. can_remove env (fi_path f)) files \<Longrightarrow>
    \<exists>k \<le> length files. delete_loop env (total_size files) (int (length files)) files = map fi_path (take k files)
      \<and> within_target (drop k files) \<and> (\<forall>j < k. \<not> within_target (drop j files))"
proof (induction files)
  case Nil
  then show ?case by (simp add: within_target_def total_size_def ZIP_TARGET_SIZE_def)
next
  case (Cons f files)
  show ?case
  proof (cases "within_target (f # files)")
    case True
    then show ?thesis by (intro exI [of _ 0]) (simp add: within_target_def)
  next
    case False
    from Cons obtain k where k: "k \<le> length files" "delete_loop env (total_size files) (int (length files)) files = map fi_path (take k files)"
        "within_target (drop k files)" "\<forall>j < k. \<not> within_target (drop j files)" by auto
    have "delete_loop env (total_size (f # files)) (int (length (f # files))) (f # files) = fi_path f # map fi_path (take k files)"
      using False Cons.prems k(2) by (auto simp: within_target_def total_size_def)
    moreover have "\<not> within_target (drop j (f # files))" if "j < Suc k" for j using that False k(4) by (cases j) auto
    ultimately show ?thesis using k by (intro exI [of _ "Suc k"]) auto
  qed
qed

lemma CleanOldFiles_prefix:
  assumes "\<And>path. can_remove env path"
  shows "within_limits (archives env dirPath) \<and> CleanOldFiles env dirPath = []
    \<or> (\<not> within_limits (archives env dirPath) \<and> (\<exists>k \<le> length (archives env dirPath).
        CleanOldFiles env dirPath = map fi_path (take k (archives env dirPath)) \<and> within_target (drop k (archives env dirPath))
        \<and> (\<forall>j < k. \<not> within_target (drop j (archives env dirPath)))))"
proof -
  obtain n files where g: "GetDirTotalSize env dirPath [] = (n, files)" by fastforce
  have n: "n = total_size files" using GetDirTotalSize_total [of env dirPath] g by simp
  have a: "archives env dirPath = sort_key fi_name files" "total_size (archives env dirPath) = total_size files"
    "length (archives env dirPath) = length files" by (simp_all add: archives_def g total_size_sort)
  have "list_all (\<lambda>f. can_remove env (fi_path f)) (archives env dirPath)" using assms by (simp add: list_all_iff)
  note del = delete_loop_prefix [OF this, unfolded a(2,3)]
  show ?thesis
  proof (cases "within_limits (archives env dirPath)")
    case True
    then show ?thesis by (simp add: CleanOldFiles_def g n within_limits_def a total_size_sort)
  next
    case False
    then have "files \<noteq> []" by (auto simp: within_limits_def a total_size_def ZIP_MAX_SIZE_def)
    then have "CleanOldFiles env dirPath = delete_loop env (total_size files) (int (length files)) (archives env dirPath)"
      using False by (auto simp: CleanOldFiles_def g n DeleteOldestFiles_def within_limits_def a total_size_sort)
    with del False show ?thesis by (simp add: a(3))
  qed
qed

end
