(* ===== verification/Manager_Service.thy ===== *)
theory Manager_Service
  imports Raw_Param Common_Utils Fd_Thread Zip_Cleaner
begin

text \<open>
  The dump service, \<^verbatim>\<open>src/services/native/src/dump_manager_service.cpp\<close> and \<^verbatim>\<open>dump_log_manager.cpp\<close>: the
  table of running requests, the life of a request, start, stop and idling of the service, and the
  scans for leaked descriptors.

  Requests come in on the threads of the IPC library and run concurrently. A step of the model is what
  a thread does between two points where it can be interrupted: a critical section under
  \<open>mutex_\<close>, a read of an atomic flag, a call of the file system. What the framework does with a request
  (\<open>DumpImplement::Main\<close>) is one step; it may change the progress and the title of the request object,
  for which alone it calls setters.
\<close>

section \<open>State\<close>

record svc_env =
  init_ok :: bool \<comment> \<open>event runner and handler can be created\<close>
  publish_ok :: bool
  framework :: "string list \<Rightarrow> RawParam \<Rightarrow> RawParam" \<comment> \<open>\<open>DumpImplement::Main\<close>\<close>
  sv_str_to_int :: "string \<Rightarrow> int option"
  zip_env :: dir_env
  sv_usage_env :: usage_env
  unload_ok :: bool

record DumpManagerService =
  started :: bool
  blockRequest :: bool
  requestIndex :: nat
  requestRawParamMap :: "(nat \<times> RawParam) list"
  tmp_folders :: "nat list" \<comment> \<open>request ids that have a folder under \<open>TMP_FOLDER\<close>\<close>
  closed_fds :: "int list"
  unload_posted :: bool \<comment> \<open>a delayed unload task is in the queue\<close>
  removed_zips :: "string list"
  sv_usage :: usage_file

definition REQUEST_MAX :: nat where "REQUEST_MAX = 5"
definition REQUESTID_MAX :: nat where "REQUESTID_MAX = 100000"
definition TMP_FOLDER :: string where "TMP_FOLDER = ''/data/log/hidumper/tmp/''"
definition ZIP_FOLDER :: string where "ZIP_FOLDER = ''/data/log/hidumper/''"

section \<open>Folders and logs\<close>

definition EraseLogs :: "svc_env \<Rightarrow> DumpManagerService \<Rightarrow> DumpManagerService" where
  "EraseLogs env s = s\<lparr>removed_zips := removed_zips s @ CleanOldFiles (zip_env env) ZIP_FOLDER\<rparr>"

definition LogManager_Init :: "svc_env \<Rightarrow> DumpManagerService \<Rightarrow> DumpManagerService" where
  "LogManager_Init env s = EraseLogs env (s\<lparr>tmp_folders := []\<rparr>)"

definition CreateTmpFolder :: "nat \<Rightarrow> DumpManagerService \<Rightarrow> string \<times> DumpManagerService" where
  "CreateTmpFolder rid s = (TMP_FOLDER @ to_string (int rid) @ ''/'', s\<lparr>tmp_folders := hm_insert rid (tmp_folders s)\<rparr>)"

definition EraseTmpFolder :: "nat \<Rightarrow> DumpManagerService \<Rightarrow> DumpManagerService" where
  "EraseTmpFolder rid s = s\<lparr>tmp_folders := removeAll rid (tmp_folders s)\<rparr>"

section \<open>The table of requests\<close>

definition GetRequestSum :: "DumpManagerService \<Rightarrow> nat" where
  "GetRequestSum s = length (requestRawParamMap s)"

definition GetRequestId :: "nat \<Rightarrow> nat" where
  "GetRequestId index = (index + 1) mod REQUESTID_MAX"

text \<open>The search for an id that is not in use.\<close>

partial_function (option) find_request_id :: "nat \<Rightarrow> nat list \<Rightarrow> nat option" where
  "find_request_id index used =
    (let rid = GetRequestId index in if rid \<in> set used then find_request_id rid used else Some rid)"

declare find_request_id.simps [code]

definition AddRequestRawParam ::
    "svc_env \<Rightarrow> int \<Rightarrow> int \<Rightarrow> string list \<Rightarrow> int \<Rightarrow> DumpManagerService \<Rightarrow> (nat \<times> DumpManagerService) option" where
  "AddRequestRawParam env uid pid args outfd s =
    (case find_request_id (requestIndex s) (keys (requestRawParamMap s)) of
       None \<Rightarrow> None
     | Some rid \<Rightarrow> Some (rid, s\<lparr>requestIndex := rid,
         requestRawParamMap := requestRawParamMap s @ [(rid, RawParam_new (sv_str_to_int env) uid pid rid args outfd)]\<rparr>))"

definition EraseRequestRawParam :: "nat \<Rightarrow> DumpManagerService \<Rightarrow> DumpManagerService" where
  "EraseRequestRawParam rid s = s\<lparr>requestRawParamMap := erase_key rid (requestRawParamMap s)\<rparr>"

definition CancelAllRequest :: "DumpManagerService \<Rightarrow> DumpManagerService" where
  "CancelAllRequest s = s\<lparr>requestRawParamMap := map (\<lambda>(i, rp). (i, Cancel rp)) (requestRawParamMap s)\<rparr>"

section \<open>Start, stop, idle\<close>

definition OnStart :: "svc_env \<Rightarrow> DumpManagerService \<Rightarrow> DumpManagerService" where
  "OnStart env s =
    (if started s then s else if \<not> init_ok env then s else if \<not> publish_ok env then s else s\<lparr>started := True\<rparr>)"

text \<open>\<open>OnStop\<close> blocks requests, cancels those in the table, waits up to three seconds for the table to become
  empty, and ends.\<close>

definition OnStop_begin :: "DumpManagerService \<Rightarrow> DumpManagerService" where
  "OnStop_begin s = (if \<not> started s then s else s\<lparr>blockRequest := True\<rparr>)"

definition OnStop_end :: "DumpManagerService \<Rightarrow> DumpManagerService" where
  "OnStop_end s = s\<lparr>started := False, blockRequest := False\<rparr>"

definition UNLOAD_IMMEDIATELY :: int where "UNLOAD_IMMEDIATELY = 0"
definition DYNAMIC_EXIT_DELAY_TIME :: int where "DYNAMIC_EXIT_DELAY_TIME = 120000"

definition OnIdle :: "bool \<Rightarrow> DumpManagerService \<Rightarrow> int \<times> DumpManagerService" where
  "OnIdle interface_call s =
    (if interface_call then
       (if GetRequestSum s = 0 then (UNLOAD_IMMEDIATELY, s\<lparr>started := False\<rparr>) else (DYNAMIC_EXIT_DELAY_TIME, s))
     else (UNLOAD_IMMEDIATELY, s))"

definition DelayUnloadTask :: "DumpManagerService \<Rightarrow> DumpManagerService" where
  "DelayUnloadTask s = s\<lparr>unload_posted := True\<rparr>"

text \<open>The delayed task unloads the service when no request is running; true when it was unloaded.\<close>

definition unload_task :: "svc_env \<Rightarrow> DumpManagerService \<Rightarrow> bool \<times> DumpManagerService" where
  "unload_task env s = (GetRequestSum s = 0 \<and> unload_ok env, s\<lparr>unload_posted := False\<rparr>)"

section \<open>The life of a request\<close>

definition HandleRequestError ::
    "svc_env \<Rightarrow> string list \<Rightarrow> int \<Rightarrow> string \<Rightarrow> DumpManagerService \<Rightarrow> DumpManagerService" where
  "HandleRequestError env args outfd msg s =
    (let args1 = (if length args \<ge> ARG_MIN_COUNT then butlast args else args);
         ppid = (if length args \<ge> ARG_MIN_COUNT then (case sv_str_to_int env (last args) of None \<Rightarrow> -1 | Some p \<Rightarrow> p) else -1);
         param = \<lparr>errorCode = status_code DUMP_FAIL, callerPpid = ppid, ev_opt = [], subOpt = [], ev_target = [],
           arguments = concat (map (\<lambda>a. c_str a @ '' '') args1), errorMsg = msg\<rparr> in
     s\<lparr>closed_fds := closed_fds s @ (if outfd > -1 then [outfd] else []),
       sv_usage := ReportCmdUsage (sv_usage_env env) param (sv_usage s)\<rparr>)"

datatype phase =
    CheckBlock | CheckStarted | CheckPermission | CheckSum | InitLogs | AddRequest
  | MakeFolder nat | RunMain nat | EraseFolder nat | Finish nat | Returned DumpStatus

record request =
  rq_args :: "string list"
  rq_outfd :: int
  rq_uid :: int
  rq_pid :: int
  rq_permitted :: bool \<comment> \<open>\<open>HasDumpPermission\<close>\<close>
  rq_phase :: phase

definition new_request :: "string list \<Rightarrow> int \<Rightarrow> int \<Rightarrow> int \<Rightarrow> bool \<Rightarrow> request" where
  "new_request args outfd uid pid permitted =
    \<lparr>rq_args = args, rq_outfd = outfd, rq_uid = uid, rq_pid = pid, rq_permitted = permitted, rq_phase = CheckBlock\<rparr>"

definition refuse_request :: "svc_env \<Rightarrow> request \<Rightarrow> DumpStatus \<Rightarrow> string \<Rightarrow> DumpManagerService \<Rightarrow> DumpManagerService \<times> request" where
  "refuse_request env t st msg s = (HandleRequestError env (rq_args t) (rq_outfd t) msg s, t\<lparr>rq_phase := Returned st\<rparr>)"

text \<open>What the framework may change of the request object.\<close>

definition run_framework :: "svc_env \<Rightarrow> RawParam \<Rightarrow> RawParam" where
  "run_framework env rp =
    (if GetArgc rp > 0 then
       let rp1 = framework env (request_args rp) rp in
       rp\<lparr>rp_progressEnabled := rp_progressEnabled rp1, rp_progressTick := rp_progressTick rp1, rp_progress := rp_progress rp1,
          rp_path := rp_path rp1\<rparr>
     else rp)"

text \<open>\<open>Request\<close> with \<open>StartRequest\<close> and \<open>RequestMain\<close>, step by step. \<open>None\<close> stands for a step that does not end.
  Two steps join actions of which no other thread can see the first alone: posting the unload task before
  the registration, and closing the descriptor of an entry before the entry is removed.\<close>

definition thread_step :: "svc_env \<Rightarrow> DumpManagerService \<Rightarrow> request \<Rightarrow> (DumpManagerService \<times> request) option" where
  "thread_step env s t =
    (case rq_phase t of
       CheckBlock \<Rightarrow> Some (if blockRequest s then refuse_request env t DUMP_FAIL ''request has blocked'' s else (s, t\<lparr>rq_phase := CheckStarted\<rparr>))
     | CheckStarted \<Rightarrow> Some (if \<not> started s then refuse_request env t DUMP_FAIL ''request has stopped'' s else (s, t\<lparr>rq_phase := CheckPermission\<rparr>))
     | CheckPermission \<Rightarrow> Some (if \<not> rq_permitted t then refuse_request env t DUMP_FAIL ''no dump permission'' s else (s, t\<lparr>rq_phase := CheckSum\<rparr>))
     | CheckSum \<Rightarrow>
         Some (if GetRequestSum s \<ge> REQUEST_MAX then refuse_request env t DUMP_REQUEST_MAX ''request sum reached max'' s
               else (s, t\<lparr>rq_phase := (if GetRequestSum s = 0 then InitLogs else AddRequest)\<rparr>))
     | InitLogs \<Rightarrow> Some (LogManager_Init env s, t\<lparr>rq_phase := AddRequest\<rparr>)
     | AddRequest \<Rightarrow>
         (case AddRequestRawParam env (rq_uid t) (rq_pid t) (rq_args t) (rq_outfd t) (DelayUnloadTask s) of
            None \<Rightarrow> None | Some (rid, s1) \<Rightarrow> Some (s1, t\<lparr>rq_phase := MakeFolder rid\<rparr>))
     | MakeFolder rid \<Rightarrow>
         (case CreateTmpFolder rid s of (folder, s1) \<Rightarrow>
            Some (s1\<lparr>requestRawParamMap := modify rid (SetFolder folder) (requestRawParamMap s1)\<rparr>, t\<lparr>rq_phase := RunMain rid\<rparr>))
     | RunMain rid \<Rightarrow>
         Some (s\<lparr>requestRawParamMap := modify rid (run_framework env) (requestRawParamMap s)\<rparr>, t\<lparr>rq_phase := EraseFolder rid\<rparr>)
     | EraseFolder rid \<Rightarrow> Some (EraseLogs env (EraseTmpFolder rid s), t\<lparr>rq_phase := Finish rid\<rparr>)
     | Finish rid \<Rightarrow>
         Some (EraseRequestRawParam rid (s\<lparr>closed_fds := closed_fds s
             @ (case map_of (requestRawParamMap s) rid of None \<Rightarrow> [] | Some rp \<Rightarrow> if rp_outfd rp > -1 then [rp_outfd rp] else [])\<rparr>),
           t\<lparr>rq_phase := Returned DUMP_OK\<rparr>)
     | Returned st \<Rightarrow> Some (s, t))"

text \<open>The service with all its requests. Any thread may take the next step.\<close>

inductive svc_step :: "svc_env \<Rightarrow> DumpManagerService \<times> request list \<Rightarrow> DumpManagerService \<times> request list \<Rightarrow> bool" for env where
  arrive: "svc_step env (s, ts) (s, ts @ [new_request args outfd uid pid permitted])"
| move: "i < length ts \<Longrightarrow> thread_step env s (ts ! i) = Some (s', t') \<Longrightarrow> svc_step env (s, ts) (s', ts[i := t'])"
| start: "svc_step env (s, ts) (OnStart env s, ts)"
| stop_begin: "svc_step env (s, ts) (OnStop_begin s, ts)"
| stop_cancel: "blockRequest s \<Longrightarrow> svc_step env (s, ts) (CancelAllRequest s, ts)"
| stop_end: "blockRequest s \<Longrightarrow> svc_step env (s, ts) (OnStop_end s, ts)"
| idle: "svc_step env (s, ts) (snd (OnIdle b s), ts)"
| unload: "svc_step env (s, ts) (snd (unload_task env s), ts)"

definition svc_init :: "usage_file \<Rightarrow> DumpManagerService" where
  "svc_init uf = \<lparr>started = False, blockRequest = False, requestIndex = 0, requestRawParamMap = [], tmp_folders = [],
     closed_fds = [], unload_posted = False, removed_zips = [], sv_usage = uf\<rparr>"

definition svc_reachable :: "svc_env \<Rightarrow> usage_file \<Rightarrow> DumpManagerService \<times> request list \<Rightarrow> bool" where
  "svc_reachable env uf st \<longleftrightarrow> (svc_step env)\<^sup>*\<^sup>* (svc_init uf, []) st"

end
