(* ===== verification/Service_Facts.thy ===== *)
theory Service_Facts
  imports Manager_Service
begin

text \<open>
  What holds of the service however its requests interleave: the table holds exactly the requests that
  are registered, ids are never shared, every descriptor is closed once. Each step of a thread is one of
  four kinds, and the invariant is shown for these.
\<close>

section \<open>Finding an id\<close>

lemma find_request_id_free:
  assumes "find_request_id index used = Some rid"
  shows "rid \<notin> set used \<and> rid < REQUESTID_MAX"
  by (rule find_request_id.raw_induct [OF _ assms])
    (auto simp: Let_def GetRequestId_def REQUESTID_MAX_def split: if_splits)

lemma find_request_id_reaches:
  "(index + 1 + n) mod REQUESTID_MAX \<notin> set used \<Longrightarrow> \<exists>rid. find_request_id index used = Some rid"
proof (induction n arbitrary: index)
  case 0
  then show ?case by (subst find_request_id.simps) (simp add: GetRequestId_def)
next
  case (Suc n)
  have "(GetRequestId index + 1 + n) mod REQUESTID_MAX = (index + 1 + Suc n) mod REQUESTID_MAX"
    using mod_add_left_eq [of "index + 1" REQUESTID_MAX "1 + n"] by (simp add: GetRequestId_def add.assoc)
  with Suc show ?case by (subst find_request_id.simps) (auto simp: Let_def)
qed

lemma find_request_id_ends:
  assumes "length used < REQUESTID_MAX"
  shows "\<exists>rid. find_request_id index used = Some rid"
proof -
  have "\<not> {..< REQUESTID_MAX} \<subseteq> set used"
    using card_mono [of "set used" "{..< REQUESTID_MAX}"] card_length [of used] assms by auto
  then obtain f where f: "f < REQUESTID_MAX" "f \<notin> set used" by auto
  have "index + 1 + (f + (REQUESTID_MAX - 1) * (index + 1)) = f + REQUESTID_MAX * (index + 1)"
    by (simp add: REQUESTID_MAX_def algebra_simps)
  then have "(index + 1 + (f + (REQUESTID_MAX - 1) * (index + 1))) mod REQUESTID_MAX = f" using f(1) by (simp only: mod_mult_self2 mod_less)
  with f(2) show ?thesis using find_request_id_reaches by metis
qed

section \<open>Contributions of the threads\<close>

definition thread_ids :: "request \<Rightarrow> nat list" where
  "thread_ids t = (case rq_phase t of MakeFolder r \<Rightarrow> [r] | RunMain r \<Rightarrow> [r] | EraseFolder r \<Rightarrow> [r] | Finish r \<Rightarrow> [r] | _ \<Rightarrow> [])"

definition returned :: "request \<Rightarrow> bool" where
  "returned t = (case rq_phase t of Returned _ \<Rightarrow> True | _ \<Rightarrow> False)"

definition fd_of :: "int \<Rightarrow> int list" where
  "fd_of fd = (if fd > -1 then [fd] else [])"

definition thread_closed :: "request \<Rightarrow> int list" where
  "thread_closed t = (if returned t then fd_of (rq_outfd t) else [])"

lemma contribution:
  assumes "i < length ts"
  shows "mset (concat (map f (ts[i := t']))) + mset (f (ts ! i)) = mset (concat (map f ts)) + mset (f t')"
proof -
  have "mset (concat (map f ts)) = mset (concat (map f (take i ts @ ts ! i # drop (Suc i) ts)))"
    using id_take_nth_drop [OF assms] by simp
  moreover have "ts[i := t'] = take i ts @ t' # drop (Suc i) ts" using assms by (simp add: upd_conv_take_nth_drop)
  ultimately show ?thesis by simp
qed

definition same_table :: "(nat \<times> RawParam) list \<Rightarrow> (nat \<times> RawParam) list \<Rightarrow> bool" where
  "same_table m m' \<longleftrightarrow> keys m' = keys m \<and> (\<forall>r. map_option rp_outfd (map_of m' r) = map_option rp_outfd (map_of m r))"

lemma same_table_refl [simp]: "same_table m m"
  by (simp add: same_table_def)

lemma same_table_modify: "(\<And>rp. rp_outfd (f rp) = rp_outfd rp) \<Longrightarrow> same_table m (modify r f m)"
  by (auto simp: same_table_def map_of_modify option.map_comp comp_def)

lemma same_table_cancel: "same_table m (map (\<lambda>(i, rp). (i, Cancel rp)) m)"
proof -
  have "map_of (map (\<lambda>(i, rp). (i, Cancel rp)) m) r = map_option Cancel (map_of m r)" for r by (induction m) auto
  then show ?thesis by (auto simp: same_table_def keys_def option.map_comp comp_def Cancel_def)
qed

lemma run_framework_fd [simp]: "rp_outfd (run_framework env rp) = rp_outfd rp"
  by (simp add: run_framework_def Let_def)

lemma RawParam_new_fd [simp]: "rp_outfd (RawParam_new sti uid pid rid args fd) = fd"
  by (simp add: RawParam_new_def RawParam_Init_def Let_def split: prod.splits)

text \<open>The four kinds of steps.\<close>

inductive thread_effect :: "DumpManagerService \<Rightarrow> request \<Rightarrow> DumpManagerService \<Rightarrow> request \<Rightarrow> bool" where
  pass: "same_table (requestRawParamMap s) (requestRawParamMap s') \<Longrightarrow> closed_fds s' = closed_fds s \<Longrightarrow> rq_outfd t' = rq_outfd t
    \<Longrightarrow> thread_ids t' = thread_ids t \<Longrightarrow> returned t' = returned t \<Longrightarrow> thread_effect s t s' t'"
| refuse: "requestRawParamMap s' = requestRawParamMap s \<Longrightarrow> closed_fds s' = closed_fds s @ fd_of (rq_outfd t) \<Longrightarrow> rq_outfd t' = rq_outfd t
    \<Longrightarrow> thread_ids t = [] \<Longrightarrow> thread_ids t' = [] \<Longrightarrow> \<not> returned t \<Longrightarrow> returned t' \<Longrightarrow> thread_effect s t s' t'"
| register: "requestRawParamMap s' = requestRawParamMap s @ [(rid, rp)] \<Longrightarrow> rid \<notin> set (keys (requestRawParamMap s)) \<Longrightarrow> rid < REQUESTID_MAX
    \<Longrightarrow> rp_outfd rp = rq_outfd t \<Longrightarrow> closed_fds s' = closed_fds s \<Longrightarrow> rq_outfd t' = rq_outfd t \<Longrightarrow> thread_ids t = [] \<Longrightarrow> thread_ids t' = [rid]
    \<Longrightarrow> \<not> returned t \<Longrightarrow> \<not> returned t' \<Longrightarrow> thread_effect s t s' t'"
| finish: "requestRawParamMap s' = erase_key rid (requestRawParamMap s) \<Longrightarrow> closed_fds s' = closed_fds s
      @ (case map_of (requestRawParamMap s) rid of None \<Rightarrow> [] | Some rp \<Rightarrow> fd_of (rp_outfd rp)) \<Longrightarrow> rq_outfd t' = rq_outfd t
    \<Longrightarrow> thread_ids t = [rid] \<Longrightarrow> thread_ids t' = [] \<Longrightarrow> \<not> returned t \<Longrightarrow> returned t' \<Longrightarrow> thread_effect s t s' t'"

lemmas service_ops = LogManager_Init_def EraseLogs_def EraseTmpFolder_def CreateTmpFolder_def DelayUnloadTask_def
  EraseRequestRawParam_def HandleRequestError_def refuse_request_def

lemma thread_step_effect:
  assumes "thread_step env s t = Some (s', t')"
  shows "thread_effect s t s' t'"
proof (cases "rq_phase t")
  case AddRequest
  with assms show ?thesis
    by (auto simp: thread_step_def AddRequestRawParam_def service_ops thread_ids_def returned_def dest!: find_request_id_free
        split: option.splits intro!: register)
next
  case (Finish rid)
  with assms show ?thesis
    by (auto simp: thread_step_def service_ops thread_ids_def returned_def fd_of_def split: option.splits intro!: finish)
next
  case (MakeFolder rid)
  with assms show ?thesis
    by (auto simp: thread_step_def service_ops thread_ids_def returned_def SetFolder_def intro!: pass same_table_modify)
next
  case (RunMain rid)
  with assms show ?thesis
    by (auto simp: thread_step_def service_ops thread_ids_def returned_def intro!: pass same_table_modify)
qed (use assms in \<open>auto simp: thread_step_def service_ops thread_ids_def returned_def fd_of_def Let_def split: if_splits intro: pass refuse\<close>)


section \<open>The invariant\<close>

definition svc_inv :: "DumpManagerService \<times> request list \<Rightarrow> bool" where
  "svc_inv st \<longleftrightarrow> (case st of (s, ts) \<Rightarrow>
     wf_map (requestRawParamMap s) \<and> (\<forall>r \<in> set (keys (requestRawParamMap s)). r < REQUESTID_MAX)
     \<and> mset (concat (map thread_ids ts)) = mset (keys (requestRawParamMap s))
     \<and> mset (concat (map thread_closed ts)) = mset (closed_fds s)
     \<and> (\<forall>t \<in> set ts. \<forall>r \<in> set (thread_ids t). map_option rp_outfd (map_of (requestRawParamMap s) r) = Some (rq_outfd t)))"

lemma svc_invI:
  assumes "wf_map (requestRawParamMap s)" "\<And>r. r \<in> set (keys (requestRawParamMap s)) \<Longrightarrow> r < REQUESTID_MAX"
    "mset (concat (map thread_ids ts)) = mset (keys (requestRawParamMap s))" "mset (concat (map thread_closed ts)) = mset (closed_fds s)"
    "\<And>t r. t \<in> set ts \<Longrightarrow> r \<in> set (thread_ids t) \<Longrightarrow> map_option rp_outfd (map_of (requestRawParamMap s) r) = Some (rq_outfd t)"
  shows "svc_inv (s, ts)"
  using assms by (simp add: svc_inv_def)

lemma distinct_contribution:
  assumes "distinct (concat (map f ts))" "i < length ts" "j < length ts" "i \<noteq> j" "r \<in> set (f (ts ! i))"
  shows "r \<notin> set (f (ts ! j))"
proof -
  have "distinct (concat (map f (take i ts @ ts ! i # drop (Suc i) ts)))" using assms(1) id_take_nth_drop [OF assms(2)] by simp
  then have "r \<notin> set (concat (map f (take i ts)))" "r \<notin> set (concat (map f (drop (Suc i) ts)))" using assms(5) by auto
  moreover have "ts ! j \<in> set (take i ts) \<or> ts ! j \<in> set (drop (Suc i) ts)"
  proof (cases "j < i")
    case True
    then show ?thesis using assms(3) by (metis in_set_conv_nth length_take min_less_iff_conj nth_take)
  next
    case False
    then have "ts ! j = drop (Suc i) ts ! (j - Suc i)" "j - Suc i < length (drop (Suc i) ts)" using assms by auto
    then show ?thesis by (metis nth_mem)
  qed
  ultimately show ?thesis by auto
qed

lemma other_thread:
  assumes "svc_inv (s, ts)" "i < length ts" "j < length ts" "i \<noteq> j" "r \<in> set (thread_ids (ts ! i))"
  shows "r \<notin> set (thread_ids (ts ! j))"
proof (rule distinct_contribution [of thread_ids, OF _ assms(2-5)])
  show "distinct (concat (map thread_ids ts))" using assms(1) by (auto simp: svc_inv_def dest!: mset_eq_imp_distinct_iff)
qed

lemma nth_update_cases: "t \<in> set (ts[i := t']) \<Longrightarrow> i < length ts \<Longrightarrow> t = t' \<or> (\<exists>j < length ts. j \<noteq> i \<and> t = ts ! j)"
  by (auto simp: in_set_conv_nth nth_list_update split: if_splits)

lemma map_of_erase_other: "r \<noteq> k \<Longrightarrow> map_of (erase_key k m) r = map_of m r"
  by (induction m) (auto simp: erase_key_def)

text \<open>A step of a thread, one lemma for each of the four kinds.\<close>

lemma inv_pass:
  assumes inv: "svc_inv (s, ts)" and i: "i < length ts" and e: "same_table (requestRawParamMap s) (requestRawParamMap s')"
    "closed_fds s' = closed_fds s" "rq_outfd t' = rq_outfd (ts ! i)" "thread_ids t' = thread_ids (ts ! i)" "returned t' = returned (ts ! i)"
  shows "svc_inv (s', ts[i := t'])"
proof (rule svc_invI)
  have "thread_closed t' = thread_closed (ts ! i)" using e by (simp add: thread_closed_def)
  with contribution [OF i, of thread_ids t'] contribution [OF i, of thread_closed t'] e inv
  show "mset (concat (map thread_ids (ts[i := t']))) = mset (keys (requestRawParamMap s'))"
    "mset (concat (map thread_closed (ts[i := t']))) = mset (closed_fds s')"
    by (simp_all add: svc_inv_def same_table_def)
  show "wf_map (requestRawParamMap s')" "\<And>r. r \<in> set (keys (requestRawParamMap s')) \<Longrightarrow> r < REQUESTID_MAX"
    using e inv by (auto simp: svc_inv_def same_table_def)
  show "map_option rp_outfd (map_of (requestRawParamMap s') r) = Some (rq_outfd t)" if "t \<in> set (ts[i := t'])" "r \<in> set (thread_ids t)" for t r
    using nth_update_cases [OF that(1) i] that(2) inv e i by (auto simp: svc_inv_def same_table_def)
qed

lemma inv_refuse:
  assumes inv: "svc_inv (s, ts)" and i: "i < length ts" and e: "requestRawParamMap s' = requestRawParamMap s"
    "closed_fds s' = closed_fds s @ fd_of (rq_outfd (ts ! i))" "rq_outfd t' = rq_outfd (ts ! i)" "thread_ids (ts ! i) = []" "thread_ids t' = []"
    "\<not> returned (ts ! i)" "returned t'"
  shows "svc_inv (s', ts[i := t'])"
proof (rule svc_invI)
  have "thread_closed t' = fd_of (rq_outfd (ts ! i))" "thread_closed (ts ! i) = []" using e by (simp_all add: thread_closed_def)
  with contribution [OF i, of thread_ids t'] contribution [OF i, of thread_closed t'] e inv
  show "mset (concat (map thread_ids (ts[i := t']))) = mset (keys (requestRawParamMap s'))"
    "mset (concat (map thread_closed (ts[i := t']))) = mset (closed_fds s')"
    by (simp_all add: svc_inv_def)
  show "wf_map (requestRawParamMap s')" "\<And>r. r \<in> set (keys (requestRawParamMap s')) \<Longrightarrow> r < REQUESTID_MAX"
    using e inv by (auto simp: svc_inv_def)
  show "map_option rp_outfd (map_of (requestRawParamMap s') r) = Some (rq_outfd t)" if "t \<in> set (ts[i := t'])" "r \<in> set (thread_ids t)" for t r
    using nth_update_cases [OF that(1) i] that(2) inv e i by (auto simp: svc_inv_def)
qed

lemma inv_register:
  assumes inv: "svc_inv (s, ts)" and i: "i < length ts" and e: "requestRawParamMap s' = requestRawParamMap s @ [(rid, rp)]"
    "rid \<notin> set (keys (requestRawParamMap s))" "rid < REQUESTID_MAX" "rp_outfd rp = rq_outfd (ts ! i)" "closed_fds s' = closed_fds s"
    "rq_outfd t' = rq_outfd (ts ! i)" "thread_ids (ts ! i) = []" "thread_ids t' = [rid]" "\<not> returned (ts ! i)" "\<not> returned t'"
  shows "svc_inv (s', ts[i := t'])"
proof (rule svc_invI)
  have "thread_closed t' = []" "thread_closed (ts ! i) = []" using e by (simp_all add: thread_closed_def)
  with contribution [OF i, of thread_ids t'] contribution [OF i, of thread_closed t'] e inv
  show "mset (concat (map thread_ids (ts[i := t']))) = mset (keys (requestRawParamMap s'))"
    "mset (concat (map thread_closed (ts[i := t']))) = mset (closed_fds s')"
    by (simp_all add: svc_inv_def)
  show "wf_map (requestRawParamMap s')" "\<And>r. r \<in> set (keys (requestRawParamMap s')) \<Longrightarrow> r < REQUESTID_MAX"
    using e inv by (auto simp: svc_inv_def)
  have old: "map_option rp_outfd (map_of (requestRawParamMap s') r) = Some fd"
    if "map_option rp_outfd (map_of (requestRawParamMap s) r) = Some fd" for r fd
    using that by (auto simp: e(1) map_add_def)
  have new: "map_of (requestRawParamMap s') rid = Some rp"
    using e(2) by (simp add: e(1) map_add_def map_of_None_iff [symmetric] split: option.split)
  show "map_option rp_outfd (map_of (requestRawParamMap s') r) = Some (rq_outfd t)" if "t \<in> set (ts[i := t'])" "r \<in> set (thread_ids t)" for t r
  proof (cases "t = t'")
    case True
    with that(2) e(4,6,8) new show ?thesis by simp
  next
    case False
    then have "t \<in> set ts" using nth_update_cases [OF that(1) i] by auto
    with inv that(2) show ?thesis by (intro old) (simp add: svc_inv_def)
  qed
qed

lemma inv_finish:
  assumes inv: "svc_inv (s, ts)" and i: "i < length ts" and e: "requestRawParamMap s' = erase_key rid (requestRawParamMap s)"
    "closed_fds s' = closed_fds s @ (case map_of (requestRawParamMap s) rid of None \<Rightarrow> [] | Some rp \<Rightarrow> fd_of (rp_outfd rp))"
    "rq_outfd t' = rq_outfd (ts ! i)" "thread_ids (ts ! i) = [rid]" "thread_ids t' = []" "\<not> returned (ts ! i)" "returned t'"
  shows "svc_inv (s', ts[i := t'])"
proof (rule svc_invI)
  have own: "map_option rp_outfd (map_of (requestRawParamMap s) rid) = Some (rq_outfd (ts ! i))"
    using inv i e(4) by (auto simp: svc_inv_def)
  then have "closed_fds s' = closed_fds s @ fd_of (rq_outfd (ts ! i))" using e(2) by (auto split: option.splits)
  moreover have "thread_closed t' = fd_of (rq_outfd (ts ! i))" "thread_closed (ts ! i) = []" using e by (simp_all add: thread_closed_def)
  ultimately show "mset (concat (map thread_closed (ts[i := t']))) = mset (closed_fds s')"
    using contribution [OF i, of thread_closed t'] inv by (simp add: svc_inv_def)
  have wf: "wf_map (requestRawParamMap s)" "rid \<in> set (keys (requestRawParamMap s))"
    using inv own map_of_Some_key by (fastforce simp: svc_inv_def)+
  have "mset (keys (requestRawParamMap s')) = mset (keys (requestRawParamMap s)) - {#rid#}"
  proof -
    have "keys (requestRawParamMap s') = removeAll rid (keys (requestRawParamMap s))"
      by (simp add: e(1) keys_erase removeAll_filter_not_eq eq_commute)
    then show ?thesis using wf by (simp add: distinct_remove1_removeAll [symmetric])
  qed
  with contribution [OF i, of thread_ids t'] e inv
  show "mset (concat (map thread_ids (ts[i := t']))) = mset (keys (requestRawParamMap s'))"
    by (simp add: svc_inv_def) (metis add_mset_remove_trivial)
  show "wf_map (requestRawParamMap s')" "\<And>r. r \<in> set (keys (requestRawParamMap s')) \<Longrightarrow> r < REQUESTID_MAX"
    using e(1) inv by (auto simp: svc_inv_def keys_erase)
  show "map_option rp_outfd (map_of (requestRawParamMap s') r) = Some (rq_outfd t)" if "t \<in> set (ts[i := t'])" "r \<in> set (thread_ids t)" for t r
  proof -
    from nth_update_cases [OF that(1) i] that(2) e(5) obtain j where j: "j < length ts" "j \<noteq> i" "t = ts ! j" by auto
    then have "r \<noteq> rid" using other_thread [OF inv i, of j rid] that(2) e(4) by auto
    then have "map_of (requestRawParamMap s') r = map_of (requestRawParamMap s) r"
      unfolding e(1) by (rule map_of_erase_other)
    then show ?thesis using inv that(2) j by (auto simp: svc_inv_def)
  qed
qed


lemma inv_thread:
  assumes inv: "svc_inv (s, ts)" and i: "i < length ts" and step: "thread_step env s (ts ! i) = Some (s', t')"
  shows "svc_inv (s', ts[i := t'])"
  using thread_step_effect [OF step]
proof cases
  case pass
  then show ?thesis by (rule inv_pass [OF inv i])
next
  case refuse
  then show ?thesis by (rule inv_refuse [OF inv i])
next
  case (register rid rp)
  then show ?thesis by (rule inv_register [OF inv i])
next
  case (finish rid)
  then show ?thesis by (rule inv_finish [OF inv i])
qed

lemma inv_same:
  assumes "svc_inv (s, ts)" "same_table (requestRawParamMap s) (requestRawParamMap s')" "closed_fds s' = closed_fds s"
  shows "svc_inv (s', ts)"
  using assms by (simp add: svc_inv_def same_table_def del: map_option_eq_Some)

lemma inv_step: "svc_step env st st' \<Longrightarrow> svc_inv st \<Longrightarrow> svc_inv st'"
proof (induction rule: svc_step.induct)
  case (arrive s ts args outfd uid pid permitted)
  then show ?case by (auto simp: svc_inv_def new_request_def thread_ids_def thread_closed_def returned_def)
next
  case (move i ts s s' t')
  then show ?case by (blast intro: inv_thread)
qed (erule inv_same; simp add: OnStart_def OnStop_begin_def OnStop_end_def OnIdle_def unload_task_def CancelAllRequest_def
    same_table_cancel)+

lemma inv_init: "svc_inv (svc_init uf, [])"
  by (simp add: svc_inv_def svc_init_def)

lemma inv_reachable: "svc_reachable env uf st \<Longrightarrow> svc_inv st"
  unfolding svc_reachable_def by (induction rule: rtranclp_induct) (auto intro: inv_init inv_step)

section \<open>Every request comes to an end\<close>

definition steps_left :: "request \<Rightarrow> nat" where
  "steps_left t = (case rq_phase t of CheckBlock \<Rightarrow> 10 | CheckStarted \<Rightarrow> 9 | CheckPermission \<Rightarrow> 8 | CheckSum \<Rightarrow> 7 | InitLogs \<Rightarrow> 6
     | AddRequest \<Rightarrow> 5 | MakeFolder _ \<Rightarrow> 4 | RunMain _ \<Rightarrow> 3 | EraseFolder _ \<Rightarrow> 2 | Finish _ \<Rightarrow> 1 | Returned _ \<Rightarrow> 0)"

lemma steps_left_decreases: "thread_step env s t = Some (s', t') \<Longrightarrow> \<not> returned t \<Longrightarrow> steps_left t' < steps_left t"
  by (auto simp: thread_step_def steps_left_def returned_def refuse_request_def CreateTmpFolder_def split: phase.splits option.splits if_splits)

lemma thread_step_defined:
  assumes "length (requestRawParamMap s) < REQUESTID_MAX"
  shows "\<exists>s' t'. thread_step env s t = Some (s', t')"
proof -
  have "length (keys (requestRawParamMap (DelayUnloadTask s))) < REQUESTID_MAX" using assms by (simp add: DelayUnloadTask_def)
  from find_request_id_ends [OF this] show ?thesis
    by (cases "rq_phase t") (fastforce simp: thread_step_def AddRequestRawParam_def CreateTmpFolder_def split: option.splits)+
qed

section \<open>The limit on requests\<close>

definition pending :: "request list \<Rightarrow> nat" where
  "pending ts = length (filter (\<lambda>t. rq_phase t \<in> {InitLogs, AddRequest}) ts)"

text \<open>Runs in which at most one thread at a time is between the check and the registration.\<close>

inductive serial_reach :: "svc_env \<Rightarrow> usage_file \<Rightarrow> DumpManagerService \<times> request list \<Rightarrow> bool" for env uf where
  begins: "serial_reach env uf (svc_init uf, [])"
| continues: "serial_reach env uf st \<Longrightarrow> svc_step env st st' \<Longrightarrow> pending (snd st') \<le> 1 \<Longrightarrow> serial_reach env uf st'"

lemma pending_update:
  "i < length ts \<Longrightarrow> pending (ts[i := t']) + (if rq_phase (ts ! i) \<in> {InitLogs, AddRequest} then 1 else 0)
    = pending ts + (if rq_phase t' \<in> {InitLogs, AddRequest} then 1 else 0)"
proof -
  assume i: "i < length ts"
  have "pending ts = pending (take i ts @ ts ! i # drop (Suc i) ts)" using id_take_nth_drop [OF i] by simp
  moreover have "ts[i := t'] = take i ts @ t' # drop (Suc i) ts" using i by (simp add: upd_conv_take_nth_drop)
  ultimately show ?thesis by (simp add: pending_def)
qed

definition pend :: "request \<Rightarrow> nat" where
  "pend t = (if rq_phase t \<in> {InitLogs, AddRequest} then 1 else 0)"

lemma thread_sum:
  assumes "thread_step env s t = Some (s', t')"
  shows "GetRequestSum s' + pend t' \<le> GetRequestSum s + pend t
    \<or> pend t = 0 \<and> pend t' = 1 \<and> s' = s \<and> GetRequestSum s < REQUEST_MAX"
proof (cases "rq_phase t")
  case AddRequest
  with assms show ?thesis
    by (auto simp: thread_step_def pend_def GetRequestSum_def AddRequestRawParam_def DelayUnloadTask_def split: option.splits)
next
  case (Finish rid)
  with assms show ?thesis by (auto simp: thread_step_def pend_def GetRequestSum_def EraseRequestRawParam_def erase_key_def)
qed (use assms in \<open>auto simp: thread_step_def pend_def GetRequestSum_def service_ops modify_def Let_def split: if_splits\<close>)

lemma serial_limit: "serial_reach env uf st \<Longrightarrow> GetRequestSum (fst st) + pending (snd st) \<le> REQUEST_MAX"
proof (induction rule: serial_reach.induct)
  case begins
  then show ?case by (simp add: svc_init_def GetRequestSum_def pending_def)
next
  case (continues st st')
  from continues(2) continues(4) show ?case
  proof (cases rule: svc_step.cases)
    case (arrive s ts)
    then show ?thesis using continues(4) by (simp add: pending_def new_request_def)
  next
    case (move i ts s s' t')
    have p: "pending (ts[i := t']) + pend (ts ! i) = pending ts + pend t'"
      using pending_update [OF move(3), of t'] by (simp add: pend_def)
    from thread_sum [OF move(4)] show ?thesis
    proof
      assume "GetRequestSum s' + pend t' \<le> GetRequestSum s + pend (ts ! i)"
      with p continues(4) move show ?thesis by simp
    next
      assume "pend (ts ! i) = 0 \<and> pend t' = 1 \<and> s' = s \<and> GetRequestSum s < REQUEST_MAX"
      with p continues(3) move show ?thesis by simp
    qed
  qed (auto simp: OnStart_def OnStop_begin_def OnStop_end_def OnIdle_def unload_task_def CancelAllRequest_def GetRequestSum_def split: if_splits)
qed

section \<open>Schedules\<close>

text \<open>A run given by the threads that take its steps.\<close>

fun run_moves :: "svc_env \<Rightarrow> nat list \<Rightarrow> DumpManagerService \<times> request list \<Rightarrow> (DumpManagerService \<times> request list) option" where
  "run_moves env [] st = Some st"
| "run_moves env (i # is) (s, ts) =
    (if i < length ts then
       (case thread_step env s (ts ! i) of None \<Rightarrow> None | Some (s', t') \<Rightarrow> run_moves env is (s', ts[i := t']))
     else None)"

lemma run_moves_reach: "run_moves env is st = Some st' \<Longrightarrow> (svc_step env)\<^sup>*\<^sup>* st st'"
proof (induction env "is" st rule: run_moves.induct)
  case (2 env i "is" s ts)
  from 2(2) obtain s' t' where t: "i < length ts" "thread_step env s (ts ! i) = Some (s', t')"
    and r: "run_moves env is (s', ts[i := t']) = Some st'" by (auto split: if_splits option.splits)
  have "(svc_step env)\<^sup>*\<^sup>* (s', ts[i := t']) st'" using 2(1) t r by simp
  with svc_step.move [OF t] show ?case by (rule converse_rtranclp_into_rtranclp)
qed simp

lemma arrivals_reach: "(svc_step env)\<^sup>*\<^sup>* (s, ts) (s, ts @ map (\<lambda>(args, outfd). new_request args outfd 0 0 True) rs)"
proof (induction rs arbitrary: ts)
  case (Cons r rs)
  obtain args outfd where r: "r = (args, outfd)" by fastforce
  from Cons [of "ts @ [new_request args outfd 0 0 True]"]
  have "(svc_step env)\<^sup>*\<^sup>* (s, ts @ [new_request args outfd 0 0 True]) (s, ts @ map (\<lambda>(args, outfd). new_request args outfd 0 0 True) (r # rs))"
    by (simp add: r)
  with svc_step.arrive [of env s ts args outfd 0 0 True] show ?case by (rule converse_rtranclp_into_rtranclp)
qed simp

lemma schedule_reachable:
  assumes "run_moves env is (OnStart env (svc_init uf), map (\<lambda>(args, outfd). new_request args outfd 0 0 True) rs) = Some st"
  shows "svc_reachable env uf st"
proof -
  have "svc_step env (svc_init uf, []) (OnStart env (svc_init uf), [])" by (rule svc_step.start)
  with arrivals_reach [of env "OnStart env (svc_init uf)" "[]" rs] run_moves_reach [OF assms] show ?thesis
    unfolding svc_reachable_def by (simp add: converse_rtranclp_into_rtranclp rtranclp_trans)
qed

section \<open>Requests that overtake the checks\<close>

definition ready :: "DumpManagerService \<Rightarrow> bool" where
  "ready s \<longleftrightarrow> started s \<and> \<not> blockRequest s \<and> requestRawParamMap s = []"

definition checked_request :: request where
  "checked_request = (new_request [] 1 0 0 True)\<lparr>rq_phase := AddRequest\<rparr>"

lemma move_last:
  "thread_step env s t = Some (s', t') \<Longrightarrow> (svc_step env)\<^sup>*\<^sup>* (s', ts @ [t']) st \<Longrightarrow> (svc_step env)\<^sup>*\<^sup>* (s, ts @ [t]) st"
  using svc_step.move [of "length ts" "ts @ [t]" env s s' t'] by (simp add: converse_rtranclp_into_rtranclp)

lemma reach_checked:
  assumes "ready s"
  shows "\<exists>s'. ready s' \<and> (svc_step env)\<^sup>*\<^sup>* (s, ts) (s', ts @ [checked_request])"
proof -
  let ?t = "\<lambda>p. (new_request [] 1 0 0 True)\<lparr>rq_phase := p\<rparr>"
  have "thread_step env s (?t CheckBlock) = Some (s, ?t CheckStarted)" "thread_step env s (?t CheckStarted) = Some (s, ?t CheckPermission)"
    "thread_step env s (?t CheckPermission) = Some (s, ?t CheckSum)" "thread_step env s (?t CheckSum) = Some (s, ?t InitLogs)"
    "thread_step env s (?t InitLogs) = Some (LogManager_Init env s, checked_request)"
    using assms by (simp_all add: thread_step_def ready_def new_request_def checked_request_def GetRequestSum_def REQUEST_MAX_def)
  then have "(svc_step env)\<^sup>*\<^sup>* (s, ts @ [?t CheckBlock]) (LogManager_Init env s, ts @ [checked_request])"
    by (blast intro: move_last)
  moreover have "?t CheckBlock = new_request [] 1 0 0 True" by (simp add: new_request_def)
  ultimately have "(svc_step env)\<^sup>*\<^sup>* (s, ts) (LogManager_Init env s, ts @ [checked_request])"
    using svc_step.arrive by (metis converse_rtranclp_into_rtranclp)
  moreover have "ready (LogManager_Init env s)" using assms by (simp add: ready_def LogManager_Init_def EraseLogs_def)
  ultimately show ?thesis by blast
qed

lemma reach_all_checked:
  "ready s \<Longrightarrow> \<exists>s'. ready s' \<and> (svc_step env)\<^sup>*\<^sup>* (s, ts) (s', ts @ replicate n checked_request)"
proof (induction n arbitrary: s ts)
  case (Suc n)
  from reach_checked [OF Suc(2)] obtain s1 where "ready s1" "(svc_step env)\<^sup>*\<^sup>* (s, ts) (s1, ts @ [checked_request])" by blast
  moreover from Suc(1) [OF this(1), of "ts @ [checked_request]"]
  obtain s' where "ready s'" "(svc_step env)\<^sup>*\<^sup>* (s1, ts @ [checked_request]) (s', ts @ replicate (Suc n) checked_request)" by auto
  ultimately show ?case by (blast intro: rtranclp_trans)
qed auto

lemma reach_registered:
  "length (requestRawParamMap s) + n \<le> REQUESTID_MAX \<Longrightarrow>
    \<exists>s' ts'. (svc_step env)\<^sup>*\<^sup>* (s, ts @ replicate n checked_request) (s', ts') \<and> GetRequestSum s' = GetRequestSum s + n"
proof (induction n arbitrary: s ts)
  case (Suc n)
  from find_request_id_ends [of "keys (requestRawParamMap s)"] Suc(2)
  obtain rid where "find_request_id (requestIndex s) (keys (requestRawParamMap s)) = Some rid" by fastforce
  then obtain s1 t1 where t: "thread_step env s checked_request = Some (s1, t1)" and l: "GetRequestSum s1 = Suc (GetRequestSum s)"
    by (simp add: thread_step_def checked_request_def AddRequestRawParam_def DelayUnloadTask_def GetRequestSum_def)
  have "svc_step env (s, ts @ replicate (Suc n) checked_request) (s1, (ts @ [t1]) @ replicate n checked_request)"
    using svc_step.move [of "length ts" "ts @ replicate (Suc n) checked_request" env s s1 t1] t by simp
  moreover have "length (requestRawParamMap s1) + n \<le> REQUESTID_MAX" using l Suc(2) by (simp add: GetRequestSum_def)
  with Suc(1) [of s1 "ts @ [t1]"] obtain s' ts' where
    "(svc_step env)\<^sup>*\<^sup>* (s1, (ts @ [t1]) @ replicate n checked_request) (s', ts')" "GetRequestSum s' = GetRequestSum s1 + n" by blast
  ultimately show ?case using l by (auto intro: converse_rtranclp_into_rtranclp)
qed auto

lemma ready_start: "init_ok env \<Longrightarrow> publish_ok env \<Longrightarrow> ready (OnStart env (svc_init uf))"
  by (simp add: ready_def OnStart_def svc_init_def)

text \<open>Any number of requests that passed the check before the first one registers is accepted.\<close>

lemma reach_any_sum:
  assumes "init_ok env" "publish_ok env" "n \<le> REQUESTID_MAX"
  shows "\<exists>st. svc_reachable env uf st \<and> GetRequestSum (fst st) = n"
proof -
  from reach_all_checked [OF ready_start [OF assms(1,2), of uf], of env "[]" n] obtain s where
    s: "ready s" "(svc_step env)\<^sup>*\<^sup>* (OnStart env (svc_init uf), []) (s, replicate n checked_request)" by auto
  from reach_registered [of s n env "[]"] s(1) assms(3) obtain s' ts' where
    "(svc_step env)\<^sup>*\<^sup>* (s, replicate n checked_request) (s', ts')" "GetRequestSum s' = n"
    by (auto simp: ready_def GetRequestSum_def)
  with s(2) svc_step.start [of env "svc_init uf" "[]"] show ?thesis
    unfolding svc_reachable_def by (metis converse_rtranclp_into_rtranclp fst_conv rtranclp_trans)
qed

text \<open>A thread that found the table empty removes the folder of a request that registered meanwhile.\<close>

lemma folder_race:
  assumes "init_ok env" "publish_ok env"
  shows "\<exists>s ts t rid. svc_reachable env uf (s, ts) \<and> t \<in> set ts \<and> rq_phase t = RunMain rid \<and> rid \<notin> set (tmp_folders s)"
proof -
  let ?s = "OnStart env (svc_init uf)"
  have "\<exists>s t. run_moves env [0, 0, 0, 0, 1, 1, 1, 1, 1, 1, 1, 0] (?s, map (\<lambda>(args, outfd). new_request args outfd 0 0 True) [([], 1), ([], 2)])
      = Some (s, [t, (new_request [] 2 0 0 True)\<lparr>rq_phase := RunMain 1\<rparr>]) \<and> tmp_folders s = []"
    using assms
    by (simp add: thread_step_def OnStart_def svc_init_def new_request_def GetRequestSum_def REQUEST_MAX_def LogManager_Init_def EraseLogs_def
        AddRequestRawParam_def DelayUnloadTask_def find_request_id.simps GetRequestId_def REQUESTID_MAX_def CreateTmpFolder_def)
  then show ?thesis by (fastforce dest: schedule_reachable)
qed

end
