(* ===== verification/Service_Scan.thy ===== *)
theory Service_Scan
  imports Common_Utils Fd_Thread_Facts
begin

text \<open>
  The scans for leaked descriptors that the service offers to other services, in
  \<^verbatim>\<open>src/services/native/src/dump_manager_service.cpp\<close>. \<open>CountPaths\<close>, \<open>TopN\<close>, \<open>GetSummary\<close> and the
  formatting of the lists have the same text there as in \<^verbatim>\<open>fd_thread_dumper.cpp\<close> and share its model.
\<close>

record OrphanVnodeInfo =
  ov_pid :: int
  ov_fdNum :: nat
  ov_processName :: string
  ov_topLinks :: "count_entry list"

record scan_env =
  sc_common :: common_env
  sc_counts :: count_env
  sc_permitted :: bool \<comment> \<open>\<open>HasDumpPermission\<close>\<close>
  is_real_dir :: "string \<Rightarrow> bool" \<comment> \<open>\<open>lstat\<close> and \<open>S_ISDIR\<close>\<close>
  stat_ok :: "string \<Rightarrow> bool"
  sc_process_name :: "int \<Rightarrow> string option"
  sort_orphans :: "OrphanVnodeInfo list \<Rightarrow> OrphanVnodeInfo list" \<comment> \<open>\<open>std::sort\<close>, more descriptors first\<close>

definition NEED_DUMP_FDLINK_NUMS :: int where "NEED_DUMP_FDLINK_NUMS = 1200"
definition ORPHAN_FD_TOP_CNT :: nat where "ORPHAN_FD_TOP_CNT = 3"
definition ORPHAN_FDLINKPATH_TOP_CNT :: nat where "ORPHAN_FDLINKPATH_TOP_CNT = 10"

definition GetFileDescriptorNums :: "scan_env \<Rightarrow> int \<Rightarrow> string \<Rightarrow> nat" where
  "GetFileDescriptorNums env pid requestType =
    (if contains requestType ''..'' \<or> contains requestType ''/'' then 0
     else
       let taskPath = ''/proc/'' @ to_string pid @ ''/'' @ requestType in
       if \<not> is_real_dir env taskPath then 0 else length (GetSubNodes (sc_common env) taskPath True))"

text \<open>\<open>None\<close> stands for the exception of \<open>GetAllPids\<close>.\<close>

definition ScanPidOverLimit :: "scan_env \<Rightarrow> string \<Rightarrow> int \<Rightarrow> int list \<Rightarrow> (DumpStatus \<times> int list) option" where
  "ScanPidOverLimit env requestType limitSize pidList =
    (if \<not> sc_permitted env then Some (DUMP_FAIL, pidList)
     else if limitSize < 0 then Some (DUMP_FAIL, pidList)
     else case GetAllPids (sc_common env) of
         None \<Rightarrow> None
       | Some pids \<Rightarrow>
           Some (DUMP_OK, fold (\<lambda>pid acc. if int (GetFileDescriptorNums env pid requestType) < limitSize then acc else hm_insert pid acc)
             pids pidList))"

definition svc_GetFdLinks :: "scan_env \<Rightarrow> int \<Rightarrow> string list" where
  "svc_GetFdLinks env pid =
    (let fdPath = ''/proc/'' @ to_string pid @ ''/fd/'' in
     map (\<lambda>node. GetFdLink (sc_counts env) (fdPath @ node)) (GetSubNodes (sc_common env) fdPath True))"

definition svc_type_paths :: "count_entry list \<Rightarrow> (string \<times> count_entry list) list" where
  "svc_type_paths linkCounts =
    fold (\<lambda>e typePaths. let type = take (FindFdClusterStartIndex (fst e)) (fst e) in
        if type \<noteq> fst e then put_path type e typePaths else typePaths) linkCounts []"

record fd_report =
  fr_nums :: nat
  fr_detail :: string
  fr_types :: "string list"

definition leaked_types :: "count_entry list \<Rightarrow> string list" where
  "leaked_types topLinks = map fst (filter (\<lambda>e. snd e > NEED_DUMP_FDLINK_NUMS) (tl (take FD_TOP_CNT topLinks)))"

text \<open>\<open>topLinks[0]\<close> is read without a check: \<open>None\<close> stands for a read outside the vector.\<close>

definition CountFdNums :: "scan_env \<Rightarrow> int \<Rightarrow> fd_report \<Rightarrow> (DumpStatus \<times> fd_report) option" where
  "CountFdNums env pid out =
    (if \<not> sc_permitted env then Some (DUMP_FAIL, out)
     else
       let links = svc_GetFdLinks env pid in
       if links = [] then Some (DUMP_FAIL, out)
       else
         let ce = sc_counts env;
             linkCounts = CountPaths links;
             topLinks = TopN ce linkCounts FD_TOP_CNT;
             typePaths = svc_type_paths (hash_order ce linkCounts);
             topTypes = TopN ce (type_total typePaths) FD_TOP_CNT in
         case topLinks of
           [] \<Rightarrow> None
         | top0 # _ \<Rightarrow>
             Some (DUMP_OK, \<lparr>fr_nums = length links,
               fr_detail = ''Summary:'' @ [CHR 0x0A] @ GetSummary topLinks topTypes @ [CHR 0x0A, CHR 0x0A] @ ''Leaked fd Top 10:'' @ [CHR 0x0A]
                 @ GetTopFdInfo topLinks @ ''Top Dir '' @ to_string (int FD_TOP_CNT) @ '':'' @ [CHR 0x0A]
                 @ GetTopDirInfo ce topTypes typePaths,
               fr_types = fr_types out @ [fst top0] @ leaked_types topLinks\<rparr>))"

section \<open>Orphans\<close>

text \<open>\<open>counter[k] += n\<close> and \<open>counter[k] = n\<close>\<close>

definition add_count :: "string \<Rightarrow> int \<Rightarrow> count_entry list \<Rightarrow> count_entry list" where
  "add_count k n counter = modify k (\<lambda>m. m + n) (emplace k 0 counter)"

definition set_count :: "string \<Rightarrow> int \<Rightarrow> count_entry list \<Rightarrow> count_entry list" where
  "set_count k n counter = modify k (\<lambda>_. n) (emplace k 0 counter)"

definition ScanOrphanVnodesForProcess :: "scan_env \<Rightarrow> int \<Rightarrow> int \<Rightarrow> count_entry list option" where
  "ScanOrphanVnodesForProcess env pid orphanVnodeThreshold =
    (let ce = sc_counts env;
         orphans = filter (\<lambda>dest. dest \<noteq> ''unknown'' \<and> \<not> stat_ok env dest) (svc_GetFdLinks env pid);
         orphanVnodeLinks = filter (\<lambda>dest. find_str ''/data'' dest = Some 0) orphans in
     if int (length orphans) \<le> orphanVnodeThreshold then None
     else
       let linkCounts = fold (\<lambda>link m. add_count link 1 m) orphanVnodeLinks [];
           typeTotal = fold (\<lambda>e m. let type = take (FindFdClusterStartIndex (fst e)) (fst e) in
               if type \<noteq> fst e then add_count type (snd e) m else m) (hash_order ce linkCounts) [];
           all = fold (\<lambda>e m. set_count (fst e) (snd e) m) (hash_order ce typeTotal) linkCounts in
       Some (TopN ce all ORPHAN_FDLINKPATH_TOP_CNT))"

definition FormatOrphanVnodeInfo :: "OrphanVnodeInfo \<Rightarrow> string" where
  "FormatOrphanVnodeInfo info =
    ''pid: '' @ to_string (ov_pid info) @ [CHR 0x0A] @ ''fdNum: '' @ digits (ov_fdNum info) @ [CHR 0x0A]
    @ (if ov_processName info \<noteq> [] then ''processName: '' @ ov_processName info @ [CHR 0x0A] else [])
    @ [CHR 0x0A] @ ''Orphan Vnode Top10'' @ [CHR 0x0A]
    @ concat (map (\<lambda>(path, count). path @ '' '' @ to_string count @ [CHR 0x0A]) (ov_topLinks info))"

definition ScanOrphanVnodeOverLimit :: "scan_env \<Rightarrow> int \<Rightarrow> int \<Rightarrow> string list \<Rightarrow> (DumpStatus \<times> string list) option" where
  "ScanOrphanVnodeOverLimit env fdLeakThreshold orphanVnodeThreshold out =
    (if \<not> sc_permitted env then Some (DUMP_FAIL, out)
     else if fdLeakThreshold < 0 \<or> orphanVnodeThreshold < 0 then Some (DUMP_FAIL, out)
     else case GetAllPids (sc_common env) of
         None \<Rightarrow> None
       | Some pids \<Rightarrow>
          (let results = concat (map (\<lambda>pid.
                 let fdNums = GetFileDescriptorNums env pid ''fd'' in
                 if int fdNums < fdLeakThreshold then []
                 else case ScanOrphanVnodesForProcess env pid orphanVnodeThreshold of
                     None \<Rightarrow> []
                   | Some topLinks \<Rightarrow> [\<lparr>ov_pid = pid, ov_fdNum = fdNums,
                       ov_processName = (case sc_process_name env pid of None \<Rightarrow> [] | Some n \<Rightarrow> n), ov_topLinks = topLinks\<rparr>]) pids) in
           Some (DUMP_OK, out @ map FormatOrphanVnodeInfo (take ORPHAN_FD_TOP_CNT (sort_orphans env results)))))"

section \<open>Facts\<close>

lemma CountPaths_nonempty: "links \<noteq> [] \<Longrightarrow> CountPaths links \<noteq> []"
  using CountPaths_total [of links] by auto

text \<open>The first of the largest counts is always there.\<close>

lemma CountFdNums_in_range:
  assumes "min_heap is_heap (sc_counts env)"
  shows "CountFdNums env pid out \<noteq> None"
proof -
  have "TopN (sc_counts env) (CountPaths links) FD_TOP_CNT \<noteq> []" if "links \<noteq> []" for links
  proof -
    have "length (TopN (sc_counts env) (CountPaths links) FD_TOP_CNT) = min FD_TOP_CNT (length (CountPaths links))"
      by (rule min_heap.TopN_spec(2) [OF assms]) (simp add: FD_TOP_CNT_def)
    with CountPaths_nonempty [OF that] show ?thesis by (cases "CountPaths links") (auto simp: FD_TOP_CNT_def)
  qed
  then show ?thesis by (auto simp: CountFdNums_def Let_def split: list.splits)
qed

text \<open>Exactly the processes at or over the limit are added, each once.\<close>

lemma ScanPidOverLimit_exact:
  assumes "sc_permitted env" "limitSize \<ge> 0" "GetAllPids (sc_common env) = Some pids" "distinct pidList"
  shows "\<exists>out. ScanPidOverLimit env requestType limitSize pidList = Some (DUMP_OK, out) \<and> distinct out
    \<and> set out = set pidList \<union> {pid \<in> set pids. int (GetFileDescriptorNums env pid requestType) \<ge> limitSize}"
proof -
  have "distinct acc \<Longrightarrow> distinct (fold (\<lambda>pid acc. if P pid then acc else hm_insert pid acc) ps acc)
      \<and> set (fold (\<lambda>pid acc. if P pid then acc else hm_insert pid acc) ps acc) = set acc \<union> {pid \<in> set ps. \<not> P pid}"
    for P and ps acc :: "int list"
    by (induction ps arbitrary: acc) (auto simp: hd_invs)
  from this [of pidList "\<lambda>pid. int (GetFileDescriptorNums env pid requestType) < limitSize" pids] assms show ?thesis
    by (auto simp: ScanPidOverLimit_def not_less)
qed

end
