(* ===== verification/Cpu_Service.thy ===== *)
theory Cpu_Service
  imports Complex_Main Common_Utils "HOL-Library.Product_Lexorder" "HOL-Library.Char_ord" "HOL-Library.List_Lexorder"
begin

text \<open>
  The CPU service: \<^verbatim>\<open>src/services/native/src/dump_cpu_data.cpp\<close> and
  \<^verbatim>\<open>dump_manager_cpu_service.cpp\<close>. The parcel of the IPC library is a record of operations; the collector
  of CPU usage, local time and the printing of floating-point numbers are parameters. Usages are
  rational numbers, so that the rounding of the products with 100 is not modelled.
\<close>

section \<open>The parcel\<close>

record 'p parcel_ops =
  WriteString :: "string \<Rightarrow> 'p \<Rightarrow> 'p option"
  WriteInt32 :: "32 word \<Rightarrow> 'p \<Rightarrow> 'p option"
  WriteUint32 :: "32 word \<Rightarrow> 'p \<Rightarrow> 'p option"
  WriteStringVector :: "string list \<Rightarrow> 'p \<Rightarrow> 'p option"
  ReadString :: "'p \<Rightarrow> (string \<times> 'p) option"
  ReadInt32 :: "'p \<Rightarrow> (32 word \<times> 'p) option"
  ReadStringVector :: "'p \<Rightarrow> (string list \<times> 'p) option"

record DumpCpuData =
  cd_startTime :: string
  cd_endTime :: string
  cd_cpuUsagePid :: "32 word"
  cd_dumpCPUDatas :: "string list list"

definition DumpCpuData_new :: DumpCpuData where
  "DumpCpuData_new = \<lparr>cd_startTime = [], cd_endTime = [], cd_cpuUsagePid = -1, cd_dumpCPUDatas = []\<rparr>"

fun write_rows :: "'p parcel_ops \<Rightarrow> string list list \<Rightarrow> 'p \<Rightarrow> 'p option" where
  "write_rows ops [] p = Some p"
| "write_rows ops (row # rows) p = (case WriteStringVector ops row p of None \<Rightarrow> None | Some p1 \<Rightarrow> write_rows ops rows p1)"

definition WriteStringMatrix :: "'p parcel_ops \<Rightarrow> string list list \<Rightarrow> 'p \<Rightarrow> 'p option" where
  "WriteStringMatrix ops martrixVec p =
    (case WriteUint32 ops (of_nat (length martrixVec)) p of None \<Rightarrow> None | Some p1 \<Rightarrow> write_rows ops martrixVec p1)"

text \<open>The rows that were read, even when a read fails, and whether all reads succeeded.\<close>

primrec read_rows :: "'p parcel_ops \<Rightarrow> nat \<Rightarrow> string list list \<Rightarrow> 'p \<Rightarrow> bool \<times> string list list \<times> 'p" where
  "read_rows ops 0 acc p = (True, acc, p)"
| "read_rows ops (Suc n) acc p =
    (case ReadStringVector ops p of None \<Rightarrow> (False, acc, p) | Some (row, p1) \<Rightarrow> read_rows ops n (acc @ [row]) p1)"

definition ReadStringMatrix :: "'p parcel_ops \<Rightarrow> string list list \<Rightarrow> 'p \<Rightarrow> bool \<times> string list list \<times> 'p" where
  "ReadStringMatrix ops martrixVec p =
    (case ReadInt32 ops p of
       None \<Rightarrow> (False, martrixVec, p)
     | Some (rows, p1) \<Rightarrow> read_rows ops (nat (sint rows)) [] p1)"

definition Marshalling :: "'p parcel_ops \<Rightarrow> DumpCpuData \<Rightarrow> 'p \<Rightarrow> 'p option" where
  "Marshalling ops d p = do {
     p1 \<leftarrow> WriteString ops (cd_startTime d) p;
     p2 \<leftarrow> WriteString ops (cd_endTime d) p1;
     p3 \<leftarrow> WriteInt32 ops (cd_cpuUsagePid d) p2;
     WriteStringMatrix ops (cd_dumpCPUDatas d) p3
   }"

text \<open>The result of \<open>ReadStringMatrix\<close> is not used.\<close>

definition ReadFromParcel :: "'p parcel_ops \<Rightarrow> DumpCpuData \<Rightarrow> 'p \<Rightarrow> (DumpCpuData \<times> 'p) option" where
  "ReadFromParcel ops d p = do {
     (startTime, p1) \<leftarrow> ReadString ops p;
     (endTime, p2) \<leftarrow> ReadString ops p1;
     (pid, p3) \<leftarrow> ReadInt32 ops p2;
     case ReadStringMatrix ops (cd_dumpCPUDatas d) p3 of (_, rows, p4) \<Rightarrow>
       Some (\<lparr>cd_startTime = startTime, cd_endTime = endTime, cd_cpuUsagePid = pid, cd_dumpCPUDatas = rows\<rparr>, p4)
   }"

definition Unmarshalling :: "'p parcel_ops \<Rightarrow> 'p \<Rightarrow> (DumpCpuData \<times> 'p) option" where
  "Unmarshalling ops p = ReadFromParcel ops DumpCpuData_new p"

section \<open>What the parcel promises\<close>

datatype parcel_item = StringItem string | IntItem "32 word" | VectorItem "string list"
  | TokenItem string | Vector16Item "string list" | FdItem int | IntVectorItem "32 word list"

definition data_items :: "DumpCpuData \<Rightarrow> parcel_item list" where
  "data_items d = [StringItem (cd_startTime d), StringItem (cd_endTime d), IntItem (cd_cpuUsagePid d),
     IntItem (of_nat (length (cd_dumpCPUDatas d)))] @ map VectorItem (cd_dumpCPUDatas d)"

locale parcel =
  fixes ops :: "'p parcel_ops" and contents :: "'p \<Rightarrow> parcel_item list"
  assumes write_string: "WriteString ops s p = Some p' \<Longrightarrow> contents p' = contents p @ [StringItem s]"
    and write_int: "WriteInt32 ops i p = Some p' \<Longrightarrow> contents p' = contents p @ [IntItem i]"
    and write_uint: "WriteUint32 ops i p = Some p' \<Longrightarrow> contents p' = contents p @ [IntItem i]"
    and write_vector: "WriteStringVector ops v p = Some p' \<Longrightarrow> contents p' = contents p @ [VectorItem v]"
    and read_string: "contents p = StringItem s # r \<Longrightarrow> \<exists>p'. ReadString ops p = Some (s, p') \<and> contents p' = r"
    and read_int: "contents p = IntItem i # r \<Longrightarrow> \<exists>p'. ReadInt32 ops p = Some (i, p') \<and> contents p' = r"
    and read_vector: "contents p = VectorItem v # r \<Longrightarrow> \<exists>p'. ReadStringVector ops p = Some (v, p') \<and> contents p' = r"
    and read_end: "contents p = [] \<Longrightarrow> ReadStringVector ops p = None"
begin

lemma write_rows_items: "write_rows ops rows p = Some p' \<Longrightarrow> contents p' = contents p @ map VectorItem rows"
  by (induction rows arbitrary: p) (auto split: option.splits dest: write_vector)

lemma Marshalling_items: "Marshalling ops d p = Some p' \<Longrightarrow> contents p' = contents p @ data_items d"
  by (auto simp: Marshalling_def WriteStringMatrix_def data_items_def split: option.splits bind_splits
      dest!: write_string write_int write_uint write_rows_items)

lemma read_rows_items:
  "contents p = map VectorItem rows @ r \<Longrightarrow>
    \<exists>p'. contents p' = r \<and> read_rows ops (length rows + n) acc p = read_rows ops n (acc @ rows) p'"
proof (induction rows arbitrary: acc p)
  case (Cons row rows)
  then obtain p1 where "ReadStringVector ops p = Some (row, p1)" "contents p1 = map VectorItem rows @ r"
    using read_vector by fastforce
  with Cons.IH [of p1 "acc @ [row]"] show ?case by auto
qed auto

text \<open>The reader reaches the rows with everything before them read.\<close>

lemma ReadFromParcel_items:
  assumes "contents p = take 4 (data_items d) @ r" "length (cd_dumpCPUDatas d) < 2 ^ 31"
  shows "\<exists>p'. contents p' = r \<and> Unmarshalling ops p = (case read_rows ops (length (cd_dumpCPUDatas d)) [] p' of
    (_, rows, p4) \<Rightarrow> Some (d\<lparr>cd_dumpCPUDatas := rows\<rparr>, p4))"
proof -
  define n :: "32 word" where "n = of_nat (length (cd_dumpCPUDatas d))"
  from assms(1) have c: "contents p = StringItem (cd_startTime d) # StringItem (cd_endTime d) # IntItem (cd_cpuUsagePid d) # IntItem n # r"
    by (simp add: data_items_def n_def)
  from read_string [OF c] obtain p1 where p1: "ReadString ops p = Some (cd_startTime d, p1)"
    "contents p1 = StringItem (cd_endTime d) # IntItem (cd_cpuUsagePid d) # IntItem n # r" by blast
  from read_string [OF p1(2)] obtain p2 where p2: "ReadString ops p1 = Some (cd_endTime d, p2)"
    "contents p2 = IntItem (cd_cpuUsagePid d) # IntItem n # r" by blast
  from read_int [OF p2(2)] obtain p3 where p3: "ReadInt32 ops p2 = Some (cd_cpuUsagePid d, p3)" "contents p3 = IntItem n # r" by blast
  from read_int [OF p3(2)] obtain p4 where p4: "ReadInt32 ops p3 = Some (n, p4)" "contents p4 = r" by blast
  have "sint n = int (length (cd_dumpCPUDatas d))" using assms(2) by (simp add: n_def signed_of_nat signed_take_bit_int_eq_self)
  then have "nat (sint n) = length (cd_dumpCPUDatas d)" by simp
  with p1 p2 p3 p4 show ?thesis by (auto simp: Unmarshalling_def ReadFromParcel_def ReadStringMatrix_def split: prod.splits)
qed

lemma Unmarshalling_items:
  assumes "contents p = data_items d @ r" "length (cd_dumpCPUDatas d) < 2 ^ 31"
  shows "\<exists>p'. Unmarshalling ops p = Some (d, p') \<and> contents p' = r"
proof -
  from ReadFromParcel_items [of p d, OF _ assms(2)] assms(1) obtain p1 where p1: "contents p1 = map VectorItem (cd_dumpCPUDatas d) @ r"
    "Unmarshalling ops p = (case read_rows ops (length (cd_dumpCPUDatas d)) [] p1 of (_, rows, p4) \<Rightarrow> Some (d\<lparr>cd_dumpCPUDatas := rows\<rparr>, p4))"
    by (auto simp: data_items_def)
  from read_rows_items [OF p1(1), of 0 "[]"] p1(2) show ?thesis by auto
qed

text \<open>A parcel that ends among the rows is accepted with the rows it has.\<close>

lemma Unmarshalling_truncated:
  assumes "contents p = take (4 + k) (data_items d)" "k < length (cd_dumpCPUDatas d)" "length (cd_dumpCPUDatas d) < 2 ^ 31"
  shows "\<exists>p'. Unmarshalling ops p = Some (d\<lparr>cd_dumpCPUDatas := take k (cd_dumpCPUDatas d)\<rparr>, p')"
proof -
  have "take (4 + k) (data_items d) = take 4 (data_items d) @ map VectorItem (take k (cd_dumpCPUDatas d))"
    by (simp add: data_items_def take_map eval_nat_numeral)
  from ReadFromParcel_items [OF _ assms(3), of p, OF assms(1) [unfolded this]] obtain p1 where
    p1: "contents p1 = map VectorItem (take k (cd_dumpCPUDatas d))"
    "Unmarshalling ops p = (case read_rows ops (length (cd_dumpCPUDatas d)) [] p1 of (_, rows, p4) \<Rightarrow> Some (d\<lparr>cd_dumpCPUDatas := rows\<rparr>, p4))" by blast
  have n: "length (cd_dumpCPUDatas d) = length (take k (cd_dumpCPUDatas d)) + Suc (length (cd_dumpCPUDatas d) - k - 1)" using assms(2) by simp
  from read_rows_items [of p1 "take k (cd_dumpCPUDatas d)" "[]" "Suc (length (cd_dumpCPUDatas d) - k - 1)" "[]", folded n] p1(1) obtain p2 where
    "contents p2 = []" "read_rows ops (length (cd_dumpCPUDatas d)) [] p1
      = read_rows ops (Suc (length (cd_dumpCPUDatas d) - k - 1)) (take k (cd_dumpCPUDatas d)) p2" by auto
  with read_end [of p2] p1(2) show ?thesis by simp
qed

end

text \<open>A parcel as the list of what it holds.\<close>

definition list_parcel :: "parcel_item list parcel_ops" where
  "list_parcel =
    \<lparr>WriteString = (\<lambda>s p. Some (p @ [StringItem s])), WriteInt32 = (\<lambda>i p. Some (p @ [IntItem i])),
     WriteUint32 = (\<lambda>i p. Some (p @ [IntItem i])), WriteStringVector = (\<lambda>v p. Some (p @ [VectorItem v])),
     ReadString = (\<lambda>p. case p of StringItem s # r \<Rightarrow> Some (s, r) | _ \<Rightarrow> None),
     ReadInt32 = (\<lambda>p. case p of IntItem i # r \<Rightarrow> Some (i, r) | _ \<Rightarrow> None),
     ReadStringVector = (\<lambda>p. case p of VectorItem v # r \<Rightarrow> Some (v, r) | _ \<Rightarrow> None)\<rparr>"

interpretation lists: parcel list_parcel "\<lambda>p. p"
  by unfold_locales (auto simp: list_parcel_def)


section \<open>The service\<close>

record CPUInfo =
  ci_userUsage :: rat
  ci_niceUsage :: rat
  ci_systemUsage :: rat
  ci_idleUsage :: rat
  ci_ioWaitUsage :: rat
  ci_irqUsage :: rat
  ci_softIrqUsage :: rat

record ProcInfo =
  pi_userSpaceUsage :: rat
  pi_sysSpaceUsage :: rat
  pi_totalUsage :: rat
  pi_pid :: string
  pi_comm :: string
  pi_minflt :: string
  pi_majflt :: string

record cpu_stat = \<comment> \<open>\<open>ProcessCpuStatInfo\<close> of the collector\<close>
  cs_pid :: int
  cs_procName :: string
  cs_minFlt :: int
  cs_majFlt :: int
  cs_uCpuUsage :: rat
  cs_sCpuUsage :: rat
  cs_cpuUsage :: rat

record cpu_env =
  collector_ok :: bool \<comment> \<open>\<open>CpuCollector::Create\<close>\<close>
  proc_stats :: "cpu_stat list option" \<comment> \<open>\<open>CollectProcessCpuStatInfos\<close>\<close>
  proc_stat :: "int \<Rightarrow> cpu_stat option" \<comment> \<open>\<open>CollectProcessCpuStatInfo\<close>\<close>
  sys_usage :: "(nat \<times> nat \<times> CPUInfo list) option" \<comment> \<open>start, end, per CPU\<close>
  load_avg :: "(string \<times> string \<times> string) option" \<comment> \<open>\<open>to_string\<close> of the three averages\<close>
  cpu_localtime :: "nat \<Rightarrow> tm"
  fixed2 :: "rat \<Rightarrow> string" \<comment> \<open>\<open>%.2f\<close>\<close>
  cpu_permitted :: bool
  cpu_callerUid :: int
  cpu_callerPid :: int

record DumpManagerCpuService =
  cpu_started :: bool
  cpu_startTime :: nat
  cpu_endTime :: nat
  curCPUInfo :: "CPUInfo option"
  curSpecProc :: "ProcInfo option"
  curProcs :: "ProcInfo list"
  cpuUsagePid :: int
  dumpCPUDatas :: "string list list"

definition CPUInfo_new :: CPUInfo where
  "CPUInfo_new = \<lparr>ci_userUsage = 0, ci_niceUsage = 0, ci_systemUsage = 0, ci_idleUsage = 0, ci_ioWaitUsage = 0, ci_irqUsage = 0,
     ci_softIrqUsage = 0\<rparr>"

definition ProcInfo_new :: ProcInfo where
  "ProcInfo_new = \<lparr>pi_userSpaceUsage = 0, pi_sysSpaceUsage = 0, pi_totalUsage = 0, pi_pid = [], pi_comm = [], pi_minflt = [], pi_majflt = []\<rparr>"

definition INVALID_PID :: int where "INVALID_PID = -1"
definition PROC_CPU_LENGTH :: nat where "PROC_CPU_LENGTH = 256"

definition cpu_OnStart :: "DumpManagerCpuService \<Rightarrow> DumpManagerCpuService" where
  "cpu_OnStart s = (if cpu_started s then s else s\<lparr>cpu_started := True\<rparr>)"

definition InitParam :: "DumpCpuData \<Rightarrow> DumpManagerCpuService \<Rightarrow> DumpManagerCpuService" where
  "InitParam d s =
    (let pid = sint (cd_cpuUsagePid d) in
     s\<lparr>cpuUsagePid := pid, curSpecProc := (if pid \<noteq> INVALID_PID then Some ProcInfo_new else curSpecProc s),
       curCPUInfo := Some CPUInfo_new, dumpCPUDatas := cd_dumpCPUDatas d\<rparr>)"

definition ResetParam :: "DumpManagerCpuService \<Rightarrow> DumpManagerCpuService" where
  "ResetParam s = s\<lparr>curCPUInfo := None, curProcs := [], curSpecProc := (if cpuUsagePid s \<noteq> INVALID_PID then None else curSpecProc s)\<rparr>"

text \<open>Only the first entry of the per-CPU list is used. An uninitialised \<open>CPUInfo\<close> is the zero record.\<close>

definition GetSysCPUInfo :: "cpu_env \<Rightarrow> DumpManagerCpuService \<Rightarrow> bool \<times> DumpManagerCpuService" where
  "GetSysCPUInfo env s =
    (case curCPUInfo s of
       None \<Rightarrow> (False, s)
     | Some _ \<Rightarrow>
        (if \<not> collector_ok env then (False, s)
         else if proc_stats env = None \<or> proc_stats env = Some [] then (False, s)
         else case sys_usage env of
             None \<Rightarrow> (False, s)
           | Some (st, en, infos) \<Rightarrow>
               (True, s\<lparr>cpu_startTime := st, cpu_endTime := en,
                 curCPUInfo := (case infos of [] \<Rightarrow> curCPUInfo s | info # _ \<Rightarrow> Some info)\<rparr>)))"

definition proc_info :: "cpu_stat \<Rightarrow> ProcInfo" where
  "proc_info c = \<lparr>pi_userSpaceUsage = cs_uCpuUsage c * 100, pi_sysSpaceUsage = cs_sCpuUsage c * 100, pi_totalUsage = cs_cpuUsage c * 100,
     pi_pid = to_string (cs_pid c), pi_comm = cs_procName c, pi_minflt = to_string (cs_minFlt c), pi_majflt = to_string (cs_majFlt c)\<rparr>"

definition GetAllProcInfo :: "cpu_env \<Rightarrow> ProcInfo list \<Rightarrow> ProcInfo list option" where
  "GetAllProcInfo env procInfos =
    (if \<not> collector_ok env then None
     else case proc_stats env of
         None \<Rightarrow> None
       | Some stats \<Rightarrow> if stats = [] then None else Some (procInfos @ map proc_info stats))"

definition GetSingleProcInfo :: "cpu_env \<Rightarrow> int \<Rightarrow> ProcInfo option \<Rightarrow> ProcInfo option" where
  "GetSingleProcInfo env pid specProc =
    (if specProc = None \<or> \<not> collector_ok env then None else map_option proc_info (proc_stat env pid))"

definition ReadLoadAvgInfo :: "cpu_env \<Rightarrow> string option" where
  "ReadLoadAvgInfo env =
    (if \<not> collector_ok env then None
     else map_option (\<lambda>(a, b, c). ''Load average: '' @ take 4 a @ '' / '' @ take 4 b @ '' / '' @ take 4 c
       @ ''; the cpu load average in 1 min, 5 min and 15 min'') (load_avg env))"

definition cpu_GetDateAndTime :: "cpu_env \<Rightarrow> nat \<Rightarrow> string" where
  "cpu_GetDateAndTime env timeStamp =
    (let t = cpu_localtime env timeStamp in
     '' '' @ to_string (1900 + tm_year t) @ ''-'' @ two_digits (1 + tm_mon t) @ ''-'' @ two_digits (tm_mday t) @ '' ''
     @ two_digits (tm_hour t) @ '':'' @ two_digits (tm_min t) @ '':'' @ two_digits (tm_sec t))"

definition CreateDumpTimeString :: "string \<Rightarrow> string \<Rightarrow> string" where
  "CreateDumpTimeString startTime endTime = ''CPU usage from'' @ startTime @ '' to'' @ endTime"

definition AddStrLineToDumpInfo :: "string \<Rightarrow> DumpManagerCpuService \<Rightarrow> DumpManagerCpuService" where
  "AddStrLineToDumpInfo line s = s\<lparr>dumpCPUDatas := dumpCPUDatas s @ [[line]]\<rparr>"

text \<open>\<open>sprintf_s\<close> into a buffer of \<open>PROC_CPU_LENGTH\<close> characters; \<open>None\<close> when the text does not fit.\<close>

definition sprintf_s :: "string \<Rightarrow> string option" where
  "sprintf_s text = (if length text < PROC_CPU_LENGTH then Some text else None)"

definition CreateCPUStatString :: "cpu_env \<Rightarrow> CPUInfo \<Rightarrow> string" where
  "CreateCPUStatString env c =
    (let user = (ci_userUsage c + ci_niceUsage c) * 100; sys = ci_systemUsage c * 100; f = fixed2 env in
     case sprintf_s (''Total: '' @ f (user + sys) @ ''%; User Space: '' @ f user @ ''%; Kernel Space: '' @ f sys
         @ ''%; iowait: '' @ f (ci_ioWaitUsage c * 100) @ ''%; irq: '' @ f ((ci_irqUsage c + ci_softIrqUsage c) * 100)
         @ ''%; idle: '' @ f (ci_idleUsage c * 100) @ ''%'') of
       None \<Rightarrow> [] | Some text \<Rightarrow> text)"

definition SortProcInfo :: "ProcInfo \<Rightarrow> ProcInfo \<Rightarrow> bool" where
  "SortProcInfo left right =
    (if pi_totalUsage right \<noteq> pi_totalUsage left then pi_totalUsage right < pi_totalUsage left
     else if pi_userSpaceUsage right \<noteq> pi_userSpaceUsage left then pi_userSpaceUsage right < pi_userSpaceUsage left
     else if pi_sysSpaceUsage right \<noteq> pi_sysSpaceUsage left then pi_sysSpaceUsage right < pi_sysSpaceUsage left
     else if length (pi_pid right) \<noteq> length (pi_pid left) then length (pi_pid right) < length (pi_pid left)
     else pi_pid right < pi_pid left)"

text \<open>The key whose ascending order is the order of \<open>SortProcInfo\<close>.\<close>

definition proc_key :: "ProcInfo \<Rightarrow> rat \<times> rat \<times> rat \<times> int \<times> int list" where
  "proc_key p = (- pi_totalUsage p, - pi_userSpaceUsage p, - pi_sysSpaceUsage p, - int (length (pi_pid p)),
     map (\<lambda>c. - int (of_char c)) (pi_pid p))"

definition proc_line :: "cpu_env \<Rightarrow> ProcInfo \<Rightarrow> string option" where
  "proc_line env p = sprintf_s
    (''    '' @ pad_right 5 (c_str (pi_pid p)) @ ''    '' @ pad_left 6 (fixed2 env (pi_totalUsage p)) @ ''%         ''
     @ pad_left 6 (fixed2 env (pi_userSpaceUsage p)) @ ''%        '' @ pad_left 6 (fixed2 env (pi_sysSpaceUsage p)) @ ''%        ''
     @ pad_left 8 (c_str (pi_minflt p)) @ ''            '' @ pad_left 8 (c_str (pi_majflt p)) @ ''            ''
     @ pad_right 15 (c_str (pi_comm p)))"

definition proc_header :: string where
  "proc_header = ''    PID   Total Usage'' @ [CHR 0x09]
     @ ''   User Space    Kernel Space    Page Fault Minor    Page Fault Major    Name''"

text \<open>A process that does not fit is left out of the table; a single one becomes an empty line.\<close>

definition DumpProcInfo :: "cpu_env \<Rightarrow> DumpManagerCpuService \<Rightarrow> DumpManagerCpuService" where
  "DumpProcInfo env s =
    (let sortedInfos = sort_key proc_key (curProcs s);
         s1 = AddStrLineToDumpInfo proc_header (AddStrLineToDumpInfo ''Details of Processes:'' s) in
     if cpuUsagePid s \<noteq> INVALID_PID then
       (case curSpecProc s of
          None \<Rightarrow> s1
        | Some p \<Rightarrow> AddStrLineToDumpInfo (case proc_line env p of None \<Rightarrow> [] | Some l \<Rightarrow> l) s1)
     else fold (\<lambda>p s. case proc_line env p of None \<Rightarrow> s | Some l \<Rightarrow> AddStrLineToDumpInfo l s) sortedInfos s1)"

definition collect_procs :: "cpu_env \<Rightarrow> DumpManagerCpuService \<Rightarrow> bool \<times> DumpManagerCpuService" where
  "collect_procs env s =
    (if cpuUsagePid s \<noteq> INVALID_PID then
       (case GetSingleProcInfo env (cpuUsagePid s) (curSpecProc s) of None \<Rightarrow> (False, s) | Some p \<Rightarrow> (True, s\<lparr>curSpecProc := Some p\<rparr>))
     else (case GetAllProcInfo env (curProcs s) of None \<Rightarrow> (False, s) | Some ps \<Rightarrow> (True, s\<lparr>curProcs := ps\<rparr>)))"

definition DumpCpuUsageData :: "cpu_env \<Rightarrow> DumpManagerCpuService \<Rightarrow> DumpStatus \<times> DumpManagerCpuService" where
  "DumpCpuUsageData env s0 =
    (case GetSysCPUInfo env s0 of (ok, s) \<Rightarrow>
     if \<not> ok then (DUMP_FAIL, s)
     else case collect_procs env s of (ok, s) \<Rightarrow>
     if \<not> ok then (DUMP_FAIL, s)
     else case ReadLoadAvgInfo env of
         None \<Rightarrow> (DUMP_FAIL, s)
       | Some avgInfo \<Rightarrow>
          (let s1 = AddStrLineToDumpInfo avgInfo s;
               s2 = AddStrLineToDumpInfo (CreateDumpTimeString (cpu_GetDateAndTime env (cpu_startTime s1 div 1000))
                      (cpu_GetDateAndTime env (cpu_endTime s1 div 1000))) s1;
               s3 = AddStrLineToDumpInfo (CreateCPUStatString env (case curCPUInfo s2 of None \<Rightarrow> CPUInfo_new | Some c \<Rightarrow> c)) s2 in
           (DUMP_OK, DumpProcInfo env s3)))"

definition cpu_Request :: "cpu_env \<Rightarrow> DumpCpuData \<Rightarrow> DumpManagerCpuService \<Rightarrow> DumpStatus \<times> DumpCpuData \<times> DumpManagerCpuService" where
  "cpu_Request env d s0 =
    (let s = InitParam d s0 in
     if \<not> cpu_permitted env then (DUMP_NOPERMISSION, d, s)
     else case DumpCpuUsageData env s of (ret, s1) \<Rightarrow>
       (ret, d\<lparr>cd_dumpCPUDatas := dumpCPUDatas s1\<rparr>, ResetParam s1))"

definition GetCpuUsageByPid :: "cpu_env \<Rightarrow> int \<Rightarrow> rat \<Rightarrow> DumpStatus \<times> rat" where
  "GetCpuUsageByPid env pid cpuUsage =
    (if cpu_callerUid env \<ge> 10000 \<and> pid \<noteq> cpu_callerPid env then (DUMP_NOPERMISSION, cpuUsage)
     else if \<not> collector_ok env then (DUMP_FAIL, cpuUsage)
     else if pid \<noteq> INVALID_PID then
       (case GetSingleProcInfo env pid (Some ProcInfo_new) of
          None \<Rightarrow> (DUMP_FAIL, cpuUsage)
        | Some p \<Rightarrow> (DUMP_OK, pi_totalUsage p / 100))
     else (DUMP_OK, cpuUsage))"

section \<open>Facts\<close>

lemma neg_chars_less:
  "length (xs :: string) = length ys \<Longrightarrow> map (\<lambda>c. - int (of_char c)) ys < map (\<lambda>c. - int (of_char c)) xs \<longleftrightarrow> xs < ys"
proof (induction xs ys rule: list_induct2)
  case Nil
  show ?case by simp
next
  case (Cons x xs y ys)
  have "(of_char y :: int) = of_char x \<longleftrightarrow> x = y" by auto
  with Cons show ?case by (auto simp: less_char_def)
qed

lemma SortProcInfo_key: "SortProcInfo l r \<longleftrightarrow> proc_key l < proc_key r"
  by (auto simp: SortProcInfo_def proc_key_def less_prod_def' neg_chars_less)

text \<open>No process of the table stands before one that \<open>SortProcInfo\<close> puts first.\<close>

lemma procs_sorted: "sorted_wrt (\<lambda>p q. \<not> SortProcInfo q p) (sort_key proc_key procs)"
proof -
  have "sorted (map proc_key (sort_key proc_key procs))" by simp
  then show ?thesis unfolding sorted_map SortProcInfo_key by (simp add: not_less)
qed

text \<open>A request leaves no process information behind, unless it is refused before it collects any.\<close>

lemma cpu_Request_resets: "cpu_permitted env \<Longrightarrow> curProcs (snd (snd (cpu_Request env d s))) = []"
  by (auto simp: cpu_Request_def ResetParam_def Let_def split: prod.splits)

lemma GetCpuUsageByPid_own: "cpu_callerUid env \<ge> 10000 \<Longrightarrow> fst (GetCpuUsageByPid env pid u) = DUMP_OK \<Longrightarrow> pid = cpu_callerPid env"
  by (auto simp: GetCpuUsageByPid_def split: if_splits)

end
