(* ===== verification/Service_Properties.thy ===== *)
theory Service_Properties
  imports Service_Facts Service_Scan Cpu_Service
begin

text \<open>
  The properties of the services: the archives in the log folder, the requests of the dump service and
  the data of the CPU service.
\<close>

section \<open>Examples\<close>

definition zip_names :: "string list" where
  "zip_names = [''b'', ''c'', ''a'']"

definition demo_dir :: dir_env where
  "demo_dir = \<lparr>dir_exists = (\<lambda>_. True), dir_files = (\<lambda>_. zip_names), path_of = (\<lambda>_. ZIP_FOLDER), name_of = id, ext_of = (\<lambda>_. ''zip''),
     file_size = (\<lambda>_. Some (50 * 1024 * 1024)), can_remove = (\<lambda>_. True)\<rparr>"

definition demo_svc :: svc_env where
  "demo_svc = \<lparr>init_ok = True, publish_ok = True, framework = (\<lambda>_ rp. rp), sv_str_to_int = (\<lambda>_. Some 1), zip_env = demo_dir,
     sv_usage_env = \<lparr>us_now = 0, us_localtime = (\<lambda>_. \<lparr>tm_year = 0, tm_mon = 0, tm_mday = 1, tm_hour = 0, tm_min = 0, tm_sec = 0\<rparr>),
       us_can_stat = False, us_can_open = False, us_can_read = False, us_event = (\<lambda>_. 0)\<rparr>, unload_ok = True\<rparr>"

section \<open>Archives\<close>

text \<open>
  C37. The log folder. As long as it has at most 20 archives and 100 MB nothing is removed. Otherwise
  the archives are removed in the order of their names, and exactly as many as are needed to
  come down to 20 archives and 80 MB, provided that every file can be removed.
\<close>

theorem archives_limited:
  assumes "\<And>path. can_remove env path"
  shows "within_limits (archives env dirPath) \<and> CleanOldFiles env dirPath = []
    \<or> \<not> within_limits (archives env dirPath) \<and> (\<exists>k \<le> length (archives env dirPath).
        CleanOldFiles env dirPath = map fi_path (take k (archives env dirPath)) \<and> within_target (drop k (archives env dirPath))
        \<and> (\<forall>j < k. \<not> within_target (drop j (archives env dirPath))))"
  using assms by (rule CleanOldFiles_prefix)

theorem archives_limited_witness:
  "\<exists>k. CleanOldFiles demo_dir ZIP_FOLDER = map fi_path (take k (archives demo_dir ZIP_FOLDER))
    \<and> within_target (drop k (archives demo_dir ZIP_FOLDER))"
proof -
  have "\<not> within_limits (archives demo_dir ZIP_FOLDER)"
    unfolding within_limits_def archives_def total_size_sort
    by (simp add: demo_dir_def zip_names_def GetDirTotalSize_def total_size_def ZIP_MAX_SIZE_def)
  with archives_limited [of demo_dir ZIP_FOLDER] show ?thesis by (auto simp: demo_dir_def)
qed

section \<open>Requests\<close>

text \<open>
  C38. Requests are tracked. Whatever the order in which the threads of the service proceed, the table
  holds exactly the requests that registered and have not finished, under distinct ids below 100000 and each
  with its own descriptor; the descriptors that were closed are those of the requests that returned,
  once each, refused requests included. As long as an id is free every request that has not returned can take
  its next step, and it needs at most ten.
\<close>

theorem requests_tracked:
  assumes "svc_reachable env uf (s, ts)"
  shows "distinct (keys (requestRawParamMap s)) \<and> (\<forall>r \<in> set (keys (requestRawParamMap s)). r < 100000)
    \<and> mset (keys (requestRawParamMap s)) = mset (concat (map thread_ids ts))
    \<and> (\<forall>t \<in> set ts. \<forall>r \<in> set (thread_ids t). \<exists>rp. map_of (requestRawParamMap s) r = Some rp \<and> rp_outfd rp = rq_outfd t)
    \<and> mset (closed_fds s) = mset (concat (map thread_closed ts))
    \<and> (\<forall>t \<in> set ts. \<not> returned t \<and> GetRequestSum s < 100000 \<longrightarrow>
        steps_left t \<le> 10 \<and> (\<exists>s' t'. thread_step env s t = Some (s', t') \<and> steps_left t' < steps_left t))"
proof -
  have "svc_inv (s, ts)" using assms by (rule inv_reachable)
  moreover have "\<exists>s' t'. thread_step env s t = Some (s', t') \<and> steps_left t' < steps_left t"
    if "\<not> returned t" "GetRequestSum s < 100000" for t
    using thread_step_defined [of s env t] steps_left_decreases that by (fastforce simp: GetRequestSum_def REQUESTID_MAX_def)
  moreover have "steps_left t \<le> 10" for t by (simp add: steps_left_def split: phase.split)
  ultimately show ?thesis by (auto simp: svc_inv_def REQUESTID_MAX_def)
qed

theorem requests_tracked_witness:
  "\<forall>uf. \<exists>s ts. svc_reachable demo_svc uf (s, ts) \<and> closed_fds s = [7] \<and> mset (concat (map thread_closed ts)) = {#7#}"
proof
  fix uf
  have "\<exists>s t. run_moves demo_svc [0, 0, 0, 0, 0, 0, 0, 0, 0, 0]
      (OnStart demo_svc (svc_init uf), map (\<lambda>(args, outfd). new_request args outfd 0 0 True) [([], 7)]) = Some (s, [t]) \<and> closed_fds s = [7]"
    by (simp add: demo_svc_def thread_step_def OnStart_def svc_init_def new_request_def GetRequestSum_def REQUEST_MAX_def LogManager_Init_def
        EraseLogs_def AddRequestRawParam_def DelayUnloadTask_def find_request_id.simps GetRequestId_def REQUESTID_MAX_def CreateTmpFolder_def
        EraseTmpFolder_def EraseRequestRawParam_def modify_def SetFolder_def)
  then obtain s ts where "svc_reachable demo_svc uf (s, ts)" "closed_fds s = [7]" by (blast dest: schedule_reachable)
  with requests_tracked [OF this(1)] show "\<exists>s ts. svc_reachable demo_svc uf (s, ts) \<and> closed_fds s = [7]
      \<and> mset (concat (map thread_closed ts)) = {#7#}" by (metis mset_single_iff_right)
qed

text \<open>
  C39. The limit of five requests. It holds as long as at most one thread at a time is between the check
  of the limit and the registration. The code does not ensure this, since the check and the
  registration lock \<open>mutex_\<close> separately: a service that starts can come to hold any number of
  requests up to the number of ids.
\<close>

theorem request_limit:
  assumes "init_ok env" and "publish_ok env"
  shows "(\<forall>st. serial_reach env uf st \<longrightarrow> GetRequestSum (fst st) \<le> REQUEST_MAX)
    \<and> (\<forall>n \<le> REQUESTID_MAX. \<exists>st. svc_reachable env uf st \<and> GetRequestSum (fst st) = n)"
  using serial_limit reach_any_sum [OF assms] by fastforce

theorem request_limit_witness:
  "\<forall>uf. \<exists>st. svc_reachable demo_svc uf st \<and> GetRequestSum (fst st) = 6"
proof -
  have "init_ok demo_svc" "publish_ok demo_svc" "6 \<le> REQUESTID_MAX" by (simp_all add: demo_svc_def REQUESTID_MAX_def)
  then show ?thesis using request_limit [of demo_svc] by blast
qed

section \<open>Data of the CPU service\<close>

text \<open>
  C40. Round trip of the data of the CPU service. What is written to an empty parcel is read from it
  completely and without rest, as long as it has fewer than 2^31 rows. A parcel that ends among the
  rows is accepted as well: the reader returns the rows that arrived and no error.
\<close>

theorem cpu_data_roundtrip:
  assumes "parcel ops contents" and "length (cd_dumpCPUDatas d) < 2 ^ 31"
  shows "(\<forall>p p'. contents p = [] \<and> Marshalling ops d p = Some p' \<longrightarrow> (\<exists>q. Unmarshalling ops p' = Some (d, q) \<and> contents q = []))
    \<and> (\<forall>k < length (cd_dumpCPUDatas d). \<forall>p. contents p = take (4 + k) (data_items d)
        \<longrightarrow> (\<exists>q. Unmarshalling ops p = Some (d\<lparr>cd_dumpCPUDatas := take k (cd_dumpCPUDatas d)\<rparr>, q)))"
proof -
  have "\<exists>q. Unmarshalling ops p' = Some (d, q) \<and> contents q = []" if "contents p = []" "Marshalling ops d p = Some p'" for p p'
  proof (rule parcel.Unmarshalling_items [OF assms(1) _ assms(2)])
    show "contents p' = data_items d @ []" using parcel.Marshalling_items [OF assms(1) that(2)] that(1) by simp
  qed
  with parcel.Unmarshalling_truncated [OF assms(1) _ _ assms(2)] show ?thesis by blast
qed

theorem cpu_data_roundtrip_witness:
  "\<exists>p' q. Marshalling list_parcel \<lparr>cd_startTime = ''s'', cd_endTime = ''e'', cd_cpuUsagePid = 7, cd_dumpCPUDatas = [[''a''], [''b'', ''c'']]\<rparr> [] = Some p'
    \<and> Unmarshalling list_parcel p' = Some (\<lparr>cd_startTime = ''s'', cd_endTime = ''e'', cd_cpuUsagePid = 7, cd_dumpCPUDatas = [[''a''], [''b'', ''c'']]\<rparr>, q)"
proof -
  define d where "d = \<lparr>cd_startTime = ''s'', cd_endTime = ''e'', cd_cpuUsagePid = 7, cd_dumpCPUDatas = [[''a''], [''b'', ''c'']]\<rparr>"
  have "length (cd_dumpCPUDatas d) < 2 ^ 31" by (simp add: d_def)
  moreover have "\<exists>p'. Marshalling list_parcel d [] = Some p'" by (simp add: d_def Marshalling_def WriteStringMatrix_def list_parcel_def)
  ultimately show ?thesis unfolding d_def [symmetric] using cpu_data_roundtrip [OF lists.parcel_axioms, of d] by blast
qed

end
