(* ===== verification/Cmd_Parse.thy ===== *)
theory Cmd_Parse
  imports Task_Register Dump_Utils Getopt "HOL-Library.Char_ord" "HOL-Library.List_Lexorder"
begin

text \<open>
  The command line of the task framework, \<^verbatim>\<open>src/frameworks/native/manager/cmd_parse.cpp\<close>: from \<open>argv\<close> to the
  options of a \<open>DumpContext\<close>. As in the classic framework the answers of \<open>getopt_long\<close> are an argument, and the string
  functions of the base library, the device and the build option are a record of parameters. A read outside
  \<open>argv\<close>, of a null \<open>optarg\<close> or outside the table of long options is the result \<open>None\<close>.
\<close>

section \<open>Environment and messages\<close>

record parse_env =
  pe_dev :: dev_env
  pe_sa_val :: "string \<Rightarrow> int"
  pe_StrToInt :: "string \<Rightarrow> int option"
  pe_IsNumericStr :: "string \<Rightarrow> bool"
  pe_IsSubStr :: "string \<Rightarrow> string \<Rightarrow> bool"
  pe_SplitStr :: "string \<Rightarrow> string \<Rightarrow> string list"
  pe_hiview :: bool

record parse_state =
  ps_ctx :: DumpContext
  ps_out :: "string list" \<comment> \<open>what is written to the descriptor of the request\<close>

definition cp_ARG_MAX_COUNT :: nat where "cp_ARG_MAX_COUNT = 100"
definition cp_SINGLE_ARG_MAXLEN :: nat where "cp_SINGLE_ARG_MAXLEN = 1024"
definition IPC_STAT_ARG_NUMS :: nat where "IPC_STAT_ARG_NUMS = 4"
definition UNRECOGNIZED_ERROR_MSG :: string where "UNRECOGNIZED_ERROR_MSG = ''hidumper: option pid missed. ''"
definition ARGUMENT_ERROR_MSG :: string where "ARGUMENT_ERROR_MSG = ''hidumper: option requires an argument: ''"
definition INVALID_ARG_MSG :: string where "INVALID_ARG_MSG = ''hidumper: invalid arg: ''"
definition PID_ERROR_MSG :: string where "PID_ERROR_MSG = ''hidumper: No such process: ''"

definition cp_LONG_OPTIONS :: "parse_env \<Rightarrow> (string \<times> has_arg) list" where
  "cp_LONG_OPTIONS env =
    [(''cpufreq'', no_argument)] @ (if pe_hiview env then [(''cpuusage'', optional_argument)] else []) @
    [(''mem'', optional_argument), (''net'', no_argument), (''storage'', no_argument), (''zip'', no_argument),
     (''mem-smaps'', required_argument), (''mem-jsheap'', required_argument), (''gc'', no_argument), (''leakobj'', no_argument),
     (''raw'', no_argument), (''single'', no_argument), (''ipc'', optional_argument), (''start-stat'', no_argument),
     (''stop-stat'', no_argument), (''stat'', no_argument)]"

definition cp_commonUsage :: string where
  "cp_commonUsage =
    ''usage:'' @ [CHR 0x0A] @
    ''  -h                          |help text for the tool'' @ [CHR 0x0A] @
    ''  -lc                         |a list of system information clusters'' @ [CHR 0x0A] @
    ''  -ls                         |a list of system abilities'' @ [CHR 0x0A] @
    ''  -c                          |all system information clusters'' @ [CHR 0x0A] @
    ''  -c [base system]            |system information clusters labeled \"base\" and \"system\"'' @ [CHR 0x0A] @
    ''  -s                          |all system abilities'' @ [CHR 0x0A] @
    ''  -s [SA0 SA1]                |system abilities labeled \"SA0\" and \"SA1\"'' @ [CHR 0x0A] @
    ''  -s [SA] -a ['-h']           |system ability labeled \"SA\" with arguments \"-h\" specified'' @ [CHR 0x0A] @
    ''  -e                          |faultlogs of crash history'' @ [CHR 0x0A] @
    ''  --net [pid]                 |dump network information; if pid is specified,'' @
    '' dump traffic usage of specified pid'' @ [CHR 0x0A] @
    ''  --storage [pid]             |dump storage information; if pid is specified, dump /proc/pid/io'' @ [CHR 0x0A] @
    ''  -p                          |processes information, include list and infromation of processes'' @
    '' and threads'' @ [CHR 0x0A] @
    ''  -p [pid]                    |dump threads under pid, includes smap, block channel,'' @
    '' execute time, mountinfo'' @ [CHR 0x0A] @
    ''  --cpufreq                   |dump real CPU frequency of each core'' @ [CHR 0x0A] @
    ''  --mem [pid] [--prune]       |dump memory usage of total; dump memory usage of specified'' @
    '' pid if pid was specified; dump simplified memory information if prune is specified and not support'' @
    '' dumped simplified memory information of specified pid'' @ [CHR 0x0A] @
    ''  --mem [pid] [--show-ashmem]   |show ashmem info when dumping memory of specified pid'' @ [CHR 0x0A] @
    ''  --mem [pid] -t [timeInterval]  |dump process memory change information, press Ctrl+C to stop the export.'' @
    '' detail information is stored in /data/log/hidumper/record_mem.txt.'' @ [CHR 0x0A] @
    ''  --zip                       |compress output to /data/log/hidumper'' @ [CHR 0x0A] @
    ''  --mem-smaps pid [-v]        |display statistic in /proc/pid/smaps, use -v specify more details'' @ [CHR 0x0A] @
    ''  --mem-jsheap pid [-T tid] [--gc] [--leakobj] [--raw] [--single]  |triggerGC, dumpHeapSnapshot, dumpRawHeap'' @
    '' and dumpLeakList under pid and tid'' @ [CHR 0x0A] @
    ''  --mem-cjheap pid [--gc]     |the pid should belong to the Cangjie process; triggerGC and'' @
    '' dumpHeapSnapshot under pid'' @ [CHR 0x0A] @
    ''  --ipc pid ARG               |ipc load statistic; pid must be specified or set to -a dump all'' @
    '' processes. ARG must be one of --start-stat | --stop-stat | --stat'' @ [CHR 0x0A]"

definition cp_extendedUsage :: string where
  "cp_extendedUsage =
    ''  --cpuusage [pid]            |dump cpu usage by processes and category; if PID is specified,'' @
    '' dump category usage of specified pid'' @ [CHR 0x0A]"

abbreviation opts_of :: "parse_state \<Rightarrow> DumperOptions" where
  "opts_of s \<equiv> dumperOpts (ps_ctx s)"

definition set_opt :: "(DumperOptions \<Rightarrow> DumperOptions) \<Rightarrow> parse_state \<Rightarrow> parse_state" where
  "set_opt f s = s\<lparr>ps_ctx := (ps_ctx s)\<lparr>dumperOpts := f (opts_of s)\<rparr>\<rparr>"

definition PrintErrorMessage :: "string \<Rightarrow> parse_state \<Rightarrow> parse_state" where
  "PrintErrorMessage msg s = s\<lparr>ps_out := WriteStringIntoFd msg (GetOutputFd (ps_ctx s)) (ps_out s)\<rparr>"

definition PrintHelpInfo :: "parse_env \<Rightarrow> parse_state \<Rightarrow> parse_state" where
  "PrintHelpInfo env = PrintErrorMessage (cp_commonUsage @ (if pe_hiview env then cp_extendedUsage else []))"

section \<open>Arguments\<close>

definition IsArgValid :: "string \<Rightarrow> bool" where
  "IsArgValid arg \<longleftrightarrow> arg \<noteq> [] \<and> length arg \<le> cp_SINGLE_ARG_MAXLEN"

definition cp_CheckArgs :: "string list \<Rightarrow> DumpStatus" where
  "cp_CheckArgs argv =
    (if length argv < 1 then DUMP_FAIL
     else if length argv > cp_ARG_MAX_COUNT then DUMP_FAIL
     else if \<not> list_all IsArgValid argv then DUMP_FAIL
     else DUMP_OK)"

definition cp_RemoveCharacterFromStr :: "string \<Rightarrow> char \<Rightarrow> string" where
  "cp_RemoveCharacterFromStr str character = removeAll character str"

definition cp_IsShortOptionReqArg :: "string \<Rightarrow> char \<Rightarrow> parse_state \<Rightarrow> bool \<times> parse_state" where
  "cp_IsShortOptionReqArg optStr optopt s =
    (if optopt \<in> set optStr then (True, PrintErrorMessage (ARGUMENT_ERROR_MSG @ [optopt]) s) else (False, s))"

definition cp_optStr :: string where "cp_optStr = ''-hlcsa:epvT:''"

text \<open>\<open>argv[optind - 1]\<close>\<close>

definition last_arg :: "string list \<Rightarrow> getopt_event \<Rightarrow> string option" where
  "last_arg argv ge = (if ge_optind ge = 0 then None else nth_opt argv (ge_optind ge - 1))"

definition cp_CheckIncorrectCmdOption :: "string list \<Rightarrow> getopt_event \<Rightarrow> parse_state \<Rightarrow> parse_state option" where
  "cp_CheckIncorrectCmdOption argv ge s =
    (if ge_optopt ge = CHR 0x00 then do {
       arg \<leftarrow> last_arg argv ge;
       Some (PrintErrorMessage (UNRECOGNIZED_ERROR_MSG @ cp_RemoveCharacterFromStr arg CHR ''-'') s)
     }
     else (case cp_IsShortOptionReqArg cp_optStr (ge_optopt ge) s of (req, s1) \<Rightarrow>
       Some (if req then s1 else PrintErrorMessage (UNRECOGNIZED_ERROR_MSG @ [ge_optopt ge]) s1)))"

section \<open>Parameters\<close>

definition cp_SetCmdIntegerParameter ::
    "parse_env \<Rightarrow> string \<Rightarrow> (int \<Rightarrow> DumperOptions \<Rightarrow> DumperOptions) \<Rightarrow> parse_state \<Rightarrow> DumpStatus \<times> parse_state" where
  "cp_SetCmdIntegerParameter env str value s =
    (if \<not> pe_IsNumericStr env str then (DUMP_INVALID_ARG, PrintErrorMessage (INVALID_ARG_MSG @ str) s)
     else case pe_StrToInt env str of None \<Rightarrow> (DUMP_FAIL, s) | Some n \<Rightarrow> (DUMP_OK, set_opt (value n) s))"

definition cp_SetMemJsheapParam :: "parse_env \<Rightarrow> string option \<Rightarrow> parse_state \<Rightarrow> DumpStatus \<times> parse_state" where
  "cp_SetMemJsheapParam env optarg s =
    (case optarg of
       None \<Rightarrow> (DUMP_FAIL, s)
     | Some a \<Rightarrow> cp_SetCmdIntegerParameter env a (\<lambda>n opts. opts\<lparr>dumpJsHeapMemPid := n\<rparr>)
         (set_opt (\<lambda>opts. opts\<lparr>isDumpJsHeapMem := True\<rparr>) s))"

definition cp_SetRawParam :: "parse_state \<Rightarrow> DumpStatus \<times> parse_state" where
  "cp_SetRawParam s =
    (if isDumpJsHeapMem (opts_of s) then (DUMP_OK, set_opt (\<lambda>opts. opts\<lparr>dumpJsRawHeap := True\<rparr>) s) else (DUMP_FAIL, s))"

definition cp_SetHeapCombineParam :: "parse_state \<Rightarrow> DumpStatus \<times> parse_state" where
  "cp_SetHeapCombineParam s =
    (let opts = opts_of s in
     if \<not> dumpJsRawHeap opts then (DUMP_FAIL, s)
     else if threadId opts \<noteq> 0 \<and> threadId opts \<noteq> dumpJsHeapMemPid opts then (DUMP_FAIL, s)
     else (DUMP_OK, set_opt (\<lambda>opts. opts\<lparr>isDumpJsHeapCombine := True\<rparr>) s))"

definition cp_SetIpcStatParam :: "string \<Rightarrow> parse_state \<Rightarrow> bool \<times> parse_state" where
  "cp_SetIpcStatParam param s =
    (if param = ''start-stat'' then (True, set_opt (\<lambda>opts. opts\<lparr>isDumpIpcStartStat := True\<rparr>) s)
     else if param = ''stop-stat'' then (True, set_opt (\<lambda>opts. opts\<lparr>isDumpIpcStopStat := True\<rparr>) s)
     else if param = ''stat'' then (True, set_opt (\<lambda>opts. opts\<lparr>isDumpIpcStat := True\<rparr>) s)
     else (False, s))"

definition cp_ParseSubLongCmdOption :: "parse_env \<Rightarrow> string \<Rightarrow> parse_state \<Rightarrow> bool \<times> parse_state" where
  "cp_ParseSubLongCmdOption env optionName s =
    (if optionName = ''cpufreq'' then (True, set_opt (\<lambda>opts. opts\<lparr>isDumpCpuFreq := True\<rparr>) s)
     else if pe_hiview env \<and> optionName = ''cpuusage'' then (True, set_opt (\<lambda>opts. opts\<lparr>isDumpCpuUsage := True\<rparr>) s)
     else if optionName = ''mem'' then (True, set_opt (\<lambda>opts. opts\<lparr>isDumpMem := True\<rparr>) s)
     else if optionName = ''net'' then (True, set_opt (\<lambda>opts. opts\<lparr>isDumpNet := True\<rparr>) s)
     else if optionName = ''storage'' then (True, set_opt (\<lambda>opts. opts\<lparr>isDumpStorage := True\<rparr>) s)
     else (optionName = ''zip'', s))"

definition ipc_args_invalid :: "parse_env \<Rightarrow> parse_state \<Rightarrow> DumpStatus \<times> parse_state" where
  "ipc_args_invalid env s = (DUMP_HELP, PrintHelpInfo env (PrintErrorMessage (''ipc stat cmd args invalid'' @ [CHR 0x0A]) s))"

definition parse_ipc :: "parse_env \<Rightarrow> string list \<Rightarrow> parse_state \<Rightarrow> DumpStatus \<times> parse_state" where
  "parse_ipc env argv s =
    (let s1 = set_opt (\<lambda>opts. opts\<lparr>isDumpIpc := True\<rparr>) s in
     if length argv \<noteq> IPC_STAT_ARG_NUMS then ipc_args_invalid env s1 else (DUMP_OK, s1))"

definition parse_ipc_stat :: "parse_env \<Rightarrow> string \<Rightarrow> parse_state \<Rightarrow> DumpStatus \<times> parse_state" where
  "parse_ipc_stat env optionName s =
    (case cp_SetIpcStatParam optionName s of (is_stat, s1) \<Rightarrow>
       if is_stat \<and> \<not> isDumpIpc (opts_of s1) then ipc_args_invalid env s1 else (DUMP_OK, s1))"

text \<open>\<open>--mem-smaps\<close> is refused when there are two arguments or more; with fewer, \<open>argv[2]\<close> is out of range.\<close>

definition parse_mem_smaps :: "parse_env \<Rightarrow> string list \<Rightarrow> parse_state \<Rightarrow> (DumpStatus \<times> parse_state) option" where
  "parse_mem_smaps env argv s =
    (if length argv \<ge> 2 then Some (DUMP_FAIL, s)
     else do {
       arg \<leftarrow> nth_opt argv 2;
       Some (cp_SetCmdIntegerParameter env arg (\<lambda>n opts. opts\<lparr>memPid := n\<rparr>) (set_opt (\<lambda>opts. opts\<lparr>isShowSmaps := True\<rparr>) s))
     })"

definition cp_ParseLongCmdOption ::
    "parse_env \<Rightarrow> string list \<Rightarrow> string option \<Rightarrow> string \<Rightarrow> parse_state \<Rightarrow> (DumpStatus \<times> parse_state) option" where
  "cp_ParseLongCmdOption env argv optarg optionName s0 =
    (case cp_ParseSubLongCmdOption env optionName s0 of (sub, s) \<Rightarrow>
     if sub then Some (DUMP_OK, s)
     else if optionName = ''mem-smaps'' then parse_mem_smaps env argv s
     else if optionName = ''mem-jsheap'' then Some (cp_SetMemJsheapParam env optarg s)
     else if optionName = ''raw'' then Some (cp_SetRawParam s)
     else if optionName = ''gc'' then Some (DUMP_OK, set_opt (\<lambda>opts. opts\<lparr>isDumpJsHeapMemGC := True\<rparr>) s)
     else if optionName = ''leakobj'' then Some (DUMP_OK, set_opt (\<lambda>opts. opts\<lparr>isDumpJsHeapLeakobj := True\<rparr>) s)
     else if optionName = ''single'' then Some (cp_SetHeapCombineParam s)
     else if optionName = ''ipc'' then Some (parse_ipc env argv s)
     else Some (parse_ipc_stat env optionName s))"

section \<open>Short options\<close>

definition cp_ParseCmdOptionForA ::
    "parse_env \<Rightarrow> string list \<Rightarrow> getopt_event \<Rightarrow> parse_state \<Rightarrow> (DumpStatus \<times> parse_state) option" where
  "cp_ParseCmdOptionForA env argv ge s =
    (if isDumpSystemAbility (opts_of s) then do {
       a \<leftarrow> ge_optarg ge;
       Some (DUMP_OK, set_opt (\<lambda>opts. opts\<lparr>abilityArgs := pe_SplitStr env a '' ''\<rparr>) s)
     }
     else if isDumpIpc (opts_of s) then
       (let s1 = set_opt (\<lambda>opts. opts\<lparr>isDumpAllIpc := True\<rparr>) s in
        Some (case ge_optarg ge of
            None \<Rightarrow> (DUMP_OK, s1)
          | Some a \<Rightarrow>
             (case pe_SplitStr env a ''--'' of
                [] \<Rightarrow> (DUMP_INVALID_ARG, PrintErrorMessage INVALID_ARG_MSG s1)
              | p # _ \<Rightarrow>
                 (case cp_SetIpcStatParam p s1 of (is_stat, s2) \<Rightarrow>
                    if is_stat then (DUMP_OK, s2) else (DUMP_INVALID_ARG, PrintErrorMessage (INVALID_ARG_MSG @ '':'' @ p) s2)))))
     else do {
       arg \<leftarrow> last_arg argv ge;
       Some (DUMP_INVALID_ARG, PrintErrorMessage (UNRECOGNIZED_ERROR_MSG @ cp_RemoveCharacterFromStr arg CHR ''-'') s)
     })"

text \<open>The scan from \<open>argv[i]\<close> back to \<open>argv[1]\<close> for the last option.\<close>

fun cp_sa_scan :: "parse_env \<Rightarrow> string list \<Rightarrow> nat \<Rightarrow> bool option" where
  "cp_sa_scan env argv 0 = Some False"
| "cp_sa_scan env argv (Suc i) = do {
     arg \<leftarrow> nth_opt argv (Suc i);
     if pe_IsSubStr env arg ''-'' then Some (arg = ''-s'' \<or> arg = ''-a'') else cp_sa_scan env argv i
   }"

definition cp_IsSADumperOption :: "parse_env \<Rightarrow> string list \<Rightarrow> nat \<Rightarrow> bool option" where
  "cp_IsSADumperOption env argv optind = cp_sa_scan env argv (optind - 2)"

text \<open>The options that take a number as their parameter, and \<open>std::set::insert\<close>.\<close>

definition pid_setter :: "parse_env \<Rightarrow> string \<Rightarrow> (int \<Rightarrow> DumperOptions \<Rightarrow> DumperOptions) option" where
  "pid_setter env prevArg =
    (if pe_hiview env \<and> prevArg = ''--cpuusage'' then Some (\<lambda>n opts. opts\<lparr>cpuUsagePid := n\<rparr>)
     else if prevArg = ''--mem'' then Some (\<lambda>n opts. opts\<lparr>memPid := n\<rparr>)
     else if prevArg = ''--net'' then Some (\<lambda>n opts. opts\<lparr>netPid := n\<rparr>)
     else if prevArg = ''--storage'' then Some (\<lambda>n opts. opts\<lparr>storagePid := n\<rparr>)
     else if prevArg = ''-p'' then Some (\<lambda>n opts. opts\<lparr>processPid := n\<rparr>)
     else if prevArg = ''-T'' then Some (\<lambda>n opts. opts\<lparr>threadId := n\<rparr>)
     else None)"

definition set_insert :: "string \<Rightarrow> string list \<Rightarrow> string list" where
  "set_insert x xs = (if x \<in> set xs then xs else insort x xs)"

definition cp_SetCmdParameter ::
    "parse_env \<Rightarrow> string list \<Rightarrow> nat \<Rightarrow> parse_state \<Rightarrow> (DumpStatus \<times> parse_state) option" where
  "cp_SetCmdParameter env argv optind s =
    (if optind > 1 \<and> optind \<le> length argv then do {
       prevArg \<leftarrow> nth_opt argv (optind - 2);
       currentArg \<leftarrow> nth_opt argv (optind - 1);
       case pid_setter env prevArg of
         Some setter \<Rightarrow> Some (cp_SetCmdIntegerParameter env currentArg setter s)
       | None \<Rightarrow>
           if prevArg = ''-c'' then Some (DUMP_OK, set_opt (\<lambda>opts. opts\<lparr>systemArgs := set_insert currentArg (systemArgs opts)\<rparr>) s)
           else do {
             sa \<leftarrow> cp_IsSADumperOption env argv optind;
             if sa then Some (DUMP_OK, set_opt (\<lambda>opts. opts\<lparr>abilityNames := abilityNames opts @ [currentArg]\<rparr>) s)
             else if prevArg = ''--ipc'' then Some (cp_SetCmdIntegerParameter env currentArg (\<lambda>n opts. opts\<lparr>ipcStatPid := n\<rparr>) s)
             else Some (DUMP_FAIL, PrintErrorMessage (UNRECOGNIZED_ERROR_MSG @ cp_RemoveCharacterFromStr currentArg CHR ''-'') s)
           }
     }
     else Some (DUMP_OK, s))"

definition cp_ParseShortCmdOption ::
    "parse_env \<Rightarrow> string list \<Rightarrow> getopt_event \<Rightarrow> char \<Rightarrow> parse_state \<Rightarrow> (DumpStatus \<times> parse_state) option" where
  "cp_ParseShortCmdOption env argv ge c s =
    (if c = CHR ''a'' then cp_ParseCmdOptionForA env argv ge s
     else if c = CHR ''c'' then Some (DUMP_OK, set_opt (\<lambda>opts. opts\<lparr>isDumpSystem := True\<rparr>) s)
     else if c = CHR ''e'' then Some (DUMP_OK, set_opt (\<lambda>opts. opts\<lparr>isFaultLog := True\<rparr>) s)
     else if c = CHR ''l'' then Some (DUMP_OK, set_opt (\<lambda>opts. opts\<lparr>isDumpList := True\<rparr>) s)
     else if c = CHR ''s'' then Some (DUMP_OK, set_opt (\<lambda>opts. opts\<lparr>isDumpSystemAbility := True\<rparr>) s)
     else if c = CHR ''p'' then Some (DUMP_OK, set_opt (\<lambda>opts. opts\<lparr>isDumpProcesses := True\<rparr>) s)
     else if c = CHR ''v'' then Some (DUMP_OK, set_opt (\<lambda>opts. opts\<lparr>isShowSmapsInfo := True\<rparr>) s)
     else cp_SetCmdParameter env argv (ge_optind ge) s)"

section \<open>The parser\<close>

fun cp_parse_loop ::
    "parse_env \<Rightarrow> string list \<Rightarrow> getopt_event list \<Rightarrow> parse_state \<Rightarrow> (DumpStatus \<times> parse_state) option" where
  "cp_parse_loop env argv [] s = Some (DUMP_OK, s)"
| "cp_parse_loop env argv (ge # ges) s =
    (case ge_c ge of
       LongOpt optionIndex \<Rightarrow> do {
         longOption \<leftarrow> nth_opt (cp_LONG_OPTIONS env) optionIndex;
         (status, s1) \<leftarrow> cp_ParseLongCmdOption env argv (ge_optarg ge) (fst longOption) s;
         if status \<noteq> DUMP_OK then Some (status, s1) else cp_parse_loop env argv ges s1
       }
     | OptChar c \<Rightarrow>
        if c = CHR ''h'' then Some (DUMP_HELP, PrintHelpInfo env s)
        else if c = CHR ''?'' then map_option (\<lambda>s1. (DUMP_INVALID_ARG, s1)) (cp_CheckIncorrectCmdOption argv ge s)
        else do {
          (status, s1) \<leftarrow> cp_ParseShortCmdOption env argv ge c s;
          if status \<noteq> DUMP_OK then Some (status, s1) else cp_parse_loop env argv ges s1
        })"

fun pid_checks :: "parse_env \<Rightarrow> int list \<Rightarrow> parse_state \<Rightarrow> DumpStatus \<times> parse_state" where
  "pid_checks env [] s = (DUMP_OK, s)"
| "pid_checks env (pid # pids) s =
    (if pid < -1 then (DUMP_FAIL, PrintErrorMessage (INVALID_ARG_MSG @ to_string pid) s)
     else if pid > -1 \<and> \<not> CheckProcessAlive_pid (pe_dev env) pid then (DUMP_FAIL, PrintErrorMessage (PID_ERROR_MSG @ to_string pid) s)
     else pid_checks env pids s)"

definition opt_pids :: "DumperOptions \<Rightarrow> int list" where
  "opt_pids opts = [cpuUsagePid opts, memPid opts, processPid opts, storagePid opts, netPid opts, dumpJsHeapMemPid opts, ipcStatPid opts]"

definition cp_CheckProcessAlive :: "parse_env \<Rightarrow> parse_state \<Rightarrow> DumpStatus \<times> parse_state" where
  "cp_CheckProcessAlive env s = pid_checks env (opt_pids (opts_of s)) s"

definition CmdParseHelper ::
    "parse_env \<Rightarrow> string list \<Rightarrow> getopt_event list \<Rightarrow> parse_state \<Rightarrow> (DumpStatus \<times> parse_state) option" where
  "CmdParseHelper env argv ges s =
    (case cp_parse_loop env argv ges s of
       None \<Rightarrow> None
     | Some (status, s1) \<Rightarrow> Some (if status \<noteq> DUMP_OK then (status, s1) else cp_CheckProcessAlive env s1))"

definition VerifyOptions :: "parse_env \<Rightarrow> parse_state \<Rightarrow> DumpStatus \<times> parse_state" where
  "VerifyOptions env s =
    (let opts = opts_of s in
     if isDumpList opts \<and> \<not> isDumpService opts \<and> \<not> isDumpSystemAbility opts \<and> \<not> isDumpSystem opts then
       (DUMP_FAIL, PrintErrorMessage (INVALID_ARG_MSG @ ''-l'') s)
     else case find (\<lambda>name. StrToId (pe_sa_val env) (pe_StrToInt env) name = -1) (abilityNames opts) of
         Some name \<Rightarrow> (DUMP_FAIL, PrintErrorMessage (INVALID_ARG_MSG @ name) s)
       | None \<Rightarrow>
           if systemArgs opts \<noteq> [] \<and> ''base'' \<notin> set (systemArgs opts) \<and> ''system'' \<notin> set (systemArgs opts) then
             (DUMP_FAIL, PrintErrorMessage (INVALID_ARG_MSG @ concat (map (\<lambda>arg. arg @ '' '') (systemArgs opts))) s)
           else (DUMP_OK, s))"

definition CmdParse_Parse ::
    "parse_env \<Rightarrow> string list \<Rightarrow> getopt_event list \<Rightarrow> parse_state \<Rightarrow> (DumpStatus \<times> parse_state) option" where
  "CmdParse_Parse env argv ges s =
    (if cp_CheckArgs argv \<noteq> DUMP_OK then Some (DUMP_FAIL, s)
     else case CmdParseHelper env argv ges s of
         None \<Rightarrow> None
       | Some (status, s1) \<Rightarrow>
          Some (if status \<noteq> DUMP_OK then (DUMP_FAIL, s1)
                else case VerifyOptions env s1 of (status, s2) \<Rightarrow> (if status \<noteq> DUMP_OK then DUMP_FAIL else DUMP_OK, s2)))"

end
