(* ===== verification/Cmd_Parse_Facts.thy ===== *)
theory Cmd_Parse_Facts
  imports Cmd_Parse Dumper_Tasks Task_Exec
begin

text \<open>
  What the command line parser of the task framework guarantees: it stays inside \<open>argv\<close>, what it accepts has
  passed its checks, and two options it can never accept. The last section puts the parser in front of
  \<open>DumpManager::StartDump\<close>.
\<close>

section \<open>Bounds\<close>

text \<open>What \<open>getopt_long\<close> promises: long options come with an index of the table, and something of \<open>argv\<close> after the
  program's name has been read; \<open>-a\<close> has an argument.\<close>

definition cp_getopt_ok :: "parse_env \<Rightarrow> string list \<Rightarrow> getopt_event \<Rightarrow> bool" where
  "cp_getopt_ok env argv ge \<longleftrightarrow> 2 \<le> length argv \<and> 1 \<le> ge_optind ge \<and> ge_optind ge \<le> length argv
    \<and> (case ge_c ge of LongOpt i \<Rightarrow> i < length (cp_LONG_OPTIONS env) | OptChar c \<Rightarrow> c = CHR ''a'' \<longrightarrow> ge_optarg ge \<noteq> None)"

lemma last_arg_defined: "cp_getopt_ok env argv ge \<Longrightarrow> \<exists>arg. last_arg argv ge = Some arg"
  by (auto simp: cp_getopt_ok_def last_arg_def nth_opt_def)

lemma cp_sa_scan_defined: "i < length argv \<Longrightarrow> cp_sa_scan env argv i \<noteq> None"
  by (induction env argv i rule: cp_sa_scan.induct) (auto simp: nth_opt_some)

lemma cp_SetCmdParameter_defined: "cp_SetCmdParameter env argv optind s \<noteq> None"
proof (cases "1 < optind \<and> optind \<le> length argv")
  case True
  then have "cp_sa_scan env argv (optind - 2) \<noteq> None" by (intro cp_sa_scan_defined) arith
  with True show ?thesis by (auto simp: cp_SetCmdParameter_def cp_IsSADumperOption_def nth_opt_some split: option.splits)
qed (auto simp: cp_SetCmdParameter_def)

lemma cp_ParseShortCmdOption_defined:
  assumes "cp_getopt_ok env argv ge" "ge_c ge = OptChar c"
  shows "cp_ParseShortCmdOption env argv ge c s \<noteq> None"
proof (cases "c = CHR ''a''")
  case True
  then obtain a where "ge_optarg ge = Some a" using assms by (auto simp: cp_getopt_ok_def)
  with True last_arg_defined [OF assms(1)] show ?thesis
    by (auto simp: cp_ParseShortCmdOption_def cp_ParseCmdOptionForA_def Let_def)
next
  case False
  with cp_SetCmdParameter_defined show ?thesis by (simp add: cp_ParseShortCmdOption_def)
qed

lemma cp_ParseLongCmdOption_defined: "2 \<le> length argv \<Longrightarrow> cp_ParseLongCmdOption env argv optarg name s \<noteq> None"
  by (auto simp: cp_ParseLongCmdOption_def parse_mem_smaps_def split: prod.splits)

lemma cp_parse_loop_defined: "list_all (cp_getopt_ok env argv) ges \<Longrightarrow> cp_parse_loop env argv ges s \<noteq> None"
proof (induction ges arbitrary: s)
  case (Cons ge ges)
  then have ok: "cp_getopt_ok env argv ge" by simp
  show ?case
  proof (cases "ge_c ge")
    case (LongOpt i)
    with ok have "nth_opt (cp_LONG_OPTIONS env) i = Some (cp_LONG_OPTIONS env ! i)" "2 \<le> length argv"
      by (simp_all add: cp_getopt_ok_def nth_opt_some)
    moreover from this(2) obtain st s1 where "cp_ParseLongCmdOption env argv (ge_optarg ge) (fst (cp_LONG_OPTIONS env ! i)) s = Some (st, s1)"
      using cp_ParseLongCmdOption_defined by fastforce
    ultimately show ?thesis using LongOpt Cons by auto
  next
    case (OptChar c)
    have "cp_CheckIncorrectCmdOption argv ge s \<noteq> None"
      using last_arg_defined [OF ok] by (auto simp: cp_CheckIncorrectCmdOption_def split: prod.splits)
    moreover obtain st s1 where "cp_ParseShortCmdOption env argv ge c s = Some (st, s1)"
      using cp_ParseShortCmdOption_defined [OF ok OptChar, of s] by fastforce
    ultimately show ?thesis using OptChar Cons by auto
  qed
qed simp

lemma Parse_defined: "list_all (cp_getopt_ok env argv) ges \<Longrightarrow> \<exists>st s'. CmdParse_Parse env argv ges s = Some (st, s') \<and> (st = DUMP_OK \<or> st = DUMP_FAIL)"
  using cp_parse_loop_defined [of env argv ges s] by (auto simp: CmdParse_Parse_def CmdParseHelper_def split: prod.splits)

section \<open>What is accepted\<close>

lemma pid_checks_ok:
  "pid_checks env pids s = (DUMP_OK, s') \<Longrightarrow> s' = s \<and> (\<forall>pid \<in> set pids. pid = -1 \<or> pid \<ge> 0 \<and> CheckProcessAlive_pid (pe_dev env) pid)"
  by (induction pids) (auto split: if_splits)

lemma VerifyOptions_ok:
  assumes "VerifyOptions env s = (DUMP_OK, s')"
  shows "s' = s" "isDumpList (opts_of s) \<Longrightarrow> isDumpService (opts_of s) \<or> isDumpSystemAbility (opts_of s) \<or> isDumpSystem (opts_of s)"
    "name \<in> set (abilityNames (opts_of s)) \<Longrightarrow> StrToId (pe_sa_val env) (pe_StrToInt env) name \<noteq> -1"
    "systemArgs (opts_of s) \<noteq> [] \<Longrightarrow> ''base'' \<in> set (systemArgs (opts_of s)) \<or> ''system'' \<in> set (systemArgs (opts_of s))"
  using assms by (auto simp: VerifyOptions_def Let_def find_None_iff split: if_splits option.splits)

lemma Parse_ok:
  assumes "CmdParse_Parse env argv ges s = Some (DUMP_OK, s')"
  shows "cp_parse_loop env argv ges s = Some (DUMP_OK, s')" "cp_CheckArgs argv = DUMP_OK" "VerifyOptions env s' = (DUMP_OK, s')"
    "pid \<in> set (opt_pids (opts_of s')) \<Longrightarrow> pid = -1 \<or> pid \<ge> 0 \<and> CheckProcessAlive_pid (pe_dev env) pid"
proof -
  from assms obtain st s1 s2 where h: "cp_CheckArgs argv = DUMP_OK" "CmdParseHelper env argv ges s = Some (DUMP_OK, s1)"
      "VerifyOptions env s1 = (DUMP_OK, s')"
    by (auto simp: CmdParse_Parse_def split: if_splits option.splits prod.splits)
  from VerifyOptions_ok(1) [OF h(3)] have v: "s' = s1" .
  from h(2) obtain s0 where l: "cp_parse_loop env argv ges s = Some (DUMP_OK, s0)" "cp_CheckProcessAlive env s0 = (DUMP_OK, s1)"
    by (auto simp: CmdParseHelper_def split: option.splits if_splits)
  note p = pid_checks_ok [OF l(2) [unfolded cp_CheckProcessAlive_def]]
  show "cp_parse_loop env argv ges s = Some (DUMP_OK, s')" "cp_CheckArgs argv = DUMP_OK" "VerifyOptions env s' = (DUMP_OK, s')"
    using h l v p by simp_all
  show "pid \<in> set (opt_pids (opts_of s')) \<Longrightarrow> pid = -1 \<or> pid \<ge> 0 \<and> CheckProcessAlive_pid (pe_dev env) pid"
    using p v by simp
qed

section \<open>Invariants of the loop\<close>

lemma cp_parse_loop_keeps:
  assumes "\<And>optarg name s s'. I s \<Longrightarrow> cp_ParseLongCmdOption env argv optarg name s = Some (DUMP_OK, s') \<Longrightarrow> I s'"
    and "\<And>ge c s s'. I s \<Longrightarrow> cp_ParseShortCmdOption env argv ge c s = Some (DUMP_OK, s') \<Longrightarrow> I s'"
    and "cp_parse_loop env argv ges s = Some (DUMP_OK, s')" and "I s"
  shows "I s'"
  using assms(3,4)
proof (induction ges arbitrary: s)
  case (Cons ge ges)
  from Cons.prems(1) obtain s1 where s1: "cp_parse_loop env argv ges s1 = Some (DUMP_OK, s')"
    and "(\<exists>optarg name. cp_ParseLongCmdOption env argv optarg name s = Some (DUMP_OK, s1))
      \<or> (\<exists>c. cp_ParseShortCmdOption env argv ge c s = Some (DUMP_OK, s1))"
    by (fastforce simp: bind_eq_Some_conv split: getopt_c.splits if_splits)
  then have "I s1" using assms(1,2) Cons.prems(2) by blast
  with s1 show ?case using Cons.IH by blast
qed simp

lemma dumperOpts_print [simp]: "ps_ctx (PrintErrorMessage msg s) = ps_ctx s"
  by (simp add: PrintErrorMessage_def)

lemma opts_set_opt [simp]: "opts_of (set_opt f s) = f (opts_of s)"
  by (simp add: set_opt_def)

lemmas long_setters = cp_ParseSubLongCmdOption_def cp_SetRawParam_def cp_SetHeapCombineParam_def parse_ipc_def parse_ipc_stat_def
  cp_SetIpcStatParam_def ipc_args_invalid_def cp_SetCmdIntegerParameter_def cp_SetMemJsheapParam_def

lemma set_parameter_changes:
  assumes "cp_SetCmdParameter env argv optind s = Some (DUMP_OK, s')"
  shows "s' = s \<or> (\<exists>n prevArg setter. prevArg \<in> set argv \<and> pid_setter env prevArg = Some setter \<and> s' = set_opt (setter n) s)
    \<or> (\<exists>f. s' = set_opt (\<lambda>opts. opts\<lparr>systemArgs := f (systemArgs opts)\<rparr>) s)
    \<or> (\<exists>f. s' = set_opt (\<lambda>opts. opts\<lparr>abilityNames := f (abilityNames opts)\<rparr>) s) \<or> (\<exists>n. s' = set_opt (\<lambda>opts. opts\<lparr>ipcStatPid := n\<rparr>) s)"
  using assms
  by (auto simp: cp_SetCmdParameter_def cp_SetCmdIntegerParameter_def bind_eq_Some_conv nth_opt_def split: if_splits option.splits)
    (metis nth_mem less_imp_diff_less)+

text \<open>\<open>--mem-smaps\<close> is never accepted: the test of the number of arguments is the wrong way round.\<close>

lemma mem_smaps_refused:
  assumes "CmdParse_Parse env argv ges s = Some (DUMP_OK, s')"
  shows "isShowSmaps (opts_of s') = isShowSmaps (opts_of s)"
proof -
  have "pid_setter env p = Some setter \<Longrightarrow> isShowSmaps (setter n opts) = isShowSmaps opts" for p setter n opts
    by (auto simp: pid_setter_def split: if_splits)
  note set = this
  show ?thesis
  proof (rule cp_parse_loop_keeps [where I = "\<lambda>t. isShowSmaps (opts_of t) = isShowSmaps (opts_of s)", OF _ _ Parse_ok(1) [OF assms]])
    fix optarg name t t'
    assume "isShowSmaps (opts_of t) = isShowSmaps (opts_of s)" "cp_ParseLongCmdOption env argv optarg name t = Some (DUMP_OK, t')"
    then show "isShowSmaps (opts_of t') = isShowSmaps (opts_of s)"
      by (auto simp: cp_ParseLongCmdOption_def parse_mem_smaps_def nth_opt_def long_setters Let_def split: if_splits option.splits)
  next
    fix ge c t t'
    assume "isShowSmaps (opts_of t) = isShowSmaps (opts_of s)" "cp_ParseShortCmdOption env argv ge c t = Some (DUMP_OK, t')"
    then show "isShowSmaps (opts_of t') = isShowSmaps (opts_of s)"
      by (auto simp: cp_ParseShortCmdOption_def cp_ParseCmdOptionForA_def cp_SetIpcStatParam_def bind_eq_Some_conv Let_def set
          split: if_splits option.splits list.splits dest!: set_parameter_changes)
  qed simp
qed

text \<open>\<open>--single\<close> compares the thread with 0, but a thread that is not given is -1: without \<open>-T\<close> the option is
  refused, although its own message asks for it to be used that way.\<close>

lemma single_refused:
  assumes ok: "CmdParse_Parse env argv ges s = Some (DUMP_OK, s')" and "''-T'' \<notin> set argv"
    and num: "\<And>str n. pe_IsNumericStr env str \<Longrightarrow> pe_StrToInt env str = Some n \<Longrightarrow> n \<ge> 0"
    and s: "dumperOpts (ps_ctx s) = DumperOptions_init"
  shows "\<not> isDumpJsHeapCombine (opts_of s')"
proof -
  let ?I = "\<lambda>t. \<not> isDumpJsHeapCombine (opts_of t) \<and> threadId (opts_of t) = -1 \<and> (dumpJsRawHeap (opts_of t) \<longrightarrow> isDumpJsHeapMem (opts_of t))
    \<and> (isDumpJsHeapMem (opts_of t) \<longrightarrow> dumpJsHeapMemPid (opts_of t) \<ge> 0)"
  have set: "isDumpJsHeapCombine (setter n opts) = isDumpJsHeapCombine opts" "threadId (setter n opts) = threadId opts"
      "dumpJsRawHeap (setter n opts) = dumpJsRawHeap opts" "isDumpJsHeapMem (setter n opts) = isDumpJsHeapMem opts"
      "dumpJsHeapMemPid (setter n opts) = dumpJsHeapMemPid opts"
    if "pid_setter env p = Some setter" "p \<in> set argv" for p setter n opts
    using that assms(2) by (auto simp: pid_setter_def split: if_splits)
  have "?I s'"
  proof (rule cp_parse_loop_keeps [where I = ?I, OF _ _ Parse_ok(1) [OF ok]])
    fix optarg name t t'
    assume "?I t" "cp_ParseLongCmdOption env argv optarg name t = Some (DUMP_OK, t')"
    then show "?I t'" using num
      by (auto simp: cp_ParseLongCmdOption_def parse_mem_smaps_def nth_opt_def long_setters Let_def split: if_splits option.splits)
  next
    fix ge c t t'
    assume "?I t" "cp_ParseShortCmdOption env argv ge c t = Some (DUMP_OK, t')"
    then show "?I t'"
      by (auto simp: cp_ParseShortCmdOption_def cp_ParseCmdOptionForA_def cp_SetIpcStatParam_def bind_eq_Some_conv Let_def set
          split: if_splits option.splits list.splits dest!: set_parameter_changes)
  qed (simp add: s DumperOptions_init_def)
  then show ?thesis by simp
qed

section \<open>From the command line to the tasks\<close>

text \<open>\<open>DumpManager::StartDump\<close> with its parser.\<close>

definition task_request ::
    "parse_env \<Rightarrow> string list \<Rightarrow> getopt_event list \<Rightarrow> 'j cJSON_api \<Rightarrow> (string \<Rightarrow> string option) \<Rightarrow> string
      \<Rightarrow> (dump_os TaskCollection \<Rightarrow> dump_os TaskCollection) \<Rightarrow> DumpContext \<Rightarrow> dump_os TaskControl \<Rightarrow> string list \<Rightarrow> dump_os
      \<Rightarrow> (DumpStatus \<times> dump_os TaskControl \<times> string list) option" where
  "task_request env argv ges J read_file configPath sched ctx tc out os =
    (case CmdParse_Parse env argv ges \<lparr>ps_ctx = ctx, ps_out = out\<rparr> of
       None \<Rightarrow> None
     | Some (st, s) \<Rightarrow> StartDump J read_file configPath (\<lambda>_. (st, ps_ctx s)) sched ctx tc (ps_out s) os)"

lemma StartDump_status: "\<exists>st tc' out'. StartDump J read_file configPath parse sched ctx tc out os = Some (st, tc', out') \<and> (st = DUMP_OK \<or> st = DUMP_FAIL)"
proof -
  have "ExecuteTask sched ids c t rs = None \<longleftrightarrow> False" for ids c t and rs :: run_state using ExecuteTask_status [of sched ids c t rs] by auto
  then show ?thesis by (auto simp: StartDump_def Let_def simp del: not_None_eq split: prod.splits option.splits)
qed

text \<open>Every request to the task framework is answered; one that the parser refuses changes nothing but the
  output.\<close>

lemma task_request_answered:
  assumes "list_all (cp_getopt_ok env argv) ges"
  shows "\<exists>st tc' out'. task_request env argv ges J read_file configPath sched ctx tc out os = Some (st, tc', out')
    \<and> (st = DUMP_OK \<or> st = DUMP_FAIL)"
proof -
  from Parse_defined [OF assms] obtain st s where "CmdParse_Parse env argv ges \<lparr>ps_ctx = ctx, ps_out = out\<rparr> = Some (st, s)" by blast
  with StartDump_status [of J read_file configPath "\<lambda>_. (st, ps_ctx s)"] show ?thesis by (simp add: task_request_def)
qed

lemma task_request_refused:
  assumes "CmdParse_Parse env argv ges \<lparr>ps_ctx = ctx, ps_out = out\<rparr> = Some (DUMP_FAIL, s)"
  shows "task_request env argv ges J read_file configPath sched ctx tc out os = Some (DUMP_FAIL, tc, ps_out s)"
  using assms by (simp add: task_request_def StartDump_def)

end
