(* ===== verification/Request_Properties.thy ===== *)
theory Request_Properties
  imports Cmd_Parse_Facts
begin

text \<open>
  The properties of whole requests to the task framework, from the command line on.
\<close>

section \<open>An example\<close>






section \<open>Requests\<close>





end
