(* ===== verification/Mem_Util.thy ===== *)
theory Mem_Util
  imports Common_Utils "HOL-Library.Char_ord" "HOL-Library.List_Lexorder" "HOL-Library.Multiset"
begin

text \<open>
  Helpers of the memory library: \<^verbatim>\<open>src/frameworks/native/src/util/string_utils.cpp\<close>, the reading of
  \<^verbatim>\<open>/proc\<close> in \<^verbatim>\<open>file_utils.cpp\<close>, \<^verbatim>\<open>executor/memory/memory_util.cpp\<close> and \<^verbatim>\<open>memory_filter.cpp\<close>. Values are 64-bit
  words, as in the source. An \<open>std::map\<close> is an association list sorted by its keys.
\<close>

type_synonym u64 = "64 word"
type_synonym ValueMap = "(string \<times> u64) list"
type_synonym GroupMap = "(string \<times> ValueMap) list"

section \<open>Sorted maps\<close>

text \<open>\<open>insert\<close>: an existing entry stays.\<close>

definition omap_insert :: "'k::linorder \<Rightarrow> 'v \<Rightarrow> ('k \<times> 'v) list \<Rightarrow> ('k \<times> 'v) list" where
  "omap_insert k v m = (if k \<in> set (keys m) then m else insort_key fst (k, v) m)"

text \<open>\<open>m[k] = v\<close>\<close>

definition omap_put :: "'k::linorder \<Rightarrow> 'v \<Rightarrow> ('k \<times> 'v) list \<Rightarrow> ('k \<times> 'v) list" where
  "omap_put k v m = modify k (\<lambda>_. v) (omap_insert k v m)"

text \<open>Sums over the values of a map.\<close>

lemma sum_values_modify:
  fixes h :: "'v \<Rightarrow> 'a::comm_monoid_add"
  assumes "distinct (keys m)" "k \<in> set (keys m)" "\<And>v. h (u v) = h v + x"
  shows "sum_list (map (\<lambda>p. h (snd p)) (modify k u m)) = sum_list (map (\<lambda>p. h (snd p)) m) + x"
  using assms(1,2)
proof (induction m)
  case (Cons p m)
  obtain k' v where p: "p = (k', v)" by (cases p)
  have rest: "modify k u m = m" if "k \<notin> set (keys m)" using that by (force simp: modify_def keys_def intro!: map_idI)
  show ?case
  proof (cases "k' = k")
    case True
    with Cons.prems p have "k \<notin> set (keys m)" by (auto simp: keys_def)
    then show ?thesis using True p rest by (simp add: modify_def assms(3) ac_simps)
  next
    case False
    with Cons p have "sum_list (map (\<lambda>p. h (snd p)) (modify k u m)) = sum_list (map (\<lambda>p. h (snd p)) m) + x"
      by (auto simp: keys_def)
    then show ?thesis using False p by (simp add: modify_def ac_simps)
  qed
qed (simp add: keys_def)

lemma keys_omap_insert: "mset (keys (omap_insert k v m)) = (if k \<in> set (keys m) then mset (keys m) else add_mset k (mset (keys m)))"
  by (simp add: omap_insert_def keys_def)

lemma distinct_omap_insert [intro]: "distinct (keys m) \<Longrightarrow> distinct (keys (omap_insert k v m))"
  using keys_omap_insert [of k v m] by (metis distinct.simps(2) mset.simps(2) mset_eq_imp_distinct_iff)

lemma set_keys_omap_insert [simp]: "set (keys (omap_insert k v m)) = insert k (set (keys m))"
  using keys_omap_insert [of k v m] by (metis insert_absorb set_mset_add_mset_insert set_mset_mset)

lemma sum_omap_insert:
  fixes h :: "'v \<Rightarrow> 'a::comm_monoid_add"
  assumes "k \<notin> set (keys m)"
  shows "sum_list (map (\<lambda>p. h (snd p)) (omap_insert k v m)) = sum_list (map (\<lambda>p. h (snd p)) m) + h v"
proof -
  have "mset (map (\<lambda>p. h (snd p)) (omap_insert k v m)) = add_mset (h v) (mset (map (\<lambda>p. h (snd p)) m))"
    using assms by (simp add: omap_insert_def)
  then have "sum_mset (mset (map (\<lambda>p. h (snd p)) (omap_insert k v m))) = h v + sum_mset (mset (map (\<lambda>p. h (snd p)) m))"
    by (simp only: sum_mset.add_mset)
  then show ?thesis by (simp only: sum_mset_sum_list ac_simps)
qed

section \<open>Strings\<close>

definition IsBegin :: "string \<Rightarrow> string \<Rightarrow> bool" where
  "IsBegin content start = (find_str start content = Some 0)"

definition IsEnd :: "string \<Rightarrow> string \<Rightarrow> bool" where
  "IsEnd content ending = (length content \<ge> length ending \<and> drop (length content - length ending) content = ending)"

definition IsSameStr :: "string \<Rightarrow> string \<Rightarrow> bool" where
  "IsSameStr x y = (x = y)"

definition SetWidth :: "int \<Rightarrow> char \<Rightarrow> bool \<Rightarrow> string \<Rightarrow> string" where
  "SetWidth width fill left str =
    (let pad = replicate (nat width - length str) fill in if left then str @ pad else pad @ str)"

text \<open>
  \<open>HexToDec\<close> adds powers of 16 in floating point. They are exact for the eight digits of a word that
  \<open>xxd -g 4\<close> prints. Every character that is not a decimal digit counts as an upper-case digit.
\<close>

definition hex_digit :: "char \<Rightarrow> int" where
  "hex_digit c = (if is_digit c then of_char c - 48 else of_char c - 65 + 10)"

fun HexToDec :: "string \<Rightarrow> u64 \<Rightarrow> u64" where
  "HexToDec [] value = value"
| "HexToDec (c # cs) value = HexToDec cs (value + of_int (hex_digit c * 16 ^ length cs))"

text \<open>\<open>strtoll\<close> and its check: \<open>None\<close> when the number does not fit.\<close>

definition IsStringToIntSuccess :: "string \<Rightarrow> int option" where
  "IsStringToIntSuccess s =
    (let t = dropWhile is_space s;
         neg = (t \<noteq> [] \<and> hd t = CHR ''-'');
         u = (if t \<noteq> [] \<and> (hd t = CHR ''-'' \<or> hd t = CHR ''+'') then tl t else t);
         v = int (decimal (takeWhile is_digit u)); n = (if neg then - v else v) in
     if n < - (2 ^ 63) \<or> n \<ge> 2 ^ 63 then None else Some n)"

text \<open>\<open>strtoull\<close> whose errors are not looked at: 0 without digits, the largest value on overflow.\<close>

definition strtoull_value :: "string \<Rightarrow> u64" where
  "strtoull_value s =
    (let t = dropWhile is_space s;
         neg = (t \<noteq> [] \<and> hd t = CHR ''-'');
         u = (if t \<noteq> [] \<and> (hd t = CHR ''-'' \<or> hd t = CHR ''+'') then tl t else t);
         ds = takeWhile is_digit u in
     if decimal ds \<ge> 2 ^ 64 then - 1 else if neg then - of_nat (decimal ds) else of_nat (decimal ds))"

text \<open>\<open>ss >> word\<close> until the stream ends.\<close>

fun ws_words :: "string \<Rightarrow> string \<Rightarrow> string list" where
  "ws_words acc [] = (if acc = [] then [] else [rev acc])"
| "ws_words acc (c # cs) = (if is_space c then (if acc = [] then [] else [rev acc]) @ ws_words [] cs else ws_words (c # acc) cs)"

definition words_of :: "string \<Rightarrow> string list" where
  "words_of s = ws_words [] s"

definition u64_string :: "u64 \<Rightarrow> string" where
  "u64_string v = digits (unat v)"

section \<open>Values of files in proc\<close>

definition UNKNOWN :: string where "UNKNOWN = ''unknown''"

text \<open>The first line that contains the key decides.\<close>

definition fu_GetProcValue :: "common_env \<Rightarrow> string \<Rightarrow> string \<Rightarrow> string" where
  "fu_GetProcValue env path key =
    (case LoadStringFromProcCb env path False True of
       None \<Rightarrow> UNKNOWN
     | Some lines \<Rightarrow>
         (case find (\<lambda>line. contains line key) lines of
            None \<Rightarrow> UNKNOWN
          | Some content \<Rightarrow>
              if content = [] then UNKNOWN
              else
                let values = ce_split env content '':'' False False in
                if length values \<le> 1 then UNKNOWN
                else if length (values ! 1) \<le> 1 then UNKNOWN
                else drop 1 (values ! 1)))"

section \<open>MemoryUtil\<close>

definition KB_UNIT :: string where "KB_UNIT = '' kB''"
definition BYTE_TO_KB :: u64 where "BYTE_TO_KB = 1024"
definition mu_LINE_WIDTH :: int where "mu_LINE_WIDTH = 14"
definition SMAPS_LINE_WIDTH :: int where "SMAPS_LINE_WIDTH = 12"

definition is_hex :: "char \<Rightarrow> bool" where
  "is_hex c \<longleftrightarrow> is_digit c \<or> of_char c \<in> {65 .. 70 :: nat} \<or> of_char c \<in> {97 .. 102 :: nat}"

text \<open>
  The conversions of \<open>sscanf\<close> that the memory library uses. Each returns what is left of the text. A number may have a
  sign, a hexadecimal one also the prefix \<open>0x\<close>.
\<close>

definition drop_sign :: "string \<Rightarrow> string" where
  "drop_sign s = (if s \<noteq> [] \<and> (hd s = CHR ''-'' \<or> hd s = CHR ''+'') then tl s else s)"

definition scan_hex :: "string \<Rightarrow> string option" where
  "scan_hex s =
    (let t = drop_sign (dropWhile is_space s);
         u = (if take 2 t = ''0x'' \<or> take 2 t = ''0X'' then drop 2 t else t) in
     if takeWhile is_hex u = [] then None else Some (dropWhile is_hex u))"

definition scan_word :: "string \<Rightarrow> string option" where
  "scan_word s = (let t = dropWhile is_space s in if t = [] then None else Some (dropWhile (\<lambda>c. \<not> is_space c) t))"

definition scan_dec :: "string \<Rightarrow> (u64 \<times> string) option" where
  "scan_dec s =
    (let t = dropWhile is_space s; u = drop_sign t in
     if takeWhile is_digit u = [] then None else Some (strtoull_value t, dropWhile is_digit u))"

definition scan_char :: "char \<Rightarrow> string \<Rightarrow> string option" where
  "scan_char c s = (case s of [] \<Rightarrow> None | d # r \<Rightarrow> if d = c then Some r else None)"

text \<open>The head of a map in \<open>smaps\<close>: its name, when there is one, and its file node.\<close>

definition IsNameLine :: "string \<Rightarrow> (string \<times> u64) option" where
  "IsNameLine str =
    (do {
       s1 \<leftarrow> scan_hex str;
       s2 \<leftarrow> scan_char CHR ''-'' s1;
       s3 \<leftarrow> scan_hex s2;
       s4 \<leftarrow> scan_word s3;
       s5 \<leftarrow> scan_hex s4;
       s6 \<leftarrow> scan_word s5;
       (iNode, s7) \<leftarrow> scan_dec s6;
       let rest = dropWhile (\<lambda>c. c = CHR '' '') s7;
       Some (if rest = [] then ''[anon]'' else rest, iNode)
     })"

definition GetTypeAndValue :: "string \<Rightarrow> (string \<times> u64) option" where
  "GetTypeAndValue str =
    (case find_str '':'' str of None \<Rightarrow> None | Some typePos \<Rightarrow> Some (take typePos str, strtoull_value (drop (typePos + 1) str)))"

definition GetTypeValue :: "string \<Rightarrow> string list \<Rightarrow> (string \<times> u64) option" where
  "GetTypeValue str tags = map_option (\<lambda>(type, value). (type, if type \<in> set tags then value else 0)) (GetTypeAndValue str)"

definition CalcGroup :: "string \<Rightarrow> string \<Rightarrow> u64 \<Rightarrow> GroupMap \<Rightarrow> GroupMap" where
  "CalcGroup grp type value infos =
    (case map_of infos grp of
       None \<Rightarrow> omap_insert grp [(type, value)] infos
     | Some valueMap \<Rightarrow>
         modify grp (\<lambda>m. if type \<in> set (keys m) then modify type (\<lambda>v. v + value) m else omap_insert type value m) infos)"

text \<open>\<open>RunCMD\<close> is a parameter of its callers: the lines of the output without their line feeds.\<close>

definition GetMaxThreadNum :: "nat \<Rightarrow> nat \<Rightarrow> nat" where
  "GetMaxThreadNum hardwareThreads threadNum =
    (let maxThreadNum = (if hardwareThreads = 0 then threadNum else if hardwareThreads < threadNum then hardwareThreads else threadNum) in
     if maxThreadNum = 0 then 1 else maxThreadNum)"

definition SetMemTotalValue :: "string \<Rightarrow> string list \<times> string list \<Rightarrow> bool \<Rightarrow> string list \<times> string list" where
  "SetMemTotalValue value lv flag =
    (case lv of (lines, values) \<Rightarrow>
      if \<not> flag then
        (lines @ [SetWidth mu_LINE_WIDTH CHR ''-'' False ''-'' @ ''-''], values @ [SetWidth mu_LINE_WIDTH CHR '' '' False value @ '' ''])
      else if IsSameStr value ''Summary'' then (lines, values @ [SetWidth 25 CHR '' '' False value])
      else (lines, values @ [SetWidth SMAPS_LINE_WIDTH CHR '' '' True value]))"

text \<open>\<open>iPerm |= (1 << i)\<close> for every character that grants something.\<close>

definition PermToInt :: "string \<Rightarrow> u64" where
  "PermToInt perm = fold (\<lambda>i p. if perm ! i \<noteq> CHR ''-'' \<and> perm ! i \<noteq> CHR ''s'' then or p (push_bit i 1) else p) [0 ..< length perm] 0"

section \<open>MemoryFilter\<close>

definition FILE_PAGE_TAG :: string where "FILE_PAGE_TAG = ''File-backed Page''"
definition ANON_PAGE_TAG :: string where "ANON_PAGE_TAG = ''Anonymous Page''"
definition GL_OUT_LABEL :: string where "GL_OUT_LABEL = ''GL''"
definition GRAPH_OUT_LABEL :: string where "GRAPH_OUT_LABEL = ''Graph''"
definition DMA_OUT_LABEL :: string where "DMA_OUT_LABEL = ''Dma''"
definition GPU_TAG :: string where "GPU_TAG = ''GPU''"
definition DMA_TAG :: string where "DMA_TAG = ''DMA''"
definition PURGSUM_OUT_LABEL :: string where "PURGSUM_OUT_LABEL = ''PurgSum''"
definition PURGPIN_OUT_LABEL :: string where "PURGPIN_OUT_LABEL = ''PurgPin''"
definition NATIVE_HEAP_LABEL :: string where "NATIVE_HEAP_LABEL = ''native heap''"

definition VALUE_WITH_PID :: "string list" where
  "VALUE_WITH_PID = [''Pss'', ''Shared_Clean'', ''Shared_Dirty'', ''Private_Clean'', ''Private_Dirty'', ''Swap'', ''SwapPss'',
     ''Heap_Size'', ''Heap_Alloc'', ''Heap_Free'']"

definition TITLE_HAS_PID :: "string list" where
  "TITLE_HAS_PID = [''Pss_Total'', ''Shared_Clean'', ''Shared_Dirty'', ''Private_Clean'', ''Private_Dirty'', ''Swap_Total'',
     ''SwapPss_Total'', ''Heap_Size'', ''Heap_Alloc'', ''Heap_Free'']"

definition TITLE_SMAPS_HAS_PID :: "string list" where
  "TITLE_SMAPS_HAS_PID = [''Size'', ''Rss'', ''Pss'', ''Shared_Clean'', ''Shared_Dirty'', ''Private_Clean'', ''Private_Dirty'',
     ''Swap'', ''SwapPss'', ''Counts'', ''Category'', ''Name'']"

definition TITLE_V_SMAPS_HAS_PID :: "string list" where
  "TITLE_V_SMAPS_HAS_PID = [''Size'', ''Rss'', ''Pss'', ''Shared_Clean'', ''Shared_Dirty'', ''Private_Clean'', ''Private_Dirty'',
     ''Swap'', ''SwapPss'', ''Perm'', ''Start'', ''End'', ''Category'', ''Name'']"

definition MEMINFO_TAG :: "string list" where
  "MEMINFO_TAG = [''MemTotal'', ''MemFree'', ''Cached'', ''SwapTotal'', ''KernelStack'', ''SUnreclaim'', ''PageTables'', ''Shmem'',
     ''IonTotalCache'', ''IonTotalUsed'', ''Buffers'', ''Mapped'', ''Slab'', ''VmallocUsed'', ''Active(purg)'', ''Inactive(purg)'',
     ''Pined(purg)'', ''KReclaimable'', ''SReclaimable'']"

definition PURG_SUM :: "string list" where "PURG_SUM = [''Active(purg)'', ''Inactive(purg)'']"
definition PURG_PIN :: "string list" where "PURG_PIN = [''Pined(purg)'']"
definition CALC_KERNEL_TOTAL :: "string list" where "CALC_KERNEL_TOTAL = [''KernelStack'', ''SUnreclaim'', ''PageTables'', ''Shmem'']"
definition CALC_PSS_TOTAL :: "string list" where "CALC_PSS_TOTAL = [''Pss'', ''SwapPss'']"
definition CALC_PROCESS_TOTAL :: "string list" where "CALC_PROCESS_TOTAL = [''Pss'', ''SwapPss'']"
definition CALC_TOTAL_PSS :: "string list" where "CALC_TOTAL_PSS = [''Pss'']"
definition CALC_TOTAL_SWAP_PSS :: "string list" where "CALC_TOTAL_SWAP_PSS = [''SwapPss'']"
definition CALC_KERNEL_USED :: "string list" where
  "CALC_KERNEL_USED = [''Shmem'', ''Slab'', ''VmallocUsed'', ''PageTables'', ''KernelStack'']"
definition CALC_FREE :: "string list" where "CALC_FREE = [''MemFree'']"
definition CALC_CACHED :: "string list" where "CALC_CACHED = [''Buffers'', ''Cached'', ''KReclaimable'', ''SReclaimable'']"
definition CALC_KRECL :: "string list" where "CALC_KRECL = [''KReclaimable'']"
definition CALC_SRECL :: "string list" where "CALC_SRECL = [''SReclaimable'']"
definition CALC_MAPPED :: "string list" where "CALC_MAPPED = [''Mapped'']"
definition CALC_TOTAL :: "string list" where "CALC_TOTAL = [''MemTotal'']"
definition CALC_ZARM_TOTAL :: "string list" where "CALC_ZARM_TOTAL = []"

text \<open>The three maps in the order in which \<open>std::map\<close> visits them.\<close>

definition beginMap :: "(string \<times> string) list" where
  "beginMap = sort_key fst
    [(''[heap]'', ''native heap''), (''[stack]'', ''stack''), (''[anon:stack'', ''stack''),
     (''[anon:native_heap:'', ''native heap''), (''[anon:ArkTS Heap'', ''ark ts heap''),
     (''[anon:guard'', ''guard''), (''/dev'', ''dev''), (''[anon:signal_stack'', ''stack''),
     (''/dmabuf'', ''dmabuf''), (''/data/storage'', ''.hap''), (''[anon:libc_malloc'', ''native heap'')]"

definition heapBeginMap :: "(string \<times> string) list" where
  "heapBeginMap = sort_key fst
    [(''[heap]'', ''heap''), (''[anon:native_heap:jemalloc meta'', ''jemalloc meta''),
     (''[anon:native_heap:jemalloc]'', ''jemalloc heap''), (''[anon:native_heap:brk'', ''brk heap''),
     (''[anon:native_heap:meta'', ''musl heap''), (''[anon:native_heap:mmap'', ''mmap heap'')]"

definition endMap :: "(string \<times> string) list" where
  "endMap = sort_key fst
    [(''.so'', ''.so''), (''.so.1'', ''.so''), (''.ttf'', ''.ttf''), (''.db'', ''.db''), (''.db-shm'', ''.db'')]"

definition GetGroupFromMap :: "string \<Rightarrow> (string \<times> string) list \<Rightarrow> (string \<Rightarrow> string \<Rightarrow> bool) \<Rightarrow> string option" where
  "GetGroupFromMap name m func = map_option snd (find (\<lambda>p. func name (fst p)) m)"

definition ParseMemoryGroup :: "string \<Rightarrow> u64 \<Rightarrow> string" where
  "ParseMemoryGroup name iNode =
    (if iNode > 0 then FILE_PAGE_TAG else ANON_PAGE_TAG) @ ''#'' @
    (case GetGroupFromMap name endMap IsEnd of
       Some g \<Rightarrow> g
     | None \<Rightarrow> (case GetGroupFromMap name beginMap IsBegin of Some g \<Rightarrow> g | None \<Rightarrow> ''other''))"

definition ParseNativeHeapMemoryGroup :: "string \<Rightarrow> u64 \<Rightarrow> string" where
  "ParseNativeHeapMemoryGroup name iNode = (case GetGroupFromMap name heapBeginMap IsBegin of Some g \<Rightarrow> g | None \<Rightarrow> [])"

end
