(* ===== verification/Mem_Parse.thy ===== *)
theory Mem_Parse
  imports Mem_Util
begin

text \<open>
  The parsers of the memory library: \<^verbatim>\<open>executor/memory/parse\<close> (\<^verbatim>\<open>parse_meminfo.cpp\<close>, \<^verbatim>\<open>parse_smaps_info.cpp\<close>,
  \<^verbatim>\<open>parse_smaps_rollup_info.cpp\<close>, \<^verbatim>\<open>parse_ashmem_info.cpp\<close>, \<^verbatim>\<open>parse_dmabuf_info.cpp\<close>, \<^verbatim>\<open>parse_vmallocinfo.cpp\<close>),
  \<^verbatim>\<open>dma_info.cpp\<close> and the structures of \<^verbatim>\<open>meminfo_data.h\<close>.

  The data of the collector library (\<open>MemoryItem\<close>, \<open>MemoryDetail\<close>, \<open>ProcessMemoryDetail\<close>) are records of natural
  numbers of kilobytes. The values a parser adds up itself are 64-bit words.
\<close>

section \<open>Data\<close>

record MemInfo =
  mi_rss :: u64
  mi_pss :: u64
  mi_sharedClean :: u64
  mi_sharedDirty :: u64
  mi_privateClean :: u64
  mi_privateDirty :: u64
  mi_swap :: u64
  mi_swapPss :: u64
  mi_heapSize :: u64
  mi_heapAlloc :: u64
  mi_heapFree :: u64

record MemUsage =
  mu_vss :: u64
  mu_rss :: u64
  mu_uss :: u64
  mu_pss :: u64
  mu_swapPss :: u64
  mu_gl :: u64
  mu_graph :: u64
  mu_dma :: u64
  mu_purgSum :: u64
  mu_purgPin :: u64
  mu_pid :: int
  mu_name :: string
  mu_adjLabel :: string

record GraphicsMemory =
  gm_gl :: u64
  gm_graph :: u64

definition InitMemInfo :: "MemInfo \<Rightarrow> MemInfo" where
  "InitMemInfo memInfo =
    memInfo\<lparr>mi_rss := 0, mi_pss := 0, mi_sharedClean := 0, mi_sharedDirty := 0, mi_privateClean := 0, mi_privateDirty := 0,
      mi_swap := 0, mi_swapPss := 0, mi_heapSize := 0, mi_heapAlloc := 0, mi_heapFree := 0\<rparr>"

definition MemInfo_new :: MemInfo where
  "MemInfo_new =
    \<lparr>mi_rss = 0, mi_pss = 0, mi_sharedClean = 0, mi_sharedDirty = 0, mi_privateClean = 0, mi_privateDirty = 0,
     mi_swap = 0, mi_swapPss = 0, mi_heapSize = 0, mi_heapAlloc = 0, mi_heapFree = 0\<rparr>"

definition MemUsage_new :: MemUsage where
  "MemUsage_new =
    \<lparr>mu_vss = 0, mu_rss = 0, mu_uss = 0, mu_pss = 0, mu_swapPss = 0, mu_gl = 0, mu_graph = 0, mu_dma = 0,
     mu_purgSum = 0, mu_purgPin = 0, mu_pid = -1, mu_name = [], mu_adjLabel = []\<rparr>"

text \<open>The fields that \<open>InitMemUsage\<close> leaves alone keep their values.\<close>

definition InitMemUsage :: "MemUsage \<Rightarrow> MemUsage" where
  "InitMemUsage usage =
    usage\<lparr>mu_vss := 0, mu_rss := 0, mu_uss := 0, mu_pss := 0, mu_gl := 0, mu_graph := 0, mu_purgSum := 0, mu_purgPin := 0, mu_pid := 0\<rparr>"

definition InitGraphicsMemory :: "GraphicsMemory \<Rightarrow> GraphicsMemory" where
  "InitGraphicsMemory g = g\<lparr>gm_gl := 0, gm_graph := 0\<rparr>"

text \<open>The item types that the sources name, and one for all others.\<close>

datatype MemoryItemType =
    MEMORY_ITEM_TYPE_HEAP
  | MEMORY_ITEM_TYPE_ANON_NATIVE_HEAP_JEMALLOC_META
  | MEMORY_ITEM_TYPE_ANON_NATIVE_HEAP_JEMALLOC
  | MEMORY_ITEM_TYPE_ANON_NATIVE_HEAP_BRK
  | MEMORY_ITEM_TYPE_ANON_NATIVE_HEAP_META
  | MEMORY_ITEM_TYPE_ANON_NATIVE_HEAP_MMAP
  | MEMORY_ITEM_TYPE_GRAPH_GL
  | MEMORY_ITEM_TYPE_GRAPH_GRAPHICS
  | MEMORY_ITEM_TYPE_ANY

record MemoryItem =
  it_type :: MemoryItemType
  it_name :: string
  it_startAddr :: string
  it_endAddr :: string
  it_permission :: string
  it_iNode :: int
  it_size :: nat
  it_rss :: nat
  it_pss :: nat
  it_swapPss :: nat
  it_swap :: nat
  it_sharedDirty :: nat
  it_privateDirty :: nat
  it_sharedClean :: nat
  it_privateClean :: nat

record MemoryDetail =
  dt_memoryClass :: int
  dt_items :: "MemoryItem list"
  dt_totalPss :: nat
  dt_totalSwapPss :: nat
  dt_totalSwap :: nat
  dt_totalSharedDirty :: nat
  dt_totalPrivateDirty :: nat
  dt_totalSharedClean :: nat
  dt_totalPrivateClean :: nat

record ProcessMemoryDetail =
  pd_details :: "MemoryDetail list"
  pd_totalAllPss :: nat
  pd_totalSwapPss :: nat
  pd_totalSwap :: nat
  pd_totalSharedDirty :: nat
  pd_totalPrivateDirty :: nat
  pd_totalSharedClean :: nat
  pd_totalPrivateClean :: nat

definition MEMORY_CLASS_VEC :: "string list" where
  "MEMORY_CLASS_VEC = [''graph'', ''ark ts heap'', ''arkts-static heap'', ''.db'', ''dev'', ''dmabuf'', ''guard'', ''.hap'',
     ''native heap'', ''.so'', ''stack'', ''.ttf'', ''jsvm heap'', ''arkweb-js heap'', ''arkweb-pa heap'', ''kotlin heap'',
     ''rn-hermes heap'', ''dart heap'', ''other'']"

text \<open>
  The test in front of every access to the vector of class names lets the class number 19, the size of the vector,
  pass. Reading there is undefined behaviour, the value \<open>None\<close> below.
\<close>

definition class_skipped :: "int \<Rightarrow> bool" where
  "class_skipped memoryClass \<longleftrightarrow> memoryClass < 0 \<or> nat memoryClass > length MEMORY_CLASS_VEC"

definition class_name :: "int \<Rightarrow> string option" where
  "class_name memoryClass = (if nat memoryClass < length MEMORY_CLASS_VEC then Some (MEMORY_CLASS_VEC ! nat memoryClass) else None)"

section \<open>meminfo and vmallocinfo\<close>

definition SetData :: "string \<Rightarrow> ValueMap \<Rightarrow> ValueMap" where
  "SetData str result = (case GetTypeValue str MEMINFO_TAG of None \<Rightarrow> result | Some (type, value) \<Rightarrow> omap_insert type value result)"

definition pm_GetMeminfo :: "common_env \<Rightarrow> ValueMap \<Rightarrow> bool \<times> ValueMap" where
  "pm_GetMeminfo env result =
    (case LoadStringFromProcCb env ''/proc/meminfo'' False True of
       None \<Rightarrow> (False, result) | Some lines \<Rightarrow> (True, fold SetData lines result))"

definition CaclVmalloclValue :: "string \<Rightarrow> u64 \<Rightarrow> u64" where
  "CaclVmalloclValue str totalValue =
    (let words = words_of str in totalValue + (if length words > 1 then strtoull_value (words ! 1) else 0))"

definition GetVmallocinfo :: "common_env \<Rightarrow> bool \<times> u64" where
  "GetVmallocinfo env =
    (case LoadStringFromProcCb env ''/proc/vmallocinfo'' False True of
       None \<Rightarrow> (False, 0)
     | Some lines \<Rightarrow> (True, fold (\<lambda>line value. if contains line ''pages='' then CaclVmalloclValue line value else value) lines 0))"

section \<open>smaps\<close>

datatype MemoryType = APPOINT_PID | NOT_SPECIFIED_PID

definition typed_value :: "string list \<Rightarrow> string \<Rightarrow> (string \<times> u64) option" where
  "typed_value types str = (case GetTypeAndValue str of None \<Rightarrow> None | Some (type, value) \<Rightarrow> if type \<in> set types then Some (type, value) else None)"

definition GetHasPidValue :: "string \<Rightarrow> (string \<times> u64) option" where
  "GetHasPidValue str =
    (if IsBegin str ''R'' then typed_value [''Rss''] str
     else if IsBegin str ''P'' then typed_value [''Pss'', ''Private_Clean'', ''Private_Dirty''] str
     else if IsBegin str ''S'' then typed_value [''Shared_Clean'', ''Shared_Dirty'', ''Swap'', ''SwapPss'', ''Size''] str
     else None)"

definition GetNoPidValue :: "string \<Rightarrow> (string \<times> u64) option" where
  "GetNoPidValue str = (if IsBegin str ''Pss'' \<or> IsBegin str ''SwapPss'' then GetTypeAndValue str else None)"

definition smaps_GetValue :: "MemoryType \<Rightarrow> string \<Rightarrow> (string \<times> u64) option" where
  "smaps_GetValue memType str = (if memType = APPOINT_PID then GetHasPidValue str else GetNoPidValue str)"

record ParseSmapsInfo =
  ps_memGroup :: string
  ps_nativeMemGroup :: string
  ps_nativeMap :: GroupMap
  ps_result :: GroupMap

definition smaps_line :: "MemoryType \<Rightarrow> string \<Rightarrow> ParseSmapsInfo \<Rightarrow> ParseSmapsInfo" where
  "smaps_line memType line s =
    (if IsEnd line ''B'' then
       (case smaps_GetValue memType line of
          None \<Rightarrow> s
        | Some (type, value) \<Rightarrow>
            s\<lparr>ps_result := CalcGroup (ps_memGroup s) type value (ps_result s),
              ps_nativeMap := CalcGroup (ps_nativeMemGroup s) type value (ps_nativeMap s)\<rparr>)
     else
       (case IsNameLine line of
          None \<Rightarrow> s
        | Some (name, iNode) \<Rightarrow>
            s\<lparr>ps_memGroup := ParseMemoryGroup name iNode, ps_nativeMemGroup := ParseNativeHeapMemoryGroup name iNode\<rparr>))"

definition GetInfo :: "common_env \<Rightarrow> MemoryType \<Rightarrow> int \<Rightarrow> GroupMap \<Rightarrow> GroupMap \<Rightarrow> bool \<times> GroupMap \<times> GroupMap" where
  "GetInfo env memType pid nativeMap result =
    (case LoadStringFromProcCb env (''/proc/'' @ to_string pid @ ''/smaps'') False True of
       None \<Rightarrow> (False, nativeMap, result)
     | Some lines \<Rightarrow>
         let s = fold (smaps_line memType) lines \<lparr>ps_memGroup = [], ps_nativeMemGroup = [], ps_nativeMap = nativeMap, ps_result = result\<rparr>
         in (True, ps_nativeMap s, ps_result s))"

record MemoryData =
  md_name :: string
  md_memoryClass :: string
  md_startAddr :: string
  md_endAddr :: string
  md_permission :: string
  md_counts :: int
  md_size :: u64
  md_rss :: u64
  md_pss :: u64
  md_swapPss :: u64
  md_swap :: u64
  md_sharedDirty :: u64
  md_privateDirty :: u64
  md_sharedClean :: u64
  md_privateClean :: u64
  md_iNode :: u64

definition MemoryData_new :: MemoryData where
  "MemoryData_new =
    \<lparr>md_name = ''[anon]'', md_memoryClass = [], md_startAddr = [], md_endAddr = [], md_permission = [], md_counts = 0,
     md_size = 0, md_rss = 0, md_pss = 0, md_swapPss = 0, md_swap = 0, md_sharedDirty = 0, md_privateDirty = 0,
     md_sharedClean = 0, md_privateClean = 0, md_iNode = 0\<rparr>"

definition SetMemoryData :: "MemoryData \<Rightarrow> MemoryItem \<Rightarrow> string \<Rightarrow> MemoryData" where
  "SetMemoryData memoryData item memoryClassStr =
    memoryData\<lparr>md_name := (if it_name item = [] then ''[anon]'' else it_name item), md_memoryClass := memoryClassStr, md_counts := 1,
      md_size := of_nat (it_size item), md_rss := of_nat (it_rss item), md_pss := of_nat (it_pss item),
      md_swapPss := of_nat (it_swapPss item), md_swap := of_nat (it_swap item), md_sharedDirty := of_nat (it_sharedDirty item),
      md_privateDirty := of_nat (it_privateDirty item), md_sharedClean := of_nat (it_sharedClean item),
      md_privateClean := of_nat (it_privateClean item), md_iNode := of_int (it_iNode item)\<rparr>"

definition add_item :: "MemoryItem \<Rightarrow> MemoryData \<Rightarrow> MemoryData" where
  "add_item item d =
    d\<lparr>md_size := md_size d + of_nat (it_size item), md_rss := md_rss d + of_nat (it_rss item), md_pss := md_pss d + of_nat (it_pss item),
      md_swapPss := md_swapPss d + of_nat (it_swapPss item), md_swap := md_swap d + of_nat (it_swap item),
      md_sharedDirty := md_sharedDirty d + of_nat (it_sharedDirty item), md_privateDirty := md_privateDirty d + of_nat (it_privateDirty item),
      md_sharedClean := md_sharedClean d + of_nat (it_sharedClean item), md_privateClean := md_privateClean d + of_nat (it_privateClean item),
      md_counts := md_counts d + 1\<rparr>"

type_synonym same_names = "(string \<times> MemoryData) list"

definition count_item :: "string \<Rightarrow> MemoryItem \<Rightarrow> same_names \<Rightarrow> same_names" where
  "count_item memoryClassStr item m =
    (if it_name item \<in> set (keys m) then modify (it_name item) (add_item item) m
     else omap_insert (it_name item) (SetMemoryData MemoryData_new item memoryClassStr) m)"

definition UpdateCountSameNameMemMap :: "MemoryItem list \<Rightarrow> string \<Rightarrow> same_names \<Rightarrow> same_names" where
  "UpdateCountSameNameMemMap items memoryClassStr m = fold (count_item memoryClassStr) items m"

definition address_data :: "string \<Rightarrow> MemoryItem \<Rightarrow> MemoryData" where
  "address_data memoryClassStr item =
    SetMemoryData (MemoryData_new\<lparr>md_permission := it_permission item, md_startAddr := it_startAddr item, md_endAddr := it_endAddr item\<rparr>)
      item memoryClassStr"

definition UpdateShowAddressMemInfoVec :: "MemoryItem list \<Rightarrow> string \<Rightarrow> MemoryData list \<Rightarrow> MemoryData list" where
  "UpdateShowAddressMemInfoVec items memoryClassStr vec = vec @ map (address_data memoryClassStr) items"

text \<open>The answer of \<open>CollectProcessMemoryDetail\<close> is an argument, \<open>None\<close> when the collector reports an error.\<close>

fun smaps_details :: "bool \<Rightarrow> MemoryDetail list \<Rightarrow> same_names \<Rightarrow> MemoryData list \<Rightarrow> (same_names \<times> MemoryData list) option" where
  "smaps_details show [] m vec = Some (m, vec)"
| "smaps_details show (d # ds) m vec =
    (if class_skipped (dt_memoryClass d) then smaps_details show ds m vec
     else case class_name (dt_memoryClass d) of
         None \<Rightarrow> None
       | Some memoryClassStr \<Rightarrow>
           if memoryClassStr = ''graph'' then smaps_details show ds m vec
           else if show then smaps_details show ds m (UpdateShowAddressMemInfoVec (dt_items d) memoryClassStr vec)
           else smaps_details show ds (UpdateCountSameNameMemMap (dt_items d) memoryClassStr m) vec)"

definition GetSmapsData :: "ProcessMemoryDetail option \<Rightarrow> bool \<Rightarrow> same_names \<Rightarrow> MemoryData list \<Rightarrow> (bool \<times> same_names \<times> MemoryData list) option" where
  "GetSmapsData collected show m vec =
    (case collected of
       None \<Rightarrow> Some (False, m, vec)
     | Some detail \<Rightarrow> map_option (\<lambda>(m', vec'). (True, m', vec')) (smaps_details show (pd_details detail) m vec))"

section \<open>smaps\_rollup\<close>

definition rollup_set :: "string \<Rightarrow> u64 \<Rightarrow> MemInfo \<Rightarrow> MemInfo" where
  "rollup_set type value memInfo =
    (if type = ''Rss'' then memInfo\<lparr>mi_rss := value\<rparr>
     else if type = ''Pss'' then memInfo\<lparr>mi_pss := value\<rparr>
     else if type = ''Private_Clean'' then memInfo\<lparr>mi_privateClean := value\<rparr>
     else if type = ''Private_Dirty'' then memInfo\<lparr>mi_privateDirty := value\<rparr>
     else if type = ''Shared_Clean'' then memInfo\<lparr>mi_sharedClean := value\<rparr>
     else if type = ''Shared_Dirty'' then memInfo\<lparr>mi_sharedDirty := value\<rparr>
     else if type = ''Swap'' then memInfo\<lparr>mi_swap := value\<rparr>
     else if type = ''SwapPss'' then memInfo\<lparr>mi_swapPss := value\<rparr>
     else memInfo)"

text \<open>A type starts with the letter of its line, so that the three branches of the source can share \<open>rollup_set\<close>.\<close>

definition rollup_GetValue :: "string \<Rightarrow> MemInfo \<Rightarrow> MemInfo" where
  "rollup_GetValue str memInfo =
    (if IsBegin str ''R'' \<or> IsBegin str ''P'' \<or> IsBegin str ''S'' then
       (case GetTypeAndValue str of None \<Rightarrow> memInfo | Some (type, value) \<Rightarrow> rollup_set type value memInfo)
     else memInfo)"

definition GetMemInfo :: "common_env \<Rightarrow> int \<Rightarrow> MemInfo \<Rightarrow> bool \<times> MemInfo" where
  "GetMemInfo env pid memInfo =
    (case LoadStringFromProcCb env (''/proc/'' @ to_string pid @ ''/smaps_rollup'') False True of
       None \<Rightarrow> (False, memInfo) | Some lines \<Rightarrow> (True, fold rollup_GetValue lines memInfo))"

end
