(* ===== verification/Mem_Buffers.thy ===== *)
theory Mem_Buffers
  imports Mem_Parse
begin

text \<open>
  The parsers of shared and device buffers: \<^verbatim>\<open>parse/parse_ashmem_info.cpp\<close>, \<^verbatim>\<open>parse/parse_dmabuf_info.cpp\<close> and
  \<^verbatim>\<open>dma_info.cpp\<close>.
\<close>

section \<open>Ashmem\<close>

text \<open>A scan set with a width: the longest prefix of allowed characters, at least one.\<close>

definition scan_set :: "nat \<Rightarrow> (char \<Rightarrow> bool) \<Rightarrow> string \<Rightarrow> (string \<times> string) option" where
  "scan_set width allowed s =
    (let t = take width (takeWhile allowed s) in if t = [] then None else Some (t, drop (length t) s))"

definition scan_literal :: "string \<Rightarrow> string \<Rightarrow> string option" where
  "scan_literal lit s = (if take (length lit) s = lit then Some (drop (length lit) s) else None)"

definition skip_space :: "string \<Rightarrow> string" where
  "skip_space s = dropWhile is_space s"

text \<open>\<^verbatim>\<open>"%*[^[][%127[^]]] %*[^p]physical size is %63s"\<close>: the process name and the number, when both are found.\<close>

definition ashmem_scan :: "string \<Rightarrow> (string \<times> string) option" where
  "ashmem_scan s0 =
    (do {
       (_, s1) \<leftarrow> scan_set (length s0) (\<lambda>c. c \<noteq> CHR ''['') s0;
       s2 \<leftarrow> scan_char CHR ''['' s1;
       (processName, s3) \<leftarrow> scan_set 127 (\<lambda>c. c \<noteq> CHR '']'') s2;
       s4 \<leftarrow> scan_char CHR '']'' s3;
       (_, s5) \<leftarrow> scan_set (length s4) (\<lambda>c. c \<noteq> CHR ''p'') (skip_space s4);
       s6 \<leftarrow> scan_literal ''physical'' s5;
       s7 \<leftarrow> scan_literal ''size'' (skip_space s6);
       s8 \<leftarrow> scan_literal ''is'' (skip_space s7);
       (numberStr, _) \<leftarrow> scan_set 63 (\<lambda>c. \<not> is_space c) (skip_space s8);
       Some (processName, numberStr)
     })"

definition trim_end :: "string \<Rightarrow> string" where
  "trim_end line = (let t = rev (dropWhile (\<lambda>c. c = CHR '' '') (rev line)) in if t = [] then line else t)"

definition UpdateAshmemOverviewMap :: "common_env \<Rightarrow> string \<Rightarrow> (string \<rightharpoonup> int) \<Rightarrow> bool \<times> (string \<rightharpoonup> int)" where
  "UpdateAshmemOverviewMap env line m =
    (case ashmem_scan (trim_end line) of
       None \<Rightarrow> (False, m)
     | Some (processName, physicalSize) \<Rightarrow>
         if \<not> ce_numeric env physicalSize then (False, m)
         else case IsStringToIntSuccess physicalSize of
             None \<Rightarrow> (False, m)
           | Some pss \<Rightarrow> (True, m(processName \<mapsto> pss)))"

text \<open>\<open>>>\<close> into an \<open>int\<close>: 0 without digits, the nearest value when the number does not fit.\<close>

definition stream_int :: "string \<Rightarrow> int" where
  "stream_int s =
    (let t = skip_space s; v = int (decimal (takeWhile is_digit (drop_sign t)));
         n = (if t \<noteq> [] \<and> hd t = CHR ''-'' then - v else v) in
     max (- (2 ^ 31)) (min (2 ^ 31 - 1) n))"

definition name_and_pid :: "string \<Rightarrow> string \<times> int" where
  "name_and_pid line =
    (let t = skip_space line; rest = dropWhile (\<lambda>c. \<not> is_space c) t in
     (takeWhile (\<lambda>c. \<not> is_space c) t, if t = [] then 0 else stream_int rest))"

record ashmem_state =
  as_inDetail :: bool
  as_processName :: string
  as_detailTitle :: string
  as_details :: "string list"
  as_overview :: "string \<rightharpoonup> int"

definition ashmem_new :: ashmem_state where
  "ashmem_new = \<lparr>as_inDetail = False, as_processName = ''unknown'', as_detailTitle = [], as_details = [], as_overview = Map.empty\<rparr>"

definition ashmem_line :: "common_env \<Rightarrow> int \<Rightarrow> string \<Rightarrow> ashmem_state \<Rightarrow> ashmem_state" where
  "ashmem_line env pid line s0 =
    (let s = (if contains line ''Total ashmem  of'' then s0\<lparr>as_overview := snd (UpdateAshmemOverviewMap env line (as_overview s0))\<rparr> else s0) in
     if contains line ''Process_name'' then s\<lparr>as_detailTitle := line, as_inDetail := True\<rparr>
     else if as_inDetail s then
       (case name_and_pid line of (name, targetPid) \<Rightarrow>
          if pid = targetPid then s\<lparr>as_processName := name, as_details := as_details s @ [line]\<rparr> else s)
     else s)"

text \<open>Division of C++ rounds towards zero; the result is an \<open>int\<close>.\<close>

definition int32 :: "int \<Rightarrow> int" where
  "int32 n = (n + 2 ^ 31) mod 2 ^ 32 - 2 ^ 31"

definition to_kb :: "int \<Rightarrow> int" where
  "to_kb n = (if n < 0 then - (- n div 1024) else n div 1024)"

definition GetAshmemInfo :: "common_env \<Rightarrow> int \<Rightarrow> (int \<times> string list) option" where
  "GetAshmemInfo env pid =
    (let loaded = LoadStringFromProcCb env ''/proc/ashmem_process_info'' False True;
         s = (case loaded of None \<Rightarrow> ashmem_new | Some lines \<Rightarrow> fold (ashmem_line env pid) lines ashmem_new) in
     if as_details s = [] then None
     else case as_overview s (as_processName s) of
         None \<Rightarrow> None
       | Some pss \<Rightarrow> if loaded = None then None else Some (int32 (to_kb pss), as_detailTitle s # as_details s))"

section \<open>Buffers of a process\<close>

record ParseDmaBufInfo =
  db_headerMap :: "string \<rightharpoonup> nat"
  db_columnWidths :: "nat list"
  db_titles :: "string list"
  db_detailTitle :: string
  db_inDetailSection :: bool
  db_details :: "string list"

definition ParseDmaBufInfo_new :: ParseDmaBufInfo where
  "ParseDmaBufInfo_new =
    \<lparr>db_headerMap = Map.empty, db_columnWidths = [], db_titles = [], db_detailTitle = [], db_inDetailSection = False, db_details = []\<rparr>"

definition ParseHeaderLine :: "string \<Rightarrow> ParseDmaBufInfo \<Rightarrow> ParseDmaBufInfo" where
  "ParseHeaderLine line s =
    (let headers = words_of line in
     s\<lparr>db_headerMap := fold (\<lambda>i m. m(headers ! i \<mapsto> i)) [0 ..< length headers] Map.empty,
       db_columnWidths := map length headers, db_titles := headers, db_detailTitle := line, db_inDetailSection := True\<rparr>)"

definition widen :: "string list \<Rightarrow> nat \<Rightarrow> nat list \<Rightarrow> nat list" where
  "widen row i widths =
    (if i \<ge> length widths then widths @ [length (row ! i)]
     else if length (row ! i) > widths ! i then widths[i := length (row ! i)] else widths)"

definition ParseDataLine :: "string \<Rightarrow> ParseDmaBufInfo \<Rightarrow> ParseDmaBufInfo" where
  "ParseDataLine line s =
    (let row = words_of line in
     s\<lparr>db_columnWidths := fold (widen row) [0 ..< length row] (db_columnWidths s), db_details := db_details s @ [line]\<rparr>)"

definition dmabuf_line :: "string \<Rightarrow> ParseDmaBufInfo \<Rightarrow> ParseDmaBufInfo" where
  "dmabuf_line line s =
    (if \<not> db_inDetailSection s \<and> contains line ''Process'' then ParseHeaderLine line s
     else if db_inDetailSection s then ParseDataLine line s else s)"

text \<open>
  The rows, the columns' indices, widths and titles. All four stay empty when the file has no data line.
\<close>

type_synonym dmabuf_info = "string list \<times> (string \<rightharpoonup> nat) \<times> nat list \<times> string list"

definition GetDmaBufInfo :: "common_env \<Rightarrow> int \<Rightarrow> bool \<times> dmabuf_info" where
  "GetDmaBufInfo env pid =
    (case LoadStringFromProcCb env (''/proc/'' @ to_string pid @ ''/mm_dmabuf_info'') False True of
       None \<Rightarrow> (False, [], Map.empty, [], [])
     | Some lines \<Rightarrow>
         let s = fold dmabuf_line lines ParseDmaBufInfo_new in
         if db_details s = [] then (True, [], Map.empty, [], [])
         else (True, db_detailTitle s # db_details s, db_headerMap s, db_columnWidths s, db_titles s))"

section \<open>Buffers of all processes\<close>

record DmaRow =
  dr_size :: u64
  dr_ino :: u64
  dr_pid :: "32 word"
  dr_name :: string

record DmaInfo =
  di_infos :: "(u64 \<times> DmaRow) list"
  di_map :: "(32 word \<times> u64) list"
  di_initialized :: bool

definition DmaInfo_new :: DmaInfo where
  "DmaInfo_new = \<lparr>di_infos = [], di_map = [], di_initialized = False\<rparr>"

text \<open>
  \<^verbatim>\<open>"%255s %llu %*llu %llu %llu ..."\<close>: the fields after the first one that does not match stay 0. Nothing of the line
  can make the result of \<open>sscanf\<close> 0, so that every line gives a row.
\<close>

definition dma_row :: "string \<Rightarrow> DmaRow" where
  "dma_row str =
    (let t = skip_space str; name = take 255 (takeWhile (\<lambda>c. \<not> is_space c) t); s1 = drop (length name) t in
     case scan_dec s1 of
       None \<Rightarrow> \<lparr>dr_size = 0, dr_ino = 0, dr_pid = 0, dr_name = name\<rparr>
     | Some (pid, s2) \<Rightarrow>
         (case Option.bind (scan_dec s2) (\<lambda>(_, s3). scan_dec s3) of
            None \<Rightarrow> \<lparr>dr_size = 0, dr_ino = 0, dr_pid = ucast pid, dr_name = name\<rparr>
          | Some (bytes, s4) \<Rightarrow>
              \<lparr>dr_size = bytes div 1024, dr_ino = (case scan_dec s4 of None \<Rightarrow> 0 | Some (ino, _) \<Rightarrow> ino), dr_pid = ucast pid, dr_name = name\<rparr>))"

definition CreateDmaInfo :: "string \<Rightarrow> (u64 \<times> DmaRow) list \<Rightarrow> (u64 \<times> DmaRow) list" where
  "CreateDmaInfo str infos =
    (let r = dma_row str in
     case map_of infos (dr_ino r) of
       None \<Rightarrow> omap_insert (dr_ino r) r infos
     | Some old \<Rightarrow>
         if (dr_name r \<noteq> ''composer_host'' \<and> dr_name r \<noteq> ''render_service'')
            \<or> (dr_name r = ''render_service'' \<and> dr_name old = ''composer_host'')
         then modify (dr_ino r) (dr_pid_update (\<lambda>_. dr_pid r)) infos
         else infos)"

definition add_dma :: "DmaRow \<Rightarrow> (32 word \<times> u64) list \<Rightarrow> (32 word \<times> u64) list" where
  "add_dma r m =
    (if dr_pid r \<in> set (keys m) then modify (dr_pid r) (\<lambda>v. v + dr_size r) m else omap_insert (dr_pid r) (dr_size r) m)"

definition ParseDmaInfo :: "common_env \<Rightarrow> DmaInfo \<Rightarrow> bool \<times> DmaInfo" where
  "ParseDmaInfo env s =
    (if di_initialized s then (True, s)
     else
       let loaded = LoadStringFromProcCb env ''/proc/process_dmabuf_info'' False True;
           infos = (case loaded of None \<Rightarrow> di_infos s | Some lines \<Rightarrow> fold CreateDmaInfo lines (di_infos s)) in
       (loaded \<noteq> None, s\<lparr>di_initialized := True, di_infos := infos, di_map := fold add_dma (map snd infos) (di_map s)\<rparr>))"

definition GetTotalDma :: "DmaInfo \<Rightarrow> u64" where
  "GetTotalDma s = sum_list (map snd (di_map s))"

definition GetDmaByPid :: "DmaInfo \<Rightarrow> int \<Rightarrow> u64" where
  "GetDmaByPid s pid = (case map_of (di_map s) (of_int pid) of None \<Rightarrow> 0 | Some v \<Rightarrow> v)"

end
