(* ===== verification/Mem_Sums.thy ===== *)
theory Mem_Sums
  imports Mem_Buffers
begin

text \<open>
  The sums of the memory overview: \<^verbatim>\<open>get_cma_info.cpp\<close>, \<^verbatim>\<open>get_hardware_info.cpp\<close>, \<^verbatim>\<open>get_heap_info.cpp\<close>,
  \<^verbatim>\<open>get_kernel_info.cpp\<close>, \<^verbatim>\<open>get_process_info.cpp\<close> and \<^verbatim>\<open>get_ram_info.cpp\<close>.
\<close>

section \<open>Commands\<close>

text \<open>
  \<open>RunCMD\<close>: the lines of the command's output without their line feeds. The argument \<open>sh\<close> (\<open>popen\<close>) gives the output of
  a command line, \<open>None\<close> when it cannot be started.
\<close>

definition RunCMD :: "(string \<Rightarrow> stream option) \<Rightarrow> string \<Rightarrow> string list option" where
  "RunCMD sh cmd =
    map_option (\<lambda>s. map (\<lambda>line. filter (\<lambda>c. c \<noteq> CHR 0x0A) line) (proc_lines False False s)) (sh (''/system/bin/'' @ cmd))"

section \<open>Contiguous memory\<close>

fun cma_sum :: "(string \<Rightarrow> bool) \<Rightarrow> string list \<Rightarrow> u64 \<Rightarrow> bool \<times> u64" where
  "cma_sum numeric [] value = (True, value)"
| "cma_sum numeric (used # rest) value = (if numeric used then cma_sum numeric rest (value + strtoull_value used) else (False, value))"

definition GetUsed :: "(string \<Rightarrow> stream option) \<Rightarrow> common_env \<Rightarrow> u64 \<Rightarrow> bool \<times> u64" where
  "GetUsed sh env value =
    (case RunCMD sh ''cat /sys/kernel/debug/cma/*/used'' of
       None \<Rightarrow> (True, value) | Some usedInfos \<Rightarrow> cma_sum (ce_numeric env) usedInfos value)"

section \<open>Hardware\<close>

definition FindFilePaths :: "(string \<Rightarrow> stream option) \<Rightarrow> string list option" where
  "FindFilePaths sh = RunCMD sh (''find /proc/device-tree/ -name '' @ [CHR 0x22] @ ''no-map'' @ [CHR 0x22])"

definition GetResverRegPath :: "common_env \<Rightarrow> string \<Rightarrow> string" where
  "GetResverRegPath env path =
    (let strs = ce_split env path ''/'' False False in
     if strs = [] then [] else concat (map (\<lambda>s. ''/'' @ s) (butlast strs @ [''reg''])))"

definition hw_GetValue :: "string \<Rightarrow> u64" where
  "hw_GetValue str = (let words = words_of str in if length words \<ge> 4 then HexToDec (words ! 3) 0 else 0)"

fun RegStrToRegValue :: "common_env \<Rightarrow> string list \<Rightarrow> u64 \<Rightarrow> bool \<times> u64" where
  "RegStrToRegValue env [] value = (True, value)"
| "RegStrToRegValue env (str # infos) value =
    (let tempStrs = ce_split env str '':'' False False in
     if length tempStrs > 1 then RegStrToRegValue env infos (value + hw_GetValue (tempStrs ! 1)) else (False, value))"

definition GetResverRegValue :: "(string \<Rightarrow> stream option) \<Rightarrow> common_env \<Rightarrow> string \<Rightarrow> u64 \<Rightarrow> bool \<times> u64" where
  "GetResverRegValue sh env path value =
    (case RunCMD sh (''xxd -g 4 '' @ path) of
       None \<Rightarrow> (False, value) | Some valueStrs \<Rightarrow> (True, snd (RegStrToRegValue env valueStrs value)))"

definition reg_value :: "(string \<Rightarrow> stream option) \<Rightarrow> common_env \<Rightarrow> string \<Rightarrow> u64" where
  "reg_value sh env p =
    (let path = GetResverRegPath env p in if path = [] then 0 else snd (GetResverRegValue sh env path 0))"

definition CalcHardware :: "(string \<Rightarrow> stream option) \<Rightarrow> common_env \<Rightarrow> string list \<Rightarrow> u64" where
  "CalcHardware sh env paths = fold (\<lambda>p totalValue. totalValue + reg_value sh env p) paths 0"

text \<open>The paths from \<open>index * size\<close> to \<open>(index + 1) * size - 1\<close> that exist.\<close>

definition GetGroupOfPaths :: "nat \<Rightarrow> nat \<Rightarrow> string list \<Rightarrow> string list" where
  "GetGroupOfPaths index size' paths =
    (if (index + 1) * size' = 0 then []
     else map ((!) paths) (filter (\<lambda>i. i < length paths) [index * size' ..< (index + 1) * size']))"

definition HARDWARE_USAGE_THREAD_NUM :: nat where "HARDWARE_USAGE_THREAD_NUM = 5"

text \<open>Every thread adds up the values of its group; the results are collected in order.\<close>

definition GetHardwareUsage :: "(string \<Rightarrow> stream option) \<Rightarrow> common_env \<Rightarrow> nat \<Rightarrow> u64 option" where
  "GetHardwareUsage sh env hardwareThreads =
    (case FindFilePaths sh of
       None \<Rightarrow> None
     | Some paths \<Rightarrow>
         if length paths > 0 then
           let threadNum = GetMaxThreadNum hardwareThreads HARDWARE_USAGE_THREAD_NUM;
               groupSize = (length paths - 1) div threadNum + 1;
               results = map (\<lambda>i. CalcHardware sh env (GetGroupOfPaths i groupSize paths)) [0 ..< threadNum] in
           Some (fold (\<lambda>value totalValue. totalValue + value) results 0 div BYTE_TO_KB)
         else Some 0)"

section \<open>Heaps, kernel and processes\<close>

record MallHeapInfo =
  mh_size :: u64
  mh_alloc :: u64
  mh_free :: u64

text \<open>
  \<open>DumpHeapMemory\<close> of the application manager is an argument: \<open>hblkhd\<close>, \<open>uordblks\<close> and \<open>fordblks\<close>, \<open>None\<close> without
  a manager and on an error.
\<close>

definition GetMallocHeapInfo :: "(u64 \<times> u64 \<times> u64) option \<Rightarrow> MallHeapInfo" where
  "GetMallocHeapInfo mallocInfo =
    (case mallocInfo of
       None \<Rightarrow> \<lparr>mh_size = 0, mh_alloc = 0, mh_free = 0\<rparr>
     | Some (hblkhd, uordblks, fordblks) \<Rightarrow> \<lparr>mh_size = hblkhd div 1024, mh_alloc = uordblks div 1024, mh_free = fordblks div 1024\<rparr>)"

definition entry_or_0 :: "ValueMap \<Rightarrow> string \<Rightarrow> u64" where
  "entry_or_0 infos str = (case map_of infos str of None \<Rightarrow> 0 | Some v \<Rightarrow> v)"

definition GetKernel :: "common_env \<Rightarrow> ValueMap \<Rightarrow> u64 \<Rightarrow> bool \<times> u64" where
  "GetKernel env infos totalValue0 =
    (let totalValue = fold (\<lambda>str t. t + entry_or_0 infos str) CALC_KERNEL_TOTAL totalValue0 in
     case GetVmallocinfo env of
       (True, vmallocValue) \<Rightarrow> (True, totalValue + vmallocValue div BYTE_TO_KB)
     | (False, _) \<Rightarrow> (False, totalValue))"

section \<open>RAM\<close>

definition GetGroupMapValue :: "GroupMap \<Rightarrow> string list \<Rightarrow> u64" where
  "GetGroupMapValue infos ks = fold (\<lambda>info t. fold (\<lambda>str t'. t' + entry_or_0 (snd info) str) ks t) infos 0"

definition GetProcess :: "GroupMap \<Rightarrow> u64" where
  "GetProcess infos = fold (\<lambda>info t. fold (\<lambda>str t'. t' + entry_or_0 (snd info) str) CALC_PROCESS_TOTAL t) infos 0"

definition GetValueMapValue :: "ValueMap \<Rightarrow> string list \<Rightarrow> u64" where
  "GetValueMapValue infos strs =
    fold (\<lambda>str t. if str = ''Mapped'' then t - entry_or_0 infos str else t + entry_or_0 infos str) strs 0"

definition GetTotalPss :: "GroupMap \<Rightarrow> u64" where "GetTotalPss infos = GetGroupMapValue infos CALC_TOTAL_PSS"
definition GetTotalSwapPss :: "GroupMap \<Rightarrow> u64" where "GetTotalSwapPss infos = GetGroupMapValue infos CALC_TOTAL_SWAP_PSS"
definition GetFreeInfo :: "ValueMap \<Rightarrow> u64" where "GetFreeInfo infos = GetValueMapValue infos CALC_FREE"
definition GetKernelUsedInfo :: "ValueMap \<Rightarrow> u64" where "GetKernelUsedInfo infos = GetValueMapValue infos CALC_KERNEL_USED"
definition GetKreclInfo :: "ValueMap \<Rightarrow> u64" where "GetKreclInfo infos = GetValueMapValue infos CALC_KRECL"
definition GetMappedInfo :: "ValueMap \<Rightarrow> u64" where "GetMappedInfo infos = GetValueMapValue infos CALC_MAPPED"
definition GetSreclInfo :: "ValueMap \<Rightarrow> u64" where "GetSreclInfo infos = GetValueMapValue infos CALC_SRECL"
definition GetTotalRam :: "ValueMap \<Rightarrow> u64" where "GetTotalRam infos = GetValueMapValue infos CALC_TOTAL"
definition GetZramTotalInfo :: "ValueMap \<Rightarrow> u64" where "GetZramTotalInfo infos = GetValueMapValue infos CALC_ZARM_TOTAL"

definition GetCachedInfo :: "ValueMap \<Rightarrow> u64" where
  "GetCachedInfo infos =
    (let totalValue0 = GetValueMapValue infos CALC_CACHED; kReclaimable = GetKreclInfo infos;
         totalValue = (if kReclaimable \<noteq> 0 then totalValue0 - GetSreclInfo infos else totalValue0);
         mapped = 0 - GetMappedInfo infos in
     if totalValue > mapped then totalValue - mapped else 0)"

record Ram =
  ram_total :: u64
  ram_free :: u64
  ram_used :: u64
  ram_totalPss :: u64
  ram_kernelUsed :: u64
  ram_cachedInfo :: u64
  ram_freeInfo :: u64
  ram_lost :: int \<comment> \<open>a signed 64-bit value\<close>

definition Ram_new :: Ram where
  "Ram_new = \<lparr>ram_total = 0, ram_free = 0, ram_used = 0, ram_totalPss = 0, ram_kernelUsed = 0, ram_cachedInfo = 0, ram_freeInfo = 0, ram_lost = 0\<rparr>"

definition GetUsedRam :: "GroupMap \<Rightarrow> ValueMap \<Rightarrow> Ram \<Rightarrow> u64 \<times> Ram" where
  "GetUsedRam smapsInfo meminfo ram =
    (let ram1 = ram\<lparr>ram_totalPss := GetTotalPss smapsInfo, ram_kernelUsed := GetKernelUsedInfo meminfo\<rparr> in
     (ram_totalPss ram1 + ram_kernelUsed ram1, ram1))"

definition GetFreeRam :: "ValueMap \<Rightarrow> Ram \<Rightarrow> u64 \<times> Ram" where
  "GetFreeRam meminfo ram =
    (let ram1 = ram\<lparr>ram_cachedInfo := GetCachedInfo meminfo, ram_freeInfo := GetFreeInfo meminfo\<rparr> in
     (ram_cachedInfo ram1 + ram_freeInfo ram1, ram1))"

text \<open>The difference of the two signed values; an overflow there is undefined and does not occur for sizes in kilobytes.\<close>

definition GetLostRam :: "GroupMap \<Rightarrow> ValueMap \<Rightarrow> int" where
  "GetLostRam smapsInfo meminfo =
    sint (GetTotalRam meminfo)
    - sint ((GetTotalPss smapsInfo - GetTotalSwapPss smapsInfo) + GetFreeInfo meminfo + GetCachedInfo meminfo
            + GetKernelUsedInfo meminfo + GetZramTotalInfo meminfo)"

definition GetRam :: "GroupMap \<Rightarrow> ValueMap \<Rightarrow> Ram" where
  "GetRam smapsInfo meminfo =
    (let ram0 = Ram_new\<lparr>ram_total := GetTotalRam meminfo\<rparr>;
         (used, ram1) = GetUsedRam smapsInfo meminfo ram0; ram2 = ram1\<lparr>ram_used := used\<rparr>;
         (fr, ram3) = GetFreeRam meminfo ram2; ram4 = ram3\<lparr>ram_free := fr\<rparr> in
     ram4\<lparr>ram_lost := GetLostRam smapsInfo meminfo\<rparr>)"

end
