(* ===== verification/Mem_Pid.thy ===== *)
theory Mem_Pid
  imports Mem_Sums
begin

text \<open>
  The memory of one process: the part of \<^verbatim>\<open>executor/memory/memory_info.cpp\<close> behind
  \<open>MemoryInfo::GetMemoryInfoByPid\<close>, and the members of the class.

  The state is a record of the members; the rows go to the matrix of results. \<open>None\<close> as the result of an operation
  stands for undefined behaviour (a read past the vector of class names, a null pointer) or an exception.
\<close>

section \<open>State and environment\<close>

datatype GraphicType = GL | GRAPH

record DmaNodeInfoWrapper =
  dn_process :: string
  dn_pid :: int
  dn_fd :: int
  dn_size_bytes :: nat
  dn_ino :: nat
  dn_exp_pid :: int
  dn_exp_task_comm :: string
  dn_buf_name :: string
  dn_exp_name :: string
  dn_buf_type :: string
  dn_leak_type :: string

text \<open>
  What the memory library asks: the shared file environment, commands, the collectors, the graphics and plugin
  libraries, the memory manager's names of priorities, the clock, and the unstable sort of the standard library.
\<close>

record mem_env =
  me_common :: common_env
  me_sh :: "string \<Rightarrow> stream option"
  me_threads :: nat
  me_detail :: "int \<Rightarrow> ProcessMemoryDetail option" \<comment> \<open>\<open>CollectProcessMemoryDetail\<close> with \<open>LOW_LATENCY\<close>\<close>
  me_smaps :: "int \<Rightarrow> ProcessMemoryDetail option" \<comment> \<open>the same with \<open>NONE\<close>\<close>
  me_graphic :: "int \<Rightarrow> GraphicType \<Rightarrow> int option" \<comment> \<open>\<open>GetGraphicUsage\<close>\<close>
  me_malloc :: "int \<Rightarrow> (u64 \<times> u64 \<times> u64) option" \<comment> \<open>\<open>DumpHeapMemory\<close>\<close>
  me_name :: "int \<Rightarrow> string option" \<comment> \<open>\<open>GetProcessNameByPid\<close>\<close>
  me_dma :: "int \<Rightarrow> DmaNodeInfoWrapper list" \<comment> \<open>\<open>GetDmaInfo\<close>\<close>
  me_gpumem :: "int \<Rightarrow> string" \<comment> \<open>\<open>CollectGpumem\<close>\<close>
  me_hiai :: "(int \<times> int) list option" \<comment> \<open>\<open>QueryMemInfo\<close>: process and bytes\<close>
  me_path_valid :: "string \<Rightarrow> bool"
  me_content :: "string \<Rightarrow> string option"
  me_priority_name :: "int \<Rightarrow> string" \<comment> \<open>\<open>GetReclaimPriorityString\<close>\<close>
  me_priorities :: "string list" \<comment> \<open>values of \<open>ReclaimPriorityMapping\<close>\<close>
  me_unknown_priority :: string \<comment> \<open>\<open>RECLAIM_PRIORITY_UNKNOWN_DESC\<close>\<close>
  me_time :: tm
  me_user_mode :: bool
  me_sort_pairs :: "((string \<times> u64) \<Rightarrow> (string \<times> u64) \<Rightarrow> bool) \<Rightarrow> (string \<times> u64) list \<Rightarrow> (string \<times> u64) list"
  me_sort_usages :: "(MemUsage \<Rightarrow> MemUsage \<Rightarrow> bool) \<Rightarrow> MemUsage list \<Rightarrow> MemUsage list"

text \<open>The members that change, the text written to the descriptor, and the text of \<^verbatim>\<open>record_mem.txt\<close>.\<close>

record MemoryInfo =
  mm_titleWidth :: int
  mm_isReady :: bool
  mm_dumpPrune :: bool
  mm_dumpSmapsOnStart :: bool
  mm_totalGL :: u64
  mm_totalGraph :: u64
  mm_totalDma :: u64
  mm_currentPss :: u64
  mm_startTime :: string
  mm_fut :: "GroupMap option"
  mm_pids :: "int list"
  mm_memUsages :: "MemUsage list"
  mm_adjMemResult :: "(string \<times> MemUsage list) list"
  mm_memoryItemMap :: "(string \<times> MemoryItem) list"
  mm_graphicsMemory :: GraphicsMemory
  mm_out :: string
  mm_record :: string

definition MemoryInfo_new :: MemoryInfo where
  "MemoryInfo_new =
    \<lparr>mm_titleWidth = 17, mm_isReady = False, mm_dumpPrune = False, mm_dumpSmapsOnStart = False, mm_totalGL = 0, mm_totalGraph = 0,
     mm_totalDma = 0, mm_currentPss = 0, mm_startTime = [], mm_fut = None, mm_pids = [], mm_memUsages = [],
     mm_adjMemResult = [(''Background'', []), (''Foreground'', []), (''Perceived'', []), (''Suspend-delay'', []), (''System'', []), (''Undefined'', [])],
     mm_memoryItemMap = [], mm_graphicsMemory = \<lparr>gm_gl = 0, gm_graph = 0\<rparr>, mm_out = [], mm_record = []\<rparr>"

abbreviation BLANK :: char where "BLANK \<equiv> CHR '' ''"

definition MEMORY_LINE :: string where
  "MEMORY_LINE = ''-------------------------------[memory]-------------------------------''"

definition LINE_WIDTH :: int where "LINE_WIDTH = 14"
definition RAM_WIDTH :: int where "RAM_WIDTH = 16"

definition MEMORY_PRINT_ORDER_VEC :: "string list" where
  "MEMORY_PRINT_ORDER_VEC = [''ark ts heap'', ''arkts-static heap'', ''guard'', ''native heap'', ''.hap'', ''AnonPage other'',
     ''stack'', ''.db'', ''.so'', ''dev'', ''dmabuf'', ''.ttf'', ''jsvm heap'', ''arkweb-js heap'', ''arkweb-pa heap'',
     ''kotlin heap'', ''rn-hermes heap'', ''dart heap'']"

definition NATIVE_HEAP_TAG :: "string list" where
  "NATIVE_HEAP_TAG = [''heap'', ''jemalloc meta'', ''jemalloc heap'', ''brk heap'', ''musl heap'', ''mmap heap'']"

fun NATIVE_HEAP_MAP :: "MemoryItemType \<Rightarrow> string option" where
  "NATIVE_HEAP_MAP MEMORY_ITEM_TYPE_HEAP = Some ''heap''"
| "NATIVE_HEAP_MAP MEMORY_ITEM_TYPE_ANON_NATIVE_HEAP_JEMALLOC_META = Some ''jemalloc meta''"
| "NATIVE_HEAP_MAP MEMORY_ITEM_TYPE_ANON_NATIVE_HEAP_JEMALLOC = Some ''jemalloc heap''"
| "NATIVE_HEAP_MAP MEMORY_ITEM_TYPE_ANON_NATIVE_HEAP_BRK = Some ''brk heap''"
| "NATIVE_HEAP_MAP MEMORY_ITEM_TYPE_ANON_NATIVE_HEAP_META = Some ''musl heap''"
| "NATIVE_HEAP_MAP MEMORY_ITEM_TYPE_ANON_NATIVE_HEAP_MMAP = Some ''mmap heap''"
| "NATIVE_HEAP_MAP _ = None"

definition GRAPHIC_MAP :: "MemoryItemType \<Rightarrow> string option" where
  "GRAPHIC_MAP t =
    (case t of MEMORY_ITEM_TYPE_GRAPH_GL \<Rightarrow> Some ''GL'' | MEMORY_ITEM_TYPE_GRAPH_GRAPHICS \<Rightarrow> Some ''Graph'' | _ \<Rightarrow> None)"

section \<open>Rows\<close>

definition cell :: "string \<Rightarrow> string" where
  "cell value = SetWidth LINE_WIDTH BLANK False value @ [BLANK]"

definition title_cell :: "MemoryInfo \<Rightarrow> string \<Rightarrow> string" where
  "title_cell s t = SetWidth (mm_titleWidth s) BLANK False t @ [BLANK]"

definition mi_SetValueForRet :: "string \<Rightarrow> string list \<Rightarrow> string list" where
  "mi_SetValueForRet value tempResult = tempResult @ [cell value]"

definition AddBlankLine :: "matrix \<Rightarrow> matrix" where
  "AddBlankLine result = result @ [[[CHR 0x0A]]]"

definition AddKbUnit :: "u64 \<Rightarrow> string" where
  "AddKbUnit value = u64_string value @ KB_UNIT"

definition ram_title :: "string \<Rightarrow> string" where
  "ram_title t = SetWidth RAM_WIDTH BLANK False t"

definition InsertMemoryTitle :: "mem_env \<Rightarrow> MemoryInfo \<Rightarrow> matrix \<Rightarrow> matrix" where
  "InsertMemoryTitle env s result =
    (let space = SetWidth (mm_titleWidth s) BLANK False '' '';
         separator = SetWidth LINE_WIDTH CHR ''-'' False ''-'';
         unit = SetWidth LINE_WIDTH BLANK False (''('' @ KB_UNIT @ '' )'');
         types = filter (\<lambda>ts. length ts = 2) (map (\<lambda>str. ce_split (me_common env) str ''_'' False False) TITLE_HAS_PID) in
     result @
     [(space @ [BLANK]) # map (\<lambda>ts. cell (ts ! 0)) types,
      (space @ [BLANK]) # map (\<lambda>ts. cell (ts ! 1)) types,
      (space @ [BLANK]) # map (\<lambda>_. unit @ [BLANK]) types,
      space # map (\<lambda>_. separator @ ''-'') types])"

definition heap_cells :: "string list" where
  "heap_cells = replicate 3 (cell ''0'')"

definition SetDetailRet :: "MemoryInfo \<Rightarrow> string \<Rightarrow> MemoryDetail option \<Rightarrow> MallHeapInfo \<Rightarrow> matrix \<Rightarrow> matrix" where
  "SetDetailRet s memoryClassStr detail heapInfo result =
    (case detail of
       None \<Rightarrow> result
     | Some d \<Rightarrow>
         result @ [title_cell s memoryClassStr #
           map (\<lambda>n. cell (digits n)) [dt_totalPss d, dt_totalSharedClean d, dt_totalSharedDirty d, dt_totalPrivateClean d,
             dt_totalPrivateDirty d, dt_totalSwap d, dt_totalSwapPss d] @
           (if memoryClassStr = NATIVE_HEAP_LABEL then map (\<lambda>v. cell (u64_string v)) [mh_size heapInfo, mh_alloc heapInfo, mh_free heapInfo]
            else heap_cells)])"

definition graphics_value :: "u64 \<Rightarrow> string \<Rightarrow> string" where
  "graphics_value value tag = (if tag = ''Pss'' \<or> tag = ''Private_Dirty'' then u64_string value else ''0'')"

definition UpdateGraphicsMemoryRet :: "MemoryInfo \<Rightarrow> string \<Rightarrow> u64 \<Rightarrow> matrix \<Rightarrow> matrix" where
  "UpdateGraphicsMemoryRet s title value result =
    result @ [title_cell s title # map (\<lambda>tag. cell (graphics_value value tag)) VALUE_WITH_PID]"

definition graphics_item :: "MemoryItem \<Rightarrow> GraphicsMemory \<Rightarrow> GraphicsMemory" where
  "graphics_item item g =
    (case GRAPHIC_MAP (it_type item) of
       None \<Rightarrow> g
     | Some type \<Rightarrow>
         if type = GL_OUT_LABEL then g\<lparr>gm_gl := of_nat (it_pss item)\<rparr>
         else if type = GRAPH_OUT_LABEL then g\<lparr>gm_graph := of_nat (it_pss item)\<rparr> else g)"

definition GetGraphicsMemoryByDetail :: "MemoryDetail \<Rightarrow> MemoryInfo \<times> matrix \<Rightarrow> MemoryInfo \<times> matrix" where
  "GetGraphicsMemoryByDetail detail sr =
    (case sr of (s, result) \<Rightarrow>
      let s1 = s\<lparr>mm_graphicsMemory := fold graphics_item (dt_items detail) (mm_graphicsMemory s)\<rparr> in
      (s1, UpdateGraphicsMemoryRet s1 GRAPH_OUT_LABEL (gm_graph (mm_graphicsMemory s1))
             (UpdateGraphicsMemoryRet s1 GL_OUT_LABEL (gm_gl (mm_graphicsMemory s1)) result)))"

section \<open>Pages\<close>

definition MemoryDetail_new :: MemoryDetail where
  "MemoryDetail_new =
    \<lparr>dt_memoryClass = 0, dt_items = [], dt_totalPss = 0, dt_totalSwapPss = 0, dt_totalSwap = 0, dt_totalSharedDirty = 0,
     dt_totalPrivateDirty = 0, dt_totalSharedClean = 0, dt_totalPrivateClean = 0\<rparr>"

definition page_add :: "MemoryItem \<Rightarrow> MemoryDetail \<Rightarrow> MemoryDetail" where
  "page_add item d =
    d\<lparr>dt_totalPss := dt_totalPss d + it_pss item, dt_totalSharedClean := dt_totalSharedClean d + it_sharedClean item,
      dt_totalSharedDirty := dt_totalSharedDirty d + it_sharedDirty item, dt_totalPrivateClean := dt_totalPrivateClean d + it_privateClean item,
      dt_totalPrivateDirty := dt_totalPrivateDirty d + it_privateDirty item, dt_totalSwap := dt_totalSwap d + it_swap item,
      dt_totalSwapPss := dt_totalSwapPss d + it_swapPss item\<rparr>"

text \<open>The pointer to the anonymous pages is null once it was moved into the table of details.\<close>

fun UpdatePageDetail :: "MemoryItem list \<Rightarrow> MemoryDetail option \<Rightarrow> MemoryDetail \<Rightarrow> (MemoryDetail option \<times> MemoryDetail) option" where
  "UpdatePageDetail [] anonPage filePage = Some (anonPage, filePage)"
| "UpdatePageDetail (item # items) anonPage filePage =
    (if it_iNode item = 0 then
       (case anonPage of None \<Rightarrow> None | Some d \<Rightarrow> UpdatePageDetail items (Some (page_add item d)) filePage)
     else UpdatePageDetail items anonPage (page_add item filePage))"

section \<open>The table of a process\<close>

record details_state =
  ds_info :: MemoryInfo
  ds_result :: matrix
  ds_anonPage :: "MemoryDetail option"
  ds_filePage :: MemoryDetail
  ds_nativeHeap :: "MemoryDetail option"
  ds_all :: "string \<rightharpoonup> MemoryDetail option"

definition store_detail :: "string \<Rightarrow> MemoryDetail option \<Rightarrow> details_state \<Rightarrow> details_state" where
  "store_detail name d ds = (if name \<in> set MEMORY_PRINT_ORDER_VEC then ds\<lparr>ds_all := (ds_all ds)(name \<mapsto> d)\<rparr> else ds)"

definition one_detail :: "MemoryDetail \<Rightarrow> details_state \<Rightarrow> details_state option" where
  "one_detail detail ds =
    (if class_skipped (dt_memoryClass detail) then Some ds
     else case class_name (dt_memoryClass detail) of
         None \<Rightarrow> None
       | Some name \<Rightarrow>
           if name = ''graph'' then
             (case GetGraphicsMemoryByDetail detail (ds_info ds, ds_result ds) of
                (s, result) \<Rightarrow> Some (store_detail name (Some detail) (ds\<lparr>ds_info := s, ds_result := result\<rparr>)))
           else if name = NATIVE_HEAP_LABEL then Some (store_detail name (Some detail) (ds\<lparr>ds_nativeHeap := Some detail\<rparr>))
           else if name = ''other'' then
             (case UpdatePageDetail (dt_items detail) (ds_anonPage ds) (ds_filePage ds) of
                None \<Rightarrow> None
              | Some (anonPage, filePage) \<Rightarrow>
                  Some (store_detail ''AnonPage other'' anonPage (ds\<lparr>ds_anonPage := None, ds_filePage := filePage\<rparr>)))
           else Some (store_detail name (Some detail) ds))"

fun all_details :: "MemoryDetail list \<Rightarrow> details_state \<Rightarrow> details_state option" where
  "all_details [] ds = Some ds"
| "all_details (d # rest) ds = (case one_detail d ds of None \<Rightarrow> None | Some ds1 \<Rightarrow> all_details rest ds1)"

definition print_details :: "MemoryInfo \<Rightarrow> (string \<rightharpoonup> MemoryDetail option) \<Rightarrow> MallHeapInfo \<Rightarrow> matrix \<Rightarrow> matrix" where
  "print_details s allDetail heapInfo result =
    fold (\<lambda>name r. case allDetail name of None \<Rightarrow> r | Some d \<Rightarrow> SetDetailRet s name d heapInfo r) MEMORY_PRINT_ORDER_VEC result"

definition UpdateTotalDetail :: "ProcessMemoryDetail \<Rightarrow> MallHeapInfo \<Rightarrow> MemoryInfo \<times> matrix \<Rightarrow> MemoryInfo \<times> matrix" where
  "UpdateTotalDetail detail heapInfo sr =
    (case sr of (s, result) \<Rightarrow>
      let g = mm_graphicsMemory s;
          totalPrivateDirty = of_nat (pd_totalPrivateDirty detail) + gm_gl g + gm_graph g :: u64;
          s1 = s\<lparr>mm_currentPss := of_nat (pd_totalAllPss detail)\<rparr>;
          values = [title_cell s ''Total''];
          lines = [SetWidth (mm_titleWidth s) CHR ''-'' False ''-'' @ ''-''];
          (lines', values') = fold (\<lambda>v lv. SetMemTotalValue v lv False)
            [digits (pd_totalAllPss detail), digits (pd_totalSharedClean detail), digits (pd_totalSharedDirty detail),
             digits (pd_totalPrivateClean detail), u64_string totalPrivateDirty, digits (pd_totalSwap detail), digits (pd_totalSwapPss detail),
             u64_string (mh_size heapInfo), u64_string (mh_alloc heapInfo), u64_string (mh_free heapInfo)] (lines, values) in
      (s1, result @ [butlast lines' @ [SetWidth LINE_WIDTH CHR ''-'' False ''-''], values']))"

definition UpdateResult :: "mem_env \<Rightarrow> int \<Rightarrow> ProcessMemoryDetail \<Rightarrow> MemoryInfo \<times> matrix \<Rightarrow> (MemoryDetail option \<times> MemoryInfo \<times> matrix) option" where
  "UpdateResult env pid detail sr =
    (let heapInfo = GetMallocHeapInfo (me_malloc env pid) in
     case all_details (pd_details detail) \<lparr>ds_info = fst sr, ds_result = snd sr, ds_anonPage = Some MemoryDetail_new,
            ds_filePage = MemoryDetail_new, ds_nativeHeap = None, ds_all = Map.empty\<rparr> of
       None \<Rightarrow> None
     | Some ds \<Rightarrow>
         let result1 = print_details (ds_info ds) (ds_all ds) heapInfo (ds_result ds);
             result2 = SetDetailRet (ds_info ds) ''FilePage other'' (Some (ds_filePage ds)) heapInfo result1 in
         Some (ds_nativeHeap ds, UpdateTotalDetail detail heapInfo (ds_info ds, result2)))"

section \<open>The native heap\<close>

definition item_add :: "MemoryItem \<Rightarrow> MemoryItem \<Rightarrow> MemoryItem" where
  "item_add item old =
    old\<lparr>it_pss := it_pss old + it_pss item, it_sharedClean := it_sharedClean old + it_sharedClean item,
      it_sharedDirty := it_sharedDirty old + it_sharedDirty item, it_privateClean := it_privateClean old + it_privateClean item,
      it_privateDirty := it_privateDirty old + it_privateDirty item, it_swap := it_swap old + it_swap item,
      it_swapPss := it_swapPss old + it_swapPss item\<rparr>"

definition native_item :: "MemoryItem \<Rightarrow> (string \<times> MemoryItem) list \<Rightarrow> (string \<times> MemoryItem) list" where
  "native_item item m =
    (case NATIVE_HEAP_MAP (it_type item) of
       None \<Rightarrow> m
     | Some type \<Rightarrow> if type \<in> set (keys m) then modify type (item_add item) m else omap_insert type item m)"

definition SetNativeDetailRet :: "string \<Rightarrow> MemoryItem \<Rightarrow> matrix \<Rightarrow> matrix" where
  "SetNativeDetailRet nativeClassStr item result =
    result @ [ram_title (nativeClassStr @ '':'') #
      map (\<lambda>n. cell (digits n)) [it_pss item, it_sharedClean item, it_sharedDirty item, it_privateClean item, it_privateDirty item,
        it_swap item, it_swapPss item] @ heap_cells]"

definition GetNativeHeap :: "MemoryDetail option \<Rightarrow> MemoryInfo \<times> matrix \<Rightarrow> MemoryInfo \<times> matrix" where
  "GetNativeHeap detail sr =
    (case (detail, sr) of
       (None, _) \<Rightarrow> sr
     | (Some d, s, result) \<Rightarrow>
         let m = fold native_item (dt_items d) (mm_memoryItemMap s) in
         (s\<lparr>mm_memoryItemMap := m\<rparr>,
          fold (\<lambda>type r. case map_of m type of None \<Rightarrow> r | Some item \<Rightarrow> SetNativeDetailRet type item r) NATIVE_HEAP_TAG
            (AddBlankLine result @ [[NATIVE_HEAP_LABEL @ '':'']])))"

definition GetResult :: "mem_env \<Rightarrow> int \<Rightarrow> ProcessMemoryDetail option \<Rightarrow> MemoryInfo \<times> matrix \<Rightarrow> (MemoryInfo \<times> matrix) option" where
  "GetResult env pid detail sr =
    (case detail of
       None \<Rightarrow> Some sr
     | Some d \<Rightarrow> map_option (\<lambda>(nativeHeap, sr1). GetNativeHeap nativeHeap sr1) (UpdateResult env pid d sr))"

text \<open>\<open>CollectProcessMemoryDetail\<close> also fits the width of the first column to the classes it sees.\<close>

fun max_title :: "MemoryDetail list \<Rightarrow> nat \<Rightarrow> nat option" where
  "max_title [] w = Some w"
| "max_title (d # ds) w =
    (if class_skipped (dt_memoryClass d) then max_title ds w
     else case class_name (dt_memoryClass d) of
         None \<Rightarrow> None
       | Some name \<Rightarrow> max_title ds (if name = ''other'' then max (max w (length name)) (length ''AnonPage other'') else max w (length name)))"

definition CollectProcessMemoryDetail :: "mem_env \<Rightarrow> int \<Rightarrow> MemoryInfo \<Rightarrow> (ProcessMemoryDetail option \<times> MemoryInfo) option" where
  "CollectProcessMemoryDetail env pid s =
    (case me_detail env pid of
       None \<Rightarrow> Some (None, s)
     | Some detail \<Rightarrow> map_option (\<lambda>w. (Some detail, s\<lparr>mm_titleWidth := int w\<rparr>)) (max_title (pd_details detail) 0))"

section \<open>Values of the process\<close>

definition status_path :: "int \<Rightarrow> string" where
  "status_path pid = ''/proc/'' @ to_string pid @ ''/status''"

definition GetProcName :: "mem_env \<Rightarrow> int \<Rightarrow> string" where
  "GetProcName env pid =
    (let procName = (case me_name env pid of None \<Rightarrow> UNKNOWN | Some n \<Rightarrow> n) in
     if procName = UNKNOWN then fu_GetProcValue (me_common env) (status_path pid) ''Name'' else procName)"

definition GetProcUid :: "mem_env \<Rightarrow> int \<Rightarrow> int" where
  "GetProcUid env pid =
    (let procUid = fu_GetProcValue (me_common env) (status_path pid) ''Uid'' in
     if procUid = UNKNOWN then -1
     else case ce_int (me_common env) (case words_of procUid of [] \<Rightarrow> [] | value # _ \<Rightarrow> value) of None \<Rightarrow> -1 | Some uid \<Rightarrow> uid)"

definition after_last_blank :: "string \<Rightarrow> string" where
  "after_last_blank s = rev (takeWhile (\<lambda>c. c \<noteq> BLANK) (rev s))"

definition mi_GetProcValue :: "mem_env \<Rightarrow> int \<Rightarrow> string \<Rightarrow> u64" where
  "mi_GetProcValue env pid key =
    (let value = fu_GetProcValue (me_common env) (status_path pid) key in
     if value = UNKNOWN then 0
     else
       let number = (if length value < 3 then value else take (length value - 3) value) in
       case ce_int (me_common env) (after_last_blank number) of None \<Rightarrow> 0 | Some n \<Rightarrow> of_int n)"

definition GetPurgByPid :: "mem_env \<Rightarrow> int \<Rightarrow> matrix \<Rightarrow> matrix" where
  "GetPurgByPid env pid result =
    AddBlankLine result @
    [[''Purgeable:''],
     [ram_title (PURGSUM_OUT_LABEL @ '':''), AddKbUnit (mi_GetProcValue env pid PURGSUM_OUT_LABEL)],
     [ram_title (PURGPIN_OUT_LABEL @ '':''), AddKbUnit (mi_GetProcValue env pid PURGPIN_OUT_LABEL)]]"

definition GetDma :: "u64 \<Rightarrow> matrix \<Rightarrow> matrix" where
  "GetDma dmaValue result =
    AddBlankLine result @ [[DMA_TAG @ '':''], [ram_title (DMA_OUT_LABEL @ '':''), u64_string dmaValue @ KB_UNIT]]"

definition GetHiaiServerIon :: "mem_env \<Rightarrow> int \<Rightarrow> matrix \<Rightarrow> matrix" where
  "GetHiaiServerIon env pid result =
    (if GetProcName env pid \<noteq> ''hiaiserver'' then result
     else case me_hiai env of
         None \<Rightarrow> result
       | Some info \<Rightarrow>
           if info = [] then result
           else AddBlankLine result @
             [(''HIAIServer ION:'' @ [CHR 0x0A]) #
              map (\<lambda>(p, n). GetProcName env p @ ''('' @ to_string p @ ''):'' @ to_string (to_kb n) @ '' kB'' @ [CHR 0x0A]) info])"

definition GetAshmem :: "mem_env \<Rightarrow> int \<Rightarrow> bool \<Rightarrow> matrix \<Rightarrow> matrix" where
  "GetAshmem env pid showAshmem result =
    (case GetAshmemInfo (me_common env) pid of
       None \<Rightarrow> result
     | Some (pss, details) \<Rightarrow>
         if details = [] then result
         else AddBlankLine result @ [[''Ashmem:''], [''Total Ashmem:'' @ to_string pss @ KB_UNIT]]
           @ (if showAshmem then map (\<lambda>d. [d]) details else []))"

section \<open>Buffers\<close>

definition showTitles :: "string list" where
  "showTitles = [''Process'', ''pid'', ''fd'', ''size_bytes'', ''ino'', ''exp_pid'', ''exp_task_comm'', ''buf_name'', ''exp_name'', ''buf_type'', ''leak_type'']"

definition dma_cell :: "nat \<Rightarrow> string \<Rightarrow> string" where
  "dma_cell width value = pad_right (min width 33 + 6) value @ ''  ''"

fun dma_cells :: "(string \<rightharpoonup> nat) \<Rightarrow> nat list \<Rightarrow> string list \<Rightarrow> string list \<Rightarrow> string" where
  "dma_cells headerMap widths [] values = []"
| "dma_cells headerMap widths (title # titles) values =
    (let value = (case values of [] \<Rightarrow> ''NULL'' | v # _ \<Rightarrow> v) in
     (if title \<in> set showTitles then dma_cell (widths ! (case headerMap title of None \<Rightarrow> 0 | Some i \<Rightarrow> i)) value else [])
     @ dma_cells headerMap widths titles (tl values))"

definition GetDmaBufByProc :: "mem_env \<Rightarrow> int \<Rightarrow> matrix \<Rightarrow> bool \<times> matrix" where
  "GetDmaBufByProc env pid result =
    (if GetProcUid env pid < 20000 then (False, result)
     else case GetDmaBufInfo (me_common env) pid of
         (False, _) \<Rightarrow> (False, result)
       | (True, rows, headerMap, columnWidths, titles) \<Rightarrow>
           (True, result @ map (\<lambda>row. [dma_cells headerMap columnWidths titles (words_of row)]) rows))"

definition safeStr :: "string \<Rightarrow> string" where
  "safeStr s = (if s = [] then ''NULL'' else s)"

definition ConvertDmaBufInfoToStrings :: "DmaNodeInfoWrapper \<Rightarrow> string list" where
  "ConvertDmaBufInfoToStrings info =
    [safeStr (dn_process info), to_string (dn_pid info), to_string (dn_fd info), digits (dn_size_bytes info), digits (dn_ino info),
     to_string (dn_exp_pid info), safeStr (dn_exp_task_comm info), safeStr (dn_buf_name info), safeStr (dn_exp_name info),
     safeStr (dn_buf_type info), safeStr (dn_leak_type info)]"

definition FillResultForDmaBuf :: "string list list \<Rightarrow> nat list \<Rightarrow> matrix \<Rightarrow> bool \<times> matrix" where
  "FillResultForDmaBuf rows columnWidths result =
    (True, result @ map (\<lambda>row. [concat (map (\<lambda>i. dma_cell (columnWidths ! i) (row ! i)) [0 ..< length row])]) rows)"

definition DisposeDmaBufInfo :: "DmaNodeInfoWrapper list \<Rightarrow> matrix \<Rightarrow> bool \<times> matrix" where
  "DisposeDmaBufInfo dmaBufInfos result =
    (let rows = map ConvertDmaBufInfoToStrings dmaBufInfos;
         columnWidths = fold (\<lambda>row ws. map2 (\<lambda>w v. max w (length v)) ws row) rows (map length showTitles) in
     FillResultForDmaBuf (showTitles # rows) columnWidths result)"

definition GetDmaBuf :: "mem_env \<Rightarrow> int \<Rightarrow> bool \<Rightarrow> matrix \<Rightarrow> bool \<times> matrix" where
  "GetDmaBuf env pid showDmaBuf result =
    (if \<not> showDmaBuf then (False, result)
     else if me_dma env pid = [] then GetDmaBufByProc env pid result
     else DisposeDmaBufInfo (me_dma env pid) result)"

text \<open>The lines also go to the standard output of the service, which nobody reads.\<close>

definition GetGpumem :: "mem_env \<Rightarrow> int \<Rightarrow> bool \<Rightarrow> matrix \<Rightarrow> bool \<times> matrix" where
  "GetGpumem env pid showGpumem result =
    (if \<not> showGpumem then (False, result)
     else if me_gpumem env pid = [] then
       (False, AddBlankLine result @ [[''Error [RUNTIME]: gpumem plugin is not loaded; --show-gpumem is unavailable.'']])
     else (True, AddBlankLine result @ [[''GPU:'']] @ map (\<lambda>line. [line]) (split_lines [] (me_gpumem env pid))))"

section \<open>Memory of one process\<close>

definition GetMemoryInfoByPid :: "mem_env \<Rightarrow> int \<Rightarrow> bool \<Rightarrow> bool \<Rightarrow> bool \<Rightarrow> MemoryInfo \<times> matrix \<Rightarrow> (MemoryInfo \<times> matrix) option" where
  "GetMemoryInfoByPid env pid showAshmem showDmaBuf showGpumem sr =
    (do {
       (detail, s1) \<leftarrow> CollectProcessMemoryDetail env pid (fst sr);
       (s2, r2) \<leftarrow> GetResult env pid detail (s1, InsertMemoryTitle env s1 (snd sr));
       let r3 = GetDma (gm_graph (mm_graphicsMemory s2)) (GetPurgByPid env pid r2);
       let r4 = GetHiaiServerIon env pid (snd (GetDmaBuf env pid showDmaBuf r3));
       Some (s2, snd (GetGpumem env pid showGpumem (GetAshmem env pid showAshmem r4)))
     })"

end
