(* ===== verification/Mem_Overview.thy ===== *)
theory Mem_Overview
  imports Mem_Pid
begin

text \<open>
  The memory of all processes: the part of \<^verbatim>\<open>executor/memory/memory_info.cpp\<close> behind
  \<open>GetMemoryInfoNoPid\<close> and \<open>GetMemoryInfoPrune\<close>. The text goes to the descriptor, the member \<open>mm_out\<close>.
\<close>

section \<open>Output\<close>

definition SaveStringToFd :: "string \<Rightarrow> MemoryInfo \<Rightarrow> MemoryInfo" where
  "SaveStringToFd t s = s\<lparr>mm_out := mm_out s @ t\<rparr>"

abbreviation nl :: string where "nl \<equiv> [CHR 0x0A]"

text \<open>\<open>dprintf\<close> of columns with blanks between them.\<close>

fun columns :: "string list \<Rightarrow> string" where
  "columns [] = []"
| "columns [c] = c_str c"
| "columns (c # cs) = c_str c @ '' '' @ columns cs"

definition kb_cell :: "string \<Rightarrow> string" where "kb_cell t = SetWidth 12 BLANK False t"

section \<open>One process\<close>

definition GetVss :: "mem_env \<Rightarrow> int \<Rightarrow> u64" where
  "GetVss env pid =
    (case LoadStringFromProcCb (me_common env) (''/proc/'' @ to_string pid @ ''/statm'') True True of
       None \<Rightarrow> 0
     | Some lines \<Rightarrow>
         fold (\<lambda>line res. if line = [] then res else if skip_space line = [] then res
            else (case scan_dec line of None \<Rightarrow> 0 | Some (v, _) \<Rightarrow> v * 4)) lines 0)"

text \<open>\<open>fread\<close> reads at most 128 bytes. A priority that fills the buffer would not end; the file holds a short number.\<close>

definition GetProcessAdjLabel :: "mem_env \<Rightarrow> int \<Rightarrow> string" where
  "GetProcessAdjLabel env pid =
    (let fillPath = ''/proc/'' @ to_string pid @ ''/oom_score_adj''; adjLabel = me_unknown_priority env in
     if \<not> me_path_valid env fillPath then adjLabel
     else case me_content env fillPath of
         None \<Rightarrow> adjLabel
       | Some content \<Rightarrow>
           let label = c_str (take 128 content) in
           if label = [] then adjLabel
           else case ce_int (me_common env) (butlast label) of None \<Rightarrow> adjLabel | Some value \<Rightarrow> me_priority_name env value)"

definition GetScoreAdj :: "mem_env \<Rightarrow> int \<Rightarrow> int" where
  "GetScoreAdj env pid =
    (let filePath = ''/proc/'' @ to_string pid @ ''/oom_score_adj'' in
     if \<not> me_path_valid env filePath then -1
     else
       let content = (case me_content env filePath of None \<Rightarrow> ''-1'' | Some c \<Rightarrow> c) in
       case ce_int (me_common env) (butlast content) of None \<Rightarrow> -1 | Some value \<Rightarrow> value)"

definition GetGraphicsMemory :: "mem_env \<Rightarrow> int \<Rightarrow> GraphicsMemory \<Rightarrow> GraphicType \<Rightarrow> GraphicsMemory option" where
  "GetGraphicsMemory env pid g graphicType =
    (case me_graphic env pid graphicType of
       None \<Rightarrow> None
     | Some v \<Rightarrow> Some (case graphicType of GL \<Rightarrow> g\<lparr>gm_gl := of_int v\<rparr> | GRAPH \<Rightarrow> g\<lparr>gm_graph := of_int v\<rparr>))"

definition rollup_usage :: "mem_env \<Rightarrow> bool \<Rightarrow> int \<Rightarrow> MemInfo \<Rightarrow> MemUsage \<Rightarrow> MemUsage" where
  "rollup_usage env prune pid memInfo usage =
    (let u = (if prune then usage
              else usage\<lparr>mu_vss := GetVss env pid, mu_uss := mi_privateClean memInfo + mi_privateDirty memInfo, mu_rss := mi_rss memInfo\<rparr>) in
     u\<lparr>mu_pss := mi_pss memInfo, mu_swapPss := mi_swapPss memInfo, mu_name := GetProcName env pid, mu_pid := pid,
       mu_adjLabel := GetProcessAdjLabel env pid\<rparr>)"

definition add_gl :: "bool \<Rightarrow> u64 \<Rightarrow> MemUsage \<Rightarrow> MemUsage" where
  "add_gl prune gl usage =
    (let u = usage\<lparr>mu_gl := gl\<rparr>; v = (if prune then u else u\<lparr>mu_uss := mu_uss u + gl, mu_rss := mu_rss u + gl\<rparr>) in
     v\<lparr>mu_pss := mu_pss v + gl\<rparr>)"

definition add_graph :: "u64 \<Rightarrow> MemUsage \<Rightarrow> MemUsage" where
  "add_graph graph usage =
    usage\<lparr>mu_graph := graph, mu_dma := graph, mu_uss := mu_uss usage + graph, mu_pss := mu_pss usage + graph, mu_rss := mu_rss usage + graph\<rparr>"

definition GetMemByProcessPid :: "mem_env \<Rightarrow> bool \<Rightarrow> int \<Rightarrow> MemUsage \<Rightarrow> bool \<times> MemUsage" where
  "GetMemByProcessPid env prune pid usage =
    (let (success, memInfo) = GetMemInfo (me_common env) pid MemInfo_new;
         u1 = (if success then rollup_usage env prune pid memInfo usage else usage);
         g0 = InitGraphicsMemory \<lparr>gm_gl = 0, gm_graph = 0\<rparr>;
         (u2, g1) = (case GetGraphicsMemory env pid g0 GL of None \<Rightarrow> (u1, g0) | Some g \<Rightarrow> (add_gl prune (gm_gl g) u1, g));
         u3 = (if prune then u2 else case GetGraphicsMemory env pid g1 GRAPH of None \<Rightarrow> u2 | Some g \<Rightarrow> add_graph (gm_graph g) u2) in
     (success, u3))"

section \<open>The table of processes\<close>

definition total_pss :: "MemUsage \<Rightarrow> u64" where
  "total_pss u = mu_pss u + mu_swapPss u"

definition usage_columns :: "mem_env \<Rightarrow> bool \<Rightarrow> MemUsage \<Rightarrow> string list" where
  "usage_columns env prune u =
    (let pid = SetWidth 5 BLANK True (to_string (mu_pid u));
         totalPss = SetWidth 30 BLANK False (u64_string (total_pss u) @ ''('' @ u64_string (mu_swapPss u) @ '' in SwapPss) kB'');
         gl = kb_cell (AddKbUnit (mu_gl u)); name = SetWidth 20 BLANK True (''    '' @ mu_name u) in
     if \<not> prune then
       [pid, totalPss, kb_cell (AddKbUnit (mu_vss u)), kb_cell (AddKbUnit (mu_rss u)), kb_cell (AddKbUnit (mu_uss u)), gl,
        kb_cell (AddKbUnit (mu_graph u)), kb_cell (AddKbUnit (mu_dma u)), kb_cell (AddKbUnit (mu_purgSum u)), kb_cell (AddKbUnit (mu_purgPin u)), name]
     else [pid, totalPss, gl, kb_cell (to_string (GetScoreAdj env (mu_pid u))), name])"

definition MemUsageToMatrix :: "mem_env \<Rightarrow> MemUsage \<Rightarrow> MemoryInfo \<Rightarrow> MemoryInfo" where
  "MemUsageToMatrix env memUsage s = SaveStringToFd (columns (usage_columns env (mm_dumpPrune s) memUsage) @ nl) s"

definition title_columns :: "bool \<Rightarrow> string list" where
  "title_columns prune =
    (let pid = SetWidth 5 BLANK True ''PID''; totalPss = SetWidth 30 BLANK False ''Total Pss(xxx in SwapPss)'';
         gl = kb_cell GL_OUT_LABEL; name = SetWidth 20 BLANK True ''    Name'' in
     if \<not> prune then
       [pid, totalPss, kb_cell ''Total Vss'', kb_cell ''Total Rss'', kb_cell ''Total Uss'', gl, kb_cell GRAPH_OUT_LABEL,
        kb_cell DMA_OUT_LABEL, kb_cell PURGSUM_OUT_LABEL, kb_cell PURGPIN_OUT_LABEL, name]
     else [pid, totalPss, gl, kb_cell ''AdjLabel'', name])"

definition AddMemByProcessTitle :: "string \<Rightarrow> MemoryInfo \<Rightarrow> MemoryInfo" where
  "AddMemByProcessTitle sortType s =
    SaveStringToFd (columns (title_columns (mm_dumpPrune s)) @ nl) (SaveStringToFd (''Total Memory Usage by '' @ sortType @ '':'' @ nl) s)"

definition GetPids :: "mem_env \<Rightarrow> MemoryInfo \<Rightarrow> bool \<times> MemoryInfo" where
  "GetPids env s = (case GetUserPids (me_common env) of None \<Rightarrow> (False, s) | Some pids \<Rightarrow> (True, s\<lparr>mm_pids := mm_pids s @ pids\<rparr>))"

definition GetMemoryInfoInit :: "mem_env \<Rightarrow> MemoryInfo \<Rightarrow> bool \<times> MemoryInfo" where
  "GetMemoryInfoInit env s =
    (if \<not> mm_isReady s then
       let s1 = AddMemByProcessTitle ''PID'' (s\<lparr>mm_memUsages := [], mm_pids := [], mm_totalGL := 0, mm_totalGraph := 0\<rparr>) in
       case GetPids env s1 of (False, s2) \<Rightarrow> (False, s2) | (True, s2) \<Rightarrow> (True, s2\<lparr>mm_isReady := True\<rparr>)
     else (True, s))"

definition count_usage :: "MemUsage \<Rightarrow> MemoryInfo \<Rightarrow> MemoryInfo" where
  "count_usage u s =
    s\<lparr>mm_memUsages := mm_memUsages s @ [u],
      mm_adjMemResult := modify (mu_adjLabel u) (\<lambda>us. us @ [u]) (omap_insert (mu_adjLabel u) [] (mm_adjMemResult s)),
      mm_totalGL := mm_totalGL s + mu_gl u, mm_totalGraph := mm_totalGraph s + mu_graph u, mm_totalDma := mm_totalDma s + mu_dma u\<rparr>"

text \<open>One variable holds the usage of every process in turn.\<close>

fun usage_loop :: "mem_env \<Rightarrow> int list \<Rightarrow> MemUsage \<Rightarrow> MemoryInfo \<Rightarrow> MemoryInfo" where
  "usage_loop env [] usage s = s"
| "usage_loop env (pid # pids) usage s =
    (case GetMemByProcessPid env (mm_dumpPrune s) pid usage of
       (True, u) \<Rightarrow> usage_loop env pids u (MemUsageToMatrix env u (count_usage u s))
     | (False, u) \<Rightarrow> usage_loop env pids u s)"

definition GetMemoryUsageInfo :: "mem_env \<Rightarrow> MemoryInfo \<Rightarrow> MemoryInfo" where
  "GetMemoryUsageInfo env s = usage_loop env (mm_pids s) (InitMemUsage MemUsage_new) s"

text \<open>The comparison of the table sorted by size.\<close>

definition usage_before :: "MemUsage \<Rightarrow> MemUsage \<Rightarrow> bool" where
  "usage_before left right =
    (if total_pss right \<noteq> total_pss left then total_pss right < total_pss left
     else if mu_vss right \<noteq> mu_vss left then mu_vss right < mu_vss left
     else if mu_rss right \<noteq> mu_rss left then mu_rss right < mu_rss left
     else if mu_uss right \<noteq> mu_uss left then mu_uss right < mu_uss left
     else mu_pid right < mu_pid left)"

definition GetSortedMemoryInfoNoPid :: "mem_env \<Rightarrow> MemoryInfo \<Rightarrow> MemoryInfo" where
  "GetSortedMemoryInfoNoPid env s =
    (let s1 = AddMemByProcessTitle ''Size'' (SaveStringToFd nl s);
         s2 = s1\<lparr>mm_memUsages := me_sort_usages env usage_before (mm_memUsages s1)\<rparr> in
     fold (MemUsageToMatrix env) (mm_memUsages s2) s2)"

section \<open>Priorities\<close>

definition adj_before :: "MemUsage \<Rightarrow> MemUsage \<Rightarrow> bool" where
  "adj_before left right = (total_pss right < total_pss left)"

definition adj_row :: "MemUsage \<Rightarrow> string" where
  "adj_row u =
    SetWidth 30 BLANK True (''   '' @ mu_name u @ ''(pid='' @ to_string (mu_pid u) @ ''): '') @ AddKbUnit (total_pss u)
    @ (if mu_swapPss u > 0 then '' ('' @ u64_string (mu_swapPss u) @ '' kB in SwapPss)'' else []) @ nl"

definition adj_label :: "mem_env \<Rightarrow> string \<Rightarrow> MemoryInfo \<Rightarrow> MemoryInfo" where
  "adj_label env label s0 =
    (let s = s0\<lparr>mm_adjMemResult := omap_insert label [] (mm_adjMemResult s0)\<rparr>;
         memUsages = the (map_of (mm_adjMemResult s) label) in
     if memUsages = [] then SaveStringToFd (label @ '': '' @ AddKbUnit 0 @ nl) s
     else
       let totalPss = fold (\<lambda>b a. a + mu_pss b + mu_swapPss b) memUsages 0 in
       SaveStringToFd (concat (map adj_row (me_sort_usages env adj_before memUsages)))
         (SaveStringToFd (label @ '': '' @ AddKbUnit totalPss @ nl) s))"

definition GetMemoryByAdj :: "mem_env \<Rightarrow> MemoryInfo \<Rightarrow> MemoryInfo" where
  "GetMemoryByAdj env s =
    fold (adj_label env) (me_priorities env @ [me_unknown_priority env]) (SaveStringToFd (''Total Pss by OOM adjustment:'' @ nl) s)"

section \<open>Categories\<close>

definition pair_before :: "string \<times> u64 \<Rightarrow> string \<times> u64 \<Rightarrow> bool" where
  "pair_before left right = (snd right < snd left)"

definition PairToStringMatrix :: "mem_env \<Rightarrow> string \<Rightarrow> (string \<times> u64) list \<Rightarrow> MemoryInfo \<Rightarrow> MemoryInfo" where
  "PairToStringMatrix env titleStr vec s =
    (let totalPss = fold (\<lambda>b a. a + snd b) vec 0;
         s1 = SaveStringToFd (titleStr @ ''('' @ AddKbUnit totalPss @ ''):'' @ nl) s in
     fold (\<lambda>p. SaveStringToFd (ram_title (AddKbUnit (snd p)) @ '' : '' @ fst p @ nl)) (me_sort_pairs env pair_before vec) s1)"

text \<open>The pages of one group, its name, and whether they belong to files; \<open>None\<close> for a name without a page tag.\<close>

definition page_group :: "mem_env \<Rightarrow> string \<times> ValueMap \<Rightarrow> (bool \<times> string \<times> u64) option" where
  "page_group env info =
    (let pageTag = ce_split (me_common env) (fst info) ''#'' False False in
     if length pageTag < 2 then None
     else Some (pageTag ! 0 = FILE_PAGE_TAG, pageTag ! 1, fold (\<lambda>str t. t + entry_or_0 (snd info) str) CALC_PSS_TOTAL 0))"

definition GetPssTotal :: "mem_env \<Rightarrow> GroupMap \<Rightarrow> MemoryInfo \<Rightarrow> MemoryInfo" where
  "GetPssTotal env infos s0 =
    (let s = SaveStringToFd (''Total Pss by Category:'' @ nl) s0;
         groups = List.map_filter (page_group env) infos;
         filePage = map snd (filter fst groups); anonPage = map snd (filter (\<lambda>g. \<not> fst g) groups);
         s1 = PairToStringMatrix env ANON_PAGE_TAG anonPage (PairToStringMatrix env FILE_PAGE_TAG filePage s);
         s2 = PairToStringMatrix env GPU_TAG [(GL_OUT_LABEL, mm_totalGL s1)] s1;
         s3 = PairToStringMatrix env GRAPH_OUT_LABEL [(GRAPH_OUT_LABEL, mm_totalGraph s2)] s2 in
     PairToStringMatrix env DMA_TAG [(DMA_OUT_LABEL, mm_totalDma s3)] s3)"

section \<open>Totals\<close>

definition GetRamUsage :: "GroupMap \<Rightarrow> ValueMap \<Rightarrow> MemoryInfo \<Rightarrow> MemoryInfo" where
  "GetRamUsage smapsinfos meminfo s =
    (let ram = GetRam smapsinfos meminfo in
     fold SaveStringToFd
       [ram_title ''Total RAM:'' @ AddKbUnit (ram_total ram) @ nl,
        ram_title ''Free RAM:'' @ AddKbUnit (ram_free ram) @ '' ('' @ u64_string (ram_cachedInfo ram) @ '' cached + '' @ u64_string (ram_freeInfo ram) @ '' free)'' @ nl,
        ram_title ''Used RAM:'' @ AddKbUnit (ram_used ram) @ '' ('' @ u64_string (ram_totalPss ram) @ '' total pss + '' @ u64_string (ram_kernelUsed ram) @ '' kernel)'' @ nl,
        ram_title ''Lost RAM:'' @ to_string (ram_lost ram) @ KB_UNIT @ nl] s)"

definition GetHardWareUsage :: "mem_env \<Rightarrow> MemoryInfo \<Rightarrow> bool \<times> MemoryInfo" where
  "GetHardWareUsage env s =
    (case GetHardwareUsage (me_sh env) (me_common env) (me_threads env) of
       None \<Rightarrow> (False, s) | Some value \<Rightarrow> (True, SaveStringToFd (ram_title ''Hardware Usage:'' @ AddKbUnit value @ nl) s))"

definition GetCMAUsage :: "mem_env \<Rightarrow> MemoryInfo \<Rightarrow> bool \<times> MemoryInfo" where
  "GetCMAUsage env s =
    (case GetUsed (me_sh env) (me_common env) 0 of
       (False, _) \<Rightarrow> (False, s) | (True, value) \<Rightarrow> (True, SaveStringToFd (ram_title ''CMA Usage:'' @ AddKbUnit value @ nl) s))"

definition GetKernelUsage :: "mem_env \<Rightarrow> ValueMap \<Rightarrow> MemoryInfo \<Rightarrow> bool \<times> MemoryInfo" where
  "GetKernelUsage env infos s =
    (case GetKernel (me_common env) infos 0 of
       (False, _) \<Rightarrow> (False, s) | (True, value) \<Rightarrow> (True, SaveStringToFd (ram_title ''Kernel Usage:'' @ AddKbUnit value @ nl) s))"

definition GetProcesses :: "GroupMap \<Rightarrow> MemoryInfo \<Rightarrow> MemoryInfo" where
  "GetProcesses infos s = SaveStringToFd (ram_title ''Processes Usage:'' @ AddKbUnit (GetProcess infos) @ nl) s"

definition GetRamCategory :: "mem_env \<Rightarrow> GroupMap \<Rightarrow> ValueMap \<Rightarrow> MemoryInfo \<Rightarrow> MemoryInfo" where
  "GetRamCategory env smapsInfos meminfos s =
    GetProcesses smapsInfos (snd (GetKernelUsage env meminfos (snd (GetCMAUsage env (snd (GetHardWareUsage env
      (SaveStringToFd (''Total RAM by Category:'' @ nl) s)))))))"

definition GetPurgTotal :: "ValueMap \<Rightarrow> MemoryInfo \<Rightarrow> MemoryInfo" where
  "GetPurgTotal meminfo s =
    (let (purgSumTotal, purgPinTotal) =
       (case (map_of meminfo (PURG_SUM ! 0), map_of meminfo (PURG_SUM ! 1), map_of meminfo (PURG_PIN ! 0)) of
          (Some active, Some inactive, Some pined) \<Rightarrow> (active + inactive, pined) | _ \<Rightarrow> (0, 0)) in
     fold SaveStringToFd
       [''Total Purgeable:'' @ nl, ram_title ''Total PurgSum:'' @ AddKbUnit purgSumTotal @ nl,
        ram_title ''Total PurgPin:'' @ AddKbUnit purgPinTotal @ nl] s)"

section \<open>The overview\<close>

definition GetSmapsInfoNoPid :: "mem_env \<Rightarrow> int \<Rightarrow> GroupMap \<Rightarrow> GroupMap" where
  "GetSmapsInfoNoPid env pid result = snd (snd (GetInfo (me_common env) NOT_SPECIFIED_PID pid [] result))"

text \<open>\<open>None\<close>: \<open>fut_.get()\<close> on a future without a shared state throws.\<close>

definition DealResult :: "mem_env \<Rightarrow> MemoryInfo \<Rightarrow> (DumpStatus \<times> MemoryInfo) option" where
  "DealResult env s =
    (case pm_GetMeminfo (me_common env) [] of
       (False, _) \<Rightarrow> Some (DUMP_FAIL, s)
     | (True, meminfo) \<Rightarrow>
         let s1 = SaveStringToFd nl (GetMemoryByAdj env (SaveStringToFd nl (GetSortedMemoryInfoNoPid env s))) in
         (case mm_fut s1 of
            None \<Rightarrow> None
          | Some smaps \<Rightarrow>
              let s2 = SaveStringToFd nl (GetPssTotal env smaps (s1\<lparr>mm_fut := None\<rparr>));
                  s3 = SaveStringToFd nl (GetRamUsage smaps meminfo s2);
                  s4 = SaveStringToFd nl (GetRamCategory env smaps meminfo s3);
                  s5 = GetPurgTotal meminfo s4 in
              Some (DUMP_OK, s5\<lparr>mm_isReady := False, mm_dumpSmapsOnStart := False, mm_memUsages := []\<rparr>)))"

definition GetMemoryInfoNoPid :: "mem_env \<Rightarrow> MemoryInfo \<Rightarrow> (DumpStatus \<times> MemoryInfo) option" where
  "GetMemoryInfoNoPid env s =
    (case GetMemoryInfoInit env (SaveStringToFd (MEMORY_LINE @ nl) s) of
       (False, s1) \<Rightarrow> Some (DUMP_FAIL, s1)
     | (True, s1) \<Rightarrow>
         let s2 = (if mm_dumpSmapsOnStart s1 then s1
                   else s1\<lparr>mm_dumpSmapsOnStart := True, mm_fut := Some (fold (GetSmapsInfoNoPid env) (mm_pids s1) [])\<rparr>) in
         DealResult env (GetMemoryUsageInfo env s2))"

definition GetMemoryInfoPrune :: "mem_env \<Rightarrow> MemoryInfo \<Rightarrow> DumpStatus \<times> MemoryInfo" where
  "GetMemoryInfoPrune env s =
    (case GetMemoryInfoInit env (SaveStringToFd (MEMORY_LINE @ nl) (s\<lparr>mm_dumpPrune := True\<rparr>)) of
       (False, s1) \<Rightarrow> (DUMP_FAIL, s1)
     | (True, s1) \<Rightarrow> (DUMP_OK, GetMemoryUsageInfo env s1))"

end
