(* ===== verification/Mem_Watch.thy ===== *)
theory Mem_Watch
  imports Mem_Pid Complex_Main
begin

text \<open>
  Watching the memory of one process: \<open>GetMemoryInfoByTimeInterval\<close> of \<^verbatim>\<open>memory_info.cpp\<close> with the screen it
  redraws after every sample, and the file in which it records the samples.
\<close>

section \<open>Stars\<close>

definition MAX_STARS_NUM :: nat where "MAX_STARS_NUM = 20"
definition ONE_STAR :: nat where "ONE_STAR = 1"

text \<open>
  The source computes in \<open>double\<close>. The argument \<open>rnd\<close> is the rounding of one floating-point operation; the
  conversion to \<open>int\<close> cuts off the fraction.
\<close>

definition CalculateStars :: "(rat \<Rightarrow> rat) \<Rightarrow> int list \<Rightarrow> int \<Rightarrow> int" where
  "CalculateStars rnd pssValues currentPSS =
    (if pssValues = [] then int MAX_STARS_NUM
     else
       let minPSS = Min (set pssValues); maxPSS = Max (set pssValues) in
       if maxPSS = minPSS then int MAX_STARS_NUM
       else
         let stdValue = rnd (of_int (currentPSS - minPSS) / of_int (maxPSS - minPSS));
             v = rnd (rnd (stdValue * of_nat (MAX_STARS_NUM - ONE_STAR)) + of_nat ONE_STAR) in
         if v < 0 then - \<lfloor>- v\<rfloor> else \<lfloor>v\<rfloor>)"

definition GenerateLine :: "(rat \<Rightarrow> rat) \<Rightarrow> int list \<Rightarrow> nat \<Rightarrow> string" where
  "GenerateLine rnd pssValues index =
    (let stars = CalculateStars rnd pssValues (pssValues ! index) in
     replicate (nat stars) CHR ''*'' @ replicate (nat (26 - stars)) BLANK
     @ ''times'' @ digits (index + 1) @ '': PSS='' @ to_string (pssValues ! index) @ ''kB'' @ [CHR 0x0A])"

definition NAME_WIDTH :: int where "NAME_WIDTH = 20"

definition name_cell :: "string \<Rightarrow> string" where
  "name_cell t = SetWidth NAME_WIDTH BLANK True t"

text \<open>The start time is padded in place.\<close>

definition GenerateTimestamps :: "tm \<Rightarrow> int list \<Rightarrow> MemoryInfo \<Rightarrow> string \<times> MemoryInfo" where
  "GenerateTimestamps now pssValues s =
    (let endTime = GetDateAndTime now;
         maxMem = Max (set pssValues);
         changePss = (if length pssValues > 1 then last pssValues - pssValues ! 0 else 0);
         s1 = s\<lparr>mm_startTime := name_cell (mm_startTime s)\<rparr> in
     (''StartTime           EndTime              Count                MaxMem              Change'' @ [CHR 0x0A]
      @ mm_startTime s1 @ name_cell endTime @ '' '' @ name_cell (digits (length pssValues)) @ '' ''
      @ name_cell (to_string maxMem @ ''kB'') @ '' '' @ name_cell (to_string changePss @ ''kB'') @ [CHR 0x0A], s1))"

section \<open>The screen\<close>

text \<open>The index of the largest of the values between the first five and the last five, if it exceeds the first value.\<close>

definition CalculateMaxIdex :: "int list \<Rightarrow> nat \<Rightarrow> nat" where
  "CalculateMaxIdex pssValues maxIndex =
    fold (\<lambda>i k. if pssValues ! i > pssValues ! k then i else k) [5 ..< length pssValues - 5] maxIndex"

definition dots :: string where "dots = ''...'' @ [CHR 0x0A]"

text \<open>The lines under the header, each with the text and what it adds to the counter of lines.\<close>

definition sample_lines :: "(rat \<Rightarrow> rat) \<Rightarrow> int list \<Rightarrow> string \<times> nat" where
  "sample_lines rnd pssValues =
    (let line = GenerateLine rnd pssValues; n = length pssValues in
     if n \<le> 10 then (concat (map line [0 ..< n]), n)
     else
       let maxIndex = CalculateMaxIdex pssValues 0;
           (middle, count) =
             (if maxIndex \<ge> 5 \<and> maxIndex < n - 5 then
                ((if maxIndex > 5 then dots else []) @ line maxIndex @ (if maxIndex < n - 6 then dots else []),
                 (if maxIndex > 5 then 1 else 0) + 1 + (if maxIndex < n - 6 then 1 else 0))
              else (dots, 1)) in
       (concat (map line [0 ..< 5]) @ middle @ concat (map line [n - 5 ..< n]), 5 + count + 5))"

definition ClearPreviousLines :: "nat \<Rightarrow> string" where
  "ClearPreviousLines lineCount = concat (replicate lineCount ([CHR 0x1B] @ ''[F'' @ [CHR 0x1B] @ ''[2K''))"

definition PrintMemoryInfo :: "(rat \<Rightarrow> rat) \<Rightarrow> tm \<Rightarrow> int list \<Rightarrow> nat \<Rightarrow> MemoryInfo \<Rightarrow> nat \<times> MemoryInfo" where
  "PrintMemoryInfo rnd now pssValues prevLineCount s =
    (let (header, s1) = GenerateTimestamps now pssValues s; (body, count) = sample_lines rnd pssValues in
     (2 + count, s1\<lparr>mm_out := mm_out s1 @ (if prevLineCount > 0 then ClearPreviousLines prevLineCount else []) @ header @ body\<rparr>))"

section \<open>The record\<close>

definition record_row :: "string list \<Rightarrow> string" where
  "record_row line =
    concat (map (\<lambda>j. c_str (if j = length line - 1 \<and> CHR 0x0A \<notin> set (line ! j) then line ! j @ [CHR 0x0A] else line ! j)) [0 ..< length line])"

text \<open>\<open>can_write\<close>: \<open>FdToWrite\<close> opens the file; it is opened for appending.\<close>

definition RedirectMemoryInfo :: "bool \<Rightarrow> nat \<Rightarrow> matrix \<Rightarrow> MemoryInfo \<Rightarrow> MemoryInfo" where
  "RedirectMemoryInfo can_write timeIndex result s =
    (if \<not> can_write then s
     else s\<lparr>mm_record := mm_record s @ [CHR 0x0A] @ ''times:'' @ digits timeIndex @ [CHR 0x0A] @ concat (map record_row result)\<rparr>)"

section \<open>The loop\<close>

text \<open>
  Every sample has its own environment: what the system answers then, and whether the record can be opened. The
  list ends where the interrupt of the user stops the loop. \<open>static_cast<int>\<close> takes the low 32 bits.
\<close>

fun sample_loop :: "(rat \<Rightarrow> rat) \<Rightarrow> int \<Rightarrow> (mem_env \<times> bool) list \<Rightarrow> int list \<Rightarrow> nat \<Rightarrow> MemoryInfo \<Rightarrow> (int list \<times> nat \<times> MemoryInfo) option" where
  "sample_loop rnd pid [] pssValues prevLineCount s = Some (pssValues, prevLineCount, s)"
| "sample_loop rnd pid ((env, can_write) # samples) pssValues prevLineCount s =
    (case GetMemoryInfoByPid env pid False False False (s, []) of
       None \<Rightarrow> None
     | Some (s1, result) \<Rightarrow>
         let pss = pssValues @ [int32 (uint (mm_currentPss s1))];
             (count, s2) = PrintMemoryInfo rnd (me_time env) pss prevLineCount s1 in
         sample_loop rnd pid samples pss count (RedirectMemoryInfo can_write (length pss) result s2))"

definition GetMemoryInfoByTimeInterval :: "(rat \<Rightarrow> rat) \<Rightarrow> tm \<Rightarrow> int \<Rightarrow> (mem_env \<times> bool) list \<Rightarrow> MemoryInfo \<Rightarrow> MemoryInfo option" where
  "GetMemoryInfoByTimeInterval rnd now pid samples s =
    map_option (\<lambda>(_, _, s'). s')
      (sample_loop rnd pid samples [] 0
        (s\<lparr>mm_out := mm_out s @ MEMORY_LINE @ [CHR 0x0A, CHR 0x0A], mm_startTime := GetDateAndTime now\<rparr>))"

text \<open>\<open>SetReceivedSigInt\<close> sets the flag that the loop reads; the loop sets it again when it leaves.\<close>

definition SetReceivedSigInt :: "bool \<Rightarrow> bool" where
  "SetReceivedSigInt isReceivedSigInt = (\<not> isReceivedSigInt)"

end
