(* ===== verification/Mem_Watch_Facts.thy ===== *)
theory Mem_Watch_Facts
  imports Mem_Watch
begin

text \<open>
  What a user who watches a process sees. The terminal is a specification of its own: rows of text, a cursor, and
  the two control sequences that the code sends (\<open>CSI F\<close>, cursor to the start of the previous row, and \<open>CSI 2 K\<close>, erase the row).
\<close>

section \<open>A terminal\<close>

record terminal =
  tt_above :: "string list" \<comment> \<open>the rows above the cursor, the nearest first\<close>
  tt_row :: string
  tt_col :: nat
  tt_below :: "string list"

abbreviation ESC :: char where "ESC \<equiv> CHR 0x1B"
abbreviation LF :: char where "LF \<equiv> CHR 0x0A"

definition tt_up :: "terminal \<Rightarrow> terminal" where
  "tt_up t = (case tt_above t of [] \<Rightarrow> t\<lparr>tt_col := 0\<rparr> | r # rs \<Rightarrow> \<lparr>tt_above = rs, tt_row = r, tt_col = 0, tt_below = tt_row t # tt_below t\<rparr>)"

definition tt_feed :: "terminal \<Rightarrow> terminal" where
  "tt_feed t =
    \<lparr>tt_above = tt_row t # tt_above t, tt_row = (case tt_below t of [] \<Rightarrow> [] | r # _ \<Rightarrow> r), tt_col = 0, tt_below = tl (tt_below t)\<rparr>"

definition tt_put :: "char \<Rightarrow> terminal \<Rightarrow> terminal" where
  "tt_put c t = t\<lparr>tt_row := take (tt_col t) (tt_row t) @ [c] @ drop (Suc (tt_col t)) (tt_row t), tt_col := Suc (tt_col t)\<rparr>"

fun tt_run :: "string \<Rightarrow> terminal \<Rightarrow> terminal" where
  "tt_run [] t = t"
| "tt_run (c # r) t =
    (if c = ESC \<and> take 2 r = ''[F'' then tt_run (drop 2 r) (tt_up t)
     else if c = ESC \<and> take 3 r = ''[2K'' then tt_run (drop 3 r) (t\<lparr>tt_row := []\<rparr>)
     else if c = LF then tt_run r (tt_feed t) else tt_run r (tt_put c t))"

text \<open>A cursor at the start of an empty row with nothing but empty rows below.\<close>

definition fresh_row :: "string list \<Rightarrow> terminal \<Rightarrow> bool" where
  "fresh_row rows t \<longleftrightarrow> tt_above t = rows \<and> tt_row t = [] \<and> tt_col t = 0 \<and> (\<forall>r \<in> set (tt_below t). r = [])"

section \<open>Texts and what the terminal makes of them\<close>

lemma tt_run_append: "ESC \<notin> set x \<Longrightarrow> tt_run (x @ y) t = tt_run y (tt_run x t)"
  by (induction x arbitrary: t) auto

lemma tt_run_row:
  "ESC \<notin> set x \<Longrightarrow> LF \<notin> set x \<Longrightarrow> tt_col t = length (tt_row t) \<Longrightarrow>
   tt_run x t = t\<lparr>tt_row := tt_row t @ x, tt_col := length (tt_row t @ x)\<rparr>"
  by (induction x arbitrary: t) (auto simp: tt_put_def)

text \<open>Lines that end with a line feed go above the cursor.\<close>

definition text_of :: "string list \<Rightarrow> string" where
  "text_of ls = concat (map (\<lambda>l. l @ [LF]) ls)"

definition plain :: "string \<Rightarrow> bool" where
  "plain x \<longleftrightarrow> ESC \<notin> set x \<and> LF \<notin> set x"

lemma plain_simps [simp]:
  "plain []" "plain (c # x) \<longleftrightarrow> c \<noteq> ESC \<and> c \<noteq> LF \<and> plain x" "plain (x @ y) \<longleftrightarrow> plain x \<and> plain y"
  by (auto simp: plain_def)

lemma plain_replicate [simp]: "c \<noteq> ESC \<Longrightarrow> c \<noteq> LF \<Longrightarrow> plain (replicate n c)"
  by (simp add: plain_def)

lemma text_of_simps [simp]: "text_of [] = []" "text_of (l # ls) = l @ LF # text_of ls" "text_of (ks @ ls) = text_of ks @ text_of ls"
  by (simp_all add: text_of_def)

lemma tt_run_line:
  assumes "fresh_row rows t" "plain l"
  shows "fresh_row (l # rows) (tt_run (l @ [LF]) t)"
proof -
  have "tt_run (l @ [LF]) t = tt_feed (tt_run l t)" using assms(2) by (simp add: tt_run_append plain_def)
  moreover have "tt_run l t = t\<lparr>tt_row := l, tt_col := length l\<rparr>" using assms by (subst tt_run_row) (auto simp: fresh_row_def plain_def)
  ultimately show ?thesis
    using assms(1) by (auto simp: fresh_row_def tt_feed_def split: list.splits dest: list.set_sel(2) [rotated])
qed

lemma tt_run_text:
  "fresh_row rows t \<Longrightarrow> (\<And>l. l \<in> set ls \<Longrightarrow> plain l) \<Longrightarrow> fresh_row (rev ls @ rows) (tt_run (text_of ls) t)"
proof (induction ls arbitrary: rows t)
  case (Cons l ls)
  then have "fresh_row (l # rows) (tt_run (l @ [LF]) t)" by (intro tt_run_line) auto
  with Cons.IH [OF this] Cons.prems(2) have "fresh_row (rev ls @ l # rows) (tt_run (text_of ls) (tt_run (l @ [LF]) t))" by auto
  moreover have "ESC \<notin> set (l @ [LF])" using Cons.prems(2) [of l] by (auto simp: plain_def)
  then have "tt_run (text_of (l # ls)) t = tt_run (text_of ls) (tt_run (l @ [LF]) t)" by (subst tt_run_append [symmetric]) auto
  ultimately show ?case by simp
qed simp

section \<open>The lines of a sample\<close>

lemma digit_char: "d < 10 \<Longrightarrow> char_of (48 + d :: nat) \<noteq> ESC \<and> char_of (48 + d) \<noteq> LF"
  by (auto dest!: arg_cong [where f = "of_char :: char \<Rightarrow> nat"])

lemma plain_digits [simp]: "plain (digits n)"
proof (induction n rule: digits.induct)
  case (1 n)
  then show ?case using digit_char [of n] digit_char [of "n mod 10"] by (subst digits.simps) auto
qed

lemma plain_to_string [simp]: "plain (to_string n)"
  by (simp add: to_string_def)

lemma plain_SetWidth [simp]: "c \<noteq> ESC \<Longrightarrow> c \<noteq> LF \<Longrightarrow> plain (SetWidth w c left t) \<longleftrightarrow> plain t"
  by (simp add: SetWidth_def Let_def)

lemma plain_name_cell [simp]: "plain (name_cell t) \<longleftrightarrow> plain t"
  by (simp add: name_cell_def)

lemma plain_GetDateAndTime [simp]: "plain (GetDateAndTime t)"
  by (simp add: GetDateAndTime_def two_digits_def)

text \<open>The two header lines, one line per sample, and the lines that are shown of all samples.\<close>

definition header_lines :: "tm \<Rightarrow> int list \<Rightarrow> string \<Rightarrow> string list" where
  "header_lines now vs start =
    [''StartTime           EndTime              Count                MaxMem              Change'',
     name_cell start @ name_cell (GetDateAndTime now) @ '' '' @ name_cell (digits (length vs)) @ '' ''
     @ name_cell (to_string (Max (set vs)) @ ''kB'') @ '' ''
     @ name_cell (to_string (if length vs > 1 then last vs - vs ! 0 else 0) @ ''kB'')]"

definition star_line :: "(rat \<Rightarrow> rat) \<Rightarrow> int list \<Rightarrow> nat \<Rightarrow> string" where
  "star_line rnd vs i = butlast (GenerateLine rnd vs i)"

lemma GenerateLine_text: "GenerateLine rnd vs i = text_of [star_line rnd vs i]"
  by (simp add: star_line_def GenerateLine_def Let_def butlast_append)

lemma plain_star_line [simp]: "plain (star_line rnd vs i)"
  by (simp add: star_line_def GenerateLine_def Let_def butlast_append)

lemma lines_text: "concat (map (GenerateLine rnd vs) is) = text_of (map (star_line rnd vs) is)"
  by (induction "is") (simp_all add: GenerateLine_text)

definition middle_lines :: "(rat \<Rightarrow> rat) \<Rightarrow> int list \<Rightarrow> string list" where
  "middle_lines rnd vs =
    (let k = CalculateMaxIdex vs 0; n = length vs in
     if k \<ge> 5 \<and> k < n - 5 then (if k > 5 then [''...''] else []) @ [star_line rnd vs k] @ (if k < n - 6 then [''...''] else [])
     else [''...''])"

definition body_lines :: "(rat \<Rightarrow> rat) \<Rightarrow> int list \<Rightarrow> string list" where
  "body_lines rnd vs =
    (if length vs \<le> 10 then map (star_line rnd vs) [0 ..< length vs]
     else map (star_line rnd vs) [0 ..< 5] @ middle_lines rnd vs @ map (star_line rnd vs) [length vs - 5 ..< length vs])"

lemma sample_lines_text: "sample_lines rnd vs = (text_of (body_lines rnd vs), length (body_lines rnd vs))"
  by (simp add: sample_lines_def body_lines_def middle_lines_def Let_def lines_text GenerateLine_text dots_def)

lemma plain_body: "l \<in> set (body_lines rnd vs) \<Longrightarrow> plain l"
  by (auto simp: body_lines_def middle_lines_def Let_def split: if_splits)

lemma plain_header: "plain start \<Longrightarrow> l \<in> set (header_lines now vs start) \<Longrightarrow> plain l"
  by (auto simp: header_lines_def)

definition screen_lines :: "(rat \<Rightarrow> rat) \<Rightarrow> tm \<Rightarrow> int list \<Rightarrow> string \<Rightarrow> string list" where
  "screen_lines rnd now vs start = header_lines now vs start @ body_lines rnd vs"

lemma PrintMemoryInfo_text:
  "PrintMemoryInfo rnd now vs prev s =
    (length (screen_lines rnd now vs (mm_startTime s)),
     s\<lparr>mm_startTime := name_cell (mm_startTime s),
       mm_out := mm_out s @ ClearPreviousLines prev @ text_of (screen_lines rnd now vs (mm_startTime s))\<rparr>)"
  by (simp add: PrintMemoryInfo_def GenerateTimestamps_def Let_def sample_lines_text screen_lines_def header_lines_def ClearPreviousLines_def)

section \<open>Redrawing\<close>

text \<open>The terminal that has received the text \<open>out\<close> stands on a fresh row under the given rows.\<close>

definition displays :: "terminal \<Rightarrow> string \<Rightarrow> string list \<Rightarrow> bool" where
  "displays t0 out rows \<longleftrightarrow> (\<exists>t. fresh_row rows t \<and> (\<forall>y. tt_run (out @ y) t0 = tt_run y t))"

lemma displays_text:
  assumes "displays t0 out rows" "\<And>l. l \<in> set ls \<Longrightarrow> plain l"
  shows "displays t0 (out @ text_of ls) (rev ls @ rows)"
proof -
  obtain t where t: "fresh_row rows t" "\<And>y. tt_run (out @ y) t0 = tt_run y t" using assms(1) by (auto simp: displays_def)
  have "ESC \<notin> set (text_of ls)" using assms(2) by (auto simp: text_of_def plain_def)
  then have "tt_run ((out @ text_of ls) @ y) t0 = tt_run y (tt_run (text_of ls) t)" for y by (simp add: t(2) tt_run_append)
  then show ?thesis using tt_run_text [OF t(1) assms(2)] by (auto simp: displays_def)
qed

lemma displays_clear:
  assumes "displays t0 out (rev ls @ rows)"
  shows "displays t0 (out @ ClearPreviousLines (length ls)) rows"
proof -
  obtain t where t: "fresh_row (rev ls @ rows) t" "\<And>y. tt_run (out @ y) t0 = tt_run y t" using assms by (auto simp: displays_def)
  from t(1) have "\<exists>t'. fresh_row rows t' \<and> (\<forall>y. tt_run (ClearPreviousLines (length ls) @ y) t = tt_run y t')"
  proof (induction ls arbitrary: t rule: rev_induct)
    case Nil then show ?case by (auto simp: ClearPreviousLines_def)
  next
    case (snoc l ls)
    let ?t = "(tt_up t)\<lparr>tt_row := []\<rparr>"
    have "fresh_row (rev ls @ rows) ?t" using snoc.prems by (auto simp: fresh_row_def tt_up_def)
    from snoc.IH [OF this] show ?case by (simp add: ClearPreviousLines_def)
  qed
  then show ?thesis by (auto simp: displays_def t(2))
qed

lemma name_cell_idem [simp]: "name_cell (name_cell t) = name_cell t"
  by (simp add: name_cell_def SetWidth_def Let_def NAME_WIDTH_def)

lemma screen_lines_start [simp]: "screen_lines rnd now vs (name_cell start) = screen_lines rnd now vs start"
  by (simp add: screen_lines_def header_lines_def)

text \<open>Collecting the data of a process writes nothing to the terminal and keeps the start time.\<close>

lemma one_detail_keeps:
  "one_detail d ds = Some ds' \<Longrightarrow> mm_out (ds_info ds') = mm_out (ds_info ds) \<and> mm_startTime (ds_info ds') = mm_startTime (ds_info ds)"
  by (auto simp: one_detail_def store_detail_def GetGraphicsMemoryByDetail_def Let_def split: if_splits option.splits prod.splits)

lemma all_details_keeps:
  "all_details dts ds = Some ds' \<Longrightarrow> mm_out (ds_info ds') = mm_out (ds_info ds) \<and> mm_startTime (ds_info ds') = mm_startTime (ds_info ds)"
  by (induction dts arbitrary: ds) (auto split: option.splits dest!: one_detail_keeps)

lemma UpdateTotalDetail_keeps [simp]:
  "mm_out (fst (UpdateTotalDetail d h (s, r))) = mm_out s" "mm_startTime (fst (UpdateTotalDetail d h (s, r))) = mm_startTime s"
  by (simp_all add: UpdateTotalDetail_def Let_def split: prod.splits)

lemma GetNativeHeap_keeps [simp]:
  "mm_out (fst (GetNativeHeap d sr)) = mm_out (fst sr)" "mm_startTime (fst (GetNativeHeap d sr)) = mm_startTime (fst sr)"
  by (simp_all add: GetNativeHeap_def Let_def split: prod.splits option.splits)

lemma GetMemoryInfoByPid_keeps:
  assumes "GetMemoryInfoByPid env pid a b c (s, r) = Some (s', r')"
  shows "mm_out s' = mm_out s \<and> mm_startTime s' = mm_startTime s"
proof -
  obtain d s1 r1 r2 where c: "CollectProcessMemoryDetail env pid s = Some (d, s1)" and g: "GetResult env pid d (s1, r1) = Some (s', r2)"
    using assms by (auto simp: GetMemoryInfoByPid_def Let_def bind_eq_Some_conv)
  have "mm_out s1 = mm_out s \<and> mm_startTime s1 = mm_startTime s"
    using c by (auto simp: CollectProcessMemoryDetail_def split: option.splits)
  moreover have "mm_out s' = mm_out s1 \<and> mm_startTime s' = mm_startTime s1"
  proof (cases d)
    case (Some x)
    then obtain n sr where u: "UpdateResult env pid x (s1, r1) = Some (n, sr)" and n: "GetNativeHeap n sr = (s', r2)"
      using g by (auto simp: GetResult_def)
    have "mm_out (fst sr) = mm_out s1 \<and> mm_startTime (fst sr) = mm_startTime s1"
      using u by (auto simp: UpdateResult_def Let_def split: option.splits dest!: all_details_keeps)
    then show ?thesis using GetNativeHeap_keeps [of n sr] n by simp
  qed (use g in \<open>simp add: GetResult_def\<close>)
  ultimately show ?thesis by simp
qed

text \<open>The loop goes on as long as the data of the process can be collected.\<close>

lemma sample_loop_total:
  assumes "\<And>env w s r. (env, w) \<in> set samples \<Longrightarrow> GetMemoryInfoByPid env pid False False False (s, r) \<noteq> None"
  shows "sample_loop rnd pid samples vs n s \<noteq> None"
  using assms
proof (induction samples arbitrary: vs n s)
  case (Cons smp samples)
  obtain env w where smp: "smp = (env, w)" by (cases smp)
  from Cons.prems smp obtain s1 r where g: "GetMemoryInfoByPid env pid False False False (s, []) = Some (s1, r)" by fastforce
  have "sample_loop rnd pid samples vs' n' s' \<noteq> None" for vs' n' s' using Cons.prems by (intro Cons.IH) (meson list.set_intros(2))
  then show ?case using g smp by (simp add: Let_def split: prod.splits)
qed simp

lemma sample_loop_displays:
  assumes "sample_loop rnd pid samples vs prev s = Some (vs', prev', s')" "samples \<noteq> []" "plain (mm_startTime s)"
    and "displays t0 (mm_out s) (rev shown @ rows)" "prev = length shown"
  shows "length vs' = length vs + length samples
    \<and> displays t0 (mm_out s') (rev (screen_lines rnd (me_time (fst (last samples))) vs' (mm_startTime s)) @ rows)"
  using assms
proof (induction samples arbitrary: vs prev s shown)
  case (Cons smp samples)
  obtain env w where smp: "smp = (env, w)" by (cases smp)
  obtain s1 r where g: "GetMemoryInfoByPid env pid False False False (s, []) = Some (s1, r)"
    using Cons.prems(1) smp by (auto split: option.splits)
  define ps where "ps = vs @ [int32 (uint (mm_currentPss s1))]"
  define s2 where "s2 = snd (PrintMemoryInfo rnd (me_time env) ps prev s1)"
  define s3 where "s3 = RedirectMemoryInfo w (length ps) r s2"
  let ?lines = "screen_lines rnd (me_time env) ps (mm_startTime s)"
  have k: "mm_out s1 = mm_out s" "mm_startTime s1 = mm_startTime s" using GetMemoryInfoByPid_keeps [OF g] by simp_all
  have l: "sample_loop rnd pid samples ps (length ?lines) s3 = Some (vs', prev', s')"
    using Cons.prems(1) smp g by (simp add: ps_def s2_def s3_def Let_def PrintMemoryInfo_text k)
  have out: "mm_out s3 = (mm_out s @ ClearPreviousLines (length shown)) @ text_of ?lines" "mm_startTime s3 = name_cell (mm_startTime s)"
    by (simp_all add: s3_def s2_def PrintMemoryInfo_text RedirectMemoryInfo_def k Cons.prems(5))
  have "plain l" if "l \<in> set ?lines" for l
    using that plain_header [OF Cons.prems(3)] plain_body by (auto simp: screen_lines_def)
  then have sh: "displays t0 (mm_out s3) (rev ?lines @ rows)" unfolding out by (intro displays_text displays_clear Cons.prems(4))
  show ?case
  proof (cases "samples = []")
    case True
    with l sh smp show ?thesis by (auto simp: ps_def)
  next
    case False
    from Cons.IH [OF l this _ sh refl] Cons.prems(3) out(2) False smp show ?thesis by (simp add: ps_def)
  qed
qed simp

text \<open>The values are the totals that the collector reports, cut to 32 bits.\<close>

lemma int32_of_nat: "int32 (uint (of_nat n :: u64)) = int32 (int n)"
proof -
  have "(2::int) ^ 32 dvd 2 ^ 64" by (rule le_imp_power_dvd) simp
  then have "(int n mod 2 ^ 64 + 2 ^ 31) mod 2 ^ 32 = (int n + 2 ^ 31) mod 2 ^ 32" by (metis mod_add_left_eq mod_mod_cancel)
  then show ?thesis by (simp add: int32_def unsigned_of_nat take_bit_eq_mod zmod_int)
qed

lemma GetMemoryInfoByPid_pss:
  assumes "GetMemoryInfoByPid env pid a b c (s, r) = Some (s', r')" "me_detail env pid = Some d"
  shows "mm_currentPss s' = of_nat (pd_totalAllPss d)"
proof -
  obtain s1 r1 r2 where g: "GetResult env pid (Some d) (s1, r1) = Some (s', r2)"
    using assms by (auto simp: GetMemoryInfoByPid_def CollectProcessMemoryDetail_def Let_def bind_eq_Some_conv)
  then obtain n sr where u: "UpdateResult env pid d (s1, r1) = Some (n, sr)" and n: "GetNativeHeap n sr = (s', r2)" by (auto simp: GetResult_def)
  have "mm_currentPss (fst (UpdateTotalDetail d h x)) = of_nat (pd_totalAllPss d)" for h x
    by (simp add: UpdateTotalDetail_def Let_def split: prod.splits)
  then have "mm_currentPss (fst sr) = of_nat (pd_totalAllPss d)" using u by (auto simp: UpdateResult_def Let_def split: option.splits)
  then show ?thesis using n by (auto simp: GetNativeHeap_def Let_def split: option.splits prod.splits)
qed

lemma sample_loop_values:
  assumes "sample_loop rnd pid samples vs n s = Some (vs', n', s')"
  shows "take (length vs) vs' = vs \<and> (\<forall>i < length samples. \<forall>d. me_detail (fst (samples ! i)) pid = Some d \<longrightarrow> vs' ! (length vs + i) = int32 (int (pd_totalAllPss d)))"
  using assms
proof (induction samples arbitrary: vs n s)
  case (Cons smp samples)
  obtain env w where smp: "smp = (env, w)" by (cases smp)
  obtain s1 r where g: "GetMemoryInfoByPid env pid False False False (s, []) = Some (s1, r)" using Cons.prems smp by (auto split: option.splits)
  define v where "v = int32 (uint (mm_currentPss s1))"
  obtain n1 s2 where l: "sample_loop rnd pid samples (vs @ [v]) n1 s2 = Some (vs', n', s')"
    using Cons.prems smp g by (auto simp: Let_def v_def split: prod.splits)
  from Cons.IH [OF l] have t: "take (Suc (length vs)) vs' = vs @ [v]"
    and v: "\<And>i d. i < length samples \<Longrightarrow> me_detail (fst (samples ! i)) pid = Some d \<Longrightarrow> vs' ! (Suc (length vs) + i) = int32 (int (pd_totalAllPss d))"
    by auto
  have "vs' ! length vs = v" by (metis lessI nth_append_length nth_take t)
  moreover have "take (length vs) vs' = vs" using arg_cong [OF t, of "take (length vs)"] by (simp add: min_def)
  ultimately show ?case
    using v GetMemoryInfoByPid_pss [OF g] smp by (auto simp: nth_Cons v_def int32_of_nat split: nat.splits)
qed simp

section \<open>Stars\<close>

text \<open>What IEEE rounding guarantees: it is monotone and keeps the small integers.\<close>

definition rounding :: "(rat \<Rightarrow> rat) \<Rightarrow> bool" where
  "rounding rnd \<longleftrightarrow> mono rnd \<and> (\<forall>k \<in> set [0 ..< 21]. rnd (of_nat k) = of_nat k)"

lemma rounding_mono: "rounding rnd \<Longrightarrow> x \<le> y \<Longrightarrow> rnd x \<le> rnd y"
  by (simp add: rounding_def monoD)

lemma rounding_nat: "rounding rnd \<Longrightarrow> k \<le> 20 \<Longrightarrow> rnd (of_nat k) = of_nat k"
  by (simp add: rounding_def)

lemma rounding_bounds: "rounding rnd \<Longrightarrow> a \<le> 20 \<Longrightarrow> b \<le> 20 \<Longrightarrow> of_nat a \<le> x \<Longrightarrow> x \<le> of_nat b \<Longrightarrow> of_nat a \<le> rnd x \<and> rnd x \<le> of_nat b"
  using rounding_mono [of rnd "of_nat a" x] rounding_mono [of rnd x "of_nat b"] rounding_nat [of rnd a] rounding_nat [of rnd b] by simp

text \<open>The value whose integer part is the number of stars.\<close>

definition star_value :: "(rat \<Rightarrow> rat) \<Rightarrow> int list \<Rightarrow> int \<Rightarrow> rat" where
  "star_value rnd vs v = rnd (rnd (rnd (of_int (v - Min (set vs)) / of_int (Max (set vs) - Min (set vs))) * 19) + 1)"

lemma star_value_bounds:
  assumes "rounding rnd" "v \<in> set vs" "Min (set vs) < Max (set vs)"
  shows "1 \<le> star_value rnd vs v \<and> star_value rnd vs v \<le> 20"
proof -
  have m: "Min (set vs) \<le> v" "v \<le> Max (set vs)" using assms(2) by auto
  let ?q = "of_int (v - Min (set vs)) / of_int (Max (set vs) - Min (set vs)) :: rat"
  have "of_nat 0 \<le> ?q \<and> ?q \<le> of_nat 1" using m assms(3) by (simp add: divide_le_eq)
  then have "of_nat 0 \<le> rnd ?q \<and> rnd ?q \<le> of_nat 1" using assms(1) by (intro rounding_bounds) auto
  then have "of_nat 0 \<le> rnd ?q * 19 \<and> rnd ?q * 19 \<le> of_nat 19" by simp
  then have "of_nat 0 \<le> rnd (rnd ?q * 19) \<and> rnd (rnd ?q * 19) \<le> of_nat 19" using assms(1) by (intro rounding_bounds) auto
  then have "of_nat 1 \<le> rnd (rnd ?q * 19) + 1 \<and> rnd (rnd ?q * 19) + 1 \<le> of_nat 20" by simp
  then have "of_nat 1 \<le> star_value rnd vs v \<and> star_value rnd vs v \<le> of_nat 20"
    unfolding star_value_def using assms(1) by (intro rounding_bounds) auto
  then show ?thesis by simp
qed

lemma star_value_mono:
  assumes "rounding rnd" "v \<le> w" "Min (set vs) < Max (set vs)"
  shows "star_value rnd vs v \<le> star_value rnd vs w"
proof -
  let ?d = "of_int (Max (set vs) - Min (set vs)) :: rat"
  have "of_int (v - Min (set vs)) / ?d \<le> of_int (w - Min (set vs)) / ?d" using assms(2,3) by (intro divide_right_mono) auto
  then have "rnd (of_int (v - Min (set vs)) / ?d) * 19 \<le> rnd (of_int (w - Min (set vs)) / ?d) * 19"
    using rounding_mono [OF assms(1)] by simp
  then show ?thesis unfolding star_value_def using rounding_mono [OF assms(1)] by simp
qed

lemma CalculateStars_value:
  assumes "rounding rnd" "v \<in> set vs"
  shows "CalculateStars rnd vs v = (if Min (set vs) = Max (set vs) then 20 else \<lfloor>star_value rnd vs v\<rfloor>)"
proof -
  have ne: "vs \<noteq> []" using assms(2) by auto
  have c: "CalculateStars rnd vs v = (if Max (set vs) = Min (set vs) then 20
      else if star_value rnd vs v < 0 then - \<lfloor>- star_value rnd vs v\<rfloor> else \<lfloor>star_value rnd vs v\<rfloor>)"
    using ne by (simp add: CalculateStars_def Let_def star_value_def MAX_STARS_NUM_def ONE_STAR_def)
  have "Min (set vs) \<le> v" "v \<le> Max (set vs)" using assms(2) by auto
  then have "Max (set vs) \<noteq> Min (set vs) \<Longrightarrow> star_value rnd vs v \<ge> 1" using star_value_bounds [OF assms] by linarith
  then show ?thesis unfolding c by auto
qed

lemma stars_extreme:
  assumes "rounding rnd" "Min (set vs) < Max (set vs)"
  shows "star_value rnd vs (Min (set vs)) = 1" "star_value rnd vs (Max (set vs)) = 20"
  using rounding_nat [OF assms(1), of 0] rounding_nat [OF assms(1), of 1] rounding_nat [OF assms(1), of 19]
    rounding_nat [OF assms(1), of 20] assms(2)
  by (simp_all add: star_value_def)

end
