(* ===== verification/Smaps_Info.thy ===== *)
theory Smaps_Info
  imports Mem_Pid
begin

text \<open>
  The maps of one process: \<^verbatim>\<open>executor/memory/smaps_memory_info.cpp\<close>, with one row per map or one row per name.
\<close>

section \<open>State\<close>

record SmapsMemoryInfo =
  si_categoryColumnWidth :: int
  si_nameColumnWidthDetailed :: int
  si_nameColumnWidthSummary :: int

definition SmapsMemoryInfo_new :: SmapsMemoryInfo where
  "SmapsMemoryInfo_new = \<lparr>si_categoryColumnWidth = 15, si_nameColumnWidthDetailed = 12, si_nameColumnWidthSummary = 18\<rparr>"

definition si_LINE_WIDTH :: int where "si_LINE_WIDTH = 12"
definition LINE_NAME_VAL_WIDTH :: int where "LINE_NAME_VAL_WIDTH = 60"
definition LINE_START_VAL_WIDTH :: int where "LINE_START_VAL_WIDTH = 18"

section \<open>Titles\<close>

definition smaps_titles :: "bool \<Rightarrow> bool \<Rightarrow> string list" where
  "smaps_titles userMode isShowSmapsInfo =
    (let titleVec = (if isShowSmapsInfo then TITLE_V_SMAPS_HAS_PID else TITLE_SMAPS_HAS_PID) in
     if userMode then filter (\<lambda>t. t \<noteq> ''Perm'' \<and> t \<noteq> ''Start'' \<and> t \<noteq> ''End'') titleVec else titleVec)"

definition name_width :: "SmapsMemoryInfo \<Rightarrow> bool \<Rightarrow> int" where
  "name_width s isShowSmapsInfo = (if isShowSmapsInfo then si_nameColumnWidthDetailed s else si_nameColumnWidthSummary s)"

text \<open>The cells that one title adds to the two lines; a title with more than two parts adds none.\<close>

definition title_cells :: "mem_env \<Rightarrow> SmapsMemoryInfo \<Rightarrow> bool \<Rightarrow> string \<Rightarrow> (string \<times> string) list" where
  "title_cells env s isShowSmapsInfo str =
    (let types = ce_split (me_common env) str ''_'' False False in
     if length types = 2 then [(SetWidth si_LINE_WIDTH BLANK True (types ! 0), SetWidth si_LINE_WIDTH BLANK True (types ! 1))]
     else if length types = 1 then
       let title = types ! 0 in
       [(SetWidth si_LINE_WIDTH BLANK True '' '',
         if IsSameStr title ''Name'' then SetWidth (name_width s isShowSmapsInfo + 4) BLANK False title
         else if IsSameStr title ''Category'' then SetWidth (si_categoryColumnWidth s) BLANK True title
         else SetWidth (if IsSameStr title ''Start'' then LINE_START_VAL_WIDTH else si_LINE_WIDTH) BLANK True title)]
     else [])"

definition InsertSmapsTitle :: "mem_env \<Rightarrow> SmapsMemoryInfo \<Rightarrow> bool \<Rightarrow> matrix \<Rightarrow> matrix" where
  "InsertSmapsTitle env s isShowSmapsInfo result =
    (let cells = concat (map (title_cells env s isShowSmapsInfo) (smaps_titles (me_user_mode env) isShowSmapsInfo)) in
     result @ [map fst cells, map snd cells])"

section \<open>Rows\<close>

definition si_SetValueForRet :: "string \<Rightarrow> int \<Rightarrow> string list \<Rightarrow> string list" where
  "si_SetValueForRet value width tempResult = tempResult @ [SetWidth width BLANK True value]"

definition shown_class :: "MemoryData \<Rightarrow> string" where
  "shown_class d =
    (if md_memoryClass d = ''other'' then (if md_iNode d = 0 then ''AnonPage other'' else ''FilePage other'') else md_memoryClass d)"

definition SetOneRowMemInfo :: "mem_env \<Rightarrow> SmapsMemoryInfo \<Rightarrow> MemoryData \<Rightarrow> bool \<Rightarrow> bool \<Rightarrow> matrix \<Rightarrow> matrix" where
  "SetOneRowMemInfo env s d isShowSmapsInfo isSummary result =
    (let sizes = fold (\<lambda>v. si_SetValueForRet (u64_string v) si_LINE_WIDTH)
           [md_size d, md_rss d, md_pss d, md_sharedClean d, md_sharedDirty d, md_privateClean d, md_privateDirty d, md_swap d, md_swapPss d] [];
         place =
           (if isShowSmapsInfo then
              (if me_user_mode env then sizes
               else si_SetValueForRet (md_endAddr d) si_LINE_WIDTH
                 (si_SetValueForRet (md_startAddr d) LINE_START_VAL_WIDTH (si_SetValueForRet (md_permission d) si_LINE_WIDTH sizes)))
            else si_SetValueForRet (to_string (md_counts d)) si_LINE_WIDTH sizes);
         row = si_SetValueForRet (shown_class d) (si_categoryColumnWidth s) place;
         space = SetWidth (name_width s isShowSmapsInfo) BLANK False '' '';
         value = SetWidth LINE_NAME_VAL_WIDTH BLANK True (space @ (if isSummary then ''Summary'' else md_name d)) in
     result @ [row @ [value]])"

section \<open>Tables\<close>

definition add_data :: "MemoryData \<Rightarrow> MemoryData \<Rightarrow> MemoryData" where
  "add_data d summary =
    summary\<lparr>md_size := md_size summary + md_size d, md_rss := md_rss summary + md_rss d, md_pss := md_pss summary + md_pss d,
      md_sharedClean := md_sharedClean summary + md_sharedClean d, md_sharedDirty := md_sharedDirty summary + md_sharedDirty d,
      md_privateClean := md_privateClean summary + md_privateClean d, md_privateDirty := md_privateDirty summary + md_privateDirty d,
      md_swap := md_swap summary + md_swap d, md_swapPss := md_swapPss summary + md_swapPss d\<rparr>"

definition with_swap :: "MemoryData \<Rightarrow> MemoryData" where
  "with_swap summary = summary\<lparr>md_pss := md_pss summary + md_swapPss summary\<rparr>"

definition address_summary :: "MemoryData list \<Rightarrow> MemoryData" where
  "address_summary vec = with_swap (fold add_data vec MemoryData_new)"

definition UpdateShowAddressMemInfoResult :: "mem_env \<Rightarrow> SmapsMemoryInfo \<Rightarrow> MemoryData list \<Rightarrow> matrix \<Rightarrow> matrix" where
  "UpdateShowAddressMemInfoResult env s vec result =
    SetOneRowMemInfo env s (address_summary vec) True True (fold (\<lambda>d. SetOneRowMemInfo env s d True False) vec result)"

definition count_data :: "MemoryData \<Rightarrow> MemoryData \<Rightarrow> MemoryData" where
  "count_data d summary = (add_data d summary)\<lparr>md_counts := md_counts summary + md_counts d\<rparr>"

definition count_summary :: "same_names \<Rightarrow> MemoryData" where
  "count_summary m = with_swap (fold count_data (map snd m) MemoryData_new)"

definition UpdateCountSameNameMemResult :: "mem_env \<Rightarrow> SmapsMemoryInfo \<Rightarrow> same_names \<Rightarrow> matrix \<Rightarrow> matrix" where
  "UpdateCountSameNameMemResult env s m result =
    SetOneRowMemInfo env s (count_summary m) False True (fold (\<lambda>d. SetOneRowMemInfo env s d False False) (map snd m) result)"

text \<open>The widths are members: every call moves what the category column gives up into the name columns.\<close>

definition fit_columns :: "SmapsMemoryInfo \<Rightarrow> SmapsMemoryInfo" where
  "fit_columns s =
    (let maxTitleWidth = int (fold (\<lambda>c w. max w (length c)) MEMORY_CLASS_VEC 0) in
     \<lparr>si_categoryColumnWidth = maxTitleWidth,
      si_nameColumnWidthDetailed = si_categoryColumnWidth s - maxTitleWidth + si_nameColumnWidthDetailed s,
      si_nameColumnWidthSummary = si_categoryColumnWidth s - maxTitleWidth + si_nameColumnWidthSummary s\<rparr>)"

definition ShowMemorySmapsByPid :: "mem_env \<Rightarrow> int \<Rightarrow> bool \<Rightarrow> SmapsMemoryInfo \<Rightarrow> matrix \<Rightarrow> (bool \<times> SmapsMemoryInfo \<times> matrix) option" where
  "ShowMemorySmapsByPid env pid isShowSmapsAddress s result =
    (case GetSmapsData (me_smaps env pid) isShowSmapsAddress [] [] of
       None \<Rightarrow> None
     | Some (False, _) \<Rightarrow> Some (False, s, result)
     | Some (True, m, vec) \<Rightarrow>
         let s1 = fit_columns s; r1 = InsertSmapsTitle env s1 isShowSmapsAddress result in
         Some (True, s1,
           if isShowSmapsAddress then UpdateShowAddressMemInfoResult env s1 vec r1 else UpdateCountSameNameMemResult env s1 m r1))"

section \<open>Both tables have the same sums\<close>

text \<open>The nine sizes of a row.\<close>

definition sizes :: "MemoryData \<Rightarrow> u64 list" where
  "sizes d = [md_size d, md_rss d, md_pss d, md_sharedClean d, md_sharedDirty d, md_privateClean d, md_privateDirty d, md_swap d, md_swapPss d]"

text \<open>
  A column of the table: the field of a row, and the field of the collector's item it comes from. What the code does
  with one column it does with all nine.
\<close>

locale smaps_column =
  fixes f :: "MemoryData \<Rightarrow> u64" and g :: "MemoryItem \<Rightarrow> u64"
  assumes f_set: "f (SetMemoryData d i c) = g i"
    and f_add_item: "f (add_item i d) = f d + g i"
    and f_add_data: "f (add_data d s) = f s + f d"
    and f_counts: "f (d\<lparr>md_counts := n\<rparr>) = f d"
    and f_zero: "f MemoryData_new = 0"
begin

lemma fold_add_data: "f (fold add_data ds s) = f s + sum_list (map f ds)"
  by (induction ds arbitrary: s) (simp_all add: f_add_data)

lemma fold_count_data: "f (fold count_data ds s) = f s + sum_list (map f ds)"
  by (induction ds arbitrary: s) (simp_all add: count_data_def f_counts f_add_data)

lemma sum_count_item:
  "distinct (keys m) \<Longrightarrow> sum_list (map (\<lambda>p. f (snd p)) (count_item c i m)) = sum_list (map (\<lambda>p. f (snd p)) m) + g i"
  by (simp add: count_item_def sum_values_modify [where h = f and x = "g i"] sum_omap_insert [where h = f] f_add_item f_set)

lemma sum_address: "sum_list (map f (map (address_data c) is)) = sum_list (map g is)"
  by (induction "is") (simp_all add: address_data_def f_set)

end

lemma distinct_count_item: "distinct (keys m) \<Longrightarrow> distinct (keys (count_item c i m))"
  by (auto simp: count_item_def)

lemma distinct_UpdateCount: "distinct (keys m) \<Longrightarrow> distinct (keys (UpdateCountSameNameMemMap is c m))"
  unfolding UpdateCountSameNameMemMap_def by (induction "is" arbitrary: m) (simp_all add: distinct_count_item)

context smaps_column
begin

lemma sum_UpdateCount:
  "distinct (keys m) \<Longrightarrow>
   sum_list (map (\<lambda>p. f (snd p)) (UpdateCountSameNameMemMap is c m)) = sum_list (map (\<lambda>p. f (snd p)) m) + sum_list (map g is)"
  unfolding UpdateCountSameNameMemMap_def
  by (induction "is" arbitrary: m) (simp_all add: sum_count_item distinct_count_item)

text \<open>The two ways through the details end in the same way and with the same sums.\<close>

lemma details_agree:
  assumes "smaps_details True ds m0 vec = Some (m1, vec')" "distinct (keys m)"
    and "sum_list (map f vec) = sum_list (map (\<lambda>p. f (snd p)) m)"
  shows "\<exists>m'. smaps_details False ds m vec0 = Some (m', vec0) \<and> distinct (keys m') \<and> sum_list (map f vec') = sum_list (map (\<lambda>p. f (snd p)) m')"
  using assms
proof (induction ds arbitrary: vec m)
  case (Cons d ds)
  let ?c = "dt_memoryClass d"
  show ?case
  proof (cases "class_skipped ?c \<or> class_name ?c = Some ''graph''")
    case True
    with Cons.prems(1) have "smaps_details True ds m0 vec = Some (m1, vec')" by (auto split: if_splits)
    from Cons.IH [OF this Cons.prems(2,3)] True show ?thesis by auto
  next
    case False
    then obtain c where c: "class_name ?c = Some c" using Cons.prems(1) by (auto split: option.splits)
    let ?vec = "UpdateShowAddressMemInfoVec (dt_items d) c vec"
    let ?m = "UpdateCountSameNameMemMap (dt_items d) c m"
    have l: "smaps_details True ds m0 ?vec = Some (m1, vec')" using Cons.prems(1) False c by simp
    have sums: "sum_list (map f ?vec) = sum_list (map (\<lambda>p. f (snd p)) ?m)"
      using Cons.prems(2,3) sum_address [of c "dt_items d"] by (simp add: UpdateShowAddressMemInfoVec_def sum_UpdateCount)
    from Cons.IH [OF l distinct_UpdateCount [OF Cons.prems(2)] sums] False c show ?thesis by auto
  qed
qed simp

lemma summaries_agree:
  assumes "smaps_details True ds [] [] = Some (m1, vec)" "smaps_details False ds [] [] = Some (m, v)"
  shows "f (fold add_data vec MemoryData_new) = f (fold count_data (map snd m) MemoryData_new)"
  using details_agree [OF assms(1), of "[]" "[]"] assms(2)
  by (auto simp: fold_add_data fold_count_data f_zero comp_def)

end

lemmas column_defs = SetMemoryData_def add_item_def add_data_def MemoryData_new_def

interpretation size_column: smaps_column md_size "\<lambda>i. of_nat (it_size i)" by unfold_locales (simp_all add: column_defs)
interpretation rss_column: smaps_column md_rss "\<lambda>i. of_nat (it_rss i)" by unfold_locales (simp_all add: column_defs)
interpretation pss_column: smaps_column md_pss "\<lambda>i. of_nat (it_pss i)" by unfold_locales (simp_all add: column_defs)
interpretation sharedClean_column: smaps_column md_sharedClean "\<lambda>i. of_nat (it_sharedClean i)" by unfold_locales (simp_all add: column_defs)
interpretation sharedDirty_column: smaps_column md_sharedDirty "\<lambda>i. of_nat (it_sharedDirty i)" by unfold_locales (simp_all add: column_defs)
interpretation privateClean_column: smaps_column md_privateClean "\<lambda>i. of_nat (it_privateClean i)" by unfold_locales (simp_all add: column_defs)
interpretation privateDirty_column: smaps_column md_privateDirty "\<lambda>i. of_nat (it_privateDirty i)" by unfold_locales (simp_all add: column_defs)
interpretation swap_column: smaps_column md_swap "\<lambda>i. of_nat (it_swap i)" by unfold_locales (simp_all add: column_defs)
interpretation swapPss_column: smaps_column md_swapPss "\<lambda>i. of_nat (it_swapPss i)" by unfold_locales (simp_all add: column_defs)

lemmas all_summaries_agree =
  size_column.summaries_agree rss_column.summaries_agree pss_column.summaries_agree sharedClean_column.summaries_agree
  sharedDirty_column.summaries_agree privateClean_column.summaries_agree privateDirty_column.summaries_agree
  swap_column.summaries_agree swapPss_column.summaries_agree

lemma smaps_details_False:
  assumes "smaps_details True ds [] [] = Some (m1, vec)"
  obtains m where "smaps_details False ds [] [] = Some (m, [])"
  using size_column.details_agree [OF assms, of "[]" "[]"] by auto

lemma sizes_agree:
  assumes "smaps_details True ds [] [] = Some (m1, vec)" "smaps_details False ds [] [] = Some (m, v)"
  shows "sizes (address_summary vec) = sizes (count_summary m)"
  using all_summaries_agree [OF assms] by (simp add: sizes_def address_summary_def count_summary_def with_swap_def)

end
