(* ===== verification/Mem_Facts.thy ===== *)
theory Mem_Facts
  imports Mem_Overview Mem_Watch_Facts Smaps_Info
begin

text \<open>
  Lemmas on the memory library: the sums of the overview, the order of its tables, and the state of the object between requests.
\<close>

section \<open>Hardware\<close>

lemma fold_plus: "fold (\<lambda>x t. t + h x) xs (a :: u64) = a + sum_list (map h xs)"
  by (induction xs arbitrary: a) simp_all

lemma CalcHardware_sum: "CalcHardware sh env ps = sum_list (map (reg_value sh env) ps)"
  by (simp add: CalcHardware_def fold_plus)

lemma GetGroupOfPaths_take: "0 < g \<Longrightarrow> GetGroupOfPaths i g paths = take g (drop (i * g) paths)"
proof -
  assume "0 < g"
  have "filter (\<lambda>i. i < length paths) [a ..< a + n] = [a ..< min (a + n) (length paths)]" for a n
    by (induction n) (auto simp: min_def not_le intro!: arg_cong [where f = "upt a"])
  from this [of "i * g" g] have "GetGroupOfPaths i g paths = map ((!) paths) [i * g ..< min (i * g + g) (length paths)]"
    using \<open>0 < g\<close> by (simp add: GetGroupOfPaths_def add.commute [of g])
  also have "\<dots> = take g (drop (i * g) paths)" by (rule nth_equalityI) (auto simp: nth_upt less_diff_conv add.commute)
  finally show ?thesis .
qed

lemma groups_cover: "0 < g \<Longrightarrow> concat (map (\<lambda>i. GetGroupOfPaths i g paths) [0 ..< n]) = take (n * g) paths"
  by (induction n) (simp_all add: GetGroupOfPaths_take add.commute [of g] take_add)

lemma enough_groups: "0 < n \<Longrightarrow> length xs \<le> n * ((length xs - 1) div n + 1)"
proof -
  assume "0 < n"
  then have "length xs - 1 < n * ((length xs - 1) div n) + n" by (metis add_strict_left_mono mod_less_divisor mult_div_mod_eq)
  then show ?thesis by (simp add: distrib_left)
qed

lemma GetMaxThreadNum_pos: "0 < GetMaxThreadNum h n"
  by (simp add: GetMaxThreadNum_def Let_def)

lemma sum_list_concat: "sum_list (map (\<lambda>x. sum_list (map h (f x))) xs) = sum_list (map h (concat (map f xs)))"
  by (induction xs) simp_all

lemma hardware_sum:
  assumes "FindFilePaths sh = Some paths"
  shows "GetHardwareUsage sh env t = Some (sum_list (map (reg_value sh env) paths) div BYTE_TO_KB)"
proof -
  define n where "n = GetMaxThreadNum t HARDWARE_USAGE_THREAD_NUM"
  define g where "g = (length paths - 1) div n + 1"
  have "concat (map (\<lambda>i. GetGroupOfPaths i g paths) [0 ..< n]) = take (n * g) paths" by (rule groups_cover) (simp add: g_def)
  also have "\<dots> = paths" using enough_groups [of n paths] GetMaxThreadNum_pos by (simp add: g_def n_def)
  finally have "sum_list (map (\<lambda>i. CalcHardware sh env (GetGroupOfPaths i g paths)) [0 ..< n]) = sum_list (map (reg_value sh env) paths)"
    by (simp add: CalcHardware_sum sum_list_concat)
  then show ?thesis
    using assms fold_plus [where h = "\<lambda>x. x"] by (auto simp: GetHardwareUsage_def Let_def n_def g_def)
qed

section \<open>Sums over groups of pages\<close>

lemma map_of_omap_insert: "k \<notin> set (keys m) \<Longrightarrow> map_of (omap_insert k v m) k' = (if k' = k then Some v else map_of m k')"
proof -
  have "map_of (insort_key fst (k, v) m) k' = (if k' = k then Some v else map_of m k')" if "k \<notin> set (keys m)" for m
    using that by (induction m) auto
  then show "k \<notin> set (keys m) \<Longrightarrow> ?thesis" by (simp add: omap_insert_def)
qed

definition group_sum :: "string \<Rightarrow> GroupMap \<Rightarrow> u64" where
  "group_sum k m = sum_list (map (\<lambda>p. entry_or_0 (snd p) k) m)"

lemma GetGroupMapValue_single: "GetGroupMapValue m [k] = group_sum k m"
  using fold_plus [of "\<lambda>p. entry_or_0 (snd p) k" m 0] by (simp add: GetGroupMapValue_def group_sum_def)

lemma GetProcess_sum: "GetProcess m = group_sum ''Pss'' m + group_sum ''SwapPss'' m"
proof -
  have "fold (\<lambda>info t. fold (\<lambda>str t'. t' + entry_or_0 (snd info) str) CALC_PROCESS_TOTAL t) m a = a + (group_sum ''Pss'' m + group_sum ''SwapPss'' m)" for a
    by (induction m arbitrary: a) (simp_all add: CALC_PROCESS_TOTAL_def group_sum_def)
  then show ?thesis by (simp add: GetProcess_def)
qed

definition add_value :: "string \<Rightarrow> u64 \<Rightarrow> ValueMap \<Rightarrow> ValueMap" where
  "add_value type value m = (if type \<in> set (keys m) then modify type (\<lambda>v. v + value) m else omap_insert type value m)"

lemma entry_add_value: "entry_or_0 (add_value type value m) k = entry_or_0 m k + (if type = k then value else 0)"
  by (auto simp: add_value_def entry_or_0_def map_of_modify map_of_omap_insert map_of_None_iff split: option.splits dest: map_of_Some_key)

lemma CalcGroup_sum:
  assumes "distinct (keys m)"
  shows "group_sum k (CalcGroup grp type value m) = group_sum k m + (if type = k then value else 0)"
proof (cases "map_of m grp")
  case None
  then have "grp \<notin> set (keys m)" by (simp add: map_of_None_iff)
  from sum_omap_insert [OF this, where h = "\<lambda>vm. entry_or_0 vm k" and v = "[(type, value)]"] None
  have "group_sum k (CalcGroup grp type value m) = group_sum k m + entry_or_0 [(type, value)] k"
    by (simp add: CalcGroup_def group_sum_def)
  then show ?thesis by (simp add: entry_or_0_def)
next
  case (Some vm)
  then have "grp \<in> set (keys m)" by (rule map_of_Some_key)
  from sum_values_modify [OF assms this, where h = "\<lambda>vm. entry_or_0 vm k" and u = "add_value type value", OF entry_add_value] Some
  show ?thesis by (simp add: CalcGroup_def group_sum_def add_value_def [abs_def])
qed

lemma CalcGroup_distinct: "distinct (keys m) \<Longrightarrow> distinct (keys (CalcGroup grp type value m))"
  by (auto simp: CalcGroup_def split: option.splits)

text \<open>What one line of \<open>smaps\<close> contributes to the values with a key.\<close>

definition line_value :: "string \<Rightarrow> string \<Rightarrow> u64" where
  "line_value k line =
    (case GetNoPidValue line of None \<Rightarrow> 0 | Some (type, value) \<Rightarrow> if IsEnd line ''B'' \<and> type = k then value else 0)"

lemma smaps_line_sum:
  assumes "distinct (keys (ps_result s))"
  shows "group_sum k (ps_result (smaps_line NOT_SPECIFIED_PID line s)) = group_sum k (ps_result s) + line_value k line"
    and "distinct (keys (ps_result (smaps_line NOT_SPECIFIED_PID line s)))"
  using assms
  by (auto simp: smaps_line_def smaps_GetValue_def line_value_def CalcGroup_sum CalcGroup_distinct split: option.splits)

lemma smaps_lines_sum:
  assumes "distinct (keys (ps_result s))"
  shows "group_sum k (ps_result (fold (smaps_line NOT_SPECIFIED_PID) lines s)) = group_sum k (ps_result s) + sum_list (map (line_value k) lines)
    \<and> distinct (keys (ps_result (fold (smaps_line NOT_SPECIFIED_PID) lines s)))"
  using assms by (induction lines arbitrary: s) (auto simp: smaps_line_sum)

definition smaps_lines :: "mem_env \<Rightarrow> int \<Rightarrow> string list" where
  "smaps_lines env pid =
    (case LoadStringFromProcCb (me_common env) (''/proc/'' @ to_string pid @ ''/smaps'') False True of None \<Rightarrow> [] | Some lines \<Rightarrow> lines)"

lemma GetSmapsInfoNoPid_sum:
  assumes "distinct (keys m)"
  shows "group_sum k (GetSmapsInfoNoPid env pid m) = group_sum k m + sum_list (map (line_value k) (smaps_lines env pid))
    \<and> distinct (keys (GetSmapsInfoNoPid env pid m))"
  using smaps_lines_sum [of "\<lparr>ps_memGroup = [], ps_nativeMemGroup = [], ps_nativeMap = [], ps_result = m\<rparr>" k "smaps_lines env pid"] assms
  by (auto simp: GetSmapsInfoNoPid_def GetInfo_def smaps_lines_def Let_def split: option.splits)

lemma all_smaps_sum:
  assumes "distinct (keys m)"
  shows "group_sum k (fold (GetSmapsInfoNoPid env) pids m)
    = group_sum k m + sum_list (map (line_value k) (concat (map (smaps_lines env) pids)))"
  using assms
proof (induction pids arbitrary: m)
  case (Cons pid pids)
  from GetSmapsInfoNoPid_sum [OF Cons.prems, of k env pid] Cons.IH show ?case by (simp add: ac_simps)
qed simp

section \<open>RAM\<close>

lemma ram_balance:
  "of_int (ram_lost (GetRam smaps meminfo))
    = ram_total (GetRam smaps meminfo) - (ram_used (GetRam smaps meminfo) - GetTotalSwapPss smaps) - ram_free (GetRam smaps meminfo)"
  by (simp add: GetRam_def GetUsedRam_def GetFreeRam_def GetLostRam_def GetZramTotalInfo_def GetValueMapValue_def CALC_ZARM_TOTAL_def Let_def)

end
