(* ===== verification/Mem_State_Facts.thy ===== *)
theory Mem_State_Facts
  imports Mem_Facts
begin

text \<open>
  The memory object between requests: which requests it can answer, what it prints, and in which order.
\<close>

section \<open>Order of the tables\<close>

text \<open>What \<open>std::sort\<close> promises: the same elements, none of them before one that it should follow.\<close>

definition sorts :: "(('a \<Rightarrow> 'a \<Rightarrow> bool) \<Rightarrow> 'a list \<Rightarrow> 'a list) \<Rightarrow> ('a \<Rightarrow> 'a \<Rightarrow> bool) \<Rightarrow> bool" where
  "sorts sort' before \<longleftrightarrow> (\<forall>xs. mset (sort' before xs) = mset xs \<and> sorted_wrt (\<lambda>x y. \<not> before y x) (sort' before xs))"

text \<open>The comparison as an order on tuples, which makes it a strict weak order.\<close>

definition usage_key' :: "MemUsage \<Rightarrow> u64 \<times> u64 \<times> u64 \<times> u64 \<times> int" where
  "usage_key' u = (total_pss u, mu_vss u, mu_rss u, mu_uss u, mu_pid u)"

fun lex_less :: "u64 \<times> u64 \<times> u64 \<times> u64 \<times> int \<Rightarrow> u64 \<times> u64 \<times> u64 \<times> u64 \<times> int \<Rightarrow> bool" where
  "lex_less (a, b, c, d, e) (a', b', c', d', e') \<longleftrightarrow>
    a < a' \<or> a = a' \<and> (b < b' \<or> b = b' \<and> (c < c' \<or> c = c' \<and> (d < d' \<or> d = d' \<and> e < e')))"

lemma usage_before_lex: "usage_before u v \<longleftrightarrow> lex_less (usage_key' v) (usage_key' u)"
  by (auto simp: usage_before_def usage_key'_def)

lemma lex_less_trans: "lex_less x y \<Longrightarrow> lex_less y z \<Longrightarrow> lex_less x z"
  by (cases x; cases y; cases z) (auto)

lemma lex_less_total: "lex_less x y \<or> x = y \<or> lex_less y x"
  by (cases x; cases y) auto

lemma lex_less_negtrans: "\<not> lex_less x y \<Longrightarrow> \<not> lex_less y z \<Longrightarrow> \<not> lex_less x z"
  by (cases x; cases y; cases z) (auto simp: not_less)

lemma lex_less_irrefl: "\<not> lex_less x x"
  by (cases x) auto

lemma usage_sorted:
  assumes "sorts sort' usage_before"
  shows "mset (sort' usage_before us) = mset us" "sorted_wrt (\<lambda>u v. total_pss v \<le> total_pss u) (sort' usage_before us)"
proof -
  have "sorted_wrt (\<lambda>u v. \<not> usage_before v u) (sort' usage_before us)" using assms by (simp add: sorts_def)
  then show "sorted_wrt (\<lambda>u v. total_pss v \<le> total_pss u) (sort' usage_before us)"
    by (rule sorted_wrt_mono_rel [rotated]) (auto simp: usage_before_def not_less split: if_splits)
qed (use assms in \<open>simp add: sorts_def\<close>)

section \<open>What an operation keeps\<close>

text \<open>The flag and the future that decide whether \<open>fut_.get()\<close> may be called.\<close>

definition future_of :: "MemoryInfo \<Rightarrow> bool \<times> GroupMap option" where
  "future_of s = (mm_dumpSmapsOnStart s, mm_fut s)"

named_theorems keeps \<open>operations that leave the future alone\<close>

lemma future_of_out [keeps]: "future_of (SaveStringToFd t s) = future_of s"
  by (simp add: future_of_def SaveStringToFd_def)

lemma future_of_fold [keeps]: "(\<And>x s. future_of (f x s) = future_of s) \<Longrightarrow> future_of (fold f xs s) = future_of s"
  by (induction xs arbitrary: s) simp_all

lemma future_of_MemUsageToMatrix [keeps]: "future_of (MemUsageToMatrix env u s) = future_of s"
  by (simp add: MemUsageToMatrix_def keeps)

lemma future_of_AddMemByProcessTitle [keeps]: "future_of (AddMemByProcessTitle t s) = future_of s"
  by (simp add: AddMemByProcessTitle_def keeps)

lemma future_of_count_usage [keeps]: "future_of (count_usage u s) = future_of s"
  by (simp add: count_usage_def future_of_def)

lemma future_of_usage_loop [keeps]: "future_of (usage_loop env pids u s) = future_of s"
  by (induction env pids u s rule: usage_loop.induct) (auto simp: keeps split: prod.splits bool.splits)

lemma future_of_GetMemoryUsageInfo [keeps]: "future_of (GetMemoryUsageInfo env s) = future_of s"
  by (simp add: GetMemoryUsageInfo_def keeps)

lemma future_of_sorted [keeps]: "future_of (GetSortedMemoryInfoNoPid env s) = future_of s"
proof -
  have "future_of (x\<lparr>mm_memUsages := us\<rparr>) = future_of x" for x us by (simp add: future_of_def)
  then show ?thesis by (simp add: GetSortedMemoryInfoNoPid_def Let_def keeps)
qed

lemma future_of_adj_label [keeps]: "future_of (adj_label env l s) = future_of s"
proof -
  have "future_of (x\<lparr>mm_adjMemResult := us\<rparr>) = future_of x" for x us by (simp add: future_of_def)
  then show ?thesis by (simp add: adj_label_def Let_def keeps)
qed

lemma future_of_GetMemoryByAdj [keeps]: "future_of (GetMemoryByAdj env s) = future_of s"
  by (simp add: GetMemoryByAdj_def keeps)

lemma future_of_Init: "GetMemoryInfoInit env s = (ok, s') \<Longrightarrow> future_of s' = future_of s"
proof -
  have upd: "future_of (x\<lparr>mm_memUsages := [], mm_pids := [], mm_totalGL := 0, mm_totalGraph := 0\<rparr>) = future_of x"
    "future_of (x\<lparr>mm_isReady := True\<rparr>) = future_of x" "future_of (x\<lparr>mm_pids := p\<rparr>) = future_of x" for x p
    by (simp_all add: future_of_def)
  show "GetMemoryInfoInit env s = (ok, s') \<Longrightarrow> future_of s' = future_of s"
    by (auto simp: GetMemoryInfoInit_def GetPids_def Let_def upd keeps split: if_splits option.splits)
qed

section \<open>Requests\<close>

text \<open>The requests that one memory object receives, each with what the system answers.\<close>

inductive mem_step :: "MemoryInfo \<Rightarrow> MemoryInfo \<Rightarrow> bool" where
  NoPid: "GetMemoryInfoNoPid env s = Some (status, s') \<Longrightarrow> mem_step s s'"
| Prune: "GetMemoryInfoPrune env s = (status, s') \<Longrightarrow> mem_step s s'"
| ByPid: "GetMemoryInfoByPid env pid a b c (s, r) = Some (s', r') \<Longrightarrow> mem_step s s'"
| Watch: "GetMemoryInfoByTimeInterval rnd now pid samples s = Some s' \<Longrightarrow> mem_step s s'"

definition future_ok :: "MemoryInfo \<Rightarrow> bool" where
  "future_ok s \<longleftrightarrow> (mm_dumpSmapsOnStart s \<longrightarrow> mm_fut s \<noteq> None)"

lemma future_ok_future_of: "future_of s' = future_of s \<Longrightarrow> future_ok s' = future_ok s"
  by (simp add: future_ok_def future_of_def)

lemma future_of_one_detail: "one_detail d ds = Some ds' \<Longrightarrow> future_of (ds_info ds') = future_of (ds_info ds)"
  by (auto simp: one_detail_def store_detail_def GetGraphicsMemoryByDetail_def future_of_def Let_def split: if_splits option.splits prod.splits)

lemma future_of_all_details: "all_details dts ds = Some ds' \<Longrightarrow> future_of (ds_info ds') = future_of (ds_info ds)"
  by (induction dts arbitrary: ds) (auto split: option.splits dest!: future_of_one_detail)

lemma future_of_UpdateTotalDetail: "future_of (fst (UpdateTotalDetail d h (s, r))) = future_of s"
  by (simp add: UpdateTotalDetail_def future_of_def Let_def split: prod.splits)

lemma future_of_GetNativeHeap: "future_of (fst (GetNativeHeap d sr)) = future_of (fst sr)"
  by (simp add: GetNativeHeap_def future_of_def Let_def split: prod.splits option.splits)

lemma future_of_GetMemoryInfoByPid:
  assumes "GetMemoryInfoByPid env pid a b c (s, r) = Some (s', r')"
  shows "future_of s' = future_of s"
proof -
  obtain d s1 r1 r2 where c: "CollectProcessMemoryDetail env pid s = Some (d, s1)" and g: "GetResult env pid d (s1, r1) = Some (s', r2)"
    using assms by (auto simp: GetMemoryInfoByPid_def Let_def bind_eq_Some_conv)
  have "future_of s1 = future_of s" using c by (auto simp: CollectProcessMemoryDetail_def future_of_def split: option.splits)
  moreover have "future_of s' = future_of s1"
  proof (cases d)
    case (Some x)
    then obtain n sr where u: "UpdateResult env pid x (s1, r1) = Some (n, sr)" and n: "GetNativeHeap n sr = (s', r2)"
      using g by (auto simp: GetResult_def)
    have "future_of (fst sr) = future_of s1"
      using u by (auto simp: UpdateResult_def Let_def future_of_UpdateTotalDetail split: option.splits dest!: future_of_all_details)
    then show ?thesis using future_of_GetNativeHeap [of n sr] n by simp
  qed (use g in \<open>simp add: GetResult_def\<close>)
  ultimately show ?thesis by simp
qed

lemma future_of_sample_loop: "sample_loop rnd pid samples vs n s = Some (vs', n', s') \<Longrightarrow> future_of s' = future_of s"
proof (induction rnd pid samples vs n s rule: sample_loop.induct)
  case (2 rnd pid env w samples vs n s)
  then obtain s1 r where g: "GetMemoryInfoByPid env pid False False False (s, []) = Some (s1, r)" by (auto split: option.splits)
  have "future_of (RedirectMemoryInfo w k r (snd (PrintMemoryInfo rnd now ps n s1))) = future_of s1" for k ps now
    by (simp add: PrintMemoryInfo_text RedirectMemoryInfo_def future_of_def)
  with 2 g future_of_GetMemoryInfoByPid [OF g] show ?case by (auto simp: Let_def split: prod.splits) (metis snd_conv)
qed simp

section \<open>The overview\<close>

text \<open>\<open>DealResult\<close> fails only without \<open>meminfo\<close>, and throws only without a future.\<close>

lemma DealResult_outcome:
  assumes "future_ok s" "mm_dumpSmapsOnStart s"
  shows "\<exists>status s'. DealResult env s = Some (status, s') \<and> future_ok s'
    \<and> (status = (if fst (pm_GetMeminfo (me_common env) []) then DUMP_OK else DUMP_FAIL))
    \<and> (status = DUMP_OK \<longrightarrow> \<not> mm_isReady s' \<and> \<not> mm_dumpSmapsOnStart s' \<and> mm_memUsages s' = [])"
proof (cases "pm_GetMeminfo (me_common env) []")
  case (Pair ok meminfo)
  define s1 where "s1 = SaveStringToFd nl (GetMemoryByAdj env (SaveStringToFd nl (GetSortedMemoryInfoNoPid env s)))"
  have "future_of s1 = future_of s" by (simp add: s1_def keeps)
  then obtain smaps where "mm_fut s1 = Some smaps" using assms by (auto simp: future_ok_def future_of_def)
  with Pair assms show ?thesis by (cases ok) (auto simp: DealResult_def Let_def s1_def future_ok_def)
qed

lemma GetMemoryInfoNoPid_outcome:
  assumes "future_ok s"
  shows "\<exists>status s'. GetMemoryInfoNoPid env s = Some (status, s') \<and> future_ok s'
    \<and> (status = (if (mm_isReady s \<or> GetUserPids (me_common env) \<noteq> None) \<and> fst (pm_GetMeminfo (me_common env) []) then DUMP_OK else DUMP_FAIL))
    \<and> (status = DUMP_OK \<longrightarrow> \<not> mm_isReady s' \<and> \<not> mm_dumpSmapsOnStart s' \<and> mm_memUsages s' = [])"
proof -
  define s0 where "s0 = SaveStringToFd (MEMORY_LINE @ nl) s"
  have p0: "future_of s0 = future_of s" "mm_isReady s0 = mm_isReady s" by (simp_all add: s0_def keeps) (simp add: SaveStringToFd_def)
  obtain ok s1 where i: "GetMemoryInfoInit env s0 = (ok, s1)" by fastforce
  have ok: "ok \<longleftrightarrow> mm_isReady s \<or> GetUserPids (me_common env) \<noteq> None"
    using i p0(2) by (auto simp: GetMemoryInfoInit_def GetPids_def Let_def split: if_splits option.splits)
  have p1: "future_of s1 = future_of s" using future_of_Init [OF i] p0 by simp
  show ?thesis
  proof (cases ok)
    case False
    with i have "GetMemoryInfoNoPid env s = Some (DUMP_FAIL, s1)" by (simp add: GetMemoryInfoNoPid_def s0_def)
    then show ?thesis using False ok future_ok_future_of [OF p1] assms by simp
  next
    case True
    define s2 where "s2 = (if mm_dumpSmapsOnStart s1 then s1
        else s1\<lparr>mm_dumpSmapsOnStart := True, mm_fut := Some (fold (GetSmapsInfoNoPid env) (mm_pids s1) [])\<rparr>)"
    have "future_ok s2 \<and> mm_dumpSmapsOnStart s2" using assms p1 by (auto simp: s2_def future_ok_def future_of_def)
    then have "future_ok (GetMemoryUsageInfo env s2) \<and> mm_dumpSmapsOnStart (GetMemoryUsageInfo env s2)"
      using future_of_GetMemoryUsageInfo [of env s2] by (auto simp: future_ok_def future_of_def)
    then obtain status s' where d: "DealResult env (GetMemoryUsageInfo env s2) = Some (status, s')" "future_ok s'"
        "status = (if fst (pm_GetMeminfo (me_common env) []) then DUMP_OK else DUMP_FAIL)"
        "status = DUMP_OK \<longrightarrow> \<not> mm_isReady s' \<and> \<not> mm_dumpSmapsOnStart s' \<and> mm_memUsages s' = []"
      using DealResult_outcome [of "GetMemoryUsageInfo env s2" env] by blast
    have "GetMemoryInfoNoPid env s = Some (status, s')"
      using i True d(1) by (simp add: GetMemoryInfoNoPid_def s0_def s2_def Let_def)
    then show ?thesis using d(2-4) True ok by simp
  qed
qed

lemma future_ok_step:
  assumes "mem_step s s'" "future_ok s"
  shows "future_ok s'"
  using assms
proof (cases rule: mem_step.cases)
  case (NoPid env status) with GetMemoryInfoNoPid_outcome [OF assms(2), of env] show ?thesis by auto
next
  case (Prune env status)
  then obtain ok s1 where i: "GetMemoryInfoInit env (SaveStringToFd (MEMORY_LINE @ nl) (s\<lparr>mm_dumpPrune := True\<rparr>)) = (ok, s1)" by fastforce
  have "future_of (s\<lparr>mm_dumpPrune := True\<rparr>) = future_of s" by (simp add: future_of_def)
  then have p: "future_of s1 = future_of s" using future_of_Init [OF i] by (simp add: future_of_out)
  have "s' = (if ok then GetMemoryUsageInfo env s1 else s1)" using Prune i by (cases ok) (simp_all add: GetMemoryInfoPrune_def)
  then have "future_of s' = future_of s" using p by (simp add: future_of_GetMemoryUsageInfo)
  from future_ok_future_of [OF this] assms(2) show ?thesis by simp
next
  case (ByPid env pid a b c r r') from future_ok_future_of [OF future_of_GetMemoryInfoByPid [OF this]] assms(2) show ?thesis by simp
next
  case (Watch rnd now pid samples)
  then have "future_of s' = future_of s"
    by (auto simp: GetMemoryInfoByTimeInterval_def dest!: future_of_sample_loop) (simp add: future_of_def)
  from future_ok_future_of [OF this] assms(2) show ?thesis by simp
qed

lemma future_ok_reachable: "mem_step\<^sup>*\<^sup>* MemoryInfo_new s \<Longrightarrow> future_ok s"
proof (induction rule: rtranclp_induct)
  case base show ?case by (simp add: future_ok_def MemoryInfo_new_def)
next
  case (step s s') then show ?case by (blast intro: future_ok_step)
qed

section \<open>Priority groups\<close>

text \<open>Every process that is listed is in one priority group.\<close>

definition in_groups :: "MemoryInfo \<Rightarrow> MemUsage multiset" where
  "in_groups s = mset (concat (map snd (mm_adjMemResult s)))"

lemma in_groups_count:
  assumes "distinct (keys (mm_adjMemResult s))"
  shows "in_groups (count_usage u s) = add_mset u (in_groups s)" "distinct (keys (mm_adjMemResult (count_usage u s)))"
proof -
  let ?l = "mu_adjLabel u" let ?m = "mm_adjMemResult s"
  have sum: "mset (concat (map snd m)) = sum_list (map (\<lambda>p. mset (snd p)) m)" for m :: "(string \<times> MemUsage list) list"
    by (induction m) simp_all
  have ins: "sum_list (map (\<lambda>p. mset (snd p)) (omap_insert ?l [] ?m)) = sum_list (map (\<lambda>p. mset (snd p)) ?m)"
    using sum_omap_insert [where h = mset and k = ?l and v = "[]" and m = ?m] by (cases "?l \<in> set (keys ?m)") (simp_all add: omap_insert_def)
  have "sum_list (map (\<lambda>p. mset (snd p)) (modify ?l (\<lambda>us. us @ [u]) (omap_insert ?l [] ?m)))
      = sum_list (map (\<lambda>p. mset (snd p)) (omap_insert ?l [] ?m)) + {#u#}"
    using assms by (intro sum_values_modify) auto
  then show "in_groups (count_usage u s) = add_mset u (in_groups s)" by (simp add: in_groups_def count_usage_def sum ins)
  show "distinct (keys (mm_adjMemResult (count_usage u s)))" using assms by (auto simp: count_usage_def)
qed

text \<open>The totals and the lists that the loop keeps in step.\<close>

definition usage_inv :: "MemoryInfo \<Rightarrow> bool" where
  "usage_inv s \<longleftrightarrow> distinct (keys (mm_adjMemResult s)) \<and> in_groups s = mset (mm_memUsages s)
    \<and> mm_totalGL s = sum_list (map mu_gl (mm_memUsages s)) \<and> mm_totalGraph s = sum_list (map mu_graph (mm_memUsages s))
    \<and> mm_totalDma s = sum_list (map mu_dma (mm_memUsages s))"

lemma usage_inv_print [simp]: "usage_inv (MemUsageToMatrix env u s) = usage_inv s"
  by (simp add: usage_inv_def in_groups_def MemUsageToMatrix_def SaveStringToFd_def)

lemma usage_inv_count: "usage_inv s \<Longrightarrow> usage_inv (count_usage u s)"
  using in_groups_count [of s u] by (auto simp: usage_inv_def) (simp_all add: count_usage_def ac_simps)

lemma usage_inv_loop: "usage_inv s \<Longrightarrow> usage_inv (usage_loop env pids u s)"
  by (induction env pids u s rule: usage_loop.induct) (auto simp: usage_inv_count split: prod.splits bool.splits)

text \<open>The processes listed are those whose \<open>smaps_rollup\<close> can be read, in the order of the process folder.\<close>

definition has_rollup :: "mem_env \<Rightarrow> int \<Rightarrow> bool" where
  "has_rollup env pid \<longleftrightarrow> LoadStringFromProcCb (me_common env) (''/proc/'' @ to_string pid @ ''/smaps_rollup'') False True \<noteq> None"

lemma GetMemByProcessPid_listed:
  "GetMemByProcessPid env prune pid u = (ok, u') \<Longrightarrow> ok = has_rollup env pid \<and> (ok \<longrightarrow> mu_pid u' = pid)"
  by (auto simp: GetMemByProcessPid_def GetMemInfo_def has_rollup_def rollup_usage_def add_gl_def add_graph_def Let_def
      split: option.splits prod.splits if_splits)

lemma usage_loop_pids:
  "map mu_pid (mm_memUsages (usage_loop env pids u s)) = map mu_pid (mm_memUsages s) @ filter (has_rollup env) pids"
proof (induction env pids u s rule: usage_loop.induct)
  case (2 env pid pids u s)
  obtain ok u' where g: "GetMemByProcessPid env (mm_dumpPrune s) pid u = (ok, u')" by fastforce
  have "mm_memUsages (MemUsageToMatrix env u' (count_usage u' s)) = mm_memUsages s @ [u']"
    by (simp add: MemUsageToMatrix_def SaveStringToFd_def count_usage_def)
  with 2 g GetMemByProcessPid_listed [OF g] show ?case by (cases ok) auto
qed simp

lemma mm_out_rows: "mm_dumpPrune s = prune \<Longrightarrow>
  mm_out (fold (MemUsageToMatrix env) us s) = mm_out s @ concat (map (\<lambda>u. columns (usage_columns env prune u) @ nl) us)"
proof (induction us arbitrary: s)
  case (Cons u us)
  have "mm_dumpPrune (MemUsageToMatrix env u s) = prune" using Cons.prems by (simp add: MemUsageToMatrix_def SaveStringToFd_def)
  from Cons.IH [OF this] Cons.prems show ?case by (simp add: MemUsageToMatrix_def SaveStringToFd_def)
qed simp

section \<open>A concrete system\<close>

text \<open>A stable insertion sort keeps the promise of \<open>std::sort\<close>.\<close>

fun insert_by :: "('a \<Rightarrow> 'a \<Rightarrow> bool) \<Rightarrow> 'a \<Rightarrow> 'a list \<Rightarrow> 'a list" where
  "insert_by before x [] = [x]"
| "insert_by before x (y # ys) = (if before y x then y # insert_by before x ys else x # y # ys)"

definition insertion_sort :: "('a \<Rightarrow> 'a \<Rightarrow> bool) \<Rightarrow> 'a list \<Rightarrow> 'a list" where
  "insertion_sort before xs = foldr (insert_by before) xs []"

lemma mset_insert_by [simp]: "mset (insert_by before x ys) = add_mset x (mset ys)"
  by (induction ys) auto

lemma set_insert_by [simp]: "set (insert_by before x ys) = insert x (set ys)"
  by (metis mset_insert_by set_mset_add_mset_insert set_mset_mset)

lemma sorted_insert_by:
  "sorted_wrt (\<lambda>u v. \<not> usage_before v u) us \<Longrightarrow> sorted_wrt (\<lambda>u v. \<not> usage_before v u) (insert_by usage_before u us)"
proof (induction us)
  case (Cons v us)
  show ?case
  proof (cases "usage_before v u")
    case True
    then have "\<not> usage_before u v" unfolding usage_before_lex by (blast dest: lex_less_trans intro: lex_less_irrefl [THEN notE])
    with True Cons show ?thesis by auto
  next
    case False
    have "\<not> usage_before w u" if "w \<in> set us" for w
    proof -
      have "\<not> usage_before w v" using Cons.prems that by simp
      with False show ?thesis unfolding usage_before_lex by (rule lex_less_negtrans)
    qed
    with False Cons.prems show ?thesis by simp
  qed
qed simp

lemma insertion_sort_sorts: "sorts insertion_sort usage_before"
proof -
  have "mset (insertion_sort usage_before us) = mset us \<and> sorted_wrt (\<lambda>u v. \<not> usage_before v u) (insertion_sort usage_before us)" for us
    by (induction us) (simp_all add: insertion_sort_def sorted_insert_by)
  then show ?thesis by (simp add: sorts_def)
qed

text \<open>A system with a \<open>meminfo\<close> of one line and a process 7 whose rollup has one line.\<close>

definition demo_open :: "string \<Rightarrow> stream option" where
  "demo_open path =
    (if path = ''/proc/meminfo'' then Some (stream_of (''MemTotal: 5 kB'' @ [CHR 0x0A]))
     else if path = ''/proc/7/smaps_rollup'' then Some (stream_of (''Pss: 3 kB'' @ [CHR 0x0A])) else None)"

definition demo_common :: common_env where
  "demo_common =
    \<lparr>ce_open = demo_open, ce_dir = (\<lambda>_. Some []), ce_is_dir = (\<lambda>_. False), ce_numeric = (\<lambda>_. False), ce_int = (\<lambda>_. None),
     ce_split = (\<lambda>s _ _ _. [s]), ce_trim = (\<lambda>s _. s)\<rparr>"

definition mem_demo :: mem_env where
  "mem_demo =
    \<lparr>me_common = demo_common, me_sh = (\<lambda>_. None), me_threads = 4, me_detail = (\<lambda>_. None), me_smaps = (\<lambda>_. None),
     me_graphic = (\<lambda>_ _. None), me_malloc = (\<lambda>_. None), me_name = (\<lambda>_. None), me_dma = (\<lambda>_. []), me_gpumem = (\<lambda>_. []),
     me_hiai = None, me_path_valid = (\<lambda>_. False), me_content = (\<lambda>_. None), me_priority_name = (\<lambda>_. ''System''),
     me_priorities = [''System''], me_unknown_priority = ''Undefined'',
     me_time = \<lparr>tm_year = 125, tm_mon = 0, tm_mday = 1, tm_hour = 0, tm_min = 0, tm_sec = 0\<rparr>, me_user_mode = False,
     me_sort_pairs = insertion_sort, me_sort_usages = insertion_sort\<rparr>"

end
