(* ===== verification/Memory_Properties.thy ===== *)
theory Memory_Properties
  imports Mem_State_Facts
begin

text \<open>The properties of the memory library.\<close>

section \<open>Watching a process\<close>

text \<open>
  C12: A user who watches the memory of a process sees, after every sample, the banner and under it the header and
  the lines of the samples, and nothing else: the rows that are cleared before a drawing are exactly the rows of the
  previous drawing, however many samples there are and whichever of them are shown. What stood above stays. A sample's value is
  the total that the collector reports, as a 32-bit number.
\<close>

theorem watch_redraw:
  assumes "GetMemoryInfoByTimeInterval rnd now pid samples s = Some s'" "samples \<noteq> []" "mm_out s = []" "fresh_row rows t"
  shows "\<exists>vs. length vs = length samples
    \<and> (\<forall>i < length samples. \<forall>d. me_detail (fst (samples ! i)) pid = Some d \<longrightarrow> vs ! i = int32 (int (pd_totalAllPss d)))
    \<and> fresh_row (rev ([MEMORY_LINE, []] @ screen_lines rnd (me_time (fst (last samples))) vs (GetDateAndTime now)) @ rows) (tt_run (mm_out s') t)"
proof -
  define s0 where "s0 = s\<lparr>mm_out := text_of [MEMORY_LINE, []], mm_startTime := GetDateAndTime now\<rparr>"
  obtain vs n where l: "sample_loop rnd pid samples [] 0 s0 = Some (vs, n, s')"
    using assms(1,3) by (auto simp: GetMemoryInfoByTimeInterval_def s0_def)
  have "displays t [] rows" using assms(4) by (auto simp: displays_def)
  then have "displays t ([] @ text_of [MEMORY_LINE, []]) (rev [MEMORY_LINE, []] @ rows)"
    by (rule displays_text) (auto simp: MEMORY_LINE_def)
  then have "displays t (mm_out s0) (rev [] @ rev [MEMORY_LINE, []] @ rows)" by (simp add: s0_def)
  from sample_loop_displays [OF l assms(2) _ this] have
    "length vs = length samples
     \<and> displays t (mm_out s') (rev (screen_lines rnd (me_time (fst (last samples))) vs (GetDateAndTime now)) @ rev [MEMORY_LINE, []] @ rows)"
    by (simp add: s0_def)
  then have "length vs = length samples" and "fresh_row (rev ([MEMORY_LINE, []] @ screen_lines rnd (me_time (fst (last samples))) vs (GetDateAndTime now)) @ rows)
      (tt_run (mm_out s') t)"
    by (auto simp: displays_def) (metis append_Nil2 tt_run.simps(1))
  then show ?thesis using sample_loop_values [OF l] by (auto intro!: exI [of _ vs])
qed

theorem watch_redraw_witness:
  "\<exists>s' vs. GetMemoryInfoByTimeInterval (\<lambda>x. x) (me_time mem_demo) 7 [(mem_demo, True), (mem_demo, False)] MemoryInfo_new = Some s'
    \<and> length vs = 2
    \<and> fresh_row (rev ([MEMORY_LINE, []] @ screen_lines (\<lambda>x. x) (me_time mem_demo) vs (GetDateAndTime (me_time mem_demo))) @ [''$''])
        (tt_run (mm_out s') \<lparr>tt_above = [''$''], tt_row = [], tt_col = 0, tt_below = []\<rparr>)"
proof -
  have "GetMemoryInfoByPid mem_demo 7 False False False (s, r) \<noteq> None" for s r
    by (simp add: GetMemoryInfoByPid_def CollectProcessMemoryDetail_def GetResult_def mem_demo_def)
  then have "sample_loop (\<lambda>x. x) 7 [(mem_demo, True), (mem_demo, False)] vs n s \<noteq> None" for vs n s
    by (intro sample_loop_total) auto
  then obtain s' where s': "GetMemoryInfoByTimeInterval (\<lambda>x. x) (me_time mem_demo) 7 [(mem_demo, True), (mem_demo, False)] MemoryInfo_new = Some s'"
    unfolding GetMemoryInfoByTimeInterval_def by (metis option.exhaust option.map_disc_iff)
  have out: "mm_out MemoryInfo_new = []" by (simp add: MemoryInfo_new_def)
  have fresh: "fresh_row [''$''] \<lparr>tt_above = [''$''], tt_row = [], tt_col = 0, tt_below = []\<rparr>" by (simp add: fresh_row_def)
  from watch_redraw [OF s' _ out fresh] s' show ?thesis by (auto simp: numeral_2_eq_2)
qed



section \<open>The overview\<close>



text \<open>
  C14: The tables of the overview are complete. Every process whose rollup can be read is listed once, in the order of the process
  folder, and is in exactly one priority group; the totals are the sums over the list. The table by size has the same rows, and
  a row never follows one with a smaller total. The comparison is given to a sort that need not be stable.
\<close>

theorem process_tables:
  assumes "sorts (me_sort_usages env) usage_before"
    and "s = GetMemoryUsageInfo env (MemoryInfo_new\<lparr>mm_pids := pids\<rparr>)"
  shows "map mu_pid (mm_memUsages s) = filter (has_rollup env) pids
    \<and> in_groups s = mset (mm_memUsages s) \<and> mm_totalGL s = sum_list (map mu_gl (mm_memUsages s))
    \<and> (\<exists>rows. mset rows = mset (mm_memUsages s) \<and> sorted_wrt (\<lambda>u v. total_pss v \<le> total_pss u) rows
        \<and> mm_out (GetSortedMemoryInfoNoPid env s) = mm_out (AddMemByProcessTitle ''Size'' (SaveStringToFd nl s))
            @ concat (map (\<lambda>u. columns (usage_columns env (mm_dumpPrune s) u) @ nl) rows))"
proof -
  have "usage_inv (MemoryInfo_new\<lparr>mm_pids := pids\<rparr>)" by (simp add: usage_inv_def in_groups_def MemoryInfo_new_def)
  then have inv: "usage_inv s" unfolding assms(2) GetMemoryUsageInfo_def by (rule usage_inv_loop)
  have pids: "map mu_pid (mm_memUsages s) = filter (has_rollup env) pids"
    by (simp add: assms(2) GetMemoryUsageInfo_def usage_loop_pids MemoryInfo_new_def)
  let ?s1 = "AddMemByProcessTitle ''Size'' (SaveStringToFd nl s)"
  have keep: "mm_memUsages ?s1 = mm_memUsages s" "mm_dumpPrune ?s1 = mm_dumpPrune s" by (simp_all add: AddMemByProcessTitle_def SaveStringToFd_def)
  let ?rows = "me_sort_usages env usage_before (mm_memUsages s)"
  have "mm_out (GetSortedMemoryInfoNoPid env s) = mm_out ?s1 @ concat (map (\<lambda>u. columns (usage_columns env (mm_dumpPrune s) u) @ nl) ?rows)"
    using mm_out_rows [of "?s1\<lparr>mm_memUsages := ?rows\<rparr>" "mm_dumpPrune s" env ?rows] by (simp add: GetSortedMemoryInfoNoPid_def Let_def keep)
  then show ?thesis using pids inv usage_sorted [OF assms(1), of "mm_memUsages s"] by (auto simp: usage_inv_def intro!: exI [of _ ?rows])
qed

theorem process_tables_witness:
  "map mu_pid (mm_memUsages (GetMemoryUsageInfo mem_demo (MemoryInfo_new\<lparr>mm_pids := [7, 8]\<rparr>))) = [7]
    \<and> in_groups (GetMemoryUsageInfo mem_demo (MemoryInfo_new\<lparr>mm_pids := [7, 8]\<rparr>))
        = mset (mm_memUsages (GetMemoryUsageInfo mem_demo (MemoryInfo_new\<lparr>mm_pids := [7, 8]\<rparr>)))"
proof -
  have "sorts (me_sort_usages mem_demo) usage_before" using insertion_sort_sorts by (simp add: mem_demo_def)
  moreover have "to_string 7 = ''7''" "to_string 8 = ''8''" by code_simp+
  then have "filter (has_rollup mem_demo) [7, 8] = [7]"
    by (simp add: has_rollup_def LoadStringFromProcCb_def mem_demo_def demo_common_def demo_open_def)
  ultimately show ?thesis using process_tables [of mem_demo _ "[7, 8]"] by simp
qed

section \<open>Sums\<close>

text \<open>
  C16: Grouping loses nothing. However the maps of the processes are sorted into groups of pages, the total that the overview
  reports is the sum, modulo 2 to the 64, of the values of all lines of all \<open>smaps\<close> files that can be read: of the \<open>Pss\<close> lines for
  the used memory, of the \<open>Pss\<close> and the \<open>SwapPss\<close> lines for the processes.
\<close>

theorem pss_conserved:
  "GetTotalPss (fold (GetSmapsInfoNoPid env) pids []) = sum_list (map (line_value ''Pss'') (concat (map (smaps_lines env) pids)))
    \<and> GetProcess (fold (GetSmapsInfoNoPid env) pids [])
      = sum_list (map (line_value ''Pss'') (concat (map (smaps_lines env) pids)))
        + sum_list (map (line_value ''SwapPss'') (concat (map (smaps_lines env) pids)))"
proof -
  have "group_sum k (fold (GetSmapsInfoNoPid env) pids []) = sum_list (map (line_value k) (concat (map (smaps_lines env) pids)))" for k
    using all_smaps_sum [of "[]" k env pids] by (simp add: group_sum_def)
  then show ?thesis by (simp add: GetTotalPss_def CALC_TOTAL_PSS_def GetGroupMapValue_single GetProcess_sum)
qed

text \<open>
  C24: The two tables of the maps of a process, one row per address range and one row per name, have the same summary:
  all nine sizes agree, for every answer of the collector that the first table can show.
\<close>

theorem smaps_modes_agree:
  assumes "GetSmapsData collected True [] [] = Some (True, m0, vec)"
  shows "\<exists>m. GetSmapsData collected False [] [] = Some (True, m, []) \<and> sizes (address_summary vec) = sizes (count_summary m)"
proof -
  obtain d where d: "collected = Some d" "smaps_details True (pd_details d) [] [] = Some (m0, vec)"
    using assms by (cases collected) (auto simp: GetSmapsData_def)
  obtain m where m: "smaps_details False (pd_details d) [] [] = Some (m, [])" by (rule smaps_details_False [OF d(2)])
  from sizes_agree [OF d(2) m] m d(1) show ?thesis by (simp add: GetSmapsData_def)
qed

definition demo_item :: "nat \<Rightarrow> MemoryItem" where
  "demo_item n =
    \<lparr>it_type = MEMORY_ITEM_TYPE_HEAP, it_name = ''[heap]'', it_startAddr = ''1000'', it_endAddr = ''2000'', it_permission = ''rw-p'',
     it_iNode = 0, it_size = n, it_rss = n, it_pss = n, it_swapPss = 1, it_swap = 0, it_sharedDirty = 0, it_privateDirty = 0,
     it_sharedClean = 0, it_privateClean = 0\<rparr>"

definition demo_detail :: ProcessMemoryDetail where
  "demo_detail =
    \<lparr>pd_details = [MemoryDetail_new\<lparr>dt_memoryClass := 8, dt_items := [demo_item 4, demo_item 6]\<rparr>], pd_totalAllPss = 12, pd_totalSwapPss = 2,
     pd_totalSwap = 0, pd_totalSharedDirty = 0, pd_totalPrivateDirty = 0, pd_totalSharedClean = 0, pd_totalPrivateClean = 0\<rparr>"

theorem smaps_modes_agree_witness:
  "\<exists>vec m. GetSmapsData (Some demo_detail) True [] [] = Some (True, [], vec) \<and> length vec = 2
    \<and> GetSmapsData (Some demo_detail) False [] [] = Some (True, m, []) \<and> sizes (address_summary vec) = sizes (count_summary m)"
proof -
  let ?vec = "map (address_data ''native heap'') [demo_item 4, demo_item 6]"
  have "GetSmapsData (Some demo_detail) True [] [] = Some (True, [], ?vec)"
    by (simp add: GetSmapsData_def demo_detail_def MemoryDetail_new_def class_skipped_def class_name_def MEMORY_CLASS_VEC_def UpdateShowAddressMemInfoVec_def)
  with smaps_modes_agree [OF this] show ?thesis by auto
qed

text \<open>
  C26: The memory that the hardware reserves does not depend on the number of threads that add it up: every path that
  was found is in exactly one group, and the result is the sum over all paths, in kilobytes.
\<close>

theorem hardware_parallel:
  "GetHardwareUsage sh env hardwareThreads
    = map_option (\<lambda>paths. sum_list (map (reg_value sh env) paths) div BYTE_TO_KB) (FindFilePaths sh)"
  using hardware_sum [of sh] by (cases "FindFilePaths sh") (simp_all add: GetHardwareUsage_def)

end
