(* ===== verification/Mem_Wrapper.thy ===== *)
theory Mem_Wrapper
  imports Mem_Overview Mem_Watch Smaps_Info
begin

text \<open>
  The functions that the memory library exports, \<^verbatim>\<open>executor/memory/memory_info_wrapper.cpp\<close>. Each one makes a new object, so
  that nothing of a request is left for the next one. Also the adders of \<^verbatim>\<open>memory_info.cpp\<close> that its constructor
  registers, and the reset of \<^verbatim>\<open>memory_util.cpp\<close> for rows of maps; no other code calls them.
\<close>

section \<open>Exported functions\<close>

definition wrap_GetMemoryInfoByPid :: "mem_env \<Rightarrow> int \<Rightarrow> bool \<Rightarrow> bool \<Rightarrow> bool \<Rightarrow> matrix \<Rightarrow> (DumpStatus \<times> matrix) option" where
  "wrap_GetMemoryInfoByPid env pid showAshmem showDmaBuf showGpumem data =
    map_option (\<lambda>(_, r). (DUMP_OK, r)) (GetMemoryInfoByPid env pid showAshmem showDmaBuf showGpumem (MemoryInfo_new, data))"

definition wrap_GetMemoryInfoNoPid :: "mem_env \<Rightarrow> (DumpStatus \<times> string) option" where
  "wrap_GetMemoryInfoNoPid env = map_option (\<lambda>(status, s). (status, mm_out s)) (GetMemoryInfoNoPid env MemoryInfo_new)"

definition wrap_GetMemoryInfoPrune :: "mem_env \<Rightarrow> DumpStatus \<times> string" where
  "wrap_GetMemoryInfoPrune env = (case GetMemoryInfoPrune env MemoryInfo_new of (status, s) \<Rightarrow> (status, mm_out s))"

definition wrap_ShowMemorySmapsByPid :: "mem_env \<Rightarrow> int \<Rightarrow> bool \<Rightarrow> matrix \<Rightarrow> (DumpStatus \<times> matrix) option" where
  "wrap_ShowMemorySmapsByPid env pid isShowSmapsInfo data =
    map_option (\<lambda>(ok, _, r). (if ok then DUMP_OK else DUMP_FAIL, r)) (ShowMemorySmapsByPid env pid isShowSmapsInfo SmapsMemoryInfo_new data)"

definition wrap_GetMemoryInfoByTimeInterval :: "(rat \<Rightarrow> rat) \<Rightarrow> tm \<Rightarrow> int \<Rightarrow> (mem_env \<times> bool) list \<Rightarrow> (string \<times> string) option" where
  "wrap_GetMemoryInfoByTimeInterval rnd now pid samples =
    map_option (\<lambda>s. (mm_out s, mm_record s)) (GetMemoryInfoByTimeInterval rnd now pid samples MemoryInfo_new)"

section \<open>Adders\<close>

definition SetPss :: "MemInfo \<Rightarrow> u64 \<Rightarrow> MemInfo" where "SetPss meminfo value = meminfo\<lparr>mi_pss := mi_pss meminfo + value\<rparr>"
definition SetSharedClean :: "MemInfo \<Rightarrow> u64 \<Rightarrow> MemInfo" where "SetSharedClean meminfo value = meminfo\<lparr>mi_sharedClean := mi_sharedClean meminfo + value\<rparr>"
definition SetSharedDirty :: "MemInfo \<Rightarrow> u64 \<Rightarrow> MemInfo" where "SetSharedDirty meminfo value = meminfo\<lparr>mi_sharedDirty := mi_sharedDirty meminfo + value\<rparr>"
definition SetPrivateClean :: "MemInfo \<Rightarrow> u64 \<Rightarrow> MemInfo" where "SetPrivateClean meminfo value = meminfo\<lparr>mi_privateClean := mi_privateClean meminfo + value\<rparr>"
definition SetPrivateDirty :: "MemInfo \<Rightarrow> u64 \<Rightarrow> MemInfo" where "SetPrivateDirty meminfo value = meminfo\<lparr>mi_privateDirty := mi_privateDirty meminfo + value\<rparr>"
definition SetSwap :: "MemInfo \<Rightarrow> u64 \<Rightarrow> MemInfo" where "SetSwap meminfo value = meminfo\<lparr>mi_swap := mi_swap meminfo + value\<rparr>"
definition SetSwapPss :: "MemInfo \<Rightarrow> u64 \<Rightarrow> MemInfo" where "SetSwapPss meminfo value = meminfo\<lparr>mi_swapPss := mi_swapPss meminfo + value\<rparr>"
definition SetHeapSize :: "MemInfo \<Rightarrow> u64 \<Rightarrow> MemInfo" where "SetHeapSize meminfo value = meminfo\<lparr>mi_heapSize := mi_heapSize meminfo + value\<rparr>"
definition SetHeapAlloc :: "MemInfo \<Rightarrow> u64 \<Rightarrow> MemInfo" where "SetHeapAlloc meminfo value = meminfo\<lparr>mi_heapAlloc := mi_heapAlloc meminfo + value\<rparr>"
definition SetHeapFree :: "MemInfo \<Rightarrow> u64 \<Rightarrow> MemInfo" where "SetHeapFree meminfo value = meminfo\<lparr>mi_heapFree := mi_heapFree meminfo + value\<rparr>"

definition methodVec :: "(string \<times> (MemInfo \<Rightarrow> u64 \<Rightarrow> MemInfo)) list" where
  "methodVec = [(''Pss'', SetPss), (''Shared_Clean'', SetSharedClean), (''Shared_Dirty'', SetSharedDirty), (''Private_Clean'', SetPrivateClean),
     (''Private_Dirty'', SetPrivateDirty), (''Swap'', SetSwap), (''SwapPss'', SetSwapPss), (''Heap_Size'', SetHeapSize),
     (''Heap_Alloc'', SetHeapAlloc), (''Heap_Free'', SetHeapFree)]"

record MemSmapsInfo =
  ms_rss :: u64
  ms_pss :: u64
  ms_sharedClean :: u64
  ms_sharedDirty :: u64
  ms_privateClean :: u64
  ms_privateDirty :: u64
  ms_swap :: u64
  ms_swapPss :: u64
  ms_name :: string
  ms_start :: string
  ms_end :: string
  ms_perm :: string
  ms_size :: u64
  ms_counts :: u64

definition InitMemSmapsInfo :: "MemSmapsInfo \<Rightarrow> MemSmapsInfo" where
  "InitMemSmapsInfo memInfo =
    memInfo\<lparr>ms_rss := 0, ms_pss := 0, ms_sharedClean := 0, ms_sharedDirty := 0, ms_privateClean := 0, ms_privateDirty := 0, ms_swap := 0,
      ms_swapPss := 0, ms_name := [], ms_size := 0, ms_counts := 0, ms_start := [], ms_end := [], ms_perm := []\<rparr>"

section \<open>Rows of the native heap over time\<close>

text \<open>
  The rows of the native heap are added to a member of the object. The object that watches a process is the same for all samples, so that
  each sample is added to the ones before: after two samples of the same heap the row has twice its size.
\<close>

lemma native_heap_accumulates:
  assumes "NATIVE_HEAP_MAP (it_type item) = Some type"
  shows "map_of (native_item item (native_item item [])) type = Some (item_add item item)"
  using assms by (simp add: native_item_def omap_insert_def modify_def)

end
