(* ===== verification/Zip_Output.thy ===== *)
theory Zip_Output
  imports Exec_Stream
begin

text \<open>
  The compressed output: \<^verbatim>\<open>util/dump_compressor.cpp\<close> and \<^verbatim>\<open>executor/zip_output.cpp\<close>. The functions of zlib are parameters. The
  two buffers of the output are texts, of which \<open>offset\<close> is the length; \<open>None\<close> is a write behind the end of a buffer, or a loop that does not end.
\<close>

section \<open>The compressor\<close>

definition MAX_COMPRESS_BUFFER_SIZE :: nat where "MAX_COMPRESS_BUFFER_SIZE = 32 * 1024"
definition CHUNK :: nat where "CHUNK = 16384"

text \<open>
  \<open>z_deflate\<close> gets the flush mode, the input and the stream. It returns the output, of which there is room for \<open>CHUNK\<close> bytes, the input that is
  left, and the stream; \<open>None\<close> is \<open>Z_STREAM_ERROR\<close>.
\<close>

record 'z zlib =
  z_init :: "'z option" \<comment> \<open>\<open>deflateInit2\<close>\<close>
  z_bound :: "nat \<Rightarrow> nat" \<comment> \<open>\<open>compressBound\<close>\<close>
  z_deflate :: "bool \<Rightarrow> string \<Rightarrow> 'z \<Rightarrow> (string \<times> string \<times> 'z) option"

text \<open>The copying functions \<open>memcpy_s\<close> and \<open>memmove_s\<close> need room for the data, and refuse a target without any room.\<close>

definition has_room :: "string \<Rightarrow> nat \<Rightarrow> bool" where
  "has_room t destMax \<longleftrightarrow> 0 < destMax \<and> length t \<le> destMax"

text \<open>The input of the next round, whether it is the last one, and the new position.\<close>

definition FillBuffer :: "string \<Rightarrow> nat \<Rightarrow> bool \<times> string \<times> nat" where
  "FillBuffer src srcPos =
    (let flag = (length src - srcPos < CHUNK) in
     if flag then (True, drop srcPos src, length src) else (False, take CHUNK (drop srcPos src), srcPos + CHUNK))"

text \<open>The answer of a loop that ends: \<open>None\<close> for \<open>DUMP_FAIL\<close>, else the compressed data and the stream.\<close>

partial_function (option) DeflateBuffer :: "'z zlib \<Rightarrow> nat \<Rightarrow> bool \<Rightarrow> string \<Rightarrow> 'z \<Rightarrow> string \<Rightarrow> (string \<times> 'z) option option" where
  "DeflateBuffer z zDataSize flush inp s zData =
    (case z_deflate z flush inp s of
       None \<Rightarrow> Some None
     | Some (out, rest, s1) \<Rightarrow>
         if \<not> has_room out (zDataSize - length zData) then Some None
         else if length out = CHUNK then DeflateBuffer z zDataSize flush rest s1 (zData @ out)
         else Some (Some (zData @ out, s1)))"

function compress_loop :: "'z zlib \<Rightarrow> nat \<Rightarrow> string \<Rightarrow> nat \<Rightarrow> 'z \<Rightarrow> string \<Rightarrow> string option option" where
  "compress_loop z zDataSize src srcPos s zData =
    (case FillBuffer src srcPos of (flush, inp, srcPos1) \<Rightarrow>
      (case DeflateBuffer z zDataSize flush inp s zData of
         None \<Rightarrow> None
       | Some None \<Rightarrow> Some None
       | Some (Some (zData1, s1)) \<Rightarrow> if flush then Some (Some zData1) else compress_loop z zDataSize src srcPos1 s1 zData1))"
  by pat_completeness auto
termination
  by (relation "measure (\<lambda>(_, _, src, srcPos, _, _). length src - srcPos)") (auto simp: FillBuffer_def Let_def CHUNK_def split: if_splits)

declare compress_loop.simps [simp del]

definition compressor_Init :: "'z zlib \<Rightarrow> string \<Rightarrow> (nat \<times> 'z) option" where
  "compressor_Init z src =
    (let bound = z_bound z (length src) in
     if bound = 0 then None else map_option (Pair (if bound < CHUNK then CHUNK else bound)) (z_init z))"

definition Compress :: "'z zlib \<Rightarrow> string \<Rightarrow> string \<Rightarrow> (DumpStatus \<times> string) option" where
  "Compress z src dest =
    (case compressor_Init z src of
       None \<Rightarrow> Some (DUMP_FAIL, dest)
     | Some (zDataSize, s) \<Rightarrow>
         (case compress_loop z zDataSize src 0 s [] of
            None \<Rightarrow> None
          | Some None \<Rightarrow> Some (DUMP_FAIL, dest)
          | Some (Some zData) \<Rightarrow>
              if has_room zData (MAX_COMPRESS_BUFFER_SIZE - length dest) then Some (DUMP_OK, dest @ zData) else Some (DUMP_FAIL, dest)))"

section \<open>The output\<close>

record ZipOutput =
  zo_filePath :: string
  zo_fd :: int
  zo_src :: string
  zo_dest :: string
  zo_written :: "string list" \<comment> \<open>what was written to the file\<close>

definition ZipOutput_new :: ZipOutput where
  "ZipOutput_new = \<lparr>zo_filePath = [], zo_fd = -1, zo_src = [], zo_dest = [], zo_written = []\<rparr>"

definition zip_ClearBuffer :: "ZipOutput \<Rightarrow> ZipOutput" where
  "zip_ClearBuffer s = s\<lparr>zo_src := [], zo_dest := []\<rparr>"

text \<open>\<open>fd\<close> is what \<open>FdToWrite\<close> returns for the path of the archive.\<close>

definition zip_PreExecute :: "string \<Rightarrow> int \<Rightarrow> ZipOutput \<Rightarrow> DumpStatus \<times> ZipOutput" where
  "zip_PreExecute path fd s =
    (if zo_filePath s = [] then
       let s1 = (zip_ClearBuffer (s\<lparr>zo_filePath := path\<rparr>))\<lparr>zo_fd := fd\<rparr> in (if fd < 0 then DUMP_FAIL else DUMP_OK, s1)
     else (DUMP_OK, s))"

text \<open>\<open>can_write\<close>: whether \<open>write\<close> accepts the data; a short write is not looked at.\<close>

definition CompressAndWriteToFd :: "'z zlib \<Rightarrow> (string \<Rightarrow> bool) \<Rightarrow> ZipOutput \<Rightarrow> (DumpStatus \<times> ZipOutput) option" where
  "CompressAndWriteToFd z can_write s =
    (if zo_src s = [] then Some (DUMP_OK, s)
     else case Compress z (zo_src s) (zo_dest s) of
         None \<Rightarrow> None
       | Some (ret, dest) \<Rightarrow>
           if ret = DUMP_OK then
             (if can_write dest then Some (DUMP_OK, zip_ClearBuffer (s\<lparr>zo_written := zo_written s @ [dest]\<rparr>))
              else Some (DUMP_FAIL, zip_ClearBuffer s))
           else Some (DUMP_FAIL, zip_ClearBuffer s))"

definition uint16 :: "nat \<Rightarrow> nat" where "uint16 n = n mod 2 ^ 16"

text \<open>\<open>memcpy_s\<close> into the source buffer: \<open>None\<close> when there is no room.\<close>

definition src_copy :: "string \<Rightarrow> ZipOutput \<Rightarrow> ZipOutput option" where
  "src_copy t s = (if has_room t (MAX_COMPRESS_BUFFER_SIZE - length (zo_src s)) then Some (s\<lparr>zo_src := zo_src s @ t\<rparr>) else None)"

text \<open>Storing one character, \<open>content[offset] = c\<close>, is not checked.\<close>

definition src_put :: "char \<Rightarrow> ZipOutput \<Rightarrow> ZipOutput option" where
  "src_put c s = (if length (zo_src s) < MAX_COMPRESS_BUFFER_SIZE then Some (s\<lparr>zo_src := zo_src s @ [c]\<rparr>) else None)"

function big_line_loop :: "'z zlib \<Rightarrow> (string \<Rightarrow> bool) \<Rightarrow> string \<Rightarrow> ZipOutput \<Rightarrow> (bool \<times> ZipOutput) option" where
  "big_line_loop z can_write remain s =
    (if remain = [] then Some (True, s)
     else
       let process_size = (if length (zo_src s) + length remain > MAX_COMPRESS_BUFFER_SIZE then MAX_COMPRESS_BUFFER_SIZE - length (zo_src s) else length remain) in
       case src_copy (take process_size remain) s of
         None \<Rightarrow> Some (False, s)
       | Some s1 \<Rightarrow>
           (case CompressAndWriteToFd z can_write s1 of
              None \<Rightarrow> None
            | Some (_, s2) \<Rightarrow> big_line_loop z can_write (drop process_size remain) s2))"
  by pat_completeness auto
termination
  by (relation "measure (\<lambda>(_, _, remain, _). length remain)") (auto simp: src_copy_def has_room_def split: if_splits)

declare big_line_loop.simps [simp del]

definition CompressBigLine :: "'z zlib \<Rightarrow> (string \<Rightarrow> bool) \<Rightarrow> string \<Rightarrow> nat \<Rightarrow> ZipOutput \<Rightarrow> ZipOutput option" where
  "CompressBigLine z can_write content size' s =
    (case big_line_loop z can_write (take (uint16 (size' + 2 ^ 16 - 1)) content) s of
       None \<Rightarrow> None
     | Some (False, s1) \<Rightarrow> Some s1
     | Some (True, s1) \<Rightarrow>
         (case src_put CHR 0x0A s1 of None \<Rightarrow> None | Some s2 \<Rightarrow> map_option snd (CompressAndWriteToFd z can_write s2)))"

text \<open>One row of the matrix; the lengths are 16 bits wide. The flag is false when the whole function returns \<open>DUMP_FAIL\<close>.\<close>

definition zip_row :: "'z zlib \<Rightarrow> (string \<Rightarrow> bool) \<Rightarrow> string list \<Rightarrow> ZipOutput \<Rightarrow> (bool \<times> ZipOutput) option" where
  "zip_row z can_write row s =
    (let content = c_str (concat row); content_size = uint16 (length content); size' = uint16 (length content + 1) in
     case (if length (zo_src s) + size' > MAX_COMPRESS_BUFFER_SIZE then map_option snd (CompressAndWriteToFd z can_write s) else Some s) of
       None \<Rightarrow> None
     | Some s1 \<Rightarrow>
         if size' > MAX_COMPRESS_BUFFER_SIZE then
           (case CompressAndWriteToFd z can_write s1 of
              None \<Rightarrow> None
            | Some (_, s2) \<Rightarrow> map_option (Pair True) (CompressBigLine z can_write content size' s2))
         else
           (case src_copy (take content_size content) s1 of
              None \<Rightarrow> Some (False, s1)
            | Some s2 \<Rightarrow> map_option (Pair True) (src_put CHR 0x0A s2)))"

fun zip_rows :: "'z zlib \<Rightarrow> (string \<Rightarrow> bool) \<Rightarrow> matrix \<Rightarrow> ZipOutput \<Rightarrow> (bool \<times> ZipOutput) option" where
  "zip_rows z can_write [] s = Some (True, s)"
| "zip_rows z can_write (row # rows) s =
    (case zip_row z can_write row s of
       None \<Rightarrow> None | Some (False, s1) \<Rightarrow> Some (False, s1) | Some (True, s1) \<Rightarrow> zip_rows z can_write rows s1)"

definition zip_Execute :: "'z zlib \<Rightarrow> (string \<Rightarrow> bool) \<Rightarrow> matrix \<Rightarrow> ZipOutput \<Rightarrow> (DumpStatus \<times> matrix \<times> ZipOutput) option" where
  "zip_Execute z can_write dumpDatas s =
    (if zo_fd s < 0 then Some (DUMP_FAIL, dumpDatas, s)
     else case zip_rows z can_write dumpDatas s of
         None \<Rightarrow> None
       | Some (False, s1) \<Rightarrow> Some (DUMP_FAIL, dumpDatas, s1)
       | Some (True, s1) \<Rightarrow> map_option (\<lambda>(_, s2). (DUMP_OK, [], s2)) (CompressAndWriteToFd z can_write s1))"

definition zip_AfterExecute :: DumpStatus where "zip_AfterExecute = DUMP_OK"

end
