(* ===== verification/Zip_Output_Facts.thy ===== *)
theory Zip_Output_Facts
  imports Zip_Output
begin

text \<open>What the compressed output writes, given what zlib documents.\<close>

section \<open>zlib\<close>

text \<open>
  The promise of a stream: it consumes its input in order and remembers what it took and gave. A call that leaves room in the output has
  consumed all its input; at the end of the stream, decompressing all that was given yields all that was taken. A call that fills
  the output has less left to do. A stream ends only when it is flushed, with all its input consumed; after its end it is only asked to
  flush again. A stream that is used in this way reports no error.
\<close>

definition gzip :: "'z zlib \<Rightarrow> ('z \<Rightarrow> string) \<Rightarrow> ('z \<Rightarrow> string) \<Rightarrow> (string \<Rightarrow> string) \<Rightarrow> (string \<Rightarrow> 'z \<Rightarrow> nat) \<Rightarrow> ('z \<Rightarrow> bool) \<Rightarrow> bool" where
  "gzip z taken given gunzip todo ended \<longleftrightarrow>
    (\<forall>s. z_init z = Some s \<longrightarrow> taken s = [] \<and> given s = [] \<and> \<not> ended s) \<and>
    (\<forall>flush inp s. (ended s \<longrightarrow> flush \<and> inp = []) \<longrightarrow> (\<exists>out used rest s'. z_deflate z flush inp s = Some (out, rest, s') \<and> inp = used @ rest \<and> length out \<le> CHUNK
       \<and> taken s' = taken s @ used \<and> given s' = given s @ out
       \<and> (length out < CHUNK \<longrightarrow> rest = [] \<and> (flush \<longrightarrow> gunzip (given s') = taken s'))
       \<and> (length out = CHUNK \<longrightarrow> todo rest s' < todo inp s)
       \<and> (ended s' \<longrightarrow> flush \<and> rest = [])))"

lemma gzip_init: "gzip z taken given gunzip todo ended \<Longrightarrow> z_init z = Some s \<Longrightarrow> taken s = [] \<and> given s = [] \<and> \<not> ended s"
  by (simp add: gzip_def)

lemma gzip_deflate:
  assumes "gzip z taken given gunzip todo ended" "ended s \<longrightarrow> flush \<and> inp = []"
  obtains out used rest s' where "z_deflate z flush inp s = Some (out, rest, s')" "inp = used @ rest" "length out \<le> CHUNK"
    "taken s' = taken s @ used" "given s' = given s @ out"
    "length out < CHUNK \<longrightarrow> rest = [] \<and> (flush \<longrightarrow> gunzip (given s') = taken s')"
    "length out = CHUNK \<longrightarrow> todo rest s' < todo inp s" "ended s' \<longrightarrow> flush \<and> rest = []"
proof -
  have "\<exists>out used rest s'. z_deflate z flush inp s = Some (out, rest, s') \<and> inp = used @ rest \<and> length out \<le> CHUNK
       \<and> taken s' = taken s @ used \<and> given s' = given s @ out
       \<and> (length out < CHUNK \<longrightarrow> rest = [] \<and> (flush \<longrightarrow> gunzip (given s') = taken s'))
       \<and> (length out = CHUNK \<longrightarrow> todo rest s' < todo inp s) \<and> (ended s' \<longrightarrow> flush \<and> rest = [])"
    by (rule assms(1) [unfolded gzip_def, THEN conjunct2, THEN spec, THEN spec, THEN spec, THEN mp, OF assms(2)])
  then show thesis using that by blast
qed

section \<open>The compressor\<close>

text \<open>The loop ends; when it succeeds it took all its input and kept all output.\<close>

lemma DeflateBuffer_spec:
  assumes g: "gzip z taken given gunzip todo ended" and "given s = zData" "ended s \<longrightarrow> flush \<and> inp = []"
  shows "\<exists>r. DeflateBuffer z n flush inp s zData = Some r
    \<and> (\<forall>d s'. r = Some (d, s') \<longrightarrow> taken s' = taken s @ inp \<and> given s' = d \<and> (flush \<longrightarrow> gunzip d = taken s') \<and> (ended s' \<longrightarrow> flush))"
  using assms(2,3)
proof (induction "todo inp s" arbitrary: inp s zData rule: less_induct)
  case less
  obtain out used rest s1 where d: "z_deflate z flush inp s = Some (out, rest, s1)" "inp = used @ rest" "length out \<le> CHUNK"
      "taken s1 = taken s @ used" "given s1 = given s @ out"
      "length out < CHUNK \<longrightarrow> rest = [] \<and> (flush \<longrightarrow> gunzip (given s1) = taken s1)"
      "length out = CHUNK \<longrightarrow> todo rest s1 < todo inp s" "ended s1 \<longrightarrow> flush \<and> rest = []"
    by (rule gzip_deflate [OF g less.prems(2)])
  show ?case
  proof (cases "\<not> has_room out (n - length zData) \<or> length out < CHUNK")
    case True
    with d less.prems show ?thesis by (subst DeflateBuffer.simps) auto
  next
    case False
    with d(3) have full: "length out = CHUNK" by simp
    from less.hyps [OF d(7) [THEN mp, OF full], of "zData @ out"] d(5,8) less.prems(1) obtain r where
      r: "DeflateBuffer z n flush rest s1 (zData @ out) = Some r"
         "\<And>d s'. r = Some (d, s') \<Longrightarrow> taken s' = taken s1 @ rest \<and> given s' = d \<and> (flush \<longrightarrow> gunzip d = taken s') \<and> (ended s' \<longrightarrow> flush)" by auto
    have "DeflateBuffer z n flush inp s zData = Some r" using False full d(1) r(1) by (subst DeflateBuffer.simps) simp
    with r(2) d(2,4) show ?thesis by auto
  qed
qed

lemma compress_loop_spec:
  assumes g: "gzip z taken given gunzip todo ended" and "given s = zData" "taken s = take p src" "p \<le> length src" "\<not> ended s"
  shows "\<exists>r. compress_loop z n src p s zData = Some r \<and> (\<forall>d. r = Some d \<longrightarrow> gunzip d = src)"
  using assms(2-)
proof (induction "length src - p" arbitrary: p s zData rule: less_induct)
  case less
  obtain flush inp p1 where f: "FillBuffer src p = (flush, inp, p1)" by (metis prod_cases3)
  have inp: "take p1 src = take p src @ inp" "p1 \<le> length src" "flush \<Longrightarrow> p1 = length src" "\<not> flush \<Longrightarrow> p < p1"
    using f less.prems(3) by (auto simp: FillBuffer_def Let_def CHUNK_def take_add split: if_splits)
  obtain r where r: "DeflateBuffer z n flush inp s zData = Some r"
      "\<And>d s'. r = Some (d, s') \<Longrightarrow> taken s' = taken s @ inp \<and> given s' = d \<and> (flush \<longrightarrow> gunzip d = taken s') \<and> (ended s' \<longrightarrow> flush)"
    using DeflateBuffer_spec [OF g less.prems(1), of flush inp n] less.prems(4) by blast
  show ?case
  proof (cases r)
    case None
    with r(1) f show ?thesis by (subst compress_loop.simps) simp
  next
    case (Some x)
    obtain d s1 where x: "x = (d, s1)" by (cases x)
    from r(2) [of d s1] Some x less.prems(2) inp(1) have t: "taken s1 = take p1 src" "given s1 = d" "flush \<longrightarrow> gunzip d = take p1 src" "ended s1 \<longrightarrow> flush" by auto
    show ?thesis
    proof (cases flush)
      case True
      with t(3) inp(3) have "gunzip d = src" by simp
      then show ?thesis using True Some x r(1) f by (subst compress_loop.simps) auto
    next
      case False
      then have "length src - p1 < length src - p" using inp(2,4) by linarith
      from less.hyps [OF this t(2,1) inp(2)] t(4) False Some x r(1) f show ?thesis by (subst compress_loop.simps) auto
    qed
  qed
qed

text \<open>The compressed form of a text, when it fits into the buffer.\<close>

definition compressed :: "'z zlib \<Rightarrow> string \<Rightarrow> string option" where
  "compressed z src = (case Compress z src [] of Some (DUMP_OK, d) \<Rightarrow> Some d | _ \<Rightarrow> None)"

lemma Compress_spec:
  assumes g: "gzip z taken given gunzip todo ended"
  shows "\<exists>ret d. Compress z src [] = Some (ret, d) \<and> (ret = DUMP_OK \<longrightarrow> gunzip d = src \<and> length d \<le> MAX_COMPRESS_BUFFER_SIZE)"
proof (cases "compressor_Init z src")
  case None
  then show ?thesis by (auto simp: Compress_def)
next
  case (Some i)
  obtain n s where i: "i = (n, s)" by (cases i)
  with Some have "z_init z = Some s" by (auto simp: compressor_Init_def Let_def split: if_splits)
  with gzip_init [OF g] have "taken s = take 0 src" "given s = []" "\<not> ended s" by auto
  from compress_loop_spec [OF g this(2,1) _ this(3), of n] Some i show ?thesis
    by (auto simp: Compress_def has_room_def split: option.splits)
qed

lemma compressed_gunzip: "gzip z taken given gunzip todo ended \<Longrightarrow> compressed z src = Some d \<Longrightarrow> gunzip d = src"
  using Compress_spec [of z taken given gunzip todo ended src] by (auto simp: compressed_def split: option.splits prod.splits DumpStatus.splits)

section \<open>The output\<close>

lemma flush_spec:
  assumes g: "gzip z taken given gunzip todo ended" and "zo_dest s = []"
  shows "\<exists>ret. CompressAndWriteToFd z can_write s = Some (ret, s\<lparr>zo_src := [], zo_dest := [],
      zo_written := zo_written s @ (if zo_src s = [] then [] else case compressed z (zo_src s) of Some d \<Rightarrow> if can_write d then [d] else [] | None \<Rightarrow> [])\<rparr>)"
proof (cases "zo_src s = []")
  case True
  with assms(2) show ?thesis by (cases s) (simp add: CompressAndWriteToFd_def)
next
  case False
  obtain ret d where c: "Compress z (zo_src s) [] = Some (ret, d)" using Compress_spec [OF g] by blast
  show ?thesis
    using False c assms(2) by (cases "ret = DUMP_OK") (auto simp: CompressAndWriteToFd_def compressed_def zip_ClearBuffer_def split: DumpStatus.splits)
qed

text \<open>
  What holds between two rows: the text so far is cut into pieces and the buffer; the pieces are in the file, except those that could
  not be compressed or written.
\<close>

definition kept :: "'z zlib \<Rightarrow> (string \<Rightarrow> bool) \<Rightarrow> string \<Rightarrow> bool" where
  "kept z can_write t \<longleftrightarrow> (\<exists>d. compressed z t = Some d \<and> can_write d)"

definition zip_inv :: "'z zlib \<Rightarrow> (string \<Rightarrow> bool) \<Rightarrow> (string \<Rightarrow> string) \<Rightarrow> string \<Rightarrow> ZipOutput \<Rightarrow> bool" where
  "zip_inv z can_write gunzip sofar s \<longleftrightarrow>
    zo_dest s = [] \<and> length (zo_src s) \<le> MAX_COMPRESS_BUFFER_SIZE
    \<and> (\<exists>pieces. concat pieces @ zo_src s = sofar \<and> map gunzip (zo_written s) = filter (kept z can_write) pieces
        \<and> (\<forall>t \<in> set pieces. t \<noteq> [] \<and> length t \<le> MAX_COMPRESS_BUFFER_SIZE))"

lemma zip_invI:
  assumes "zo_dest s = []" "length (zo_src s) \<le> MAX_COMPRESS_BUFFER_SIZE" "concat pieces @ zo_src s = sofar"
    "map gunzip (zo_written s) = filter (kept z can_write) pieces" "\<forall>t \<in> set pieces. t \<noteq> [] \<and> length t \<le> MAX_COMPRESS_BUFFER_SIZE"
  shows "zip_inv z can_write gunzip sofar s"
  unfolding zip_inv_def using assms by blast

lemma zip_inv_flush:
  assumes g: "gzip z taken given gunzip todo ended" and i: "zip_inv z can_write gunzip sofar s"
  obtains ret s1 where "CompressAndWriteToFd z can_write s = Some (ret, s1)" "zip_inv z can_write gunzip sofar s1" "zo_src s1 = []" "zo_fd s1 = zo_fd s"
proof -
  from i obtain pieces where p: "concat pieces @ zo_src s = sofar" "map gunzip (zo_written s) = filter (kept z can_write) pieces"
      "\<forall>t \<in> set pieces. t \<noteq> [] \<and> length t \<le> MAX_COMPRESS_BUFFER_SIZE" and d: "zo_dest s = []" "length (zo_src s) \<le> MAX_COMPRESS_BUFFER_SIZE"
    by (auto simp: zip_inv_def)
  define out where "out = (if zo_src s = [] then [] else case compressed z (zo_src s) of Some d \<Rightarrow> if can_write d then [d] else [] | None \<Rightarrow> [])"
  define new where "new = (if zo_src s = [] then [] else [zo_src s])"
  define s1 where "s1 = s\<lparr>zo_src := [], zo_dest := [], zo_written := zo_written s @ out\<rparr>"
  obtain ret where f: "CompressAndWriteToFd z can_write s = Some (ret, s1)" using flush_spec [OF g d(1)] unfolding s1_def out_def by blast
  have out: "map gunzip out = filter (kept z can_write) new"
    by (cases "compressed z (zo_src s)") (auto simp: out_def new_def kept_def dest: compressed_gunzip [OF g])
  have new: "concat new = zo_src s" "\<forall>t \<in> set new. t \<noteq> [] \<and> length t \<le> MAX_COMPRESS_BUFFER_SIZE" using d(2) by (auto simp: new_def)
  have "zip_inv z can_write gunzip sofar s1"
  proof (rule zip_invI [where pieces = "pieces @ new"])
    show "concat (pieces @ new) @ zo_src s1 = sofar" using p(1) new(1) by (simp add: s1_def)
    show "map gunzip (zo_written s1) = filter (kept z can_write) (pieces @ new)" using p(2) out by (simp add: s1_def)
    show "\<forall>t \<in> set (pieces @ new). t \<noteq> [] \<and> length t \<le> MAX_COMPRESS_BUFFER_SIZE" using p(3) new(2) unfolding set_append by blast
  qed (simp_all add: s1_def)
  with f show thesis by (intro that [of ret s1]) (simp_all add: s1_def)
qed

lemma zip_inv_add: "zip_inv z can_write gunzip sofar s \<Longrightarrow> length (zo_src s) + length t \<le> MAX_COMPRESS_BUFFER_SIZE \<Longrightarrow>
    zip_inv z can_write gunzip (sofar @ t) (s\<lparr>zo_src := zo_src s @ t\<rparr>)"
  unfolding zip_inv_def by clarsimp

lemma big_line_spec:
  assumes g: "gzip z taken given gunzip todo ended" and "zip_inv z can_write gunzip sofar s" "zo_src s = []"
  shows "\<exists>s1. big_line_loop z can_write t s = Some (True, s1) \<and> zip_inv z can_write gunzip (sofar @ t) s1 \<and> zo_src s1 = [] \<and> zo_fd s1 = zo_fd s"
  using assms(2,3)
proof (induction "length t" arbitrary: t sofar s rule: less_induct)
  case less
  show ?case
  proof (cases "t = []")
    case True with less.prems show ?thesis by (subst big_line_loop.simps) simp
  next
    case False
    define n where "n = (if length t > MAX_COMPRESS_BUFFER_SIZE then MAX_COMPRESS_BUFFER_SIZE else length t)"
    have n: "0 < n" "n \<le> MAX_COMPRESS_BUFFER_SIZE" "length (take n t) = n" using False by (auto simp: n_def MAX_COMPRESS_BUFFER_SIZE_def)
    let ?s1 = "s\<lparr>zo_src := zo_src s @ take n t\<rparr>"
    have i1: "zip_inv z can_write gunzip (sofar @ take n t) ?s1" using less.prems n by (intro zip_inv_add) simp_all
    obtain ret s2 where f: "CompressAndWriteToFd z can_write ?s1 = Some (ret, s2)" "zip_inv z can_write gunzip (sofar @ take n t) s2"
        "zo_src s2 = []" "zo_fd s2 = zo_fd ?s1" by (rule zip_inv_flush [OF g i1])
    have "length (drop n t) < length t" using n False by simp
    from less.hyps [OF this f(2,3)] obtain s3 where
      s3: "big_line_loop z can_write (drop n t) s2 = Some (True, s3)" "zip_inv z can_write gunzip ((sofar @ take n t) @ drop n t) s3" "zo_src s3 = []" "zo_fd s3 = zo_fd s2"
      by blast
    have c: "src_copy (take n t) s = Some ?s1" using n less.prems(2) by (simp add: src_copy_def has_room_def)
    have ps: "(if length (zo_src s) + length t > MAX_COMPRESS_BUFFER_SIZE then MAX_COMPRESS_BUFFER_SIZE - length (zo_src s) else length t) = n"
      using less.prems(2) by (simp add: n_def)
    have "big_line_loop z can_write t s = Some (True, s3)"
      using False f(1) s3(1) c by (subst big_line_loop.simps) (simp add: ps Let_def)
    with s3 f(4) show ?thesis by simp
  qed
qed

text \<open>A row whose text is shorter than 65535 characters is added whole.\<close>

definition row_text :: "string list \<Rightarrow> string" where
  "row_text row = c_str (concat row)"

lemma zip_row_spec:
  assumes g: "gzip z taken given gunzip todo ended" and i: "zip_inv z can_write gunzip sofar s" and len: "length (row_text row) < 65535"
  shows "\<exists>s1. zip_row z can_write row s = Some (True, s1) \<and> zip_inv z can_write gunzip (sofar @ row_text row @ [CHR 0x0A]) s1 \<and> zo_fd s1 = zo_fd s"
proof -
  let ?t = "row_text row"
  have u: "uint16 (length ?t) = length ?t" "uint16 (length ?t + 1) = length ?t + 1" using len by (simp_all add: uint16_def)
  obtain s1 where s1: "(if length (zo_src s) + (length ?t + 1) > MAX_COMPRESS_BUFFER_SIZE then map_option snd (CompressAndWriteToFd z can_write s) else Some s) = Some s1"
      "zip_inv z can_write gunzip sofar s1" "length (zo_src s1) + (length ?t + 1) \<le> MAX_COMPRESS_BUFFER_SIZE \<or> zo_src s1 = []" "zo_fd s1 = zo_fd s"
  proof (cases "length (zo_src s) + (length ?t + 1) > MAX_COMPRESS_BUFFER_SIZE")
    case True
    obtain ret s2 where "CompressAndWriteToFd z can_write s = Some (ret, s2)" "zip_inv z can_write gunzip sofar s2" "zo_src s2 = []" "zo_fd s2 = zo_fd s"
      by (rule zip_inv_flush [OF g i])
    with True that show thesis by simp
  next
    case False with i that show thesis by simp
  qed
  show ?thesis
  proof (cases "length ?t + 1 > MAX_COMPRESS_BUFFER_SIZE")
    case True
    obtain ret s2 where f: "CompressAndWriteToFd z can_write s1 = Some (ret, s2)" "zip_inv z can_write gunzip sofar s2" "zo_src s2 = []" "zo_fd s2 = zo_fd s1"
      by (rule zip_inv_flush [OF g s1(2)])
    obtain s3 where s3: "big_line_loop z can_write ?t s2 = Some (True, s3)" "zip_inv z can_write gunzip (sofar @ ?t) s3" "zo_src s3 = []" "zo_fd s3 = zo_fd s2"
      using big_line_spec [OF g f(2,3)] by blast
    have i4: "zip_inv z can_write gunzip ((sofar @ ?t) @ [CHR 0x0A]) (s3\<lparr>zo_src := zo_src s3 @ [CHR 0x0A]\<rparr>)"
      using s3 by (intro zip_inv_add) (simp_all add: MAX_COMPRESS_BUFFER_SIZE_def)
    obtain ret' s5 where f5: "CompressAndWriteToFd z can_write (s3\<lparr>zo_src := zo_src s3 @ [CHR 0x0A]\<rparr>) = Some (ret', s5)"
        "zip_inv z can_write gunzip ((sofar @ ?t) @ [CHR 0x0A]) s5" "zo_fd s5 = zo_fd s3" by (rule zip_inv_flush [OF g i4]) simp
    have "uint16 (length ?t + 1 + 2 ^ 16 - 1) = length ?t" using len by (simp add: uint16_def)
    then have "CompressBigLine z can_write ?t (length ?t + 1) s2 = Some s5"
      using s3(1,3) f5(1) by (simp add: CompressBigLine_def src_put_def MAX_COMPRESS_BUFFER_SIZE_def)
    then have "zip_row z can_write row s = Some (True, s5)"
      unfolding zip_row_def Let_def row_text_def [symmetric] u s1(1) using True f(1) by simp
    with f5 f(4) s3(4) s1(4) show ?thesis by simp
  next
    case False
    with s1(3) have room: "length (zo_src s1) + (length ?t + 1) \<le> MAX_COMPRESS_BUFFER_SIZE" by auto
    have "zip_inv z can_write gunzip (sofar @ (?t @ [CHR 0x0A])) (s1\<lparr>zo_src := zo_src s1 @ (?t @ [CHR 0x0A])\<rparr>)"
      using s1(2) room by (intro zip_inv_add) simp_all
    moreover have "zip_row z can_write row s = Some (True, s1\<lparr>zo_src := zo_src s1 @ (?t @ [CHR 0x0A])\<rparr>)"
      unfolding zip_row_def Let_def row_text_def [symmetric] u s1(1) using False room by (simp add: src_copy_def has_room_def src_put_def)
    ultimately show ?thesis using s1(4) by auto
  qed
qed

lemma zip_rows_spec:
  assumes g: "gzip z taken given gunzip todo ended" and "zip_inv z can_write gunzip sofar s" "\<forall>row \<in> set rows. length (row_text row) < 65535"
  shows "\<exists>s1. zip_rows z can_write rows s = Some (True, s1)
    \<and> zip_inv z can_write gunzip (sofar @ concat (map (\<lambda>row. row_text row @ [CHR 0x0A]) rows)) s1 \<and> zo_fd s1 = zo_fd s"
  using assms(2,3)
proof (induction rows arbitrary: sofar s)
  case (Cons row rows)
  obtain s1 where s1: "zip_row z can_write row s = Some (True, s1)" "zip_inv z can_write gunzip (sofar @ row_text row @ [CHR 0x0A]) s1" "zo_fd s1 = zo_fd s"
    using zip_row_spec [OF g Cons.prems(1), of row] Cons.prems(2) by auto
  from Cons.IH [OF s1(2)] Cons.prems(2) s1(1,3) show ?case by auto
qed simp

text \<open>A longer row: the lengths wrap around, so that only the first part of it is taken.\<close>

lemma uint16_wrap: "m < 65536 \<Longrightarrow> uint16 (65536 + m) = m"
  by (simp add: uint16_def)

lemma long_row_cut:
  assumes "length (row_text row) = 65536 + n" "length (zo_src s) + n + 1 \<le> MAX_COMPRESS_BUFFER_SIZE"
  shows "zip_row z can_write row s = Some (True, s\<lparr>zo_src := zo_src s @ take n (row_text row) @ [CHR 0x0A]\<rparr>)"
proof -
  let ?t = "row_text row"
  have n: "n + 1 < 65536" using assms(2) by (simp add: MAX_COMPRESS_BUFFER_SIZE_def)
  have l: "length ?t + 1 = 65536 + (n + 1)" using assms(1) by simp
  have u: "uint16 (length ?t) = n" "uint16 (length ?t + 1) = n + 1"
    unfolding l using uint16_wrap [of n] uint16_wrap [of "n + 1"] n assms(1) by auto
  show ?thesis
    unfolding zip_row_def Let_def row_text_def [symmetric] u using assms by (simp add: src_copy_def has_room_def src_put_def min_def)
qed

end
