(* ===== verification/Zip_Writer.thy ===== *)
theory Zip_Writer
  imports Common_Utils
begin

text \<open>
  Archives of folders: \<^verbatim>\<open>util/zip/zip_writer.cpp\<close> and \<^verbatim>\<open>util/zip_utils.cpp\<close>. The functions of minizip are parameters that succeed or fail; an archive is
  the list of its entries. \<open>None\<close> is a loop that does not end, or an exception.
\<close>

section \<open>State\<close>

record zip_entry =
  ze_name :: string
  ze_date :: "tm option" \<comment> \<open>\<open>None\<close> when the local time is not known\<close>
  ze_content :: string

record zip_env =
  zv_open :: "string \<Rightarrow> bool" \<comment> \<open>\<open>zipOpen2\<close>\<close>
  zv_new :: "string \<Rightarrow> bool" \<comment> \<open>\<open>zipOpenNewFileInZip4\<close>\<close>
  zv_write :: "string \<Rightarrow> bool" \<comment> \<open>\<open>zipWriteInFileInZip\<close>\<close>
  zv_close_file :: "zip_entry \<Rightarrow> bool" \<comment> \<open>\<open>zipCloseFileInZip\<close>\<close>
  zv_close :: "zip_entry list \<Rightarrow> bool" \<comment> \<open>\<open>zipClose\<close>\<close>
  zv_now :: "tm option"
  zv_path_valid :: "string \<Rightarrow> bool"
  zv_fopen :: "string \<Rightarrow> stream option"
  zv_dir_exists :: "string \<Rightarrow> bool"
  zv_dir_files :: "string \<Rightarrow> string list" \<comment> \<open>\<open>GetDirFiles\<close>\<close>

type_synonym notify = "(int \<Rightarrow> int \<Rightarrow> bool) option"

definition UNSET_PROGRESS :: int where "UNSET_PROGRESS = -1"
definition ZIP_BUF_SIZE :: nat where "ZIP_BUF_SIZE = 8192"

record ZipWriter =
  zw_filePath :: string
  zw_file :: "zip_entry list option" \<comment> \<open>the archive that is open\<close>
  zw_items :: "(string \<times> string) list" \<comment> \<open>absolute and relative path\<close>
  zw_result :: "zip_entry list option" \<comment> \<open>the archive that was closed\<close>

definition ZipWriter_new :: "string \<Rightarrow> ZipWriter" where
  "ZipWriter_new zipFilePath = \<lparr>zw_filePath = zipFilePath, zw_file = None, zw_items = [], zw_result = None\<rparr>"

definition OpenForZipping :: "zip_env \<Rightarrow> string \<Rightarrow> zip_entry list option" where
  "OpenForZipping env fileName = (if zv_open env fileName then Some [] else None)"

definition zw_Open :: "zip_env \<Rightarrow> ZipWriter \<Rightarrow> bool \<times> ZipWriter" where
  "zw_Open env w =
    (if zw_filePath w = [] then (False, w)
     else let zipFile = OpenForZipping env (zw_filePath w) in (zipFile \<noteq> None, w\<lparr>zw_file := zipFile\<rparr>))"

definition zw_Close :: "zip_env \<Rightarrow> ZipWriter \<Rightarrow> bool \<times> ZipWriter" where
  "zw_Close env w =
    (case zw_file w of
       None \<Rightarrow> (True, w)
     | Some entries \<Rightarrow> (zv_close env entries, w\<lparr>zw_file := None, zw_result := Some entries\<rparr>))"

section \<open>Entries\<close>

definition SetTimeToZipFileInfo :: "zip_env \<Rightarrow> tm option" where
  "SetTimeToZipFileInfo env = map_option (\<lambda>t. t\<lparr>tm_year := tm_year t + 1900\<rparr>) (zv_now env)"

definition ZipOpenNewFileInZip :: "zip_env \<Rightarrow> string \<Rightarrow> zip_entry option" where
  "ZipOpenNewFileInZip env path =
    (if zv_new env path then Some \<lparr>ze_name = path, ze_date = SetTimeToZipFileInfo env, ze_content = []\<rparr> else None)"

definition OpenNewFileEntry :: "zip_env \<Rightarrow> string \<Rightarrow> zip_entry option" where
  "OpenNewFileEntry env path = ZipOpenNewFileInZip env path"

definition CloseNewFileEntry :: "zip_env \<Rightarrow> zip_entry \<Rightarrow> bool" where
  "CloseNewFileEntry env e = zv_close_file env e"

text \<open>\<open>fread\<close> of a full buffer: the end of the file shows only when fewer bytes are left.\<close>

definition fread_buf :: "stream \<Rightarrow> string \<times> stream" where
  "fread_buf s =
    (if st_error s then ([], s)
     else (take ZIP_BUF_SIZE (st_rest s),
           s\<lparr>st_rest := drop ZIP_BUF_SIZE (st_rest s), st_eof := st_eof s \<or> length (st_rest s) < ZIP_BUF_SIZE\<rparr>))"

partial_function (option) content_loop :: "zip_env \<Rightarrow> stream \<Rightarrow> string \<Rightarrow> (bool \<times> string) option" where
  "content_loop env s content =
    (if st_eof s then Some (True, content)
     else
       case fread_buf s of (buf, s1) \<Rightarrow>
         if buf = [] then content_loop env s1 content
         else if \<not> zv_write env buf then Some (False, content)
         else content_loop env s1 (content @ buf))"

definition AddFileContentToZip :: "zip_env \<Rightarrow> string \<Rightarrow> string \<Rightarrow> (bool \<times> string) option" where
  "AddFileContentToZip env file_path content =
    (if \<not> zv_path_valid env file_path then Some (False, content)
     else case zv_fopen env file_path of
         None \<Rightarrow> Some (False, content)
       | Some fp \<Rightarrow> content_loop env fp content)"

text \<open>The entry is part of the archive, whether or not all of its content was written.\<close>

definition AddFileEntryToZip :: "zip_env \<Rightarrow> string \<Rightarrow> string \<Rightarrow> zip_entry list \<Rightarrow> (bool \<times> zip_entry list) option" where
  "AddFileEntryToZip env relativePath absolutePath entries =
    (case OpenNewFileEntry env relativePath of
       None \<Rightarrow> Some (False, entries)
     | Some entry \<Rightarrow>
         (case AddFileContentToZip env absolutePath [] of
            None \<Rightarrow> None
          | Some (ret, content) \<Rightarrow>
              let e = entry\<lparr>ze_content := content\<rparr> in Some (CloseNewFileEntry env e \<and> ret, entries @ [e])))"

section \<open>Writing\<close>

definition stops :: "notify \<Rightarrow> int \<Rightarrow> int \<Rightarrow> bool" where
  "stops notify a b = (case notify of None \<Rightarrow> False | Some f \<Rightarrow> f a b)"

fun flush_loop :: "zip_env \<Rightarrow> notify \<Rightarrow> nat \<Rightarrow> nat \<Rightarrow> (string \<times> string) list \<Rightarrow> zip_entry list \<Rightarrow> (bool \<times> zip_entry list) option" where
  "flush_loop env notify n i [] entries = Some (True, entries)"
| "flush_loop env notify n i ((absolutePath, relativePath) # items) entries =
    (if stops notify (int (100 * i div n)) UNSET_PROGRESS then Some (False, entries)
     else case AddFileEntryToZip env relativePath absolutePath entries of
         None \<Rightarrow> None
       | Some (False, entries1) \<Rightarrow> Some (False, entries1)
       | Some (True, entries1) \<Rightarrow> flush_loop env notify n (Suc i) items entries1)"

definition FlushItems :: "zip_env \<Rightarrow> notify \<Rightarrow> zip_entry list \<Rightarrow> ZipWriter \<Rightarrow> (bool \<times> ZipWriter) option" where
  "FlushItems env notify entries w =
    map_option (\<lambda>(ret, entries1). (ret, w\<lparr>zw_items := [], zw_file := Some entries1\<rparr>))
      (flush_loop env notify (length (zw_items w)) 0 (zw_items w) entries)"

definition zw_Write :: "zip_env \<Rightarrow> (string \<times> string) list \<Rightarrow> notify \<Rightarrow> ZipWriter \<Rightarrow> (bool \<times> ZipWriter) option" where
  "zw_Write env zipItems notify w =
    (case zw_file w of
       None \<Rightarrow> Some (False, w)
     | Some entries \<Rightarrow>
         map_option (\<lambda>(ret, w1). if ret then zw_Close env w1 else (False, w1))
           (FlushItems env notify entries (w\<lparr>zw_items := zw_items w @ zipItems\<rparr>)))"

text \<open>\<open>substr\<close> throws when the path is shorter than the folder.\<close>

definition zip_items :: "string \<Rightarrow> string list \<Rightarrow> (string \<times> string) list option" where
  "zip_items srcFolder allFiles =
    (if \<exists>f \<in> set allFiles. length f < length srcFolder then None else Some (map (\<lambda>f. (f, drop (length srcFolder) f)) allFiles))"

text \<open>The writer closes what is still open when it goes out of scope. \<open>delimited\<close> is \<open>IncludeTrailingPathDelimiter\<close>.\<close>

definition ZipFolder :: "zip_env \<Rightarrow> (string \<Rightarrow> string) \<Rightarrow> string \<Rightarrow> string \<Rightarrow> notify \<Rightarrow> (bool \<times> zip_entry list option) option" where
  "ZipFolder env delimited srcPath dstFile notify =
    (let srcFolder = delimited srcPath in
     if \<not> zv_dir_exists env srcFolder then Some (False, None)
     else
       let allFiles = zv_dir_files env srcFolder in
       if stops notify UNSET_PROGRESS UNSET_PROGRESS then Some (False, None)
       else case zip_items srcFolder allFiles of
           None \<Rightarrow> None
         | Some items \<Rightarrow>
             map_option (\<lambda>(ret, w). (ret, zw_result (snd (zw_Close env w)))) (zw_Write env items notify (snd (zw_Open env (ZipWriter_new dstFile)))))"

section \<open>Reading a file\<close>

lemma fread_buf_step:
  assumes "\<not> st_error s" "\<not> st_eof s"
  shows "fst (fread_buf s) = take ZIP_BUF_SIZE (st_rest s)" "st_rest (snd (fread_buf s)) = drop ZIP_BUF_SIZE (st_rest s)"
    "\<not> st_error (snd (fread_buf s))" "st_eof (snd (fread_buf s)) \<longleftrightarrow> length (st_rest s) < ZIP_BUF_SIZE"
  using assms by (simp_all add: fread_buf_def)

text \<open>Without read errors the loop ends, whatever minizip does. It succeeds only with the whole file, and always when the archive takes the data.\<close>

lemma content_loop_copies:
  assumes "\<not> st_error s" "st_eof s \<longrightarrow> st_rest s = []"
  shows "\<exists>ret c. content_loop env s content = Some (ret, c) \<and> (ret \<longrightarrow> c = content @ st_rest s) \<and> ((\<forall>buf. zv_write env buf) \<longrightarrow> ret)"
  using assms
proof (induction "length (st_rest s) + (if st_eof s then 0 else 1)" arbitrary: s content rule: less_induct)
  case less
  show ?case
  proof (cases "st_eof s")
    case True with less.prems show ?thesis by (subst content_loop.simps) auto
  next
    case False
    define s1 where "s1 = snd (fread_buf s)"
    note s1 = fread_buf_step [OF less.prems(1) False, folded s1_def]
    have f: "fread_buf s = (take ZIP_BUF_SIZE (st_rest s), s1)" using s1(1) by (simp add: s1_def prod_eq_iff)
    have m: "length (st_rest s1) + (if st_eof s1 then 0 else 1) < length (st_rest s) + (if st_eof s then 0 else 1)"
      using False s1 by (auto simp: ZIP_BUF_SIZE_def)
    have ih: "\<exists>ret c'. content_loop env s1 c = Some (ret, c') \<and> (ret \<longrightarrow> c' = c @ st_rest s1) \<and> ((\<forall>buf. zv_write env buf) \<longrightarrow> ret)" for c
      by (rule less.hyps [OF m s1(3)]) (use s1 in auto)
    let ?buf = "take ZIP_BUF_SIZE (st_rest s)"
    have step: "content_loop env s content =
        (if ?buf = [] then content_loop env s1 content else if \<not> zv_write env ?buf then Some (False, content) else content_loop env s1 (content @ ?buf))"
      using False f by (subst content_loop.simps) simp
    consider "?buf = []" | "?buf \<noteq> []" "\<not> zv_write env ?buf" | "?buf \<noteq> []" "zv_write env ?buf" by blast
    then show ?thesis
    proof cases
      case 1
      then have "st_rest s = []" "st_rest s1 = []" using s1(2) by (auto simp: ZIP_BUF_SIZE_def)
      with 1 step ih [of content] show ?thesis by simp
    next
      case 2
      with step have "content_loop env s content = Some (False, content)" by simp
      with 2(2) show ?thesis by blast
    next
      case 3
      with step ih [of "content @ ?buf"] s1(2) show ?thesis by simp
    qed
  qed
qed

text \<open>With a read error the loop has no end: a failed read is not the end of the file.\<close>

lemma content_loop_error:
  assumes "st_error s" "\<not> st_eof s"
  shows "content_loop env s content = None"
proof (cases "content_loop env s content")
  case (Some r)
  have "\<not> (st_error s \<and> \<not> st_eof s)"
    by (rule content_loop.raw_induct [OF _ Some, where P = "\<lambda>_ s _ _. \<not> (st_error s \<and> \<not> st_eof s)"])
      (auto simp: fread_buf_def split: if_splits)
  with assms show ?thesis by simp
qed

section \<open>Entries of the archive\<close>

text \<open>The promise of \<open>fopen\<close>: a file that opens can be read to its end.\<close>

definition readable :: "zip_env \<Rightarrow> bool" where
  "readable env \<longleftrightarrow> (\<forall>f fp. zv_fopen env f = Some fp \<longrightarrow> \<not> st_error fp \<and> \<not> st_eof fp)"

definition file_content :: "zip_env \<Rightarrow> string \<Rightarrow> string" where
  "file_content env f = (case zv_fopen env f of None \<Rightarrow> [] | Some fp \<Rightarrow> st_rest fp)"

definition whole_entry :: "zip_env \<Rightarrow> string \<times> string \<Rightarrow> zip_entry" where
  "whole_entry env = (\<lambda>(absolutePath, relativePath).
    \<lparr>ze_name = relativePath, ze_date = SetTimeToZipFileInfo env, ze_content = file_content env absolutePath\<rparr>)"

text \<open>What has to work for a file to be stored.\<close>

definition storable :: "zip_env \<Rightarrow> string \<times> string \<Rightarrow> bool" where
  "storable env = (\<lambda>(absolutePath, relativePath). zv_new env relativePath \<and> zv_path_valid env absolutePath \<and> zv_fopen env absolutePath \<noteq> None
    \<and> (\<forall>buf. zv_write env buf) \<and> (\<forall>e. zv_close_file env e))"

lemma AddFileEntryToZip_cases:
  assumes "readable env"
  obtains (kept_whole) "AddFileEntryToZip env rel absp entries = Some (True, entries @ [whole_entry env (absp, rel)])"
  | (failed) e more where "AddFileEntryToZip env rel absp entries = Some (False, entries @ more)" "more = [] \<or> more = [e] \<and> ze_name e = rel"
      "\<not> storable env (absp, rel)"
proof (cases "zv_new env rel \<and> zv_path_valid env absp")
  case False
  then show thesis
    by (intro failed [of "if zv_new env rel then [\<lparr>ze_name = rel, ze_date = SetTimeToZipFileInfo env, ze_content = []\<rparr>] else []"])
      (auto simp: AddFileEntryToZip_def OpenNewFileEntry_def ZipOpenNewFileInZip_def CloseNewFileEntry_def AddFileContentToZip_def storable_def Let_def)
next
  case True
  show thesis
  proof (cases "zv_fopen env absp")
    case None
    with True show thesis
      by (intro failed [of "[\<lparr>ze_name = rel, ze_date = SetTimeToZipFileInfo env, ze_content = []\<rparr>]"])
        (auto simp: AddFileEntryToZip_def OpenNewFileEntry_def ZipOpenNewFileInZip_def CloseNewFileEntry_def AddFileContentToZip_def storable_def Let_def)
  next
    case (Some fp)
    with assms have "\<not> st_error fp" "\<not> st_eof fp" by (auto simp: readable_def)
    with content_loop_copies [of fp env "[]"] obtain ret c where c: "content_loop env fp [] = Some (ret, c)" "ret \<longrightarrow> c = st_rest fp"
        "(\<forall>buf. zv_write env buf) \<longrightarrow> ret" by auto
    let ?e = "\<lparr>ze_name = rel, ze_date = SetTimeToZipFileInfo env, ze_content = c\<rparr>"
    have a: "AddFileEntryToZip env rel absp entries = Some (zv_close_file env ?e \<and> ret, entries @ [?e])"
      using True Some c(1) by (simp add: AddFileEntryToZip_def OpenNewFileEntry_def ZipOpenNewFileInZip_def CloseNewFileEntry_def AddFileContentToZip_def Let_def)
    show thesis
    proof (cases "zv_close_file env ?e \<and> ret")
      case True
      then show thesis using a c(2) Some by (intro kept_whole) (simp add: whole_entry_def file_content_def)
    next
      case False
      then show thesis using a c(3) by (intro failed [of "[?e]" ?e]) (auto simp: storable_def)
    qed
  qed
qed

text \<open>What the loop over the files leaves: whole entries of a first part of them, and at most one entry that was cut short.\<close>

definition stored_part :: "zip_env \<Rightarrow> (string \<times> string) list \<Rightarrow> zip_entry list \<Rightarrow> bool" where
  "stored_part env items entries \<longleftrightarrow> (\<exists>whole rest. items = whole @ rest
    \<and> (entries = map (whole_entry env) whole \<or> (\<exists>e. rest \<noteq> [] \<and> ze_name e = snd (hd rest) \<and> entries = map (whole_entry env) whole @ [e])))"

lemma stored_part_none: "stored_part env items []"
  unfolding stored_part_def by (rule exI [of _ "[]"]) simp

lemma stored_part_one: "ze_name e = rel \<Longrightarrow> stored_part env ((absp, rel) # items) [e]"
  unfolding stored_part_def by (rule exI [of _ "[]"]) simp

lemma stored_part_Cons:
  assumes "stored_part env items entries"
  shows "stored_part env (item # items) (whole_entry env item # entries)"
proof -
  from assms obtain whole rest where "items = whole @ rest"
      "entries = map (whole_entry env) whole \<or> (\<exists>e. rest \<noteq> [] \<and> ze_name e = snd (hd rest) \<and> entries = map (whole_entry env) whole @ [e])"
    unfolding stored_part_def by blast
  then show ?thesis unfolding stored_part_def by (intro exI [of _ "item # whole"] exI [of _ rest]) auto
qed

lemma flush_loop_spec:
  assumes r: "readable env"
  shows "\<exists>ret new. flush_loop env notify n i items entries = Some (ret, entries @ new) \<and> stored_part env items new
    \<and> (ret \<longrightarrow> new = map (whole_entry env) items) \<and> ((\<forall>a b. \<not> stops notify a b) \<and> list_all (storable env) items \<longrightarrow> ret)"
proof (induction items arbitrary: i entries)
  case Nil then show ?case by (auto simp: stored_part_none)
next
  case (Cons item items)
  obtain absp rel where item: "item = (absp, rel)" by (cases item)
  show ?case
  proof (cases "stops notify (int (100 * i div n)) UNSET_PROGRESS")
    case True
    then have "flush_loop env notify n i (item # items) entries = Some (False, entries @ [])" by (simp add: item)
    with True show ?thesis using stored_part_none by blast
  next
    case False
    show ?thesis using r
    proof (cases rule: AddFileEntryToZip_cases [where rel = rel and absp = absp and entries = entries])
      case kept_whole
      obtain ret new where "flush_loop env notify n (Suc i) items (entries @ [whole_entry env item]) = Some (ret, (entries @ [whole_entry env item]) @ new)"
          "stored_part env items new" "ret \<longrightarrow> new = map (whole_entry env) items"
          "(\<forall>a b. \<not> stops notify a b) \<and> list_all (storable env) items \<longrightarrow> ret"
        using Cons.IH by blast
      with False kept_whole show ?thesis
        by (intro exI [of _ ret] exI [of _ "whole_entry env item # new"]) (auto simp: item intro: stored_part_Cons)
    next
      case (failed e more)
      then have "stored_part env (item # items) more" by (auto simp: item intro: stored_part_none stored_part_one)
      moreover have "flush_loop env notify n i (item # items) entries = Some (False, entries @ more)" using False failed(1) by (simp add: item)
      moreover have "\<not> list_all (storable env) (item # items)" using failed(3) by (simp add: item)
      ultimately show ?thesis by blast
    qed
  qed
qed

end
