(* ===== verification/Archive_Properties.thy ===== *)
theory Archive_Properties
  imports Zip_Output_Facts Zip_Writer
begin

text \<open>The properties of the compressed output and of the archives of folders.\<close>








end
