(* ===== verification/Dump_Broker.thy ===== *)
theory Dump_Broker
  imports Cpu_Service Service_Scan Dump_Implement
begin

text \<open>
  The broker between clients and the dump service: \<^verbatim>\<open>src/services/zidl/src/dump_broker_proxy.cpp\<close> and
  \<^verbatim>\<open>dump_broker_stub.cpp\<close>. The parcel and \<open>SendRequest\<close> belong to the IPC library and are parameters. 32-bit integers are words. The
  state of the service is \<open>'w\<close>.
\<close>

section \<open>The IPC library\<close>

record 'p broker_ops =
  bp_base :: "'p parcel_ops"
  bp_new :: 'p
  WriteInterfaceToken :: "string \<Rightarrow> 'p \<Rightarrow> 'p option"
  WriteString16Vector :: "string list \<Rightarrow> 'p \<Rightarrow> 'p option"
  WriteFileDescriptor :: "int \<Rightarrow> 'p \<Rightarrow> 'p option"
  WriteInt32Vector :: "32 word list \<Rightarrow> 'p \<Rightarrow> 'p option"
  ReadInterfaceToken :: "'p \<Rightarrow> string \<times> 'p"
  ReadString16Vector :: "'p \<Rightarrow> (string list \<times> 'p) option"
  ReadFileDescriptor :: "'p \<Rightarrow> int \<times> 'p"
  ReadUint32 :: "'p \<Rightarrow> (32 word \<times> 'p) option"
  ReadInt32Vector :: "'p \<Rightarrow> (32 word list \<times> 'p) option"

datatype HidumperServiceInterfaceCode = DUMP_REQUEST_FILEFD | SCAN_PID_OVER_LIMIT | COUNT_FD_NUMS | SCAN_ORPHAN_VNODE_OVER_LIMIT

type_synonym ('p, 'w) send = "HidumperServiceInterfaceCode \<Rightarrow> 'p \<Rightarrow> 'p \<Rightarrow> 'w \<Rightarrow> (32 word \<times> 'p) \<times> 'w"

definition ERR_OK :: "32 word" where "ERR_OK = 0"

text \<open>\<open>off\<close> is the offset of the subsystem, which \<open>ErrCodeOffset\<close> of the base library computes.\<close>

definition ERROR_WRITE_PARCEL :: "32 word \<Rightarrow> 32 word" where "ERROR_WRITE_PARCEL off = off"
definition ERROR_READ_PARCEL :: "32 word \<Rightarrow> 32 word" where "ERROR_READ_PARCEL off = off + 1"
definition ERROR_GET_SYSTEM_ABILITY_MANAGER :: "32 word \<Rightarrow> 32 word" where "ERROR_GET_SYSTEM_ABILITY_MANAGER off = off + 2"
definition ERROR_GET_DUMPER_SERVICE :: "32 word \<Rightarrow> 32 word" where "ERROR_GET_DUMPER_SERVICE off = off + 3"
definition ERROR_ADD_DEATH_RECIPIENT :: "32 word \<Rightarrow> 32 word" where "ERROR_ADD_DEATH_RECIPIENT off = off + 4"

definition descriptor :: string where "descriptor = ''ohos.HiviewDFX.HiDumper.IDumpBroker''"

text \<open>A write whose result is not looked at, and reads that return a default.\<close>

definition ignoring :: "('p \<Rightarrow> 'p option) \<Rightarrow> 'p \<Rightarrow> 'p" where
  "ignoring write p = (case write p of None \<Rightarrow> p | Some p1 \<Rightarrow> p1)"

definition read_string_value :: "'p broker_ops \<Rightarrow> 'p \<Rightarrow> string \<times> 'p" where
  "read_string_value b p = (case ReadString (bp_base b) p of None \<Rightarrow> ([], p) | Some r \<Rightarrow> r)"

definition read_int_value :: "'p broker_ops \<Rightarrow> 'p \<Rightarrow> 32 word \<times> 'p" where
  "read_int_value b p = (case ReadInt32 (bp_base b) p of None \<Rightarrow> (0, p) | Some r \<Rightarrow> r)"

section \<open>The interface\<close>

text \<open>The service behind the stub; \<open>None\<close> is an exception that ends it.\<close>

record 'w IDumpBroker =
  db_Request :: "string list \<Rightarrow> int \<Rightarrow> 'w \<Rightarrow> (32 word \<times> 'w) option"
  db_ScanPidOverLimit :: "string \<Rightarrow> 32 word \<Rightarrow> 'w \<Rightarrow> (32 word \<times> 32 word list) option"
  db_CountFdNums :: "32 word \<Rightarrow> 'w \<Rightarrow> (32 word \<times> 32 word \<times> string \<times> string list) option"
  db_ScanOrphanVnodeOverLimit :: "32 word \<Rightarrow> 32 word \<Rightarrow> 'w \<Rightarrow> (32 word \<times> string list) option"

section \<open>The proxy\<close>

definition proxy_Request :: "'p broker_ops \<Rightarrow> 32 word \<Rightarrow> ('p, 'w) send option \<Rightarrow> string list \<Rightarrow> int \<Rightarrow> 'w \<Rightarrow> 32 word \<times> 'w" where
  "proxy_Request b off remote args outfd w =
    (case remote of None \<Rightarrow> (-1, w) | Some SendRequest \<Rightarrow>
     case WriteInterfaceToken b descriptor (bp_new b) of None \<Rightarrow> (-1, w) | Some d1 \<Rightarrow>
     case WriteString16Vector b args d1 of None \<Rightarrow> (ERROR_WRITE_PARCEL off, w) | Some d2 \<Rightarrow>
     case WriteFileDescriptor b outfd d2 of None \<Rightarrow> (ERROR_WRITE_PARCEL off, w) | Some d3 \<Rightarrow>
     case SendRequest DUMP_REQUEST_FILEFD d3 (bp_new b) w of ((res, reply), w1) \<Rightarrow>
       if res \<noteq> ERR_OK then (-1, w1)
       else case ReadInt32 (bp_base b) reply of None \<Rightarrow> (ERROR_READ_PARCEL off, w1) | Some (ret, _) \<Rightarrow> (ret, w1))"

definition proxy_ScanPidOverLimit ::
    "'p broker_ops \<Rightarrow> 32 word \<Rightarrow> ('p, 'w) send option \<Rightarrow> string \<Rightarrow> 32 word \<Rightarrow> 32 word list \<Rightarrow> 'w \<Rightarrow> (32 word \<times> 32 word list) \<times> 'w" where
  "proxy_ScanPidOverLimit b off remote requestType limitSize pidList w =
    (case remote of None \<Rightarrow> ((-1, pidList), w) | Some SendRequest \<Rightarrow>
     case WriteInterfaceToken b descriptor (bp_new b) of None \<Rightarrow> ((-1, pidList), w) | Some d1 \<Rightarrow>
     let d2 = ignoring (WriteString (bp_base b) requestType) d1;
         d3 = ignoring (WriteInt32 (bp_base b) limitSize) d2 in
     case SendRequest SCAN_PID_OVER_LIMIT d3 (bp_new b) w of ((res, reply), w1) \<Rightarrow>
       if res \<noteq> ERR_OK then ((-1, pidList), w1)
       else case ReadInt32Vector b reply of None \<Rightarrow> ((ERROR_READ_PARCEL off, pidList), w1) | Some (pidList1, r1) \<Rightarrow>
         case ReadInt32 (bp_base b) r1 of None \<Rightarrow> ((ERROR_READ_PARCEL off, pidList1), w1) | Some (ret, _) \<Rightarrow> ((ret, pidList1), w1))"

definition proxy_CountFdNums ::
    "'p broker_ops \<Rightarrow> 32 word \<Rightarrow> ('p, 'w) send option \<Rightarrow> 32 word \<Rightarrow> 32 word \<times> string \<times> string list \<Rightarrow> 'w
      \<Rightarrow> (32 word \<times> 32 word \<times> string \<times> string list) \<times> 'w" where
  "proxy_CountFdNums b off remote pid out w =
    (case remote of None \<Rightarrow> ((-1, out), w) | Some SendRequest \<Rightarrow>
     case WriteInterfaceToken b descriptor (bp_new b) of None \<Rightarrow> ((-1, out), w) | Some d1 \<Rightarrow>
     let d2 = ignoring (WriteInt32 (bp_base b) pid) d1 in
     case SendRequest COUNT_FD_NUMS d2 (bp_new b) w of ((res, reply), w1) \<Rightarrow>
       if res \<noteq> ERR_OK then ((-1, out), w1)
       else case out of (fdNums, detailFdInfo, topLeakedTypeList) \<Rightarrow>
         case ReadUint32 b reply of None \<Rightarrow> ((ERROR_READ_PARCEL off, out), w1) | Some (fdNums1, r1) \<Rightarrow>
         case ReadString (bp_base b) r1 of None \<Rightarrow> ((ERROR_READ_PARCEL off, fdNums1, detailFdInfo, topLeakedTypeList), w1) | Some (detailFdInfo1, r2) \<Rightarrow>
         case ReadStringVector (bp_base b) r2 of None \<Rightarrow> ((ERROR_READ_PARCEL off, fdNums1, detailFdInfo1, topLeakedTypeList), w1) | Some (types1, r3) \<Rightarrow>
         case ReadInt32 (bp_base b) r3 of None \<Rightarrow> ((ERROR_READ_PARCEL off, fdNums1, detailFdInfo1, types1), w1) | Some (ret, _) \<Rightarrow>
           ((ret, fdNums1, detailFdInfo1, types1), w1))"

definition proxy_ScanOrphanVnodeOverLimit ::
    "'p broker_ops \<Rightarrow> 32 word \<Rightarrow> ('p, 'w) send option \<Rightarrow> 32 word \<Rightarrow> 32 word \<Rightarrow> string list \<Rightarrow> 'w \<Rightarrow> (32 word \<times> string list) \<times> 'w" where
  "proxy_ScanOrphanVnodeOverLimit b off remote fdLeakThreshold orphanVnodeThreshold out w =
    (case remote of None \<Rightarrow> ((-1, out), w) | Some SendRequest \<Rightarrow>
     case WriteInterfaceToken b descriptor (bp_new b) of None \<Rightarrow> ((-1, out), w) | Some d1 \<Rightarrow>
     let d2 = ignoring (WriteInt32 (bp_base b) fdLeakThreshold) d1;
         d3 = ignoring (WriteInt32 (bp_base b) orphanVnodeThreshold) d2 in
     case SendRequest SCAN_ORPHAN_VNODE_OVER_LIMIT d3 (bp_new b) w of ((res, reply), w1) \<Rightarrow>
       if res \<noteq> ERR_OK then ((-1, out), w1)
       else case ReadStringVector (bp_base b) reply of None \<Rightarrow> ((ERROR_READ_PARCEL off, out), w1) | Some (out1, r1) \<Rightarrow>
         case ReadInt32 (bp_base b) r1 of None \<Rightarrow> ((ERROR_READ_PARCEL off, out1), w1) | Some (ret, _) \<Rightarrow> ((ret, out1), w1))"

section \<open>The stub\<close>

definition RequestFileFdStub :: "'p broker_ops \<Rightarrow> 32 word \<Rightarrow> 'w IDumpBroker \<Rightarrow> 'p \<Rightarrow> 'p \<Rightarrow> 'w \<Rightarrow> ((32 word \<times> 'p) \<times> 'w) option" where
  "RequestFileFdStub b off svc data reply w =
    (case ReadString16Vector b data of None \<Rightarrow> Some ((ERROR_READ_PARCEL off, reply), w) | Some (args, d1) \<Rightarrow>
     case ReadFileDescriptor b d1 of (outfd, _) \<Rightarrow>
       if outfd < 0 then Some ((ERROR_READ_PARCEL off, reply), w)
       else case db_Request svc args outfd w of None \<Rightarrow> None | Some (res, w1) \<Rightarrow>
         case WriteInt32 (bp_base b) res reply of
           None \<Rightarrow> Some ((ERROR_WRITE_PARCEL off, reply), w1) | Some r1 \<Rightarrow> Some ((ERR_OK, r1), w1))"

definition ScanPidOverLimitStub :: "'p broker_ops \<Rightarrow> 32 word \<Rightarrow> 'w IDumpBroker \<Rightarrow> 'p \<Rightarrow> 'p \<Rightarrow> 'w \<Rightarrow> ((32 word \<times> 'p) \<times> 'w) option" where
  "ScanPidOverLimitStub b off svc data reply w =
    (case read_string_value b data of (requestType, d1) \<Rightarrow>
     case read_int_value b d1 of (limitSize, _) \<Rightarrow>
     case db_ScanPidOverLimit svc requestType limitSize w of None \<Rightarrow> None | Some (ret, pidList) \<Rightarrow>
     case WriteInt32Vector b pidList reply of None \<Rightarrow> Some ((ERROR_WRITE_PARCEL off, reply), w) | Some r1 \<Rightarrow>
     case WriteInt32 (bp_base b) ret r1 of None \<Rightarrow> Some ((ERROR_WRITE_PARCEL off, r1), w) | Some r2 \<Rightarrow> Some ((ret, r2), w))"

definition CountFdNumsStub :: "'p broker_ops \<Rightarrow> 32 word \<Rightarrow> 'w IDumpBroker \<Rightarrow> 'p \<Rightarrow> 'p \<Rightarrow> 'w \<Rightarrow> ((32 word \<times> 'p) \<times> 'w) option" where
  "CountFdNumsStub b off svc data reply w =
    (case read_int_value b data of (pid, _) \<Rightarrow>
     case db_CountFdNums svc pid w of None \<Rightarrow> None | Some (ret, fdNums, detailFdInfo, topLeakedTypeList) \<Rightarrow>
     case WriteInt32 (bp_base b) fdNums reply of None \<Rightarrow> Some ((ERROR_WRITE_PARCEL off, reply), w) | Some r1 \<Rightarrow>
     case WriteString (bp_base b) detailFdInfo r1 of None \<Rightarrow> Some ((ERROR_WRITE_PARCEL off, r1), w) | Some r2 \<Rightarrow>
     case WriteStringVector (bp_base b) topLeakedTypeList r2 of None \<Rightarrow> Some ((ERROR_WRITE_PARCEL off, r2), w) | Some r3 \<Rightarrow>
     case WriteInt32 (bp_base b) ret r3 of None \<Rightarrow> Some ((ERROR_WRITE_PARCEL off, r3), w) | Some r4 \<Rightarrow> Some ((ret, r4), w))"

definition ScanOrphanVnodeOverLimitStub :: "'p broker_ops \<Rightarrow> 32 word \<Rightarrow> 'w IDumpBroker \<Rightarrow> 'p \<Rightarrow> 'p \<Rightarrow> 'w \<Rightarrow> ((32 word \<times> 'p) \<times> 'w) option" where
  "ScanOrphanVnodeOverLimitStub b off svc data reply w =
    (case read_int_value b data of (fdLeakThreshold, d1) \<Rightarrow>
     case read_int_value b d1 of (orphanVnodeThreshold, _) \<Rightarrow>
     case db_ScanOrphanVnodeOverLimit svc fdLeakThreshold orphanVnodeThreshold w of None \<Rightarrow> None | Some (ret, infos) \<Rightarrow>
     case WriteStringVector (bp_base b) infos reply of None \<Rightarrow> Some ((ERROR_WRITE_PARCEL off, reply), w) | Some r1 \<Rightarrow>
     case WriteInt32 (bp_base b) ret r1 of None \<Rightarrow> Some ((ERROR_WRITE_PARCEL off, r1), w) | Some r2 \<Rightarrow> Some ((ret, r2), w))"

text \<open>Other codes go to the library and are left out.\<close>

definition OnRemoteRequest :: "'p broker_ops \<Rightarrow> 32 word \<Rightarrow> 'w IDumpBroker \<Rightarrow> HidumperServiceInterfaceCode \<Rightarrow> 'p \<Rightarrow> 'p \<Rightarrow> 'w
    \<Rightarrow> ((32 word \<times> 'p) \<times> 'w) option" where
  "OnRemoteRequest b off svc code data reply w =
    (case ReadInterfaceToken b data of (remoteDescripter, d1) \<Rightarrow>
     if descriptor \<noteq> remoteDescripter then Some ((ERROR_GET_DUMPER_SERVICE off, reply), w)
     else case code of
         DUMP_REQUEST_FILEFD \<Rightarrow> RequestFileFdStub b off svc d1 reply w
       | SCAN_PID_OVER_LIMIT \<Rightarrow> ScanPidOverLimitStub b off svc d1 reply w
       | COUNT_FD_NUMS \<Rightarrow> CountFdNumsStub b off svc d1 reply w
       | SCAN_ORPHAN_VNODE_OVER_LIMIT \<Rightarrow> ScanOrphanVnodeOverLimitStub b off svc d1 reply w)"

section \<open>The dump service behind the broker\<close>

text \<open>\<open>request\<close> stands for \<open>DumpManagerService::Request\<close>, the steps of which \<open>Manager_Service\<close> models.\<close>

definition scan_service :: "scan_env \<Rightarrow> (string list \<Rightarrow> int \<Rightarrow> 'w \<Rightarrow> (32 word \<times> 'w) option) \<Rightarrow> 'w IDumpBroker" where
  "scan_service env request =
    \<lparr>db_Request = request,
     db_ScanPidOverLimit = (\<lambda>t n w. map_option (\<lambda>(st, pids). (word_of_int (status_code st), map word_of_int pids)) (ScanPidOverLimit env t (sint n) [])),
     db_CountFdNums = (\<lambda>pid w. map_option (\<lambda>(st, r). (word_of_int (status_code st), of_nat (fr_nums r), fr_detail r, fr_types r))
       (CountFdNums env (sint pid) \<lparr>fr_nums = 0, fr_detail = [], fr_types = []\<rparr>)),
     db_ScanOrphanVnodeOverLimit = (\<lambda>m n w. map_option (\<lambda>(st, infos). (word_of_int (status_code st), infos)) (ScanOrphanVnodeOverLimit env (sint m) (sint n) []))\<rparr>"

end
