(* ===== verification/Broker_Facts.thy ===== *)
theory Broker_Facts
  imports Dump_Broker
begin

text \<open>What the broker delivers, given what the IPC library promises.\<close>

section \<open>The promises of the library\<close>

text \<open>The descriptor that arrives is a duplicate in the receiving process, with a number of its own.\<close>

locale broker_parcel = parcel "bp_base b" contents for b :: "'p broker_ops" and contents :: "'p \<Rightarrow> parcel_item list" +
  fixes dup :: "int \<Rightarrow> int"
  assumes new_empty: "contents (bp_new b) = []"
    and write_token: "WriteInterfaceToken b t p = Some p' \<Longrightarrow> contents p' = contents p @ [TokenItem t]"
    and write_vector16: "WriteString16Vector b v p = Some p' \<Longrightarrow> contents p' = contents p @ [Vector16Item v]"
    and write_fd: "WriteFileDescriptor b fd p = Some p' \<Longrightarrow> contents p' = contents p @ [FdItem fd]"
    and write_ints: "WriteInt32Vector b is p = Some p' \<Longrightarrow> contents p' = contents p @ [IntVectorItem is]"
    and read_token: "contents p = TokenItem t # r \<Longrightarrow> \<exists>p'. ReadInterfaceToken b p = (t, p') \<and> contents p' = r"
    and read_vector16: "contents p = Vector16Item v # r \<Longrightarrow> \<exists>p'. ReadString16Vector b p = Some (v, p') \<and> contents p' = r"
    and read_fd: "contents p = FdItem fd # r \<Longrightarrow> \<exists>p'. ReadFileDescriptor b p = (dup fd, p') \<and> contents p' = r"
    and read_uint: "contents p = IntItem i # r \<Longrightarrow> \<exists>p'. ReadUint32 b p = Some (i, p') \<and> contents p' = r"
    and read_ints: "contents p = IntVectorItem is # r \<Longrightarrow> \<exists>p'. ReadInt32Vector b p = Some (is, p') \<and> contents p' = r"
    and dup_valid: "0 \<le> dup fd"

text \<open>\<open>SendRequest\<close> returns what the stub answered, or an error of its own.\<close>

definition delivers :: "('p, 'w) send \<Rightarrow> 'p broker_ops \<Rightarrow> 32 word \<Rightarrow> 'w IDumpBroker \<Rightarrow> bool" where
  "delivers send b off svc \<longleftrightarrow>
    (\<forall>code data reply w. fst (fst (send code data reply w)) \<noteq> ERR_OK \<or> OnRemoteRequest b off svc code data reply w = Some (send code data reply w))"

text \<open>No message is too large for the parcel.\<close>

definition roomy :: "'p broker_ops \<Rightarrow> bool" where
  "roomy b \<longleftrightarrow> (\<forall>s p. WriteString (bp_base b) s p \<noteq> None) \<and> (\<forall>i p. WriteInt32 (bp_base b) i p \<noteq> None)
    \<and> (\<forall>v p. WriteStringVector (bp_base b) v p \<noteq> None) \<and> (\<forall>t p. WriteInterfaceToken b t p \<noteq> None)
    \<and> (\<forall>v p. WriteString16Vector b v p \<noteq> None) \<and> (\<forall>fd p. WriteFileDescriptor b fd p \<noteq> None) \<and> (\<forall>is p. WriteInt32Vector b is p \<noteq> None)"

context broker_parcel
begin

lemma token_passes:
  assumes "contents data = TokenItem descriptor # r"
  obtains d1 where "contents d1 = r" "OnRemoteRequest b off svc code data reply w =
    (case code of
       DUMP_REQUEST_FILEFD \<Rightarrow> RequestFileFdStub b off svc d1 reply w
     | SCAN_PID_OVER_LIMIT \<Rightarrow> ScanPidOverLimitStub b off svc d1 reply w
     | COUNT_FD_NUMS \<Rightarrow> CountFdNumsStub b off svc d1 reply w
     | SCAN_ORPHAN_VNODE_OVER_LIMIT \<Rightarrow> ScanOrphanVnodeOverLimitStub b off svc d1 reply w)"
  using read_token [OF assms] by (auto simp: OnRemoteRequest_def)

lemma string_value: "contents p = StringItem s # r \<Longrightarrow> \<exists>p'. read_string_value b p = (s, p') \<and> contents p' = r"
  using read_string [of p s r] by (auto simp: read_string_value_def)

lemma int_value: "contents p = IntItem i # r \<Longrightarrow> \<exists>p'. read_int_value b p = (i, p') \<and> contents p' = r"
  using read_int [of p i r] by (auto simp: read_int_value_def)

text \<open>What each stub does with a complete message. When it reports success, the reply holds the whole answer.\<close>

lemma RequestFileFdStub_answer:
  assumes "contents data = [Vector16Item args, FdItem fd]" "contents reply = []" "off \<noteq> 0"
    and "RequestFileFdStub b off svc data reply w = Some ((ERR_OK, reply'), w')"
  shows "\<exists>res. db_Request svc args (dup fd) w = Some (res, w') \<and> contents reply' = [IntItem res]"
proof -
  from read_vector16 [OF assms(1)] obtain d1 where d1: "ReadString16Vector b data = Some (args, d1)" "contents d1 = [FdItem fd]" by blast
  from read_fd [OF d1(2)] obtain d2 where "ReadFileDescriptor b d1 = (dup fd, d2)" by blast
  with d1(1) assms(2-4) dup_valid [of fd] show ?thesis
    by (auto simp: RequestFileFdStub_def ERROR_WRITE_PARCEL_def ERR_OK_def split: option.splits dest!: write_int)
qed

lemma ScanPidOverLimitStub_answer:
  assumes "contents data = [StringItem t, IntItem n]" "contents reply = []" "off \<noteq> 0"
    and "ScanPidOverLimitStub b off svc data reply w = Some ((ERR_OK, reply'), w')"
  shows "\<exists>pids. db_ScanPidOverLimit svc t n w = Some (0, pids) \<and> w' = w \<and> contents reply' = [IntVectorItem pids, IntItem 0]"
proof -
  from string_value [OF assms(1)] obtain d1 where d1: "read_string_value b data = (t, d1)" "contents d1 = [IntItem n]" by blast
  from int_value [OF d1(2)] obtain d2 where "read_int_value b d1 = (n, d2)" by blast
  with d1(1) assms(2-4) show ?thesis
    by (auto simp: ScanPidOverLimitStub_def ERROR_WRITE_PARCEL_def ERR_OK_def split: option.splits dest!: write_int write_ints)
qed

lemma CountFdNumsStub_answer:
  assumes "contents data = [IntItem pid]" "contents reply = []" "off \<noteq> 0"
    and "CountFdNumsStub b off svc data reply w = Some ((ERR_OK, reply'), w')"
  shows "\<exists>n detail types. db_CountFdNums svc pid w = Some (0, n, detail, types) \<and> w' = w
    \<and> contents reply' = [IntItem n, StringItem detail, VectorItem types, IntItem 0]"
proof -
  from int_value [OF assms(1)] obtain d1 where "read_int_value b data = (pid, d1)" by blast
  with assms(2-4) show ?thesis
    by (auto simp: CountFdNumsStub_def ERROR_WRITE_PARCEL_def ERR_OK_def split: option.splits dest!: write_int write_string write_vector)
qed

lemma ScanOrphanVnodeOverLimitStub_answer:
  assumes "contents data = [IntItem m, IntItem n]" "contents reply = []" "off \<noteq> 0"
    and "ScanOrphanVnodeOverLimitStub b off svc data reply w = Some ((ERR_OK, reply'), w')"
  shows "\<exists>infos. db_ScanOrphanVnodeOverLimit svc m n w = Some (0, infos) \<and> w' = w \<and> contents reply' = [VectorItem infos, IntItem 0]"
proof -
  from int_value [OF assms(1)] obtain d1 where d1: "read_int_value b data = (m, d1)" "contents d1 = [IntItem n]" by blast
  from int_value [OF d1(2)] obtain d2 where "read_int_value b d1 = (n, d2)" by blast
  with d1(1) assms(2-4) show ?thesis
    by (auto simp: ScanOrphanVnodeOverLimitStub_def ERROR_WRITE_PARCEL_def ERR_OK_def split: option.splits dest!: write_int write_vector)
qed

text \<open>With room in the parcels the status of the stub is the status of the service.\<close>

lemma roomy_writes:
  assumes "roomy b"
  shows "\<exists>p'. WriteString (bp_base b) s p = Some p'" "\<exists>p'. WriteInt32 (bp_base b) i p = Some p'" "\<exists>p'. WriteStringVector (bp_base b) v p = Some p'"
    "\<exists>p'. WriteInterfaceToken b t p = Some p'" "\<exists>p'. WriteString16Vector b v p = Some p'" "\<exists>p'. WriteFileDescriptor b fd p = Some p'"
    "\<exists>p'. WriteInt32Vector b is p = Some p'"
  using assms unfolding roomy_def by auto

lemma RequestFileFdStub_status:
  assumes "roomy b" "contents data = [Vector16Item args, FdItem fd]" "db_Request svc args (dup fd) w = Some (res, w')"
  shows "\<exists>r. RequestFileFdStub b off svc data reply w = Some ((ERR_OK, r), w')"
proof -
  from read_vector16 [OF assms(2)] obtain d1 where d1: "ReadString16Vector b data = Some (args, d1)" "contents d1 = [FdItem fd]" by blast
  from read_fd [OF d1(2)] obtain d2 where "ReadFileDescriptor b d1 = (dup fd, d2)" by blast
  moreover obtain r1 where "WriteInt32 (bp_base b) res reply = Some r1" using roomy_writes(2) [OF assms(1)] by blast
  ultimately show ?thesis using d1(1) assms(3) dup_valid [of fd] by (simp add: RequestFileFdStub_def)
qed

lemma ScanPidOverLimitStub_status:
  assumes "roomy b" "contents data = [StringItem t, IntItem n]" "db_ScanPidOverLimit svc t n w = Some (st, pids)"
  shows "\<exists>r. ScanPidOverLimitStub b off svc data reply w = Some ((st, r), w)"
proof -
  from string_value [OF assms(2)] obtain d1 where d1: "read_string_value b data = (t, d1)" "contents d1 = [IntItem n]" by blast
  from int_value [OF d1(2)] obtain d2 where "read_int_value b d1 = (n, d2)" by blast
  moreover obtain r1 where "WriteInt32Vector b pids reply = Some r1" using roomy_writes(7) [OF assms(1)] by blast
  moreover obtain r2 where "WriteInt32 (bp_base b) st r1 = Some r2" using roomy_writes(2) [OF assms(1)] by blast
  ultimately show ?thesis using d1(1) assms(3) by (simp add: ScanPidOverLimitStub_def)
qed

lemma CountFdNumsStub_status:
  assumes "roomy b" "contents data = [IntItem pid]" "db_CountFdNums svc pid w = Some (st, n, detail, types)"
  shows "\<exists>r. CountFdNumsStub b off svc data reply w = Some ((st, r), w)"
proof -
  from int_value [OF assms(2)] obtain d1 where "read_int_value b data = (pid, d1)" by blast
  moreover obtain r1 where "WriteInt32 (bp_base b) n reply = Some r1" using roomy_writes(2) [OF assms(1)] by blast
  moreover obtain r2 where "WriteString (bp_base b) detail r1 = Some r2" using roomy_writes(1) [OF assms(1)] by blast
  moreover obtain r3 where "WriteStringVector (bp_base b) types r2 = Some r3" using roomy_writes(3) [OF assms(1)] by blast
  moreover obtain r4 where "WriteInt32 (bp_base b) st r3 = Some r4" using roomy_writes(2) [OF assms(1)] by blast
  ultimately show ?thesis using assms(3) by (simp add: CountFdNumsStub_def)
qed

lemma ScanOrphanVnodeOverLimitStub_status:
  assumes "roomy b" "contents data = [IntItem m, IntItem n]" "db_ScanOrphanVnodeOverLimit svc m n w = Some (st, infos)"
  shows "\<exists>r. ScanOrphanVnodeOverLimitStub b off svc data reply w = Some ((st, r), w)"
proof -
  from int_value [OF assms(2)] obtain d1 where d1: "read_int_value b data = (m, d1)" "contents d1 = [IntItem n]" by blast
  from int_value [OF d1(2)] obtain d2 where "read_int_value b d1 = (n, d2)" by blast
  moreover obtain r1 where "WriteStringVector (bp_base b) infos reply = Some r1" using roomy_writes(3) [OF assms(1)] by blast
  moreover obtain r2 where "WriteInt32 (bp_base b) st r1 = Some r2" using roomy_writes(2) [OF assms(1)] by blast
  ultimately show ?thesis using d1(1) assms(3) by (simp add: ScanOrphanVnodeOverLimitStub_def)
qed

text \<open>One exchange, from the proxy over the stub and back.\<close>

lemma message_start:
  assumes "WriteInterfaceToken b descriptor (bp_new b) = Some d1"
  shows "contents d1 = [TokenItem descriptor]"
  using write_token [OF assms] new_empty by simp

lemma delivered:
  assumes "delivers send b off svc" "send code data reply w = ((ERR_OK, reply'), w')"
  shows "OnRemoteRequest b off svc code data reply w = Some ((ERR_OK, reply'), w')"
proof -
  from assms(1) have "fst (fst (send code data reply w)) \<noteq> ERR_OK \<or> OnRemoteRequest b off svc code data reply w = Some (send code data reply w)"
    unfolding delivers_def by blast
  with assms(2) show ?thesis by simp
qed

lemma proxy_Request_exchange:
  assumes "delivers send b off svc" "off \<noteq> 0"
  shows "fst (proxy_Request b off (Some send) args fd w) \<in> {-1, ERROR_WRITE_PARCEL off} \<and> \<not> roomy b
    \<or> (\<exists>data. contents data = [TokenItem descriptor, Vector16Item args, FdItem fd]
        \<and> (if fst (fst (send DUMP_REQUEST_FILEFD data (bp_new b) w)) = ERR_OK
           then db_Request svc args (dup fd) w = Some (proxy_Request b off (Some send) args fd w)
           else proxy_Request b off (Some send) args fd w = (-1, snd (send DUMP_REQUEST_FILEFD data (bp_new b) w))))"
proof (cases "WriteInterfaceToken b descriptor (bp_new b)")
  case None
  then show ?thesis by (auto simp: proxy_Request_def roomy_def)
next
  case d1: (Some d1)
  show ?thesis
  proof (cases "WriteString16Vector b args d1")
    case None
    with d1 show ?thesis by (auto simp: proxy_Request_def roomy_def)
  next
    case d2: (Some d2)
    show ?thesis
    proof (cases "WriteFileDescriptor b fd d2")
      case None
      with d1 d2 show ?thesis by (auto simp: proxy_Request_def roomy_def)
    next
      case d3: (Some d3)
      have c: "contents d3 = [TokenItem descriptor, Vector16Item args, FdItem fd]"
        using message_start [OF d1] write_vector16 [OF d2] write_fd [OF d3] by simp
      obtain res reply w1 where s: "send DUMP_REQUEST_FILEFD d3 (bp_new b) w = ((res, reply), w1)" by (metis surj_pair)
      have "db_Request svc args (dup fd) w = Some (proxy_Request b off (Some send) args fd w)" if ok: "res = ERR_OK"
      proof -
        obtain e1 where "contents e1 = [Vector16Item args, FdItem fd]" and e: "OnRemoteRequest b off svc DUMP_REQUEST_FILEFD d3 (bp_new b) w = RequestFileFdStub b off svc e1 (bp_new b) w"
          by (rule token_passes [OF c, of off svc DUMP_REQUEST_FILEFD "bp_new b" w]) simp
        with delivered [OF assms(1) s [unfolded ok]] have "RequestFileFdStub b off svc e1 (bp_new b) w = Some ((ERR_OK, reply), w1)" by simp
        from RequestFileFdStub_answer [OF \<open>contents e1 = [Vector16Item args, FdItem fd]\<close> new_empty assms(2) this] obtain ret where
          ret: "db_Request svc args (dup fd) w = Some (ret, w1)" "contents reply = [IntItem ret]" by blast
        from read_int [OF ret(2)] obtain r1 where "ReadInt32 (bp_base b) reply = Some (ret, r1)" by blast
        with ret(1) d1 d2 d3 s ok show ?thesis by (simp add: proxy_Request_def)
      qed
      moreover have "proxy_Request b off (Some send) args fd w = (-1, w1)" if "res \<noteq> ERR_OK"
        using that d1 d2 d3 s by (simp add: proxy_Request_def)
      ultimately show ?thesis using c s by (intro disjI2 exI [of _ d3]) simp
    qed
  qed
qed

lemma proxy_ScanPidOverLimit_exchange:
  assumes "roomy b" "delivers send b off svc" "off \<noteq> 0"
  shows "\<exists>data. contents data = [TokenItem descriptor, StringItem t, IntItem n]
    \<and> (if fst (fst (send SCAN_PID_OVER_LIMIT data (bp_new b) w)) = ERR_OK
       then \<exists>pids. db_ScanPidOverLimit svc t n w = Some (0, pids) \<and> proxy_ScanPidOverLimit b off (Some send) t n pidList w = ((0, pids), w)
       else proxy_ScanPidOverLimit b off (Some send) t n pidList w = ((-1, pidList), snd (send SCAN_PID_OVER_LIMIT data (bp_new b) w)))"
proof -
  obtain d1 where d1: "WriteInterfaceToken b descriptor (bp_new b) = Some d1" using roomy_writes(4) [OF assms(1)] by blast
  obtain d2 where d2: "WriteString (bp_base b) t d1 = Some d2" using roomy_writes(1) [OF assms(1)] by blast
  obtain d3 where d3: "WriteInt32 (bp_base b) n d2 = Some d3" using roomy_writes(2) [OF assms(1)] by blast
  have c: "contents d3 = [TokenItem descriptor, StringItem t, IntItem n]"
    using message_start [OF d1] write_string [OF d2] write_int [OF d3] by simp
  obtain res reply w1 where s: "send SCAN_PID_OVER_LIMIT d3 (bp_new b) w = ((res, reply), w1)" by (metis surj_pair)
  have "\<exists>pids. db_ScanPidOverLimit svc t n w = Some (0, pids) \<and> proxy_ScanPidOverLimit b off (Some send) t n pidList w = ((0, pids), w)" if ok: "res = ERR_OK"
  proof -
    obtain e1 where "contents e1 = [StringItem t, IntItem n]" and e: "OnRemoteRequest b off svc SCAN_PID_OVER_LIMIT d3 (bp_new b) w = ScanPidOverLimitStub b off svc e1 (bp_new b) w"
      by (rule token_passes [OF c, of off svc SCAN_PID_OVER_LIMIT "bp_new b" w]) simp
    with delivered [OF assms(2) s [unfolded ok]] have "ScanPidOverLimitStub b off svc e1 (bp_new b) w = Some ((ERR_OK, reply), w1)" by simp
    from ScanPidOverLimitStub_answer [OF \<open>contents e1 = [StringItem t, IntItem n]\<close> new_empty assms(3) this] obtain pids where
      a: "db_ScanPidOverLimit svc t n w = Some (0, pids)" "w1 = w" "contents reply = [IntVectorItem pids, IntItem 0]" by blast
    from read_ints [OF a(3)] obtain r1 where r1: "ReadInt32Vector b reply = Some (pids, r1)" "contents r1 = [IntItem 0]" by blast
    from read_int [OF r1(2)] obtain r2 where "ReadInt32 (bp_base b) r1 = Some (0, r2)" by blast
    with r1(1) a(1,2) d1 d2 d3 s ok show ?thesis by (simp add: proxy_ScanPidOverLimit_def ignoring_def)
  qed
  moreover have "proxy_ScanPidOverLimit b off (Some send) t n pidList w = ((-1, pidList), w1)" if "res \<noteq> ERR_OK"
    using that d1 d2 d3 s by (simp add: proxy_ScanPidOverLimit_def ignoring_def)
  ultimately show ?thesis using c s by (intro exI [of _ d3]) simp
qed

lemma proxy_CountFdNums_exchange:
  assumes "roomy b" "delivers send b off svc" "off \<noteq> 0"
  shows "\<exists>data. contents data = [TokenItem descriptor, IntItem pid]
    \<and> (if fst (fst (send COUNT_FD_NUMS data (bp_new b) w)) = ERR_OK
       then \<exists>answer. db_CountFdNums svc pid w = Some (0, answer) \<and> proxy_CountFdNums b off (Some send) pid out w = ((0, answer), w)
       else proxy_CountFdNums b off (Some send) pid out w = ((-1, out), snd (send COUNT_FD_NUMS data (bp_new b) w)))"
proof -
  obtain d1 where d1: "WriteInterfaceToken b descriptor (bp_new b) = Some d1" using roomy_writes(4) [OF assms(1)] by blast
  obtain d2 where d2: "WriteInt32 (bp_base b) pid d1 = Some d2" using roomy_writes(2) [OF assms(1)] by blast
  have c: "contents d2 = [TokenItem descriptor, IntItem pid]" using message_start [OF d1] write_int [OF d2] by simp
  obtain res reply w1 where s: "send COUNT_FD_NUMS d2 (bp_new b) w = ((res, reply), w1)" by (metis surj_pair)
  have "\<exists>answer. db_CountFdNums svc pid w = Some (0, answer) \<and> proxy_CountFdNums b off (Some send) pid out w = ((0, answer), w)" if ok: "res = ERR_OK"
  proof -
    obtain e1 where "contents e1 = [IntItem pid]" and e: "OnRemoteRequest b off svc COUNT_FD_NUMS d2 (bp_new b) w = CountFdNumsStub b off svc e1 (bp_new b) w"
      by (rule token_passes [OF c, of off svc COUNT_FD_NUMS "bp_new b" w]) simp
    with delivered [OF assms(2) s [unfolded ok]] have "CountFdNumsStub b off svc e1 (bp_new b) w = Some ((ERR_OK, reply), w1)" by simp
    from CountFdNumsStub_answer [OF \<open>contents e1 = [IntItem pid]\<close> new_empty assms(3) this] obtain n detail types where
      a: "db_CountFdNums svc pid w = Some (0, n, detail, types)" "w1 = w" "contents reply = [IntItem n, StringItem detail, VectorItem types, IntItem 0]" by blast
    from read_uint [OF a(3)] obtain r1 where r1: "ReadUint32 b reply = Some (n, r1)" "contents r1 = [StringItem detail, VectorItem types, IntItem 0]" by blast
    from read_string [OF r1(2)] obtain r2 where r2: "ReadString (bp_base b) r1 = Some (detail, r2)" "contents r2 = [VectorItem types, IntItem 0]" by blast
    from read_vector [OF r2(2)] obtain r3 where r3: "ReadStringVector (bp_base b) r2 = Some (types, r3)" "contents r3 = [IntItem 0]" by blast
    from read_int [OF r3(2)] obtain r4 where "ReadInt32 (bp_base b) r3 = Some (0, r4)" by blast
    with r1(1) r2(1) r3(1) a(1,2) d1 d2 s ok show ?thesis by (simp add: proxy_CountFdNums_def ignoring_def split: prod.splits)
  qed
  moreover have "proxy_CountFdNums b off (Some send) pid out w = ((-1, out), w1)" if "res \<noteq> ERR_OK"
    using that d1 d2 s by (simp add: proxy_CountFdNums_def ignoring_def)
  ultimately show ?thesis using c s by (intro exI [of _ d2]) simp
qed

lemma proxy_ScanOrphanVnodeOverLimit_exchange:
  assumes "roomy b" "delivers send b off svc" "off \<noteq> 0"
  shows "\<exists>data. contents data = [TokenItem descriptor, IntItem m, IntItem n]
    \<and> (if fst (fst (send SCAN_ORPHAN_VNODE_OVER_LIMIT data (bp_new b) w)) = ERR_OK
       then \<exists>infos. db_ScanOrphanVnodeOverLimit svc m n w = Some (0, infos) \<and> proxy_ScanOrphanVnodeOverLimit b off (Some send) m n out w = ((0, infos), w)
       else proxy_ScanOrphanVnodeOverLimit b off (Some send) m n out w = ((-1, out), snd (send SCAN_ORPHAN_VNODE_OVER_LIMIT data (bp_new b) w)))"
proof -
  obtain d1 where d1: "WriteInterfaceToken b descriptor (bp_new b) = Some d1" using roomy_writes(4) [OF assms(1)] by blast
  obtain d2 where d2: "WriteInt32 (bp_base b) m d1 = Some d2" using roomy_writes(2) [OF assms(1)] by blast
  obtain d3 where d3: "WriteInt32 (bp_base b) n d2 = Some d3" using roomy_writes(2) [OF assms(1)] by blast
  have c: "contents d3 = [TokenItem descriptor, IntItem m, IntItem n]"
    using message_start [OF d1] write_int [OF d2] write_int [OF d3] by simp
  obtain res reply w1 where s: "send SCAN_ORPHAN_VNODE_OVER_LIMIT d3 (bp_new b) w = ((res, reply), w1)" by (metis surj_pair)
  have "\<exists>infos. db_ScanOrphanVnodeOverLimit svc m n w = Some (0, infos) \<and> proxy_ScanOrphanVnodeOverLimit b off (Some send) m n out w = ((0, infos), w)"
    if ok: "res = ERR_OK"
  proof -
    obtain e1 where "contents e1 = [IntItem m, IntItem n]" and e: "OnRemoteRequest b off svc SCAN_ORPHAN_VNODE_OVER_LIMIT d3 (bp_new b) w = ScanOrphanVnodeOverLimitStub b off svc e1 (bp_new b) w"
      by (rule token_passes [OF c, of off svc SCAN_ORPHAN_VNODE_OVER_LIMIT "bp_new b" w]) simp
    with delivered [OF assms(2) s [unfolded ok]] have "ScanOrphanVnodeOverLimitStub b off svc e1 (bp_new b) w = Some ((ERR_OK, reply), w1)" by simp
    from ScanOrphanVnodeOverLimitStub_answer [OF \<open>contents e1 = [IntItem m, IntItem n]\<close> new_empty assms(3) this] obtain infos where
      a: "db_ScanOrphanVnodeOverLimit svc m n w = Some (0, infos)" "w1 = w" "contents reply = [VectorItem infos, IntItem 0]" by blast
    from read_vector [OF a(3)] obtain r1 where r1: "ReadStringVector (bp_base b) reply = Some (infos, r1)" "contents r1 = [IntItem 0]" by blast
    from read_int [OF r1(2)] obtain r2 where "ReadInt32 (bp_base b) r1 = Some (0, r2)" by blast
    with r1(1) a(1,2) d1 d2 d3 s ok show ?thesis by (simp add: proxy_ScanOrphanVnodeOverLimit_def ignoring_def)
  qed
  moreover have "proxy_ScanOrphanVnodeOverLimit b off (Some send) m n out w = ((-1, out), w1)" if "res \<noteq> ERR_OK"
    using that d1 d2 d3 s by (simp add: proxy_ScanOrphanVnodeOverLimit_def ignoring_def)
  ultimately show ?thesis using c s by (intro exI [of _ d3]) simp
qed

end

section \<open>A parcel that is a list\<close>

definition list_broker :: "parcel_item list broker_ops" where
  "list_broker =
    \<lparr>bp_base = list_parcel, bp_new = [],
     WriteInterfaceToken = (\<lambda>t p. Some (p @ [TokenItem t])), WriteString16Vector = (\<lambda>v p. Some (p @ [Vector16Item v])),
     WriteFileDescriptor = (\<lambda>fd p. Some (p @ [FdItem fd])), WriteInt32Vector = (\<lambda>is p. Some (p @ [IntVectorItem is])),
     ReadInterfaceToken = (\<lambda>p. case p of TokenItem t # r \<Rightarrow> (t, r) | _ \<Rightarrow> ([], p)),
     ReadString16Vector = (\<lambda>p. case p of Vector16Item v # r \<Rightarrow> Some (v, r) | _ \<Rightarrow> None),
     ReadFileDescriptor = (\<lambda>p. case p of FdItem fd # r \<Rightarrow> (\<bar>fd\<bar> + 1, r) | _ \<Rightarrow> (-1, p)),
     ReadUint32 = (\<lambda>p. case p of IntItem i # r \<Rightarrow> Some (i, r) | _ \<Rightarrow> None),
     ReadInt32Vector = (\<lambda>p. case p of IntVectorItem v # r \<Rightarrow> Some (v, r) | _ \<Rightarrow> None)\<rparr>"

interpretation list_ipc: broker_parcel list_broker "\<lambda>p. p" "\<lambda>fd. \<bar>fd\<bar> + 1"
  by unfold_locales (auto simp: list_broker_def list_parcel_def)

lemma list_broker_roomy: "roomy list_broker"
  by (simp add: roomy_def list_broker_def list_parcel_def)

end
