(* ===== verification/Broker_Properties.thy ===== *)
theory Broker_Properties
  imports Broker_Facts
begin

text \<open>The property of the broker.\<close>






section \<open>Exact answers\<close>










end
