(* ===== verification/Service_Clients.thy ===== *)
theory Service_Clients
  imports Broker_Facts
begin

text \<open>
  The clients of the services: \<^verbatim>\<open>src/services/native/src/dump_manager_client.cpp\<close>, \<^verbatim>\<open>dump_on_demand_load.cpp\<close> and
  \<^verbatim>\<open>dump_manager_cpu_client.cpp\<close>. The ability manager is a parameter; remote objects are of type \<open>'o\<close>.
\<close>

section \<open>The client of the dump service\<close>

definition SLEEP_DUR :: nat where "SLEEP_DUR = 5 * 1000 * 1000"
definition SLEEP_UNIT :: nat where "SLEEP_UNIT = 100 * 1000"

text \<open>The callback of the ability manager, which runs in another thread.\<close>

datatype load_event = LoadSuccess | LoadFail

definition on_load :: "load_event \<Rightarrow> bool \<Rightarrow> bool" where
  "on_load e isRemoteObject = (case e of LoadSuccess \<Rightarrow> True | LoadFail \<Rightarrow> False)"

text \<open>The flag of the callback after the events that came in before a round.\<close>

definition CheckLoadSystemAbilityStatus :: "(nat \<Rightarrow> load_event list) \<Rightarrow> nat \<Rightarrow> bool" where
  "CheckLoadSystemAbilityStatus events i = fold on_load (events i) False"

record 'o sam_env =
  sam_present :: bool \<comment> \<open>\<open>GetSystemAbilityManager\<close> is not null\<close>
  sam_check :: "'o option" \<comment> \<open>\<open>CheckSystemAbility\<close>, when the client starts\<close>
  sam_load :: bool \<comment> \<open>\<open>LoadSystemAbility\<close> returns \<open>ERR_OK\<close>\<close>
  sam_events :: "nat \<Rightarrow> load_event list" \<comment> \<open>what the callback got before a round\<close>
  sam_check_at :: "nat \<Rightarrow> 'o option" \<comment> \<open>\<open>CheckSystemAbility\<close> in a round\<close>

fun on_demand_loop :: "'o sam_env \<Rightarrow> nat \<Rightarrow> nat \<Rightarrow> 'o option" where
  "on_demand_loop env i 0 = None"
| "on_demand_loop env i (Suc loop) =
    (if \<not> CheckLoadSystemAbilityStatus (sam_events env) i then on_demand_loop env (Suc i) loop
     else case sam_check_at env i of Some remote \<Rightarrow> Some remote | None \<Rightarrow> on_demand_loop env (Suc i) loop)"

definition OnDemandStart :: "32 word \<Rightarrow> 'o sam_env \<Rightarrow> 32 word \<times> 'o option" where
  "OnDemandStart off env =
    (if \<not> sam_load env then (ERROR_GET_DUMPER_SERVICE off, None)
     else case on_demand_loop env 0 (SLEEP_DUR div SLEEP_UNIT) of
         Some remote \<Rightarrow> (ERR_OK, Some remote) | None \<Rightarrow> (ERROR_GET_DUMPER_SERVICE off, None))"

text \<open>\<open>trim\<close> is \<open>TrimStr\<close> after \<open>Str16ToStr8\<close>; \<open>cast\<close> is \<open>iface_cast\<close>, whose result is a proxy.\<close>

definition client_Request ::
    "32 word \<Rightarrow> (string \<Rightarrow> string) \<Rightarrow> 'o sam_env \<Rightarrow> ('o \<Rightarrow> (string list \<Rightarrow> int \<Rightarrow> 'w \<Rightarrow> 32 word \<times> 'w) option) \<Rightarrow> string list \<Rightarrow> int \<Rightarrow> 'w \<Rightarrow> 32 word \<times> 'w" where
  "client_Request off trim env cast args outfd w =
    (if args = [] \<or> outfd < 0 then (-1, w)
     else if \<exists>arg \<in> set args. c_str (trim arg) = [] then (-1, w)
     else if \<not> sam_present env then (ERROR_GET_SYSTEM_ABILITY_MANAGER off, w)
     else
       let remoteObject = (case sam_check env of Some remote \<Rightarrow> Some remote
           | None \<Rightarrow> (case OnDemandStart off env of (retStart, remote) \<Rightarrow> if retStart = ERR_OK then remote else None)) in
       case remoteObject of None \<Rightarrow> (ERROR_GET_DUMPER_SERVICE off, w) | Some remote \<Rightarrow>
         case cast remote of None \<Rightarrow> (-1, w) | Some proxy \<Rightarrow> proxy args outfd w)"

text \<open>Starting on demand succeeds exactly when in one of the fifty rounds the callback has fired and the service is registered.\<close>

lemma on_demand_loop_found:
  "(\<exists>remote. on_demand_loop env i n = Some remote)
    \<longleftrightarrow> (\<exists>k < n. CheckLoadSystemAbilityStatus (sam_events env) (i + k) \<and> sam_check_at env (i + k) \<noteq> None)"
proof (induction n arbitrary: i)
  case (Suc n)
  have "(\<exists>k < Suc n. P (i + k)) \<longleftrightarrow> P i \<or> (\<exists>k < n. P (Suc i + k))" for P
    by (auto simp: less_Suc_eq_0_disj)
  from this [of "\<lambda>j. CheckLoadSystemAbilityStatus (sam_events env) j \<and> sam_check_at env j \<noteq> None"] Suc.IH [of "Suc i"] show ?case
    by (cases "CheckLoadSystemAbilityStatus (sam_events env) i"; cases "sam_check_at env i") simp_all
qed simp

lemma OnDemandStart_ok:
  assumes "off + 3 \<noteq> 0"
  shows "fst (OnDemandStart off env) = ERR_OK \<longleftrightarrow>
    sam_load env \<and> (\<exists>k < 50. CheckLoadSystemAbilityStatus (sam_events env) k \<and> sam_check_at env k \<noteq> None)"
  using on_demand_loop_found [of env 0 50] assms
  by (auto simp: OnDemandStart_def SLEEP_DUR_def SLEEP_UNIT_def ERR_OK_def ERROR_GET_DUMPER_SERVICE_def split: option.splits)

text \<open>A refused request never reaches the service.\<close>

lemma client_Request_refused:
  "args = [] \<or> outfd < 0 \<or> (\<exists>arg \<in> set args. c_str (trim arg) = []) \<Longrightarrow> client_Request off trim env cast args outfd w = (-1, w)"
  by (auto simp: client_Request_def)

lemma client_Request_passes:
  assumes "args \<noteq> []" "outfd \<ge> 0" "\<forall>arg \<in> set args. c_str (trim arg) \<noteq> []" "sam_present env" "sam_check env = Some remote" "cast remote = Some proxy"
  shows "client_Request off trim env cast args outfd w = proxy args outfd w"
  using assms by (auto simp: client_Request_def)

section \<open>The client of the CPU service\<close>

record ('o, 'x) DumpManagerCpuClient =
  cc_proxy :: "'x option"
  cc_recipient :: bool \<comment> \<open>a death recipient was made\<close>
  cc_watched :: "'o list" \<comment> \<open>the remote objects that notify this client when they die\<close>

definition DumpManagerCpuClient_new :: "('o, 'x) DumpManagerCpuClient" where
  "DumpManagerCpuClient_new = \<lparr>cc_proxy = None, cc_recipient = False, cc_watched = []\<rparr>"

record ('o, 'x) cpu_sam =
  cp_present :: bool
  cp_check :: "'o option"
  cp_is_proxy :: "'o \<Rightarrow> bool"
  cp_add :: "'o \<Rightarrow> bool" \<comment> \<open>\<open>AddDeathRecipient\<close>\<close>
  cp_cast :: "'o \<Rightarrow> 'x option" \<comment> \<open>\<open>iface_cast\<close>\<close>
  cp_object :: "'x \<Rightarrow> 'o option" \<comment> \<open>\<open>AsObject\<close>\<close>

definition Connect :: "32 word \<Rightarrow> ('o, 'x) cpu_sam \<Rightarrow> ('o, 'x) DumpManagerCpuClient \<Rightarrow> 32 word \<times> ('o, 'x) DumpManagerCpuClient" where
  "Connect off env s =
    (if cc_proxy s \<noteq> None then (ERR_OK, s)
     else if \<not> cp_present env then (ERROR_GET_SYSTEM_ABILITY_MANAGER off, s)
     else case cp_check env of None \<Rightarrow> (ERROR_GET_DUMPER_SERVICE off, s) | Some remote \<Rightarrow>
       let s1 = s\<lparr>cc_recipient := True\<rparr> in
       if cp_is_proxy env remote \<and> \<not> cp_add env remote then (ERROR_ADD_DEATH_RECIPIENT off, s1)
       else (ERR_OK, s1\<lparr>cc_watched := (if cp_is_proxy env remote then remote # cc_watched s else cc_watched s), cc_proxy := cp_cast env remote\<rparr>))"

definition GetProxy :: "32 word \<Rightarrow> ('o, 'x) cpu_sam \<Rightarrow> ('o, 'x) DumpManagerCpuClient \<Rightarrow> 'x option \<times> ('o, 'x) DumpManagerCpuClient" where
  "GetProxy off env s = (case Connect off env s of (ret, s1) \<Rightarrow> if ret \<noteq> ERR_OK then (None, s1) else (cc_proxy s1, s1))"

text \<open>\<open>call\<close> is the method of the proxy that is asked; its arguments are part of it.\<close>

definition cpu_client_Request ::
    "32 word \<Rightarrow> ('o, 'x) cpu_sam \<Rightarrow> ('x \<Rightarrow> 32 word \<times> 'd) \<Rightarrow> 'd \<Rightarrow> ('o, 'x) DumpManagerCpuClient \<Rightarrow> (32 word \<times> 'd) \<times> ('o, 'x) DumpManagerCpuClient" where
  "cpu_client_Request off env call dumpCpuData s =
    (case GetProxy off env s of (None, s1) \<Rightarrow> ((-1, dumpCpuData), s1) | (Some proxy, s1) \<Rightarrow> (call proxy, s1))"

definition cpu_client_GetCpuUsageByPid ::
    "32 word \<Rightarrow> ('o, 'x) cpu_sam \<Rightarrow> ('x \<Rightarrow> 32 word \<times> 'd) \<Rightarrow> 'd \<Rightarrow> ('o, 'x) DumpManagerCpuClient \<Rightarrow> (32 word \<times> 'd) \<times> ('o, 'x) DumpManagerCpuClient" where
  "cpu_client_GetCpuUsageByPid off env call cpuUsage s =
    (case GetProxy off env s of (None, s1) \<Rightarrow> ((-1, cpuUsage), s1) | (Some proxy, s1) \<Rightarrow> (call proxy, s1))"

definition cpu_client_Reset :: "('o, 'x) cpu_sam \<Rightarrow> ('o, 'x) DumpManagerCpuClient \<Rightarrow> ('o, 'x) DumpManagerCpuClient" where
  "cpu_client_Reset env s =
    (case cc_proxy s of None \<Rightarrow> s | Some proxy \<Rightarrow>
     case cp_object env proxy of None \<Rightarrow> s | Some remote \<Rightarrow> s\<lparr>cc_watched := remove1 remote (cc_watched s), cc_proxy := None\<rparr>)"

text \<open>\<open>remote\<close> is the object that died, \<open>None\<close> when it is already gone.\<close>

definition ResetProxy :: "('o, 'x) cpu_sam \<Rightarrow> 'o option \<Rightarrow> ('o, 'x) DumpManagerCpuClient \<Rightarrow> ('o, 'x) DumpManagerCpuClient" where
  "ResetProxy env remote s =
    (case cc_proxy s of None \<Rightarrow> s | Some proxy \<Rightarrow>
     case cp_object env proxy of None \<Rightarrow> s | Some serviceRemote \<Rightarrow>
       if Some serviceRemote = remote then s\<lparr>cc_watched := remove1 serviceRemote (cc_watched s), cc_proxy := None\<rparr> else s)"

section \<open>A proxy is watched as long as it is used\<close>

text \<open>\<open>iface_cast\<close> makes a proxy of the object it is given, and objects of other processes are proxy objects.\<close>

definition honest :: "('o, 'x) cpu_sam \<Rightarrow> bool" where
  "honest env \<longleftrightarrow> (\<forall>remote proxy. cp_cast env remote = Some proxy \<longrightarrow> cp_object env proxy = Some remote) \<and> (\<forall>remote. cp_is_proxy env remote)"

definition cpu_client_inv :: "('o, 'x) cpu_sam \<Rightarrow> ('o, 'x) DumpManagerCpuClient \<Rightarrow> bool" where
  "cpu_client_inv env s \<longleftrightarrow> (\<forall>proxy. cc_proxy s = Some proxy \<longrightarrow> (\<exists>remote. cp_object env proxy = Some remote \<and> remote \<in> set (cc_watched s)))"

lemma cpu_client_inv_new: "cpu_client_inv env DumpManagerCpuClient_new"
  by (simp add: cpu_client_inv_def DumpManagerCpuClient_new_def)

lemma Connect_inv: "honest env \<Longrightarrow> cpu_client_inv env s \<Longrightarrow> cpu_client_inv env (snd (Connect off env s))"
  by (auto simp: honest_def cpu_client_inv_def Connect_def Let_def split: option.splits)

lemma GetProxy_inv: "honest env \<Longrightarrow> cpu_client_inv env s \<Longrightarrow> cpu_client_inv env (snd (GetProxy off env s))"
  using Connect_inv [of env s off] by (auto simp: GetProxy_def split: prod.splits)

lemma cpu_client_Reset_inv: "cpu_client_inv env s \<Longrightarrow> cpu_client_inv env (cpu_client_Reset env s)"
  by (auto simp: cpu_client_inv_def cpu_client_Reset_def split: option.splits)

lemma ResetProxy_inv: "cpu_client_inv env s \<Longrightarrow> cpu_client_inv env (ResetProxy env remote s)"
  by (auto simp: cpu_client_inv_def ResetProxy_def split: option.splits)

text \<open>After the death of its service the client asks the ability manager again.\<close>

lemma ResetProxy_reconnects:
  assumes "cpu_client_inv env s" "cc_proxy s = Some proxy" "cp_object env proxy = remote"
  shows "cc_proxy (ResetProxy env remote s) = None"
  using assms by (auto simp: cpu_client_inv_def ResetProxy_def split: option.splits)

end
