(* ===== verification/Spec2Isabelle.thy ===== *)
theory Spec2Isabelle
  imports Task_Properties Config_Properties Command_Properties Executor_Properties
    Service_Properties Request_Properties Memory_Properties Mem_Wrapper Archive_Properties Broker_Properties
    Service_Clients
begin

text \<open>
  HiDumper, the system information collector of OpenHarmony: a model of its two frameworks and the
  theorems that make them correct.

  \<^bold>\<open>The program.\<close> A request (a command line and an output descriptor) reaches the dump service.
  Two frameworks answer it. The task framework (\<^verbatim>\<open>src/frameworks/native/task\<close>,
  \<^verbatim>\<open>dump_strategy\<close>, \<^verbatim>\<open>data_inventory\<close>, \<^verbatim>\<open>manager\<close>) turns the options into root tasks,
  builds the graph of tasks they need, checks it, and runs it level by level on a thread pool;
  tasks exchange data through an inventory that is emptied of unneeded data between the levels.
  The classic framework (\<^verbatim>\<open>src/frameworks/native/src\<close>) turns the options into a list of
  configuration entries, read from static tables, and runs one executor per entry: dumpers,
  filters and outputs.

  \<^bold>\<open>Theories and the code they model.\<close>
  \<^item> \<open>Hidumper_Prelude\<close>: status codes, hash maps as association lists, list lemmas.
  \<^item> \<open>Data_Inventory\<close>: \<^verbatim>\<open>data_inventory.h/.cpp\<close> and \<^verbatim>\<open>utils/writer_utils.cpp\<close>. A stored pointer
    is a tagged value, so that a wrong cast is visible. The locale of first-wins stores is
    interpreted on \<open>Inject\<close>, \<open>GetPtr\<close> and \<open>RemoveRestData\<close>.
  \<^item> \<open>Task_Register\<close>: \<^verbatim>\<open>task.h\<close>, \<^verbatim>\<open>task_struct.h\<close>, \<^verbatim>\<open>task_register.cpp\<close>,
    \<^verbatim>\<open>task_enable_config.cpp\<close>, \<^verbatim>\<open>dump_context.h\<close>.
  \<^item> \<open>Task_Topo\<close>, \<open>Task_Verify\<close>, \<open>Task_Cache\<close>, \<open>Task_Exec\<close>, \<open>Task_Order\<close>, \<open>Task_Fresh\<close>:
    \<^verbatim>\<open>task_control.cpp\<close>. In this order: the graph search and the selection of runnable tasks; the
    verification and its exact specification by ranks; the least-recently-used cache of topologies
    with its list iterators; the execution of one topology; the order in which tasks run; whole
    requests, and why a cached topology is as good as a new one.
  \<^item> \<open>Dump_Strategy\<close>: \<^verbatim>\<open>dump_strategy_factory.cpp\<close> and the ten strategies.
  \<^item> \<open>Dumper_Tasks\<close>: every collector and writer under \<^verbatim>\<open>task/\<close>, the registry that their
    \<open>REGISTER\<close> macros build, and \<open>DumpManager::StartDump\<close>.
  \<^item> \<open>Getopt\<close>: what both parsers see of \<open>getopt_long\<close>. \<open>Cmd_Parse\<close>, \<open>Cmd_Parse_Facts\<close>: \<^verbatim>\<open>manager/cmd_parse.cpp\<close>,
    the command line of the task framework, and \<open>StartDump\<close> with this parser in front.
  \<^item> \<open>Dumper_Opts\<close>, \<open>Dump_Cfg\<close>: \<^verbatim>\<open>dumper_opts.cpp\<close>, \<^verbatim>\<open>dumper_parameter.cpp\<close>,
    \<^verbatim>\<open>dump_cfg.cpp\<close>, \<^verbatim>\<open>option_args.cpp\<close>.
  \<^item> \<open>Config_Data\<close>: the tables of \<^verbatim>\<open>config_data.cpp\<close>, entry by entry.
  \<^item> \<open>Config_Utils\<close>, \<open>Config_Facts\<close>: \<^verbatim>\<open>config_utils.cpp\<close>, every request handler, the expansion
    of groups and dumpers into trees, their flattening into the list the executor walks, and the
    lemmas that carry an invariant from one table item to the whole configuration.
  \<^item> \<open>Text_Lib\<close>: strings, numbers in text and C streams.
  \<^item> \<open>Dump_Utils\<close>, \<open>Common_Utils\<close>: \<^verbatim>\<open>dump_utils.cpp\<close>; \<^verbatim>\<open>dump_common_utils.cpp\<close> (process queries,
    usage statistics).
  \<^item> \<open>Cmd_Usage\<close>, \<open>Dump_Implement\<close>, \<open>Dump_Implement_Facts\<close>: the command line of
    \<^verbatim>\<open>dump_implement.cpp\<close>: help text, option handlers, messages, permission and parameter checks. The
    calls of \<open>getopt_long\<close> are a list of answers. The facts include the abstract option machine, an
    inductive step relation that the parser refines.
  \<^item> \<open>Raw_Param\<close>: \<^verbatim>\<open>raw_param.cpp\<close> and the client's \<^verbatim>\<open>dump_client_main.cpp\<close>.
  \<^item> \<open>Exec_Stream\<close>, \<open>Exec_Output\<close>, \<open>Exec_Dumpers\<close>, \<open>Exec_Memory\<close>, \<open>Fd_Thread\<close>, \<open>Event_Dumper\<close>: the
    executors under \<^verbatim>\<open>src/executor\<close>, one group of definitions per class.
  \<^item> \<open>Executor_Loop\<close>: the factories, \<open>setExecutorList\<close> and \<open>DumpDatas\<close>. \<open>Executor_Facts\<close>: the contract of
    the executors as the locale \<open>streaming\<close>, interpreted on all executors of the program, and the
    measure by which the loop ends. \<open>Stream_Facts\<close>: what a file dumper prints.
    \<open>Fd_Thread_Facts\<close>: the priority queue as the locale \<open>min_heap\<close>.
  \<^item> \<open>Dump_Main\<close>: \<open>DumpImplement::Main\<close>, the whole classic framework.
  \<^item> \<open>Zip_Cleaner\<close>: \<^verbatim>\<open>zip_file_cleaner.cpp\<close>. \<open>Manager_Service\<close>, \<open>Service_Facts\<close>, \<open>Service_Scan\<close>:
    \<^verbatim>\<open>dump_manager_service.cpp\<close> and \<^verbatim>\<open>dump_log_manager.cpp\<close>. Requests are threads of a step relation in
    which each critical section, flag and file system call is one step; the invariant is shown for four
    kinds of steps, of which every step is one.
  \<^item> \<open>Cpu_Service\<close>: \<^verbatim>\<open>dump_cpu_data.cpp\<close> and \<^verbatim>\<open>dump_manager_cpu_service.cpp\<close>. What the parcel of the IPC library
    promises is the locale \<open>parcel\<close>.
  \<^item> \<open>Mem_Util\<close>, \<open>Mem_Parse\<close>, \<open>Mem_Buffers\<close>, \<open>Mem_Sums\<close>: the helpers of the memory library under
    \<^verbatim>\<open>src/executor/memory\<close>, the parsers of the files in \<^verbatim>\<open>/proc\<close>, and the sums of the overview, on 64-bit words.
    \<open>Mem_Pid\<close>, \<open>Mem_Watch\<close>, \<open>Mem_Overview\<close>: \<^verbatim>\<open>memory_info.cpp\<close>, the members of the class as one record.
    \<open>Smaps_Info\<close>: \<^verbatim>\<open>smaps_memory_info.cpp\<close>; what the code does with one column of the table is the locale \<open>smaps_column\<close>,
    interpreted on all nine. \<open>Mem_Wrapper\<close>: \<^verbatim>\<open>memory_info_wrapper.cpp\<close>. \<open>Mem_Facts\<close>, \<open>Mem_State_Facts\<close>: sums, order,
    and the object between requests. \<open>Mem_Watch_Facts\<close>: a terminal, and what the samples leave on it.
  \<^item> \<open>Zip_Output\<close>, \<open>Zip_Output_Facts\<close>: \<^verbatim>\<open>zip_output.cpp\<close> and \<^verbatim>\<open>dump_compressor.cpp\<close>, and what they write, given what zlib
    documents. \<open>Zip_Writer\<close>: \<^verbatim>\<open>zip/zip_writer.cpp\<close> and \<^verbatim>\<open>zip_utils.cpp\<close>; an archive is the list of its entries.
  \<^item> \<open>Dump_Broker\<close>, \<open>Broker_Facts\<close>: \<^verbatim>\<open>dump_broker_proxy.cpp\<close> and \<^verbatim>\<open>dump_broker_stub.cpp\<close>; the locale \<open>broker_parcel\<close> extends
    \<open>parcel\<close> by the items of their messages. \<open>Service_Clients\<close>: \<^verbatim>\<open>dump_manager_client.cpp\<close>, \<^verbatim>\<open>dump_on_demand_load.cpp\<close> and
    \<^verbatim>\<open>dump_manager_cpu_client.cpp\<close>; a proxy of the CPU client is watched as long as it is used.
  \<^item> \<open>Task_Properties\<close>, \<open>Config_Properties\<close>, \<open>Command_Properties\<close>, \<open>Executor_Properties\<close>,
    \<open>Service_Properties\<close>, \<open>Request_Properties\<close>, \<open>Memory_Properties\<close>, \<open>Archive_Properties\<close>, \<open>Broker_Properties\<close>: the properties and their witnesses.

  \<^bold>\<open>State and effects.\<close> Structures are records with the fields of the source. Singletons are
  passed explicitly. The device (files, commands, system parameters, process table) is a parameter:
  a record of functions, about which nothing is assumed. Exceptions (calling an empty
  \<open>std::function\<close>, a wrong cast) are \<open>None\<close> or a flag of the state, and are shown not to occur. The
  thread pool is a function that permutes each level; a theorem over all permutations covers every
  completion order of tasks whose bodies do not interleave.

  \<^bold>\<open>Bounds.\<close> The model has no fuel. Loops end by measures: the graph search by the number of
  registered tasks not yet visited, the execution by the number of remaining tasks, the nesting of
  groups by the constant \<open>NEST_MAX\<close> of the source, readers by what is left of their streams. The
  executor loop is a partial function whose value is shown to exist. Failure counters are natural numbers; they stay
  at most ten, far below the width of the source's type.

  \<^bold>\<open>What is shown.\<close> Of the task framework: run-once and dependency order of whole executions
  (C1), the cause of every failure (C2), exactness of the verification (C3) and of the graph search
  (C4), transparency and consistency of the cache (C5, C6), the outcome of whole requests
  (C7), what its command line accepts (C27), absence of wrong casts (C9), release of data (C10), refusal
  of incomplete graphs (C11). Of the configuration: well-formed chains (C18), permission filtering (C19, C23), parents
  (C20), the tables (C21), a handler (C22). Of the command line: permissions
  (C28), refinement of the option machine (C29), consistency (C30), existing processes (C31), memory
  safety and bounds (C32). Of the executors: every request is answered (C33), streaming and reading at
  once agree (C34), arguments on their way to the service (C35), the leak report (C36), archives of folders (C15) and the compressed output (C17). Of the
  services: the size of the log folder (C37), requests and descriptors in every interleaving (C38), the
  limit on requests and the race that breaks it (C39), the data of the CPU service (C40), the broker in front of it (C8). Of
  the memory library: the screen of a watched process (C12) and its bars (C25), the outcome of the overview (C13), its tables (C14) and
  sums (C16, C26), the two tables of maps (C24).

  \<^bold>\<open>Not modelled.\<close> Locks and preemption inside a task, logging and tracing, the parcels and the transport of the IPC library, the loading of plugins.
\<close>

end
